(* ===== verification/Js_Prelude.thy ===== *)
theory Js_Prelude
  imports Complex_Main "HOL-Library.Word" "HOL-Library.Sublist"
begin

text \<open>
  Shared vocabulary of the development: JavaScript errors as values of a sum type, the
  numbers and strings the sources compute with, and the generic list lemmas the component
  theories rely on.

  A JavaScript string whose code units all come from bytes (or that is an ASCII literal of
  the sources) is a \<^typ>\<open>string\<close>: one \<^typ>\<open>char\<close> per code unit below 256. Strings whose
  units may be any 16-bit value are lists of \<^typ>\<open>16 word\<close>.
\<close>

unbundle bit_operations_syntax

section \<open>Rule collections\<close>

named_theorems bound_rules \<open>index and slice bounds\<close>
named_theorems inv_rules \<open>preservation of component invariants\<close>

section \<open>Results\<close>

text \<open>A thrown \<open>Error\<close> carries its message.\<close>

datatype js_error = Js_Error string | Range_Error

type_synonym 'a result = "js_error + 'a"

text \<open>Sequencing: the exception of the first computation skips the second.\<close>

definition and_then :: "'a result \<Rightarrow> ('a \<Rightarrow> 'b result) \<Rightarrow> 'b result" where
  "and_then r f = (case r of Inl e \<Rightarrow> Inl e | Inr x \<Rightarrow> f x)"

lemma and_then_simps [simp]:
  "and_then (Inl e) f = Inl e"
  "and_then (Inr x) f = f x"
  by (simp_all add: and_then_def)

lemma and_then_Inr_iff: "and_then r f = Inr y \<longleftrightarrow> (\<exists>x. r = Inr x \<and> f x = Inr y)"
  by (cases r) simp_all

text \<open>\<open>if (!c) throw Error(msg)\<close>\<close>

definition require :: "bool \<Rightarrow> string \<Rightarrow> unit result" where
  "require c msg = (if c then Inr () else Inl (Js_Error msg))"

lemma require_Inr [simp]: "require c msg = Inr u \<longleftrightarrow> c"
  by (simp add: require_def)

lemma require_True [simp]: "require True msg = Inr ()"
  by (simp add: require_def)

lemma require_False [simp]: "require False msg = Inl (Js_Error msg)"
  by (simp add: require_def)

section \<open>Numbers\<close>

text \<open>
  The integer-valued numbers the sources handle, with the two special values they test for.
  Arithmetic on \<^term>\<open>Num\<close> values is exact, as it is for doubles up to \<open>2 ^ 53\<close>.
\<close>

datatype jsnum = NaN | Num int | Infinity

text \<open>\<open>Math.min\<close>: \<open>NaN\<close> absorbs.\<close>

fun js_min :: "jsnum \<Rightarrow> jsnum \<Rightarrow> jsnum" where
  "js_min NaN _ = NaN"
| "js_min _ NaN = NaN"
| "js_min Infinity b = b"
| "js_min a Infinity = a"
| "js_min (Num a) (Num b) = Num (min a b)"

text \<open>Every comparison with \<open>NaN\<close> is false.\<close>

fun js_gt0 :: "jsnum \<Rightarrow> bool" where
  "js_gt0 NaN = False"
| "js_gt0 (Num a) = (a > 0)"
| "js_gt0 Infinity = True"

definition js_eq0 :: "jsnum \<Rightarrow> bool" where
  "js_eq0 a = (a = Num 0)"

section \<open>Strings\<close>

definition code :: "char \<Rightarrow> nat" where
  "code c = of_char c"

text \<open>The white space and line terminators below code unit 256 (\<open>\s\<close>, \<open>trim\<close>).\<close>

definition js_space :: "char \<Rightarrow> bool" where
  "js_space c = (code c \<in> {9, 10, 11, 12, 13, 32, 160})"

definition js_digit :: "char \<Rightarrow> bool" where
  "js_digit c = (48 \<le> code c \<and> code c \<le> 57)"

definition js_trim_start :: "string \<Rightarrow> string" where
  "js_trim_start s = dropWhile js_space s"

definition js_trim :: "string \<Rightarrow> string" where
  "js_trim s = rev (dropWhile js_space (rev (dropWhile js_space s)))"

text \<open>
  \<open>toLowerCase\<close> on code units below 256: ASCII capitals and the capitals of the
  Latin-1 block (192 to 222 but for the multiplication sign 215).
\<close>

definition js_lower_char :: "char \<Rightarrow> char" where
  "js_lower_char c =
     (if (65 \<le> code c \<and> code c \<le> 90) \<or> (192 \<le> code c \<and> code c \<le> 222 \<and> code c \<noteq> 215)
      then char_of (code c + 32) else c)"

definition js_lower :: "string \<Rightarrow> string" where
  "js_lower s = map js_lower_char s"

text \<open>\<open>s.includes(t)\<close> and \<open>s.indexOf(t)\<close>.\<close>

fun js_index_of :: "'a list \<Rightarrow> 'a list \<Rightarrow> nat option" where
  "js_index_of [] t = (if t = [] then Some 0 else None)"
| "js_index_of (c # s) t =
     (if prefix t (c # s) then Some 0 else map_option Suc (js_index_of s t))"

definition js_includes :: "'a list \<Rightarrow> 'a list \<Rightarrow> bool" where
  "js_includes s t = (js_index_of s t \<noteq> None)"

text \<open>\<open>s.split(c)\<close> for a one-unit separator: never empty.\<close>

fun js_split :: "'a \<Rightarrow> 'a list \<Rightarrow> 'a list list" where
  "js_split c [] = [[]]"
| "js_split c (x # s) =
     (if x = c then [] # js_split c s
      else (case js_split c s of p # ps \<Rightarrow> (x # p) # ps | [] \<Rightarrow> [[x]]))"

text \<open>\<open>parts.join(sep)\<close>.\<close>

fun js_join :: "'a list \<Rightarrow> 'a list list \<Rightarrow> 'a list" where
  "js_join sep [] = []"
| "js_join sep [p] = p"
| "js_join sep (p # ps) = p @ sep @ js_join sep ps"

lemma js_split_nonempty [simp]: "js_split c s \<noteq> []"
  by (induction s) (auto split: list.splits)

lemma js_split_no_sep: "p \<in> set (js_split c s) \<Longrightarrow> c \<notin> set p"
proof (induction s arbitrary: p)
  case Nil
  then show ?case by simp
next
  case (Cons x s)
  then show ?case
    by (cases "js_split c s") (fastforce split: if_splits)+
qed

lemma js_join_split: "js_join [c] (js_split c s) = s"
proof (induction s)
  case Nil
  then show ?case by simp
next
  case (Cons x s)
  obtain p ps where ps: "js_split c s = p # ps"
    using js_split_nonempty [of c s] by (cases "js_split c s") auto
  with Cons show ?case by (cases ps) auto
qed

lemma js_split_id: "c \<notin> set s \<Longrightarrow> js_split c s = [s]"
  by (induction s) auto

lemma js_split_append_sep:
  "c \<notin> set s \<Longrightarrow> js_split c (s @ c # t) = s # js_split c t"
  by (induction s) auto

lemma js_split_join:
  "ps \<noteq> [] \<Longrightarrow> (\<And>p. p \<in> set ps \<Longrightarrow> c \<notin> set p) \<Longrightarrow> js_split c (js_join [c] ps) = ps"
proof (induction "[c]" ps rule: js_join.induct)
  case 1
  then show ?case by simp
next
  case (2 p)
  then show ?case by (simp add: js_split_id)
next
  case (3 p q ps)
  then show ?case by (simp add: js_split_append_sep)
qed

section \<open>parseInt\<close>

text \<open>The value of a digit of the given radix, if the character is one.\<close>

definition digit_value :: "nat \<Rightarrow> char \<Rightarrow> nat option" where
  "digit_value radix c =
     (let n = code c;
          v = (if 48 \<le> n \<and> n \<le> 57 then Some (n - 48)
               else if 65 \<le> n \<and> n \<le> 90 then Some (n - 55)
               else if 97 \<le> n \<and> n \<le> 122 then Some (n - 87) else None)
      in case v of Some d \<Rightarrow> if d < radix then Some d else None | None \<Rightarrow> None)"

fun digits_value :: "nat \<Rightarrow> nat \<Rightarrow> string \<Rightarrow> nat" where
  "digits_value radix acc [] = acc"
| "digits_value radix acc (c # s) =
     (case digit_value radix c of
        Some d \<Rightarrow> digits_value radix (acc * radix + d) s | None \<Rightarrow> acc)"

text \<open>
  \<open>parseInt(s, radix)\<close>: leading white space, a sign, the \<open>0x\<close> prefix of radix 16, then
  the longest run of digits; no digit at all is \<open>NaN\<close>.
\<close>

definition parse_int :: "string \<Rightarrow> nat \<Rightarrow> jsnum" where
  "parse_int str radix =
     (let s = js_trim_start str;
          neg = (s \<noteq> [] \<and> hd s = CHR ''-'');
          s = (if s \<noteq> [] \<and> (hd s = CHR ''-'' \<or> hd s = CHR ''+'') then tl s else s);
          s = (if radix = 16 \<and> (prefix ''0x'' s \<or> prefix ''0X'' s) then drop 2 s else s)
      in if s = [] \<or> digit_value radix (hd s) = None then NaN
         else Num (if neg then - int (digits_value radix 0 s)
                   else int (digits_value radix 0 s)))"

lemma parse_int_not_Infinity [simp]: "parse_int s r \<noteq> Infinity"
  by (simp add: parse_int_def Let_def)

end
