(* ===== verification/Wasm_Memory.thy ===== *)
theory Wasm_Memory
  imports Js_Prelude
begin

text \<open>
  The simulated linear memory of \<open>wasm-polyfill.js\<close>: the growable buffer behind
  \<open>memory\<close>, the bump allocator \<open>walloc\<close> and \<open>writeStr\<close>. The allocator's contract
  is the locale \<open>region_allocator\<close>; it is interpreted on \<open>walloc\<close>.
\<close>

section \<open>State\<close>

text \<open>
  \<open>memBuf\<close>, \<open>memU8\<close> and \<open>memory.buffer\<close> always denote the same buffer: its
  length and its bytes. \<open>heapPtr\<close> is the allocator's only other state.
\<close>

record wmem =
  byteLength :: int
  bytes :: "int \<Rightarrow> 8 word"
  heapPtr :: int

definition initial_mem :: int where
  "initial_mem = 1024 * 1024"

definition wmem_init :: wmem where
  "wmem_init = \<lparr>byteLength = initial_mem, bytes = (\<lambda>_. 0), heapPtr = 4096\<rparr>"

section \<open>Operations\<close>

text \<open>\<open>memory.grow\<close>: a larger zeroed buffer that keeps the old bytes.\<close>

definition grow :: "int \<Rightarrow> wmem \<Rightarrow> wmem" where
  "grow pages m =
     m\<lparr>byteLength := byteLength m + pages * 65536,
       bytes := (\<lambda>a. if 0 \<le> a \<and> a < byteLength m then bytes m a else 0)\<rparr>"

text \<open>\<open>(size + 7) & ~7\<close>: the operands of \<open>&\<close> are converted to signed 32-bit integers.\<close>

definition align8 :: "int \<Rightarrow> int" where
  "align8 sz = sint ((word_of_int (sz + 7) :: 32 word) AND NOT 7)"

definition ceil_div :: "int \<Rightarrow> int \<Rightarrow> int" where
  "ceil_div a b = - ((- a) div b)"

definition walloc :: "int \<Rightarrow> wmem \<Rightarrow> int \<times> wmem" where
  "walloc sz m =
     (let aligned = align8 sz;
          m = (if heapPtr m + aligned > byteLength m
               then grow (ceil_div aligned 65536 + 1) m else m);
          ptr = heapPtr m
      in (ptr, m\<lparr>heapPtr := heapPtr m + aligned\<rparr>))"

text \<open>A store through a \<open>Uint8Array\<close>: out of range it is ignored.\<close>

definition u8_set :: "int \<Rightarrow> 8 word \<Rightarrow> wmem \<Rightarrow> wmem" where
  "u8_set a v m =
     (if 0 \<le> a \<and> a < byteLength m then m\<lparr>bytes := (bytes m)(a := v)\<rparr> else m)"

fun write_chars :: "int \<Rightarrow> string \<Rightarrow> wmem \<Rightarrow> wmem" where
  "write_chars a [] m = m"
| "write_chars a (c # s) m = write_chars (a + 1) s (u8_set a (of_nat (code c)) m)"

definition writeStr :: "string \<Rightarrow> wmem \<Rightarrow> int \<times> wmem" where
  "writeStr str m =
     (let (ptr, m) = walloc (int (length str) + 1) m;
          m = write_chars ptr str m;
          m = u8_set (ptr + int (length str)) 0 m
      in (ptr, m))"

text \<open>A \<open>Uint8Array\<close> view of the buffer; creating one out of range throws.\<close>

definition u8_view :: "int \<Rightarrow> int \<Rightarrow> wmem \<Rightarrow> 8 word list result" where
  "u8_view ptr len m =
     (if 0 \<le> ptr \<and> 0 \<le> len \<and> ptr + len \<le> byteLength m
      then Inr (map (\<lambda>k. bytes m (ptr + int k)) [0..<nat len])
      else Inl Range_Error)"

text \<open>Invariant: the heap pointer is inside the buffer, past the null page and aligned.\<close>

definition wmem_ok :: "wmem \<Rightarrow> bool" where
  "wmem_ok m = (4096 \<le> heapPtr m \<and> heapPtr m \<le> byteLength m \<and> 8 dvd heapPtr m)"

text \<open>The request sizes for which \<open>size + 7\<close> does not overflow 32 bits.\<close>

definition size_ok :: "int \<Rightarrow> bool" where
  "size_ok sz = (0 \<le> sz \<and> sz + 7 < 2 ^ 31)"

section \<open>Alignment\<close>

lemma and_not_7_uint:
  assumes "0 \<le> x" "x < 2 ^ 31"
  shows "uint ((word_of_int x :: 32 word) AND NOT 7) = x div 8 * 8"
proof -
  have m7: "(7 :: 32 word) = mask 3" by (simp add: mask_eq_exp_minus_1)
  have u: "uint (word_of_int x :: 32 word) = x"
    using assms by (simp add: uint_word_of_int)
  have "(word_of_int x :: 32 word) AND NOT 7 = push_bit 3 (drop_bit 3 (word_of_int x))"
    unfolding m7 by (rule bit_word_eqI) (auto simp: bit_simps)
  moreover have "uint (push_bit 3 (drop_bit 3 (word_of_int x :: 32 word))) = x div 8 * 8"
    using assms
    by (simp only: unsigned_push_bit_eq unsigned_drop_bit_eq u)
      (simp add: drop_bit_eq_div push_bit_eq_mult take_bit_int_eq_self)
  ultimately show ?thesis by simp
qed

lemma align8_eq: "size_ok sz \<Longrightarrow> align8 sz = (sz + 7) div 8 * 8"
proof -
  assume ok: "size_ok sz"
  have "(sz + 7) div 8 * 8 < 2 ^ 31" "0 \<le> (sz + 7) div 8 * 8"
    using ok by (auto simp: size_ok_def)
  then show ?thesis
    unfolding align8_def sint_uint using and_not_7_uint [of "sz + 7"] ok
    by (simp add: signed_take_bit_int_eq_self size_ok_def del: of_int_add)
qed

lemma align8_bounds [bound_rules]:
  assumes "size_ok sz"
  shows "sz \<le> align8 sz" "align8 sz < sz + 8" "8 dvd align8 sz" "0 \<le> align8 sz"
  using assms by (auto simp: align8_eq size_ok_def)

lemma ceil_div_bound: "0 < b \<Longrightarrow> a \<le> ceil_div a b * b"
  unfolding ceil_div_def
  by (smt (verit, best) minus_mod_eq_div_mult mult_minus_left pos_mod_sign)

section \<open>The allocator contract\<close>

text \<open>A client that allocates a list of sizes gets a list of regions \<open>(start, size)\<close>.\<close>

fun alloc_seq :: "(int \<Rightarrow> 'm \<Rightarrow> int \<times> 'm) \<Rightarrow> int list \<Rightarrow> 'm \<Rightarrow> (int \<times> int) list \<times> 'm" where
  "alloc_seq alloc [] m = ([], m)"
| "alloc_seq alloc (n # ns) m =
     (let (p, m') = alloc n m; (rs, m'') = alloc_seq alloc ns m' in ((p, n) # rs, m''))"

definition before :: "int \<times> int \<Rightarrow> int \<times> int \<Rightarrow> bool" where
  "before r q = (fst r + snd r \<le> fst q)"

locale region_allocator =
  fixes alloc :: "int \<Rightarrow> 'm \<Rightarrow> int \<times> 'm"
    and top limit :: "'m \<Rightarrow> int"
    and peek :: "'m \<Rightarrow> int \<Rightarrow> 'b"
    and ok :: "'m \<Rightarrow> bool"
    and valid :: "int \<Rightarrow> bool"
  assumes alloc_ok: "ok m \<Longrightarrow> valid n \<Longrightarrow> alloc n m = (p, m') \<Longrightarrow> ok m'"
    and alloc_fresh: "ok m \<Longrightarrow> valid n \<Longrightarrow> alloc n m = (p, m') \<Longrightarrow> p = top m \<and> p + n \<le> top m'"
    and alloc_keeps: "ok m \<Longrightarrow> valid n \<Longrightarrow> alloc n m = (p, m') \<Longrightarrow>
          limit m \<le> limit m' \<and> (0 \<le> a \<and> a < limit m \<longrightarrow> peek m' a = peek m a)"
    and top_limit: "ok m \<Longrightarrow> 0 \<le> top m \<and> top m \<le> limit m"
    and valid_nonneg: "valid n \<Longrightarrow> 0 \<le> n"
begin

lemma alloc_seq_spec:
  assumes "ok m" and "list_all valid ns" and "alloc_seq alloc ns m = (rs, m')"
  shows "ok m' \<and> map snd rs = ns \<and> sorted_wrt before rs
       \<and> (\<forall>r\<in>set rs. top m \<le> fst r \<and> fst r + snd r \<le> top m')
       \<and> limit m \<le> limit m' \<and> top m \<le> top m'
       \<and> (\<forall>a. 0 \<le> a \<and> a < limit m \<longrightarrow> peek m' a = peek m a)"
  using assms
proof (induction ns arbitrary: m rs)
  case Nil
  then show ?case by simp
next
  case (Cons n ns)
  obtain p m1 where a: "alloc n m = (p, m1)" by fastforce
  obtain rs1 where s: "alloc_seq alloc ns m1 = (rs1, m')" and rs: "rs = (p, n) # rs1"
    using Cons.prems(3) a by (auto split: prod.splits)
  have v: "valid n" using Cons.prems(2) by simp
  have f: "p = top m" "p + n \<le> top m1" "limit m \<le> limit m1"
    and k: "\<And>a. 0 \<le> a \<Longrightarrow> a < limit m \<Longrightarrow> peek m1 a = peek m a"
    using alloc_fresh [OF Cons.prems(1) v a] alloc_keeps [OF Cons.prems(1) v a] by blast+
  have IH: "ok m' \<and> map snd rs1 = ns \<and> sorted_wrt before rs1
       \<and> (\<forall>r\<in>set rs1. top m1 \<le> fst r \<and> fst r + snd r \<le> top m')
       \<and> limit m1 \<le> limit m' \<and> top m1 \<le> top m'
       \<and> (\<forall>a. 0 \<le> a \<and> a < limit m1 \<longrightarrow> peek m' a = peek m1 a)"
    using Cons.IH [OF alloc_ok [OF Cons.prems(1) v a] _ s] Cons.prems(2) by simp
  have n: "0 \<le> n" using v by (rule valid_nonneg)
  have "peek m' a = peek m a" if "0 \<le> a" "a < limit m" for a
    using that IH f k by simp
  moreover have "\<forall>r\<in>set rs. top m \<le> fst r \<and> fst r + snd r \<le> top m'"
    unfolding rs using IH f n by fastforce
  moreover have "sorted_wrt before rs"
    unfolding rs using IH f by (fastforce simp: before_def)
  ultimately show ?case using IH f n by (simp add: rs)
qed

end

lemma grow_keeps [simp]: "0 \<le> a \<Longrightarrow> a < byteLength m \<Longrightarrow> bytes (grow n m) a = bytes m a"
  by (simp add: grow_def)

lemma grow_fields [simp]:
  "heapPtr (grow n m) = heapPtr m" "byteLength (grow n m) = byteLength m + n * 65536"
  by (simp_all add: grow_def)

text \<open>Growing by the pages \<open>walloc\<close> asks for always makes room.\<close>

lemma walloc_grow_enough:
  assumes "wmem_ok m" "0 \<le> n"
  shows "heapPtr m + n \<le> byteLength m + (ceil_div n 65536 + 1) * 65536"
  using ceil_div_bound [of 65536 n] assms by (simp add: wmem_ok_def algebra_simps)

lemma walloc_ok [inv_rules]:
  assumes "wmem_ok m" "size_ok sz" "walloc sz m = (p, m')"
  shows "wmem_ok m'"
  using assms align8_bounds [OF assms(2)] walloc_grow_enough [OF assms(1), of "align8 sz"]
  by (auto simp: walloc_def wmem_ok_def Let_def split: if_splits)

lemma walloc_fresh:
  assumes "wmem_ok m" "size_ok sz" "walloc sz m = (p, m')"
  shows "p = heapPtr m" "p + sz \<le> heapPtr m'" "heapPtr m' < p + sz + 8" "8 dvd p"
  using assms align8_bounds [OF assms(2)]
  by (auto simp: walloc_def Let_def wmem_ok_def split: if_splits)

lemma walloc_keeps:
  assumes "size_ok sz" "walloc sz m = (p, m')"
  shows "byteLength m \<le> byteLength m'"
    and "0 \<le> a \<Longrightarrow> a < byteLength m \<Longrightarrow> bytes m' a = bytes m a"
proof -
  have "0 \<le> ceil_div (align8 sz) 65536"
    using align8_bounds(4) [OF assms(1)] by (simp add: ceil_div_def)
  then show "byteLength m \<le> byteLength m'"
    using assms(2) by (auto simp: walloc_def Let_def split: if_splits)
  show "0 \<le> a \<Longrightarrow> a < byteLength m \<Longrightarrow> bytes m' a = bytes m a"
    using assms(2) by (auto simp: walloc_def Let_def split: if_splits)
qed

interpretation wa: region_allocator walloc heapPtr byteLength bytes wmem_ok size_ok
proof (unfold_locales, goal_cases)
  case 1
  then show ?case by (rule walloc_ok)
next
  case 2
  then show ?case by (simp add: walloc_fresh)
next
  case 3
  then show ?case using walloc_keeps by blast
next
  case 4
  then show ?case by (simp add: wmem_ok_def)
next
  case 5
  then show ?case by (simp add: size_ok_def)
qed

section \<open>Properties\<close>

text \<open>C1. Successive \<open>walloc\<close> requests (\<open>wasm-polyfill.js\<close>) return regions that are inside the
  buffer, past everything allocated before, pairwise disjoint and in allocation order; growing
  the buffer on the way keeps every byte, and the allocator invariant is preserved.\<close>

theorem walloc_regions_disjoint:
  assumes "wmem_ok m" and "list_all size_ok ns"
    and "alloc_seq walloc ns m = (rs, m')"
  shows "wmem_ok m' \<and> map snd rs = ns \<and> sorted_wrt before rs
       \<and> (\<forall>r\<in>set rs. heapPtr m \<le> fst r \<and> fst r + snd r \<le> byteLength m')
       \<and> (\<forall>a. 0 \<le> a \<and> a < byteLength m \<longrightarrow> bytes m' a = bytes m a)"
  using wa.alloc_seq_spec [OF assms] wa.top_limit [of m'] by fastforce

theorem walloc_regions_disjoint_witness:
  "\<exists>rs m'. alloc_seq walloc [5, 8, 2000000] wmem_init = (rs, m') \<and> wmem_ok m'
     \<and> map snd rs = [5, 8, 2000000] \<and> sorted_wrt before rs"
proof -
  have ok: "wmem_ok wmem_init" by (simp add: wmem_ok_def wmem_init_def initial_mem_def)
  have sz: "list_all size_ok [5, 8, 2000000]" by (simp add: size_ok_def)
  obtain rs m' where r: "alloc_seq walloc [5, 8, 2000000] wmem_init = (rs, m')"
    by (rule prod.exhaust)
  show ?thesis
    by (intro exI [of _ rs] exI [of _ m'] conjI r)
      (simp_all only: walloc_regions_disjoint [OF ok sz r])
qed

text \<open>The bound on the request is needed: at \<open>2 ^ 31\<close> the mask turns negative and the bump
  pointer moves backwards, over regions already handed out.\<close>

lemma walloc_wraps: "heapPtr (snd (walloc (2 ^ 31) wmem_init)) < 0"
proof -
  have "align8 (2 ^ 31) = - (2 ^ 31)" by (simp add: align8_def)
  then show ?thesis by (simp add: walloc_def wmem_init_def initial_mem_def)
qed

section \<open>Strings in memory\<close>

lemma u8_set_fields [simp]:
  "byteLength (u8_set a v m) = byteLength m" "heapPtr (u8_set a v m) = heapPtr m"
  by (simp_all add: u8_set_def)

lemma u8_set_bytes: "0 \<le> a \<Longrightarrow> a < byteLength m \<Longrightarrow> bytes (u8_set a v m) = (bytes m)(a := v)"
  by (simp add: u8_set_def)

lemma u8_set_other: "b \<noteq> a \<Longrightarrow> bytes (u8_set a v m) b = bytes m b"
  by (simp add: u8_set_def)

lemma write_chars_fields [simp]:
  "byteLength (write_chars a s m) = byteLength m" "heapPtr (write_chars a s m) = heapPtr m"
  by (induction s arbitrary: a m) simp_all

lemma write_chars_other:
  "b < a \<or> a + int (length s) \<le> b \<Longrightarrow> bytes (write_chars a s m) b = bytes m b"
  by (induction s arbitrary: a m) (auto simp: u8_set_other)

lemma write_chars_read:
  "0 \<le> a \<Longrightarrow> a + int (length s) \<le> byteLength m \<Longrightarrow> k < length s \<Longrightarrow>
   bytes (write_chars a s m) (a + int k) = of_nat (code (s ! k))"
proof (induction s arbitrary: a m k)
  case Nil
  then show ?case by simp
next
  case (Cons c s)
  show ?case
  proof (cases k)
    case 0
    with Cons.prems show ?thesis by (simp add: write_chars_other u8_set_bytes)
  next
    case (Suc j)
    have "bytes (write_chars (a + 1) s (u8_set a (of_nat (code c)) m)) (a + 1 + int j)
        = of_nat (code (s ! j))"
      using Cons.prems Suc by (intro Cons.IH) simp_all
    with Suc show ?thesis by (simp add: algebra_simps)
  qed
qed

text \<open>\<open>writeStr\<close> stores the characters and a terminating zero at a fresh aligned address: reading
  the view back gives exactly the C string, and no byte allocated earlier changes.\<close>

theorem writeStr_reads_back:
  assumes "wmem_ok m" "size_ok (int (length str) + 1)" "writeStr str m = (ptr, m')"
  shows "u8_view ptr (int (length str) + 1) m' = Inr (map (\<lambda>c. of_nat (code c)) str @ [0])
       \<and> wmem_ok m' \<and> 8 dvd ptr \<and> (\<forall>a. 0 \<le> a \<and> a < heapPtr m \<longrightarrow> bytes m' a = bytes m a)"
proof -
  let ?n = "int (length str)"
  obtain m1 where w: "walloc (?n + 1) m = (ptr, m1)"
    and m': "m' = u8_set (ptr + ?n) 0 (write_chars ptr str m1)"
    using assms(3) by (auto simp: writeStr_def split: prod.splits)
  note f = walloc_fresh [OF assms(1,2) w] and ok = walloc_ok [OF assms(1,2) w]
  have lim: "0 \<le> ptr" "ptr + ?n < byteLength m1"
    using f ok assms(1) by (auto simp: wmem_ok_def)
  have old: "bytes m' a = bytes m a" if "0 \<le> a" "a < heapPtr m" for a
    using that f walloc_keeps(2) [OF assms(2) w, of a] assms(1) unfolding m'
    by (auto simp: u8_set_other write_chars_other wmem_ok_def)
  have rd: "bytes m' (ptr + int k) = (map (\<lambda>c. of_nat (code c)) str @ [0]) ! k"
    if "k < length str + 1" for k
    using that lim unfolding m'
    by (cases "k = length str") (auto simp: u8_set_bytes u8_set_other write_chars_read nth_append)
  have len: "nat (?n + 1) = length str + 1" by simp
  have "u8_view ptr (?n + 1) m' = Inr (map (\<lambda>k. bytes m' (ptr + int k)) [0..<length str + 1])"
    using lim by (simp add: u8_view_def m' len)
  also have "\<dots> = Inr (map (\<lambda>c. of_nat (code c)) str @ [0])"
    by (rule arg_cong [where f = Inr], rule nth_equalityI) (auto simp: rd simp del: upt_Suc)
  finally show ?thesis using old ok f(4) by (simp add: m' wmem_ok_def)
qed

theorem writeStr_reads_back_witness:
  "\<exists>ptr m'. writeStr ''OK'' wmem_init = (ptr, m') \<and> u8_view ptr 3 m' = Inr [79, 75, 0]"
proof -
  have ok: "wmem_ok wmem_init" by (simp add: wmem_ok_def wmem_init_def initial_mem_def)
  have sz: "size_ok (int (length ''OK'') + 1)" by (simp add: size_ok_def)
  obtain ptr m' where w: "writeStr ''OK'' wmem_init = (ptr, m')" by (rule prod.exhaust)
  show ?thesis using writeStr_reads_back [OF ok sz w] w by (simp add: code_def)
qed

end
