(* ===== verification/Llhttp.thy ===== *)
theory Llhttp
  imports Wasm_Memory
begin

text \<open>
  The HTTP response parser of \<open>app/RootfsPatch.bundle/files/lib/wasm-polyfill.js\<close>: the parser
  objects, the byte scanners, one definition per \<open>case\<close> of the \<open>llhttp_execute\<close> switch, the
  loop around it, and the exported entry points over the table of parsers.

  The callbacks of the import object \<open>env\<close> are a parameter: a function from the calls made so
  far and the present call to the returned code, or \<open>None\<close> when the call throws (the callback
  is missing or raises). The calls themselves are recorded in order. A callback that re-enters
  the parser is not modelled.
\<close>

section \<open>Parser state\<close>

text \<open>The property \<open>errorReasonPtr\<close> is absent at first; 0 stands for that, since the code only
  tests whether it is set.\<close>

datatype pstate =
    S_START | S_RES_H | S_RES_LINE | S_STATUS | S_HEADER_FIELD | S_HEADER_VALUE
  | S_HEADERS_DONE | S_BODY_IDENTITY | S_BODY_CHUNKED_SIZE | S_BODY_CHUNKED_DATA
  | S_BODY_CHUNKED_END | S_COMPLETE | S_DEAD | S_PAUSED

abbreviation "OK \<equiv> (0 :: int)"
abbreviation "PAUSED \<equiv> (21 :: int)"
abbreviation "PAUSED_UPGRADE \<equiv> (22 :: int)"

record parser =
  ptype :: int
  state :: pstate
  statusCode :: int
  upgrade :: bool
  shouldKeepAlive :: bool
  contentLength :: jsnum
  chunked :: bool
  remaining :: jsnum
  chunkSize :: jsnum
  errorReason :: int
  errorPos :: int
  paused :: bool
  errorReasonPtr :: int

definition new_parser :: "int \<Rightarrow> parser" where
  "new_parser type =
     \<lparr>ptype = type, state = S_START, statusCode = 0, upgrade = False, shouldKeepAlive = True,
      contentLength = Num (-1), chunked = False, remaining = Num 0, chunkSize = Num 0,
      errorReason = 0, errorPos = 0, paused = False, errorReasonPtr = 0\<rparr>"

section \<open>Callbacks\<close>

datatype cb =
    On_message_begin
  | On_status int int
  | On_header_field int int
  | On_header_value int int
  | On_headers_complete int int int
  | On_body int int
  | On_message_complete

type_synonym call = "int \<times> cb"
type_synonym trace = "call list"
type_synonym callbacks = "trace \<Rightarrow> call \<Rightarrow> int option"

text \<open>What one execution works on: the callbacks, the parser's pointer and the input view.\<close>

record ctx =
  env :: callbacks
  ptr :: int
  bufPtr :: int
  buf :: "8 word list"

abbreviation bufLen :: "ctx \<Rightarrow> nat" where
  "bufLen c \<equiv> length (buf c)"

datatype outcome =
    Continue parser nat trace
  | Return int parser trace
  | Throw parser trace

definition call :: "ctx \<Rightarrow> cb \<Rightarrow> parser \<Rightarrow> trace \<Rightarrow> (int \<Rightarrow> trace \<Rightarrow> outcome) \<Rightarrow> outcome" where
  "call c e p tr k =
     (let tr' = tr @ [(ptr c, e)]
      in case env c tr (ptr c, e) of None \<Rightarrow> Throw p tr' | Some rc \<Rightarrow> k rc tr')"

text \<open>\<open>p.errorPos = bufPtr + i; return rc\<close>\<close>

definition return_at :: "ctx \<Rightarrow> int \<Rightarrow> parser \<Rightarrow> nat \<Rightarrow> trace \<Rightarrow> outcome" where
  "return_at c rc p i tr = Return rc (p\<lparr>errorPos := bufPtr c + int i\<rparr>) tr"

section \<open>Scanning\<close>

text \<open>The result \<open>-1\<close> of the two scanners is \<open>None\<close>.\<close>

function findCRLF :: "8 word list \<Rightarrow> nat \<Rightarrow> nat \<Rightarrow> nat option" where
  "findCRLF data j to =
     (if j + 1 < to
      then if data ! j = 0x0d \<and> data ! (j + 1) = 0x0a then Some j else findCRLF data (j + 1) to
      else None)"
  by pat_completeness auto
termination
  by (relation "measure (\<lambda>(data, j, to). to - j)") auto

function findByte :: "8 word list \<Rightarrow> 8 word \<Rightarrow> nat \<Rightarrow> nat \<Rightarrow> nat option" where
  "findByte data b j to =
     (if j < to then if data ! j = b then Some j else findByte data b (j + 1) to else None)"
  by pat_completeness auto
termination
  by (relation "measure (\<lambda>(data, b, j, to). to - j)") auto

function skip_spaces :: "8 word list \<Rightarrow> nat \<Rightarrow> nat" where
  "skip_spaces data i =
     (if i < length data \<and> data ! i = 0x20 then skip_spaces data (i + 1) else i)"
  by pat_completeness auto
termination
  by (relation "measure (\<lambda>(data, i). length data - i)") auto

declare findCRLF.simps [simp del] findByte.simps [simp del] skip_spaces.simps [simp del]

text \<open>
  \<open>String.fromCharCode(data[j])\<close>: reading a typed array out of range (also at \<open>-1\<close>) gives
  \<open>undefined\<close>, whose character code is 0.
\<close>

definition ascii_at :: "8 word list \<Rightarrow> int \<Rightarrow> char" where
  "ascii_at data j =
     (if 0 \<le> j \<and> j < int (length data) then char_of (unat (data ! nat j)) else CHR 0x00)"

definition decodeAscii :: "8 word list \<Rightarrow> int \<Rightarrow> int \<Rightarrow> string" where
  "decodeAscii data from to = map (ascii_at data) [from..to - 1]"

text \<open>
  \<open>line.match(/^HTTP\/\d\.\d\s+(\d{3})\s*(.*)/)\<close>: the two groups. White space and digits are
  disjoint and \<open>.*\<close> may be empty, so the greedy reading never backtracks; \<open>.\<close> stops at a
  line terminator.
\<close>

definition match_status_line :: "string \<Rightarrow> (string \<times> string) option" where
  "match_status_line line =
     (if prefix ''HTTP/'' line then
        (case drop 5 line of
           d1 # dot # d2 # sp # rest \<Rightarrow>
             if js_digit d1 \<and> dot = CHR ''.'' \<and> js_digit d2 \<and> js_space sp then
               (case dropWhile js_space rest of
                  a # b # e # rest' \<Rightarrow>
                    if js_digit a \<and> js_digit b \<and> js_digit e
                    then Some ([a, b, e], takeWhile (\<lambda>x. code x \<notin> {10, 13})
                                            (dropWhile js_space rest'))
                    else None
                | _ \<Rightarrow> None)
             else None
         | _ \<Rightarrow> None)
      else None)"

text \<open>\<open>s.replace(/;.*/, "")\<close>: from the first semicolon to the end of its line.\<close>

definition drop_extension :: "string \<Rightarrow> string" where
  "drop_extension s =
     takeWhile (\<lambda>x. x \<noteq> CHR '';'') s
     @ dropWhile (\<lambda>x. code x \<notin> {10, 13}) (dropWhile (\<lambda>x. x \<noteq> CHR '';'') s)"

section \<open>The cases of the switch\<close>

type_synonym step = "ctx \<Rightarrow> parser \<Rightarrow> nat \<Rightarrow> trace \<Rightarrow> outcome"

definition step_start :: step where
  "step_start c p i tr =
     (if buf c ! i = 0x48 then Continue (p\<lparr>state := S_RES_H\<rparr>) i tr
      else Continue p (i + 1) tr)"

definition step_res_h :: step where
  "step_res_h c p i tr =
     (case findCRLF (buf c) i (bufLen c) of
        None \<Rightarrow> return_at c OK p i tr
      | Some lineEnd \<Rightarrow>
          let line = decodeAscii (buf c) (int i - 1) (int lineEnd);
              finish = (\<lambda>p tr. Continue
                (p\<lparr>state := S_HEADER_FIELD, chunked := False, contentLength := Num (-1),
                   upgrade := False, shouldKeepAlive := True\<rparr>) (lineEnd + 2) tr)
          in (case match_status_line line of
               None \<Rightarrow> finish p tr
             | Some (m1, m2) \<Rightarrow>
                 let p = p\<lparr>statusCode := int (digits_value 10 0 m1)\<rparr>
                 in call c On_message_begin p tr (\<lambda>rc tr.
                      if rc \<noteq> 0 then return_at c rc p i tr
                      else if length m2 > 0 then
                        call c (On_status
                            (bufPtr c + int i - 1
                              + (case js_index_of line m1 of Some k \<Rightarrow> int k | None \<Rightarrow> - 1)
                              + int (length m1) + 1)
                            (int (length m2))) p tr (\<lambda>rc tr.
                          if rc \<noteq> 0 then return_at c rc p i tr else finish p tr)
                      else finish p tr)))"

text \<open>The bookkeeping of one complete header line.\<close>

definition track_header :: "string \<Rightarrow> string \<Rightarrow> parser \<Rightarrow> parser" where
  "track_header fieldName val p =
     (let p = (if fieldName = ''transfer-encoding'' \<and> js_includes val ''chunked''
               then p\<lparr>chunked := True\<rparr> else p);
          p = (if fieldName = ''content-length''
               then p\<lparr>contentLength := parse_int val 10\<rparr> else p);
          p = (if fieldName = ''connection'' \<and> val = ''close''
               then p\<lparr>shouldKeepAlive := False\<rparr> else p)
      in if fieldName = ''upgrade'' then p\<lparr>upgrade := True\<rparr> else p)"

text \<open>The second half of the header case, from the first byte of the value on.\<close>

definition header_value :: "string \<Rightarrow> step" where
  "header_value fieldName c p i tr =
     (case findCRLF (buf c) i (bufLen c) of
        None \<Rightarrow> return_at c OK p i tr
      | Some valEnd \<Rightarrow>
          call c (On_header_value (bufPtr c + int i) (int valEnd - int i)) p tr (\<lambda>rc2 tr.
            if rc2 \<noteq> 0 then return_at c rc2 p i tr
            else Continue
              (track_header fieldName
                (js_trim (js_lower (decodeAscii (buf c) (int i) (int valEnd)))) p)
              (valEnd + 2) tr))"

definition step_header_field :: step where
  "step_header_field c p i tr =
     (if buf c ! i = 0x0d \<and> i + 1 < bufLen c \<and> buf c ! (i + 1) = 0x0a
      then Continue (p\<lparr>state := S_HEADERS_DONE\<rparr>) (i + 2) tr
      else case findByte (buf c) 0x3a i (bufLen c) of
        None \<Rightarrow> return_at c OK p i tr
      | Some colonIdx \<Rightarrow>
          call c (On_header_field (bufPtr c + int i) (int colonIdx - int i)) p tr (\<lambda>rc tr.
            if rc \<noteq> 0 then return_at c rc p i tr
            else header_value (js_lower (decodeAscii (buf c) (int i) (int colonIdx))) c p
                   (skip_spaces (buf c) (colonIdx + 1)) tr))"

definition step_headers_done :: step where
  "step_headers_done c p i tr =
     call c (On_headers_complete (statusCode p) (if upgrade p then 1 else 0)
              (if shouldKeepAlive p then 1 else 0)) p tr (\<lambda>rc tr.
       if rc = 1 then Continue (p\<lparr>state := S_COMPLETE\<rparr>) i tr
       else if rc = 2 then return_at c PAUSED_UPGRADE (p\<lparr>upgrade := True\<rparr>) i tr
       else if rc \<noteq> 0 then return_at c rc p i tr
       else if upgrade p then return_at c PAUSED_UPGRADE p i tr
       else if chunked p then Continue (p\<lparr>state := S_BODY_CHUNKED_SIZE\<rparr>) i tr
       else if js_gt0 (contentLength p)
         then Continue (p\<lparr>state := S_BODY_IDENTITY, remaining := contentLength p\<rparr>) i tr
       else if js_eq0 (contentLength p) then Continue (p\<lparr>state := S_COMPLETE\<rparr>) i tr
       else if statusCode p = 204 \<or> statusCode p = 304
               \<or> (statusCode p \<ge> 100 \<and> statusCode p < 200)
         then Continue (p\<lparr>state := S_COMPLETE\<rparr>) i tr
       else Continue (p\<lparr>state := S_BODY_IDENTITY, remaining := Infinity\<rparr>) i tr)"

text \<open>\<open>p.remaining -= n\<close>; an infinite count is not decremented.\<close>

fun js_minus :: "jsnum \<Rightarrow> int \<Rightarrow> jsnum" where
  "js_minus NaN n = NaN"
| "js_minus (Num a) n = Num (a - n)"
| "js_minus Infinity n = Infinity"

text \<open>\<open>if (toConsume > 0) { ... }\<close> of both body cases, then the rest of the case.\<close>

definition deliver ::
  "ctx \<Rightarrow> parser \<Rightarrow> nat \<Rightarrow> trace \<Rightarrow> jsnum \<Rightarrow> (parser \<Rightarrow> nat \<Rightarrow> trace \<Rightarrow> outcome) \<Rightarrow> outcome" where
  "deliver c p i tr toConsume k =
     (case toConsume of
        Num n \<Rightarrow>
          if n > 0 then
            call c (On_body (bufPtr c + int i) n) p tr (\<lambda>rc tr.
              if rc \<noteq> 0 then return_at c rc p i tr
              else k (p\<lparr>remaining := js_minus (remaining p) n\<rparr>) (i + nat n) tr)
          else k p i tr
      | _ \<Rightarrow> k p i tr)"

definition step_body_identity :: step where
  "step_body_identity c p i tr =
     (let available = Num (int (bufLen c) - int i);
          toConsume = (if remaining p = Infinity then available
                       else js_min available (remaining p))
      in deliver c p i tr toConsume (\<lambda>p i tr.
           let p = (if js_eq0 (remaining p) then p\<lparr>state := S_COMPLETE\<rparr> else p)
           in if i \<ge> bufLen c then return_at c OK p i tr else Continue p i tr))"

definition step_chunked_size :: step where
  "step_chunked_size c p i tr =
     (case findCRLF (buf c) i (bufLen c) of
        None \<Rightarrow> return_at c OK p i tr
      | Some lineEnd \<Rightarrow>
          let sizeStr = js_trim (drop_extension (decodeAscii (buf c) (int i) (int lineEnd)));
              p = p\<lparr>chunkSize := parse_int sizeStr 16\<rparr>
          in if js_eq0 (chunkSize p)
             then Continue (p\<lparr>state := S_BODY_CHUNKED_END\<rparr>) (lineEnd + 2) tr
             else Continue (p\<lparr>state := S_BODY_CHUNKED_DATA, remaining := chunkSize p\<rparr>)
                    (lineEnd + 2) tr)"

definition step_chunked_data :: step where
  "step_chunked_data c p i tr =
     (let available = Num (int (bufLen c) - int i);
          toConsume = js_min available (remaining p)
      in deliver c p i tr toConsume (\<lambda>p i tr.
           if js_eq0 (remaining p) then
             if i + 1 < bufLen c
             then Continue (p\<lparr>state := S_BODY_CHUNKED_SIZE\<rparr>) (i + 2) tr
             else return_at c OK p i tr
           else return_at c OK p i tr))"

definition step_chunked_end :: step where
  "step_chunked_end c p i tr =
     (if buf c ! i = 0x0d \<and> i + 1 < bufLen c \<and> buf c ! (i + 1) = 0x0a
      then Continue (p\<lparr>state := S_COMPLETE\<rparr>) (i + 2) tr
      else case findCRLF (buf c) i (bufLen c) of
             None \<Rightarrow> return_at c OK p i tr
           | Some lineEnd \<Rightarrow> Continue p (lineEnd + 2) tr)"

definition step_complete :: step where
  "step_complete c p i tr =
     call c On_message_complete p tr (\<lambda>rc tr.
       if rc \<noteq> 0 then return_at c rc p i tr
       else return_at c OK (p\<lparr>state := S_START\<rparr>) i tr)"

text \<open>The switch; \<open>default\<close> is the internal error 1.\<close>

definition execute_step :: step where
  "execute_step c p i tr =
     (case state p of
        S_START \<Rightarrow> step_start c p i tr
      | S_RES_H \<Rightarrow> step_res_h c p i tr
      | S_HEADER_FIELD \<Rightarrow> step_header_field c p i tr
      | S_HEADERS_DONE \<Rightarrow> step_headers_done c p i tr
      | S_BODY_IDENTITY \<Rightarrow> step_body_identity c p i tr
      | S_BODY_CHUNKED_SIZE \<Rightarrow> step_chunked_size c p i tr
      | S_BODY_CHUNKED_DATA \<Rightarrow> step_chunked_data c p i tr
      | S_BODY_CHUNKED_END \<Rightarrow> step_chunked_end c p i tr
      | S_COMPLETE \<Rightarrow> step_complete c p i tr
      | _ \<Rightarrow> return_at c 1 p i tr)"

text \<open>\<open>while (i < bufLen) ...\<close>, with the number of iterations bounded by fuel.\<close>

fun execute_loop :: "nat \<Rightarrow> ctx \<Rightarrow> parser \<Rightarrow> nat \<Rightarrow> trace \<Rightarrow> outcome option" where
  "execute_loop 0 c p i tr = None"
| "execute_loop (Suc n) c p i tr =
     (if i < bufLen c then
        (case execute_step c p i tr of
           Continue p' i' tr' \<Rightarrow> execute_loop n c p' i' tr'
         | r \<Rightarrow> Some r)
      else Some (return_at c OK p (bufLen c) tr))"

text \<open>Two iterations per byte and three more are enough for every reachable parser.\<close>

definition loop_fuel :: "ctx \<Rightarrow> nat" where
  "loop_fuel c = 2 * bufLen c + 3"

section \<open>The module: memory, parsers and exports\<close>

record world =
  mem :: wmem
  parsers :: "int \<rightharpoonup> parser"
  nextParserId :: int
  envCallbacks :: callbacks
  calls :: trace

definition world_init :: world where
  "world_init = \<lparr>mem = wmem_init, parsers = Map.empty, nextParserId = 8192,
                 envCallbacks = (\<lambda>_ _. None), calls = []\<rparr>"

definition createParser :: "int \<Rightarrow> world \<Rightarrow> int \<times> world" where
  "createParser type w =
     (let pid = nextParserId w
      in (pid, w\<lparr>nextParserId := pid + 256, parsers := (parsers w)(pid \<mapsto> new_parser type)\<rparr>))"

definition llhttp_alloc :: "int \<Rightarrow> world \<Rightarrow> int \<times> world" where
  "llhttp_alloc type w = createParser type w"

definition llhttp_free :: "int \<Rightarrow> world \<Rightarrow> world" where
  "llhttp_free pid w = w\<lparr>parsers := (parsers w)(pid := None)\<rparr>"

text \<open>
  \<open>llhttp_execute(ptr, bufPtr, bufLen)\<close>: \<open>None\<close> if the loop does not return, otherwise the
  returned code or the exception together with the new state of the module.
\<close>

definition llhttp_execute :: "int \<Rightarrow> int \<Rightarrow> int \<Rightarrow> world \<Rightarrow> (int result \<times> world) option" where
  "llhttp_execute pid bp len w =
     (case parsers w pid of
        None \<Rightarrow> Some (Inr 1, w)
      | Some p \<Rightarrow>
          if paused p then Some (Inr PAUSED, w)
          else (case u8_view bp len (mem w) of
            Inl e \<Rightarrow> Some (Inl e, w)
          | Inr data \<Rightarrow>
              let c = \<lparr>env = envCallbacks w, ptr = pid, bufPtr = bp, buf = data\<rparr>
              in (case execute_loop (loop_fuel c) c p 0 (calls w) of
                   Some (Return rc p' tr) \<Rightarrow>
                     Some (Inr rc, w\<lparr>parsers := (parsers w)(pid \<mapsto> p'), calls := tr\<rparr>)
                 | Some (Throw p' tr) \<Rightarrow>
                     Some (Inl (Js_Error ''callback''),
                           w\<lparr>parsers := (parsers w)(pid \<mapsto> p'), calls := tr\<rparr>)
                 | _ \<Rightarrow> None)))"

definition llhttp_resume :: "int \<Rightarrow> world \<Rightarrow> world" where
  "llhttp_resume pid w =
     (case parsers w pid of
        Some p \<Rightarrow> w\<lparr>parsers := (parsers w)(pid \<mapsto> p\<lparr>paused := False\<rparr>)\<rparr> | None \<Rightarrow> w)"

definition llhttp_get_error_pos :: "int \<Rightarrow> world \<Rightarrow> int" where
  "llhttp_get_error_pos pid w = (case parsers w pid of Some p \<Rightarrow> errorPos p | None \<Rightarrow> 0)"

definition llhttp_get_error_reason :: "int \<Rightarrow> world \<Rightarrow> int \<times> world" where
  "llhttp_get_error_reason pid w =
     (case parsers w pid of
        None \<Rightarrow> (0, w)
      | Some p \<Rightarrow>
          if errorReasonPtr p \<noteq> 0 then (errorReasonPtr p, w)
          else let (a, m) = writeStr ''OK'' (mem w)
               in (a, w\<lparr>mem := m, parsers := (parsers w)(pid \<mapsto> p\<lparr>errorReasonPtr := a\<rparr>)\<rparr>))"

definition malloc :: "int \<Rightarrow> world \<Rightarrow> int \<times> world" where
  "malloc sz w = (let (a, m) = walloc sz (mem w) in (a, w\<lparr>mem := m\<rparr>))"

definition wfree :: "int \<Rightarrow> world \<Rightarrow> world" where
  "wfree a w = w"

text \<open>
  \<open>WebAssembly.instantiate\<close> installs the import object's callbacks when it has them and
  answers in one of two shapes; \<open>instantiateStreaming\<close> installs nothing.
\<close>

datatype wasm_source = Fake_module | Other_source
datatype instantiated = Instance | Module_and_instance

definition wasm_instantiate ::
  "wasm_source \<Rightarrow> callbacks option \<Rightarrow> world \<Rightarrow> instantiated \<times> world" where
  "wasm_instantiate src imports w =
     (let w = (case imports of Some e \<Rightarrow> w\<lparr>envCallbacks := e\<rparr> | None \<Rightarrow> w)
      in if src = Fake_module then (Instance, w) else (Module_and_instance, w))"

definition wasm_instantiateStreaming ::
  "wasm_source \<Rightarrow> callbacks option \<Rightarrow> world \<Rightarrow> instantiated \<times> world" where
  "wasm_instantiateStreaming source imports w = (Module_and_instance, w)"

end
