(* ===== verification/Llhttp_Inv.thy ===== *)
theory Llhttp_Inv
  imports Llhttp
begin

text \<open>
  Invariants of \<open>llhttp_execute\<close>: what the scanners return, a proof rule for the loop, and the
  facts every iteration keeps. One lemma per case of the switch; the module's entry points are
  the steps of a transition relation whose reachable states satisfy \<open>world_ok\<close>.
\<close>

section \<open>Scanners\<close>

lemma findCRLF_Some:
  "findCRLF d j to = Some k \<Longrightarrow> j \<le> k \<and> k + 1 < to \<and> d ! k = 0x0d \<and> d ! (k + 1) = 0x0a"
proof (induction d j to rule: findCRLF.induct)
  case (1 d j to)
  then show ?case
    by (subst (asm) (2) findCRLF.simps) (fastforce split: if_splits)
qed

lemma findCRLF_skip:
  assumes "j \<le> k" "k + 1 < to" "d ! k = 0x0d" "d ! (k + 1) = 0x0a"
    and "\<And>m. j \<le> m \<Longrightarrow> m < k \<Longrightarrow> d ! m \<noteq> 0x0d"
  shows "findCRLF d j to = Some k"
  using assms
proof (induction "k - j" arbitrary: j)
  case 0
  then show ?case by (simp add: findCRLF.simps)
next
  case (Suc n)
  then have "findCRLF d (j + 1) to = Some k" by simp
  with Suc show ?case by (subst findCRLF.simps) simp
qed

lemma findByte_Some: "findByte d b j to = Some k \<Longrightarrow> j \<le> k \<and> k < to \<and> d ! k = b"
proof (induction d b j to rule: findByte.induct)
  case (1 d b j to)
  then show ?case
    by (subst (asm) (2) findByte.simps) (fastforce split: if_splits)
qed

lemma findByte_skip:
  assumes "j \<le> k" "k < to" "d ! k = b" and "\<And>m. j \<le> m \<Longrightarrow> m < k \<Longrightarrow> d ! m \<noteq> b"
  shows "findByte d b j to = Some k"
  using assms
proof (induction "k - j" arbitrary: j)
  case 0
  then show ?case by (simp add: findByte.simps)
next
  case (Suc n)
  then have "findByte d b (j + 1) to = Some k" by simp
  with Suc show ?case by (subst findByte.simps) simp
qed

lemma skip_spaces_bounds: "i \<le> length d \<Longrightarrow> i \<le> skip_spaces d i \<and> skip_spaces d i \<le> length d"
proof (induction d i rule: skip_spaces.induct)
  case (1 d i)
  then show ?case
    by (cases "i < length d \<and> d ! i = 0x20") (auto simp: skip_spaces.simps [of d i])
qed

lemma decodeAscii_Cons: "from < to \<Longrightarrow> decodeAscii d from to = ascii_at d from # decodeAscii d (from + 1) to"
  by (simp add: decodeAscii_def upto_rec1)

section \<open>A proof rule for the loop\<close>

text \<open>\<open>post I Q r\<close>: a continuing iteration satisfies \<open>I\<close>, a final one \<open>Q\<close>.\<close>

fun post :: "(parser \<Rightarrow> nat \<Rightarrow> trace \<Rightarrow> bool) \<Rightarrow> (outcome \<Rightarrow> bool) \<Rightarrow> outcome \<Rightarrow> bool" where
  "post I Q (Continue p i tr) = I p i tr"
| "post I Q r = Q r"

lemma post_return_at [simp]: "post I Q (return_at c rc p i tr) = Q (return_at c rc p i tr)"
  by (simp add: return_at_def)

lemma post_call:
  assumes "Q (Throw p (tr @ [(ptr c, e)]))"
    and "\<And>rc. env c tr (ptr c, e) = Some rc \<Longrightarrow> post I Q (k rc (tr @ [(ptr c, e)]))"
  shows "post I Q (call c e p tr k)"
  using assms by (auto simp: call_def Let_def split: option.splits)

lemma post_deliver:
  assumes "\<And>n. d = Num n \<Longrightarrow> 0 < n \<Longrightarrow>
              Q (Throw p (tr @ [(ptr c, On_body (bufPtr c + int i) n)]))"
    and "\<And>n rc. d = Num n \<Longrightarrow> 0 < n \<Longrightarrow> rc \<noteq> 0 \<Longrightarrow>
              env c tr (ptr c, On_body (bufPtr c + int i) n) = Some rc \<Longrightarrow>
              Q (return_at c rc p i (tr @ [(ptr c, On_body (bufPtr c + int i) n)]))"
    and "\<And>n. d = Num n \<Longrightarrow> 0 < n \<Longrightarrow>
              post I Q (k (p\<lparr>remaining := js_minus (remaining p) n\<rparr>) (i + nat n)
                          (tr @ [(ptr c, On_body (bufPtr c + int i) n)]))"
    and "(\<And>n. d = Num n \<Longrightarrow> \<not> 0 < n) \<Longrightarrow> post I Q (k p i tr)"
  shows "post I Q (deliver c p i tr d k)"
proof (cases d)
  case (Num n)
  with assms show ?thesis
    by (cases "0 < n") (auto simp: deliver_def intro!: post_call)
qed (use assms(4) in \<open>simp_all add: deliver_def\<close>)

lemma execute_loop_rule:
  assumes "execute_loop n c p i tr = Some r" and "I p i tr"
    and step: "\<And>p i tr. I p i tr \<Longrightarrow> i < bufLen c \<Longrightarrow> post I Q (execute_step c p i tr)"
    and exit: "\<And>p i tr. I p i tr \<Longrightarrow> \<not> i < bufLen c \<Longrightarrow> Q (return_at c OK p (bufLen c) tr)"
  shows "Q r"
  using assms(1,2)
proof (induction n arbitrary: p i tr)
  case 0
  then show ?case by simp
next
  case (Suc n)
  show ?case
  proof (cases "i < bufLen c")
    case True
    then show ?thesis
      using Suc.prems Suc.IH step [OF Suc.prems(2) True]
      by (cases "execute_step c p i tr") auto
  next
    case False
    then show ?thesis using Suc.prems exit by auto
  qed
qed

lemma execute_loop_final: "execute_loop n c p i tr = Some r \<Longrightarrow> r \<noteq> Continue p' i' tr'"
  by (induction n arbitrary: p i tr) (auto simp: return_at_def split: if_splits outcome.splits)

section \<open>What every iteration keeps\<close>

fun reports_status :: "cb \<Rightarrow> bool" where
  "reports_status On_message_begin = True"
| "reports_status (On_status a n) = True"
| "reports_status _ = False"

text \<open>The slice a callback is told about lies in the input buffer.\<close>

fun slice_in :: "ctx \<Rightarrow> cb \<Rightarrow> bool" where
  "slice_in c (On_header_field a n) = (bufPtr c \<le> a \<and> 0 \<le> n \<and> a + n \<le> bufPtr c + int (bufLen c))"
| "slice_in c (On_header_value a n) = (bufPtr c \<le> a \<and> 0 \<le> n \<and> a + n \<le> bufPtr c + int (bufLen c))"
| "slice_in c (On_body a n) = (bufPtr c \<le> a \<and> 0 < n \<and> a + n \<le> bufPtr c + int (bufLen c))"
| "slice_in c (On_status a n) = (bufPtr c \<le> a \<and> 0 \<le> n \<and> a + n \<le> bufPtr c + int (bufLen c))"
| "slice_in c _ = True"

definition grown :: "ctx \<Rightarrow> trace \<Rightarrow> trace \<Rightarrow> bool" where
  "grown c tr0 tr \<longleftrightarrow> (\<exists>evs. tr = tr0 @ evs \<and>
     (\<forall>x\<in>set evs. fst x = ptr c \<and> slice_in c (snd x) \<and> \<not> reports_status (snd x)))"

lemma grown_refl [simp]: "grown c tr tr"
  by (simp add: grown_def)

lemma grown_snoc:
  "grown c tr0 tr \<Longrightarrow> slice_in c e \<Longrightarrow> \<not> reports_status e \<Longrightarrow> grown c tr0 (tr @ [(ptr c, e)])"
  unfolding grown_def by (elim exE, rule_tac x = "evs @ [(ptr c, e)]" in exI) auto

text \<open>A start of a status line is never preceded by an \<open>H\<close>.\<close>

definition start_ok :: "ctx \<Rightarrow> parser \<Rightarrow> nat \<Rightarrow> bool" where
  "start_ok c p i \<longleftrightarrow> (state p \<in> {S_START, S_RES_H} \<longrightarrow> i = 0 \<or> buf c ! (i - 1) \<noteq> 0x48)"

text \<open>An identity body has bytes left, and the states no assignment produces do not occur.\<close>

definition body_ok :: "parser \<Rightarrow> bool" where
  "body_ok p \<longleftrightarrow>
     (state p = S_BODY_IDENTITY \<longrightarrow> remaining p = Infinity \<or> (\<exists>n>0. remaining p = Num n))
     \<and> state p \<notin> {S_RES_LINE, S_STATUS, S_HEADER_VALUE, S_DEAD, S_PAUSED}"

definition keeps :: "parser \<Rightarrow> parser \<Rightarrow> bool" where
  "keeps p0 p \<longleftrightarrow> body_ok p \<and> statusCode p = statusCode p0 \<and> paused p = paused p0
     \<and> errorReasonPtr p = errorReasonPtr p0"

definition loop_inv :: "ctx \<Rightarrow> parser \<Rightarrow> trace \<Rightarrow> parser \<Rightarrow> nat \<Rightarrow> trace \<Rightarrow> bool" where
  "loop_inv c p0 tr0 p i tr \<longleftrightarrow>
     i \<le> bufLen c \<and> start_ok c p i \<and> keeps p0 p \<and> grown c tr0 tr"

fun final_ok :: "ctx \<Rightarrow> parser \<Rightarrow> trace \<Rightarrow> outcome \<Rightarrow> bool" where
  "final_ok c p0 tr0 (Return rc p tr) = (keeps p0 p \<and> grown c tr0 tr
     \<and> bufPtr c \<le> errorPos p \<and> errorPos p \<le> bufPtr c + int (bufLen c))"
| "final_ok c p0 tr0 (Throw p tr) = (keeps p0 p \<and> grown c tr0 tr)"
| "final_ok c p0 tr0 (Continue p i tr) = False"

text \<open>Two per byte left, and one more in the states that may move on without consuming.\<close>

definition work :: "ctx \<Rightarrow> parser \<Rightarrow> nat \<Rightarrow> nat" where
  "work c p i = 2 * (bufLen c - i) + (if state p \<in> {S_START, S_HEADERS_DONE} then 1 else 0)"

abbreviation progress :: "ctx \<Rightarrow> parser \<Rightarrow> trace \<Rightarrow> parser \<Rightarrow> nat \<Rightarrow> outcome \<Rightarrow> bool" where
  "progress c p0 tr0 p i \<equiv>
     post (\<lambda>p' i' tr'. loop_inv c p0 tr0 p' i' tr' \<and> work c p' i' < work c p i) (final_ok c p0 tr0)"

lemmas inv_defs = loop_inv_def start_ok_def keeps_def body_ok_def work_def

lemma final_return_at:
  "keeps p0 p \<Longrightarrow> grown c tr0 tr \<Longrightarrow> i \<le> bufLen c \<Longrightarrow> final_ok c p0 tr0 (return_at c rc p i tr)"
  by (simp add: return_at_def keeps_def body_ok_def)

lemma keeps_state [simp]:
  "st \<notin> {S_BODY_IDENTITY, S_RES_LINE, S_STATUS, S_HEADER_VALUE, S_DEAD, S_PAUSED} \<Longrightarrow>
   keeps p0 p \<Longrightarrow> keeps p0 (p\<lparr>state := st\<rparr>)"
  by (simp add: keeps_def body_ok_def)

text \<open>A line decoded from one byte before such a start is not a status line.\<close>

lemma match_status_line_not_H: "hd line \<noteq> CHR ''H'' \<Longrightarrow> match_status_line line = None"
  by (cases line) (auto simp: match_status_line_def)

lemma ascii_at_not_H: "j < 0 \<or> d ! nat j \<noteq> 0x48 \<Longrightarrow> ascii_at d j \<noteq> CHR ''H''"
proof
  assume j: "j < 0 \<or> d ! nat j \<noteq> 0x48" and "ascii_at d j = CHR ''H''"
  then have nn: "\<not> j < 0" and "char_of (unat (d ! nat j)) = CHR ''H''"
    by (auto simp: ascii_at_def split: if_splits)
  then have "of_char (char_of (unat (d ! nat j))) = (of_char (CHR ''H'') :: nat)" by simp
  then have "unat (d ! nat j) = 72"
    using unsigned_less [where ?'a = nat, of "d ! nat j"] by simp
  then have "d ! nat j = 0x48" by (simp add: word_unat_eq_iff)
  with j nn show False by simp
qed

section \<open>One lemma per case\<close>

lemma progress_start:
  assumes "loop_inv c p0 tr0 p i tr" "i < bufLen c" "state p = S_START"
  shows "progress c p0 tr0 p i (step_start c p i tr)"
  using assms by (auto simp: step_start_def inv_defs)

lemma progress_res_h:
  assumes "loop_inv c p0 tr0 p i tr" "i < bufLen c" "state p = S_RES_H"
  shows "progress c p0 tr0 p i (step_res_h c p i tr)"
proof (cases "findCRLF (buf c) i (bufLen c)")
  case None
  then show ?thesis using assms by (simp add: step_res_h_def final_return_at loop_inv_def)
next
  case (Some e)
  note e = findCRLF_Some [OF Some]
  have "ascii_at (buf c) (int i - 1) \<noteq> CHR ''H''"
    using assms by (intro ascii_at_not_H) (auto simp: inv_defs nat_diff_distrib)
  then have "match_status_line (decodeAscii (buf c) (int i - 1) (int e)) = None"
    using e by (intro match_status_line_not_H) (simp add: decodeAscii_Cons)
  then show ?thesis
    using assms e by (auto simp: step_res_h_def Some inv_defs)
qed

lemma keeps_track_header [simp]: "keeps p0 p \<Longrightarrow> keeps p0 (track_header f v p)"
  by (simp add: keeps_def body_ok_def track_header_def Let_def)

lemma state_track_header [simp]: "state (track_header f v p) = state p"
  by (simp add: track_header_def Let_def)

lemma progress_header_value:
  assumes k: "keeps p0 p" and g: "grown c tr0 tr" and st: "state p = S_HEADER_FIELD"
    and j: "i < j" "j \<le> bufLen c"
  shows "progress c p0 tr0 p i (header_value fn c p j tr)"
proof (cases "findCRLF (buf c) j (bufLen c)")
  case None
  with k g j show ?thesis by (simp add: header_value_def final_return_at)
next
  case (Some v)
  note v = findCRLF_Some [OF Some]
  let ?e = "On_header_value (bufPtr c + int j) (int v - int j)"
  have "grown c tr0 (tr @ [(ptr c, ?e)])"
    using v j by (intro grown_snoc [OF g]) auto
  then show ?thesis
    using k v j st
    by (auto intro!: post_call
        simp: header_value_def Some final_return_at loop_inv_def start_ok_def work_def)
qed

lemma progress_header_field:
  assumes inv: "loop_inv c p0 tr0 p i tr" and i: "i < bufLen c" and st: "state p = S_HEADER_FIELD"
  shows "progress c p0 tr0 p i (step_header_field c p i tr)"
proof -
  have k: "keeps p0 p" and g: "grown c tr0 tr" using inv by (auto simp: loop_inv_def)
  show ?thesis
  proof (cases "buf c ! i = 0x0d \<and> i + 1 < bufLen c \<and> buf c ! (i + 1) = 0x0a")
    case True
    then show ?thesis
      using k g st by (auto simp: step_header_field_def loop_inv_def start_ok_def work_def)
  next
    case False
    show ?thesis
    proof (cases "findByte (buf c) 0x3a i (bufLen c)")
      case None
      with k g i show ?thesis
        unfolding step_header_field_def if_not_P [OF False] by (simp add: final_return_at)
    next
      case (Some col)
      note col = findByte_Some [OF Some]
      have g1: "grown c tr0 (tr @ [(ptr c, On_header_field (bufPtr c + int i) (int col - int i))])"
        using col by (intro grown_snoc [OF g]) auto
      have j: "i < skip_spaces (buf c) (col + 1)" "skip_spaces (buf c) (col + 1) \<le> bufLen c"
        using skip_spaces_bounds [of "col + 1" "buf c"] col by auto
      show ?thesis
        unfolding step_header_field_def if_not_P [OF False]
        using Some k g1 i progress_header_value [OF k g1 st j]
        by (auto simp: final_return_at intro!: post_call)
    qed
  qed
qed

lemma progress_headers_done:
  assumes inv: "loop_inv c p0 tr0 p i tr" and i: "i < bufLen c" and st: "state p = S_HEADERS_DONE"
  shows "progress c p0 tr0 p i (step_headers_done c p i tr)"
proof -
  have k: "keeps p0 p" and g: "grown c tr0 tr" using inv by (auto simp: loop_inv_def)
  let ?e = "On_headers_complete (statusCode p) (if upgrade p then 1 else 0)
              (if shouldKeepAlive p then 1 else 0)"
  have g1: "grown c tr0 (tr @ [(ptr c, ?e)])" using g by (intro grown_snoc) auto
  have cl: "contentLength p = Infinity \<or> (\<exists>n>0. contentLength p = Num n)"
    if "js_gt0 (contentLength p)"
    using that by (cases "contentLength p") auto
  show ?thesis
    unfolding step_headers_done_def
    using k g1 i st cl
    by (intro post_call)
      (auto simp: final_return_at loop_inv_def start_ok_def work_def keeps_def body_ok_def)
qed

text \<open>Both body cases hand the rest of the buffer, at most, to \<open>on_body\<close>.\<close>

lemma grown_body:
  assumes "grown c tr0 tr" "i < bufLen c" "0 < n" "n \<le> int (bufLen c) - int i"
  shows "grown c tr0 (tr @ [(ptr c, On_body (bufPtr c + int i) n)])"
  using assms by (intro grown_snoc) auto

lemma js_min_Num_le: "js_min (Num a) r = Num n \<Longrightarrow> n \<le> a"
  by (cases r) auto

lemma progress_body_identity:
  assumes inv: "loop_inv c p0 tr0 p i tr" and i: "i < bufLen c" and st: "state p = S_BODY_IDENTITY"
  shows "progress c p0 tr0 p i (step_body_identity c p i tr)"
proof -
  have k: "keeps p0 p" and g: "grown c tr0 tr" using inv by (auto simp: loop_inv_def)
  have r: "remaining p = Infinity \<or> (\<exists>n>0. remaining p = Num n)"
    using k st by (simp add: keeps_def body_ok_def)
  define d where "d = (if remaining p = Infinity then Num (int (bufLen c) - int i)
    else js_min (Num (int (bufLen c) - int i)) (remaining p))"
  obtain n where n: "d = Num n" "0 < n" "n \<le> int (bufLen c) - int i"
    and left: "remaining p = Infinity \<or> (\<exists>m\<ge>n. remaining p = Num m)"
    using r i by (auto simp: d_def)
  have left': "js_minus (remaining p) n = Infinity \<or> (\<exists>m\<ge>0. js_minus (remaining p) n = Num m)"
    using left by auto
  note gb = grown_body [OF g i n(2,3)]
  show ?thesis
    unfolding step_body_identity_def Let_def d_def [symmetric]
    using k gb i n left' st
    by (intro post_deliver)
      (auto simp: final_return_at loop_inv_def start_ok_def work_def keeps_def body_ok_def js_eq0_def
        return_at_def)
qed

lemma progress_chunked_size:
  assumes inv: "loop_inv c p0 tr0 p i tr" and i: "i < bufLen c"
    and st: "state p = S_BODY_CHUNKED_SIZE"
  shows "progress c p0 tr0 p i (step_chunked_size c p i tr)"
  using assms findCRLF_Some [of "buf c" i "bufLen c"]
  by (auto simp: step_chunked_size_def Let_def final_return_at inv_defs split: option.splits)

lemma progress_chunked_data:
  assumes inv: "loop_inv c p0 tr0 p i tr" and i: "i < bufLen c"
    and st: "state p = S_BODY_CHUNKED_DATA"
  shows "progress c p0 tr0 p i (step_chunked_data c p i tr)"
proof -
  have k: "keeps p0 p" and g: "grown c tr0 tr" using inv by (auto simp: loop_inv_def)
  have gb: "grown c tr0 (tr @ [(ptr c, On_body (bufPtr c + int i) n)])"
    "n \<le> int (bufLen c) - int i"
    if "js_min (Num (int (bufLen c) - int i)) (remaining p) = Num n" "0 < n" for n
    using that js_min_Num_le [OF that(1)] by (auto intro!: grown_body [OF g i])
  show ?thesis
    unfolding step_chunked_data_def Let_def
    using k g gb i st
    by (intro post_deliver)
      (fastforce simp: final_return_at loop_inv_def start_ok_def work_def keeps_def body_ok_def
        return_at_def)+
qed

lemma progress_chunked_end:
  assumes inv: "loop_inv c p0 tr0 p i tr" and i: "i < bufLen c"
    and st: "state p = S_BODY_CHUNKED_END"
  shows "progress c p0 tr0 p i (step_chunked_end c p i tr)"
  using assms findCRLF_Some [of "buf c" i "bufLen c"]
  by (auto simp: step_chunked_end_def final_return_at inv_defs split: option.splits)

lemma progress_complete:
  assumes inv: "loop_inv c p0 tr0 p i tr" and i: "i < bufLen c" and st: "state p = S_COMPLETE"
  shows "progress c p0 tr0 p i (step_complete c p i tr)"
proof -
  have k: "keeps p0 p" and g: "grown c tr0 tr" using inv by (auto simp: loop_inv_def)
  have g1: "grown c tr0 (tr @ [(ptr c, On_message_complete)])" using g by (intro grown_snoc) auto
  show ?thesis
    unfolding step_complete_def using k g1 i
    by (intro post_call) (auto simp: final_return_at)
qed

lemma progress_step:
  assumes inv: "loop_inv c p0 tr0 p i tr" and i: "i < bufLen c"
  shows "progress c p0 tr0 p i (execute_step c p i tr)"
proof -
  have d: "final_ok c p0 tr0 (return_at c 1 p i tr)"
    using inv i by (intro final_return_at) (auto simp: loop_inv_def)
  show ?thesis
    using progress_start [OF inv i] progress_res_h [OF inv i] progress_header_field [OF inv i]
      progress_headers_done [OF inv i] progress_body_identity [OF inv i]
      progress_chunked_size [OF inv i] progress_chunked_data [OF inv i]
      progress_chunked_end [OF inv i] progress_complete [OF inv i] d
    by (simp add: execute_step_def split: pstate.split)
qed

section \<open>The whole loop\<close>

lemma execute_loop_total:
  "loop_inv c p0 tr0 p i tr \<Longrightarrow> work c p i < n \<Longrightarrow> \<exists>r. execute_loop n c p i tr = Some r"
proof (induction n arbitrary: p i tr)
  case 0
  then show ?case by simp
next
  case (Suc n)
  show ?case
  proof (cases "i < bufLen c")
    case True
    then show ?thesis
      using Suc.IH Suc.prems(2) progress_step [OF Suc.prems(1) True]
      by (cases "execute_step c p i tr") fastforce+
  next
    case False
    then show ?thesis by simp
  qed
qed

lemma loop_inv_init: "body_ok p \<Longrightarrow> loop_inv c p tr p 0 tr"
  by (simp add: loop_inv_def start_ok_def keeps_def)

lemma execute_loop_returns:
  assumes "body_ok p"
  shows "\<exists>r. execute_loop (loop_fuel c) c p 0 tr = Some r \<and> final_ok c p tr r"
proof -
  have "work c p 0 < loop_fuel c" by (simp add: work_def loop_fuel_def)
  then obtain r where r: "execute_loop (loop_fuel c) c p 0 tr = Some r"
    using execute_loop_total loop_inv_init [OF assms] by blast
  have "final_ok c p tr r"
  proof (rule execute_loop_rule [where I = "loop_inv c p tr", OF r loop_inv_init [OF assms]])
    fix q j ts
    assume "loop_inv c p tr q j ts" "j < bufLen c"
    then show "post (loop_inv c p tr) (final_ok c p tr) (execute_step c q j ts)"
      using progress_step [of c p tr q j ts] by (cases "execute_step c q j ts") auto
  qed (simp add: final_return_at loop_inv_def)
  with r show ?thesis by blast
qed

section \<open>The module's reachable states\<close>

definition world_ok :: "world \<Rightarrow> bool" where
  "world_ok w \<longleftrightarrow> wmem_ok (mem w)
     \<and> (\<forall>pid p. parsers w pid = Some p \<longrightarrow>
          body_ok p \<and> \<not> paused p \<and> statusCode p = 0 \<and> pid < nextParserId w)
     \<and> (\<forall>x\<in>set (calls w). \<not> reports_status (snd x))"

inductive module_step :: "world \<Rightarrow> world \<Rightarrow> bool" where
  alloc: "llhttp_alloc ty w = (h, w') \<Longrightarrow> module_step w w'"
| free: "module_step w (llhttp_free h w)"
| execute: "llhttp_execute h bp len w = Some (r, w') \<Longrightarrow> module_step w w'"
| resume: "module_step w (llhttp_resume h w)"
| reason: "llhttp_get_error_reason h w = (a, w') \<Longrightarrow> module_step w w'"
| malloc: "size_ok n \<Longrightarrow> malloc n w = (a, w') \<Longrightarrow> module_step w w'"
| store: "module_step w (w\<lparr>mem := u8_set a v (mem w)\<rparr>)"
| wfree: "module_step w (wfree a w)"
| instantiate: "wasm_instantiate src imports w = (x, w') \<Longrightarrow> module_step w w'"
| streaming: "wasm_instantiateStreaming src imports w = (x, w') \<Longrightarrow> module_step w w'"

inductive module_reachable :: "world \<Rightarrow> bool" where
  init: "module_reachable world_init"
| step: "module_reachable w \<Longrightarrow> module_step w w' \<Longrightarrow> module_reachable w'"

lemma world_ok_parserD:
  "world_ok w \<Longrightarrow> parsers w h = Some p \<Longrightarrow>
   body_ok p \<and> \<not> paused p \<and> statusCode p = 0 \<and> h < nextParserId w"
  by (simp add: world_ok_def)

lemma world_ok_update:
  assumes "world_ok w" "h < nextParserId w" "body_ok p'" "\<not> paused p'" "statusCode p' = 0"
    and "\<forall>x\<in>set tr. \<not> reports_status (snd x)"
  shows "world_ok (w\<lparr>parsers := (parsers w)(h \<mapsto> p'), calls := tr\<rparr>)"
  using assms by (auto simp: world_ok_def)

text \<open>What one call of \<open>llhttp_execute\<close> does to a live parser.\<close>

definition executed :: "int \<Rightarrow> int \<Rightarrow> int \<Rightarrow> world \<Rightarrow> int result \<Rightarrow> world \<Rightarrow> bool" where
  "executed h bp len w r w' \<longleftrightarrow>
     (\<exists>data p p' evs. u8_view bp len (mem w) = Inr data \<and> parsers w h = Some p
        \<and> w' = w\<lparr>parsers := (parsers w)(h \<mapsto> p'), calls := calls w @ evs\<rparr>
        \<and> keeps p p'
        \<and> (\<forall>x\<in>set evs. fst x = h \<and> \<not> reports_status (snd x)
              \<and> slice_in \<lparr>env = envCallbacks w, ptr = h, bufPtr = bp, buf = data\<rparr> (snd x))
        \<and> (\<forall>rc. r = Inr rc \<longrightarrow> bp \<le> errorPos p' \<and> errorPos p' \<le> bp + int (length data)))"

lemma llhttp_execute_live:
  assumes ok: "world_ok w" and p: "parsers w h = Some p"
    and v: "u8_view bp len (mem w) = Inr data"
  shows "\<exists>r w'. llhttp_execute h bp len w = Some (r, w') \<and> executed h bp len w r w'"
proof -
  let ?c = "\<lparr>env = envCallbacks w, ptr = h, bufPtr = bp, buf = data\<rparr>"
  have b: "body_ok p" "\<not> paused p" using world_ok_parserD [OF ok p] by auto
  obtain out where out: "execute_loop (loop_fuel ?c) ?c p 0 (calls w) = Some out"
    and fin: "final_ok ?c p (calls w) out"
    using execute_loop_returns [OF b(1)] by blast
  show ?thesis
  proof (cases out)
    case (Continue q j ts)
    with fin show ?thesis by simp
  next
    case (Return rc q ts)
    with out fin b p v show ?thesis
      by (auto simp: llhttp_execute_def executed_def grown_def)
  next
    case (Throw q ts)
    with out fin b p v show ?thesis
      by (auto simp: llhttp_execute_def executed_def grown_def)
  qed
qed

lemma llhttp_execute_cases:
  assumes "world_ok w" "llhttp_execute h bp len w = Some (r, w')"
  obtains (unchanged) "w' = w" "parsers w h = None \<and> r = Inr 1 \<or> r = Inl Range_Error"
    | (live) "executed h bp len w r w'"
proof (cases "parsers w h")
  case None
  with assms(2) that show thesis by (simp add: llhttp_execute_def)
next
  case (Some p)
  have "\<not> paused p" using world_ok_parserD [OF assms(1) Some] by simp
  show thesis
  proof (cases "u8_view bp len (mem w)")
    case (Inl e)
    then have "e = Range_Error" by (auto simp: u8_view_def split: if_splits)
    with Inl assms(2) Some \<open>\<not> paused p\<close> that show thesis by (simp add: llhttp_execute_def)
  next
    case (Inr data)
    with llhttp_execute_live [OF assms(1) Some Inr] assms(2) that show thesis by auto
  qed
qed

lemma world_ok_execute [inv_rules]:
  assumes "world_ok w" "llhttp_execute h bp len w = Some (r, w')"
  shows "world_ok w'"
  using assms
proof (cases rule: llhttp_execute_cases)
  case unchanged
  with assms show ?thesis by simp
next
  case live
  then obtain p p' evs where "parsers w h = Some p" "keeps p p'"
    "w' = w\<lparr>parsers := (parsers w)(h \<mapsto> p'), calls := calls w @ evs\<rparr>"
    "\<forall>x\<in>set evs. \<not> reports_status (snd x)"
    by (auto simp: executed_def)
  with assms(1) world_ok_parserD [OF assms(1)] show ?thesis
    by (auto simp: keeps_def world_ok_def intro!: world_ok_update)
qed

lemma new_parser_ok [simp]:
  "body_ok (new_parser ty)" "\<not> paused (new_parser ty)" "statusCode (new_parser ty) = 0"
  by (simp_all add: body_ok_def new_parser_def)

lemma body_ok_frame [simp]:
  "body_ok (p\<lparr>errorReasonPtr := a\<rparr>) = body_ok p" "body_ok (p\<lparr>paused := b\<rparr>) = body_ok p"
  by (simp_all add: body_ok_def)

lemma wmem_ok_writeStr:
  assumes "wmem_ok m" "writeStr ''OK'' m = (a, m')"
  shows "wmem_ok m'"
  using assms walloc_ok [OF assms(1), of 3]
  by (auto simp: writeStr_def size_ok_def wmem_ok_def split: prod.splits)

lemma world_ok_step: "module_step w w' \<Longrightarrow> world_ok w \<Longrightarrow> world_ok w'"
proof (induction rule: module_step.induct)
  case (alloc ty w h w')
  then show ?case
    by (fastforce simp: llhttp_alloc_def createParser_def world_ok_def Let_def split: if_splits)
next
  case (execute h bp len w r w')
  then show ?case by (rule world_ok_execute [rotated])
next
  case (reason h w a w')
  then show ?case
    by (auto simp: llhttp_get_error_reason_def world_ok_def wmem_ok_writeStr
        split: option.splits if_splits prod.splits)
next
  case (malloc n w a w')
  then show ?case
    using walloc_ok by (auto simp: malloc_def world_ok_def split: prod.splits)
qed (auto simp: llhttp_free_def llhttp_resume_def wfree_def wasm_instantiate_def world_ok_def
      wasm_instantiateStreaming_def wmem_ok_def Let_def split: option.splits if_splits)

lemma module_reachable_ok: "module_reachable w \<Longrightarrow> world_ok w"
proof (induction rule: module_reachable.induct)
  case init
  show ?case by (simp add: world_ok_def world_init_def wmem_ok_def wmem_init_def initial_mem_def)
next
  case (step w w')
  then show ?case by (blast intro: world_ok_step)
qed

end
