(* ===== verification/Llhttp_Props.thy ===== *)
theory Llhttp_Props
  imports Llhttp_Inv
begin

text \<open>
  What the response parser guarantees to its client, over every reachable state of the module:
  it returns, it reports only slices of the input, its return codes come from the callbacks.
  The handles of the parser table satisfy the contract \<open>handle_table\<close>.
\<close>

section \<open>Handles\<close>

text \<open>A table of live handles: a new handle was never handed out before.\<close>

locale handle_table =
  fixes create :: "'a \<Rightarrow> 'w \<Rightarrow> int \<times> 'w"
    and release :: "int \<Rightarrow> 'w \<Rightarrow> 'w"
    and live :: "'w \<Rightarrow> int \<Rightarrow> bool"
    and bound :: "'w \<Rightarrow> int"
    and ok :: "'w \<Rightarrow> bool"
  assumes create_ok: "ok w \<Longrightarrow> create a w = (h, w') \<Longrightarrow> ok w'"
    and create_fresh: "ok w \<Longrightarrow> create a w = (h, w') \<Longrightarrow> bound w \<le> h \<and> h < bound w'"
    and create_live: "ok w \<Longrightarrow> create a w = (h, w') \<Longrightarrow> live w' k \<longleftrightarrow> k = h \<or> live w k"
    and release_ok: "ok w \<Longrightarrow> ok (release h w)"
    and release_bound: "bound (release h w) = bound w"
    and release_live: "live (release h w) k \<longleftrightarrow> k \<noteq> h \<and> live w k"
    and live_bound: "ok w \<Longrightarrow> live w h \<Longrightarrow> h < bound w"
begin

lemma create_not_live: "ok w \<Longrightarrow> create a w = (h, w') \<Longrightarrow> \<not> live w h"
  using create_fresh live_bound by (meson linorder_not_less)

text \<open>A handle released now is not returned by a later \<open>create\<close>.\<close>

lemma released_not_reused:
  assumes "ok w" "live w h" "create a (release h w) = (h', w')"
  shows "h' \<noteq> h \<and> \<not> live w' h"
proof -
  have "bound w \<le> h'"
    using create_fresh [OF release_ok [OF assms(1)] assms(3)] by (simp add: release_bound)
  with live_bound [OF assms(1,2)] have "h' \<noteq> h" by simp
  with create_live [OF release_ok [OF assms(1)] assms(3)] show ?thesis
    by (simp add: release_live)
qed

end

interpretation pt: handle_table llhttp_alloc llhttp_free "\<lambda>w h. parsers w h \<noteq> None"
  nextParserId world_ok
proof (unfold_locales, goal_cases)
  case (1 w a h w')
  then show ?case by (blast intro: world_ok_step module_step.alloc)
next
  case 2
  then show ?case by (auto simp: llhttp_alloc_def createParser_def Let_def)
next
  case 3
  then show ?case by (auto simp: llhttp_alloc_def createParser_def Let_def)
next
  case (4 w h)
  then show ?case by (blast intro: world_ok_step module_step.free)
next
  case 7
  then show ?case using world_ok_parserD by blast
qed (auto simp: llhttp_free_def)

section \<open>Return codes\<close>

text \<open>A code that is not the parser's own is the one the last callback returned.\<close>

fun code_ok :: "ctx \<Rightarrow> outcome \<Rightarrow> bool" where
  "code_ok c (Return rc p tr) =
     (rc \<in> {OK, PAUSED_UPGRADE} \<or> state p \<in> {S_RES_LINE, S_STATUS, S_HEADER_VALUE, S_DEAD, S_PAUSED}
      \<or> (\<exists>pre x. tr = pre @ [x] \<and> env c pre x = Some rc))"
| "code_ok c r = True"

lemma code_ok_return_at:
  "rc \<in> {OK, PAUSED_UPGRADE} \<or> (\<exists>pre x. tr = pre @ [x] \<and> env c pre x = Some rc) \<Longrightarrow>
   code_ok c (return_at c rc p i tr)"
  by (auto simp: return_at_def)

lemma code_ok_step: "post (\<lambda>_ _ _. True) (code_ok c) (execute_step c p i tr)"
proof -
  have d: "state p \<in> {S_RES_LINE, S_STATUS, S_HEADER_VALUE, S_DEAD, S_PAUSED} \<Longrightarrow>
    code_ok c (return_at c 1 p i tr)"
    by (simp add: return_at_def)
  show ?thesis
    by (cases "state p")
      (auto simp: execute_step_def step_start_def step_res_h_def step_header_field_def
        header_value_def step_headers_done_def step_body_identity_def step_chunked_size_def
        step_chunked_data_def step_chunked_end_def step_complete_def Let_def d
        intro!: post_call post_deliver code_ok_return_at
        split: option.splits)
qed

text \<open>A returning call on a live parser is a returning loop over the view of the input.\<close>

lemma llhttp_execute_Return:
  assumes "world_ok w" "parsers w h = Some p" "llhttp_execute h bp len w = Some (Inr rc, w')"
  obtains data p' tr where
    "u8_view bp len (mem w) = Inr data"
    "execute_loop (loop_fuel \<lparr>env = envCallbacks w, ptr = h, bufPtr = bp, buf = data\<rparr>)
       \<lparr>env = envCallbacks w, ptr = h, bufPtr = bp, buf = data\<rparr> p 0 (calls w)
       = Some (Return rc p' tr)"
    "w' = w\<lparr>parsers := (parsers w)(h \<mapsto> p'), calls := tr\<rparr>"
  using assms world_ok_parserD [OF assms(1,2)]
  by (auto simp: llhttp_execute_def Let_def split: sum.splits option.splits outcome.splits)

lemma u8_view_length: "u8_view bp len m = Inr data \<Longrightarrow> int (length data) = len \<and> 0 \<le> len"
  by (auto simp: u8_view_def split: if_splits)

lemma execute_loop_code:
  assumes "body_ok p" "execute_loop (loop_fuel c) c p 0 tr = Some (Return rc p' tr')"
  shows "rc \<in> {OK, PAUSED_UPGRADE} \<or> (\<exists>pre x. tr' = pre @ [x] \<and> env c pre x = Some rc)"
proof -
  have "code_ok c (Return rc p' tr')"
    by (rule execute_loop_rule [where I = "\<lambda>_ _ _. True", OF assms(2)])
      (auto intro: code_ok_step code_ok_return_at)
  moreover have "body_ok p'"
    using execute_loop_returns [OF assms(1), of c tr] assms(2) by (auto simp: keeps_def)
  ultimately show ?thesis by (auto simp: body_ok_def)
qed

lemma execute_total:
  assumes ok: "world_ok w"
  shows "\<exists>r w'. llhttp_execute h bp len w = Some (r, w')"
proof (cases "parsers w h")
  case None
  then show ?thesis by (simp add: llhttp_execute_def)
next
  case (Some p)
  show ?thesis
  proof (cases "u8_view bp len (mem w)")
    case (Inl e)
    then show ?thesis using Some by (simp add: llhttp_execute_def)
  next
    case (Inr data)
    then show ?thesis using llhttp_execute_live [OF ok Some] by blast
  qed
qed

section \<open>Properties of the module\<close>

text \<open>For the witnesses: a module with callbacks that always return 0, one live parser, and a
  short response stored at the start of the heap.\<close>

definition crlf :: string where
  "crlf = [CHR 0x0d, CHR 0x0a]"

definition demo_input :: string where
  "demo_input = ''HTTP/1.1 200 OK'' @ crlf @ ''Content-Length: 3'' @ crlf @ crlf @ ''abcX''"

definition demo_fresh :: world where
  "demo_fresh = snd (llhttp_alloc 2
     (snd (wasm_instantiate Fake_module (Some (\<lambda>_ _. Some 0)) world_init)))"

definition demo_world :: world where
  "demo_world = demo_fresh\<lparr>mem := write_chars 4096 demo_input (mem demo_fresh)\<rparr>"

lemma reachable_write_chars:
  "module_reachable w \<Longrightarrow> module_reachable (w\<lparr>mem := write_chars a s (mem w)\<rparr>)"
proof (induction s arbitrary: a w)
  case Nil
  then show ?case by simp
next
  case (Cons x s)
  have "module_reachable (w\<lparr>mem := u8_set a (of_nat (code x)) (mem w)\<rparr>)"
    using Cons.prems by (rule module_reachable.step) (rule module_step.store)
  from Cons.IH [OF this] show ?case by simp
qed

lemma demo_reachable: "module_reachable demo_world"
proof -
  have "module_step world_init (snd (wasm_instantiate Fake_module (Some (\<lambda>_ _. Some 0)) world_init))"
    by (rule module_step.instantiate [OF surjective_pairing])
  then have "module_reachable (snd (wasm_instantiate Fake_module (Some (\<lambda>_ _. Some 0)) world_init))"
    by (rule module_reachable.step [OF module_reachable.init])
  then have "module_reachable demo_fresh"
    unfolding demo_fresh_def
    by (rule module_reachable.step) (rule module_step.alloc [OF surjective_pairing])
  then show ?thesis unfolding demo_world_def by (rule reachable_write_chars)
qed

lemma demo_parser: "parsers demo_world 8192 = Some (new_parser 2)"
  by (simp add: demo_world_def demo_fresh_def wasm_instantiate_def llhttp_alloc_def
      createParser_def Let_def world_init_def)

lemma demo_run:
  obtains w' where "llhttp_execute 8192 4096 42 demo_world = Some (Inr OK, w')"
    "calls w' = [(8192, On_header_field 4113 14), (8192, On_header_value 4129 1),
       (8192, On_headers_complete 0 0 1), (8192, On_body 4134 3), (8192, On_message_complete)]"
proof -
  have "map_option (\<lambda>(r, w). (r, calls w)) (llhttp_execute 8192 4096 42 demo_world)
      = Some (Inr OK, [(8192, On_header_field 4113 14), (8192, On_header_value 4129 1),
       (8192, On_headers_complete 0 0 1), (8192, On_body 4134 3), (8192, On_message_complete)])"
    by code_simp
  then show ?thesis using that by auto
qed

text \<open>C3. \<open>llhttp_execute\<close> returns from every reachable state of the module, whatever the input
  and the callbacks: the loop never runs forever, and the state stays reachable, so this holds
  for every later call as well.\<close>

theorem llhttp_execute_terminates:
  assumes "module_reachable w"
  shows "\<exists>r w'. llhttp_execute h bp len w = Some (r, w') \<and> module_reachable w'"
proof -
  have ok: "world_ok w" using assms by (rule module_reachable_ok)
  show ?thesis
    using execute_total [OF ok] assms by (blast intro: module_reachable.step module_step.execute)
qed

theorem llhttp_execute_terminates_witness:
  "\<exists>r w'. llhttp_execute 8192 4096 42 demo_world = Some (r, w') \<and> module_reachable w'"
  using llhttp_execute_terminates [OF demo_reachable] by blast

text \<open>C4. The status line of a response is never recognised. The line is decoded from one byte
  before the \<open>H\<close> that was found (the index was not advanced past it), so the pattern anchored at
  \<open>HTTP/\<close> cannot match: in every reachable state every parser still has status code 0, and
  neither \<open>wasm_on_message_begin\<close> nor \<open>wasm_on_status\<close> has ever been called.\<close>

theorem status_line_never_parsed:
  assumes "module_reachable w"
  shows "(\<forall>h p. parsers w h = Some p \<longrightarrow> statusCode p = 0)
       \<and> (\<forall>h. (h, On_message_begin) \<notin> set (calls w))
       \<and> (\<forall>h a n. (h, On_status a n) \<notin> set (calls w))"
  using module_reachable_ok [OF assms] by (force simp: world_ok_def)

theorem status_line_never_parsed_witness:
  "\<exists>w'. llhttp_execute 8192 4096 42 demo_world = Some (Inr OK, w')
     \<and> (\<forall>p. parsers w' 8192 = Some p \<longrightarrow> statusCode p = 0)"
proof -
  obtain w' where r: "llhttp_execute 8192 4096 42 demo_world = Some (Inr OK, w')"
    by (rule demo_run)
  then have "module_reachable w'"
    by (rule module_reachable.step [OF demo_reachable module_step.execute])
  from status_line_never_parsed [OF this] r show ?thesis by blast
qed

text \<open>C5. Every slice handed to a callback lies inside the buffer passed to \<open>llhttp_execute\<close>, the
  callbacks are called for that parser only, and no other parser changes.\<close>

theorem callback_slices_in_buffer:
  assumes "module_reachable w" "llhttp_execute h bp len w = Some (r, w')"
  shows "\<exists>evs. calls w' = calls w @ evs \<and>
     (\<forall>q e. (q, e) \<in> set evs \<longrightarrow> q = h \<and>
        (\<forall>a n. e \<in> {On_header_field a n, On_header_value a n, On_body a n, On_status a n} \<longrightarrow>
           bp \<le> a \<and> 0 \<le> n \<and> a + n \<le> bp + len)) \<and>
     (\<forall>k. k \<noteq> h \<longrightarrow> parsers w' k = parsers w k)"
  using module_reachable_ok [OF assms(1)] assms(2)
proof (cases rule: llhttp_execute_cases)
  case unchanged
  then show ?thesis by simp
next
  case live
  then obtain data p' evs where v: "u8_view bp len (mem w) = Inr data"
    and w': "w' = w\<lparr>parsers := (parsers w)(h \<mapsto> p'), calls := calls w @ evs\<rparr>"
    and e: "\<forall>x\<in>set evs. fst x = h
              \<and> slice_in \<lparr>env = envCallbacks w, ptr = h, bufPtr = bp, buf = data\<rparr> (snd x)"
    by (auto simp: executed_def)
  show ?thesis
    using e u8_view_length [OF v] by (intro exI [of _ evs]) (auto simp: w')
qed

theorem callback_slices_in_buffer_witness:
  "\<exists>w' evs. llhttp_execute 8192 4096 42 demo_world = Some (Inr OK, w')
     \<and> calls w' = calls demo_world @ evs \<and> (8192, On_body 4134 3) \<in> set (calls w')
     \<and> (\<forall>k. k \<noteq> 8192 \<longrightarrow> parsers w' k = parsers demo_world k)"
proof -
  obtain w' where r: "llhttp_execute 8192 4096 42 demo_world = Some (Inr OK, w')"
    and b: "(8192, On_body 4134 3) \<in> set (calls w')"
    by (rule demo_run) simp
  from callback_slices_in_buffer [OF demo_reachable r] r b show ?thesis by blast
qed



text \<open>Parser handles are never reused: \<open>llhttp_alloc\<close> returns a handle that is not live, and one
  freed before is not handed out again nor brought back to life.\<close>

theorem parser_handles_fresh:
  assumes "module_reachable w" "parsers w h \<noteq> None"
    and "llhttp_alloc ty (llhttp_free h w) = (h', w')"
  shows "h' \<noteq> h \<and> parsers w h' = None \<and> parsers w' h = None \<and> parsers w' h' = Some (new_parser ty)"
proof -
  have ok: "world_ok w" using assms(1) by (rule module_reachable_ok)
  have "h' \<noteq> h \<and> \<not> parsers w' h \<noteq> None" by (rule pt.released_not_reused [OF ok assms(2,3)])
  moreover have "\<not> parsers (llhttp_free h w) h' \<noteq> None"
    using pt.create_not_live [OF pt.release_ok [OF ok] assms(3)] .
  ultimately show ?thesis
    using assms(3) by (auto simp: llhttp_free_def llhttp_alloc_def createParser_def Let_def)
qed

theorem parser_handles_fresh_witness:
  "\<exists>h' w'. llhttp_alloc 2 (llhttp_free 8192 demo_world) = (h', w') \<and> h' \<noteq> 8192 \<and> parsers w' 8192 = None"
proof -
  obtain h' w' where a: "llhttp_alloc 2 (llhttp_free 8192 demo_world) = (h', w')" by fastforce
  show ?thesis using parser_handles_fresh [OF demo_reachable _ a] demo_parser a by auto
qed

end
