(* ===== verification/Llhttp_Body.thy ===== *)
theory Llhttp_Body
  imports Llhttp_Props
begin

text \<open>
  Functional correctness of the response parser on well-formed input: header blocks, identity
  bodies fed in several buffers and chunked bodies are reported to the callbacks exactly as they
  were encoded. The encoders of this theory are the specification; the callbacks all return 0.
\<close>

section \<open>Fuel\<close>

lemma execute_loop_mono: "execute_loop n c p i tr = Some r \<Longrightarrow> execute_loop (n + k) c p i tr = Some r"
proof (induction n arbitrary: p i tr)
  case 0
  then show ?case by simp
next
  case (Suc n)
  then show ?case by (auto split: if_splits outcome.splits)
qed

text \<open>A result obtained with any fuel is the one of the program's own bound.\<close>

lemma execute_loop_fuel:
  assumes "body_ok p" "execute_loop n c p 0 tr = Some r"
  shows "execute_loop (loop_fuel c) c p 0 tr = Some r"
proof -
  obtain r' where r': "execute_loop (loop_fuel c) c p 0 tr = Some r'"
    using execute_loop_returns [OF assms(1)] by blast
  have "execute_loop (n + loop_fuel c) c p 0 tr = Some r" using assms(2) by (rule execute_loop_mono)
  moreover have "execute_loop (loop_fuel c + n) c p 0 tr = Some r'" using r' by (rule execute_loop_mono)
  ultimately show ?thesis using r' by (simp add: add.commute)
qed

section \<open>Message completion needs a further byte\<close>

definition no_complete :: "trace \<Rightarrow> trace \<Rightarrow> bool" where
  "no_complete tr0 tr \<longleftrightarrow> (\<exists>evs. tr = tr0 @ evs \<and> On_message_complete \<notin> snd ` set evs)"

lemma no_complete_append:
  "no_complete tr0 tr \<Longrightarrow> On_message_complete \<notin> snd ` set evs \<Longrightarrow> no_complete tr0 (tr @ evs)"
  unfolding no_complete_def by (elim exE, rule_tac x = "evsa @ evs" in exI) auto

text \<open>Either no completion was reported, or the position is before the end of the input.\<close>

fun complete_early :: "ctx \<Rightarrow> trace \<Rightarrow> outcome \<Rightarrow> bool" where
  "complete_early c tr0 (Return rc p tr) =
     (no_complete tr0 tr \<or> errorPos p < bufPtr c + int (bufLen c))"
| "complete_early c tr0 r = True"

lemma complete_early_return_at:
  "no_complete tr0 tr \<or> i < bufLen c \<Longrightarrow> complete_early c tr0 (return_at c rc p i tr)"
  by (auto simp: return_at_def)

lemma complete_early_step:
  assumes "no_complete tr0 tr" "i < bufLen c"
  shows "post (\<lambda>_ _ tr. no_complete tr0 tr) (complete_early c tr0) (execute_step c p i tr)"
  using assms
  by (cases "state p")
    (auto simp: execute_step_def step_start_def step_res_h_def step_header_field_def
      header_value_def step_headers_done_def step_body_identity_def step_chunked_size_def
      step_chunked_data_def step_chunked_end_def step_complete_def Let_def
      intro!: post_call post_deliver complete_early_return_at no_complete_append
      split: option.splits)

text \<open>\<open>wasm_on_message_complete\<close> is called only while input is left over: a call of
  \<open>llhttp_execute\<close> whose input ends with the message (the usual case on a kept-alive connection)
  returns \<open>OK\<close> without it. When it is called, the reported position is strictly inside the
  buffer.\<close>

theorem message_complete_needs_extra_byte:
  assumes "module_reachable w" "parsers w h = Some p"
    and "llhttp_execute h bp len w = Some (Inr rc, w')" "calls w' = calls w @ evs"
    and "(h, On_message_complete) \<in> set evs"
  shows "llhttp_get_error_pos h w' < bp + len"
proof (rule llhttp_execute_Return [OF module_reachable_ok [OF assms(1)] assms(2,3)])
  fix data p' tr
  let ?c = "\<lparr>env = envCallbacks w, ptr = h, bufPtr = bp, buf = data\<rparr>"
  assume v: "u8_view bp len (mem w) = Inr data"
    and r: "execute_loop (loop_fuel ?c) ?c p 0 (calls w) = Some (Return rc p' tr)"
    and w': "w' = w\<lparr>parsers := (parsers w)(h \<mapsto> p'), calls := tr\<rparr>"
  have "complete_early ?c (calls w) (Return rc p' tr)"
    by (rule execute_loop_rule [where I = "\<lambda>_ _ tr. no_complete (calls w) tr", OF r])
      (auto intro: complete_early_step complete_early_return_at simp: no_complete_def [of _ "calls w"])
  moreover have "\<not> no_complete (calls w) tr"
    using assms(4,5) by (force simp: no_complete_def w')
  ultimately show ?thesis
    using u8_view_length [OF v] by (simp add: llhttp_get_error_pos_def w')
qed

theorem message_complete_needs_extra_byte_witness:
  "\<exists>w'. llhttp_execute 8192 4096 42 demo_world = Some (Inr OK, w')
     \<and> llhttp_get_error_pos 8192 w' < 4096 + 42"
proof (rule demo_run)
  fix w'
  assume r: "llhttp_execute 8192 4096 42 demo_world = Some (Inr OK, w')"
    and c: "calls w' = [(8192, On_header_field 4113 14), (8192, On_header_value 4129 1),
       (8192, On_headers_complete 0 0 1), (8192, On_body 4134 3), (8192, On_message_complete)]"
  have z: "calls demo_world = []"
    by (simp add: demo_world_def demo_fresh_def wasm_instantiate_def llhttp_alloc_def
        createParser_def Let_def world_init_def)
  have "llhttp_get_error_pos 8192 w' < 4096 + 42"
    by (rule message_complete_needs_extra_byte [OF demo_reachable demo_parser r,
          where evs = "calls w'"]) (simp_all add: c z)
  with r show ?thesis by blast
qed

section \<open>Identity bodies\<close>

text \<open>The client's loop: one call of the parser per received buffer, stopping at an error.\<close>

fun feed :: "callbacks \<Rightarrow> int \<Rightarrow> (int \<times> 8 word list) list \<Rightarrow> parser \<Rightarrow> trace \<Rightarrow> (parser \<times> trace) option" where
  "feed e h [] p tr = Some (p, tr)"
| "feed e h ((bp, d) # bs) p tr =
     (let c = \<lparr>env = e, ptr = h, bufPtr = bp, buf = d\<rparr>
      in case execute_loop (loop_fuel c) c p 0 tr of
           Some (Return rc p' tr') \<Rightarrow> if rc = OK then feed e h bs p' tr' else None
         | _ \<Rightarrow> None)"

definition total_length :: "(int \<times> 8 word list) list \<Rightarrow> nat" where
  "total_length bs = sum_list (map (length \<circ> snd) bs)"

lemma execute_identity_buffer:
  assumes "\<And>t x. env c t x = Some 0" "buf c \<noteq> []" "state p = S_BODY_IDENTITY"
    and "remaining p = Num m" "int (bufLen c) \<le> m"
  shows "execute_loop (Suc n) c p 0 tr = Some (return_at c OK
     (p\<lparr>remaining := Num (m - int (bufLen c)),
        state := (if m = int (bufLen c) then S_COMPLETE else S_BODY_IDENTITY)\<rparr>) (bufLen c)
     (tr @ [(ptr c, On_body (bufPtr c) (int (bufLen c)))]))"
  using assms
  by (auto simp: execute_step_def step_body_identity_def deliver_def call_def return_at_def
      js_eq0_def Let_def)

text \<open>An identity body that arrives in any number of non-empty buffers is delivered completely
  and in order: one \<open>wasm_on_body\<close> call per buffer, covering exactly its bytes. When the
  announced length has arrived the parser is in the completed state, but nothing has told the
  client so: no \<open>wasm_on_message_complete\<close> call was made.\<close>

theorem identity_body_delivered:
  assumes "\<And>t x. e t x = Some 0" and "list_all (\<lambda>b. snd b \<noteq> []) bs" and "bs \<noteq> []"
    and "state p = S_BODY_IDENTITY" and "remaining p = Num (int (total_length bs))"
  shows "\<exists>p'. feed e h bs p tr
              = Some (p', tr @ map (\<lambda>b. (h, On_body (fst b) (int (length (snd b))))) bs)
            \<and> state p' = S_COMPLETE \<and> remaining p' = Num 0"
  using assms(2-)
proof (induction bs arbitrary: p tr)
  case Nil
  then show ?case by simp
next
  case (Cons b bs)
  obtain bp d where b: "b = (bp, d)" by fastforce
  let ?c = "\<lparr>env = e, ptr = h, bufPtr = bp, buf = d\<rparr>"
  let ?m = "int (total_length (b # bs))"
  have len: "?m = int (length d) + int (total_length bs)"
    by (simp add: total_length_def b)
  define q where "q = p\<lparr>remaining := Num (?m - int (length d)),
    state := (if ?m = int (length d) then S_COMPLETE else S_BODY_IDENTITY), errorPos := bp + int (length d)\<rparr>"
  have lf: "loop_fuel ?c = Suc (2 * length d + 2)" by (simp add: loop_fuel_def)
  have run: "execute_loop (loop_fuel ?c) ?c p 0 tr
      = Some (Return OK q (tr @ [(h, On_body bp (int (length d)))]))"
    unfolding lf using Cons.prems assms(1) b len
    by (subst execute_identity_buffer [where m = ?m]) (auto simp: q_def return_at_def)
  show ?case
  proof (cases "bs = []")
    case True
    then show ?thesis using run len by (simp add: b q_def total_length_def)
  next
    case False
    then have "0 < total_length bs"
      using Cons.prems(1) by (cases bs) (auto simp: total_length_def)
    then have q: "state q = S_BODY_IDENTITY" "remaining q = Num (int (total_length bs))"
      using len by (auto simp: q_def)
    obtain p' where "feed e h bs q (tr @ [(h, On_body bp (int (length d)))])
        = Some (p', (tr @ [(h, On_body bp (int (length d)))])
            @ map (\<lambda>b. (h, On_body (fst b) (int (length (snd b))))) bs)
      \<and> state p' = S_COMPLETE \<and> remaining p' = Num 0"
      using Cons.IH [OF _ False q, of "tr @ [(h, On_body bp (int (length d)))]"] Cons.prems(1)
      by auto
    then show ?thesis using run by (simp add: b)
  qed
qed

theorem identity_body_delivered_witness:
  "\<exists>p'. feed (\<lambda>_ _. Some 0) 8192 [(4096, [1, 2]), (5000, [3])]
          ((new_parser 2)\<lparr>state := S_BODY_IDENTITY, remaining := Num 3\<rparr>) []
        = Some (p', [(8192, On_body 4096 2), (8192, On_body 5000 1)]) \<and> state p' = S_COMPLETE"
proof -
  let ?p = "(new_parser 2)\<lparr>state := S_BODY_IDENTITY, remaining := Num 3\<rparr>"
  have h: "list_all (\<lambda>b. snd b \<noteq> []) [(4096 :: int, [1, 2 :: 8 word]), (5000, [3])]"
    "remaining ?p = Num (int (total_length [(4096 :: int, [1, 2 :: 8 word]), (5000, [3])]))"
    by (simp_all add: total_length_def)
  show ?thesis
    using identity_body_delivered [of "\<lambda>_ _. Some 0", OF _ h(1) _ _ h(2), of 8192 "[]"] by auto
qed

end
