(* ===== verification/Llhttp_Chunked.thy ===== *)
theory Llhttp_Chunked
  imports Llhttp_Body
begin

text \<open>
  Chunked bodies and header blocks: encoders in the style of the protocol, and the theorems that
  the parser recovers exactly what was encoded.
\<close>

section \<open>Text in buffers\<close>

definition bytes_of :: "string \<Rightarrow> 8 word list" where
  "bytes_of s = map (\<lambda>x. of_nat (code x)) s"

lemma length_bytes_of [simp]: "length (bytes_of s) = length s"
  by (simp add: bytes_of_def)

lemma code_less [simp]: "code x < 256"
  by (simp add: code_def)

lemma unat_of_code [simp]: "unat (of_nat (code x) :: 8 word) = code x"
  by (simp add: unat_of_nat)

lemma char_of_code [simp]: "char_of (code x) = x"
  by (simp add: code_def)

lemma nth_bytes:
  assumes "d = pre @ bytes_of s @ suf" "length pre \<le> m" "m < length pre + length s"
  shows "d ! m = of_nat (code (s ! (m - length pre)))" "s ! (m - length pre) \<in> set s"
proof -
  have "m - length pre < length s" using assms(2,3) by arith
  then show "d ! m = of_nat (code (s ! (m - length pre)))" "s ! (m - length pre) \<in> set s"
    using assms by (simp_all add: nth_append bytes_of_def)
qed

lemma ascii_at_append:
  assumes "d = pre @ bytes_of s @ suf" "k < length s"
  shows "ascii_at d (int (length pre + k)) = s ! k"
proof -
  have "d ! nat (int (length pre + k)) = of_nat (code (s ! k))"
    using nth_bytes(1) [OF assms(1), of "length pre + k"] assms(2) by (simp only: nat_int) simp
  moreover have "int (length pre + k) < int (length d)" using assms by simp
  ultimately show ?thesis by (simp add: ascii_at_def del: of_nat_add)
qed

lemma decodeAscii_append:
  assumes "d = pre @ bytes_of s @ suf"
  shows "decodeAscii d (int (length pre)) (int (length pre) + int (length s)) = s"
proof (rule nth_equalityI)
  fix k
  assume "k < length (decodeAscii d (int (length pre)) (int (length pre) + int (length s)))"
  then have k: "k < length s" by (simp add: decodeAscii_def)
  then have "decodeAscii d (int (length pre)) (int (length pre) + int (length s)) ! k
      = ascii_at d (int (length pre + k))"
    by (simp add: decodeAscii_def)
  then show "decodeAscii d (int (length pre)) (int (length pre) + int (length s)) ! k = s ! k"
    using ascii_at_append [OF assms k] by simp
qed (simp add: decodeAscii_def)

lemma of_nat_code_eq [simp]:
  "(of_nat (code x) :: 8 word) = 13 \<longleftrightarrow> code x = 13"
  "(of_nat (code x) :: 8 word) = 58 \<longleftrightarrow> code x = 58"
  "(of_nat (code x) :: 8 word) = 32 \<longleftrightarrow> code x = 32"
  by (simp_all add: word_unat_eq_iff)

text \<open>The scanners find the delimiter behind text that does not contain it.\<close>

lemma findCRLF_append:
  assumes "d = pre @ bytes_of s @ 13 # 10 # suf" "\<And>x. x \<in> set s \<Longrightarrow> code x \<noteq> 13"
  shows "findCRLF d (length pre) (length d) = Some (length pre + length s)"
proof (rule findCRLF_skip)
  fix m
  assume m: "length pre \<le> m" "m < length pre + length s"
  show "d ! m \<noteq> 0x0d"
    using nth_bytes [OF assms(1) m] assms(2) [of "s ! (m - length pre)"] by simp
qed (simp_all add: assms(1) nth_append)

lemma findByte_append:
  assumes "d = pre @ bytes_of s @ b # suf" "\<And>x. x \<in> set s \<Longrightarrow> of_nat (code x) \<noteq> b"
  shows "findByte d b (length pre) (length d) = Some (length pre + length s)"
proof (rule findByte_skip)
  fix m
  assume m: "length pre \<le> m" "m < length pre + length s"
  show "d ! m \<noteq> b"
    using nth_bytes [OF assms(1) m] assms(2) [of "s ! (m - length pre)"] by simp
qed (simp_all add: assms(1) nth_append)

lemma drop_exact: "n = length xs \<Longrightarrow> drop n (xs @ ys) = ys"
  by simp

section \<open>Hexadecimal sizes\<close>

definition hex_digit :: "nat \<Rightarrow> char" where
  "hex_digit d = char_of (if d < 10 then 48 + d else 87 + d)"

fun to_hex :: "nat \<Rightarrow> string" where
  "to_hex n = (if n < 16 then [hex_digit n] else to_hex (n div 16) @ [hex_digit (n mod 16)])"

declare to_hex.simps [simp del]

lemma code_hex_digit [simp]: "d < 16 \<Longrightarrow> code (hex_digit d) = (if d < 10 then 48 + d else 87 + d)"
  by (simp add: hex_digit_def code_def)

lemma digit_value_hex: "d < 16 \<Longrightarrow> digit_value 16 (hex_digit d) = Some d"
  by (simp add: digit_value_def Let_def)

definition is_hex :: "char \<Rightarrow> bool" where
  "is_hex x \<longleftrightarrow> (\<exists>d<16. x = hex_digit d)"

lemma to_hex_chars: "x \<in> set (to_hex n) \<Longrightarrow> is_hex x"
proof (induction n rule: to_hex.induct)
  case (1 n)
  have "is_hex (hex_digit (n mod 16))" unfolding is_hex_def by (rule exI [of _ "n mod 16"]) simp
  moreover have "n < 16 \<Longrightarrow> is_hex (hex_digit n)" by (auto simp: is_hex_def)
  ultimately show ?case
    using 1 by (auto simp: to_hex.simps [of n] split: if_splits)
qed

lemma to_hex_nonempty [simp]: "to_hex n \<noteq> []"
  by (subst to_hex.simps) simp

lemma is_hex_code: "is_hex x \<Longrightarrow> (48 \<le> code x \<and> code x \<le> 57) \<or> (97 \<le> code x \<and> code x \<le> 102)"
  by (auto simp: is_hex_def split: if_splits)

lemma digits_value_append:
  "list_all is_hex s \<Longrightarrow> d < 16 \<Longrightarrow>
   digits_value 16 acc (s @ [hex_digit d]) = digits_value 16 acc s * 16 + d"
  by (induction s arbitrary: acc) (auto simp: is_hex_def digit_value_hex)

lemma digits_value_to_hex: "digits_value 16 0 (to_hex n) = n"
proof (induction n rule: to_hex.induct)
  case (1 n)
  show ?case
  proof (cases "n < 16")
    case True
    then show ?thesis by (simp add: to_hex.simps [of n] digit_value_hex)
  next
    case False
    then show ?thesis
      using 1 to_hex_chars [of _ "n div 16"]
      by (simp add: to_hex.simps [of n] digits_value_append list_all_iff)
  qed
qed

lemma hex_text_neutral:
  assumes "list_all is_hex s"
  shows "js_trim s = s" "drop_extension s = s" "js_trim_start s = s"
proof -
  have sp: "\<not> js_space x" and se: "x \<noteq> CHR '';''" if "x \<in> set s" for x
    using assms that is_hex_code [of x] by (auto simp: js_space_def list_all_iff code_def)
  have d: "dropWhile js_space s = s" "dropWhile js_space (rev s) = rev s"
    using sp by (cases s; simp) (cases s rule: rev_cases; simp add: sp)
  show "js_trim s = s" "js_trim_start s = s" using d by (simp_all add: js_trim_def js_trim_start_def)
  have "takeWhile (\<lambda>x. x \<noteq> CHR '';'') s = s" using se by simp
  moreover have "dropWhile (\<lambda>x. x \<noteq> CHR '';'') s = []" using se by simp
  ultimately show "drop_extension s = s"
    by (simp only: drop_extension_def dropWhile.simps append_Nil2)
qed

lemma parse_int_to_hex: "parse_int (to_hex n) 16 = Num (int n)"
proof -
  have hx: "list_all is_hex (to_hex n)" using to_hex_chars by (auto simp: list_all_iff)
  obtain x s where xs: "to_hex n = x # s" using to_hex_nonempty [of n] by (cases "to_hex n") auto
  have x: "is_hex x" "list_all is_hex s" using hx xs by auto
  have sg: "x \<noteq> CHR ''-''" "x \<noteq> CHR ''+''" using is_hex_code [OF x(1)] by (auto simp: code_def)
  have px: "\<not> prefix ''0x'' (x # s)" "\<not> prefix ''0X'' (x # s)"
    using x(2) by (cases s; auto dest: is_hex_code simp: code_def)+
  have dv: "digit_value 16 x \<noteq> None" using x(1) by (auto simp: is_hex_def digit_value_hex)
  show ?thesis
    using sg px dv hex_text_neutral(3) [OF hx] digits_value_to_hex [of n]
    by (auto simp: parse_int_def xs Let_def)
qed

section \<open>Chunked bodies\<close>

definition encode_chunk :: "8 word list \<Rightarrow> 8 word list" where
  "encode_chunk d = bytes_of (to_hex (length d)) @ [13, 10] @ d @ [13, 10]"

definition encode_chunks :: "8 word list list \<Rightarrow> 8 word list" where
  "encode_chunks ds = concat (map encode_chunk ds) @ bytes_of ''0'' @ [13, 10, 13, 10]"

text \<open>The bytes a body callback is told about.\<close>

fun body_slice :: "ctx \<Rightarrow> call \<Rightarrow> 8 word list" where
  "body_slice c (h, On_body a n) = take (nat n) (drop (nat (a - bufPtr c)) (buf c))"
| "body_slice c x = []"

lemma step_chunked_size_hex:
  assumes "buf c = pre @ bytes_of (to_hex n) @ 13 # 10 # suf"
  shows "step_chunked_size c p (length pre) tr =
     (let p = p\<lparr>chunkSize := Num (int n)\<rparr>; i = length pre + length (to_hex n) + 2
      in if n = 0 then Continue (p\<lparr>state := S_BODY_CHUNKED_END\<rparr>) i tr
         else Continue (p\<lparr>state := S_BODY_CHUNKED_DATA, remaining := Num (int n)\<rparr>) i tr)"
proof -
  have hx: "list_all is_hex (to_hex n)" using to_hex_chars by (auto simp: list_all_iff)
  have cr: "\<And>x. x \<in> set (to_hex n) \<Longrightarrow> code x \<noteq> 13" using to_hex_chars is_hex_code by fastforce
  have "findCRLF (buf c) (length pre) (bufLen c) = Some (length pre + length (to_hex n))"
    using findCRLF_append [OF assms cr] by simp
  moreover have "decodeAscii (buf c) (int (length pre)) (int (length pre + length (to_hex n))) = to_hex n"
    using decodeAscii_append [of "buf c" pre "to_hex n" "13 # 10 # suf"] assms by simp
  ultimately show ?thesis
    using hex_text_neutral [OF hx] by (simp add: step_chunked_size_def parse_int_to_hex js_eq0_def Let_def)
qed

lemma step_chunked_data_whole:
  assumes "\<And>t x. env c t x = Some 0" "buf c = pre @ d @ 13 # 10 # suf" "d \<noteq> []"
    and "remaining p = Num (int (length d))"
  shows "step_chunked_data c p (length pre) tr =
     Continue (p\<lparr>remaining := Num 0, state := S_BODY_CHUNKED_SIZE\<rparr>) (length pre + length d + 2)
       (tr @ [(ptr c, On_body (bufPtr c + int (length pre)) (int (length d)))])"
  using assms
  by (simp add: step_chunked_data_def deliver_def call_def Let_def js_eq0_def)

text \<open>One chunk takes two iterations.\<close>

lemma execute_chunk:
  assumes env: "\<And>t x. env c t x = Some 0" and b: "buf c = pre @ encode_chunk d @ suf"
    and "d \<noteq> []" "state p = S_BODY_CHUNKED_SIZE"
  shows "\<exists>p' a. state p' = S_BODY_CHUNKED_SIZE \<and> body_slice c (ptr c, On_body a (int (length d))) = d
     \<and> (\<forall>n. execute_loop (Suc (Suc n)) c p (length pre) tr
          = execute_loop n c p' (length (pre @ encode_chunk d))
              (tr @ [(ptr c, On_body a (int (length d)))]))"
proof -
  let ?hex = "to_hex (length d)"
  let ?pre = "pre @ bytes_of ?hex @ [13, 10]"
  have b1: "buf c = pre @ bytes_of ?hex @ 13 # 10 # (d @ 13 # 10 # suf)"
    using b by (simp add: encode_chunk_def)
  have b2: "buf c = ?pre @ d @ 13 # 10 # suf" using b by (simp add: encode_chunk_def)
  have i: "length pre < bufLen c" "length ?pre < bufLen c" using b1 b2 by simp_all
  define p1 where "p1 = p\<lparr>chunkSize := Num (int (length d)), state := S_BODY_CHUNKED_DATA,
                          remaining := Num (int (length d))\<rparr>"
  have s1: "execute_step c p (length pre) tr = Continue p1 (length ?pre) tr"
    using assms(3,4) step_chunked_size_hex [OF b1, of p tr]
    by (simp add: execute_step_def p1_def Let_def)
  let ?a = "bufPtr c + int (length ?pre)"
  let ?tr = "tr @ [(ptr c, On_body ?a (int (length d)))]"
  define p2 where "p2 = p1\<lparr>remaining := Num 0, state := S_BODY_CHUNKED_SIZE\<rparr>"
  have s2: "execute_step c p1 (length ?pre) tr = Continue p2 (length (pre @ encode_chunk d)) ?tr"
    using step_chunked_data_whole [OF env b2 assms(3), of p1 tr]
    by (simp add: execute_step_def p2_def encode_chunk_def) (simp add: p1_def)
  have "body_slice c (ptr c, On_body ?a (int (length d))) = d" by (simp add: b2 nat_add_distrib)
  then show ?thesis
    using i s1 s2 by (intro exI [of _ p2] exI [of _ ?a]) (simp add: p2_def)
qed

lemma execute_chunks:
  assumes env: "\<And>t x. env c t x = Some 0"
  shows "buf c = pre @ concat (map encode_chunk ds) @ suf \<Longrightarrow> list_all (\<lambda>d. d \<noteq> []) ds \<Longrightarrow>
     state p = S_BODY_CHUNKED_SIZE \<Longrightarrow>
     \<exists>p' evs k. state p' = S_BODY_CHUNKED_SIZE \<and> map (body_slice c) evs = ds
       \<and> (\<forall>n. execute_loop (k + n) c p (length pre) tr
            = execute_loop n c p' (length (pre @ concat (map encode_chunk ds))) (tr @ evs))"
proof (induction ds arbitrary: pre p tr)
  case Nil
  then show ?case by (intro exI [of _ p] exI [of _ "[]"] exI [of _ 0]) simp
next
  case (Cons d ds)
  have b: "buf c = pre @ encode_chunk d @ (concat (map encode_chunk ds) @ suf)"
    and b': "buf c = (pre @ encode_chunk d) @ concat (map encode_chunk ds) @ suf"
    using Cons.prems(1) by simp_all
  obtain p1 a where p1: "state p1 = S_BODY_CHUNKED_SIZE"
    and sl: "body_slice c (ptr c, On_body a (int (length d))) = d"
    and run1: "\<And>n. execute_loop (Suc (Suc n)) c p (length pre) tr
          = execute_loop n c p1 (length (pre @ encode_chunk d))
              (tr @ [(ptr c, On_body a (int (length d)))])"
    using execute_chunk [OF env b, of p tr] Cons.prems by auto
  obtain p2 evs k where p2: "state p2 = S_BODY_CHUNKED_SIZE" and evs: "map (body_slice c) evs = ds"
    and run2: "\<And>n. execute_loop (k + n) c p1 (length (pre @ encode_chunk d))
          (tr @ [(ptr c, On_body a (int (length d)))])
        = execute_loop n c p2 (length ((pre @ encode_chunk d) @ concat (map encode_chunk ds)))
            ((tr @ [(ptr c, On_body a (int (length d)))]) @ evs)"
    using Cons.IH [OF b' _ p1, of "tr @ [(ptr c, On_body a (int (length d)))]"] Cons.prems(2)
    by auto
  show ?case
    by (intro exI [of _ p2] exI [of _ "(ptr c, On_body a (int (length d))) # evs"]
        exI [of _ "Suc (Suc k)"]) (use p2 sl evs run1 run2 in simp)
qed



section \<open>Malformed sizes\<close>

lemma execute_stalled:
  assumes "state p = S_BODY_CHUNKED_DATA" "remaining p = NaN"
  shows "\<exists>pos. execute_loop (Suc n) c p i tr = Some (Return OK (p\<lparr>errorPos := pos\<rparr>) tr)"
  using assms
  by (auto simp: execute_step_def step_chunked_data_def deliver_def js_eq0_def return_at_def Let_def)

lemma feed_stalled:
  assumes "state p = S_BODY_CHUNKED_DATA" "remaining p = NaN"
  shows "\<exists>p'. feed e h bs p tr = Some (p', tr) \<and> state p' = S_BODY_CHUNKED_DATA \<and> remaining p' = NaN"
  using assms
proof (induction bs arbitrary: p)
  case Nil
  then show ?case by simp
next
  case (Cons b bs)
  obtain bp d where b: "b = (bp, d)" by fastforce
  let ?c = "\<lparr>env = e, ptr = h, bufPtr = bp, buf = d\<rparr>"
  have lf: "loop_fuel ?c = Suc (2 * length d + 2)" by (simp add: loop_fuel_def)
  obtain pos where "execute_loop (loop_fuel ?c) ?c p 0 tr = Some (Return OK (p\<lparr>errorPos := pos\<rparr>) tr)"
    using execute_stalled [OF Cons.prems] unfolding lf by blast
  then show ?case using Cons.IH [of "p\<lparr>errorPos := pos\<rparr>"] Cons.prems by (simp add: b)
qed

text \<open>A chunk-size line that is not a hexadecimal number silently parks the parser:
  \<open>parseInt\<close> gives \<open>NaN\<close>, which is neither 0 nor positive. That call and every later one, on
  whatever buffers, is answered with \<open>OK\<close> and no callback at all: the stream neither advances nor
  fails.\<close>

theorem bad_chunk_size_stalls:
  assumes "state p = S_BODY_CHUNKED_SIZE" and "findCRLF d 0 (length d) = Some lineEnd"
    and "parse_int (js_trim (drop_extension (decodeAscii d 0 (int lineEnd)))) 16 = NaN"
  shows "\<exists>p'. feed e h ((bp, d) # bs) p tr = Some (p', tr)
     \<and> state p' = S_BODY_CHUNKED_DATA \<and> remaining p' = NaN"
proof -
  let ?c = "\<lparr>env = e, ptr = h, bufPtr = bp, buf = d\<rparr>"
  let ?p = "p\<lparr>chunkSize := NaN, state := S_BODY_CHUNKED_DATA, remaining := NaN\<rparr>"
  have len: "0 < length d" using findCRLF_Some [OF assms(2)] by linarith
  have s: "execute_step ?c p 0 tr = Continue ?p (lineEnd + 2) tr"
    using assms by (simp add: execute_step_def step_chunked_size_def js_eq0_def Let_def)
  have lf: "loop_fuel ?c = Suc (Suc (2 * length d + 1))" by (simp add: loop_fuel_def)
  obtain pos where r: "execute_loop (Suc (2 * length d + 1)) ?c ?p (lineEnd + 2) tr
      = Some (Return OK (?p\<lparr>errorPos := pos\<rparr>) tr)"
    using execute_stalled [of ?p] by fastforce
  have "execute_loop (loop_fuel ?c) ?c p 0 tr = Some (Return OK (?p\<lparr>errorPos := pos\<rparr>) tr)"
    unfolding lf execute_loop.simps(2) [of "Suc _"] using s r len
    by (simp del: execute_loop.simps)
  then show ?thesis using feed_stalled [of "?p\<lparr>errorPos := pos\<rparr>" e h bs tr] by simp
qed

theorem bad_chunk_size_stalls_witness:
  "\<exists>p'. feed (\<lambda>_ _. Some 0) 8192 [(4096, bytes_of ''zz'' @ [13, 10]), (5000, [1, 2])]
      ((new_parser 2)\<lparr>state := S_BODY_CHUNKED_SIZE\<rparr>) [] = Some (p', []) \<and> remaining p' = NaN"
proof -
  have f: "findCRLF (bytes_of ''zz'' @ [13, 10]) 0 (length (bytes_of ''zz'' @ [13, 10])) = Some 2"
    by code_simp
  have n: "parse_int (js_trim (drop_extension (decodeAscii (bytes_of ''zz'' @ [13, 10]) 0 (int 2)))) 16 = NaN"
    by code_simp
  show ?thesis
    using bad_chunk_size_stalls [of "(new_parser 2)\<lparr>state := S_BODY_CHUNKED_SIZE\<rparr>", OF _ f n] by fastforce
qed

section \<open>Header blocks\<close>

definition encode_header :: "string \<times> string \<Rightarrow> 8 word list" where
  "encode_header h = bytes_of (fst h) @ [58, 32] @ bytes_of (snd h) @ [13, 10]"

definition encode_headers :: "(string \<times> string) list \<Rightarrow> 8 word list" where
  "encode_headers hs = concat (map encode_header hs) @ [13, 10]"

text \<open>A name without colon or carriage return, a value without carriage return or leading space.\<close>

definition header_ok :: "string \<times> string \<Rightarrow> bool" where
  "header_ok h \<longleftrightarrow> list_all (\<lambda>x. code x \<noteq> 58 \<and> code x \<noteq> 13) (fst h) \<and> fst h \<noteq> []
     \<and> list_all (\<lambda>x. code x \<noteq> 13) (snd h) \<and> (snd h \<noteq> [] \<longrightarrow> code (hd (snd h)) \<noteq> 32)"

text \<open>What the parser remembers of the headers: one \<open>track_header\<close> per line.\<close>

definition track_headers :: "(string \<times> string) list \<Rightarrow> parser \<Rightarrow> parser" where
  "track_headers hs p = fold (\<lambda>h. track_header (js_lower (fst h)) (js_trim (js_lower (snd h)))) hs p"

text \<open>The text of the slice a header callback is told about.\<close>

fun header_text :: "ctx \<Rightarrow> call \<Rightarrow> string" where
  "header_text c (h, On_header_field a n) = decodeAscii (buf c) (a - bufPtr c) (a - bufPtr c + n)"
| "header_text c (h, On_header_value a n) = decodeAscii (buf c) (a - bufPtr c) (a - bufPtr c + n)"
| "header_text c x = []"

lemma skip_one_space:
  assumes "d = pre @ 32 # x # suf" "x \<noteq> 32"
  shows "skip_spaces d (length pre) = length pre + 1"
proof -
  have "skip_spaces d (length pre + 1) = length pre + 1"
    by (subst skip_spaces.simps) (simp add: assms nth_append)
  then show ?thesis by (subst skip_spaces.simps) (simp add: assms)
qed

lemma execute_header:
  assumes env: "\<And>t x. env c t x = Some 0" and b: "buf c = pre @ encode_header h @ suf"
    and h: "header_ok h" and st: "state p = S_HEADER_FIELD"
  shows "\<exists>a1 a2. header_text c (ptr c, On_header_field a1 (int (length (fst h)))) = fst h
     \<and> header_text c (ptr c, On_header_value a2 (int (length (snd h)))) = snd h
     \<and> execute_step c p (length pre) tr
        = Continue (track_headers [h] p) (length (pre @ encode_header h))
            (tr @ [(ptr c, On_header_field a1 (int (length (fst h)))),
                   (ptr c, On_header_value a2 (int (length (snd h))))])"
proof -
  obtain f v where hv: "h = (f, v)" by fastforce
  have fk: "\<And>x. x \<in> set f \<Longrightarrow> code x \<noteq> 58 \<and> code x \<noteq> 13" and fne: "f \<noteq> []"
    and vk: "\<And>x. x \<in> set v \<Longrightarrow> code x \<noteq> 13" and vh: "v \<noteq> [] \<Longrightarrow> code (hd v) \<noteq> 32"
    using h by (auto simp: header_ok_def hv list_all_iff)
  let ?pre = "pre @ bytes_of f @ [58, 32]"
  have b1: "buf c = pre @ bytes_of f @ 58 # (32 # bytes_of v @ 13 # 10 # suf)"
    and b2: "buf c = ?pre @ bytes_of v @ 13 # 10 # suf"
    using b by (simp_all add: encode_header_def hv)
  have first: "buf c ! length pre \<noteq> 0x0d"
    using fne fk [of "hd f"] by (cases f) (auto simp: b1 nth_append bytes_of_def)
  have col: "findByte (buf c) 0x3a (length pre) (bufLen c) = Some (length pre + length f)"
    using findByte_append [OF b1] fk by simp
  obtain x suf' where x: "bytes_of v @ 13 # 10 # suf = x # suf'" "x \<noteq> 32"
    using vh by (cases v) (auto simp: bytes_of_def)
  have sp: "skip_spaces (buf c) (length pre + length f + 1) = length ?pre"
    using skip_one_space [of "buf c" "pre @ bytes_of f @ [58]" x suf'] b1 x by simp
  have ve: "findCRLF (buf c) (length ?pre) (bufLen c) = Some (length ?pre + length v)"
    using findCRLF_append [OF b2] vk by simp
  have df: "decodeAscii (buf c) (int (length pre)) (int (length pre) + int (length f)) = f"
    using decodeAscii_append [of "buf c" pre f] b1 by simp
  have dv: "decodeAscii (buf c) (int (length ?pre)) (int (length ?pre) + int (length v)) = v"
    using decodeAscii_append [OF b2] .
  show ?thesis
    by (intro exI [of _ "bufPtr c + int (length pre)"] exI [of _ "bufPtr c + int (length ?pre)"])
      (use first col sp ve df dv st env in
        \<open>simp add: execute_step_def step_header_field_def header_value_def call_def hv
           encode_header_def track_headers_def algebra_simps\<close>)
qed

lemma state_track_headers [simp]: "state (track_headers hs p) = state p"
  by (induction hs arbitrary: p) (simp_all add: track_headers_def)

lemma execute_headers:
  assumes env: "\<And>t x. env c t x = Some 0"
  shows "buf c = pre @ concat (map encode_header hs) @ suf \<Longrightarrow> list_all header_ok hs \<Longrightarrow>
     state p = S_HEADER_FIELD \<Longrightarrow> \<exists>evs. map (header_text c) evs = concat (map (\<lambda>h. [fst h, snd h]) hs)
       \<and> (\<forall>n. execute_loop (length hs + n) c p (length pre) tr
            = execute_loop n c (track_headers hs p) (length (pre @ concat (map encode_header hs)))
                (tr @ evs))"
proof (induction hs arbitrary: pre p tr)
  case Nil
  then show ?case by (intro exI [of _ "[]"]) (simp add: track_headers_def)
next
  case (Cons h hs)
  have b: "buf c = pre @ encode_header h @ (concat (map encode_header hs) @ suf)"
    and b': "buf c = (pre @ encode_header h) @ concat (map encode_header hs) @ suf"
    using Cons.prems(1) by simp_all
  obtain x y where t: "header_text c x = fst h" "header_text c y = snd h"
    and s: "execute_step c p (length pre) tr
        = Continue (track_headers [h] p) (length (pre @ encode_header h)) (tr @ [x, y])"
    using execute_header [OF env b _ Cons.prems(3), of tr] Cons.prems(2) by auto
  have i: "length pre < bufLen c" using b by (simp add: encode_header_def)
  obtain evs where evs: "map (header_text c) evs = concat (map (\<lambda>h. [fst h, snd h]) hs)"
    and run: "\<And>n. execute_loop (length hs + n) c (track_headers [h] p)
            (length (pre @ encode_header h)) (tr @ [x, y])
          = execute_loop n c (track_headers hs (track_headers [h] p))
              (length ((pre @ encode_header h) @ concat (map encode_header hs))) ((tr @ [x, y]) @ evs)"
    using Cons.IH [OF b', of "track_headers [h] p" "tr @ [x, y]"] Cons.prems by auto
  have tk: "track_headers hs (track_headers [h] p) = track_headers (h # hs) p"
    by (simp add: track_headers_def)
  show ?case
    by (intro exI [of _ "x # y # evs"]) (use t evs s i run tk in simp)
qed

section \<open>A whole response\<close>

text \<open>What the status line leaves behind: the message fields reset, the status not recorded.\<close>

definition after_status_line :: "parser \<Rightarrow> parser" where
  "after_status_line p = p\<lparr>state := S_HEADER_FIELD, chunked := False, contentLength := Num (-1),
     upgrade := False, shouldKeepAlive := True\<rparr>"

lemma execute_status_line:
  assumes "buf c = bytes_of (CHR ''H'' # line) @ 13 # 10 # suf" "list_all (\<lambda>x. code x \<noteq> 13) line"
    and "state p = S_START"
  shows "execute_loop (Suc (Suc n)) c p 0 tr
       = execute_loop n c (after_status_line p) (Suc (Suc (Suc (length line)))) tr"
proof -
  have h0: "buf c ! 0 = 0x48" by (simp add: assms(1) bytes_of_def code_def)
  have cr: "\<And>x. x \<in> set (CHR ''H'' # line) \<Longrightarrow> code x \<noteq> 13"
    using assms(2) by (auto simp: list_all_iff code_def)
  have e: "findCRLF (buf c) 0 (bufLen c) = Some (length line + 1)"
    using findCRLF_append [of "buf c" "[]" "CHR ''H'' # line" suf, OF _ cr] assms(1) by simp
  have "hd (decodeAscii (buf c) (- 1) (int (length line + 1))) \<noteq> CHR ''H''"
    by (subst decodeAscii_Cons) (auto simp: ascii_at_def)
  then have m: "match_status_line (decodeAscii (buf c) (- 1) (int (length line + 1))) = None"
    by (rule match_status_line_not_H)
  have l: "bufLen c = length line + 3 + length suf" using assms(1) by simp
  show ?thesis
    using assms(3) h0 e m l
    by (simp add: execute_step_def step_start_def step_res_h_def after_status_line_def Let_def)
qed

text \<open>A complete response with a positive \<open>Content-Length\<close>, in one buffer with at least one byte
  after it, is reported callback by callback: the names and values of all headers in order,
  \<open>wasm_on_headers_complete\<close> once (with the status code the parser already had, 0 for a new
  one), the body as one slice, then \<open>wasm_on_message_complete\<close>; the parser is ready for the next
  message.\<close>

theorem response_reported:
  assumes env: "\<And>t x. env c t x = Some 0"
    and b: "buf c = bytes_of (CHR ''H'' # line) @ 13 # 10 # encode_headers hs @ body @ rest"
    and line: "list_all (\<lambda>x. code x \<noteq> 13) line" and hs: "list_all header_ok hs"
    and ne: "body \<noteq> []" "rest \<noteq> []"
    and st: "state p = S_START"
    and q: "q = track_headers hs (after_status_line p)" "\<not> upgrade q" "\<not> chunked q"
           "contentLength q = Num (int (length body))"
  shows "\<exists>p' evs a. execute_loop (loop_fuel c) c p 0 tr = Some (Return OK p' (tr @ evs @
            [(ptr c, On_headers_complete (statusCode q) 0 (if shouldKeepAlive q then 1 else 0)),
             (ptr c, On_body a (int (length body))), (ptr c, On_message_complete)]))
     \<and> map (header_text c) evs = concat (map (\<lambda>h. [fst h, snd h]) hs)
     \<and> body_slice c (ptr c, On_body a (int (length body))) = body \<and> state p' = S_START"
proof -
  let ?pre = "bytes_of (CHR ''H'' # line) @ [13, 10]"
  let ?hd = "?pre @ concat (map encode_header hs)"
  let ?i = "length ?hd + 2"
  have b1: "buf c = ?pre @ concat (map encode_header hs) @ (13 # 10 # body @ rest)"
    using b by (simp add: encode_headers_def)
  have b2: "buf c = (?hd @ [13, 10]) @ body @ rest" using b1 by simp
  obtain evs where evs: "map (header_text c) evs = concat (map (\<lambda>h. [fst h, snd h]) hs)"
    and run: "\<And>n. execute_loop (length hs + n) c (after_status_line p) (length ?pre) tr
        = execute_loop n c q (length ?hd) (tr @ evs)"
    using execute_headers [OF env b1 hs, of "after_status_line p" tr] q(1)
    by (auto simp: after_status_line_def)
  have sq: "state q = S_HEADER_FIELD" by (simp add: q(1) after_status_line_def)
  let ?q1 = "q\<lparr>state := S_HEADERS_DONE\<rparr>"
  have s1: "execute_step c q (length ?hd) (tr @ evs) = Continue ?q1 ?i (tr @ evs)"
    using sq by (simp add: execute_step_def step_header_field_def b1 nth_append)
  let ?e = "On_headers_complete (statusCode q) 0 (if shouldKeepAlive q then 1 else 0)"
  let ?tr2 = "(tr @ evs) @ [(ptr c, ?e)]"
  let ?q2 = "q\<lparr>state := S_BODY_IDENTITY, remaining := Num (int (length body))\<rparr>"
  have s2: "execute_step c ?q1 ?i (tr @ evs) = Continue ?q2 ?i ?tr2"
    using q ne(1) by (simp add: execute_step_def step_headers_done_def call_def env Let_def)
  let ?a = "bufPtr c + int ?i"
  let ?tr3 = "?tr2 @ [(ptr c, On_body ?a (int (length body)))]"
  let ?q3 = "q\<lparr>state := S_COMPLETE, remaining := Num 0\<rparr>"
  have len: "bufLen c = ?i + length body + length rest" using b1 by simp
  have s3: "execute_step c ?q2 ?i ?tr2 = Continue ?q3 (?i + length body) ?tr3"
    using len ne by (simp add: execute_step_def step_body_identity_def deliver_def call_def env
        js_eq0_def Let_def)
  let ?q4 = "q\<lparr>state := S_START, remaining := Num 0, errorPos := bufPtr c + int (?i + length body)\<rparr>"
  have s4: "execute_step c ?q3 (?i + length body) ?tr3
      = Return OK ?q4 (?tr3 @ [(ptr c, On_message_complete)])"
    by (simp add: execute_step_def step_complete_def call_def env return_at_def)
  have i: "length ?hd < bufLen c" "?i < bufLen c" "?i + length body < bufLen c"
    using len ne by (auto simp del: length_append)
  have run4: "execute_loop 4 c q (length ?hd) (tr @ evs)
      = Some (Return OK ?q4 (?tr3 @ [(ptr c, On_message_complete)]))"
    using i s1 s2 s3 s4 by (simp add: eval_nat_numeral del: length_append)
  have "execute_loop (Suc (Suc (length hs + 4))) c p 0 tr
      = execute_loop (length hs + 4) c (after_status_line p) (length ?pre) tr"
    by (subst execute_status_line [OF b line st]) simp
  with run [of 4] run4 have "execute_loop (Suc (Suc (length hs + 4))) c p 0 tr
      = Some (Return OK ?q4 (?tr3 @ [(ptr c, On_message_complete)]))"
    by (simp only:)
  then have "execute_loop (loop_fuel c) c p 0 tr
      = Some (Return OK ?q4 (?tr3 @ [(ptr c, On_message_complete)]))"
    by (rule execute_loop_fuel [rotated]) (simp add: body_ok_def st)
  moreover have "drop ?i (buf c) = body @ rest"
    unfolding b2 by (rule drop_exact) simp
  then have "body_slice c (ptr c, On_body ?a (int (length body))) = body"
    by (simp only: body_slice.simps add_diff_cancel_left' nat_int) simp
  ultimately show ?thesis
    using evs by (intro exI [of _ ?q4] exI [of _ evs] exI [of _ ?a]) simp
qed

theorem response_reported_witness:
  "\<exists>p' tr. execute_loop
       (loop_fuel \<lparr>env = \<lambda>_ _. Some 0, ptr = 8192, bufPtr = 4096,
          buf = bytes_of ''HTTP/1.1 200 OK'' @ 13 # 10
            # encode_headers [(''Content-Length'', ''2'')] @ [104, 105] @ [0]\<rparr>)
       \<lparr>env = \<lambda>_ _. Some 0, ptr = 8192, bufPtr = 4096,
          buf = bytes_of ''HTTP/1.1 200 OK'' @ 13 # 10
            # encode_headers [(''Content-Length'', ''2'')] @ [104, 105] @ [0]\<rparr>
       (new_parser 2) 0 [] = Some (Return OK p' tr) \<and> state p' = S_START"
proof -
  let ?hs = "[(''Content-Length'', ''2'')]"
  let ?c = "\<lparr>env = \<lambda>_ _. Some 0, ptr = 8192, bufPtr = 4096,
    buf = bytes_of ''HTTP/1.1 200 OK'' @ 13 # 10 # encode_headers ?hs @ [104, 105] @ [0]\<rparr>"
  let ?q = "track_headers ?hs (after_status_line (new_parser 2))"
  have l: "list_all (\<lambda>x. code x \<noteq> 13) ''TTP/1.1 200 OK''" by code_simp
  have h: "list_all header_ok ?hs" by code_simp
  have s: "state (new_parser 2) = S_START" by (simp add: new_parser_def)
  have q: "\<not> upgrade ?q" "\<not> chunked ?q" "contentLength ?q = Num (int (length [104, 105 :: 8 word]))"
    by code_simp+
  show ?thesis
    using response_reported [of ?c "''TTP/1.1 200 OK''" ?hs "[104, 105]" "[0]" "new_parser 2" _ "[]",
        OF _ _ l h _ _ s refl q]
    by fastforce
qed

end
