(* ===== verification/Js_Object.thy ===== *)
theory Js_Object
  imports Js_Prelude "HOL-Library.AList" "HOL-Library.Code_Target_Nat"
begin

text \<open>
  The untyped values the terminal front ends pass around: JavaScript values, plain objects
  as association lists in insertion order, truthiness, the nullish default and the object
  spread; strings of arbitrary 16-bit code units; rational numbers for pixel arithmetic,
  with \<open>Number.isFinite\<close>, \<open>Math.floor\<close> and \<open>Math.round\<close>; and \<open>parseFloat\<close>.
\<close>

section \<open>Values and objects\<close>

datatype jsval = Undef | Null | Bool bool | Str string | Number rat | Arr "jsval list"

text \<open>An object literal: its own properties in insertion order, one entry per key.\<close>

type_synonym obj = "(string \<times> jsval) list"

definition getp :: "obj \<Rightarrow> string \<Rightarrow> jsval" where
  "getp ob k = (case map_of ob k of Some v \<Rightarrow> v | None \<Rightarrow> Undef)"

definition set_prop :: "string \<Rightarrow> jsval \<Rightarrow> obj \<Rightarrow> obj" where
  "set_prop = AList.update"

text \<open>\<open>{...a, ...b}\<close>: the properties of \<open>b\<close> are assigned in order onto a copy of \<open>a\<close>.\<close>

definition spread :: "obj \<Rightarrow> obj \<Rightarrow> obj" where
  "spread a b = fold (\<lambda>(k, v). set_prop k v) b a"

fun truthy :: "jsval \<Rightarrow> bool" where
  "truthy Undef = False"
| "truthy Null = False"
| "truthy (Bool b) = b"
| "truthy (Str s) = (s \<noteq> [])"
| "truthy (Number r) = (r \<noteq> 0)"
| "truthy (Arr xs) = True"

text \<open>\<open>a || b\<close> and \<open>a ?? b\<close>.\<close>

definition js_or :: "jsval \<Rightarrow> jsval \<Rightarrow> jsval" where
  "js_or a b = (if truthy a then a else b)"

definition nullish :: "jsval \<Rightarrow> jsval \<Rightarrow> jsval" where
  "nullish a b = (if a = Undef \<or> a = Null then b else a)"

definition is_array :: "jsval \<Rightarrow> bool" where
  "is_array v = (case v of Arr _ \<Rightarrow> True | _ \<Rightarrow> False)"

lemma getp_set_prop [simp]: "getp (set_prop k v ob) j = (if j = k then v else getp ob j)"
  by (simp add: getp_def set_prop_def update_conv')

lemma keys_set_prop [simp]: "fst ` set (set_prop k v ob) = insert k (fst ` set ob)"
  by (simp add: set_prop_def dom_update)

lemma distinct_set_prop [intro]:
  "distinct (map fst ob) \<Longrightarrow> distinct (map fst (set_prop k v ob))"
  by (simp add: set_prop_def distinct_update)

lemma spread_Nil [simp]: "spread a [] = a"
  by (simp add: spread_def)

lemma spread_Cons [simp]: "spread a ((k, v) # b) = spread (set_prop k v a) b"
  by (simp add: spread_def)

lemma getp_Nil [simp]: "getp [] j = Undef"
  by (simp add: getp_def)

lemma getp_Cons [simp]: "getp ((k, v) # ob) j = (if k = j then v else getp ob j)"
  by (simp add: getp_def)

text \<open>The later object wins on the keys it has.\<close>

lemma getp_spread:
  "distinct (map fst b) \<Longrightarrow>
   getp (spread a b) j = (if j \<in> fst ` set b then getp b j else getp a j)"
proof (induction b arbitrary: a)
  case Nil
  then show ?case by simp
next
  case (Cons kv b)
  then show ?case by (cases kv) auto
qed

lemma distinct_spread [intro]:
  "distinct (map fst a) \<Longrightarrow> distinct (map fst (spread a b))"
proof (induction b arbitrary: a)
  case (Cons kv b)
  then show ?case by (cases kv) (simp add: distinct_set_prop)
qed simp

section \<open>Strings of 16-bit code units\<close>

type_synonym jstr = "16 word list"

text \<open>A string literal of the sources.\<close>

definition js :: "string \<Rightarrow> jstr" where
  "js s = map (\<lambda>c. word_of_nat (of_char c)) s"

lemma js_append [simp]: "js (s @ t) = js s @ js t"
  by (simp add: js_def)

section \<open>Numbers\<close>

text \<open>
  A numeric argument: \<^term>\<open>None\<close> is \<open>NaN\<close> or an infinity, the values
  \<open>Number.isFinite\<close> rejects.
\<close>

type_synonym num_arg = "rat option"

definition js_round :: "rat \<Rightarrow> int" where
  "js_round x = \<lfloor>x + 1 / 2\<rfloor>"

definition clamp :: "'a::linorder \<Rightarrow> 'a \<Rightarrow> 'a \<Rightarrow> 'a" where
  "clamp lo hi x = max lo (min hi x)"

lemma clamp_lower [simp]: "lo \<le> clamp lo hi x"
  by (simp add: clamp_def)

lemma clamp_upper [simp]: "lo \<le> hi \<Longrightarrow> clamp lo hi x \<le> hi"
  by (simp add: clamp_def)

lemma clamp_id: "lo \<le> x \<Longrightarrow> x \<le> hi \<Longrightarrow> clamp lo hi x = x"
  by (simp add: clamp_def)

lemma js_round_int [simp]: "js_round (of_int n) = n"
  unfolding js_round_def by (simp add: floor_eq_iff)

lemma js_round_mono: "x \<le> y \<Longrightarrow> js_round x \<le> js_round y"
  by (simp add: js_round_def floor_mono)

section \<open>parseFloat\<close>

text \<open>
  \<open>Number.parseFloat\<close>: white space, a sign, \<open>Infinity\<close> or the longest decimal literal
  (digits, a fraction, an exponent with at least one digit). \<^term>\<open>None\<close> is a result
  \<open>Number.isFinite\<close> rejects.
\<close>

definition dec_value :: "string \<Rightarrow> nat" where
  "dec_value ds = digits_value 10 0 ds"

definition exp_part :: "string \<Rightarrow> int" where
  "exp_part s =
     (if s \<noteq> [] \<and> (hd s = CHR ''e'' \<or> hd s = CHR ''E'') then
        let t = tl s;
            neg = (t \<noteq> [] \<and> hd t = CHR ''-'');
            ds = takeWhile js_digit
                   (if t \<noteq> [] \<and> (hd t = CHR ''-'' \<or> hd t = CHR ''+'') then tl t else t)
        in (if neg then - int (dec_value ds) else int (dec_value ds))
      else 0)"

definition pow10 :: "int \<Rightarrow> rat" where
  "pow10 e = (if 0 \<le> e then 10 ^ nat e else 1 / 10 ^ nat (- e))"

definition parse_float :: "string \<Rightarrow> num_arg" where
  "parse_float str =
     (let s = js_trim_start str;
          neg = (s \<noteq> [] \<and> hd s = CHR ''-'');
          s = (if s \<noteq> [] \<and> (hd s = CHR ''-'' \<or> hd s = CHR ''+'') then tl s else s);
          ip = takeWhile js_digit s;
          r = dropWhile js_digit s;
          fp = (if r \<noteq> [] \<and> hd r = CHR ''.'' then takeWhile js_digit (tl r) else []);
          r' = (if r \<noteq> [] \<and> hd r = CHR ''.'' then dropWhile js_digit (tl r) else r)
      in if ip = [] \<and> fp = [] then None
         else let v = of_nat (dec_value (ip @ fp)) / 10 ^ length fp * pow10 (exp_part r')
              in Some (if neg then - v else v))"

end
