(* ===== verification/Gw_Color.thy ===== *)
theory Gw_Color
  imports Js_Object
begin

text \<open>
  The colour handling of the ghostty \<open>Terminal\<close> class: CSS colour strings to
  \<open>0xRRGGBB\<close> integers and the colour configuration handed to the WebAssembly core.
  Named colours go through the browser's canvas, which is the parameter \<open>canvas\<close>
  (what \<open>fillStyle\<close> reads back after the string is assigned to it; \<^term>\<open>None\<close> when no 2D
  context can be had).
\<close>

record rgb =
  red :: nat
  green :: nat
  blue :: nat

section \<open>Hexadecimal notation\<close>

definition js_hex_digit :: "char \<Rightarrow> bool" where
  "js_hex_digit c = (digit_value 16 c \<noteq> None)"

definition hex2 :: "string \<Rightarrow> nat" where
  "hex2 s = digits_value 16 0 s"

text \<open>\<open>t.split("").map((e) => e + e).join("")\<close>\<close>

definition double_chars :: "string \<Rightarrow> string" where
  "double_chars t = concat (map (\<lambda>c. [c, c]) t)"

definition parse_hex_color :: "string \<Rightarrow> rgb option" where
  "parse_hex_color d =
     (let w = (if length d = 3 \<or> length d = 4 then double_chars (take 3 d) else take 6 d)
      in if length w \<noteq> 6 \<or> \<not> list_all js_hex_digit w then None
         else Some \<lparr>red = hex2 (take 2 w), green = hex2 (take 2 (drop 2 w)),
                    blue = hex2 (take 2 (drop 4 w))\<rparr>)"

section \<open>Functional notation\<close>

definition parseCssColorChannel :: "string \<Rightarrow> nat" where
  "parseCssColorChannel a =
     (let g = (if a \<noteq> [] \<and> last a = CHR ''%'' then map_option (\<lambda>v. v / 100 * 255) (parse_float a)
               else parse_float a)
      in case g of Some v \<Rightarrow> nat (clamp 0 255 (js_round v)) | None \<Rightarrow> 0)"

text \<open>The group of \<open>/^rgba?\(([^)]+)\)$/i\<close>.\<close>

definition rgb_body :: "string \<Rightarrow> string option" where
  "rgb_body g =
     (let l = js_lower g;
          r = (if prefix ''rgba('' l then Some (drop 5 g)
               else if prefix ''rgb('' l then Some (drop 4 g) else None)
      in case r of
           Some b \<Rightarrow> if b \<noteq> [] \<and> last b = CHR '')'' \<and> butlast b \<noteq> [] \<and> CHR '')'' \<notin> set (butlast b)
                     then Some (butlast b) else None
         | None \<Rightarrow> None)"

definition parse_rgb_color :: "string \<Rightarrow> rgb option" where
  "parse_rgb_color g =
     (case rgb_body g of
        Some b \<Rightarrow>
          let d = map js_trim (js_split (CHR '','') b)
          in if length d \<ge> 3
             then Some \<lparr>red = parseCssColorChannel (d ! 0), green = parseCssColorChannel (d ! 1),
                        blue = parseCssColorChannel (d ! 2)\<rparr>
             else None
      | None \<Rightarrow> None)"

section \<open>parseCssColor\<close>

definition black_literal :: "string \<Rightarrow> bool" where
  "black_literal g =
     (js_lower g = ''black'' \<or> g \<in> {''#000'', ''#0000'', ''#000000'', ''#00000000''})"

text \<open>
  The recursion of the code goes through the canvas, whose serialisation of a colour starts
  with \<open>#\<close> or \<open>rgba(\<close>, so the second call does not come back here. The fuel bounds it.
\<close>

fun parseCssColor :: "nat \<Rightarrow> (string \<Rightarrow> string option) \<Rightarrow> string \<Rightarrow> rgb option" where
  "parseCssColor 0 canvas a = None"
| "parseCssColor (Suc n) canvas a =
     (let g = js_trim a
      in if prefix ''#'' g then parse_hex_color (drop 1 g)
         else case parse_rgb_color g of
           Some c \<Rightarrow> Some c
         | None \<Rightarrow>
             (case canvas g of
                None \<Rightarrow> None
              | Some i \<Rightarrow>
                  if i = ''#000000'' then
                    (if black_literal g then Some \<lparr>red = 0, green = 0, blue = 0\<rparr> else None)
                  else parseCssColor n canvas i))"

text \<open>\<open>g.r << 16 | g.g << 8 | g.b\<close>; an absent value is 0.\<close>

definition rgb_hex :: "rgb \<Rightarrow> nat" where
  "rgb_hex c = ((push_bit 16 (red c)) OR (push_bit 8 (green c))) OR blue c"

definition parseColorToHex :: "(string \<Rightarrow> string option) \<Rightarrow> jsval \<Rightarrow> nat" where
  "parseColorToHex canvas v =
     (case v of
        Str s \<Rightarrow> if s = [] then 0
                 else (case parseCssColor 2 canvas s of Some c \<Rightarrow> rgb_hex c | None \<Rightarrow> 0)
      | _ \<Rightarrow> 0)"

section \<open>The configuration of the core\<close>

record colors =
  scrollbackLimit :: "nat option"
  fgColor :: nat
  bgColor :: nat
  cursorColor :: nat
  palette :: "nat list"

definition palette_keys :: "string list" where
  "palette_keys =
     [''black'', ''red'', ''green'', ''yellow'', ''blue'', ''magenta'', ''cyan'', ''white'',
      ''brightBlack'', ''brightRed'', ''brightGreen'', ''brightYellow'', ''brightBlue'',
      ''brightMagenta'', ''brightCyan'', ''brightWhite'']"

definition buildThemePalette :: "(string \<Rightarrow> string option) \<Rightarrow> obj \<Rightarrow> nat list" where
  "buildThemePalette canvas th = map (\<lambda>k. parseColorToHex canvas (getp th k)) palette_keys"

definition buildThemeColorsConfig :: "(string \<Rightarrow> string option) \<Rightarrow> obj \<Rightarrow> colors" where
  "buildThemeColorsConfig canvas th =
     \<lparr>scrollbackLimit = None,
      fgColor = parseColorToHex canvas (getp th ''foreground''),
      bgColor = parseColorToHex canvas (getp th ''background''),
      cursorColor = parseColorToHex canvas (getp th ''cursor''),
      palette = buildThemePalette canvas th\<rparr>"

text \<open>\<^term>\<open>None\<close> for the theme is an absent \<open>options.theme\<close>.\<close>

definition buildWasmConfig ::
  "(string \<Rightarrow> string option) \<Rightarrow> obj option \<Rightarrow> nat \<Rightarrow> colors option" where
  "buildWasmConfig canvas th sb =
     (if th = None \<and> sb = 10000 then None
      else Some ((buildThemeColorsConfig canvas (case th of Some t \<Rightarrow> t | None \<Rightarrow> []))
                   \<lparr>scrollbackLimit := Some sb\<rparr>))"

section \<open>Channel bounds\<close>

lemma digit_value_lt: "digit_value r c = Some d \<Longrightarrow> d < r"
  by (auto simp: digit_value_def Let_def split: option.splits if_splits)

lemma digits_value_lt: "digits_value 16 acc s < (acc + 1) * 16 ^ length s"
proof (induction s arbitrary: acc)
  case Nil
  then show ?case by simp
next
  case (Cons c s)
  show ?case
  proof (cases "digit_value 16 c")
    case None
    have "acc + 1 \<le> (acc + 1) * 16 ^ length (c # s)" by (simp del: mult_Suc)
    then show ?thesis using None by simp
  next
    case (Some d)
    from digit_value_lt [OF this] have "acc * 16 + d + 1 \<le> (acc + 1) * 16" by simp
    then have "(acc * 16 + d + 1) * 16 ^ length s \<le> ((acc + 1) * 16) * 16 ^ length s"
      by (rule mult_le_mono1)
    with Cons.IH [of "acc * 16 + d"] have
      "digits_value 16 (acc * 16 + d) s < ((acc + 1) * 16) * 16 ^ length s"
      by (rule less_le_trans)
    with Some show ?thesis by (simp add: algebra_simps)
  qed
qed

lemma hex2_le: "length s \<le> 2 \<Longrightarrow> hex2 s \<le> 255"
proof -
  assume "length s \<le> 2"
  then have "(16::nat) ^ length s \<le> 16 ^ 2" by (rule power_increasing) simp
  with digits_value_lt [of 0 s] show ?thesis by (simp add: hex2_def)
qed

definition rgb_ok :: "rgb \<Rightarrow> bool" where
  "rgb_ok c = (red c \<le> 255 \<and> green c \<le> 255 \<and> blue c \<le> 255)"

lemma parse_hex_ok [bound_rules]: "parse_hex_color d = Some c \<Longrightarrow> rgb_ok c"
  by (auto simp: parse_hex_color_def Let_def rgb_ok_def hex2_le split: if_splits)

lemma channel_le [bound_rules]: "parseCssColorChannel a \<le> 255"
  by (auto simp: parseCssColorChannel_def clamp_def Let_def split: option.splits)

lemma parse_rgb_ok [bound_rules]: "parse_rgb_color d = Some c \<Longrightarrow> rgb_ok c"
  by (auto simp: parse_rgb_color_def Let_def rgb_ok_def channel_le split: option.splits if_splits)

lemma parseCssColor_ok [bound_rules]: "parseCssColor n canvas a = Some c \<Longrightarrow> rgb_ok c"
  by (induction n canvas a rule: parseCssColor.induct)
     (auto simp: Let_def rgb_ok_def
           dest: parse_hex_ok parse_rgb_ok split: if_splits option.splits)

lemma or_push_bit:
  fixes a b :: nat
  assumes "b < 2 ^ n"
  shows "push_bit n a OR b = a * 2 ^ n + b"
proof -
  from assms have "take_bit n b = b" by (simp add: take_bit_nat_eq_self_iff)
  moreover have "push_bit n a AND take_bit n b = 0"
    by (rule bit_eqI) (auto simp: bit_simps)
  ultimately have "push_bit n a AND b = 0" by simp
  then have "push_bit n a + b = push_bit n a OR b" by (rule disjunctive_add_eq_or)
  then show ?thesis by (simp add: push_bit_eq_mult)
qed

lemma rgb_hex_sum:
  assumes "rgb_ok c"
  shows "rgb_hex c = red c * 65536 + green c * 256 + blue c"
proof -
  have b: "blue c < 2 ^ 8" and gb: "green c * 2 ^ 8 + blue c < 2 ^ 16"
    using assms by (simp_all add: rgb_ok_def)
  have "rgb_hex c = push_bit 16 (red c) OR (push_bit 8 (green c) OR blue c)"
    by (simp add: rgb_hex_def or.assoc)
  also have "\<dots> = red c * 2 ^ 16 + (green c * 2 ^ 8 + blue c)"
    using or_push_bit [OF b] or_push_bit [OF gb] by simp
  finally show ?thesis by simp
qed

lemma parseColorToHex_lt [bound_rules]: "parseColorToHex canvas v < 2 ^ 24"
proof (cases v)
  case (Str s)
  show ?thesis
  proof (cases "parseCssColor 2 canvas s")
    case (Some c)
    with parseCssColor_ok have "rgb_ok c" by blast
    then show ?thesis using Str Some
      by (simp add: parseColorToHex_def rgb_hex_sum rgb_ok_def)
  qed (simp add: parseColorToHex_def Str)
qed (simp_all add: parseColorToHex_def)

section \<open>Printing a colour and reading it back\<close>

text \<open>The \<open>#rrggbb\<close> form the front ends and the canvas use.\<close>

definition hex_char :: "nat \<Rightarrow> char" where
  "hex_char d = (if d < 10 then char_of (48 + d) else char_of (87 + d))"

definition hex_pair :: "nat \<Rightarrow> string" where
  "hex_pair n = [hex_char (n div 16), hex_char (n mod 16)]"

definition hex_color :: "nat \<Rightarrow> string" where
  "hex_color n = ''#'' @ hex_pair (n div 65536) @ hex_pair (n div 256 mod 256) @ hex_pair (n mod 256)"

lemma digit_value_hex_char: "d < 16 \<Longrightarrow> digit_value 16 (hex_char d) = Some d"
  by (auto simp: digit_value_def hex_char_def code_def Let_def)

lemma hex_char_not_space: "d < 16 \<Longrightarrow> \<not> js_space (hex_char d)"
  by (auto simp: js_space_def hex_char_def code_def)

lemma hex2_hex_pair: "n < 256 \<Longrightarrow> hex2 (hex_pair n) = n"
proof -
  assume "n < 256"
  then have "n div 16 < 16" by (simp add: less_mult_imp_div_less)
  then show ?thesis
    by (simp add: hex2_def hex_pair_def digit_value_hex_char)
qed

lemma hex_pair_digits: "n < 256 \<Longrightarrow> list_all js_hex_digit (hex_pair n)"
  by (simp add: hex_pair_def js_hex_digit_def digit_value_hex_char less_mult_imp_div_less)

lemma length_hex_pair [simp]: "length (hex_pair n) = 2"
  by (simp add: hex_pair_def)

lemma js_trim_hex_color: "js_trim (hex_color n) = hex_color n"
proof -
  have "\<not> js_space (hex_char (n mod 256 mod 16))" by (rule hex_char_not_space) simp
  moreover have "\<not> js_space (CHR ''#'')" by (simp add: js_space_def code_def)
  ultimately show ?thesis by (simp add: js_trim_def hex_color_def hex_pair_def)
qed

lemma parse_hex_pairs:
  assumes "r < 256" "g < 256" "b < 256"
  shows "parse_hex_color (hex_pair r @ hex_pair g @ hex_pair b) = Some \<lparr>red = r, green = g, blue = b\<rparr>"
  using assms hex_pair_digits [of r] hex_pair_digits [of g] hex_pair_digits [of b]
    hex2_hex_pair [of r] hex2_hex_pair [of g] hex2_hex_pair [of b]
  by (simp add: parse_hex_color_def Let_def)

lemma parse_hex_color_print:
  assumes "n < 2 ^ 24"
  shows "parseColorToHex canvas (Str (hex_color n)) = n"
proof -
  let ?c = "\<lparr>red = n div 65536, green = n div 256 mod 256, blue = n mod 256\<rparr>"
  have d: "n div 65536 < 256" using assms by (simp add: less_mult_imp_div_less)
  have "parseCssColor 2 canvas (hex_color n) = Some ?c"
    using d parse_hex_pairs [of "n div 65536" "n div 256 mod 256" "n mod 256"]
    by (simp add: numeral_2_eq_2 js_trim_hex_color Let_def) (simp add: hex_color_def)
  moreover have "hex_color n \<noteq> []" by (simp add: hex_color_def)
  moreover have "rgb_hex ?c = n"
  proof -
    have "k mod 256 \<le> 255" for k :: nat
      using mod_less_divisor [of 256 k] by linarith
    then have "rgb_ok ?c" using d by (simp add: rgb_ok_def)
    then have "rgb_hex ?c = n div 65536 * 65536 + n div 256 mod 256 * 256 + n mod 256"
      by (simp add: rgb_hex_sum)
    also have "\<dots> = (n div 256 div 256 * 256 + n div 256 mod 256) * 256 + n mod 256"
      by (simp add: div_mult2_eq [symmetric])
    also have "\<dots> = n" by (simp only: div_mult_mod_eq)
    finally show ?thesis .
  qed
  ultimately show ?thesis by (simp add: parseColorToHex_def)
qed

end
