(* ===== verification/Gw_Core.thy ===== *)
theory Gw_Core
  imports Gw_Color
begin

text \<open>
  The \<open>GhosttyTerminal\<close> class of \<open>ghostty-web.js\<close>: the JavaScript object that owns one
  terminal of the WebAssembly core. The core itself is a compiled module outside the
  repository, so its state is the type variable \<open>'w\<close> and its exports are the fields of the
  record \<open>core\<close>. What JavaScript keeps beside it (the grid and cell sizes, the cell
  pool and the queue of responses pushed by the \<open>WRITE_PTY\<close> callback) is modelled.
\<close>

type_synonym byte = "8 word"

section \<open>The exports of the core\<close>

text \<open>
  \<open>vt_write\<close> also returns the byte strings the core passed to the \<open>WRITE_PTY\<close> callback
  during the call. \<open>vt_new\<close> is \<^term>\<open>None\<close> when the terminal cannot be created, and
  \<open>vt_set_colors\<close> is the optional export \<open>ghostty_terminal_set_colors\<close>. \<open>can_alloc n w\<close> says whether \<open>ghostty_wasm_alloc_u8_array(n)\<close> returns a
  buffer. \<open>utf8_encode\<close> and \<open>utf8_decode\<close> are the browser's \<open>TextEncoder\<close> and \<open>TextDecoder\<close>.
\<close>

record 'w core =
  vt_new :: "nat \<Rightarrow> nat \<Rightarrow> colors option \<Rightarrow> 'w option"
  vt_set_colors :: "colors \<Rightarrow> 'w \<Rightarrow> 'w"
  vt_write :: "byte list \<Rightarrow> 'w \<Rightarrow> 'w \<times> byte list list"
  vt_resize :: "nat \<Rightarrow> nat \<Rightarrow> nat \<Rightarrow> nat \<Rightarrow> 'w \<Rightarrow> 'w"
  vt_scrollback :: "'w \<Rightarrow> nat"
  vt_mode :: "nat \<Rightarrow> bool \<Rightarrow> 'w \<Rightarrow> bool"
  vt_alternate :: "'w \<Rightarrow> bool"
  vt_mouse :: "'w \<Rightarrow> bool"
  vt_cursor_y :: "'w \<Rightarrow> int"
  can_alloc :: "nat \<Rightarrow> 'w \<Rightarrow> bool"
  utf8_encode :: "jstr \<Rightarrow> byte list"
  utf8_decode :: "byte list \<Rightarrow> jstr"

text \<open>What \<open>write\<close> takes: a string or a \<open>Uint8Array\<close>.\<close>

datatype wdata = Text jstr | Bytes "byte list"

section \<open>The terminal object\<close>

record 'w gt =
  handle :: 'w
  gcols :: nat
  grows :: nat
  cellWidthPx :: nat
  cellHeightPx :: nat
  cellPool :: nat
  pendingResponses :: "byte list list"

definition initCellPool :: "'w gt \<Rightarrow> 'w gt" where
  "initCellPool g =
     (if cellPool g < gcols g * grows g then g\<lparr>cellPool := gcols g * grows g\<rparr> else g)"

definition gt_new :: "nat \<Rightarrow> nat \<Rightarrow> 'w \<Rightarrow> 'w gt" where
  "gt_new c r w = initCellPool \<lparr>handle = w, gcols = c, grows = r, cellWidthPx = 0,
     cellHeightPx = 0, cellPool = 0, pendingResponses = []\<rparr>"

definition gt_write :: "'w core \<Rightarrow> wdata \<Rightarrow> 'w gt \<Rightarrow> 'w gt result" where
  "gt_write core d g =
     (let bs = (case d of Text s \<Rightarrow> utf8_encode core s | Bytes b \<Rightarrow> b)
      in if bs = [] then Inr g
         else if \<not> can_alloc core (length bs) (handle g) then
           Inl (Js_Error ''Failed to allocate terminal write buffer'')
         else let (w, rs) = vt_write core bs (handle g)
              in Inr (g\<lparr>handle := w, pendingResponses := pendingResponses g @ rs\<rparr>))"

definition gt_resize :: "'w core \<Rightarrow> nat \<Rightarrow> nat \<Rightarrow> 'w gt \<Rightarrow> 'w gt" where
  "gt_resize core c r g =
     (if c = gcols g \<and> r = grows g then g
      else initCellPool (g\<lparr>gcols := c, grows := r,
             handle := vt_resize core c r (cellWidthPx g) (cellHeightPx g) (handle g)\<rparr>))"

definition setCellPixelSize :: "'w core \<Rightarrow> num_arg \<Rightarrow> num_arg \<Rightarrow> 'w gt \<Rightarrow> 'w gt" where
  "setCellPixelSize core a b g =
     (case (a, b) of
        (Some x, Some y) \<Rightarrow>
          let i = nat (max 1 (js_round x)); q = nat (max 1 (js_round y))
          in if i = cellWidthPx g \<and> q = cellHeightPx g then g
             else g\<lparr>cellWidthPx := i, cellHeightPx := q,
                    handle := vt_resize core (gcols g) (grows g) i q (handle g)\<rparr>
      | _ \<Rightarrow> g)"

definition gt_setColors :: "'w core \<Rightarrow> colors \<Rightarrow> 'w gt \<Rightarrow> 'w gt" where
  "gt_setColors core c g = g\<lparr>handle := vt_set_colors core c (handle g)\<rparr>"

definition gt_getMode :: "'w core \<Rightarrow> nat \<Rightarrow> bool \<Rightarrow> 'w gt \<Rightarrow> bool" where
  "gt_getMode core n ansi g = vt_mode core n ansi (handle g)"

definition gt_hasBracketedPaste :: "'w core \<Rightarrow> 'w gt \<Rightarrow> bool" where
  "gt_hasBracketedPaste core g = gt_getMode core 2004 False g"

definition gt_hasFocusEvents :: "'w core \<Rightarrow> 'w gt \<Rightarrow> bool" where
  "gt_hasFocusEvents core g = gt_getMode core 1004 False g"

definition gt_scrollback :: "'w core \<Rightarrow> 'w gt \<Rightarrow> nat" where
  "gt_scrollback core g = vt_scrollback core (handle g)"

definition hasResponse :: "'w gt \<Rightarrow> bool" where
  "hasResponse g = (length (pendingResponses g) > 0)"

text \<open>All queued byte strings are joined, decoded at once and the queue is emptied.\<close>

definition readResponse :: "'w core \<Rightarrow> 'w gt \<Rightarrow> jstr option \<times> 'w gt" where
  "readResponse core g =
     (if pendingResponses g = [] then (None, g)
      else (Some (utf8_decode core (concat (pendingResponses g))), g\<lparr>pendingResponses := []\<rparr>))"

text \<open>The SIZE callback: cell sizes are reported only once they are known.\<close>

definition size_report :: "'w gt \<Rightarrow> (nat \<times> nat \<times> nat \<times> nat) option" where
  "size_report g =
     (if cellWidthPx g = 0 \<or> cellHeightPx g = 0 then None
      else Some (grows g, gcols g, cellWidthPx g, cellHeightPx g))"

section \<open>Facts about the object\<close>

text \<open>The pool always has a cell for each position of the grid.\<close>

definition gt_ok :: "'w gt \<Rightarrow> bool" where
  "gt_ok g = (gcols g * grows g \<le> cellPool g)"

lemma initCellPool_ok [inv_rules]: "gt_ok (initCellPool g)"
  by (simp add: gt_ok_def initCellPool_def)

lemma initCellPool_fields [simp]:
  "handle (initCellPool g) = handle g"
  "gcols (initCellPool g) = gcols g"
  "grows (initCellPool g) = grows g"
  "pendingResponses (initCellPool g) = pendingResponses g"
  by (simp_all add: initCellPool_def)

lemma gt_new_fields [simp]:
  "handle (gt_new c r w) = w" "pendingResponses (gt_new c r w) = []"
  "gcols (gt_new c r w) = c" "grows (gt_new c r w) = r"
  by (simp_all add: gt_new_def)

lemma gt_resize_ok [inv_rules]: "gt_ok g \<Longrightarrow> gt_ok (gt_resize core c r g)"
  by (auto simp: gt_resize_def intro: initCellPool_ok)

lemma gt_resize_fields [simp]:
  "gcols (gt_resize core c r g) = c" "grows (gt_resize core c r g) = r"
  "pendingResponses (gt_resize core c r g) = pendingResponses g"
  by (auto simp: gt_resize_def)

lemma setCellPixelSize_ok [inv_rules]: "gt_ok g \<Longrightarrow> gt_ok (setCellPixelSize core a b g)"
  by (auto simp: setCellPixelSize_def gt_ok_def Let_def split: option.splits)

lemma setCellPixelSize_fields [simp]:
  "gcols (setCellPixelSize core a b g) = gcols g"
  "grows (setCellPixelSize core a b g) = grows g"
  "pendingResponses (setCellPixelSize core a b g) = pendingResponses g"
  by (auto simp: setCellPixelSize_def Let_def split: option.splits)

lemma gt_write_ok [inv_rules]: "gt_ok g \<Longrightarrow> gt_write core d g = Inr g' \<Longrightarrow> gt_ok g'"
  by (auto simp: gt_write_def gt_ok_def Let_def split: if_splits prod.splits)

lemma readResponse_twice [simp]: "fst (readResponse core (snd (readResponse core g))) = None"
  by (simp add: readResponse_def)

end
