(* ===== verification/Gw_Terminal.thy ===== *)
theory Gw_Terminal
  imports Gw_Core
begin

text \<open>
  The \<open>Terminal\<close> class of \<open>ghostty-web.js\<close>: writing, responses, titles, resizing, the
  scroll position and its animation, the scrollbar, the render scheduling, suspension and
  the life cycle. Events fired on the emitters and calls of the renderer are logged in
  order in the field \<open>out\<close>; animation frames and timers are flags of the state, and the
  operation a frame runs (\<open>renderTick\<close>, \<open>animateScroll\<close>, \<open>fade_frame\<close>) is a definition of
  its own. Pixel and line positions are rational numbers.
\<close>

section \<open>State\<close>

text \<open>What a listener or the renderer sees.\<close>

datatype tout =
    Fire_Data jstr
  | Fire_Resize nat nat
  | Fire_Bell
  | Fire_Scroll rat
  | Fire_Title jstr
  | Fire_CursorMove
  | Fire_Open
  | Draw bool rat rat
  | Renderer_Resize nat nat
  | Renderer_Clear
  | Renderer_Theme obj
  | Renderer_Cursor string bool
  | Renderer_Scrollbar rat
  | Renderer_Transparency bool
  | Clear_Selection
  | Invalidate_Links
  | Frame_Callback

text \<open>The fields of \<open>options\<close>.\<close>

record topts =
  o_cols :: nat
  o_rows :: nat
  o_cursorBlink :: bool
  o_cursorStyle :: string
  o_theme :: obj
  o_scrollback :: nat
  o_fontSize :: rat
  o_fontFamily :: string
  o_allowTransparency :: bool
  o_convertEol :: bool
  o_disableStdin :: bool
  o_smoothScrollDuration :: rat
  o_scrollbarWidth :: "rat option"

text \<open>A pending animation frame of the scrollbar fade, with its start time.\<close>

datatype fade = Fade_In rat | Fade_Out rat rat

text \<open>The renderer's font and the cell size it measured for it.\<close>

record rmetrics =
  m_fontSize :: rat
  m_fontFamily :: string
  m_width :: rat
  m_height :: rat

text \<open>
  What the browser provides: the size of a cell of a font, the canvas's reading of a
  colour, and the default theme constant of the bundle.
\<close>

record tenv =
  cell_size :: "rat \<Rightarrow> string \<Rightarrow> rat \<times> rat"
  canvas_color :: "string \<Rightarrow> string option"
  default_theme :: obj

record 'w terminal =
  wasmTerm :: "'w gt option"
  renderer :: "rmetrics option"
  has_ghostty :: bool
  has_element :: bool
  canvas :: bool
  listeners :: "(string \<times> string) list"
  attributes :: "(string \<times> string) list"
  options :: topts
  currentTheme :: obj
  cols :: nat
  rows :: nat
  isOpen :: bool
  isDisposed :: bool
  isSuspended :: bool
  forceNextRender :: bool
  currentTitle :: jstr
  viewportY :: rat
  targetViewportY :: rat
  lastCursorY :: int
  animationFrame :: bool
  scrollAnimationFrame :: bool
  scrollAnimationStarted :: bool
  isDraggingScrollbar :: bool
  scrollbarDragStart :: "rat option"
  scrollbarDragStartViewportY :: rat
  scrollbarVisible :: bool
  scrollbarOpacity :: rat
  scrollbarHideTimeout :: "rat option"
  fades :: "fade list"
  now :: rat
  out :: "tout list"

definition options_init :: topts where
  "options_init = \<lparr>o_cols = 80, o_rows = 24, o_cursorBlink = False, o_cursorStyle = ''block'',
     o_theme = [], o_scrollback = 10000, o_fontSize = 15, o_fontFamily = ''monospace'',
     o_allowTransparency = False, o_convertEol = False, o_disableStdin = False,
     o_smoothScrollDuration = 100, o_scrollbarWidth = None\<rparr>"

definition terminal_new :: "tenv \<Rightarrow> topts \<Rightarrow> 'w terminal" where
  "terminal_new env opts = \<lparr>wasmTerm = None, renderer = None, has_ghostty = True,
     has_element = False, canvas = False, listeners = [], attributes = [], options = opts, currentTheme = spread (default_theme env) (o_theme opts),
     cols = o_cols opts, rows = o_rows opts, isOpen = False, isDisposed = False,
     isSuspended = False, forceNextRender = False, currentTitle = [], viewportY = 0,
     targetViewportY = 0, lastCursorY = 0, animationFrame = False,
     scrollAnimationFrame = False, scrollAnimationStarted = False,
     isDraggingScrollbar = False, scrollbarDragStart = None,
     scrollbarDragStartViewportY = 0, scrollbarVisible = False, scrollbarOpacity = 0,
     scrollbarHideTimeout = None, fades = [], now = 0, out = []\<rparr>"

section \<open>Emitters, frames and the scrollback length\<close>

text \<open>
  \<open>dispose\<close> empties the listener lists, so a disposed terminal notifies nobody.
\<close>

definition fire :: "tout \<Rightarrow> 'w terminal \<Rightarrow> 'w terminal" where
  "fire e t = (if isDisposed t then t else t\<lparr>out := out t @ [e]\<rparr>)"

definition fire_if :: "bool \<Rightarrow> tout \<Rightarrow> 'w terminal \<Rightarrow> 'w terminal" where
  "fire_if b e t = (if b then fire e t else t)"

definition draw :: "bool \<Rightarrow> rat \<Rightarrow> 'w terminal \<Rightarrow> 'w terminal" where
  "draw force op t =
     (if renderer t \<noteq> None \<and> wasmTerm t \<noteq> None then t\<lparr>out := out t @ [Draw force (viewportY t) op]\<rparr>
      else t)"

definition requestRender :: "'w terminal \<Rightarrow> 'w terminal" where
  "requestRender t =
     (if animationFrame t then t
      else if isDisposed t \<or> \<not> isOpen t \<or> isSuspended t then t
      else t\<lparr>animationFrame := True\<rparr>)"

definition requestFullRender :: "'w terminal \<Rightarrow> 'w terminal" where
  "requestFullRender t = requestRender (t\<lparr>forceNextRender := True\<rparr>)"

definition cancelRenderLoop :: "'w terminal \<Rightarrow> 'w terminal" where
  "cancelRenderLoop t = t\<lparr>animationFrame := False\<rparr>"

definition cancelScrollAnimation :: "'w terminal \<Rightarrow> 'w terminal" where
  "cancelScrollAnimation t = t\<lparr>scrollAnimationFrame := False\<rparr>"

definition getScrollbackLength :: "'w core \<Rightarrow> 'w terminal \<Rightarrow> nat" where
  "getScrollbackLength core t =
     (case wasmTerm t of Some g \<Rightarrow> gt_scrollback core g | None \<Rightarrow> 0)"

text \<open>The frame callback scheduled by \<open>requestRender\<close>.\<close>

definition renderTick :: "'w core \<Rightarrow> 'w terminal \<Rightarrow> 'w terminal" where
  "renderTick core t =
     (let t = t\<lparr>animationFrame := False\<rparr>
      in if isDisposed t \<or> \<not> isOpen t then t
         else let force = forceNextRender t;
                  t = draw force (scrollbarOpacity t) (t\<lparr>forceNextRender := False\<rparr>)
              in case wasmTerm t of
                   Some g \<Rightarrow>
                     let y = vt_cursor_y core (handle g)
                     in if y \<noteq> lastCursorY t then fire Fire_CursorMove (t\<lparr>lastCursorY := y\<rparr>) else t
                 | None \<Rightarrow> t)"

section \<open>The scrollbar\<close>

definition SCROLLBAR_HIDE_DELAY_MS :: rat where "SCROLLBAR_HIDE_DELAY_MS = 1500"

definition SCROLLBAR_FADE_DURATION_MS :: rat where "SCROLLBAR_FADE_DURATION_MS = 200"

text \<open>One frame of a fade, at the current time.\<close>

definition fade_frame :: "fade \<Rightarrow> 'w terminal \<Rightarrow> 'w terminal" where
  "fade_frame f t =
     (case f of
        Fade_In t0 \<Rightarrow>
          let q = min ((now t - t0) / SCROLLBAR_FADE_DURATION_MS) 1;
              t = draw False q (t\<lparr>scrollbarOpacity := q\<rparr>)
          in if q < 1 then t\<lparr>fades := fades t @ [Fade_In t0]\<rparr> else t
      | Fade_Out t0 op0 \<Rightarrow>
          let c = min ((now t - t0) / SCROLLBAR_FADE_DURATION_MS) 1;
              op = op0 * (1 - c);
              t = draw False op (t\<lparr>scrollbarOpacity := op\<rparr>)
          in if c < 1 then t\<lparr>fades := fades t @ [Fade_Out t0 op0]\<rparr>
             else draw False 0 (t\<lparr>scrollbarVisible := False, scrollbarOpacity := 0\<rparr>))"

definition fadeInScrollbar :: "'w terminal \<Rightarrow> 'w terminal" where
  "fadeInScrollbar t = fade_frame (Fade_In (now t)) t"

definition fadeOutScrollbar :: "'w terminal \<Rightarrow> 'w terminal" where
  "fadeOutScrollbar t = fade_frame (Fade_Out (now t) (scrollbarOpacity t)) t"

definition showScrollbar :: "'w terminal \<Rightarrow> 'w terminal" where
  "showScrollbar t =
     (let t = t\<lparr>scrollbarHideTimeout := None\<rparr>;
          t = (if scrollbarVisible t then t\<lparr>scrollbarOpacity := 1\<rparr>
               else fadeInScrollbar (t\<lparr>scrollbarVisible := True, scrollbarOpacity := 0\<rparr>))
      in if \<not> isDraggingScrollbar t \<and> has_element t
         then t\<lparr>scrollbarHideTimeout := Some (now t + SCROLLBAR_HIDE_DELAY_MS)\<rparr> else t)"

definition hideScrollbar :: "'w terminal \<Rightarrow> 'w terminal" where
  "hideScrollbar t =
     (let t = t\<lparr>scrollbarHideTimeout := None\<rparr>
      in if scrollbarVisible t then fadeOutScrollbar t else t)"

text \<open>The common tail of every change of the scroll position.\<close>

definition show_if :: "bool \<Rightarrow> 'w terminal \<Rightarrow> 'w terminal" where
  "show_if b t = (if b then showScrollbar t else t)"

section \<open>Scrolling\<close>

definition scrollLines :: "'w core \<Rightarrow> num_arg \<Rightarrow> 'w terminal \<Rightarrow> 'w terminal result" where
  "scrollLines core a t =
     (case wasmTerm t of
        None \<Rightarrow> Inl (Js_Error ''Terminal not open'')
      | Some _ \<Rightarrow>
          (case a of
             None \<Rightarrow> Inr t
           | Some n \<Rightarrow>
               if n = 0 then Inr t
               else let g = getScrollbackLength core t;
                        q = clamp 0 (of_nat g) (viewportY t - n)
                    in if q \<noteq> viewportY t
                       then Inr (requestRender (show_if (g > 0)
                                  (fire (Fire_Scroll q) (t\<lparr>viewportY := q\<rparr>))))
                       else Inr t))"

definition scrollPages :: "'w core \<Rightarrow> num_arg \<Rightarrow> 'w terminal \<Rightarrow> 'w terminal result" where
  "scrollPages core a t =
     (case a of
        None \<Rightarrow> Inr t
      | Some n \<Rightarrow> if n = 0 then Inr t else scrollLines core (Some (n * of_nat (rows t))) t)"

definition scrollToTop :: "'w core \<Rightarrow> 'w terminal \<Rightarrow> 'w terminal" where
  "scrollToTop core t =
     (let a = getScrollbackLength core t
      in if a > 0 \<and> viewportY t \<noteq> of_nat a
         then requestRender (showScrollbar (fire (Fire_Scroll (of_nat a)) (t\<lparr>viewportY := of_nat a\<rparr>)))
         else t)"

definition scrollToBottom :: "'w core \<Rightarrow> 'w terminal \<Rightarrow> 'w terminal" where
  "scrollToBottom core t =
     (if viewportY t \<noteq> 0
      then requestRender (show_if (getScrollbackLength core t > 0)
             (fire (Fire_Scroll 0) (t\<lparr>viewportY := 0\<rparr>)))
      else t)"

definition scrollToLine :: "'w core \<Rightarrow> num_arg \<Rightarrow> 'w terminal \<Rightarrow> 'w terminal" where
  "scrollToLine core a t =
     (case a of
        None \<Rightarrow> t
      | Some n \<Rightarrow>
          let g = getScrollbackLength core t; i = clamp 0 (of_nat g) n
          in if i \<noteq> viewportY t
             then requestRender (show_if (g > 0) (fire (Fire_Scroll i) (t\<lparr>viewportY := i\<rparr>)))
             else t)"

text \<open>The fraction of the remaining distance one frame covers.\<close>

definition scroll_step :: "rat \<Rightarrow> rat" where
  "scroll_step duration =
     (let e = max 1 (duration / 1000 * 60) in if e \<le> 1 then 1 else min 1 (1 / e))"

definition animateScroll :: "'w core \<Rightarrow> 'w terminal \<Rightarrow> 'w terminal" where
  "animateScroll core t =
     (if wasmTerm t = None \<or> \<not> scrollAnimationStarted t then t
      else
        let q = targetViewportY t - viewportY t
        in if \<bar>q\<bar> < 1 / 100 then
             let t = t\<lparr>viewportY := targetViewportY t\<rparr>;
                 t = show_if (getScrollbackLength core t > 0)
                       (fire (Fire_Scroll (of_int \<lfloor>viewportY t\<rfloor>)) t)
             in requestRender (t\<lparr>scrollAnimationFrame := False, scrollAnimationStarted := False\<rparr>)
           else
             let t = t\<lparr>viewportY := viewportY t + q * scroll_step (o_smoothScrollDuration (options t))\<rparr>;
                 t = show_if (getScrollbackLength core t > 0)
                       (fire (Fire_Scroll (of_int \<lfloor>viewportY t\<rfloor>)) t)
             in (requestRender t)\<lparr>scrollAnimationFrame := True\<rparr>)"

definition smoothScrollTo :: "'w core \<Rightarrow> num_arg \<Rightarrow> 'w terminal \<Rightarrow> 'w terminal" where
  "smoothScrollTo core a t =
     (case (wasmTerm t, a) of
        (Some _, Some n) \<Rightarrow>
          let g = getScrollbackLength core t; q = clamp 0 (of_nat g) n
          in if o_smoothScrollDuration (options t) = 0 then
               requestRender (show_if (g > 0) (fire (Fire_Scroll (of_int \<lfloor>q\<rfloor>))
                 (t\<lparr>viewportY := q, targetViewportY := q\<rparr>)))
             else
               let t = t\<lparr>targetViewportY := q\<rparr>
               in if scrollAnimationFrame t then t
                  else animateScroll core (t\<lparr>scrollAnimationStarted := True\<rparr>)
      | _ \<Rightarrow> t)"

section \<open>Wheel and scrollbar dragging\<close>

datatype delta_mode = DOM_DELTA_PIXEL | DOM_DELTA_LINE | DOM_DELTA_PAGE | Delta_Other

text \<open>A division by a zero cell height is not finite.\<close>

definition wheel_lines :: "delta_mode \<Rightarrow> rat \<Rightarrow> 'w terminal \<Rightarrow> num_arg" where
  "wheel_lines mode deltaY t =
     (case mode of
        DOM_DELTA_PIXEL \<Rightarrow>
          let d = (case renderer t of Some m \<Rightarrow> m_height m | None \<Rightarrow> 20)
          in if d = 0 then None else Some (deltaY / d)
      | DOM_DELTA_LINE \<Rightarrow> Some deltaY
      | DOM_DELTA_PAGE \<Rightarrow> Some (deltaY * of_nat (rows t))
      | Delta_Other \<Rightarrow> Some (deltaY / 33))"

definition fire_many :: "tout \<Rightarrow> nat \<Rightarrow> 'w terminal \<Rightarrow> 'w terminal" where
  "fire_many e n t = (fire e ^^ n) t"

text \<open>\<open>custom\<close> is the answer of the custom wheel handler, when one is attached.\<close>

definition handleWheel ::
  "'w core \<Rightarrow> bool \<Rightarrow> delta_mode \<Rightarrow> rat \<Rightarrow> 'w terminal \<Rightarrow> 'w terminal" where
  "handleWheel core custom mode deltaY t =
     (if custom then t
      else if (case wasmTerm t of Some g \<Rightarrow> vt_alternate core (handle g) | None \<Rightarrow> False) then
        let d = min \<bar>js_round (deltaY / 33)\<bar> 5
        in fire_many (Fire_Data (if deltaY > 0 then [27] @ js ''[B'' else [27] @ js ''[A'')) (nat d) t
      else
        let o_lines = wheel_lines mode deltaY t
        in if o_lines \<noteq> Some 0
           then smoothScrollTo core (map_option (\<lambda>n. viewportY t - n) o_lines) t else t)"

record rect =
  r_left :: rat
  r_top :: rat
  r_width :: rat
  r_height :: rat

text \<open>The length of the scrollbar's thumb, and the track it moves in.\<close>

definition track_length :: "rect \<Rightarrow> rat" where
  "track_length r = r_height r - 4 * 2"

definition thumb_length :: "nat \<Rightarrow> nat \<Rightarrow> rat \<Rightarrow> rat" where
  "thumb_length scrollback rws e = max 20 (of_nat rws / of_nat (scrollback + rws) * e)"

definition thumb_top :: "nat \<Rightarrow> nat \<Rightarrow> rat \<Rightarrow> rat \<Rightarrow> rat" where
  "thumb_top scrollback rws y e = 4 + (e - thumb_length scrollback rws e) * (1 - y / of_nat scrollback)"

text \<open>
  \<open>Math.max(0, Math.min(g, base + Math.round(x / d * g)))\<close>, with the infinities and the
  \<open>NaN\<close> (\<^term>\<open>None\<close>) of a division by zero written out.
\<close>

definition track_position :: "nat \<Rightarrow> rat \<Rightarrow> rat \<Rightarrow> rat \<Rightarrow> num_arg" where
  "track_position g base x d =
     (if d = 0 then
        (if x = 0 then None else Some (if x > 0 then of_nat g else 0))
      else Some (clamp 0 (of_nat g) (base + of_int (js_round (x / d * of_nat g)))))"

definition handleMouseDown ::
  "'w core \<Rightarrow> rect \<Rightarrow> rat \<Rightarrow> rat \<Rightarrow> 'w terminal \<Rightarrow> 'w terminal" where
  "handleMouseDown core r clientX clientY t =
     (if renderer t = None \<or> wasmTerm t = None then t
      else
        let q = (case o_scrollbarWidth (options t) of Some w \<Rightarrow> w | None \<Rightarrow> 8);
            c = getScrollbackLength core t
        in if q = 0 \<or> c = 0 then t
           else
             let i = clientX - r_left r; ofs = clientY - r_top r; w = r_width r - q - 4
             in if w \<le> i \<and> i \<le> w + q then
                  let e = track_length r;
                      n = thumb_length c (rows t) e;
                      j = thumb_top c (rows t) (viewportY t) e
                  in if j \<le> ofs \<and> ofs \<le> j + n then
                       t\<lparr>isDraggingScrollbar := True, scrollbarDragStart := Some ofs,
                         scrollbarDragStartViewportY := viewportY t\<rparr>
                     else
                       scrollToLine core (track_position c 0 (e - (ofs - 4)) e) t
                else t)"

definition handleMouseUp :: "'w core \<Rightarrow> 'w terminal \<Rightarrow> 'w terminal" where
  "handleMouseUp core t =
     (if isDraggingScrollbar t then
        let t = t\<lparr>isDraggingScrollbar := False, scrollbarDragStart := None\<rparr>
        in show_if (scrollbarVisible t \<and> getScrollbackLength core t > 0) t
      else t)"

definition processScrollbarDrag :: "'w core \<Rightarrow> rect \<Rightarrow> rat \<Rightarrow> 'w terminal \<Rightarrow> 'w terminal" where
  "processScrollbarDrag core r clientY t =
     (case (renderer t, wasmTerm t, scrollbarDragStart t) of
        (Some _, Some _, Some start) \<Rightarrow>
          let g = getScrollbackLength core t
          in if g = 0 then t
             else
               let c = clientY - r_top r - start;
                   ofs = track_length r;
                   w = thumb_length g (rows t) ofs
               in scrollToLine core
                    (track_position g (scrollbarDragStartViewportY t) (- c) (ofs - w)) t
      | _ \<Rightarrow> t)"

section \<open>Writing\<close>

definition assertOpen :: "'w terminal \<Rightarrow> unit result" where
  "assertOpen t =
     (if isDisposed t then Inl (Js_Error ''Terminal has been disposed'')
      else if \<not> isOpen t then
        Inl (Js_Error ''Terminal must be opened before use. Call terminal.open(parent) first.'')
      else Inr ())"

text \<open>The loop reads until the queue is empty; each round empties it.\<close>

function processTerminalResponses :: "'w core \<Rightarrow> 'w terminal \<Rightarrow> 'w terminal" where
  "processTerminalResponses core t =
     (case wasmTerm t of
        None \<Rightarrow> t
      | Some g \<Rightarrow>
          (case readResponse core g of
             (None, _) \<Rightarrow> t
           | (Some r, g') \<Rightarrow>
               processTerminalResponses core (fire (Fire_Data r) (t\<lparr>wasmTerm := Some g'\<rparr>))))"
  by pat_completeness auto

definition queue_length :: "'w terminal \<Rightarrow> nat" where
  "queue_length t = (case wasmTerm t of None \<Rightarrow> 0 | Some g \<Rightarrow> length (pendingResponses g))"

termination processTerminalResponses
  by (relation "measure (\<lambda>(_, t). queue_length t)")
     (auto simp: queue_length_def readResponse_def fire_def split: if_splits)

text \<open>
  The matches of \<open>/\x1b\]([012]);([^\x07\x1b]*?)(?:\x07|\x1b\\)/g\<close>: at one position, and all
  of them from left to right.
\<close>

definition title_text :: "jstr \<Rightarrow> jstr" where
  "title_text s = takeWhile (\<lambda>u. u \<noteq> 7 \<and> u \<noteq> 27) s"

definition title_rest :: "jstr \<Rightarrow> jstr option" where
  "title_rest s =
     (case dropWhile (\<lambda>u. u \<noteq> 7 \<and> u \<noteq> 27) s of
        [] \<Rightarrow> None
      | u # r \<Rightarrow> if u = 7 then Some r
                 else (case r of v # r' \<Rightarrow> if v = 92 then Some r' else None | [] \<Rightarrow> None))"

definition title_at :: "jstr \<Rightarrow> (16 word \<times> jstr \<times> jstr) option" where
  "title_at s =
     (case s of
        a # b # d # e # r \<Rightarrow>
          if a = 27 \<and> b = 93 \<and> d \<in> {48, 49, 50} \<and> e = 59
          then map_option (\<lambda>r'. (d, title_text r, r')) (title_rest r) else None
      | _ \<Rightarrow> None)"

lemma title_rest_shorter: "title_rest s = Some r \<Longrightarrow> length r < length s"
proof -
  assume "title_rest s = Some r"
  moreover have "length (dropWhile (\<lambda>u. u \<noteq> 7 \<and> u \<noteq> 27) s) \<le> length s"
    by (rule length_dropWhile_le)
  ultimately show ?thesis
    by (auto simp: title_rest_def split: list.splits if_splits)
qed

lemma title_at_shorter: "title_at s = Some (d, x, r) \<Longrightarrow> length r < length s"
  by (auto simp: title_at_def split: list.splits if_splits dest!: title_rest_shorter)

function titles :: "jstr \<Rightarrow> (16 word \<times> jstr) list" where
  "titles s =
     (case s of
        [] \<Rightarrow> []
      | _ # s' \<Rightarrow> (case title_at s of Some (d, x, r) \<Rightarrow> (d, x) # titles r | None \<Rightarrow> titles s'))"
  by pat_completeness auto

termination titles
  by (relation "measure length") (auto dest: title_at_shorter)

definition set_title :: "16 word \<times> jstr \<Rightarrow> 'w terminal \<Rightarrow> 'w terminal" where
  "set_title m t =
     (if (fst m = 48 \<or> fst m = 50) \<and> snd m \<noteq> currentTitle t
      then fire (Fire_Title (snd m)) (t\<lparr>currentTitle := snd m\<rparr>) else t)"

definition checkForTitleChange :: "jstr \<Rightarrow> 'w terminal \<Rightarrow> 'w terminal" where
  "checkForTitleChange s t = fold set_title (titles s) t"

definition has_bell :: "wdata \<Rightarrow> bool" where
  "has_bell d = (case d of Text s \<Rightarrow> 7 \<in> set s | Bytes b \<Rightarrow> 7 \<in> set b)"

definition check_title :: "wdata \<Rightarrow> 'w terminal \<Rightarrow> 'w terminal" where
  "check_title d t =
     (case d of
        Text s \<Rightarrow> if js_includes s [27, 93] then checkForTitleChange s t else t
      | Bytes _ \<Rightarrow> t)"

text \<open>\<open>cb\<close> says whether a completion callback was passed.\<close>

definition writeInternal :: "'w core \<Rightarrow> wdata \<Rightarrow> bool \<Rightarrow> 'w terminal \<Rightarrow> 'w terminal result" where
  "writeInternal core d cb t =
     (case wasmTerm t of
        None \<Rightarrow> Inl (Js_Error ''TypeError'')
      | Some g \<Rightarrow>
          and_then (gt_write core d g) (\<lambda>g'.
            let t = processTerminalResponses core (t\<lparr>wasmTerm := Some g'\<rparr>);
                t = fire_if (has_bell d) Fire_Bell t;
                t = fire Invalidate_Links t;
                t = (if viewportY t \<noteq> 0 then scrollToBottom core t else t);
                t = check_title d t;
                t = fire_if cb Frame_Callback t
            in Inr (requestRender t)))"

text \<open>\<open>A.replace(/\n/g, "\r\n")\<close>\<close>

definition convert_eol :: "jstr \<Rightarrow> jstr" where
  "convert_eol s = concat (map (\<lambda>u. if u = 10 then [13, 10] else [u]) s)"

definition term_write :: "'w core \<Rightarrow> wdata \<Rightarrow> bool \<Rightarrow> 'w terminal \<Rightarrow> 'w terminal result" where
  "term_write core d cb t =
     and_then (assertOpen t) (\<lambda>_.
       let d = (case d of
                  Text s \<Rightarrow> if o_convertEol (options t) then Text (convert_eol s) else d
                | Bytes _ \<Rightarrow> d)
       in writeInternal core d cb t)"

definition writeln :: "'w core \<Rightarrow> wdata \<Rightarrow> bool \<Rightarrow> 'w terminal \<Rightarrow> 'w terminal result" where
  "writeln core d cb t =
     (case d of
        Text s \<Rightarrow> term_write core (Text (s @ [13, 10])) cb t
      | Bytes b \<Rightarrow> term_write core (Bytes (b @ [13, 10])) cb t)"

definition paste :: "'w core \<Rightarrow> jstr \<Rightarrow> 'w terminal \<Rightarrow> 'w terminal result" where
  "paste core s t =
     and_then (assertOpen t) (\<lambda>_.
       if o_disableStdin (options t) then Inr t
       else case wasmTerm t of
         Some g \<Rightarrow>
           if gt_hasBracketedPaste core g
           then Inr (fire (Fire_Data (([27] @ js ''[200~'') @ s @ [27] @ js ''[201~'')) t)
           else Inr (fire (Fire_Data s) t)
       | None \<Rightarrow> Inl (Js_Error ''TypeError''))"

definition term_input :: "'w core \<Rightarrow> jstr \<Rightarrow> bool \<Rightarrow> 'w terminal \<Rightarrow> 'w terminal result" where
  "term_input core s wasUser t =
     and_then (assertOpen t) (\<lambda>_.
       if o_disableStdin (options t) then Inr t
       else if wasUser then Inr (fire (Fire_Data s) t)
       else term_write core (Text s) False t)"

definition clear :: "'w core \<Rightarrow> 'w terminal \<Rightarrow> 'w terminal result" where
  "clear core t =
     and_then (assertOpen t) (\<lambda>_.
       writeInternal core (Text ([27] @ js ''[2J'' @ [27] @ js ''[H'')) False t)"

definition getMode :: "'w core \<Rightarrow> nat \<Rightarrow> bool \<Rightarrow> 'w terminal \<Rightarrow> bool result" where
  "getMode core n ansi t =
     and_then (assertOpen t) (\<lambda>_.
       case wasmTerm t of Some g \<Rightarrow> Inr (gt_getMode core n ansi g)
       | None \<Rightarrow> Inl (Js_Error ''TypeError''))"

section \<open>Resizing, fonts and options\<close>

definition updateWasmPixelSize :: "'w core \<Rightarrow> 'w terminal \<Rightarrow> 'w terminal" where
  "updateWasmPixelSize core t =
     (case (renderer t, wasmTerm t) of
        (Some m, Some g) \<Rightarrow>
          t\<lparr>wasmTerm := Some (setCellPixelSize core (Some (m_width m)) (Some (m_height m)) g)\<rparr>
      | _ \<Rightarrow> t)"

definition renderer_call :: "tout \<Rightarrow> 'w terminal \<Rightarrow> 'w terminal" where
  "renderer_call e t = t\<lparr>out := out t @ [e]\<rparr>"

definition resize :: "'w core \<Rightarrow> num_arg \<Rightarrow> num_arg \<Rightarrow> 'w terminal \<Rightarrow> 'w terminal result" where
  "resize core a b t =
     and_then (assertOpen t) (\<lambda>_.
       case (a, b) of
         (Some x, Some y) \<Rightarrow>
           if x < 1 \<or> y < 1 then Inl Range_Error
           else
             let i = nat \<lfloor>x\<rfloor>; q = nat \<lfloor>y\<rfloor>
             in if i = cols t \<and> q = rows t then Inr t
                else
                  let t = cancelRenderLoop t;
                      t = t\<lparr>wasmTerm := map_option (gt_resize core i q) (wasmTerm t), cols := i, rows := q\<rparr>;
                      t = updateWasmPixelSize core (renderer_call (Renderer_Resize i q) t);
                      t = draw True 1 (fire (Fire_Resize i q) t)
                  in Inr (if isSuspended t then t else requestRender t)
       | _ \<Rightarrow> Inl Range_Error)"

definition handleFontChange :: "'w core \<Rightarrow> 'w terminal \<Rightarrow> 'w terminal" where
  "handleFontChange core t =
     (if renderer t = None \<or> wasmTerm t = None \<or> \<not> canvas t then t
      else
        let t = renderer_call Clear_Selection t;
            t = renderer_call (Renderer_Resize (cols t) (rows t)) t
        in draw True 1 (updateWasmPixelSize core t))"

definition measure_font :: "tenv \<Rightarrow> rat \<Rightarrow> string \<Rightarrow> rmetrics" where
  "measure_font env sz fam =
     \<lparr>m_fontSize = sz, m_fontFamily = fam, m_width = fst (cell_size env sz fam),
      m_height = snd (cell_size env sz fam)\<rparr>"

definition setFontSize :: "tenv \<Rightarrow> rat \<Rightarrow> rmetrics \<Rightarrow> rmetrics" where
  "setFontSize env a m = (if a \<le> 0 then m else measure_font env a (m_fontFamily m))"

definition setFontFamily :: "tenv \<Rightarrow> string \<Rightarrow> rmetrics \<Rightarrow> rmetrics" where
  "setFontFamily env a m = measure_font env (m_fontSize m) a"

datatype opt =
    Opt_disableStdin bool
  | Opt_convertEol bool
  | Opt_cursorBlink bool
  | Opt_cursorStyle string
  | Opt_theme obj
  | Opt_fontSize rat
  | Opt_fontFamily string
  | Opt_scrollbarWidth "rat option"
  | Opt_allowTransparency bool
  | Opt_smoothScrollDuration rat
  | Opt_cols nat
  | Opt_rows nat

fun assign_option :: "opt \<Rightarrow> topts \<Rightarrow> topts" where
  "assign_option (Opt_disableStdin b) p = p\<lparr>o_disableStdin := b\<rparr>"
| "assign_option (Opt_convertEol b) p = p\<lparr>o_convertEol := b\<rparr>"
| "assign_option (Opt_cursorBlink b) p = p\<lparr>o_cursorBlink := b\<rparr>"
| "assign_option (Opt_cursorStyle s) p = p\<lparr>o_cursorStyle := s\<rparr>"
| "assign_option (Opt_theme th) p = p\<lparr>o_theme := th\<rparr>"
| "assign_option (Opt_fontSize r) p = p\<lparr>o_fontSize := r\<rparr>"
| "assign_option (Opt_fontFamily s) p = p\<lparr>o_fontFamily := s\<rparr>"
| "assign_option (Opt_scrollbarWidth r) p = p\<lparr>o_scrollbarWidth := r\<rparr>"
| "assign_option (Opt_allowTransparency b) p = p\<lparr>o_allowTransparency := b\<rparr>"
| "assign_option (Opt_smoothScrollDuration r) p = p\<lparr>o_smoothScrollDuration := r\<rparr>"
| "assign_option (Opt_cols n) p = p\<lparr>o_cols := n\<rparr>"
| "assign_option (Opt_rows n) p = p\<lparr>o_rows := n\<rparr>"

definition with_renderer ::
  "(rmetrics \<Rightarrow> 'w terminal \<Rightarrow> 'w terminal) \<Rightarrow> 'w terminal \<Rightarrow> 'w terminal" where
  "with_renderer f t = (case renderer t of Some m \<Rightarrow> f m t | None \<Rightarrow> t)"

fun handleOptionChange :: "tenv \<Rightarrow> 'w core \<Rightarrow> opt \<Rightarrow> 'w terminal \<Rightarrow> 'w terminal result" where
  "handleOptionChange env core (Opt_cursorBlink _) t =
     Inr (with_renderer (\<lambda>_ t. requestFullRender (renderer_call
       (Renderer_Cursor (o_cursorStyle (options t)) (o_cursorBlink (options t))) t)) t)"
| "handleOptionChange env core (Opt_cursorStyle _) t =
     Inr (with_renderer (\<lambda>_ t. requestFullRender (renderer_call
       (Renderer_Cursor (o_cursorStyle (options t)) (o_cursorBlink (options t))) t)) t)"
| "handleOptionChange env core (Opt_theme th) t =
     Inr (with_renderer (\<lambda>_ t.
       case wasmTerm t of
         Some g \<Rightarrow>
           let th' = (if length th > 0 then spread (currentTheme t) th else default_theme env);
               t = renderer_call (Renderer_Theme th') (t\<lparr>currentTheme := th'\<rparr>);
               c = buildThemeColorsConfig (canvas_color env) th'
           in requestFullRender (t\<lparr>wasmTerm := Some (gt_setColors core c g)\<rparr>)
       | None \<Rightarrow> t) t)"
| "handleOptionChange env core (Opt_fontSize _) t =
     Inr (with_renderer (\<lambda>m t. handleFontChange core
       (t\<lparr>renderer := Some (setFontSize env (o_fontSize (options t)) m)\<rparr>)) t)"
| "handleOptionChange env core (Opt_fontFamily _) t =
     Inr (with_renderer (\<lambda>m t. handleFontChange core
       (t\<lparr>renderer := Some (setFontFamily env (o_fontFamily (options t)) m)\<rparr>)) t)"
| "handleOptionChange env core (Opt_scrollbarWidth _) t =
     Inr (with_renderer (\<lambda>_ t. requestFullRender (renderer_call (Renderer_Scrollbar
       (case o_scrollbarWidth (options t) of Some w \<Rightarrow> w | None \<Rightarrow> 8)) t)) t)"
| "handleOptionChange env core (Opt_allowTransparency _) t =
     Inr (with_renderer (\<lambda>_ t. requestFullRender (renderer_call
       (Renderer_Transparency (o_allowTransparency (options t))) t)) t)"
| "handleOptionChange env core (Opt_cols _) t =
     resize core (Some (of_nat (o_cols (options t)))) (Some (of_nat (o_rows (options t)))) t"
| "handleOptionChange env core (Opt_rows _) t =
     resize core (Some (of_nat (o_cols (options t)))) (Some (of_nat (o_rows (options t)))) t"
| "handleOptionChange env core _ t = Inr t"

text \<open>
  The proxy's \<open>set\<close> trap. A theme is compared by identity, and the front ends assign a new
  object each time, so it always counts as changed.
\<close>

definition option_changed :: "opt \<Rightarrow> topts \<Rightarrow> bool" where
  "option_changed x p =
     (case x of Opt_theme _ \<Rightarrow> True | _ \<Rightarrow> assign_option x p \<noteq> p)"

definition set_option :: "tenv \<Rightarrow> 'w core \<Rightarrow> opt \<Rightarrow> 'w terminal \<Rightarrow> 'w terminal result" where
  "set_option env core x t =
     (let p = options t; t = t\<lparr>options := assign_option x p\<rparr>
      in if isOpen t \<and> option_changed x p then handleOptionChange env core x t else Inr t)"

section \<open>Life cycle\<close>

definition suspend :: "'w terminal \<Rightarrow> 'w terminal" where
  "suspend t =
     (if isSuspended t \<or> \<not> isOpen t then t
      else cancelScrollAnimation (cancelRenderLoop (t\<lparr>isSuspended := True\<rparr>)))"

definition resume :: "'w core \<Rightarrow> 'w terminal \<Rightarrow> 'w terminal" where
  "resume core t =
     (if \<not> isSuspended t \<or> \<not> isOpen t then t
      else
        let t = t\<lparr>isSuspended := False\<rparr>;
            t = (if scrollAnimationStarted t \<and> \<not> scrollAnimationFrame t then animateScroll core t else t)
        in requestRender t)"

definition reset :: "tenv \<Rightarrow> 'w core \<Rightarrow> 'w terminal \<Rightarrow> 'w terminal result" where
  "reset env core t =
     and_then (assertOpen t) (\<lambda>_.
       case vt_new core (cols t) (rows t)
              (buildWasmConfig (canvas_color env) (Some (o_theme (options t))) (o_scrollback (options t))) of
         None \<Rightarrow> Inl (Js_Error ''Failed to create terminal'')
       | Some w \<Rightarrow>
           let t = updateWasmPixelSize core (t\<lparr>wasmTerm := Some (gt_new (cols t) (rows t) w)\<rparr>);
               t = (renderer_call Renderer_Clear t)\<lparr>currentTitle := []\<rparr>
           in Inr (requestFullRender t))"

text \<open>
  \<open>cleanupComponents\<close>. The canvas is detached and forgotten before its own listeners would be
  removed, so that branch is taken only for a canvas that was already detached.
\<close>

definition element_listeners :: "(string \<times> string) list" where
  "element_listeners =
     [(''element'', ''wheel''), (''element'', ''mousedown''), (''element'', ''mousemove''),
      (''element'', ''mouseleave''), (''element'', ''click'')]"

definition remove_listeners :: "(string \<times> string) list \<Rightarrow> 'w terminal \<Rightarrow> 'w terminal" where
  "remove_listeners ls t = t\<lparr>listeners := filter (\<lambda>l. l \<notin> set ls) (listeners t)\<rparr>"

definition cleanupComponents :: "'w terminal \<Rightarrow> 'w terminal" where
  "cleanupComponents t =
     (let t = t\<lparr>renderer := None, canvas := False\<rparr>;
          t = (if has_element t then
                 remove_listeners ((''element'', ''beforeinput'') # element_listeners)
                   (t\<lparr>attributes := filter (\<lambda>a. fst a \<notin>
                      {''contenteditable'', ''role'', ''aria-label'', ''aria-multiline''}) (attributes t)\<rparr>)
               else t);
          t = (if has_element t then remove_listeners [(''document'', ''mouseup'')] t else t);
          t = (if canvas t then remove_listeners [(''canvas'', ''mousedown''), (''canvas'', ''touchend'')] t
               else t)
      in t\<lparr>scrollbarHideTimeout := None, wasmTerm := None, has_ghostty := False, has_element := False\<rparr>)"

definition set_attr :: "string \<Rightarrow> string \<Rightarrow> 'w terminal \<Rightarrow> 'w terminal" where
  "set_attr k v t = t\<lparr>attributes := AList.update k v (attributes t)\<rparr>"

definition add_listeners :: "(string \<times> string) list \<Rightarrow> 'w terminal \<Rightarrow> 'w terminal" where
  "add_listeners ls t = t\<lparr>listeners := listeners t @ ls\<rparr>"

text \<open>\<open>elem\<close> are the attributes the parent element has when it is passed in.\<close>

definition open_attributes :: "'w terminal \<Rightarrow> 'w terminal" where
  "open_attributes t =
     (let t = (if map_of (attributes t) ''tabindex'' = None then set_attr ''tabindex'' ''0'' t else t);
          t = add_listeners [(''element'', ''beforeinput'')] (set_attr ''contenteditable'' ''true'' t)
      in set_attr ''aria-multiline'' ''true'' (set_attr ''aria-label'' ''Terminal input''
           (set_attr ''role'' ''textbox'' t)))"

text \<open>The part of \<open>open\<close> that follows the creation of the core's terminal.\<close>

definition open_components :: "tenv \<Rightarrow> 'w core \<Rightarrow> 'w \<Rightarrow> 'w terminal \<Rightarrow> 'w terminal" where
  "open_components env core w t =
    (let t = t\<lparr>wasmTerm := Some (gt_new (cols t) (rows t) w), canvas := True\<rparr>;
         t = add_listeners [(''canvas'', ''mousedown''), (''canvas'', ''touchend'')] t;
         t = t\<lparr>renderer := Some (measure_font env (o_fontSize (options t)) (o_fontFamily (options t)))\<rparr>;
         t = updateWasmPixelSize core (renderer_call (Renderer_Resize (cols t) (rows t)) t);
         t = add_listeners [(''element'', ''mousedown''), (''element'', ''mousemove''),
               (''element'', ''mouseleave''), (''element'', ''click''), (''document'', ''mouseup''),
               (''element'', ''wheel'')] t;
         t = draw True (scrollbarOpacity t) t;
         t = fire Fire_Open (renderTick core t)
      in t)"

definition term_open ::
  "tenv \<Rightarrow> 'w core \<Rightarrow> (string \<times> string) list \<Rightarrow> 'w terminal \<Rightarrow> js_error option \<times> 'w terminal" where
  "term_open env core elem t =
     (if isOpen t then (Some (Js_Error ''Terminal is already open''), t)
      else if isDisposed t then (Some (Js_Error ''Terminal has been disposed''), t)
      else
        let t = open_attributes (t\<lparr>attributes := elem, has_element := True, isOpen := True\<rparr>);
            created = (if has_ghostty t
                       then vt_new core (cols t) (rows t) (buildWasmConfig (canvas_color env)
                              (Some (o_theme (options t))) (o_scrollback (options t)))
                       else None)
        in case created of
             None \<Rightarrow> (Some (Js_Error ''Failed to open terminal''), cleanupComponents (t\<lparr>isOpen := False\<rparr>))
           | Some w \<Rightarrow> (None, open_components env core w t))"

definition dispose :: "'w terminal \<Rightarrow> 'w terminal" where
  "dispose t =
     (if isDisposed t then t
      else cleanupComponents (cancelScrollAnimation (cancelRenderLoop
             (t\<lparr>isDisposed := True, isOpen := False, isSuspended := False\<rparr>))))"

declare processTerminalResponses.simps [simp del]
declare titles.simps [simp del]

end
