(* ===== verification/Term_Style.thy ===== *)
theory Term_Style
  imports Gw_Core
begin

text \<open>
  The style handling the two terminal front ends share, \<open>term.js\<close> and
  \<open>xterm-term-bridge.js\<close>: the style object and its updates, the CSS variables, the cursor
  shape, the theme with the palette overrides, the byte conversion of native strings and
  the quoting of font families. Each file has its own copy of the functions; both copies
  are translated, and the lemmas show where they agree.
\<close>

section \<open>Style objects\<close>

definition ansiColorNames :: "string list" where
  "ansiColorNames =
     [''black'', ''red'', ''green'', ''yellow'', ''blue'', ''magenta'', ''cyan'', ''white'',
      ''brightBlack'', ''brightRed'', ''brightGreen'', ''brightYellow'', ''brightBlue'',
      ''brightMagenta'', ''brightCyan'', ''brightWhite'']"

definition default_family :: string where
  "default_family = ''\"JetBrainsMono Nerd Font Mono\", \"FiraCode Nerd Font Mono\", ui-monospace, \"SFMono-Regular\", Menlo, Monaco, monospace''"

definition styleState_init :: obj where
  "styleState_init =
     [(''foregroundColor'', Str ''#f0f0f0''), (''backgroundColor'', Str ''#000000''),
      (''cursorColor'', Undef), (''fontFamily'', Str default_family), (''fontSize'', Number 12),
      (''colorPaletteOverrides'', Undef), (''blinkCursor'', Bool False),
      (''cursorShape'', Str ''BLOCK'')]"

definition x_styleState_init :: obj where
  "x_styleState_init =
     [(''foregroundColor'', Str ''#d4d4d4''), (''backgroundColor'', Str ''#1e1e1e''),
      (''cursorColor'', Undef), (''fontSize'', Number 12), (''fontFamily'', Str default_family),
      (''colorPaletteOverrides'', Undef), (''blinkCursor'', Bool False),
      (''cursorShape'', Str ''BLOCK'')]"

text \<open>\<^term>\<open>None\<close> is a missing argument (\<open>nextStyle || {}\<close>).\<close>

definition normalizeStyleUpdate :: "obj option \<Rightarrow> obj" where
  "normalizeStyleUpdate nextStyle =
     (let style = spread [] (case nextStyle of Some s \<Rightarrow> s | None \<Rightarrow> [])
      in if \<not> is_array (getp style ''colorPaletteOverrides'')
         then set_prop ''colorPaletteOverrides'' Undef style else style)"

definition x_normalizeStyleUpdate :: "obj option \<Rightarrow> obj" where
  "x_normalizeStyleUpdate nextStyle =
     (let style = spread [] (case nextStyle of Some s \<Rightarrow> s | None \<Rightarrow> [])
      in if \<not> is_array (getp style ''colorPaletteOverrides'')
         then set_prop ''colorPaletteOverrides'' Undef style else style)"

definition mergeStyle :: "obj \<Rightarrow> obj option \<Rightarrow> obj" where
  "mergeStyle styleState nextStyle = spread styleState (normalizeStyleUpdate nextStyle)"

text \<open>The custom properties of the document element.\<close>

definition applyDocumentStyle :: "obj \<Rightarrow> obj \<Rightarrow> obj" where
  "applyDocumentStyle style css =
     (let css = (if truthy (getp style ''backgroundColor'')
                 then set_prop ''--terminal-background'' (getp style ''backgroundColor'') css else css)
      in if truthy (getp style ''foregroundColor'')
         then set_prop ''--terminal-foreground'' (getp style ''foregroundColor'') css else css)"

definition x_applyDocumentStyle :: "obj \<Rightarrow> obj \<Rightarrow> obj" where
  "x_applyDocumentStyle style css =
     (let css = (if truthy (getp style ''backgroundColor'')
                 then set_prop ''--terminal-background'' (getp style ''backgroundColor'') css else css)
      in if truthy (getp style ''foregroundColor'')
         then set_prop ''--terminal-foreground'' (getp style ''foregroundColor'') css else css)"

section \<open>Cursor and theme\<close>

definition cursorStyleForGhostty :: "jsval \<Rightarrow> string" where
  "cursorStyleForGhostty cursorShape =
     (if cursorShape = Str ''BEAM'' \<or> cursorShape = Str ''bar'' then ''bar''
      else if cursorShape = Str ''UNDERLINE'' \<or> cursorShape = Str ''underline'' then ''underline''
      else ''block'')"

definition cursorStyleForXterm :: "jsval \<Rightarrow> string" where
  "cursorStyleForXterm cursorShape =
     (if cursorShape = Str ''BEAM'' \<or> cursorShape = Str ''bar'' then ''bar''
      else if cursorShape = Str ''UNDERLINE'' \<or> cursorShape = Str ''underline'' then ''underline''
      else ''block'')"

definition base_theme :: "obj \<Rightarrow> obj" where
  "base_theme style =
     [(''foreground'', getp style ''foregroundColor''),
      (''background'', getp style ''backgroundColor''),
      (''cursor'', js_or (getp style ''cursorColor'') (getp style ''foregroundColor'')),
      (''cursorAccent'', getp style ''backgroundColor''),
      (''selectionBackground'', getp style ''foregroundColor''),
      (''selectionForeground'', getp style ''backgroundColor'')]"

text \<open>The loop over the palette: one assignment per pair, from the first on.\<close>

fun assign_palette :: "string list \<Rightarrow> jsval list \<Rightarrow> obj \<Rightarrow> obj" where
  "assign_palette (k # ks) (v # vs) theme = assign_palette ks vs (set_prop k v theme)"
| "assign_palette _ _ theme = theme"

definition themeForGhostty :: "obj \<Rightarrow> obj" where
  "themeForGhostty style =
     (case getp style ''colorPaletteOverrides'' of
        Arr vs \<Rightarrow> assign_palette ansiColorNames vs (base_theme style)
      | _ \<Rightarrow> base_theme style)"

definition themeForXterm :: "obj \<Rightarrow> obj" where
  "themeForXterm style =
     (case getp style ''colorPaletteOverrides'' of
        Arr vs \<Rightarrow> assign_palette ansiColorNames vs (base_theme style)
      | _ \<Rightarrow> base_theme style)"

section \<open>Bytes of native strings\<close>

text \<open>\<open>bytes[i] = data.charCodeAt(i) & 0xff\<close>\<close>

definition latin1StringToBytes :: "jstr \<Rightarrow> byte list" where
  "latin1StringToBytes data = map (\<lambda>u. ucast (u AND 255)) data"

definition x_latin1StringToBytes :: "jstr \<Rightarrow> byte list" where
  "x_latin1StringToBytes data = map (\<lambda>u. ucast (u AND 255)) data"

section \<open>Font families\<close>

definition quote_part :: "string \<Rightarrow> string" where
  "quote_part part =
     (let trimmed = js_trim part
      in if \<not> js_includes trimmed '' '' \<or> prefix [CHR 0x22] trimmed \<or> prefix [CHR 0x27] trimmed
         then trimmed else [CHR 0x22] @ trimmed @ [CHR 0x22])"

definition quoteFontFamily :: "string \<Rightarrow> string" where
  "quoteFontFamily family = js_join '', '' (map quote_part (js_split (CHR '','') family))"

text \<open>
  The match of the quoted first family: an opening quote, the shortest text without a line
  terminator up to the same quote.
\<close>

definition first_quoted :: "string \<Rightarrow> string option" where
  "first_quoted s =
     (case s of
        [] \<Rightarrow> None
      | q # r \<Rightarrow>
          let body = takeWhile (\<lambda>c. c \<noteq> q) r
          in if (q = CHR 0x22 \<or> q = CHR 0x27) \<and> q \<in> set r \<and> CHR 0x0A \<notin> set body \<and> CHR 0x0D \<notin> set body
             then Some body else None)"

definition firstFontFamily :: "string \<Rightarrow> string" where
  "firstFontFamily familyList =
     (let trimmed = js_trim familyList
      in if trimmed = [] then []
         else case first_quoted trimmed of
           Some b \<Rightarrow> b
         | None \<Rightarrow> js_trim (hd (js_split (CHR '','') trimmed)))"

definition css_ident_start :: "char \<Rightarrow> bool" where
  "css_ident_start c =
     ((65 \<le> code c \<and> code c \<le> 90) \<or> (97 \<le> code c \<and> code c \<le> 122) \<or> c = CHR ''_'' \<or> c = CHR ''-'')"

definition css_identifier :: "string \<Rightarrow> bool" where
  "css_identifier s =
     (case s of [] \<Rightarrow> False
      | c # r \<Rightarrow> css_ident_start c \<and> list_all (\<lambda>d. css_ident_start d \<or> js_digit d) r)"

definition replace_char :: "char \<Rightarrow> string \<Rightarrow> string \<Rightarrow> string" where
  "replace_char c new s = concat (map (\<lambda>d. if d = c then new else [d]) s)"

definition css_escape :: "string \<Rightarrow> string" where
  "css_escape s =
     replace_char (CHR 0x22) [CHR 0x5C, CHR 0x22] (replace_char (CHR 0x5C) [CHR 0x5C, CHR 0x5C] s)"

definition quoteCssFontFamily :: "string \<Rightarrow> string" where
  "quoteCssFontFamily family =
     (let trimmed = js_trim family
      in if trimmed = [] \<or> prefix [CHR 0x22] trimmed \<or> prefix [CHR 0x27] trimmed then trimmed
         else if css_identifier trimmed then trimmed
         else [CHR 0x22] @ css_escape trimmed @ [CHR 0x22])"

text \<open>What \<open>document.fonts.load\<close> is asked for: weight, size and family.\<close>

record font_request =
  fr_bold :: bool
  fr_size :: jsval
  fr_family :: string

definition style_family :: "obj \<Rightarrow> string" where
  "style_family style = (case getp style ''fontFamily'' of Str s \<Rightarrow> s | _ \<Rightarrow> [])"

definition loadConfiguredFont :: "bool \<Rightarrow> obj \<Rightarrow> font_request list" where
  "loadConfiguredFont has_fonts style =
     (if \<not> has_fonts then []
      else [\<lparr>fr_bold = False, fr_size = getp style ''fontSize'',
             fr_family = quoteFontFamily (style_family style)\<rparr>])"

definition x_loadConfiguredFont :: "bool \<Rightarrow> obj \<Rightarrow> font_request list" where
  "x_loadConfiguredFont has_fonts style =
     (let family = firstFontFamily (style_family style)
      in if \<not> has_fonts \<or> family = [] then []
         else [\<lparr>fr_bold = False, fr_size = getp style ''fontSize'', fr_family = quoteCssFontFamily family\<rparr>,
               \<lparr>fr_bold = True, fr_size = getp style ''fontSize'', fr_family = quoteCssFontFamily family\<rparr>])"

section \<open>The two copies agree\<close>

lemma copies_agree:
  "x_normalizeStyleUpdate = normalizeStyleUpdate" "x_applyDocumentStyle = applyDocumentStyle"
  "cursorStyleForXterm = cursorStyleForGhostty" "themeForXterm = themeForGhostty"
  "x_latin1StringToBytes = latin1StringToBytes"
  by (simp_all add: fun_eq_iff x_normalizeStyleUpdate_def normalizeStyleUpdate_def
      x_applyDocumentStyle_def applyDocumentStyle_def cursorStyleForXterm_def
      cursorStyleForGhostty_def themeForXterm_def themeForGhostty_def
      x_latin1StringToBytes_def latin1StringToBytes_def)

section \<open>Themes\<close>

lemma assign_palette_other: "j \<notin> set ks \<Longrightarrow> getp (assign_palette ks vs th) j = getp th j"
  by (induction ks vs th rule: assign_palette.induct) auto

lemma assign_palette_nth:
  "distinct ks \<Longrightarrow> i < length ks \<Longrightarrow> i < length vs \<Longrightarrow> getp (assign_palette ks vs th) (ks ! i) = vs ! i"
proof (induction ks vs th arbitrary: i rule: assign_palette.induct)
  case (1 k ks v vs th)
  then show ?case by (cases i) (auto simp: assign_palette_other)
qed auto

lemma assign_palette_beyond:
  "distinct ks \<Longrightarrow> length vs \<le> i \<Longrightarrow> i < length ks \<Longrightarrow>
   getp (assign_palette ks vs th) (ks ! i) = getp th (ks ! i)"
proof (induction ks vs th arbitrary: i rule: assign_palette.induct)
  case (1 k ks v vs th)
  then show ?case by (cases i) auto
qed auto

lemma distinct_ansi: "distinct ansiColorNames" and length_ansi [simp]: "length ansiColorNames = 16"
  by (simp_all add: ansiColorNames_def)

section \<open>Strings\<close>

lemma js_trim_idem [simp]: "js_trim (js_trim s) = js_trim s"
proof -
  have d: "dropWhile js_space (rev (dropWhile js_space (rev u))) = rev (dropWhile js_space (rev u))"
    if "u = [] \<or> \<not> js_space (hd u)" for u
  proof (cases "rev (dropWhile js_space (rev u))")
    case (Cons c r)
    then have "prefix (c # r) u"
      by (metis rev_rev_ident suffix_dropWhile suffix_to_prefix)
    with that have "\<not> js_space c" by (cases u) auto
    with Cons show ?thesis by simp
  next
    case Nil
    then show ?thesis by (simp only: dropWhile.simps)
  qed
  have h: "dropWhile js_space s = [] \<or> \<not> js_space (hd (dropWhile js_space s))"
    using hd_dropWhile by blast
  have i: "dropWhile js_space (dropWhile js_space r) = dropWhile js_space r" for r
    by simp
  show ?thesis by (simp add: js_trim_def d [OF h] i)
qed

lemma js_trim_space [simp]: "js_trim (CHR '' '' # s) = js_trim s"
  by (simp add: js_trim_def js_space_def code_def)

lemma set_js_trim: "set (js_trim s) \<subseteq> set s"
  by (auto simp: js_trim_def dest!: set_dropWhileD)

subsection \<open>Quoting a list of families\<close>

lemma quote_part_trimmed: "js_trim (quote_part p) = quote_part p"
proof -
  have "js_trim ([CHR 0x22] @ u @ [CHR 0x22]) = [CHR 0x22] @ u @ [CHR 0x22]" for u
    by (simp add: js_trim_def js_space_def code_def)
  then show ?thesis by (simp add: quote_part_def Let_def)
qed

lemma quote_part_idem: "quote_part (quote_part p) = quote_part p"
proof (cases "\<not> js_includes (js_trim p) '' '' \<or> prefix [CHR 0x22] (js_trim p) \<or> prefix [CHR 0x27] (js_trim p)")
  case True
  then have "quote_part p = js_trim p" by (simp add: quote_part_def Let_def)
  with True show ?thesis by (simp add: quote_part_def Let_def)
next
  case False
  then have q: "quote_part p = [CHR 0x22] @ js_trim p @ [CHR 0x22]"
    by (simp add: quote_part_def Let_def)
  have "prefix [CHR 0x22] (js_trim (quote_part p))" unfolding quote_part_trimmed by (simp add: q)
  then show ?thesis
    by (subst quote_part_def) (simp add: Let_def quote_part_trimmed)
qed

lemma quote_part_space: "quote_part (CHR '' '' # p) = quote_part p"
  by (simp add: quote_part_def)

lemma quote_part_no_comma: "CHR '','' \<notin> set p \<Longrightarrow> CHR '','' \<notin> set (quote_part p)"
  using set_js_trim [of p] by (auto simp: quote_part_def Let_def)

lemma js_split_join_space:
  assumes "\<And>p. p \<in> set (q # ps) \<Longrightarrow> c \<notin> set p" "c \<noteq> d"
  shows "js_split c (js_join [c, d] (q # ps)) = q # map (Cons d) ps"
  using assms(1)
proof (induction ps arbitrary: q)
  case Nil
  then show ?case by (simp add: js_split_id)
next
  case (Cons p ps)
  then have "js_split c (js_join [c, d] (p # ps)) = p # map (Cons d) ps" by simp
  then have "js_split c (d # js_join [c, d] (p # ps)) = (d # p) # map (Cons d) ps"
    using assms(2) by simp
  with Cons.prems show ?case by (simp add: js_split_append_sep)
qed

lemma quoteFontFamily_idem: "quoteFontFamily (quoteFontFamily s) = quoteFontFamily s"
proof -
  obtain q ps where e: "js_split (CHR '','') s = q # ps"
    using js_split_nonempty [of "CHR '',''" s] by (cases "js_split (CHR '','') s") auto
  have "CHR '','' \<notin> set p" if "p \<in> set (map quote_part (q # ps))" for p
    using that js_split_no_sep [of _ "CHR '',''" s] quote_part_no_comma unfolding e by auto
  then have "js_split (CHR '','') (js_join [CHR '','', CHR '' ''] (quote_part q # map quote_part ps)) =
      quote_part q # map (Cons (CHR '' '')) (map quote_part ps)"
    by (intro js_split_join_space) auto
  moreover have "map quote_part (map (Cons (CHR '' '')) (map quote_part ps)) = map quote_part ps"
    by (simp add: quote_part_space quote_part_idem)
  ultimately show ?thesis
    by (simp only: quoteFontFamily_def e quote_part_idem list.map)
qed

subsection \<open>Escaping one family\<close>

text \<open>How CSS reads the inside of a string token: a backslash takes the next character.\<close>

fun css_unescape :: "string \<Rightarrow> string" where
  "css_unescape [] = []"
| "css_unescape [c] = [c]"
| "css_unescape (c # d # s) =
     (if c = CHR 0x5C then d # css_unescape s else c # css_unescape (d # s))"

text \<open>Where a string token that starts after its opening quote ends.\<close>

fun css_token :: "string \<Rightarrow> string option" where
  "css_token [] = None"
| "css_token (c # s) =
     (if c = CHR 0x22 then Some []
      else if c = CHR 0x5C then
        (case s of [] \<Rightarrow> None | d # s' \<Rightarrow> map_option (\<lambda>r. c # d # r) (css_token s'))
      else map_option (Cons c) (css_token s))"

lemma css_escape_Nil [simp]: "css_escape [] = []"
  by (simp add: css_escape_def replace_char_def)

lemma css_escape_Cons [simp]:
  "css_escape (c # s) =
     (if c = CHR 0x22 \<or> c = CHR 0x5C then CHR 0x5C # c # css_escape s else c # css_escape s)"
  by (simp add: css_escape_def replace_char_def)

lemma css_escape_unescape: "css_unescape (css_escape s) = s"
proof (induction s)
  case (Cons c s)
  then show ?case
    by (cases "css_escape s") auto
qed simp

lemma css_token_escape: "css_token (css_escape s @ [CHR 0x22]) = Some (css_escape s)"
  by (induction s) auto

end
