(* ===== verification/Term_Bridge.thy ===== *)
theory Term_Bridge
  imports Gw_Terminal Term_Style
begin

text \<open>
  The Ghostty front end \<open>term.js\<close>: the bridge between the native host (which calls
  \<open>window.exports\<close> and receives messages through \<open>webkit.messageHandlers\<close>) and the ghostty
  \<open>Terminal\<close> of the theory \<open>Gw_Terminal\<close>. The messages posted to the host are logged in
  order; animation frames and the settle timer are flags of the state.
\<close>

section \<open>Messages to the host\<close>

datatype arg = A_Num rat | A_Bool bool | A_Str string | A_Text jstr

datatype body = Body_Null | Body_One arg | Body_Many "arg list"

text \<open>No argument posts \<open>null\<close>, one argument itself, several an array.\<close>

definition message_body :: "arg list \<Rightarrow> body" where
  "message_body args =
     (case args of [] \<Rightarrow> Body_Null | [a] \<Rightarrow> Body_One a | _ \<Rightarrow> Body_Many args)"

datatype transform = T_Identity | T_Scale rat rat

record 'w bridge =
  b_term :: "'w terminal option"
  styleState :: obj
  cssVars :: obj
  pendingResizePreview :: bool
  pendingResizeCommit :: bool
  pendingScrollSync :: bool
  lastNativeScrollHeight :: "rat option"
  lastNativeScrollTop :: "rat option"
  oldProps :: "(string \<times> bool) list"
  terminal_focused :: bool
  clientWidth :: rat
  clientHeight :: rat
  canvas_transform :: transform
  handlers :: "string list"
  posted :: "(string \<times> body) list"

definition native :: "string \<Rightarrow> arg list \<Rightarrow> 'w bridge \<Rightarrow> 'w bridge" where
  "native name args s =
     (if name \<notin> set (handlers s) then s else s\<lparr>posted := posted s @ [(name, message_body args)]\<rparr>)"

definition bridge_init :: "string list \<Rightarrow> obj option \<Rightarrow> rat \<Rightarrow> rat \<Rightarrow> 'w bridge" where
  "bridge_init hs initialStyle cw ch =
     (let st = mergeStyle styleState_init initialStyle
      in \<lparr>b_term = None, styleState = st, cssVars = applyDocumentStyle st [],
          pendingResizePreview = False, pendingResizeCommit = False, pendingScrollSync = False,
          lastNativeScrollHeight = None, lastNativeScrollTop = None, oldProps = [],
          terminal_focused = False, clientWidth = cw, clientHeight = ch,
          canvas_transform = T_Identity, handlers = hs, posted = []\<rparr>)"

section \<open>Scheduling\<close>

definition scheduleScrollSync :: "'w bridge \<Rightarrow> 'w bridge" where
  "scheduleScrollSync s = (if pendingScrollSync s then s else s\<lparr>pendingScrollSync := True\<rparr>)"

definition requestResizePreview :: "'w bridge \<Rightarrow> 'w bridge" where
  "requestResizePreview s = (if pendingResizePreview s then s else s\<lparr>pendingResizePreview := True\<rparr>)"

text \<open>Each call replaces the running settle timer.\<close>

definition scheduleFit :: "'w bridge \<Rightarrow> 'w bridge" where
  "scheduleFit s = (requestResizePreview s)\<lparr>pendingResizeCommit := True\<rparr>"

section \<open>Properties and the listeners on the terminal\<close>

definition syncProp :: "string \<Rightarrow> bool \<Rightarrow> 'w bridge \<Rightarrow> 'w bridge" where
  "syncProp name v s =
     (let s = (if map_of (oldProps s) name \<noteq> Some v then native ''propUpdate'' [A_Str name, A_Bool v] s else s)
      in s\<lparr>oldProps := AList.update name v (oldProps s)\<rparr>)"

text \<open>A terminal that is not open makes \<open>getMode\<close> throw; nothing is synchronised then.\<close>

definition syncApplicationCursor :: "'w core \<Rightarrow> 'w bridge \<Rightarrow> 'w bridge" where
  "syncApplicationCursor core s =
     (case b_term s of
        None \<Rightarrow> s
      | Some t \<Rightarrow> (case getMode core 1 False t of Inr v \<Rightarrow> syncProp ''applicationCursor'' v s | Inl _ \<Rightarrow> s))"

text \<open>The listeners installed on load: \<open>onData\<close>, \<open>onResize\<close>, \<open>onScroll\<close>, \<open>onCursorMove\<close>.\<close>

fun dispatch :: "'w core \<Rightarrow> tout \<Rightarrow> 'w bridge \<Rightarrow> 'w bridge" where
  "dispatch core (Fire_Data d) s = syncApplicationCursor core (native ''sendInput'' [A_Text d] s)"
| "dispatch core (Fire_Resize _ _) s = scheduleScrollSync (native ''resize'' [] s)"
| "dispatch core (Fire_Scroll _) s = scheduleScrollSync s"
| "dispatch core Fire_CursorMove s = syncApplicationCursor core s"
| "dispatch core _ s = s"

text \<open>
  Calling a method of the terminal: the events it fires reach the listeners in order. None of
  the listeners changes the terminal, so they are run on its final state.
\<close>

definition call_term :: "'w core \<Rightarrow> ('w terminal \<Rightarrow> 'w terminal) \<Rightarrow> 'w bridge \<Rightarrow> 'w bridge" where
  "call_term core f s =
     (case b_term s of
        None \<Rightarrow> s
      | Some t \<Rightarrow>
          let t' = f (t\<lparr>out := []\<rparr>)
          in fold (dispatch core) (out t') (s\<lparr>b_term := Some t'\<rparr>))"

text \<open>
  A method that may throw: the exception leaves the terminal as it was and skips the
  rest \<open>k\<close> of the caller.
\<close>

definition try_term ::
  "'w core \<Rightarrow> ('w terminal \<Rightarrow> 'w terminal result) \<Rightarrow> ('w bridge \<Rightarrow> 'w bridge) \<Rightarrow> 'w bridge \<Rightarrow> 'w bridge" where
  "try_term core f k s =
     (case b_term s of
        None \<Rightarrow> s
      | Some t \<Rightarrow>
          (case f (t\<lparr>out := []\<rparr>) of
             Inl _ \<Rightarrow> s
           | Inr t' \<Rightarrow> k (fold (dispatch core) (out t') (s\<lparr>b_term := Some t'\<rparr>))))"

section \<open>Scrolling\<close>

definition syncScroll :: "'w core \<Rightarrow> 'w bridge \<Rightarrow> 'w bridge" where
  "syncScroll core s =
     (case b_term s of
        None \<Rightarrow> s
      | Some t \<Rightarrow>
          (case renderer t of
             None \<Rightarrow> s
           | Some m \<Rightarrow>
               let sb = of_nat (getScrollbackLength core t);
                   scrollHeight = (sb + of_nat (rows t)) * m_height m;
                   scrollTop = (sb - viewportY t) * m_height m;
                   s = (if Some scrollHeight \<noteq> lastNativeScrollHeight s
                        then (native ''newScrollHeight'' [A_Num scrollHeight] s)\<lparr>lastNativeScrollHeight := Some scrollHeight\<rparr>
                        else s)
               in if Some scrollTop \<noteq> lastNativeScrollTop s
                  then (native ''newScrollTop'' [A_Num scrollTop] s)\<lparr>lastNativeScrollTop := Some scrollTop\<rparr>
                  else s))"

text \<open>The frame callback of \<open>scheduleScrollSync\<close>.\<close>

definition scrollSyncFrame :: "'w core \<Rightarrow> 'w bridge \<Rightarrow> 'w bridge" where
  "scrollSyncFrame core s = syncScroll core (s\<lparr>pendingScrollSync := False\<rparr>)"

section \<open>Fitting the terminal to its element\<close>

text \<open>The canvas is as large as the grid: \<open>renderer.resize\<close> sets its size in pixels.\<close>

definition canvas_width :: "'w terminal \<Rightarrow> rmetrics \<Rightarrow> rat" where
  "canvas_width t m = of_nat (cols t) * m_width m"

definition canvas_height :: "'w terminal \<Rightarrow> rmetrics \<Rightarrow> rat" where
  "canvas_height t m = of_nat (rows t) * m_height m"

definition previewTerminalSize :: "'w bridge \<Rightarrow> 'w bridge" where
  "previewTerminalSize s =
     (case b_term s of
        None \<Rightarrow> s
      | Some t \<Rightarrow>
          (case renderer t of
             None \<Rightarrow> s
           | Some m \<Rightarrow>
               if \<not> canvas t then s
               else
                 let cw = canvas_width t m; ch = canvas_height t m
                 in if cw \<le> 0 \<or> ch \<le> 0 \<or> clientWidth s \<le> 0 \<or> clientHeight s \<le> 0 then s
                    else s\<lparr>canvas_transform := T_Scale (clientWidth s / cw) (clientHeight s / ch)\<rparr>))"

definition resizePreviewFrame :: "'w bridge \<Rightarrow> 'w bridge" where
  "resizePreviewFrame s = previewTerminalSize (s\<lparr>pendingResizePreview := False\<rparr>)"

definition fit_cols :: "rat \<Rightarrow> rat \<Rightarrow> nat" where
  "fit_cols width cell = nat (max 2 \<lfloor>width / cell\<rfloor>)"

definition fit_rows :: "rat \<Rightarrow> rat \<Rightarrow> nat" where
  "fit_rows height cell = nat (max 1 \<lfloor>height / cell\<rfloor>)"

definition fitTerminal :: "'w core \<Rightarrow> 'w bridge \<Rightarrow> 'w bridge" where
  "fitTerminal core s =
     (case b_term s of
        None \<Rightarrow> s
      | Some t \<Rightarrow>
          (case renderer t of
             None \<Rightarrow> s
           | Some m \<Rightarrow>
               if m_width m = 0 \<or> m_height m = 0 \<or> clientWidth s \<le> 0 \<or> clientHeight s \<le> 0 then s
               else
                 let s = (if canvas t then s\<lparr>canvas_transform := T_Identity\<rparr> else s);
                     c = fit_cols (clientWidth s) (m_width m);
                     r = fit_rows (clientHeight s) (m_height m)
                 in if c \<noteq> cols t \<or> r \<noteq> rows t
                    then try_term core (resize core (Some (of_nat c)) (Some (of_nat r)))
                           (\<lambda>s. scheduleScrollSync (native ''resize'' [] s)) s
                    else s))"

text \<open>The settle timer started by \<open>scheduleFit\<close>.\<close>

definition resizeCommitTimeout :: "'w core \<Rightarrow> 'w bridge \<Rightarrow> 'w bridge" where
  "resizeCommitTimeout core s = fitTerminal core (s\<lparr>pendingResizeCommit := False\<rparr>)"

definition forceFullRepaint :: "'w core \<Rightarrow> 'w bridge \<Rightarrow> 'w bridge" where
  "forceFullRepaint core s =
     (case b_term s of
        None \<Rightarrow> s
      | Some t \<Rightarrow>
          if renderer t = None \<or> wasmTerm t = None then s
          else call_term core (\<lambda>t. requestRender (draw True (scrollbarOpacity t) t)) s)"

section \<open>The exports\<close>

definition ex_write :: "'w core \<Rightarrow> jstr \<Rightarrow> 'w bridge \<Rightarrow> 'w bridge" where
  "ex_write core data s =
     (let bytes = latin1StringToBytes data
      in try_term core (term_write core (Bytes bytes) False)
           (\<lambda>s. scheduleScrollSync (if 27 \<in> set bytes then syncApplicationCursor core s else s)) s)"

definition ex_getSize :: "'w bridge \<Rightarrow> nat \<times> nat" where
  "ex_getSize s = (case b_term s of Some t \<Rightarrow> (cols t, rows t) | None \<Rightarrow> (0, 0))"

definition ex_setFocused :: "bool \<Rightarrow> 'w bridge \<Rightarrow> 'w bridge" where
  "ex_setFocused focus s = s\<lparr>terminal_focused := focus\<rparr>"

definition ex_scrollToBottom :: "'w core \<Rightarrow> 'w bridge \<Rightarrow> 'w bridge" where
  "ex_scrollToBottom core s = scheduleScrollSync (call_term core (scrollToBottom core) s)"

definition cell_height :: "'w terminal \<Rightarrow> rat" where
  "cell_height t =
     (case renderer t of Some m \<Rightarrow> if m_height m = 0 then 1 else m_height m | None \<Rightarrow> 1)"

definition ex_newScrollTop :: "'w core \<Rightarrow> num_arg \<Rightarrow> 'w bridge \<Rightarrow> 'w bridge" where
  "ex_newScrollTop core y s =
     (case (y, b_term s) of
        (Some v, Some t) \<Rightarrow>
          let line = of_nat (getScrollbackLength core t) - v / cell_height t
          in scheduleScrollSync
               (call_term core (scrollToLine core (Some (of_int (js_round line)))) s)
      | _ \<Rightarrow> s)"

definition ex_getCharacterSize :: "'w bridge \<Rightarrow> rat \<times> rat" where
  "ex_getCharacterSize s =
     (case b_term s of
        Some t \<Rightarrow> (case renderer t of Some m \<Rightarrow> (m_width m, m_height m) | None \<Rightarrow> (0, 0))
      | None \<Rightarrow> (0, 0))"

definition ex_clearScrollback :: "'w core \<Rightarrow> 'w bridge \<Rightarrow> 'w bridge" where
  "ex_clearScrollback core s =
     try_term core (term_write core (Text ([27] @ js ''[3J'')) False)
       (\<lambda>s. scheduleScrollSync (call_term core (scrollToBottom core) s)) s"

text \<open>
  \<open>updateStyle\<close> runs in two parts: the style is merged at once; when the font has loaded, the
  options are assigned from the style state of that moment. Before the terminal is loaded
  only the first part exists.
\<close>

definition updateStyle_begin :: "obj option \<Rightarrow> 'w bridge \<Rightarrow> 'w bridge" where
  "updateStyle_begin nextStyle s =
     (let st = mergeStyle (styleState s) nextStyle
      in s\<lparr>styleState := st, cssVars := applyDocumentStyle st (cssVars s)\<rparr>)"

definition style_size :: "obj \<Rightarrow> rat" where
  "style_size st = (case getp st ''fontSize'' of Number r \<Rightarrow> r | _ \<Rightarrow> 0)"

text \<open>The assignments to \<open>term.options\<close>, the two font options only when they differ.\<close>

definition style_options :: "obj \<Rightarrow> topts \<Rightarrow> opt list" where
  "style_options st p =
     (if o_fontFamily p \<noteq> style_family st then [Opt_fontFamily (style_family st)] else []) @
     (if o_fontSize p \<noteq> style_size st then [Opt_fontSize (style_size st)] else []) @
     [Opt_cursorBlink (truthy (getp st ''blinkCursor'')),
      Opt_cursorStyle (cursorStyleForGhostty (getp st ''cursorShape'')),
      Opt_theme (themeForGhostty st)]"

definition assign_options ::
  "tenv \<Rightarrow> 'w core \<Rightarrow> opt list \<Rightarrow> 'w bridge \<Rightarrow> 'w bridge" where
  "assign_options env core xs s = fold (\<lambda>x. try_term core (set_option env core x) id) xs s"

definition updateStyle_apply :: "tenv \<Rightarrow> 'w core \<Rightarrow> 'w bridge \<Rightarrow> 'w bridge" where
  "updateStyle_apply env core s =
     (case b_term s of
        None \<Rightarrow> s
      | Some t \<Rightarrow>
          scheduleScrollSync (forceFullRepaint core (fitTerminal core
            (assign_options env core (style_options (styleState s) (options t)) s))))"

section \<open>Touch, mouse and focus\<close>

text \<open>\<open>sel\<close> is what \<open>term.hasSelection()\<close> answers; the result says whether the default is prevented.\<close>

definition on_touchstart :: "bool \<Rightarrow> 'w bridge \<Rightarrow> bool \<times> 'w bridge" where
  "on_touchstart sel s = (\<not> sel, s)"

definition on_touchend :: "bool \<Rightarrow> 'w bridge \<Rightarrow> bool \<times> 'w bridge" where
  "on_touchend sel s = (if sel then (False, s) else (True, native ''focus'' [] s))"

definition on_mousedown :: "bool \<Rightarrow> 'w bridge \<Rightarrow> bool \<times> 'w bridge" where
  "on_mousedown sel s = (True, if \<not> sel then native ''focus'' [] s else s)"

definition on_focus_change :: "'w bridge \<Rightarrow> 'w bridge" where
  "on_focus_change s = native ''syncFocus'' [] s"

section \<open>Loading\<close>

text \<open>\<open>iphone\<close> is the user agent test, \<open>dpr\<close> the window's ratio.\<close>

definition preferredDevicePixelRatio :: "bool \<Rightarrow> rat option \<Rightarrow> rat" where
  "preferredDevicePixelRatio iphone dpr =
     (if iphone then 1 else case dpr of Some r \<Rightarrow> if r = 0 then 1 else r | None \<Rightarrow> 1)"

definition terminalOptions :: "obj \<Rightarrow> topts" where
  "terminalOptions st = options_init\<lparr>o_cols := 80, o_rows := 24, o_allowTransparency := True,
     o_cursorBlink := truthy (getp st ''blinkCursor''),
     o_cursorStyle := cursorStyleForGhostty (getp st ''cursorShape''),
     o_fontFamily := style_family st, o_fontSize := style_size st,
     o_scrollbarWidth := Some 0, o_smoothScrollDuration := 0, o_theme := themeForGhostty st\<rparr>"

text \<open>\<open>disableWebTextInput\<close>: the attributes the terminal put on the element are taken off again.\<close>

definition disableWebTextInput :: "'w terminal \<Rightarrow> 'w terminal" where
  "disableWebTextInput t =
     t\<lparr>attributes := AList.update ''tabindex'' ''-1''
        (filter (\<lambda>a. fst a \<notin> {''contenteditable'', ''role'', ''aria-label'', ''aria-multiline''})
           (attributes t))\<rparr>"

text \<open>The rest of the \<open>load\<close> handler once the terminal is open.\<close>

definition loaded :: "'w core \<Rightarrow> 'w terminal \<Rightarrow> 'w bridge \<Rightarrow> 'w bridge" where
  "loaded core t s =
     native ''syncFocus'' [] (native ''load'' []
       (scheduleScrollSync (syncApplicationCursor core (fitTerminal core
          (fold (dispatch core) (out t) (s\<lparr>b_term := Some (disableWebTextInput t)\<rparr>))))))"

text \<open>The \<open>load\<close> handler: a failure of \<open>init\<close> or \<open>open\<close> is logged and thrown again.\<close>

definition load_failed :: "'w bridge \<Rightarrow> 'w bridge" where
  "load_failed s = native ''log'' [A_Str ''terminal frontend failed to load''] s"

definition on_load ::
  "tenv \<Rightarrow> 'w core \<Rightarrow> (string \<times> string) list \<Rightarrow> bool \<Rightarrow> 'w bridge \<Rightarrow> js_error option \<times> 'w bridge" where
  "on_load env core elem init_ok s =
     (if \<not> init_ok then (Some (Js_Error ''init''), load_failed s)
      else
        let r = term_open env core elem (terminal_new env (terminalOptions (styleState s)))
        in case fst r of
             Some e \<Rightarrow> (Some e, load_failed (s\<lparr>b_term := Some (snd r)\<rparr>))
           | None \<Rightarrow> (None, loaded core (snd r) s))"

text \<open>The global \<open>error\<close> and \<open>unhandledrejection\<close> listeners.\<close>

definition on_error :: "string \<Rightarrow> 'w bridge \<Rightarrow> 'w bridge" where
  "on_error msg s = native ''log'' [A_Str (''terminal frontend error: '' @ msg)] s"

definition on_rejection :: "string \<Rightarrow> 'w bridge \<Rightarrow> 'w bridge" where
  "on_rejection reason s = native ''log'' [A_Str (''terminal frontend rejection: '' @ reason)] s"

end
