(* ===== verification/Gw_Scroll_Props.thy ===== *)
theory Gw_Scroll_Props
  imports Gw_Terminal
begin

text \<open>
  Correctness of the ghostty \<open>Terminal\<close> class: the scroll position stays inside the
  scrollback, a write shows the newest output and delivers the core's answers, smooth
  scrolling reaches its target, no change of the scroll position is left unrendered, and
  what \<open>open\<close> installs is removed by \<open>dispose\<close>.
\<close>

section \<open>What the helper operations leave alone\<close>

text \<open>
  Firing, drawing and the scrollbar touch neither the scroll position nor the core nor the
  life-cycle flags.
\<close>

definition frame_view :: "'w terminal \<Rightarrow>
    'w gt option \<times> rmetrics option \<times> topts \<times> nat \<times> nat \<times> bool \<times> bool \<times> bool \<times> rat \<times> rat \<times> bool \<times> bool \<times> bool" where
  "frame_view t = (wasmTerm t, renderer t, options t, cols t, rows t, isOpen t, isDisposed t,
     isSuspended t, viewportY t, targetViewportY t, scrollAnimationFrame t, scrollAnimationStarted t,
     has_element t)"

lemma frame_view_eq:
  "frame_view t' = frame_view t \<longleftrightarrow>
     wasmTerm t' = wasmTerm t \<and> renderer t' = renderer t \<and> options t' = options t \<and>
     cols t' = cols t \<and> rows t' = rows t \<and> isOpen t' = isOpen t \<and> isDisposed t' = isDisposed t \<and>
     isSuspended t' = isSuspended t \<and> viewportY t' = viewportY t \<and>
     targetViewportY t' = targetViewportY t \<and> scrollAnimationFrame t' = scrollAnimationFrame t \<and>
     scrollAnimationStarted t' = scrollAnimationStarted t \<and> has_element t' = has_element t"
  by (auto simp: frame_view_def)

named_theorems frame_rules \<open>operations that keep the frame view\<close>

lemma frame_fire [frame_rules]: "frame_view (fire e t) = frame_view t"
  by (simp add: frame_view_def fire_def)

lemma frame_fire_if [frame_rules]: "frame_view (fire_if b e t) = frame_view t"
  by (simp add: fire_if_def frame_fire)

lemma frame_draw [frame_rules]: "frame_view (draw f p t) = frame_view t"
  by (simp add: frame_view_def draw_def)

lemma frame_requestRender [frame_rules]: "frame_view (requestRender t) = frame_view t"
  by (simp add: frame_view_def requestRender_def)

lemma frame_fade [frame_rules]: "frame_view (fade_frame f t) = frame_view t"
  by (cases f) (auto simp: fade_frame_def Let_def frame_view_def draw_def)

lemma frame_show [frame_rules]: "frame_view (showScrollbar t) = frame_view t"
  by (auto simp: showScrollbar_def fadeInScrollbar_def fade_frame_def Let_def frame_view_def draw_def)

lemma frame_show_if [frame_rules]: "frame_view (show_if b t) = frame_view t"
  by (simp add: show_if_def frame_show)

lemma frame_hide [frame_rules]: "frame_view (hideScrollbar t) = frame_view t"
  by (auto simp: hideScrollbar_def fadeOutScrollbar_def fade_frame_def Let_def frame_view_def draw_def)

lemma frame_set_title [frame_rules]: "frame_view (set_title m t) = frame_view t"
  by (simp add: set_title_def frame_view_def fire_def)

lemma frame_check_title [frame_rules]: "frame_view (check_title d t) = frame_view t"
proof -
  have "frame_view (fold set_title ms t) = frame_view t" for ms
    by (induction ms arbitrary: t) (simp_all add: frame_set_title)
  then show ?thesis by (simp add: check_title_def checkForTitleChange_def split: wdata.splits)
qed

lemma frame_fire_many [frame_rules]: "frame_view (fire_many e n t) = frame_view t"
  unfolding fire_many_def by (induction n) (simp_all add: frame_fire)

lemma frame_renderTick [frame_rules]: "frame_view (renderTick core t) = frame_view t"
  by (auto simp: renderTick_def Let_def frame_view_def draw_def fire_def split: option.splits)

lemmas frame_facts = frame_rules [unfolded frame_view_eq]

lemma frame_simps [simp]:
  "viewportY (fire e t) = viewportY t" "viewportY (requestRender t) = viewportY t"
  "viewportY (show_if b t) = viewportY t" "viewportY (showScrollbar t) = viewportY t"
  "wasmTerm (fire e t) = wasmTerm t" "wasmTerm (requestRender t) = wasmTerm t"
  "wasmTerm (show_if b t) = wasmTerm t" "wasmTerm (showScrollbar t) = wasmTerm t"
  "options (fire e t) = options t" "options (requestRender t) = options t"
  "options (show_if b t) = options t" "options (showScrollbar t) = options t"
  "scrollAnimationStarted (fire e t) = scrollAnimationStarted t"
  "scrollAnimationStarted (requestRender t) = scrollAnimationStarted t"
  "scrollAnimationStarted (show_if b t) = scrollAnimationStarted t"
  "scrollAnimationStarted (showScrollbar t) = scrollAnimationStarted t"
  by (simp_all add: frame_facts)

lemma flag_simps [simp]:
  "isOpen (fire e t) = isOpen t" "isOpen (requestRender t) = isOpen t"
  "isOpen (show_if b t) = isOpen t" "isOpen (showScrollbar t) = isOpen t"
  "isDisposed (fire e t) = isDisposed t" "isDisposed (requestRender t) = isDisposed t"
  "isDisposed (show_if b t) = isDisposed t" "isDisposed (showScrollbar t) = isDisposed t"
  "isSuspended (fire e t) = isSuspended t" "isSuspended (requestRender t) = isSuspended t"
  "isSuspended (show_if b t) = isSuspended t" "isSuspended (showScrollbar t) = isSuspended t"
  "targetViewportY (fire e t) = targetViewportY t"
  "targetViewportY (requestRender t) = targetViewportY t"
  "targetViewportY (show_if b t) = targetViewportY t"
  "targetViewportY (showScrollbar t) = targetViewportY t"
  by (simp_all add: frame_facts)

lemma length_simps [simp]:
  "getScrollbackLength core (fire e t) = getScrollbackLength core t"
  "getScrollbackLength core (requestRender t) = getScrollbackLength core t"
  "getScrollbackLength core (show_if b t) = getScrollbackLength core t"
  "getScrollbackLength core (showScrollbar t) = getScrollbackLength core t"
  "getScrollbackLength core (t\<lparr>viewportY := y\<rparr>) = getScrollbackLength core t"
  "getScrollbackLength core (t\<lparr>targetViewportY := y\<rparr>) = getScrollbackLength core t"
  "getScrollbackLength core (t\<lparr>viewportY := y, targetViewportY := z\<rparr>) = getScrollbackLength core t"
  by (simp_all add: getScrollbackLength_def)

text \<open>Jumping to the bottom changes the position only.\<close>

lemma scrollToBottom_simps [simp]:
  "viewportY (scrollToBottom core t) = 0"
  "wasmTerm (scrollToBottom core t) = wasmTerm t"
  "options (scrollToBottom core t) = options t"
  "scrollAnimationStarted (scrollToBottom core t) = scrollAnimationStarted t"
  "isOpen (scrollToBottom core t) = isOpen t"
  "isDisposed (scrollToBottom core t) = isDisposed t"
  "isSuspended (scrollToBottom core t) = isSuspended t"
  by (simp_all add: scrollToBottom_def)

lemma scrollToBottom_guard [simp]:
  "(if viewportY t \<noteq> 0 then scrollToBottom core t else t) = scrollToBottom core t"
  by (simp add: scrollToBottom_def)

section \<open>The responses of the core\<close>

text \<open>The loop of \<open>processTerminalResponses\<close> ends after one delivery.\<close>

lemma processTerminalResponses_unfold:
  "processTerminalResponses core t =
     (case wasmTerm t of
        None \<Rightarrow> t
      | Some g \<Rightarrow>
          if pendingResponses g = [] then t
          else fire (Fire_Data (utf8_decode core (concat (pendingResponses g))))
                 (t\<lparr>wasmTerm := Some (g\<lparr>pendingResponses := []\<rparr>)\<rparr>))"
  by (simp add: processTerminalResponses.simps [of core t]
        processTerminalResponses.simps [of core "fire _ _"] readResponse_def split: option.splits)

lemma responses_view [simp]:
  "viewportY (processTerminalResponses core t) = viewportY t"
  "options (processTerminalResponses core t) = options t"
  "scrollAnimationStarted (processTerminalResponses core t) = scrollAnimationStarted t"
  "isOpen (processTerminalResponses core t) = isOpen t"
  "isDisposed (processTerminalResponses core t) = isDisposed t"
  "isSuspended (processTerminalResponses core t) = isSuspended t"
  "wasmTerm (processTerminalResponses core t) =
     map_option (\<lambda>g. g\<lparr>pendingResponses := []\<rparr>) (wasmTerm t)"
  by (auto simp: processTerminalResponses_unfold split: option.splits)

section \<open>Events of a terminal\<close>

text \<open>Everything a page can make an open terminal do, apart from resizing and resetting it.\<close>

datatype tcmd =
    Do_scrollLines num_arg
  | Do_scrollPages num_arg
  | Do_scrollToTop
  | Do_scrollToBottom
  | Do_scrollToLine num_arg
  | Do_smoothScrollTo num_arg
  | Do_wheel bool delta_mode rat
  | Do_mouseDown rect rat rat
  | Do_mouseDrag rect rat
  | Do_mouseUp
  | Do_write wdata bool
  | Do_writeln wdata bool
  | Do_paste jstr
  | Do_input jstr bool
  | Do_clear
  | Do_suspend
  | Do_resume
  | Do_renderTick
  | Do_animationFrame
  | Do_fadeFrame
  | Do_hideTimeout
  | Do_wait rat

text \<open>An exception leaves the terminal as it was.\<close>

definition after :: "'w terminal \<Rightarrow> 'w terminal result \<Rightarrow> 'w terminal" where
  "after t r = (case r of Inl _ \<Rightarrow> t | Inr t' \<Rightarrow> t')"

lemma after_simps [simp]: "after t (Inl e) = t" "after t (Inr t') = t'"
  by (simp_all add: after_def)

text \<open>Frames run only while they are scheduled.\<close>

fun run :: "'w core \<Rightarrow> tcmd \<Rightarrow> 'w terminal \<Rightarrow> 'w terminal" where
  "run core (Do_scrollLines a) t = after t (scrollLines core a t)"
| "run core (Do_scrollPages a) t = after t (scrollPages core a t)"
| "run core Do_scrollToTop t = scrollToTop core t"
| "run core Do_scrollToBottom t = scrollToBottom core t"
| "run core (Do_scrollToLine a) t = scrollToLine core a t"
| "run core (Do_smoothScrollTo a) t = smoothScrollTo core a t"
| "run core (Do_wheel c m d) t = handleWheel core c m d t"
| "run core (Do_mouseDown r x y) t = handleMouseDown core r x y t"
| "run core (Do_mouseDrag r y) t =
     (if isDraggingScrollbar t then processScrollbarDrag core r y t else t)"
| "run core Do_mouseUp t = handleMouseUp core t"
| "run core (Do_write d cb) t = after t (term_write core d cb t)"
| "run core (Do_writeln d cb) t = after t (writeln core d cb t)"
| "run core (Do_paste s) t = after t (paste core s t)"
| "run core (Do_input s u) t = after t (term_input core s u t)"
| "run core Do_clear t = after t (clear core t)"
| "run core Do_suspend t = suspend t"
| "run core Do_resume t = resume core t"
| "run core Do_renderTick t = (if animationFrame t then renderTick core t else t)"
| "run core Do_animationFrame t = (if scrollAnimationFrame t then animateScroll core t else t)"
| "run core Do_fadeFrame t =
     (case fades t of [] \<Rightarrow> t | f # fs \<Rightarrow> fade_frame f (t\<lparr>fades := fs\<rparr>))"
| "run core Do_hideTimeout t =
     (case scrollbarHideTimeout t of None \<Rightarrow> t | Some _ \<Rightarrow> hideScrollbar t)"
| "run core (Do_wait d) t = t\<lparr>now := now t + \<bar>d\<bar>\<rparr>"

definition runs :: "'w core \<Rightarrow> tcmd list \<Rightarrow> 'w terminal \<Rightarrow> 'w terminal" where
  "runs core cs t = fold (run core) cs t"

section \<open>The scroll position stays in the scrollback\<close>

text \<open>The configuration the front end uses: no smooth scrolling, hence no animation.\<close>

definition scroll_ok :: "'w core \<Rightarrow> 'w terminal \<Rightarrow> bool" where
  "scroll_ok core t =
     (0 \<le> viewportY t \<and> viewportY t \<le> of_nat (getScrollbackLength core t) \<and>
      o_smoothScrollDuration (options t) = 0 \<and> \<not> scrollAnimationStarted t)"

lemma scroll_ok_view:
  "frame_view t' = frame_view t \<Longrightarrow> scroll_ok core t' = scroll_ok core t"
  by (auto simp: scroll_ok_def frame_view_eq getScrollbackLength_def)

lemma ok_scrollLines [inv_rules]: "scroll_ok core t \<Longrightarrow> scroll_ok core (after t (scrollLines core a t))"
  by (auto simp: scrollLines_def after_def Let_def scroll_ok_def split: option.splits)

lemma ok_scrollPages [inv_rules]: "scroll_ok core t \<Longrightarrow> scroll_ok core (after t (scrollPages core a t))"
  by (cases a) (simp_all add: scrollPages_def ok_scrollLines)

lemma ok_scrollToTop [inv_rules]: "scroll_ok core t \<Longrightarrow> scroll_ok core (scrollToTop core t)"
  by (auto simp: scrollToTop_def Let_def scroll_ok_def)

lemma ok_scrollToBottom [inv_rules]: "scroll_ok core t \<Longrightarrow> scroll_ok core (scrollToBottom core t)"
  by (auto simp: scrollToBottom_def Let_def scroll_ok_def)

lemma ok_scrollToLine [inv_rules]: "scroll_ok core t \<Longrightarrow> scroll_ok core (scrollToLine core a t)"
  by (auto simp: scrollToLine_def Let_def scroll_ok_def split: option.splits)

lemma ok_smoothScrollTo [inv_rules]: "scroll_ok core t \<Longrightarrow> scroll_ok core (smoothScrollTo core a t)"
  by (auto simp: smoothScrollTo_def Let_def scroll_ok_def split: option.splits)

lemma ok_wheel [inv_rules]: "scroll_ok core t \<Longrightarrow> scroll_ok core (handleWheel core c m d t)"
  by (auto simp: handleWheel_def Let_def intro: ok_smoothScrollTo
        simp: scroll_ok_view [OF frame_fire_many])

lemma ok_mouseDown [inv_rules]: "scroll_ok core t \<Longrightarrow> scroll_ok core (handleMouseDown core r x y t)"
  by (auto simp: handleMouseDown_def Let_def intro: ok_scrollToLine)
     (auto simp: scroll_ok_def getScrollbackLength_def)

lemma ok_mouseUp [inv_rules]: "scroll_ok core t \<Longrightarrow> scroll_ok core (handleMouseUp core t)"
  by (auto simp: handleMouseUp_def Let_def scroll_ok_def getScrollbackLength_def)

lemma ok_drag [inv_rules]: "scroll_ok core t \<Longrightarrow> scroll_ok core (processScrollbarDrag core r y t)"
  by (auto simp: processScrollbarDrag_def Let_def intro: ok_scrollToLine split: option.splits)

definition written :: "'w core \<Rightarrow> wdata \<Rightarrow> bool \<Rightarrow> 'w terminal \<Rightarrow> 'w terminal" where
  "written core d cb t =
     requestRender (fire_if cb Frame_Callback (check_title d (scrollToBottom core
       (fire Invalidate_Links (fire_if (has_bell d) Fire_Bell (processTerminalResponses core t))))))"

lemma writeInternal_eq:
  "wasmTerm t = Some g \<Longrightarrow> gt_write core d g = Inr g' \<Longrightarrow>
   writeInternal core d cb t = Inr (written core d cb (t\<lparr>wasmTerm := Some g'\<rparr>))"
  by (simp only: writeInternal_def written_def Let_def option.case and_then_simps scrollToBottom_guard)

lemma written_simps [simp]:
  "viewportY (written core d cb t) = 0"
  "options (written core d cb t) = options t"
  "scrollAnimationStarted (written core d cb t) = scrollAnimationStarted t"
  "wasmTerm (written core d cb t) = map_option (\<lambda>g. g\<lparr>pendingResponses := []\<rparr>) (wasmTerm t)"
  "isOpen (written core d cb t) = isOpen t"
  "isDisposed (written core d cb t) = isDisposed t"
  "isSuspended (written core d cb t) = isSuspended t"
  by (simp_all add: written_def frame_facts)

lemma writeInternal_cases:
  assumes "writeInternal core d cb t = Inr t'"
  obtains g g' where "wasmTerm t = Some g" "gt_write core d g = Inr g'"
    "viewportY t' = 0" "options t' = options t"
    "scrollAnimationStarted t' = scrollAnimationStarted t"
    "wasmTerm t' = Some (g'\<lparr>pendingResponses := []\<rparr>)"
    "isOpen t' = isOpen t" "isDisposed t' = isDisposed t" "isSuspended t' = isSuspended t"
proof (cases "wasmTerm t")
  case None
  with assms show ?thesis by (simp add: writeInternal_def)
next
  case (Some g)
  with assms obtain g' where g': "gt_write core d g = Inr g'"
    by (auto simp: writeInternal_def and_then_Inr_iff)
  show ?thesis
    by (rule that [OF Some g'])
       (use assms writeInternal_eq [OF Some g'] in auto)
qed

lemma ok_writeInternal [inv_rules]:
  "scroll_ok core t \<Longrightarrow> scroll_ok core (after t (writeInternal core d cb t))"
proof (cases "writeInternal core d cb t")
  case (Inr t')
  assume "scroll_ok core t"
  with Inr show ?thesis
    by (auto elim!: writeInternal_cases simp: scroll_ok_def)
qed simp

lemma after_and_then_assert:
  "after t (and_then (assertOpen t) f) = (if isDisposed t \<or> \<not> isOpen t then t else after t (f ()))"
  by (simp add: assertOpen_def)

lemma ok_term_write [inv_rules]: "scroll_ok core t \<Longrightarrow> scroll_ok core (after t (term_write core d cb t))"
  by (simp add: term_write_def after_and_then_assert Let_def ok_writeInternal)

lemma ok_writeln [inv_rules]: "scroll_ok core t \<Longrightarrow> scroll_ok core (after t (writeln core d cb t))"
  by (cases d) (simp_all add: writeln_def ok_term_write)

lemma ok_fire [inv_rules]: "scroll_ok core t \<Longrightarrow> scroll_ok core (fire e t)"
  by (simp add: scroll_ok_view [OF frame_fire])

lemma ok_paste [inv_rules]: "scroll_ok core t \<Longrightarrow> scroll_ok core (after t (paste core s t))"
  by (simp add: paste_def after_and_then_assert ok_fire split: option.splits)

lemma ok_input [inv_rules]: "scroll_ok core t \<Longrightarrow> scroll_ok core (after t (term_input core s u t))"
  by (simp add: term_input_def after_and_then_assert ok_fire ok_term_write)

lemma ok_clear [inv_rules]: "scroll_ok core t \<Longrightarrow> scroll_ok core (after t (clear core t))"
  by (simp add: clear_def after_and_then_assert ok_writeInternal)

lemma ok_suspend [inv_rules]: "scroll_ok core t \<Longrightarrow> scroll_ok core (suspend t)"
  by (simp add: suspend_def cancelScrollAnimation_def cancelRenderLoop_def scroll_ok_def
        getScrollbackLength_def)

lemma animateScroll_idle [simp]: "\<not> scrollAnimationStarted t \<Longrightarrow> animateScroll core t = t"
  by (simp add: animateScroll_def)

lemma ok_resume [inv_rules]: "scroll_ok core t \<Longrightarrow> scroll_ok core (resume core t)"
  by (auto simp: resume_def Let_def scroll_ok_def) (auto simp: getScrollbackLength_def)

lemma ok_frames [inv_rules]:
  "scroll_ok core t \<Longrightarrow> scroll_ok core (renderTick core t)"
  "scroll_ok core t \<Longrightarrow> scroll_ok core (animateScroll core t)"
  "scroll_ok core t \<Longrightarrow> scroll_ok core (hideScrollbar t)"
  "scroll_ok core t \<Longrightarrow> scroll_ok core (fade_frame f (t\<lparr>fades := fs\<rparr>))"
  by (simp_all add: scroll_ok_view [OF frame_renderTick] scroll_ok_view [OF frame_hide]
        scroll_ok_view [OF frame_fade])
     (simp_all add: scroll_ok_def getScrollbackLength_def)

lemma ok_wait [inv_rules]: "scroll_ok core t \<Longrightarrow> scroll_ok core (t\<lparr>now := d\<rparr>)"
  by (simp add: scroll_ok_def getScrollbackLength_def)

lemma ok_run: "scroll_ok core t \<Longrightarrow> scroll_ok core (run core c t)"
  by (cases c) (simp_all add: inv_rules split: list.split option.split)

lemma ok_runs: "scroll_ok core t \<Longrightarrow> scroll_ok core (runs core cs t)"
  unfolding runs_def by (induction cs arbitrary: t) (simp_all add: ok_run)

section \<open>A change of the position schedules a frame\<close>

definition rendered :: "'w terminal \<Rightarrow> 'w terminal \<Rightarrow> bool" where
  "rendered t t' =
     (viewportY t' \<noteq> viewportY t \<longrightarrow> isOpen t' \<longrightarrow> \<not> isDisposed t' \<longrightarrow> \<not> isSuspended t' \<longrightarrow> animationFrame t')"

named_theorems rendered_rules \<open>operations that schedule a frame when they scroll\<close>

lemma rendered_same: "viewportY t' = viewportY t \<Longrightarrow> rendered t t'"
  by (simp add: rendered_def)

lemma rendered_self [simp]: "rendered t t"
  by (simp add: rendered_same)

lemma rendered_request [simp]: "rendered t (requestRender t')"
  by (auto simp: rendered_def requestRender_def)

lemma rendered_view: "frame_view t' = frame_view t \<Longrightarrow> rendered t t'"
  by (simp add: frame_view_eq rendered_same)

lemma rendered_scroll [rendered_rules]:
  "rendered t (after t (scrollLines core a t))"
  "rendered t (scrollToTop core t)" "rendered t (scrollToBottom core t)"
  "rendered t (scrollToLine core a t)"
  by (simp_all add: scrollLines_def scrollToTop_def scrollToBottom_def scrollToLine_def Let_def
        split: option.split)

lemma rendered_scrollPages [rendered_rules]: "rendered t (after t (scrollPages core a t))"
  by (cases a) (simp_all add: scrollPages_def rendered_scroll)

lemma rendered_animation_flag: "rendered t t' \<Longrightarrow> rendered t (t'\<lparr>scrollAnimationFrame := b\<rparr>)"
  by (simp add: rendered_def)

lemma rendered_animateScroll [rendered_rules]: "rendered t (animateScroll core t)"
  by (simp add: animateScroll_def Let_def rendered_animation_flag)

lemma rendered_smooth [rendered_rules]: "rendered t (smoothScrollTo core a t)"
proof -
  have "rendered t (animateScroll core (t\<lparr>targetViewportY := q, scrollAnimationStarted := True\<rparr>))" for q
    using rendered_animateScroll [of "t\<lparr>targetViewportY := q, scrollAnimationStarted := True\<rparr>" core]
    by (simp add: rendered_def)
  then show ?thesis
    by (simp add: smoothScrollTo_def Let_def rendered_same split: option.split)
qed

lemma rendered_mouse [rendered_rules]:
  "rendered t (handleWheel core cu m d t)"
  "rendered t (handleMouseDown core r x y t)"
  "rendered t (processScrollbarDrag core r y t)"
  "rendered t (handleMouseUp core t)"
  by (simp_all add: handleWheel_def handleMouseDown_def processScrollbarDrag_def handleMouseUp_def
        Let_def rendered_rules rendered_view frame_fire_many rendered_same frame_facts
        split: option.split)

lemma rendered_writeInternal [rendered_rules]: "rendered t (after t (writeInternal core d cb t))"
proof (cases "wasmTerm t")
  case (Some g)
  show ?thesis
  proof (cases "gt_write core d g")
    case (Inr g')
    then show ?thesis
      by (simp add: writeInternal_eq [OF Some] written_def)
  qed (simp add: writeInternal_def Some)
qed (simp add: writeInternal_def)

lemma rendered_writes [rendered_rules]:
  "rendered t (after t (term_write core d cb t))"
  "rendered t (after t (clear core t))"
  by (simp_all add: term_write_def clear_def after_and_then_assert Let_def rendered_writeInternal)

lemma rendered_inputs [rendered_rules]:
  "rendered t (after t (writeln core d cb t))"
  "rendered t (after t (paste core s t))"
  "rendered t (after t (term_input core s u t))"
  by (simp_all add: writeln_def paste_def term_input_def after_and_then_assert rendered_writes
        rendered_same split: wdata.split option.split)

lemma rendered_cycle [rendered_rules]: "rendered t (suspend t)" "rendered t (resume core t)"
  by (simp_all add: suspend_def resume_def Let_def cancelRenderLoop_def cancelScrollAnimation_def
        rendered_same)

lemma rendered_run: "rendered t (run core c t)"
proof (cases c)
  case Do_fadeFrame
  have "viewportY (fade_frame f (t\<lparr>fades := fs\<rparr>)) = viewportY t" for f fs
    using frame_fade [of f "t\<lparr>fades := fs\<rparr>"] by (simp add: frame_view_eq)
  then show ?thesis using Do_fadeFrame by (simp add: rendered_same split: list.split)
qed (simp_all add: rendered_rules rendered_view frame_rules rendered_same split: option.split)

lemma renderTick_draws:
  assumes "isOpen t" "\<not> isDisposed t" "renderer t \<noteq> None" "wasmTerm t \<noteq> None"
  shows "Draw (forceNextRender t) (viewportY t) (scrollbarOpacity t) \<in> set (out (renderTick core t))"
  using assms by (auto simp: renderTick_def Let_def draw_def fire_def)

section \<open>What reaches the data listeners\<close>

definition data_out :: "'w terminal \<Rightarrow> jstr list" where
  "data_out t = concat (map (\<lambda>e. case e of Fire_Data s \<Rightarrow> [s] | _ \<Rightarrow> []) (out t))"

named_theorems data_rules \<open>operations that pass nothing to the data listeners\<close>

lemma data_out_fire:
  "data_out (fire e t) =
     data_out t @ (case e of Fire_Data s \<Rightarrow> if isDisposed t then [] else [s] | _ \<Rightarrow> [])"
  by (simp add: data_out_def fire_def split: tout.split)

lemma data_out_fields [data_rules]:
  "data_out (t\<lparr>viewportY := y\<rparr>) = data_out t" "data_out (t\<lparr>wasmTerm := w\<rparr>) = data_out t"
  "data_out (t\<lparr>currentTitle := s\<rparr>) = data_out t" "data_out (t\<lparr>animationFrame := b\<rparr>) = data_out t"
  by (simp_all add: data_out_def)

lemma data_out_fire_if [data_rules]:
  "(\<And>s. e \<noteq> Fire_Data s) \<Longrightarrow> data_out (fire_if b e t) = data_out t"
  by (cases e) (auto simp: fire_if_def data_out_fire)

lemma data_out_draw [data_rules]: "data_out (draw f p t) = data_out t"
  by (simp add: data_out_def draw_def)

lemma data_out_request [data_rules]: "data_out (requestRender t) = data_out t"
  by (simp add: requestRender_def data_rules)

lemma data_out_show [data_rules]: "data_out (showScrollbar t) = data_out t"
  by (simp add: showScrollbar_def fadeInScrollbar_def fade_frame_def Let_def data_out_def draw_def)

lemma data_out_bottom [data_rules]: "data_out (scrollToBottom core t) = data_out t"
  by (simp add: scrollToBottom_def show_if_def data_rules data_out_fire)

lemma data_out_check_title [data_rules]: "data_out (check_title d t) = data_out t"
proof -
  have "data_out (fold set_title ms t) = data_out t" for ms
    by (induction ms arbitrary: t) (simp_all add: set_title_def data_out_fire data_rules)
  then show ?thesis by (simp add: check_title_def checkForTitleChange_def split: wdata.split)
qed

lemma data_out_written:
  "\<not> isDisposed t \<Longrightarrow> data_out (written core d cb (t\<lparr>wasmTerm := Some g\<rparr>)) = data_out t @
     (if pendingResponses g = [] then [] else [utf8_decode core (concat (pendingResponses g))])"
  by (simp add: written_def data_rules data_out_fire processTerminalResponses_unfold)

lemma requestRender_frame:
  "isOpen t \<Longrightarrow> \<not> isDisposed t \<Longrightarrow> \<not> isSuspended t \<Longrightarrow> animationFrame (requestRender t)"
  by (simp add: requestRender_def)

lemma written_frame:
  assumes "isOpen t" "\<not> isDisposed t" "\<not> isSuspended t"
  shows "animationFrame (written core d cb t)"
proof -
  let ?x = "fire_if cb Frame_Callback (check_title d (scrollToBottom core
       (fire Invalidate_Links (fire_if (has_bell d) Fire_Bell (processTerminalResponses core t)))))"
  have "isOpen ?x" "\<not> isDisposed ?x" "\<not> isSuspended ?x"
    using assms by (simp_all add: frame_facts)
  then show ?thesis unfolding written_def by (rule requestRender_frame)
qed

section \<open>Smooth scrolling ends at its target\<close>

lemma scroll_step_bounds: "0 < scroll_step d" "scroll_step d \<le> 1"
  by (auto simp: scroll_step_def Let_def max_def)

lemma scroll_shrinks:
  fixes x s :: rat
  assumes "0 < s" "s \<le> 1" "0 < e"
  shows "\<exists>n. (1 - s) ^ n * \<bar>x\<bar> < e"
proof -
  have "\<exists>n. (1 - s) ^ n < e / (\<bar>x\<bar> + 1)"
  proof -
    have "real_of_rat (1 - s) < 1" "0 < real_of_rat (e / (\<bar>x\<bar> + 1))"
      using assms by simp_all
    then obtain n where "real_of_rat (1 - s) ^ n < real_of_rat (e / (\<bar>x\<bar> + 1))"
      using real_arch_pow_inv by blast
    then have "real_of_rat ((1 - s) ^ n) < real_of_rat (e / (\<bar>x\<bar> + 1))"
      by (simp only: of_rat_power)
    then show ?thesis using of_rat_less by blast
  qed
  then obtain n where n: "(1 - s) ^ n < e / (\<bar>x\<bar> + 1)" ..
  have "(1 - s) ^ n * \<bar>x\<bar> \<le> (1 - s) ^ n * (\<bar>x\<bar> + 1)"
    using assms by (intro mult_left_mono) simp_all
  also have "\<dots> < e" using n by (simp add: pos_less_divide_eq add_pos_nonneg)
  finally show ?thesis by blast
qed

text \<open>A frame either finishes the animation or keeps it running with the same target.\<close>

lemma animate_far:
  assumes "wasmTerm t \<noteq> None" "scrollAnimationStarted t" "\<not> \<bar>targetViewportY t - viewportY t\<bar> < 1 / 100"
  shows "wasmTerm (animateScroll core t) \<noteq> None" "scrollAnimationStarted (animateScroll core t)"
    "options (animateScroll core t) = options t"
    "targetViewportY (animateScroll core t) = targetViewportY t"
    "targetViewportY t - viewportY (animateScroll core t) =
       (1 - scroll_step (o_smoothScrollDuration (options t))) * (targetViewportY t - viewportY t)"
  using assms by (auto simp: animateScroll_def Let_def algebra_simps)

lemma animate_near:
  assumes "wasmTerm t \<noteq> None" "scrollAnimationStarted t" "\<bar>targetViewportY t - viewportY t\<bar> < 1 / 100"
  shows "viewportY (animateScroll core t) = targetViewportY t"
    "\<not> scrollAnimationStarted (animateScroll core t)" "\<not> scrollAnimationFrame (animateScroll core t)"
  using assms by (auto simp: animateScroll_def Let_def frame_facts)

lemma animate_ends:
  assumes "wasmTerm t \<noteq> None" "scrollAnimationStarted t"
    and "(1 - scroll_step (o_smoothScrollDuration (options t))) ^ n *
           \<bar>targetViewportY t - viewportY t\<bar> < 1 / 100"
  shows "\<exists>k \<le> Suc n. let t' = (animateScroll core ^^ k) t in
           viewportY t' = targetViewportY t \<and> \<not> scrollAnimationStarted t' \<and> \<not> scrollAnimationFrame t'"
  using assms
proof (induction n arbitrary: t)
  case 0
  then show ?case
    by (intro exI [of _ 1]) (simp add: animate_near Let_def)
next
  case (Suc n)
  show ?case
  proof (cases "\<bar>targetViewportY t - viewportY t\<bar> < 1 / 100")
    case True
    with Suc.prems show ?thesis
      by (intro exI [of _ 1]) (simp add: animate_near Let_def)
  next
    case False
    note far = animate_far [OF Suc.prems(1,2) False, of core]
    let ?u = "animateScroll core t" and ?s = "scroll_step (o_smoothScrollDuration (options t))"
    have "\<bar>targetViewportY ?u - viewportY ?u\<bar> = (1 - ?s) * \<bar>targetViewportY t - viewportY t\<bar>"
      using far scroll_step_bounds(2) [of "o_smoothScrollDuration (options t)"]
      by (simp add: abs_mult)
    with Suc.prems(3) far have "(1 - scroll_step (o_smoothScrollDuration (options ?u))) ^ n *
        \<bar>targetViewportY ?u - viewportY ?u\<bar> < 1 / 100"
      by (simp add: ac_simps)
    from Suc.IH [OF far(1,2) this] obtain k where "k \<le> Suc n"
      "let t' = (animateScroll core ^^ k) ?u in viewportY t' = targetViewportY ?u \<and>
         \<not> scrollAnimationStarted t' \<and> \<not> scrollAnimationFrame t'" by blast
    then show ?thesis
      using far(4) by (intro exI [of _ "Suc k"]) (simp add: funpow_swap1 Let_def)
  qed
qed

end
