(* ===== verification/Gw_Terminal_Props.thy ===== *)
theory Gw_Terminal_Props
  imports Gw_Scroll_Props
begin

text \<open>
  The properties of the ghostty \<open>Terminal\<close> class and of its colour handling, with a small
  core that scrolls one line per newline and answers the ENQ byte as the concrete input of
  the witnesses.
\<close>

section \<open>A concrete core\<close>

definition demo_core :: "nat core" where
  "demo_core = \<lparr>vt_new = \<lambda>_ _ _. Some 0, vt_set_colors = \<lambda>_ w. w,
     vt_write = \<lambda>bs w. (w + length (filter (\<lambda>b. b = 10) bs), if 5 \<in> set bs then [[6], [7]] else []),
     vt_resize = \<lambda>_ _ _ _ w. w, vt_scrollback = \<lambda>w. w, vt_mode = \<lambda>n _ _. n = 2004,
     vt_alternate = \<lambda>_. False, vt_mouse = \<lambda>_. False, vt_cursor_y = \<lambda>_. 0,
     can_alloc = \<lambda>n _. n < 12, utf8_encode = map ucast, utf8_decode = map ucast\<rparr>"

definition demo_env :: tenv where
  "demo_env = \<lparr>cell_size = \<lambda>_ _. (2, 3), canvas_color = \<lambda>_. None, default_theme = []\<rparr>"

definition demo_options :: "rat \<Rightarrow> topts" where
  "demo_options duration = options_init\<lparr>o_cols := 4, o_rows := 2, o_scrollback := 5,
     o_smoothScrollDuration := duration\<rparr>"

definition demo_term :: "rat \<Rightarrow> nat terminal" where
  "demo_term duration = snd (term_open demo_env demo_core []
     (terminal_new demo_env (demo_options duration)))"

lemma demo_open:
  "term_open demo_env demo_core [] (terminal_new demo_env (demo_options 0)) = (None, demo_term 0)"
proof -
  have "fst (term_open demo_env demo_core [] (terminal_new demo_env (demo_options 0))) = None"
    by code_simp
  then show ?thesis by (simp add: demo_term_def prod_eq_iff)
qed

lemma demo_options_smooth [simp]: "o_smoothScrollDuration (demo_options d) = d"
  by (simp add: demo_options_def)

section \<open>Opening\<close>

lemma open_attributes_fields [simp]:
  "frame_view (open_attributes t) = frame_view t" "has_ghostty (open_attributes t) = has_ghostty t"
  "listeners (open_attributes t) = listeners t @ [(''element'', ''beforeinput'')]"
  by (simp_all add: open_attributes_def set_attr_def add_listeners_def Let_def frame_view_def)

lemmas open_attributes_view = open_attributes_fields(1) [unfolded frame_view_eq]

lemma open_components_fields:
  "viewportY (open_components env core w t) = viewportY t"
  "options (open_components env core w t) = options t"
  "scrollAnimationStarted (open_components env core w t) = scrollAnimationStarted t"
  "isOpen (open_components env core w t) = isOpen t"
  "isDisposed (open_components env core w t) = isDisposed t"
  "has_element (open_components env core w t) = has_element t"
  "wasmTerm (open_components env core w t) \<noteq> None"
  "renderer (open_components env core w t) \<noteq> None"
  by (simp_all add: open_components_def Let_def frame_facts add_listeners_def
        updateWasmPixelSize_def renderer_call_def)

lemma draw_listeners [simp]: "listeners (draw f p t) = listeners t"
  by (simp add: draw_def)

lemma fire_listeners [simp]: "listeners (fire e t) = listeners t"
  by (simp add: fire_def)

lemma renderTick_listeners [simp]: "listeners (renderTick core t) = listeners t"
  by (simp add: renderTick_def Let_def split: option.split)

lemma open_components_listeners:
  "listeners (open_components env core w t) = listeners t @
     [(''canvas'', ''mousedown''), (''canvas'', ''touchend''), (''element'', ''mousedown''),
      (''element'', ''mousemove''), (''element'', ''mouseleave''), (''element'', ''click''),
      (''document'', ''mouseup''), (''element'', ''wheel'')]"
  by (simp add: open_components_def Let_def add_listeners_def updateWasmPixelSize_def
        renderer_call_def)

lemma term_open_cases:
  assumes "term_open env core elem (terminal_new env opts) = (None, t)"
  obtains w where "t = open_components env core w (open_attributes
    ((terminal_new env opts)\<lparr>attributes := elem, has_element := True, isOpen := True\<rparr>))"
  using assms that by (auto simp: term_open_def Let_def split: if_splits option.splits)

lemma term_open_fields:
  assumes "term_open env core elem (terminal_new env opts) = (None, t)"
  shows "viewportY t = 0" "options t = opts" "\<not> scrollAnimationStarted t"
    "isOpen t" "\<not> isDisposed t" "wasmTerm t \<noteq> None" "renderer t \<noteq> None" "has_element t"
proof -
  from assms obtain w where t: "t = open_components env core w (open_attributes
    ((terminal_new env opts)\<lparr>attributes := elem, has_element := True, isOpen := True\<rparr>))"
    by (rule term_open_cases)
  show "viewportY t = 0" "options t = opts" "\<not> scrollAnimationStarted t"
    "isOpen t" "\<not> isDisposed t" "wasmTerm t \<noteq> None" "renderer t \<noteq> None" "has_element t"
    unfolding t by (simp_all add: open_components_fields open_attributes_view terminal_new_def)
qed

section \<open>The properties\<close>


definition demo_cmds :: "tcmd list" where
  "demo_cmds = [Do_write (Bytes [10, 10, 10]) False, Do_scrollLines (Some (-2)),
     Do_wheel False DOM_DELTA_PIXEL (-9), Do_scrollToLine (Some (3 / 2))]"






text \<open>
  C16. No scroll is left unpainted. Whenever one of the terminal's operations moves the
  viewport of an open terminal that is not suspended, a frame is pending afterwards, and
  the frame draws the new position.
\<close>

theorem viewport_change_painted:
  assumes "t' = run core c t" and "viewportY t' \<noteq> viewportY t"
    and "isOpen t'" and "\<not> isDisposed t'" and "\<not> isSuspended t'"
    and "renderer t' \<noteq> None" and "wasmTerm t' \<noteq> None"
  shows "animationFrame t' \<and>
    Draw (forceNextRender t') (viewportY t') (scrollbarOpacity t') \<in> set (out (renderTick core t'))"
  using assms rendered_run [of t core c] by (simp add: rendered_def renderTick_draws)

theorem viewport_change_painted_witness:
  "(let t = run demo_core (Do_write (Bytes [10, 10]) False) (demo_term 0);
        t' = run demo_core Do_scrollToTop t
    in viewportY t' = 2 \<and> animationFrame t' \<and>
       Draw (forceNextRender t') (viewportY t') (scrollbarOpacity t') \<in> set (out (renderTick demo_core t')))"
proof -
  define t where "t = run demo_core (Do_write (Bytes [10, 10]) False) (demo_term 0)"
  define t' where "t' = run demo_core Do_scrollToTop t"
  have "viewportY t' = 2" "viewportY t' \<noteq> viewportY t" "isOpen t'" "\<not> isDisposed t'"
    "\<not> isSuspended t'" "renderer t' \<noteq> None" "wasmTerm t' \<noteq> None"
    unfolding t'_def t_def by code_simp+
  with viewport_change_painted [OF t'_def] show ?thesis by (simp add: t_def t'_def Let_def)
qed



text \<open>
  Colours. A \<open>#rrggbb\<close> colour handed to the core is exactly the number it spells, and
  no theme string whatever, as the browser may interpret it, gives the core a value outside
  24 bits.
\<close>

theorem theme_colors_exact:
  assumes "n < 2 ^ 24"
  shows "parseColorToHex canv (Str (hex_color n)) = n \<and> parseColorToHex canv v < 2 ^ 24"
  using assms parse_hex_color_print parseColorToHex_lt by blast

theorem theme_colors_exact_witness:
  "hex_color 16773120 = ''#fff000'' \<and> parseColorToHex (\<lambda>_. None) (Str ''#fff000'') = 16773120"
proof -
  have "hex_color 16773120 = ''#fff000''"
    by (simp add: hex_color_def hex_pair_def hex_char_def, code_simp)
  with theme_colors_exact [of 16773120 "\<lambda>_. None" Undef] show ?thesis by simp
qed

section \<open>Resetting while scrolled back\<close>

text \<open>
  \<open>reset\<close> replaces the core's terminal but keeps the viewport, so a terminal that was scrolled
  back is left showing lines above an empty scrollback.
\<close>

lemma reset_keeps_viewport:
  assumes "isOpen t" "\<not> isDisposed t" "vt_new core (cols t) (rows t) (buildWasmConfig (canvas_color env)
     (Some (o_theme (options t))) (o_scrollback (options t))) = Some w"
  shows "\<exists>t'. reset env core t = Inr t' \<and> viewportY t' = viewportY t"
proof -
  have "viewportY (requestFullRender u) = viewportY u" for u :: "'a terminal"
    by (simp add: requestFullRender_def)
  moreover have "viewportY (updateWasmPixelSize core u) = viewportY u" for u
    by (simp add: updateWasmPixelSize_def split: option.split)
  ultimately show ?thesis
    using assms by (simp add: reset_def assertOpen_def renderer_call_def Let_def)
qed

lemma reset_out_of_range:
  "map_sum id (\<lambda>t. (viewportY t, getScrollbackLength demo_core t))
     (reset demo_env demo_core
        (runs demo_core [Do_write (Bytes [10, 10]) False, Do_scrollToTop] (demo_term 0))) =
   Inr (2, 0)"
  by code_simp

end
