(* ===== verification/Term_Bridge_Props.thy ===== *)
theory Term_Bridge_Props
  imports Term_Bridge Gw_Terminal_Props
begin

text \<open>
  Correctness of the bridge \<open>term.js\<close>: coalescing of frames (an interface shared by the scroll
  synchronisation and the resize preview), the host's copy of the scroll geometry, the
  native scroll request, fitting, and style updates.
\<close>

section \<open>Coalescing of frames\<close>

text \<open>
  A request sets a flag once; the frame clears it and does the work. Any positive number of
  requests before the frame has the effect of one.
\<close>

locale frame_coalescer =
  fixes request :: "'s \<Rightarrow> 's" and frame :: "'s \<Rightarrow> 's" and pending :: "'s \<Rightarrow> bool"
  assumes request_pending: "pending (request s)"
    and request_again: "pending s \<Longrightarrow> request s = s"
    and frame_request: "frame (request s) = frame s"
begin

lemma requests_once: "n > 0 \<Longrightarrow> (request ^^ n) s = request s"
proof (induction n)
  case (Suc n)
  then show ?case
    by (cases n) (simp_all add: request_again request_pending)
qed simp

lemma frame_after_requests: "frame ((request ^^ n) s) = frame s"
  by (cases n) (simp_all add: requests_once frame_request del: funpow.simps)

end

interpretation scroll_sync: frame_coalescer scheduleScrollSync "scrollSyncFrame core" pendingScrollSync
  by unfold_locales (simp_all add: scheduleScrollSync_def scrollSyncFrame_def)

interpretation resize_preview: frame_coalescer requestResizePreview resizePreviewFrame pendingResizePreview
  by unfold_locales (simp_all add: requestResizePreview_def resizePreviewFrame_def)

section \<open>Operations that leave the scroll geometry of the host alone\<close>

definition quiet_names :: "string set" where
  "quiet_names = - {''newScrollHeight'', ''newScrollTop''}"

definition quiet :: "'w bridge \<Rightarrow> 'w bridge \<Rightarrow> bool" where
  "quiet s s' \<longleftrightarrow> handlers s' = handlers s \<and>
     lastNativeScrollHeight s' = lastNativeScrollHeight s \<and>
     lastNativeScrollTop s' = lastNativeScrollTop s \<and>
     (\<exists>ms. posted s' = posted s @ ms \<and> fst ` set ms \<subseteq> quiet_names)"

named_theorems quiet_rules \<open>operations that are quiet\<close>

lemma quiet_refl [simp]: "quiet s s"
  by (simp add: quiet_def)

lemma quiet_trans [trans]:
  assumes "quiet s u" "quiet u v"
  shows "quiet s v"
proof -
  from assms obtain ms ns where "posted u = posted s @ ms" "fst ` set ms \<subseteq> quiet_names"
    "posted v = posted u @ ns" "fst ` set ns \<subseteq> quiet_names"
    by (auto simp: quiet_def)
  then have "posted v = posted s @ (ms @ ns)" "fst ` set (ms @ ns) \<subseteq> quiet_names" by auto
  with assms show ?thesis unfolding quiet_def by auto
qed

lemma quiet_fold: "(\<And>x s. quiet s (f x s)) \<Longrightarrow> quiet s (fold f xs s)"
  by (induction xs arbitrary: s) (auto intro: quiet_trans)

lemma quiet_update:
  "handlers s' = handlers s \<Longrightarrow> lastNativeScrollHeight s' = lastNativeScrollHeight s \<Longrightarrow>
   lastNativeScrollTop s' = lastNativeScrollTop s \<Longrightarrow> posted s' = posted s \<Longrightarrow> quiet s s'"
  by (simp add: quiet_def)

lemma quiet_native [quiet_rules]: "n \<in> quiet_names \<Longrightarrow> quiet s (native n args s)"
  by (simp add: native_def quiet_def)

lemma quiet_schedule [quiet_rules]: "quiet s (scheduleScrollSync s)" "quiet s (requestResizePreview s)"
  by (simp_all add: scheduleScrollSync_def requestResizePreview_def quiet_update)

lemma quiet_scheduleFit [quiet_rules]: "quiet s (scheduleFit s)"
  by (simp add: scheduleFit_def requestResizePreview_def quiet_update)

lemma quiet_syncProp [quiet_rules]: "quiet s (syncProp n v s)"
  by (simp add: syncProp_def native_def quiet_def quiet_names_def Let_def)

lemma quiet_cursor [quiet_rules]: "quiet s (syncApplicationCursor core s)"
  by (simp add: syncApplicationCursor_def quiet_syncProp split: option.split sum.split)

lemma quiet_dispatch [quiet_rules]: "quiet s (dispatch core e s)"
proof (cases e)
  case (Fire_Data d)
  have "quiet s (native ''sendInput'' [A_Text d] s)" by (simp add: quiet_native quiet_names_def)
  then show ?thesis using Fire_Data quiet_cursor quiet_trans by fastforce
next
  case (Fire_Resize c r)
  have "quiet s (native ''resize'' [] s)" by (simp add: quiet_native quiet_names_def)
  then show ?thesis using Fire_Resize quiet_schedule quiet_trans by fastforce
qed (simp_all add: quiet_rules)

lemma quiet_call [quiet_rules]: "quiet s (call_term core f s)"
proof (cases "b_term s")
  case (Some t)
  have "quiet s (s\<lparr>b_term := Some (f (t\<lparr>out := []\<rparr>))\<rparr>)" by (simp add: quiet_update)
  also have "quiet \<dots> (fold (dispatch core) (out (f (t\<lparr>out := []\<rparr>))) (s\<lparr>b_term := Some (f (t\<lparr>out := []\<rparr>))\<rparr>))"
    by (rule quiet_fold) (rule quiet_dispatch)
  finally show ?thesis by (simp add: call_term_def Some Let_def)
qed (simp add: call_term_def)

lemma quiet_try [quiet_rules]:
  assumes "\<And>s. quiet s (k s)"
  shows "quiet s (try_term core f k s)"
proof (cases "b_term s")
  case (Some t)
  show ?thesis
  proof (cases "f (t\<lparr>out := []\<rparr>)")
    case (Inr t')
    have "quiet s (s\<lparr>b_term := Some t'\<rparr>)" by (simp add: quiet_update)
    also have "quiet \<dots> (fold (dispatch core) (out t') (s\<lparr>b_term := Some t'\<rparr>))"
      by (rule quiet_fold) (rule quiet_dispatch)
    also note assms
    finally show ?thesis by (simp add: try_term_def Some Inr)
  qed (simp add: try_term_def Some)
qed (simp add: try_term_def)

lemma quiet_resize_notice: "quiet s (scheduleScrollSync (native ''resize'' [] s))"
  by (rule quiet_trans [OF quiet_native quiet_schedule(1)]) (simp add: quiet_names_def)

lemma quiet_fit [quiet_rules]: "quiet s (fitTerminal core s)"
proof -
  have t: "quiet s (s\<lparr>canvas_transform := x\<rparr>)" for x by (simp add: quiet_update)
  have r: "quiet s (try_term core f (\<lambda>s. scheduleScrollSync (native ''resize'' [] s)) s)" for f s
    by (rule quiet_try) (rule quiet_resize_notice)
  show ?thesis
    by (auto simp: fitTerminal_def Let_def r t split: option.split intro: quiet_trans [OF t r])
qed

lemma quiet_preview [quiet_rules]: "quiet s (resizePreviewFrame s)" "quiet s (previewTerminalSize s)"
  by (auto simp: resizePreviewFrame_def previewTerminalSize_def Let_def quiet_update split: option.split)

lemma quiet_commit [quiet_rules]: "quiet s (resizeCommitTimeout core s)"
  unfolding resizeCommitTimeout_def
  by (rule quiet_trans [OF _ quiet_fit]) (simp add: quiet_update)

lemma quiet_repaint [quiet_rules]: "quiet s (forceFullRepaint core s)"
  by (simp add: forceFullRepaint_def quiet_call split: option.split)

lemma quiet_exports [quiet_rules]:
  "quiet s (ex_write core d s)" "quiet s (ex_scrollToBottom core s)" "quiet s (ex_newScrollTop core y s)"
  "quiet s (ex_clearScrollback core s)" "quiet s (updateStyle_begin st s)" "quiet s (ex_setFocused b s)"
proof -
  have c: "quiet s (scheduleScrollSync (call_term core f s))" for f and s :: "'a bridge"
    by (rule quiet_trans [OF quiet_call quiet_schedule(1)])
  have w: "quiet s (scheduleScrollSync (if b then syncApplicationCursor core s else s))" for b and s :: "'a bridge"
    by (rule quiet_trans [OF _ quiet_schedule(1)]) (simp add: quiet_cursor)
  show "quiet s (ex_write core d s)"
    unfolding ex_write_def Let_def by (rule quiet_try) (rule w)
  show "quiet s (ex_clearScrollback core s)"
    unfolding ex_clearScrollback_def by (rule quiet_try) (rule c)
  show "quiet s (ex_scrollToBottom core s)" by (simp add: ex_scrollToBottom_def c)
  show "quiet s (ex_newScrollTop core y s)"
    by (simp add: ex_newScrollTop_def Let_def c split: option.split)
  show "quiet s (updateStyle_begin st s)" "quiet s (ex_setFocused b s)"
    by (simp_all add: updateStyle_begin_def ex_setFocused_def Let_def quiet_update)
qed

lemma quiet_style [quiet_rules]: "quiet s (updateStyle_apply env core s)"
proof -
  have "quiet s (assign_options env core xs s)" for xs
    unfolding assign_options_def by (rule quiet_fold) (rule quiet_try, simp)
  then have "quiet s (scheduleScrollSync (forceFullRepaint core (fitTerminal core (assign_options env core xs s))))" for xs
    by (meson quiet_fit quiet_repaint quiet_schedule(1) quiet_trans)
  then show ?thesis by (simp add: updateStyle_apply_def split: option.split)
qed

lemma quiet_loaded [quiet_rules]: "quiet s (loaded core t s)"
proof -
  have "quiet s (s\<lparr>b_term := Some (disableWebTextInput t)\<rparr>)" by (simp add: quiet_update)
  also have "quiet \<dots> (fold (dispatch core) (out t) (s\<lparr>b_term := Some (disableWebTextInput t)\<rparr>))"
    by (rule quiet_fold) (rule quiet_dispatch)
  also note quiet_fit
  also note quiet_cursor
  also note quiet_schedule(1)
  also have "quiet u (native ''syncFocus'' [] (native ''load'' [] u))" for u :: "'a bridge"
    by (rule quiet_trans [OF quiet_native quiet_native]) (simp_all add: quiet_names_def)
  finally show ?thesis unfolding loaded_def .
qed

lemma quiet_load [quiet_rules]: "quiet s (snd (on_load env core elem ok s))"
proof -
  have l: "quiet u (load_failed u)" for u :: "'a bridge"
    by (simp add: load_failed_def quiet_native quiet_names_def)
  have "quiet s (load_failed (s\<lparr>b_term := x\<rparr>))" for x
    by (rule quiet_trans [OF _ l]) (simp add: quiet_update)
  then show ?thesis
    by (simp add: on_load_def l quiet_loaded Let_def split: option.split)
qed

section \<open>Everything that can happen to the bridge\<close>

datatype bcmd =
    B_load "(string \<times> string) list" bool
  | B_write jstr
  | B_setFocused bool
  | B_scrollToBottom
  | B_newScrollTop num_arg
  | B_updateStyle "obj option"
  | B_fontLoaded
  | B_clearScrollback
  | B_elementResized rat rat
  | B_scrollFrame
  | B_previewFrame
  | B_settleTimeout
  | B_terminal tcmd
  | B_touchend bool
  | B_mousedown bool
  | B_focusChange
  | B_error string

fun bridge_step :: "tenv \<Rightarrow> 'w core \<Rightarrow> bcmd \<Rightarrow> 'w bridge \<Rightarrow> 'w bridge" where
  "bridge_step env core (B_load elem ok) s = snd (on_load env core elem ok s)"
| "bridge_step env core (B_write d) s = ex_write core d s"
| "bridge_step env core (B_setFocused b) s = ex_setFocused b s"
| "bridge_step env core B_scrollToBottom s = ex_scrollToBottom core s"
| "bridge_step env core (B_newScrollTop y) s = ex_newScrollTop core y s"
| "bridge_step env core (B_updateStyle st) s = updateStyle_begin st s"
| "bridge_step env core B_fontLoaded s = updateStyle_apply env core s"
| "bridge_step env core B_clearScrollback s = ex_clearScrollback core s"
| "bridge_step env core (B_elementResized w h) s = scheduleFit (s\<lparr>clientWidth := w, clientHeight := h\<rparr>)"
| "bridge_step env core B_scrollFrame s = (if pendingScrollSync s then scrollSyncFrame core s else s)"
| "bridge_step env core B_previewFrame s = (if pendingResizePreview s then resizePreviewFrame s else s)"
| "bridge_step env core B_settleTimeout s = (if pendingResizeCommit s then resizeCommitTimeout core s else s)"
| "bridge_step env core (B_terminal c) s = call_term core (run core c) s"
| "bridge_step env core (B_touchend sel) s = snd (on_touchend sel s)"
| "bridge_step env core (B_mousedown sel) s = snd (on_mousedown sel s)"
| "bridge_step env core B_focusChange s = on_focus_change s"
| "bridge_step env core (B_error m) s = on_error m s"

definition bridge_run :: "tenv \<Rightarrow> 'w core \<Rightarrow> bcmd list \<Rightarrow> 'w bridge \<Rightarrow> 'w bridge" where
  "bridge_run env core cs s = fold (bridge_step env core) cs s"

lemma quiet_step: "c \<noteq> B_scrollFrame \<Longrightarrow> quiet s (bridge_step env core c s)"
proof (cases c)
  case (B_elementResized w h)
  have "quiet s (s\<lparr>clientWidth := w, clientHeight := h\<rparr>)" by (simp add: quiet_update)
  then show ?thesis using B_elementResized quiet_scheduleFit quiet_trans by fastforce
qed (simp_all add: quiet_rules on_touchend_def on_mousedown_def on_focus_change_def on_error_def quiet_names_def)

section \<open>The host's copy of the scroll geometry\<close>

definition last_message :: "string \<Rightarrow> 'w bridge \<Rightarrow> body option" where
  "last_message n s = map_of (rev (posted s)) n"

definition mirrored :: "'w bridge \<Rightarrow> bool" where
  "mirrored s \<longleftrightarrow>
     (\<forall>v. lastNativeScrollHeight s = Some v \<longrightarrow> last_message ''newScrollHeight'' s = Some (Body_One (A_Num v))) \<and>
     (\<forall>v. lastNativeScrollTop s = Some v \<longrightarrow> last_message ''newScrollTop'' s = Some (Body_One (A_Num v)))"

definition listening :: "'w bridge \<Rightarrow> bool" where
  "listening s \<longleftrightarrow> {''newScrollHeight'', ''newScrollTop''} \<subseteq> set (handlers s)"

lemma quiet_last_message:
  assumes "quiet s s'" "n \<notin> quiet_names"
  shows "last_message n s' = last_message n s"
proof -
  from assms obtain ms where "posted s' = posted s @ ms" "fst ` set ms \<subseteq> quiet_names"
    by (auto simp: quiet_def)
  with assms(2) have "map_of (rev ms) n = None" by (auto simp: map_of_eq_None_iff)
  with \<open>posted s' = posted s @ ms\<close> show ?thesis
    by (simp add: last_message_def map_add_dom_app_simps map_add_def)
qed

lemma quiet_mirrored: "quiet s s' \<Longrightarrow> mirrored s \<Longrightarrow> listening s \<Longrightarrow> mirrored s' \<and> listening s'"
  using quiet_last_message [of s s']
  by (simp add: mirrored_def listening_def quiet_def quiet_names_def)

lemma native_last_message:
  "last_message n (native k args s) =
     (if n = k \<and> k \<in> set (handlers s) then Some (message_body args) else last_message n s)"
  by (simp add: last_message_def native_def)

text \<open>What \<open>syncScroll\<close> tells the host.\<close>

definition scroll_height :: "'w core \<Rightarrow> 'w terminal \<Rightarrow> rmetrics \<Rightarrow> rat" where
  "scroll_height core t m = (of_nat (getScrollbackLength core t) + of_nat (rows t)) * m_height m"

definition scroll_top :: "'w core \<Rightarrow> 'w terminal \<Rightarrow> rmetrics \<Rightarrow> rat" where
  "scroll_top core t m = (of_nat (getScrollbackLength core t) - viewportY t) * m_height m"

definition note_height :: "rat \<Rightarrow> 'w bridge \<Rightarrow> 'w bridge" where
  "note_height v s =
     (if Some v \<noteq> lastNativeScrollHeight s
      then (native ''newScrollHeight'' [A_Num v] s)\<lparr>lastNativeScrollHeight := Some v\<rparr> else s)"

definition note_top :: "rat \<Rightarrow> 'w bridge \<Rightarrow> 'w bridge" where
  "note_top v s =
     (if Some v \<noteq> lastNativeScrollTop s
      then (native ''newScrollTop'' [A_Num v] s)\<lparr>lastNativeScrollTop := Some v\<rparr> else s)"

lemma syncScroll_eq:
  "b_term s = Some t \<Longrightarrow> renderer t = Some m \<Longrightarrow>
   syncScroll core s = note_top (scroll_top core t m) (note_height (scroll_height core t m) s)"
  by (simp add: syncScroll_def note_top_def note_height_def scroll_top_def scroll_height_def Let_def)

lemma last_message_fields [simp]:
  "last_message n (s\<lparr>lastNativeScrollHeight := v\<rparr>) = last_message n s"
  "last_message n (s\<lparr>lastNativeScrollTop := v\<rparr>) = last_message n s"
  "last_message n (s\<lparr>pendingScrollSync := b\<rparr>) = last_message n s"
  by (simp_all add: last_message_def)

lemma native_fields [simp]:
  "handlers (native n a s) = handlers s" "lastNativeScrollHeight (native n a s) = lastNativeScrollHeight s"
  "lastNativeScrollTop (native n a s) = lastNativeScrollTop s" "b_term (native n a s) = b_term s"
  by (simp_all add: native_def)

lemma note_height_post:
  assumes "mirrored s" "listening s"
  shows "mirrored (note_height v s)" "listening (note_height v s)" "lastNativeScrollHeight (note_height v s) = Some v"
  using assms by (auto simp: note_height_def mirrored_def listening_def native_last_message message_body_def)

lemma note_top_post:
  assumes "mirrored s" "listening s"
  shows "mirrored (note_top v s)" "listening (note_top v s)" "lastNativeScrollTop (note_top v s) = Some v"
    "lastNativeScrollHeight (note_top v s) = lastNativeScrollHeight s"
  using assms by (auto simp: note_top_def mirrored_def listening_def native_last_message message_body_def)

lemma sync_mirrored:
  assumes "mirrored s" "listening s"
  shows "mirrored (scrollSyncFrame core s) \<and> listening (scrollSyncFrame core s)"
proof -
  let ?s = "s\<lparr>pendingScrollSync := False\<rparr>"
  have p: "mirrored ?s" "listening ?s" using assms by (simp_all add: mirrored_def listening_def)
  show ?thesis
  proof (cases "b_term s")
    case (Some t)
    show ?thesis
    proof (cases "renderer t")
      case (Some m)
      then show ?thesis
        using \<open>b_term s = Some t\<close> note_top_post(1,2) [OF note_height_post(1,2) [OF p]]
        by (simp add: scrollSyncFrame_def syncScroll_eq)
    qed (use Some p in \<open>simp add: scrollSyncFrame_def syncScroll_def\<close>)
  qed (use p in \<open>simp add: scrollSyncFrame_def syncScroll_def\<close>)
qed

lemma step_mirrored:
  assumes "mirrored s" "listening s"
  shows "mirrored (bridge_step env core c s) \<and> listening (bridge_step env core c s)"
proof (cases "c = B_scrollFrame")
  case True
  then show ?thesis using assms by (simp add: sync_mirrored)
next
  case False
  from quiet_mirrored [OF quiet_step [OF False] assms] show ?thesis by simp
qed

lemma run_mirrored:
  "mirrored s \<Longrightarrow> listening s \<Longrightarrow>
   mirrored (bridge_run env core cs s) \<and> listening (bridge_run env core cs s)"
  unfolding bridge_run_def
  by (induction cs arbitrary: s) (simp_all add: step_mirrored)

lemma init_mirrored: "mirrored (bridge_init hs st w h)"
  by (simp add: mirrored_def bridge_init_def Let_def)

lemma sync_tells:
  assumes "mirrored s" "listening s" "b_term s = Some t" "renderer t = Some m"
  shows "last_message ''newScrollHeight'' (scrollSyncFrame core s) = Some (Body_One (A_Num (scroll_height core t m)))"
    "last_message ''newScrollTop'' (scrollSyncFrame core s) = Some (Body_One (A_Num (scroll_top core t m)))"
proof -
  let ?s = "s\<lparr>pendingScrollSync := False\<rparr>"
  have p: "mirrored ?s" "listening ?s" using assms by (simp_all add: mirrored_def listening_def)
  have e: "scrollSyncFrame core s = note_top (scroll_top core t m) (note_height (scroll_height core t m) ?s)"
    using assms by (simp add: scrollSyncFrame_def syncScroll_eq)
  note h = note_height_post [OF p, of "scroll_height core t m"]
  note t = note_top_post [OF h(1,2), of "scroll_top core t m"]
  from t h(3) show "last_message ''newScrollHeight'' (scrollSyncFrame core s) = Some (Body_One (A_Num (scroll_height core t m)))"
    "last_message ''newScrollTop'' (scrollSyncFrame core s) = Some (Body_One (A_Num (scroll_top core t m)))"
    unfolding e by (simp_all add: mirrored_def)
qed

text \<open>
  C19. The host's scroll view. Start the bridge with a host that listens for scroll messages,
  let anything happen (loading, output, style changes, resizes, touches, wheel events, in any
  order), and run the pending scroll frame: the last geometry the host received is that of
  the terminal at this moment, although unchanged values are never sent again.
\<close>

theorem host_scroll_geometry:
  assumes "{''newScrollHeight'', ''newScrollTop''} \<subseteq> set hs"
    and "s = bridge_run env core cs (bridge_init hs st w h)"
    and "b_term s = Some t" and "renderer t = Some m"
  shows "last_message ''newScrollHeight'' (scrollSyncFrame core s) =
           Some (Body_One (A_Num ((of_nat (getScrollbackLength core t) + of_nat (rows t)) * m_height m))) \<and>
         last_message ''newScrollTop'' (scrollSyncFrame core s) =
           Some (Body_One (A_Num ((of_nat (getScrollbackLength core t) - viewportY t) * m_height m)))"
proof -
  have "listening (bridge_init hs st w h)"
    using assms(1) by (simp add: listening_def bridge_init_def Let_def)
  with init_mirrored have "mirrored s" "listening s"
    using run_mirrored assms(2) by blast+
  then show ?thesis
    using sync_tells [OF _ _ assms(3,4)] by (simp add: scroll_height_def scroll_top_def)
qed

definition demo_bridge :: "bcmd list \<Rightarrow> nat bridge" where
  "demo_bridge cs = bridge_run demo_env demo_core cs
     (bridge_init [''newScrollHeight'', ''newScrollTop'', ''resize'', ''load''] None 9 10)"

definition demo_bcmds :: "bcmd list" where
  "demo_bcmds = [B_load [] True, B_scrollFrame, B_write (js ''ab'' @ [10, 10, 10]),
     B_terminal (Do_wheel False DOM_DELTA_LINE (-2))]"

text \<open>The state the witnesses start from: three lines of scrollback, two of them scrolled back.\<close>

definition bridge_view :: "nat bridge \<Rightarrow> (nat \<times> nat \<times> rat \<times> rat) option" where
  "bridge_view s =
     (case b_term s of
        Some t \<Rightarrow> (case renderer t of
                     Some m \<Rightarrow> Some (getScrollbackLength demo_core t, rows t, m_height m, viewportY t)
                   | None \<Rightarrow> None)
      | None \<Rightarrow> None)"

lemma demo_bridge_view: "bridge_view (demo_bridge demo_bcmds) = Some (3, 3, 3, 2)"
  by code_simp

lemma demo_bridge_obtain:
  obtains t m where "b_term (demo_bridge demo_bcmds) = Some t" "renderer t = Some m"
    "getScrollbackLength demo_core t = 3" "rows t = 3" "m_height m = 3" "viewportY t = 2"
  using demo_bridge_view by (auto simp: bridge_view_def split: option.splits)

theorem host_scroll_geometry_witness:
  "last_message ''newScrollHeight'' (scrollSyncFrame demo_core (demo_bridge demo_bcmds)) = Some (Body_One (A_Num 18)) \<and>
   last_message ''newScrollTop'' (scrollSyncFrame demo_core (demo_bridge demo_bcmds)) = Some (Body_One (A_Num 3))"
proof -
  obtain t m where b: "b_term (demo_bridge demo_bcmds) = Some t" "renderer t = Some m"
    and v: "getScrollbackLength demo_core t = 3" "rows t = 3" "m_height m = 3" "viewportY t = 2"
    by (rule demo_bridge_obtain)
  show ?thesis
    using host_scroll_geometry [OF _ demo_bridge_def [of demo_bcmds] b] v by simp
qed

section \<open>Scroll requests of the host\<close>

lemma js_round_close: "\<bar>x - of_int (js_round x)\<bar> \<le> 1 / 2"
proof -
  have "of_int \<lfloor>x + 1 / 2\<rfloor> \<le> x + 1 / 2" "x + 1 / 2 < of_int \<lfloor>x + 1 / 2\<rfloor> + 1"
    by (rule of_int_floor_le) (rule floor_correct [THEN conjunct2, unfolded of_int_add of_int_1])
  then show ?thesis unfolding js_round_def abs_le_iff by linarith
qed

lemma dispatch_term [simp]: "b_term (dispatch core e s) = b_term s"
  by (cases e) (simp_all add: syncApplicationCursor_def syncProp_def scheduleScrollSync_def Let_def
      split: option.split sum.split)

lemma fold_dispatch_term [simp]: "b_term (fold (dispatch core) es s) = b_term s"
  by (induction es arbitrary: s) simp_all

lemma schedule_term [simp]: "b_term (scheduleScrollSync s) = b_term s" "pendingScrollSync (scheduleScrollSync s)"
  by (simp_all add: scheduleScrollSync_def)

lemma getScrollbackLength_out: "getScrollbackLength core (t\<lparr>out := es\<rparr>) = getScrollbackLength core t"
  by (simp add: getScrollbackLength_def)

lemma call_term_term: "b_term s = Some t \<Longrightarrow> b_term (call_term core f s) = Some (f (t\<lparr>out := []\<rparr>))"
  by (simp add: call_term_def Let_def)

lemma scrollToLine_fields:
  "viewportY (scrollToLine core (Some n) t) = clamp 0 (of_nat (getScrollbackLength core t)) n"
  "getScrollbackLength core (scrollToLine core a t) = getScrollbackLength core t"
  "renderer (scrollToLine core a t) = renderer t"
  by (simp_all add: scrollToLine_def Let_def frame_facts split: option.split)

text \<open>
  Native scrolling. When the host asks for a scroll offset inside the content, the
  terminal moves to the nearest line: the offset reported back differs from the requested
  one by at most half a cell, and not at all when the request is a whole number of lines.
\<close>

theorem native_scroll_request:
  assumes "b_term s = Some t" and "renderer t = Some m" and "0 < m_height m"
    and "0 \<le> y" and "y \<le> of_nat (getScrollbackLength core t) * m_height m"
  shows "\<exists>t'. b_term (ex_newScrollTop core (Some y) s) = Some t' \<and>
     pendingScrollSync (ex_newScrollTop core (Some y) s) \<and>
     \<bar>scroll_top core t' m - y\<bar> \<le> m_height m / 2 \<and>
     (\<forall>k::int. y = of_int k * m_height m \<longrightarrow> scroll_top core t' m = y)"
proof -
  let ?h = "m_height m" and ?n = "getScrollbackLength core t"
  define x where "x = of_nat ?n - y / ?h"
  define t' where "t' = scrollToLine core (Some (of_int (js_round x))) (t\<lparr>out := []\<rparr>)"
  have c: "cell_height t = ?h" using assms by (simp add: cell_height_def)
  have "0 \<le> x" "x \<le> of_int (int ?n)"
    using assms by (simp_all add: x_def pos_divide_le_eq)
  then have "js_round (of_int 0) \<le> js_round x" "js_round x \<le> js_round (of_int (int ?n))"
    by (intro js_round_mono; simp)+
  then have r: "0 \<le> js_round x" "js_round x \<le> int ?n" unfolding js_round_int by simp_all
  then have "(of_int (js_round x) :: rat) \<le> of_int (int ?n)" by (simp only: of_int_le_iff)
  with r(1) have v: "viewportY t' = of_int (js_round x)" and l: "getScrollbackLength core t' = ?n"
    by (simp_all add: t'_def scrollToLine_fields clamp_id getScrollbackLength_out)
  have st: "scroll_top core t' m - y = (x - of_int (js_round x)) * ?h"
    using assms(3) by (simp add: scroll_top_def v l x_def algebra_simps)
  have close: "\<bar>scroll_top core t' m - y\<bar> \<le> ?h / 2"
    using mult_right_mono [OF js_round_close [of x], of ?h] assms(3) by (simp add: st abs_mult)
  have exact: "scroll_top core t' m = y" if "y = of_int k * ?h" for k
  proof -
    have "x = of_int (int ?n - k)" using that assms(3) by (simp add: x_def)
    then have "x - of_int (js_round x) = 0" by (simp only: js_round_int diff_self)
    with st show ?thesis by simp
  qed
  have b: "b_term (ex_newScrollTop core (Some y) s) = Some t'"
    and p: "pendingScrollSync (ex_newScrollTop core (Some y) s)"
    using assms(1) by (simp_all add: ex_newScrollTop_def call_term_term t'_def x_def c Let_def)
  with close exact show ?thesis by blast
qed

theorem native_scroll_request_witness:
  "\<exists>t' m. b_term (ex_newScrollTop demo_core (Some 4) (demo_bridge demo_bcmds)) = Some t' \<and>
     m_height m = 3 \<and> \<bar>scroll_top demo_core t' m - 4\<bar> \<le> 3 / 2"
proof -
  obtain t m where b: "b_term (demo_bridge demo_bcmds) = Some t" "renderer t = Some m"
    and v: "getScrollbackLength demo_core t = 3" "rows t = 3" "m_height m = 3" "viewportY t = 2"
    by (rule demo_bridge_obtain)
  then obtain t' where "b_term (ex_newScrollTop demo_core (Some 4) (demo_bridge demo_bcmds)) = Some t'"
    "\<bar>scroll_top demo_core t' m - 4\<bar> \<le> m_height m / 2"
    using native_scroll_request [OF b, of 4 demo_core] by auto
  with v show ?thesis by (intro exI [of _ t'] exI [of _ m]) simp
qed

section \<open>Fitting\<close>

lemma resize_fields:
  assumes "isOpen t" "\<not> isDisposed t" "c \<ge> 1" "r \<ge> 1"
  shows "\<exists>t'. resize core (Some (of_nat c)) (Some (of_nat r)) t = Inr t' \<and>
     cols t' = c \<and> rows t' = r \<and> renderer t' = renderer t \<and> canvas t' = canvas t"
proof -
  have ge: "\<not> of_nat c < (1::rat)" "\<not> of_nat r < (1::rat)" using assms(3,4) by simp_all
  have d: "canvas (requestRender u) = canvas u" "canvas (draw f p u) = canvas u" "canvas (fire e u) = canvas u"
    "canvas (updateWasmPixelSize core u) = canvas u" for u f p e
    by (simp_all add: requestRender_def draw_def fire_def updateWasmPixelSize_def split: option.split)
  have w: "cols (updateWasmPixelSize core u) = cols u" "rows (updateWasmPixelSize core u) = rows u"
    "renderer (updateWasmPixelSize core u) = renderer u" for u
    by (simp_all add: updateWasmPixelSize_def split: option.split)
  show ?thesis
    using assms(1,2) ge
    by (simp add: resize_def assertOpen_def Let_def d w frame_facts cancelRenderLoop_def renderer_call_def)
qed

text \<open>The dimensions chosen fit the element whenever it holds the minimal grid.\<close>

lemma fit_bounds:
  assumes "0 < cell"
  shows "2 \<le> fit_cols w cell" "1 \<le> fit_rows w cell"
    "2 * cell \<le> w \<Longrightarrow> of_nat (fit_cols w cell) * cell \<le> w \<and> w < (of_nat (fit_cols w cell) + 1) * cell"
    "cell \<le> w \<Longrightarrow> of_nat (fit_rows w cell) * cell \<le> w \<and> w < (of_nat (fit_rows w cell) + 1) * cell"
proof -
  have f: "of_int \<lfloor>w / cell\<rfloor> * cell \<le> w" "w < (of_int \<lfloor>w / cell\<rfloor> + 1) * cell"
    using assms floor_correct [of "w / cell"]
    by (simp_all only: pos_le_divide_eq pos_divide_less_eq of_int_add of_int_1)
  show "2 \<le> fit_cols w cell" "1 \<le> fit_rows w cell" by (simp_all add: fit_cols_def fit_rows_def)
  show "of_nat (fit_cols w cell) * cell \<le> w \<and> w < (of_nat (fit_cols w cell) + 1) * cell" if "2 * cell \<le> w"
  proof -
    have "2 \<le> \<lfloor>w / cell\<rfloor>" using that assms by (simp add: le_floor_iff pos_le_divide_eq)
    with f show ?thesis by (simp add: fit_cols_def max_def)
  qed
  show "of_nat (fit_rows w cell) * cell \<le> w \<and> w < (of_nat (fit_rows w cell) + 1) * cell" if "cell \<le> w"
  proof -
    have "1 \<le> \<lfloor>w / cell\<rfloor>" using that assms by (simp add: le_floor_iff pos_le_divide_eq)
    with f show ?thesis by (simp add: fit_rows_def max_def)
  qed
qed

lemma fit_eq:
  assumes "b_term s = Some t" "renderer t = Some m" "m_width m \<noteq> 0" "m_height m \<noteq> 0"
    "0 < clientWidth s" "0 < clientHeight s" "canvas t"
  shows "fitTerminal core s =
    (if fit_cols (clientWidth s) (m_width m) \<noteq> cols t \<or> fit_rows (clientHeight s) (m_height m) \<noteq> rows t
     then try_term core (resize core (Some (of_nat (fit_cols (clientWidth s) (m_width m))))
            (Some (of_nat (fit_rows (clientHeight s) (m_height m)))))
            (\<lambda>s. scheduleScrollSync (native ''resize'' [] s)) (s\<lparr>canvas_transform := T_Identity\<rparr>)
     else s\<lparr>canvas_transform := T_Identity\<rparr>)"
  using assms by (simp add: fitTerminal_def Let_def)

lemma dispatch_view [simp]:
  "clientWidth (dispatch core e s) = clientWidth s" "clientHeight (dispatch core e s) = clientHeight s"
  "canvas_transform (dispatch core e s) = canvas_transform s"
  by (cases e; simp add: syncApplicationCursor_def syncProp_def scheduleScrollSync_def native_def Let_def
      split: option.split sum.split)+

lemma fold_dispatch_view [simp]:
  "clientWidth (fold (dispatch core) es s) = clientWidth s"
  "clientHeight (fold (dispatch core) es s) = clientHeight s"
  "canvas_transform (fold (dispatch core) es s) = canvas_transform s"
  by (induction es arbitrary: s) simp_all

lemma notice_view [simp]:
  "clientWidth (scheduleScrollSync s) = clientWidth s" "clientHeight (scheduleScrollSync s) = clientHeight s"
  "canvas_transform (scheduleScrollSync s) = canvas_transform s"
  "clientWidth (native n a s) = clientWidth s" "clientHeight (native n a s) = clientHeight s"
  "canvas_transform (native n a s) = canvas_transform s"
  by (simp_all add: scheduleScrollSync_def native_def)

lemma fit_result:
  assumes "b_term s = Some t" "renderer t = Some m" "0 < m_width m" "0 < m_height m"
    "0 < clientWidth s" "0 < clientHeight s" "canvas t" "isOpen t" "\<not> isDisposed t"
  shows "\<exists>t'. b_term (fitTerminal core s) = Some t' \<and> renderer t' = Some m \<and> canvas t' \<and>
    cols t' = fit_cols (clientWidth s) (m_width m) \<and> rows t' = fit_rows (clientHeight s) (m_height m) \<and>
    clientWidth (fitTerminal core s) = clientWidth s \<and> clientHeight (fitTerminal core s) = clientHeight s \<and>
    canvas_transform (fitTerminal core s) = T_Identity"
proof (cases "fit_cols (clientWidth s) (m_width m) \<noteq> cols t \<or> fit_rows (clientHeight s) (m_height m) \<noteq> rows t")
  case True
  let ?c = "fit_cols (clientWidth s) (m_width m)" and ?r = "fit_rows (clientHeight s) (m_height m)"
  have "1 \<le> ?c" "1 \<le> ?r" using fit_bounds(1,2) [OF assms(3)] fit_bounds(2) [OF assms(4)]
    by (meson le_trans one_le_numeral)+
  with assms obtain t' where t': "resize core (Some (of_nat ?c)) (Some (of_nat ?r)) (t\<lparr>out := []\<rparr>) = Inr t'"
    "cols t' = ?c" "rows t' = ?r" "renderer t' = Some m" "canvas t'"
    using resize_fields [of "t\<lparr>out := []\<rparr>" ?c ?r core] by auto
  have "fitTerminal core s = scheduleScrollSync (native ''resize'' []
      (fold (dispatch core) (out t') (s\<lparr>canvas_transform := T_Identity, b_term := Some t'\<rparr>)))"
    using True assms t' fit_eq [of s t m core] by (simp add: try_term_def)
  with t' show ?thesis by simp
qed (use assms fit_eq [of s t m core] in auto)

text \<open>
  Fitting. For an open terminal in an element of positive size, \<open>fitTerminal\<close> gives a grid
  of at least two columns and one row; when the element holds two columns (one row), the
  grid is the largest that fits its width (height). Doing it again changes nothing and
  posts nothing.
\<close>

theorem fit_is_largest_and_stable:
  assumes "b_term s = Some t" and "renderer t = Some m" and "0 < m_width m" and "0 < m_height m"
    and "0 < clientWidth s" and "0 < clientHeight s" and "canvas t" and "isOpen t" and "\<not> isDisposed t"
  shows "\<exists>t'. b_term (fitTerminal core s) = Some t' \<and> 2 \<le> cols t' \<and> 1 \<le> rows t' \<and>
    (2 * m_width m \<le> clientWidth s \<longrightarrow>
       of_nat (cols t') * m_width m \<le> clientWidth s \<and> clientWidth s < (of_nat (cols t') + 1) * m_width m) \<and>
    (m_height m \<le> clientHeight s \<longrightarrow>
       of_nat (rows t') * m_height m \<le> clientHeight s \<and> clientHeight s < (of_nat (rows t') + 1) * m_height m) \<and>
    fitTerminal core (fitTerminal core s) = fitTerminal core s"
proof -
  obtain t' where t': "b_term (fitTerminal core s) = Some t'" "renderer t' = Some m" "canvas t'"
    "cols t' = fit_cols (clientWidth s) (m_width m)" "rows t' = fit_rows (clientHeight s) (m_height m)"
    "clientWidth (fitTerminal core s) = clientWidth s" "clientHeight (fitTerminal core s) = clientHeight s"
    "canvas_transform (fitTerminal core s) = T_Identity"
    using fit_result [OF assms, of core] by blast
  have "fitTerminal core (fitTerminal core s) = (fitTerminal core s)\<lparr>canvas_transform := T_Identity\<rparr>"
    using fit_eq [of "fitTerminal core s" t' m core] t' assms by simp
  then have "fitTerminal core (fitTerminal core s) = fitTerminal core s"
    using t'(8) by (metis bridge.surjective bridge.update_convs(13))
  then show ?thesis
    using t' fit_bounds [OF assms(3), of "clientWidth s"] fit_bounds [OF assms(4), of "clientHeight s"]
    by auto
qed

theorem fit_is_largest_and_stable_witness:
  "\<exists>t'. b_term (fitTerminal demo_core ((bridge_init [''resize''] None 9 10)\<lparr>b_term := Some (demo_term 0)\<rparr>)) = Some t' \<and>
     of_nat (cols t') * 2 \<le> (9::rat) \<and> 9 < (of_nat (cols t') + 1) * (2::rat)"
proof -
  define s where "s = (bridge_init [''resize''] None 9 10 :: nat bridge)\<lparr>b_term := Some (demo_term 0)\<rparr>"
  define m where "m = the (renderer (demo_term 0))"
  have "renderer (demo_term 0) \<noteq> None" "m_width m = 2" "m_height m = 3" "canvas (demo_term 0)"
    "isOpen (demo_term 0)" "\<not> isDisposed (demo_term 0)" unfolding m_def by code_simp+
  moreover have "b_term s = Some (demo_term 0)" "clientWidth s = 9" "clientHeight s = 10"
    by (simp_all add: s_def bridge_init_def Let_def)
  moreover have "renderer (demo_term 0) = Some m" using calculation(1) by (auto simp: m_def)
  ultimately show ?thesis
    using fit_is_largest_and_stable [of s "demo_term 0" m demo_core] by (auto simp: s_def)
qed

section \<open>Styles\<close>

text \<open>
  Themes. In the theme both front ends build from a style, the first sixteen palette
  overrides are the ANSI colours in order, a shorter palette leaves the remaining colours
  unset, and the foreground, background and cursor come from the style whatever the palette
  holds, the cursor falling back to the foreground.
\<close>

theorem theme_follows_style:
  shows "themeForXterm st = themeForGhostty st \<and>
    getp (themeForGhostty st) ''foreground'' = getp st ''foregroundColor'' \<and>
    getp (themeForGhostty st) ''background'' = getp st ''backgroundColor'' \<and>
    getp (themeForGhostty st) ''cursor'' = js_or (getp st ''cursorColor'') (getp st ''foregroundColor'') \<and>
    (\<forall>vs i. getp st ''colorPaletteOverrides'' = Arr vs \<longrightarrow> i < 16 \<longrightarrow>
       getp (themeForGhostty st) (ansiColorNames ! i) = (if i < length vs then vs ! i else Undef))"
proof -
  have base: "getp (themeForGhostty st) k = getp (base_theme st) k" if "k \<notin> set ansiColorNames" for k
    using that by (simp add: themeForGhostty_def assign_palette_other split: jsval.split)
  have ansi: "getp (base_theme st) (ansiColorNames ! i) = Undef" if "i < 16" for i
  proof -
    have "ansiColorNames ! i \<in> set ansiColorNames" using that by simp
    moreover have "\<forall>k \<in> set ansiColorNames. getp (base_theme st) k = Undef"
      by (simp add: ansiColorNames_def base_theme_def)
    ultimately show ?thesis by blast
  qed
  have "getp (themeForGhostty st) (ansiColorNames ! i) = (if i < length vs then vs ! i else Undef)"
    if "getp st ''colorPaletteOverrides'' = Arr vs" "i < 16" for vs i
    using that ansi [of i] distinct_ansi
    by (simp add: themeForGhostty_def assign_palette_nth assign_palette_beyond)
  moreover have "''foreground'' \<notin> set ansiColorNames" "''background'' \<notin> set ansiColorNames"
    "''cursor'' \<notin> set ansiColorNames" by (simp_all add: ansiColorNames_def)
  ultimately show ?thesis
    by (simp add: copies_agree base) (simp add: base_theme_def)
qed

theorem theme_follows_style_witness:
  "getp (themeForGhostty (set_prop ''colorPaletteOverrides'' (Arr [Str ''#111111'', Str ''#ff0000'']) styleState_init))
     (ansiColorNames ! 1) = Str ''#ff0000''"
  using theme_follows_style [of "set_prop ''colorPaletteOverrides'' (Arr [Str ''#111111'', Str ''#ff0000'']) styleState_init"]
  by simp

text \<open>
  Font families. Quoting a list of font families twice is quoting it once, so a list
  that was already quoted reaches the font loader unchanged; and a family that the xterm
  front end has to quote becomes one CSS string token which reads back as the family.
\<close>

theorem font_family_quoting:
  assumes "q = quoteCssFontFamily f" and "q \<noteq> js_trim f"
  shows "quoteFontFamily (quoteFontFamily fs) = quoteFontFamily fs \<and>
    (\<exists>body. q = [CHR 0x22] @ body @ [CHR 0x22] \<and> css_token (tl q) = Some body \<and> css_unescape body = js_trim f)"
proof -
  have "q = [CHR 0x22] @ css_escape (js_trim f) @ [CHR 0x22]"
    using assms by (auto simp: quoteCssFontFamily_def Let_def split: if_splits)
  then show ?thesis
    using quoteFontFamily_idem css_token_escape css_escape_unescape by auto
qed

theorem font_family_quoting_witness:
  "quoteCssFontFamily ''Fira \"X\" Mono'' = [CHR 0x22] @ ''Fira '' @ [CHR 0x5C, CHR 0x22, CHR ''X'', CHR 0x5C, CHR 0x22] @ '' Mono'' @ [CHR 0x22] \<and>
   (\<exists>body. css_token (tl (quoteCssFontFamily ''Fira \"X\" Mono'')) = Some body \<and> css_unescape body = ''Fira \"X\" Mono'')"
proof -
  have "js_trim ''Fira \"X\" Mono'' = ''Fira \"X\" Mono''"
    "quoteCssFontFamily ''Fira \"X\" Mono'' =
       [CHR 0x22] @ ''Fira '' @ [CHR 0x5C, CHR 0x22, CHR ''X'', CHR 0x5C, CHR 0x22] @ '' Mono'' @ [CHR 0x22]"
    "quoteCssFontFamily ''Fira \"X\" Mono'' \<noteq> ''Fira \"X\" Mono''" by code_simp+
  with font_family_quoting [OF refl, of "''Fira \"X\" Mono''" "[]"] show ?thesis by auto
qed

text \<open>
  A style update that does not carry a palette array resets the palette, even when it only
  changes another property.
\<close>

lemma style_update_clears_palette:
  assumes "distinct (map fst nextStyle)" "\<not> is_array (getp nextStyle ''colorPaletteOverrides'')"
  shows "getp (mergeStyle st (Some nextStyle)) ''colorPaletteOverrides'' = Undef"
proof -
  have d: "distinct (map fst (spread [] nextStyle))" by (rule distinct_spread) simp
  have g: "getp (spread [] nextStyle) k = getp nextStyle k" for k
  proof -
    have "getp nextStyle k = Undef" if "k \<notin> fst ` set nextStyle"
      using that by (simp add: getp_def map_of_eq_None_iff [THEN iffD2])
    with assms(1) show ?thesis by (simp add: getp_spread)
  qed
  then have "normalizeStyleUpdate (Some nextStyle) = set_prop ''colorPaletteOverrides'' Undef (spread [] nextStyle)"
    using assms(2) by (simp add: normalizeStyleUpdate_def Let_def)
  with d show ?thesis
    by (simp add: mergeStyle_def getp_spread distinct_set_prop)
qed

end
