(* ===== verification/Xterm_Bridge.thy ===== *)
theory Xterm_Bridge
  imports Term_Bridge_Props
begin

text \<open>
  The xterm.js front end \<open>xterm-term-bridge.js\<close>. The xterm library is vendored, minified code
  outside this development: its terminal is the type variable \<open>'x\<close> and the calls the bridge
  makes are the fields of the record \<open>xapi\<close>. What the theorems need of it is stated as
  hypotheses on those fields.
\<close>

section \<open>The library\<close>

record 'x xapi =
  xt_cols :: "'x \<Rightarrow> nat"
  xt_rows :: "'x \<Rightarrow> nat"
  xt_buffer :: "'x \<Rightarrow> nat"
  xt_baseY :: "'x \<Rightarrow> nat"
  xt_viewportY :: "'x \<Rightarrow> nat"
  xt_cursorY :: "'x \<Rightarrow> nat"
  xt_cell :: "'x \<Rightarrow> (rat \<times> rat) option"
  xt_screen :: "'x \<Rightarrow> (rat \<times> rat) option"
  xt_appCursor :: "'x \<Rightarrow> bool"
  xt_hasSelection :: "'x \<Rightarrow> bool"
  xt_selection :: "'x \<Rightarrow> jstr"
  xt_write :: "byte list \<Rightarrow> 'x \<Rightarrow> 'x"
  xt_scrollToLine :: "nat \<Rightarrow> 'x \<Rightarrow> 'x"
  xt_scrollToBottom :: "'x \<Rightarrow> 'x"
  xt_clear :: "'x \<Rightarrow> 'x"
  xt_select :: "nat \<Rightarrow> nat \<Rightarrow> nat \<Rightarrow> 'x \<Rightarrow> 'x"
  xt_selectAll :: "'x \<Rightarrow> 'x"
  xt_clearSelection :: "'x \<Rightarrow> 'x"
  xt_fit :: "'x \<Rightarrow> 'x"
  xt_refresh :: "nat \<Rightarrow> nat \<Rightarrow> 'x \<Rightarrow> 'x"
  xt_focus :: "bool \<Rightarrow> 'x \<Rightarrow> 'x"
  xt_set_style :: "obj \<Rightarrow> 'x \<Rightarrow> 'x"

section \<open>State\<close>

text \<open>A scroll request of the host that the next frame acknowledges.\<close>

record scroll_request =
  rq_buffer :: nat
  rq_line :: nat
  rq_cellHeight :: rat

record cell_pos =
  c_col :: nat
  c_row :: nat

record 'x xbridge =
  x_term :: 'x
  x_styleState :: obj
  x_cssVars :: obj
  x_resizeFrame :: bool
  x_pendingScrollSync :: bool
  x_lastHeight :: "rat option"
  x_lastTop :: "rat option"
  x_request :: "scroll_request option"
  x_oldProps :: "(string \<times> bool) list"
  x_appActive :: "bool option"
  x_anchor :: "cell_pos option"
  x_focused :: bool
  x_clientHeight :: rat
  x_handlers :: "string list"
  x_posted :: "(string \<times> body) list"

definition x_native :: "string \<Rightarrow> arg list \<Rightarrow> 'x xbridge \<Rightarrow> 'x xbridge" where
  "x_native name args s =
     (if name \<notin> set (x_handlers s) then s
      else s\<lparr>x_posted := x_posted s @ [(name, message_body args)]\<rparr>)"

definition xbridge_init :: "string list \<Rightarrow> obj option \<Rightarrow> rat \<Rightarrow> 'x \<Rightarrow> 'x xbridge" where
  "xbridge_init hs initialStyle ch t =
     (let st = spread x_styleState_init (x_normalizeStyleUpdate initialStyle)
      in \<lparr>x_term = t, x_styleState = st, x_cssVars = x_applyDocumentStyle st [], x_resizeFrame = False,
          x_pendingScrollSync = False, x_lastHeight = None, x_lastTop = None, x_request = None,
          x_oldProps = [], x_appActive = None, x_anchor = None, x_focused = False,
          x_clientHeight = ch, x_handlers = hs, x_posted = []\<rparr>)"

text \<open>\<open>getCellSize\<close>: zero when the renderer has no dimensions yet.\<close>

definition getCellSize :: "'x xapi \<Rightarrow> 'x xbridge \<Rightarrow> rat \<times> rat" where
  "getCellSize api s = (case xt_cell api (x_term s) of Some d \<Rightarrow> d | None \<Rightarrow> (0, 0))"

definition x_call :: "('x \<Rightarrow> 'x) \<Rightarrow> 'x xbridge \<Rightarrow> 'x xbridge" where
  "x_call f s = s\<lparr>x_term := f (x_term s)\<rparr>"

section \<open>Scrolling\<close>

definition x_scheduleScrollSync :: "'x xbridge \<Rightarrow> 'x xbridge" where
  "x_scheduleScrollSync s = (if x_pendingScrollSync s then s else s\<lparr>x_pendingScrollSync := True\<rparr>)"

definition x_note_height :: "rat \<Rightarrow> 'x xbridge \<Rightarrow> 'x xbridge" where
  "x_note_height v s =
     (if Some v \<noteq> x_lastHeight s
      then (x_native ''newScrollHeight'' [A_Num v] s)\<lparr>x_lastHeight := Some v\<rparr> else s)"

definition acknowledges :: "'x xapi \<Rightarrow> rat \<Rightarrow> 'x xbridge \<Rightarrow> bool" where
  "acknowledges api h s =
     (case x_request s of
        None \<Rightarrow> False
      | Some r \<Rightarrow> rq_buffer r = xt_buffer api (x_term s) \<and> rq_line r = xt_viewportY api (x_term s) \<and>
                  rq_cellHeight r = h)"

definition x_note_top :: "bool \<Rightarrow> rat \<Rightarrow> 'x xbridge \<Rightarrow> 'x xbridge" where
  "x_note_top ack v s =
     (if \<not> ack \<and> Some v \<noteq> x_lastTop s then x_native ''newScrollTop'' [A_Num v] s else s)
       \<lparr>x_lastTop := Some v\<rparr>"

definition x_syncScroll :: "'x xapi \<Rightarrow> 'x xbridge \<Rightarrow> 'x xbridge" where
  "x_syncScroll api s =
     (let h = snd (getCellSize api s)
      in if h = 0 then s
         else
           let s' = x_note_height (of_nat (xt_baseY api (x_term s)) * h + x_clientHeight s) s
           in x_note_top (acknowledges api h s) (of_nat (xt_viewportY api (x_term s)) * h)
                (s'\<lparr>x_request := None\<rparr>))"

definition x_scrollSyncFrame :: "'x xapi \<Rightarrow> 'x xbridge \<Rightarrow> 'x xbridge" where
  "x_scrollSyncFrame api s = x_syncScroll api (s\<lparr>x_pendingScrollSync := False\<rparr>)"

section \<open>Resizing\<close>

definition x_fitTerminal :: "'x xbridge \<Rightarrow> 'x xbridge" where
  "x_fitTerminal s = (if x_resizeFrame s then s else s\<lparr>x_resizeFrame := True\<rparr>)"

definition x_fitFrame :: "'x xapi \<Rightarrow> 'x xbridge \<Rightarrow> 'x xbridge" where
  "x_fitFrame api s =
     x_scheduleScrollSync (x_native ''resize'' [] (x_call (xt_fit api) (s\<lparr>x_resizeFrame := False\<rparr>)))"

section \<open>Properties, focus and the cursor\<close>

definition x_syncProp :: "string \<Rightarrow> bool \<Rightarrow> 'x xbridge \<Rightarrow> 'x xbridge" where
  "x_syncProp name v s =
     (if map_of (x_oldProps s) name \<noteq> Some v then x_native ''propUpdate'' [A_Str name, A_Bool v] s else s)
       \<lparr>x_oldProps := AList.update name v (x_oldProps s)\<rparr>"

definition x_syncApplicationCursor :: "'x xapi \<Rightarrow> 'x xbridge \<Rightarrow> 'x xbridge" where
  "x_syncApplicationCursor api s = x_syncProp ''applicationCursor'' (xt_appCursor api (x_term s)) s"

definition ensureCursorVisible :: "'x xapi \<Rightarrow> 'x xbridge \<Rightarrow> 'x xbridge" where
  "ensureCursorVisible api s =
     x_call (\<lambda>t. xt_refresh api (xt_cursorY api t) (xt_cursorY api t) t) s"

definition setXtermAppActive :: "'x xapi \<Rightarrow> bool \<Rightarrow> 'x xbridge \<Rightarrow> 'x xbridge" where
  "setXtermAppActive api active s =
     (if x_appActive s = Some active then (if active then ensureCursorVisible api s else s)
      else
        let s = x_call (xt_focus api active) (s\<lparr>x_appActive := Some active\<rparr>)
        in if active then ensureCursorVisible api s else s)"

text \<open>The listeners on the terminal.\<close>

definition x_onData :: "'x xapi \<Rightarrow> jstr \<Rightarrow> 'x xbridge \<Rightarrow> 'x xbridge" where
  "x_onData api d s = x_syncApplicationCursor api (x_native ''sendInput'' [A_Text d] s)"

definition x_onResize :: "'x xbridge \<Rightarrow> 'x xbridge" where
  "x_onResize s = x_scheduleScrollSync (x_native ''resize'' [] s)"

definition x_onSelectionChange :: "'x xapi \<Rightarrow> 'x xbridge \<Rightarrow> 'x xbridge" where
  "x_onSelectionChange api s = x_native ''selectionChanged'' [A_Text (xt_selection api (x_term s))] s"

section \<open>Selection\<close>

definition cell_index :: "nat \<Rightarrow> rat \<Rightarrow> rat \<Rightarrow> rat \<Rightarrow> nat" where
  "cell_index n x x0 w = nat (max 0 (min (int n - 1) \<lfloor>(x - x0) / w\<rfloor>))"

definition selectionCell :: "'x xapi \<Rightarrow> num_arg \<Rightarrow> num_arg \<Rightarrow> 'x xbridge \<Rightarrow> cell_pos option" where
  "selectionCell api x y s =
     (case (xt_screen api (x_term s), x, y) of
        (Some (x0, y0), Some vx, Some vy) \<Rightarrow>
          let (w, h) = getCellSize api s; t = x_term s
          in if w = 0 \<or> h = 0 then None
             else Some \<lparr>c_col = cell_index (xt_cols api t) vx x0 w,
                        c_row = xt_viewportY api t + cell_index (xt_rows api t) vy y0 h\<rparr>
      | _ \<Rightarrow> None)"

definition beginSelection :: "'x xapi \<Rightarrow> num_arg \<Rightarrow> num_arg \<Rightarrow> 'x xbridge \<Rightarrow> 'x xbridge" where
  "beginSelection api x y s =
     (case selectionCell api x y s of
        None \<Rightarrow> s\<lparr>x_anchor := None\<rparr>
      | Some p \<Rightarrow> x_call (xt_select api (c_col p) (c_row p) 1) (s\<lparr>x_anchor := Some p\<rparr>))"

text \<open>Column, row and length of the selection between two cells.\<close>

definition selection_range :: "nat \<Rightarrow> cell_pos \<Rightarrow> cell_pos \<Rightarrow> nat \<times> nat \<times> nat" where
  "selection_range cls p q =
     (let a = c_row p * cls + c_col p; b = c_row q * cls + c_col q; start = min a b
      in (start mod cls, start div cls, (max a b - min a b) + 1))"

definition extendSelection :: "'x xapi \<Rightarrow> num_arg \<Rightarrow> num_arg \<Rightarrow> 'x xbridge \<Rightarrow> 'x xbridge" where
  "extendSelection api x y s =
     (case (x_anchor s, selectionCell api x y s) of
        (Some p, Some q) \<Rightarrow>
          (case selection_range (xt_cols api (x_term s)) p q of
             (c, r, n) \<Rightarrow> x_call (xt_select api c r n) s)
      | _ \<Rightarrow> s)"

definition x_clearSelection :: "'x xapi \<Rightarrow> 'x xbridge \<Rightarrow> 'x xbridge" where
  "x_clearSelection api s = x_call (xt_clearSelection api) (s\<lparr>x_anchor := None\<rparr>)"

definition x_selectAll :: "'x xapi \<Rightarrow> 'x xbridge \<Rightarrow> 'x xbridge" where
  "x_selectAll api s = x_call (xt_selectAll api) s"

section \<open>The exports\<close>

text \<open>The completion callback of \<open>write\<close> is the scroll synchronisation.\<close>

definition x_write :: "'x xapi \<Rightarrow> wdata \<Rightarrow> 'x xbridge \<Rightarrow> 'x xbridge" where
  "x_write api data s =
     (let bytes = (case data of Text d \<Rightarrow> x_latin1StringToBytes d | Bytes b \<Rightarrow> b);
          s = x_scheduleScrollSync (x_call (xt_write api bytes) s)
      in if 27 \<in> set bytes then x_syncApplicationCursor api s else s)"

definition x_getSize :: "'x xapi \<Rightarrow> 'x xbridge \<Rightarrow> nat \<times> nat" where
  "x_getSize api s = (xt_cols api (x_term s), xt_rows api (x_term s))"

definition x_copy :: "'x xapi \<Rightarrow> 'x xbridge \<Rightarrow> jstr" where
  "x_copy api s = xt_selection api (x_term s)"

definition x_setFocused :: "'x xapi \<Rightarrow> bool \<Rightarrow> 'x xbridge \<Rightarrow> 'x xbridge" where
  "x_setFocused api focused s = setXtermAppActive api focused (s\<lparr>x_focused := focused\<rparr>)"

definition x_scrollToBottom :: "'x xapi \<Rightarrow> 'x xbridge \<Rightarrow> 'x xbridge" where
  "x_scrollToBottom api s = x_scheduleScrollSync (x_call (xt_scrollToBottom api) s)"

definition request_line :: "'x xapi \<Rightarrow> rat \<Rightarrow> rat \<Rightarrow> 'x \<Rightarrow> nat" where
  "request_line api y h t = nat (max 0 (min (int (xt_baseY api t)) (js_round (y / h))))"

definition x_newScrollTop :: "'x xapi \<Rightarrow> num_arg \<Rightarrow> 'x xbridge \<Rightarrow> 'x xbridge" where
  "x_newScrollTop api y s =
     (case y of
        None \<Rightarrow> s
      | Some v \<Rightarrow>
          let h = snd (getCellSize api s); t = x_term s; line = request_line api v h t
          in if h = 0 then s
             else x_scheduleScrollSync (x_call (xt_scrollToLine api line)
                    (s\<lparr>x_request := Some \<lparr>rq_buffer = xt_buffer api t, rq_line = line, rq_cellHeight = h\<rparr>\<rparr>)))"

definition x_updateStyle_begin :: "obj option \<Rightarrow> 'x xbridge \<Rightarrow> 'x xbridge" where
  "x_updateStyle_begin nextStyle s =
     (let st = spread (x_styleState s) (x_normalizeStyleUpdate nextStyle)
      in s\<lparr>x_styleState := st, x_cssVars := x_applyDocumentStyle st (x_cssVars s)\<rparr>)"

definition x_style_options :: "obj \<Rightarrow> obj" where
  "x_style_options st =
     [(''fontSize'', getp st ''fontSize''), (''fontFamily'', getp st ''fontFamily''),
      (''cursorBlink'', Bool (truthy (getp st ''blinkCursor''))),
      (''cursorStyle'', Str (cursorStyleForXterm (getp st ''cursorShape'')))] @
     themeForXterm st"

definition x_updateStyle_apply :: "'x xapi \<Rightarrow> 'x xbridge \<Rightarrow> 'x xbridge" where
  "x_updateStyle_apply api s =
     x_scheduleScrollSync (x_call (\<lambda>t. xt_refresh api 0 (xt_rows api t - 1) t)
       (x_fitTerminal (x_call (xt_set_style api (x_style_options (x_styleState s))) s)))"

definition x_getCharacterSize :: "'x xapi \<Rightarrow> 'x xbridge \<Rightarrow> rat \<times> rat" where
  "x_getCharacterSize api s = getCellSize api s"

definition x_clearScrollback :: "'x xapi \<Rightarrow> 'x xbridge \<Rightarrow> 'x xbridge" where
  "x_clearScrollback api s =
     x_scheduleScrollSync (x_call (xt_scrollToBottom api) (x_call (xt_clear api) s))"

section \<open>Touch and focus\<close>

definition x_touchstart :: "'x xapi \<Rightarrow> 'x xbridge \<Rightarrow> bool" where
  "x_touchstart api s = (\<not> xt_hasSelection api (x_term s))"

definition x_touchend :: "'x xapi \<Rightarrow> 'x xbridge \<Rightarrow> 'x xbridge" where
  "x_touchend api s =
     x_native ''focus'' []
       (if xt_hasSelection api (x_term s) then x_call (xt_clearSelection api) s else s)"

definition x_mousedown :: "'x xapi \<Rightarrow> 'x xbridge \<Rightarrow> 'x xbridge" where
  "x_mousedown api s = (if \<not> xt_hasSelection api (x_term s) then x_native ''focus'' [] s else s)"

definition x_focus_change :: "'x xbridge \<Rightarrow> 'x xbridge" where
  "x_focus_change s = x_native ''syncFocus'' [] s"

section \<open>Starting\<close>

text \<open>The modules the page has to load first, and what the bridge logs when one is missing.\<close>

definition x_modules_missing :: "bool \<Rightarrow> bool \<Rightarrow> bool \<Rightarrow> bool \<Rightarrow> bool \<Rightarrow> string option" where
  "x_modules_missing terminal fit links ligatures canvas_addon =
     (if \<not> terminal \<or> \<not> fit \<or> \<not> links \<or> \<not> ligatures then Some ''terminal xterm modules were not loaded''
      else if \<not> canvas_addon then Some ''terminal xterm canvas addon was not loaded''
      else None)"

definition x_start :: "'x xapi \<Rightarrow> 'x xbridge \<Rightarrow> 'x xbridge" where
  "x_start api s =
     x_native ''syncFocus'' [] (x_native ''load'' [] (x_fitTerminal (setXtermAppActive api True
       (x_scheduleScrollSync (x_syncApplicationCursor api (x_call (xt_fit api) s))))))"

section \<open>Frames are coalesced as in the other bridge\<close>

interpretation x_scroll_sync:
  frame_coalescer x_scheduleScrollSync "x_scrollSyncFrame api" x_pendingScrollSync
  by unfold_locales (simp_all add: x_scheduleScrollSync_def x_scrollSyncFrame_def)

interpretation x_resize: frame_coalescer x_fitTerminal "x_fitFrame api" x_resizeFrame
  by unfold_locales (simp_all add: x_fitTerminal_def x_fitFrame_def)

section \<open>Acknowledging a scroll of the host\<close>

definition top_messages :: "'x xbridge \<Rightarrow> body list" where
  "top_messages s = map snd (filter (\<lambda>m. fst m = ''newScrollTop'') (x_posted s))"

lemma x_native_top:
  "top_messages (x_native n args s) =
     top_messages s @ (if n = ''newScrollTop'' \<and> n \<in> set (x_handlers s) then [message_body args] else [])"
  by (simp add: top_messages_def x_native_def)

lemma top_messages_fields [simp]:
  "top_messages (s\<lparr>x_term := t\<rparr>) = top_messages s" "top_messages (s\<lparr>x_request := r\<rparr>) = top_messages s"
  "top_messages (s\<lparr>x_pendingScrollSync := b\<rparr>) = top_messages s"
  "top_messages (s\<lparr>x_lastTop := v\<rparr>) = top_messages s" "top_messages (s\<lparr>x_lastHeight := v\<rparr>) = top_messages s"
  by (simp_all add: top_messages_def)

lemma x_note_height_simps [simp]:
  "top_messages (x_note_height v s) = top_messages s" "x_request (x_note_height v s) = x_request s"
  "x_lastTop (x_note_height v s) = x_lastTop s" "x_term (x_note_height v s) = x_term s"
  "x_handlers (x_note_height v s) = x_handlers s"
  by (simp_all add: x_note_height_def x_native_top) (simp_all add: x_native_def)

lemma x_native_simps [simp]:
  "x_request (x_native n a s) = x_request s" "x_lastTop (x_native n a s) = x_lastTop s"
  "x_term (x_native n a s) = x_term s" "x_handlers (x_native n a s) = x_handlers s"
  by (simp_all add: x_native_def)

lemma x_schedule_simps [simp]:
  "top_messages (x_scheduleScrollSync s) = top_messages s" "x_request (x_scheduleScrollSync s) = x_request s"
  "x_term (x_scheduleScrollSync s) = x_term s" "x_handlers (x_scheduleScrollSync s) = x_handlers s"
  "x_lastTop (x_scheduleScrollSync s) = x_lastTop s"
  by (simp_all add: x_scheduleScrollSync_def)

text \<open>One frame: what it posts about the offset, and that the request is used up.\<close>

lemma x_frame_top:
  assumes "snd (getCellSize api s) = h" "h \<noteq> 0"
  defines "v \<equiv> of_nat (xt_viewportY api (x_term s)) * h"
  shows "top_messages (x_scrollSyncFrame api s) = top_messages s @
      (if \<not> acknowledges api h s \<and> Some v \<noteq> x_lastTop s \<and> ''newScrollTop'' \<in> set (x_handlers s)
       then [Body_One (A_Num v)] else [])"
    "x_lastTop (x_scrollSyncFrame api s) = Some v" "x_request (x_scrollSyncFrame api s) = None"
    "x_term (x_scrollSyncFrame api s) = x_term s" "x_handlers (x_scrollSyncFrame api s) = x_handlers s"
  using assms
  by (simp_all add: x_scrollSyncFrame_def x_syncScroll_def x_note_top_def getCellSize_def x_native_top
      message_body_def acknowledges_def Let_def split: option.split)

text \<open>
  A native scroll is not echoed. When the host reports its own offset, the bridge moves
  the terminal to the nearest row and the next frame sends no offset back, so the host's
  fractional position is not snapped; the row it stands for is remembered, and a later
  movement of the terminal to another row is reported. The hypotheses are what xterm
  documents of \<open>scrollToLine\<close>: the viewport is put at the row, in the same buffer and cell size.
\<close>

theorem native_scroll_not_echoed:
  assumes "snd (getCellSize api s) = h" and "h \<noteq> 0"
    and line: "line = request_line api v h (x_term s)"
    and api: "xt_viewportY api (xt_scrollToLine api line (x_term s)) = line"
      "xt_buffer api (xt_scrollToLine api line (x_term s)) = xt_buffer api (x_term s)"
      "xt_cell api (xt_scrollToLine api line (x_term s)) = xt_cell api (x_term s)"
    and s': "s' = x_scrollSyncFrame api (x_newScrollTop api (Some v) s)"
    and later: "xt_cell api t' = xt_cell api (x_term s)" "xt_viewportY api t' \<noteq> line"
      "''newScrollTop'' \<in> set (x_handlers s)"
  shows "top_messages s' = top_messages s \<and> x_lastTop s' = Some (of_nat line * h) \<and>
    top_messages (x_scrollSyncFrame api (s'\<lparr>x_term := t'\<rparr>)) =
      top_messages s @ [Body_One (A_Num (of_nat (xt_viewportY api t') * h))]"
proof -
  define u where "u = x_newScrollTop api (Some v) s"
  have u: "x_term u = xt_scrollToLine api line (x_term s)" "top_messages u = top_messages s"
    "x_handlers u = x_handlers s"
    "x_request u = Some \<lparr>rq_buffer = xt_buffer api (x_term s), rq_line = line, rq_cellHeight = h\<rparr>"
    using assms(1,2) line by (simp_all add: u_def x_newScrollTop_def x_call_def Let_def)
  have h: "snd (getCellSize api u) = h" using assms(1) u(1) api(3) by (simp add: getCellSize_def)
  have "acknowledges api h u" using u api by (simp add: acknowledges_def)
  with x_frame_top [OF h assms(2)] u api have s1: "top_messages s' = top_messages s"
    "x_lastTop s' = Some (of_nat line * h)" "x_request s' = None" "x_handlers s' = x_handlers s"
    by (simp_all add: s' u_def)
  have "snd (getCellSize api (s'\<lparr>x_term := t'\<rparr>)) = h"
    using assms(1) later(1) by (simp add: getCellSize_def)
  moreover have "\<not> acknowledges api h (s'\<lparr>x_term := t'\<rparr>)" using s1(3) by (simp add: acknowledges_def)
  ultimately show ?thesis
    using x_frame_top(1) [of api "s'\<lparr>x_term := t'\<rparr>" h] assms(2) s1 later(2,3) by simp
qed

text \<open>A terminal with a viewport row and a selection, for the witnesses.\<close>

record xdemo =
  xd_y :: nat
  xd_sel :: "(nat \<times> nat \<times> nat) option"

definition demo_xapi :: "xdemo xapi" where
  "demo_xapi = \<lparr>xt_cols = \<lambda>_. 10, xt_rows = \<lambda>_. 4, xt_buffer = \<lambda>_. 0, xt_baseY = \<lambda>_. 20,
     xt_viewportY = xd_y, xt_cursorY = \<lambda>_. 0, xt_cell = \<lambda>_. Some (2, 3), xt_screen = \<lambda>_. Some (1, 1),
     xt_appCursor = \<lambda>_. False, xt_hasSelection = \<lambda>t. xd_sel t \<noteq> None, xt_selection = \<lambda>_. [],
     xt_write = \<lambda>_ t. t, xt_scrollToLine = \<lambda>n t. t\<lparr>xd_y := min 20 n\<rparr>, xt_scrollToBottom = \<lambda>t. t\<lparr>xd_y := 20\<rparr>,
     xt_clear = \<lambda>t. t, xt_select = \<lambda>c r n t. t\<lparr>xd_sel := Some (c, r, n)\<rparr>, xt_selectAll = \<lambda>t. t,
     xt_clearSelection = \<lambda>t. t\<lparr>xd_sel := None\<rparr>, xt_fit = \<lambda>t. t, xt_refresh = \<lambda>_ _ t. t,
     xt_focus = \<lambda>_ t. t, xt_set_style = \<lambda>_ t. t\<rparr>"

definition demo_xbridge :: "xdemo xbridge" where
  "demo_xbridge = xbridge_init [''newScrollTop''] None 12 \<lparr>xd_y = 20, xd_sel = None\<rparr>"

theorem native_scroll_not_echoed_witness:
  "let s' = x_scrollSyncFrame demo_xapi (x_newScrollTop demo_xapi (Some (22 / 3)) demo_xbridge)
   in top_messages s' = [] \<and> x_lastTop s' = Some 6 \<and>
      top_messages (x_scrollSyncFrame demo_xapi (s'\<lparr>x_term := \<lparr>xd_y = 20, xd_sel = None\<rparr>\<rparr>)) = [Body_One (A_Num 60)]"
proof -
  define t' where "t' = \<lparr>xd_y = 20, xd_sel = None\<rparr>"
  have h: "snd (getCellSize demo_xapi demo_xbridge) = 3" "request_line demo_xapi (22 / 3) 3 (x_term demo_xbridge) = 2"
    "top_messages demo_xbridge = []" "''newScrollTop'' \<in> set (x_handlers demo_xbridge)" by code_simp+
  have a: "xt_viewportY demo_xapi (xt_scrollToLine demo_xapi 2 (x_term demo_xbridge)) = 2"
    "xt_buffer demo_xapi (xt_scrollToLine demo_xapi 2 (x_term demo_xbridge)) = xt_buffer demo_xapi (x_term demo_xbridge)"
    "xt_cell demo_xapi (xt_scrollToLine demo_xapi 2 (x_term demo_xbridge)) = xt_cell demo_xapi (x_term demo_xbridge)"
    "xt_cell demo_xapi t' = xt_cell demo_xapi (x_term demo_xbridge)" "xt_viewportY demo_xapi t' = 20"
    unfolding t'_def by code_simp+
  show ?thesis
    using native_scroll_not_echoed [OF h(1) _ h(2) [symmetric] a(1-3) refl a(4)] a(5) h
    by (simp add: t'_def Let_def)
qed

section \<open>Selections\<close>

lemma cell_index_lt: "n > 0 \<Longrightarrow> cell_index n x x0 w < n"
  by (auto simp: cell_index_def)



end
