(* ===== verification/Gw_Forward.thy ===== *)
theory Gw_Forward
  imports Js_Object
begin

text \<open>
  The forwarder module of \<open>ghostty-web.js\<close>: a hand-assembled WebAssembly module, kept as a
  byte array, whose three exports pass their arguments on to three JavaScript callbacks so
  that the callbacks can be put into the core's function table. The bytes are decoded by a
  small WebAssembly reader and executed by a small stack machine, both written from the
  WebAssembly binary format and covering what the module uses.
\<close>

section \<open>The bytes\<close>

definition xg :: "nat list" where
  "xg =
     [0, 97, 115, 109, 1, 0, 0, 0, 1, 24, 3, 96, 4, 127, 127, 127, 127, 0, 96, 3, 127, 127,
      127, 1, 127, 96, 5, 127, 127, 127, 127, 127, 1, 127, 2, 54, 3, 3, 101, 110, 118, 12, 119, 114,
      105, 116, 101, 95, 112, 116, 121, 95, 99, 98, 0, 0, 3, 101, 110, 118, 7, 115, 105, 122, 101, 95,
      99, 98, 0, 1, 3, 101, 110, 118, 13, 100, 101, 99, 111, 100, 101, 95, 112, 110, 103, 95, 99, 98,
      0, 2, 3, 4, 3, 0, 1, 2, 7, 45, 3, 13, 119, 114, 105, 116, 101, 95, 112, 116, 121, 95,
      102, 119, 100, 0, 3, 8, 115, 105, 122, 101, 95, 102, 119, 100, 0, 4, 14, 100, 101, 99, 111, 100,
      101, 95, 112, 110, 103, 95, 102, 119, 100, 0, 5, 10, 40, 3, 12, 0, 32, 0, 32, 1, 32, 2,
      32, 3, 16, 0, 11, 10, 0, 32, 0, 32, 1, 32, 2, 16, 1, 11, 14, 0, 32, 0, 32, 1,
      32, 2, 32, 3, 32, 4, 16, 2, 11]"

section \<open>Reading a module\<close>

text \<open>Unsigned LEB128 numbers.\<close>

fun leb :: "nat list \<Rightarrow> (nat \<times> nat list) option" where
  "leb [] = None"
| "leb (b # bs) =
     (if b < 128 then Some (b, bs)
      else case leb bs of Some (n, r) \<Rightarrow> Some (b - 128 + 128 * n, r) | None \<Rightarrow> None)"

text \<open>A counted sequence of \<open>k\<close> elements.\<close>

fun elems :: "(nat list \<Rightarrow> ('a \<times> nat list) option) \<Rightarrow> nat \<Rightarrow> nat list \<Rightarrow> ('a list \<times> nat list) option" where
  "elems f 0 bs = Some ([], bs)"
| "elems f (Suc k) bs =
     (case f bs of
        None \<Rightarrow> None
      | Some (x, r) \<Rightarrow> (case elems f k r of None \<Rightarrow> None | Some (xs, r') \<Rightarrow> Some (x # xs, r')))"

definition vec :: "(nat list \<Rightarrow> ('a \<times> nat list) option) \<Rightarrow> nat list \<Rightarrow> ('a list \<times> nat list) option" where
  "vec f bs = (case leb bs of None \<Rightarrow> None | Some (n, r) \<Rightarrow> elems f n r)"

definition byte :: "nat list \<Rightarrow> (nat \<times> nat list) option" where
  "byte bs = (case bs of [] \<Rightarrow> None | b # r \<Rightarrow> Some (b, r))"

definition wname :: "nat list \<Rightarrow> (string \<times> nat list) option" where
  "wname bs = map_option (\<lambda>(ns, r). (map char_of ns, r)) (vec byte bs)"

text \<open>A function type: the numbers of \<open>i32\<close> parameters and results.\<close>

definition functype :: "nat list \<Rightarrow> ((nat \<times> nat) \<times> nat list) option" where
  "functype bs =
     (case bs of
        b # r \<Rightarrow>
          if b \<noteq> 96 then None
          else (case vec byte r of
                  None \<Rightarrow> None
                | Some (ps, r') \<Rightarrow>
                    (case vec byte r' of
                       None \<Rightarrow> None
                     | Some (rs, r'') \<Rightarrow>
                         if list_all (\<lambda>t. t = 127) (ps @ rs) then Some ((length ps, length rs), r'') else None))
      | [] \<Rightarrow> None)"

text \<open>A function import: module, field and type index.\<close>

definition import_entry :: "nat list \<Rightarrow> ((string \<times> string \<times> nat) \<times> nat list) option" where
  "import_entry bs =
     (case wname bs of
        None \<Rightarrow> None
      | Some (m, r) \<Rightarrow>
          (case wname r of
             Some (n, k # r') \<Rightarrow> if k \<noteq> 0 then None else map_option (\<lambda>(t, r''). ((m, n, t), r'')) (leb r')
           | _ \<Rightarrow> None))"

definition export_entry :: "nat list \<Rightarrow> ((string \<times> nat) \<times> nat list) option" where
  "export_entry bs =
     (case wname bs of
        Some (n, k # r) \<Rightarrow> if k \<noteq> 0 then None else map_option (\<lambda>(i, r'). ((n, i), r')) (leb r)
      | _ \<Rightarrow> None)"

datatype instr = Local_Get nat | Call nat

text \<open>The instructions up to the closing \<open>end\<close>.\<close>

fun instrs :: "nat list \<Rightarrow> instr list option" where
  "instrs [b] = (if b = 11 then Some [] else None)"
| "instrs (b # n # bs) =
     (if b = 32 then map_option (Cons (Local_Get n)) (instrs bs)
      else if b = 16 then map_option (Cons (Call n)) (instrs bs) else None)"
| "instrs [] = None"

text \<open>A code entry without locals of its own.\<close>

definition code_entry :: "nat list \<Rightarrow> (instr list \<times> nat list) option" where
  "code_entry bs =
     (case leb bs of
        Some (n, k # r) \<Rightarrow>
          if n = 0 \<or> k \<noteq> 0 \<or> length r < n - 1 then None
          else map_option (\<lambda>is. (is, drop (n - 1) r)) (instrs (take (n - 1) r))
      | _ \<Rightarrow> None)"

text \<open>The sections: identifier and contents. Each takes at least its identifier byte.\<close>

function sections :: "nat list \<Rightarrow> (nat \<times> nat list) list option" where
  "sections [] = Some []"
| "sections (b # bs) =
     (case leb bs of
        None \<Rightarrow> None
      | Some (n, r) \<Rightarrow>
          if length r < n then None
          else map_option (Cons (b, take n r)) (sections (drop n r)))"
  by pat_completeness auto

lemma leb_length: "leb bs = Some (n, r) \<Longrightarrow> length r < length bs"
  by (induction bs arbitrary: n r) (auto split: if_splits option.splits prod.splits intro: less_SucI)

termination sections
  by (relation "measure length") (auto dest!: leb_length)

record wmodule =
  w_types :: "(nat \<times> nat) list"
  w_imports :: "(string \<times> string \<times> nat) list"
  w_funcs :: "nat list"
  w_exports :: "(string \<times> nat) list"
  w_code :: "instr list list"

definition whole :: "('a \<times> nat list) option \<Rightarrow> 'a option" where
  "whole r = (case r of Some (x, []) \<Rightarrow> Some x | _ \<Rightarrow> None)"

definition decode_module :: "nat list \<Rightarrow> wmodule option" where
  "decode_module bs =
     (if take 8 bs \<noteq> [0, 97, 115, 109, 1, 0, 0, 0] then None
      else case sections (drop 8 bs) of
        Some [(i1, ts), (i2, ims), (i3, fs), (i4, es), (i5, cs)] \<Rightarrow>
          if [i1, i2, i3, i4, i5] \<noteq> [1, 2, 3, 7, 10] then None
          else (case (whole (vec functype ts), whole (vec import_entry ims), whole (vec leb fs),
                      whole (vec export_entry es), whole (vec code_entry cs)) of
                  (Some t, Some im, Some f, Some e, Some c) \<Rightarrow>
                    Some \<lparr>w_types = t, w_imports = im, w_funcs = f, w_exports = e, w_code = c\<rparr>
                | _ \<Rightarrow> None)
      | _ \<Rightarrow> None)"

section \<open>Running a function\<close>

text \<open>
  \<open>host\<close> gives the results of an imported function. A run returns the calls made, in order,
  and the values left on the stack; the first imported functions precede the module's own
  in the index space. The stack grows at its end.
\<close>

fun exec ::
  "(string \<Rightarrow> 'v list \<Rightarrow> 'v list) \<Rightarrow> wmodule \<Rightarrow> 'v list \<Rightarrow> instr list \<Rightarrow> 'v list \<Rightarrow>
   (string \<times> 'v list) list \<Rightarrow> ((string \<times> 'v list) list \<times> 'v list) option" where
  "exec host md locals [] stack calls = Some (calls, stack)"
| "exec host md locals (Local_Get n # is) stack calls =
     (if n < length locals then exec host md locals is (stack @ [locals ! n]) calls else None)"
| "exec host md locals (Call n # is) stack calls =
     (if n < length (w_imports md) then
        let (m, f, ty) = w_imports md ! n; k = fst (w_types md ! ty);
            args = drop (length stack - k) stack
        in if length stack < k then None
           else exec host md locals is (take (length stack - k) stack @ host f args) (calls @ [(f, args)])
      else None)"

definition call_export ::
  "(string \<Rightarrow> 'v list \<Rightarrow> 'v list) \<Rightarrow> wmodule \<Rightarrow> string \<Rightarrow> 'v list \<Rightarrow>
   ((string \<times> 'v list) list \<times> 'v list) option" where
  "call_export host md name args =
     (case map_of (w_exports md) name of
        None \<Rightarrow> None
      | Some i \<Rightarrow>
          let j = i - length (w_imports md)
          in if i < length (w_imports md) \<or> length (w_code md) \<le> j \<or>
                length args \<noteq> fst (w_types md ! (w_funcs md ! j)) then None
             else exec host md args (w_code md ! j) [] [])"

text \<open>The function \<open>bg\<close>: an instance with the three callbacks as imports; its exports.\<close>

definition bg ::
  "('v list \<Rightarrow> 'v list) \<Rightarrow> ('v list \<Rightarrow> 'v list) \<Rightarrow> ('v list \<Rightarrow> 'v list) \<Rightarrow> string \<Rightarrow> 'v list \<Rightarrow>
   ((string \<times> 'v list) list \<times> 'v list) option" where
  "bg write_pty size_cb decode_png export args =
     (case decode_module xg of
        None \<Rightarrow> None
      | Some md \<Rightarrow>
          call_export (\<lambda>f. if f = ''write_pty_cb'' then write_pty
                           else if f = ''size_cb'' then size_cb else decode_png) md export args)"

section \<open>What the module does\<close>

definition xg_module :: wmodule where
  "xg_module =
     \<lparr>w_types = [(4, 0), (3, 1), (5, 1)],
      w_imports = [(''env'', ''write_pty_cb'', 0), (''env'', ''size_cb'', 1), (''env'', ''decode_png_cb'', 2)],
      w_funcs = [0, 1, 2],
      w_exports = [(''write_pty_fwd'', 3), (''size_fwd'', 4), (''decode_png_fwd'', 5)],
      w_code = [[Local_Get 0, Local_Get 1, Local_Get 2, Local_Get 3, Call 0],
                [Local_Get 0, Local_Get 1, Local_Get 2, Call 1],
                [Local_Get 0, Local_Get 1, Local_Get 2, Local_Get 3, Local_Get 4, Call 2]]\<rparr>"

lemma decode_xg: "decode_module xg = Some xg_module"
  by code_simp

text \<open>
  C26. Forwarding. The bytes are a well-formed module, and each of its exports, called with
  as many arguments as its type says, makes exactly one call: of the callback it stands for,
  with the same arguments in the same order, whose results it returns.
\<close>

theorem forwarders_forward:
  shows "bg wp sz png ''write_pty_fwd'' [a, b, c, d] = Some ([(''write_pty_cb'', [a, b, c, d])], wp [a, b, c, d]) \<and>
    bg wp sz png ''size_fwd'' [a, b, c] = Some ([(''size_cb'', [a, b, c])], sz [a, b, c]) \<and>
    bg wp sz png ''decode_png_fwd'' [a, b, c, d, e] =
      Some ([(''decode_png_cb'', [a, b, c, d, e])], png [a, b, c, d, e])"
  by (simp add: bg_def decode_xg xg_module_def call_export_def Let_def numeral_eq_Suc)

end
