(* ===== verification/Gw_Png.thy ===== *)
theory Gw_Png
  imports Js_Object
begin

text \<open>
  The expansion of decoded PNG images to RGBA in \<open>ghostty-web.js\<close> (functions \<open>Og\<close> and \<open>pg\<close>),
  used for kitty graphics. The decoder itself is a compiled module: the record below is
  what it returns.
\<close>

record png =
  p_width :: int
  p_height :: int
  colorType :: nat
  bitDepth :: nat
  image :: "8 word list"

definition safe_integer :: "int \<Rightarrow> bool" where
  "safe_integer n = (\<bar>n\<bar> \<le> 2 ^ 53 - 1)"

text \<open>\<open>C[t] ?? 0\<close>\<close>

definition byte_at :: "'b::zero list \<Rightarrow> nat \<Rightarrow> 'b" where
  "byte_at c t = (if t < length c then c ! t else 0)"

text \<open>The sample \<open>w(t)\<close>: the high byte of a 16-bit sample.\<close>

definition sample :: "png \<Rightarrow> nat \<Rightarrow> 8 word" where
  "sample b t = (if bitDepth b = 16 then byte_at (image b) (t * 2) else byte_at (image b) t)"

definition channels :: "nat \<Rightarrow> nat" where
  "channels ct = (if ct = 6 then 4 else if ct = 2 then 3 else if ct = 4 then 2 else if ct = 0 then 1 else 0)"

text \<open>The four bytes the loops write for pixel \<open>p\<close>.\<close>

definition pixel :: "png \<Rightarrow> nat \<Rightarrow> 8 word list" where
  "pixel b p =
     (if colorType b = 6 then
        [sample b (4 * p), sample b (4 * p + 1), sample b (4 * p + 2), sample b (4 * p + 3)]
      else if colorType b = 2 then
        [sample b (3 * p), sample b (3 * p + 1), sample b (3 * p + 2), 255]
      else if colorType b = 4 then
        (let a = sample b (2 * p) in [a, a, a, sample b (2 * p + 1)])
      else (let a = sample b p in [a, a, a, 255]))"

definition Og :: "png \<Rightarrow> 8 word list option" where
  "Og b =
     (if p_width b \<le> 0 \<or> p_height b \<le> 0 then None
      else
        let e = p_width b * p_height b
        in if \<not> safe_integer e \<or> e > 1073741823 then None
           else if channels (colorType b) = 0 then None
           else
             let s = e * int (channels (colorType b)) * (if bitDepth b = 16 then 2 else 1)
             in if \<not> safe_integer s \<or> int (length (image b)) < s then None
                else if colorType b = 6 \<and> bitDepth b = 8 then
                  Some (map (byte_at (image b)) [0..<nat e * 4])
                else Some (concat (map (pixel b) [0..<nat e])))"

record rgba_image =
  i_width :: int
  i_height :: int
  rgba :: "8 word list"

text \<open>\<open>dec\<close> is the compiled decoder.\<close>

definition pg :: "(8 word list \<Rightarrow> png) \<Rightarrow> 8 word list \<Rightarrow> rgba_image option" where
  "pg dec bytes =
     (let a = dec bytes
      in map_option (\<lambda>g. \<lparr>i_width = p_width a, i_height = p_height a, rgba = g\<rparr>) (Og a))"

section \<open>The expanded image\<close>

lemma concat_blocks_nth:
  assumes "\<And>p. length (f p) = k" "p < n" "c < k"
  shows "concat (map f [0..<n]) ! (k * p + c) = f p ! c"
  using assms(2)
proof (induction n)
  case (Suc n)
  have len: "length (concat (map f [0..<m])) = k * m" for m
    using assms(1) by (induction m) simp_all
  show ?case
  proof (cases "p < n")
    case True
    then have "k * p + c < k * n"
    proof -
      have "k * p + c < k * p + k" using assms(3) by simp
      also have "\<dots> \<le> k * n" using True by (metis Suc_leI mult_Suc_right mult_le_mono2 add.commute)
      finally show ?thesis .
    qed
    then show ?thesis using Suc.IH True by (simp add: nth_append len)
  next
    case False
    with Suc.prems have "p = n" by simp
    then show ?thesis by (simp add: nth_append len)
  qed
qed simp

lemma length_concat_blocks: "(\<And>p. length (f p) = k) \<Longrightarrow> length (concat (map f [0..<n])) = k * n"
  by (induction n) simp_all

lemma length_pixel [simp]: "length (pixel b p) = 4"
  by (simp add: pixel_def Let_def)

text \<open>The index in the decoder's output of channel \<open>c\<close> of pixel \<open>p\<close>, if it has one.\<close>

definition source_index :: "nat \<Rightarrow> nat \<Rightarrow> nat \<Rightarrow> nat option" where
  "source_index ct p c =
     (if ct = 6 then Some (4 * p + c)
      else if ct = 2 then (if c < 3 then Some (3 * p + c) else None)
      else if ct = 4 then Some (2 * p + (if c < 3 then 0 else 1))
      else (if c < 3 then Some p else None))"

lemma less_4_cases: "c < 4 \<Longrightarrow> c = 0 \<or> c = 1 \<or> c = 2 \<or> c = (3::nat)"
  by auto

lemma pixel_nth:
  assumes "c < 4"
  shows "pixel b p ! c = (case source_index (colorType b) p c of Some i \<Rightarrow> sample b i | None \<Rightarrow> 255)"
  using less_4_cases [OF assms] by (auto simp: pixel_def source_index_def Let_def numeral_eq_Suc)

lemma source_index_bound:
  assumes "p < n" "c < 4" "channels ct \<noteq> 0" "source_index ct p c = Some i"
  shows "i < n * channels ct"
  using assms by (auto simp: source_index_def channels_def split: if_splits)

lemma Og_cases:
  assumes "Og b = Some r"
  shows "0 < p_width b" "0 < p_height b" "channels (colorType b) \<noteq> 0"
    "nat (p_width b * p_height b) * channels (colorType b) * (if bitDepth b = 16 then 2 else 1) \<le> length (image b)"
    "r = concat (map (pixel b) [0..<nat (p_width b * p_height b)]) \<or>
     colorType b = 6 \<and> bitDepth b = 8 \<and> r = map (byte_at (image b)) [0..<nat (p_width b * p_height b) * 4]"
proof -
  let ?e = "p_width b * p_height b" and ?k = "channels (colorType b) * (if bitDepth b = 16 then 2 else 1)"
  show p: "0 < p_width b" "0 < p_height b" "channels (colorType b) \<noteq> 0"
    using assms by (auto simp: Og_def Let_def split: if_splits)
  then have "0 \<le> ?e" by simp
  moreover have "?e * int ?k \<le> int (length (image b))"
    using assms by (auto simp: Og_def Let_def split: if_splits)
  ultimately have "int (nat ?e * ?k) \<le> int (length (image b))" by simp
  then have "nat ?e * ?k \<le> length (image b)" by (simp only: of_nat_le_iff)
  then show "nat ?e * channels (colorType b) * (if bitDepth b = 16 then 2 else 1) \<le> length (image b)"
    by (simp only: mult.assoc)
  show "r = concat (map (pixel b) [0..<nat ?e]) \<or>
     colorType b = 6 \<and> bitDepth b = 8 \<and> r = map (byte_at (image b)) [0..<nat ?e * 4]"
    using assms by (auto simp: Og_def Let_def split: if_splits)
qed

text \<open>
  Image expansion. When \<open>Og\<close> accepts an image, the result has four bytes per pixel; each
  is a byte of the decoder's output that is really there (the high byte of a 16-bit sample,
  grey repeated in the three colours) or, where the format has no alpha, 255. No default is
  ever read past the end of the data.
\<close>

theorem png_expansion:
  assumes "Og b = Some r" and "p < nat (p_width b * p_height b)" and "c < 4"
  shows "length r = 4 * nat (p_width b * p_height b) \<and>
    (case source_index (colorType b) p c of
       None \<Rightarrow> r ! (4 * p + c) = 255
     | Some i \<Rightarrow> let j = (if bitDepth b = 16 then i * 2 else i)
                 in j < length (image b) \<and> r ! (4 * p + c) = image b ! j)"
proof -
  let ?n = "nat (p_width b * p_height b)"
  note o = Og_cases [OF assms(1)]
  have len: "length r = 4 * ?n"
    using o(5) by (auto simp: length_concat_blocks)
  have idx: "(if bitDepth b = 16 then i * 2 else i) < length (image b)"
    if "source_index (colorType b) p c = Some i" for i
  proof -
    have "i < ?n * channels (colorType b)"
      by (rule source_index_bound [OF assms(2,3) o(3) that])
    then show ?thesis using o(4) by (auto split: if_splits)
  qed
  have val: "r ! (4 * p + c) = pixel b p ! c"
    using o(5)
  proof
    assume "r = concat (map (pixel b) [0..<?n])"
    then show ?thesis using concat_blocks_nth [of "pixel b" 4 p ?n c] assms(2,3) by simp
  next
    assume r: "colorType b = 6 \<and> bitDepth b = 8 \<and> r = map (byte_at (image b)) [0..<?n * 4]"
    moreover have "4 * p + c < ?n * 4" using assms(2,3) by simp
    ultimately show ?thesis
      using assms(3) by (simp add: pixel_nth source_index_def sample_def)
  qed
  show ?thesis
    using len val idx assms(3)
    by (auto simp: pixel_nth sample_def byte_at_def Let_def split: option.splits if_splits)
qed

theorem png_expansion_witness:
  "let b = \<lparr>p_width = 2, p_height = 1, colorType = 4, bitDepth = 16, image = [1, 9, 2, 9, 3, 9, 4, 9]\<rparr>
   in Og b = Some [1, 1, 1, 2, 3, 3, 3, 4] \<and>
      (case source_index 4 1 3 of Some i \<Rightarrow> i * 2 < length (image b) \<and> image b ! (i * 2) = 4 | None \<Rightarrow> False)"
proof -
  define b where "b = \<lparr>p_width = 2, p_height = 1, colorType = 4, bitDepth = 16, image = [1, 9, 2, 9, 3, 9, 4, 9]\<rparr>"
  have o: "Og b = Some [1, 1, 1, 2, 3, 3, 3, 4]" "1 < nat (p_width b * p_height b)"
    unfolding b_def by code_simp+
  show ?thesis
    using png_expansion [OF o, of 3] o(1) by (simp add: b_def source_index_def Let_def)
qed

end
