(* ===== verification/Gw_Buffer.thy ===== *)
theory Gw_Buffer
  imports Gw_Core
begin

text \<open>
  The xterm-compatible buffer API of \<open>ghostty-web.js\<close>: the buffer namespace, buffers, lines and
  cells. The rows themselves are read from the WebAssembly core; the record \<open>grid\<close> is what
  the core answers at one moment. Strings are lists of UTF-16 code units.
\<close>

section \<open>Cells\<close>

record cell =
  codepoint :: int
  fg_r :: nat
  fg_g :: nat
  fg_b :: nat
  bg_r :: nat
  bg_g :: nat
  bg_b :: nat
  fgIsDefault :: bool
  bgIsDefault :: bool
  flags :: nat
  cwidth :: nat
  hyperlink_id :: nat
  grapheme_len :: nat

definition null_cell :: cell where
  "null_cell = \<lparr>codepoint = 0, fg_r = 0, fg_g = 0, fg_b = 0, bg_r = 0, bg_g = 0, bg_b = 0,
     fgIsDefault = True, bgIsDefault = True, flags = 0, cwidth = 1, hyperlink_id = 0, grapheme_len = 0\<rparr>"

text \<open>\<open>String.fromCodePoint\<close> on a valid code point: one unit, or a surrogate pair.\<close>

definition utf16 :: "nat \<Rightarrow> jstr" where
  "utf16 n =
     (if n < 65536 then [word_of_nat n]
      else [word_of_nat (55296 + (n - 65536) div 1024), word_of_nat (56320 + (n - 65536) mod 1024)])"

definition getChars :: "cell \<Rightarrow> jstr" where
  "getChars c =
     (let a = codepoint c
      in if a = 0 then []
         else if a < 0 \<or> a > 1114111 \<or> (55296 \<le> a \<and> a \<le> 57343) then [65533]
         else utf16 (nat a))"

definition getCode :: "cell \<Rightarrow> int" where
  "getCode c = codepoint c"

definition getWidth :: "cell \<Rightarrow> nat" where
  "getWidth c = cwidth c"

definition getFgColor :: "cell \<Rightarrow> nat" where
  "getFgColor c = (push_bit 16 (fg_r c) OR push_bit 8 (fg_g c)) OR fg_b c"

definition getBgColor :: "cell \<Rightarrow> nat" where
  "getBgColor c = (push_bit 16 (bg_r c) OR push_bit 8 (bg_g c)) OR bg_b c"

text \<open>The bits of \<open>flags\<close>.\<close>

datatype attr = BOLD | ITALIC | UNDERLINE | STRIKETHROUGH | INVERSE | INVISIBLE | BLINK | FAINT

fun attr_bit :: "attr \<Rightarrow> nat" where
  "attr_bit BOLD = 1"
| "attr_bit ITALIC = 2"
| "attr_bit UNDERLINE = 4"
| "attr_bit STRIKETHROUGH = 8"
| "attr_bit INVERSE = 16"
| "attr_bit INVISIBLE = 32"
| "attr_bit BLINK = 64"
| "attr_bit FAINT = 128"

definition has_attr :: "attr \<Rightarrow> cell \<Rightarrow> bool" where
  "has_attr a c = (flags c AND attr_bit a \<noteq> 0)"

definition isDim :: "cell \<Rightarrow> bool" where
  "isDim c = has_attr FAINT c"

section \<open>Lines\<close>

record bline =
  cells :: "cell list"
  isWrapped :: bool
  llength :: nat

definition getCell :: "bline \<Rightarrow> int \<Rightarrow> cell option" where
  "getCell l a =
     (if a < 0 \<or> a \<ge> int (llength l) then None
      else if a \<ge> int (length (cells l)) then Some null_cell
      else Some (cells l ! nat a))"

text \<open>The white space and line terminators \<open>trimEnd\<close> removes.\<close>

definition js_space16 :: "16 word \<Rightarrow> bool" where
  "js_space16 u = (u \<in> {9, 10, 11, 12, 13, 32, 160, 5760, 8192, 8193, 8194, 8195, 8196, 8197, 8198,
     8199, 8200, 8201, 8202, 8232, 8233, 8239, 8287, 12288, 65279})"

definition trim_end :: "jstr \<Rightarrow> jstr" where
  "trim_end s = rev (dropWhile js_space16 (rev s))"

definition cell_chars :: "bline \<Rightarrow> nat \<Rightarrow> jstr" where
  "cell_chars l i = (case getCell l (int i) of Some c \<Rightarrow> getChars c | None \<Rightarrow> [])"

definition translateToString :: "bool \<Rightarrow> int \<Rightarrow> int \<Rightarrow> bline \<Rightarrow> jstr" where
  "translateToString trimRight a b l =
     (let q = max 0 (min a (int (llength l)));
          c = max q (min b (int (llength l)));
          e = concat (map (cell_chars l) [nat q..<nat c])
      in if trimRight then trim_end e else e)"

section \<open>Buffers\<close>

record grid =
  g_cols :: nat
  g_rows :: nat
  g_scrollback :: nat
  g_alternate :: bool
  g_cursor :: "nat \<times> nat"
  g_history :: "nat \<Rightarrow> cell list option"
  g_screen :: "nat \<Rightarrow> cell list option"
  g_wrapped :: "nat \<Rightarrow> bool"
  g_history_uri :: "nat \<Rightarrow> nat \<Rightarrow> jstr option"
  g_screen_uri :: "nat \<Rightarrow> nat \<Rightarrow> jstr option"

datatype buffer_type = Normal | Alternate

text \<open>\<^term>\<open>None\<close> is a terminal whose core is gone.\<close>

definition active_buffer :: "grid option \<Rightarrow> buffer_type" where
  "active_buffer g = (case g of Some w \<Rightarrow> if g_alternate w then Alternate else Normal | None \<Rightarrow> Normal)"

definition buffer_length :: "buffer_type \<Rightarrow> grid option \<Rightarrow> nat" where
  "buffer_length t g =
     (case g of
        None \<Rightarrow> 0
      | Some w \<Rightarrow> if t = Alternate then g_rows w else g_scrollback w + g_rows w)"

definition cursorX :: "grid option \<Rightarrow> nat" where
  "cursorX g = (case g of Some w \<Rightarrow> fst (g_cursor w) | None \<Rightarrow> 0)"

definition cursorY :: "grid option \<Rightarrow> nat" where
  "cursorY g = (case g of Some w \<Rightarrow> snd (g_cursor w) | None \<Rightarrow> 0)"

definition getLine :: "buffer_type \<Rightarrow> int \<Rightarrow> grid option \<Rightarrow> bline option" where
  "getLine t a g =
     (case g of
        None \<Rightarrow> None
      | Some w \<Rightarrow>
          if a < 0 \<or> a \<ge> int (buffer_length t g) then None
          else
            let i = g_scrollback w; n = nat a
            in if t = Normal \<and> n < i
               then map_option (\<lambda>q. \<lparr>cells = q, isWrapped = False, llength = g_cols w\<rparr>) (g_history w n)
               else
                 let c = (if t = Normal then n - i else n)
                 in map_option (\<lambda>q. \<lparr>cells = q, isWrapped = g_wrapped w c, llength = g_cols w\<rparr>) (g_screen w c))"

section \<open>The text of a line is well-formed UTF-16\<close>

text \<open>Decoding code units; a lone surrogate is an error.\<close>

definition high_surrogate :: "16 word \<Rightarrow> bool" where
  "high_surrogate u = (55296 \<le> unat u \<and> unat u \<le> 56319)"

definition low_surrogate :: "16 word \<Rightarrow> bool" where
  "low_surrogate u = (56320 \<le> unat u \<and> unat u \<le> 57343)"

fun decode16 :: "jstr \<Rightarrow> nat list option" where
  "decode16 [] = Some []"
| "decode16 (u # s) =
     (if high_surrogate u then
        (case s of
           v # s' \<Rightarrow> if low_surrogate v
             then map_option (Cons (65536 + (unat u - 55296) * 1024 + (unat v - 56320))) (decode16 s')
             else None
         | [] \<Rightarrow> None)
      else if low_surrogate u then None
      else map_option (Cons (unat u)) (decode16 s))"

text \<open>The code point a cell shows.\<close>

definition shown :: "cell \<Rightarrow> nat list" where
  "shown c =
     (let a = codepoint c
      in if a = 0 then []
         else if a < 0 \<or> a > 1114111 \<or> (55296 \<le> a \<and> a \<le> 57343) then [65533] else [nat a])"

lemma unat_small: "n < 65536 \<Longrightarrow> unat (word_of_nat n :: 16 word) = n"
  by (simp add: unat_of_nat)

lemma decode16_utf16:
  assumes "n \<le> 1114111" "\<not> (55296 \<le> n \<and> n \<le> 57343)"
  shows "decode16 (utf16 n @ s) = map_option (Cons n) (decode16 s)"
proof (cases "n < 65536")
  case True
  then show ?thesis
    using assms(2) unat_small [OF True] by (auto simp: utf16_def high_surrogate_def low_surrogate_def)
next
  case False
  let ?m = "n - 65536"
  have m: "?m div 1024 \<le> 1023" "?m mod 1024 \<le> 1023"
  proof -
    have "?m < 1024 * 1024" using assms(1) False by simp
    then have "?m div 1024 < 1024" by (simp add: less_mult_imp_div_less)
    then show "?m div 1024 \<le> 1023" by simp
    have "?m mod 1024 < 1024" by simp
    then show "?m mod 1024 \<le> 1023" by linarith
  qed
  then have u: "unat (word_of_nat (55296 + ?m div 1024) :: 16 word) = 55296 + ?m div 1024"
    "unat (word_of_nat (56320 + ?m mod 1024) :: 16 word) = 56320 + ?m mod 1024"
    using unat_small [of "55296 + ?m div 1024"] unat_small [of "56320 + ?m mod 1024"] by linarith+
  have "65536 + ?m div 1024 * 1024 + ?m mod 1024 = n"
    using False by (simp add: add.assoc)
  then show ?thesis
    using False m u by (simp add: utf16_def high_surrogate_def low_surrogate_def)
qed

lemma append_single: "(@) [x] = Cons x"
  by (rule ext) simp

lemma map_append_Nil [simp]: "map_option ((@) []) x = x"
  by (cases x) simp_all

lemma decode16_cell: "decode16 (getChars c @ s) = map_option ((@) (shown c)) (decode16 s)"
proof -
  have r: "decode16 (65533 # s) = map_option (Cons 65533) (decode16 s)"
    by (simp add: high_surrogate_def low_surrogate_def)
  let ?a = "codepoint c"
  consider "?a = 0" | "?a \<noteq> 0" "?a < 0 \<or> ?a > 1114111 \<or> (55296 \<le> ?a \<and> ?a \<le> 57343)"
    | "?a \<noteq> 0" "\<not> (?a < 0 \<or> ?a > 1114111 \<or> (55296 \<le> ?a \<and> ?a \<le> 57343))" by blast
  then show ?thesis
  proof cases
    case 1
    then show ?thesis by (simp add: getChars_def shown_def)
  next
    case 2
    then have "getChars c = [65533]" "shown c = [65533]" by (simp_all add: getChars_def shown_def Let_def)
    with r show ?thesis by (simp only: append_single append.simps)
  next
    case 3
    then have "nat ?a \<le> 1114111" "\<not> (55296 \<le> nat ?a \<and> nat ?a \<le> 57343)" by auto
    then have "decode16 (utf16 (nat ?a) @ s) = map_option (Cons (nat ?a)) (decode16 s)" by (rule decode16_utf16)
    moreover have "getChars c = utf16 (nat ?a)" "shown c = [nat ?a]"
      using 3 by (auto simp: getChars_def shown_def Let_def)
    ultimately show ?thesis by (simp only: append_single)
  qed
qed

definition line_shown :: "bline \<Rightarrow> nat \<Rightarrow> nat list" where
  "line_shown l i = (case getCell l (int i) of Some c \<Rightarrow> shown c | None \<Rightarrow> [])"

lemma decode16_cells:
  "decode16 (concat (map (cell_chars l) is) @ s) = map_option ((@) (concat (map (line_shown l) is))) (decode16 s)"
proof (induction "is")
  case Nil
  then show ?case by (cases "decode16 s") simp_all
next
  case (Cons i "is")
  then show ?case
    by (cases "getCell l (int i)"; cases "decode16 s")
      (simp_all add: cell_chars_def line_shown_def decode16_cell)
qed

text \<open>
  C28. Text of a line. \<open>translateToString\<close>, for any line and any bounds, even out of range,
  gives a well-formed UTF-16 string: it decodes, and to exactly the code points shown by the
  cells of the clamped range in order, empty cells contributing nothing and code points that
  are not Unicode scalar values the replacement character.
\<close>

theorem line_text_decodes:
  "decode16 (translateToString False a b l) =
     Some (concat (map (line_shown l)
       [nat (max 0 (min a (int (llength l))))..<nat (max (max 0 (min a (int (llength l)))) (min b (int (llength l))))]))"
  using decode16_cells [of l _ "[]"] by (simp add: translateToString_def Let_def)

section \<open>Addressing\<close>

text \<open>
  Lines of a buffer. The normal buffer shows the history first and the screen after it:
  line \<open>a\<close> is history line \<open>a\<close> below the scrollback length and screen row \<open>a\<close> minus that length
  from there on; the alternate buffer shows the screen only; outside its length a buffer has
  no line, and every line is as long as the grid is wide.
\<close>

theorem buffer_line_addressing:
  assumes "getLine t a (Some w) = Some l"
  shows "0 \<le> a \<and> a < int (buffer_length t (Some w)) \<and> llength l = g_cols w \<and>
    (if t = Normal \<and> a < int (g_scrollback w)
     then g_history w (nat a) = Some (cells l) \<and> \<not> isWrapped l
     else \<exists>r < g_rows w. (t = Normal \<longrightarrow> r + g_scrollback w = nat a) \<and> (t = Alternate \<longrightarrow> r = nat a) \<and>
            g_screen w r = Some (cells l) \<and> isWrapped l = g_wrapped w r)"
proof (cases "t = Normal \<and> a < int (g_scrollback w)")
  case True
  with assms show ?thesis
    by (auto simp: getLine_def Let_def split: if_splits)
next
  case False
  define r where "r = (if t = Normal then nat a - g_scrollback w else nat a)"
  have a: "0 \<le> a" "a < int (buffer_length t (Some w))"
    using assms by (auto simp: getLine_def split: if_splits)
  have "\<not> (t = Normal \<and> nat a < g_scrollback w)" using False a(1) by auto
  with assms a have "g_screen w r = Some (cells l)" "isWrapped l = g_wrapped w r" "llength l = g_cols w"
    by (auto simp: getLine_def Let_def r_def)
  moreover have "r < g_rows w" "t = Normal \<longrightarrow> r + g_scrollback w = nat a"
    using a False by (cases t; auto simp: r_def buffer_length_def)+
  moreover have "t = Alternate \<longrightarrow> r = nat a" by (simp add: r_def)
  ultimately show ?thesis using a False by auto
qed

definition demo_cell :: "int \<Rightarrow> nat \<Rightarrow> cell" where
  "demo_cell cp link = null_cell\<lparr>codepoint := cp, hyperlink_id := link\<rparr>"

definition demo_line :: "string \<Rightarrow> cell list" where
  "demo_line s = map (\<lambda>ch. demo_cell (int (of_char ch)) 0) s"

definition demo_grid :: grid where
  "demo_grid = \<lparr>g_cols = 10, g_rows = 2, g_scrollback = 1, g_alternate = False, g_cursor = (0, 0),
     g_history = \<lambda>n. Some (demo_line ''old''),
     g_screen = \<lambda>n. Some (if n = 0 then demo_line ''tel:12345,'' else [demo_cell 65 1, demo_cell 66 1]),
     g_wrapped = \<lambda>_. False, g_history_uri = \<lambda>_ _. None, g_screen_uri = \<lambda>_ c. if c < 2 then Some (js ''u'') else None\<rparr>"

theorem buffer_line_addressing_witness:
  "getLine Normal 2 (Some demo_grid) \<noteq> None \<and>
   (\<exists>r < g_rows demo_grid. r + g_scrollback demo_grid = 2 \<and> g_screen demo_grid r = Some [demo_cell 65 1, demo_cell 66 1])"
proof -
  have l: "getLine Normal 2 (Some demo_grid) =
      Some \<lparr>cells = [demo_cell 65 1, demo_cell 66 1], isWrapped = False, llength = 10\<rparr>"
    by code_simp
  have "g_scrollback demo_grid = 1" by (simp add: demo_grid_def)
  with buffer_line_addressing [OF l] l show ?thesis by auto
qed

section \<open>Colours and attributes\<close>

lemma getFgColor_sum:
  assumes "fg_r c \<le> 255" "fg_g c \<le> 255" "fg_b c \<le> 255"
  shows "getFgColor c = fg_r c * 65536 + fg_g c * 256 + fg_b c"
  using assms rgb_hex_sum [of "\<lparr>red = fg_r c, green = fg_g c, blue = fg_b c\<rparr>"]
  by (simp add: getFgColor_def rgb_hex_def rgb_ok_def)

lemma getBgColor_sum:
  assumes "bg_r c \<le> 255" "bg_g c \<le> 255" "bg_b c \<le> 255"
  shows "getBgColor c = bg_r c * 65536 + bg_g c * 256 + bg_b c"
  using assms rgb_hex_sum [of "\<lparr>red = bg_r c, green = bg_g c, blue = bg_b c\<rparr>"]
  by (simp add: getBgColor_def rgb_hex_def rgb_ok_def)

end
