(* ===== verification/Gw_Links.thy ===== *)
theory Gw_Links
  imports Gw_Buffer "HOL-Library.Sublist"
begin

text \<open>
  Links in the terminal (\<open>ghostty-web.js\<close>): the link detector with its cache, the provider of
  OSC 8 hyperlinks and the provider that recognises URLs in the text of a row. A provider that
  throws is the left summand of its answer. The awaits of the detector's methods only yield to
  other microtasks, and the methods are modelled as running from one end to the other.
\<close>

section \<open>Links\<close>

record link =
  l_text :: jstr
  l_start :: "int \<times> int"
  l_end :: "int \<times> int"

text \<open>A range as the code writes it, with the column first.\<close>

definition mk_link :: "jstr \<Rightarrow> int \<Rightarrow> int \<Rightarrow> int \<Rightarrow> link" where
  "mk_link t a b y = \<lparr>l_text = t, l_start = (a, y), l_end = (b, y)\<rparr>"

type_synonym provided = "js_error + link list option"

type_synonym provider = "grid option \<Rightarrow> int \<Rightarrow> provided"

text \<open>The address a click opens: only with the control or the command key.\<close>

definition activate :: "bool \<Rightarrow> bool \<Rightarrow> link \<Rightarrow> jstr option" where
  "activate ctrlKey metaKey l = (if ctrlKey \<or> metaKey then Some (l_text l) else None)"

definition isPositionInLink :: "int \<Rightarrow> int \<Rightarrow> link \<Rightarrow> bool" where
  "isPositionInLink A g I =
     (case (l_start I, l_end I) of ((qx, qy), (cx, cy)) \<Rightarrow>
        if g < qy \<or> g > cy then False
        else if qy = cy then A \<ge> qx \<and> A \<le> cx
        else if g = qy then A \<ge> qx
        else if g = cy then A \<le> cx
        else True)"

section \<open>The detector\<close>

text \<open>The cache is keyed by the row of the start and the columns of both ends.\<close>

type_synonym cache_key = "int \<times> int \<times> int"

record detector =
  providers :: "provider list"
  linkCache :: "(cache_key \<times> link) list"
  scannedRows :: "int list"

definition detector_new :: detector where
  "detector_new = \<lparr>providers = [], linkCache = [], scannedRows = []\<rparr>"

definition invalidateCache :: "detector \<Rightarrow> detector" where
  "invalidateCache d = d\<lparr>linkCache := [], scannedRows := []\<rparr>"

definition registerProvider :: "provider \<Rightarrow> detector \<Rightarrow> detector" where
  "registerProvider p d = invalidateCache (d\<lparr>providers := providers d @ [p]\<rparr>)"

definition link_key :: "link \<Rightarrow> cache_key" where
  "link_key l = (snd (l_start l), fst (l_start l), fst (l_end l))"

definition cacheLink :: "link \<Rightarrow> detector \<Rightarrow> detector" where
  "cacheLink l d =
     (if link_key l \<in> fst ` set (linkCache d) then d
      else d\<lparr>linkCache := linkCache d @ [(link_key l, l)]\<rparr>)"

text \<open>The answers of the providers in order; the first that throws ends the scan.\<close>

fun gather :: "provider list \<Rightarrow> grid option \<Rightarrow> int \<Rightarrow> js_error + link list" where
  "gather [] g r = Inr []"
| "gather (p # ps) g r =
     (case p g r of
        Inl e \<Rightarrow> Inl e
      | Inr q \<Rightarrow>
          (case gather ps g r of
             Inl e \<Rightarrow> Inl e
           | Inr ls \<Rightarrow> Inr ((case q of Some ls' \<Rightarrow> ls' | None \<Rightarrow> []) @ ls)))"

definition scanRow :: "grid option \<Rightarrow> int \<Rightarrow> detector \<Rightarrow> js_error option \<times> detector" where
  "scanRow g A d =
     (let d1 = d\<lparr>scannedRows := (if A \<in> set (scannedRows d) then scannedRows d else scannedRows d @ [A])\<rparr>
      in case gather (providers d) g A of
           Inl e \<Rightarrow> (Some e, d1)
         | Inr ls \<Rightarrow> (None, fold cacheLink ls d1))"

definition cached_at :: "int \<Rightarrow> int \<Rightarrow> detector \<Rightarrow> link option" where
  "cached_at A g d = find (isPositionInLink A g) (map snd (linkCache d))"

definition active_line :: "grid option \<Rightarrow> int \<Rightarrow> bline option" where
  "active_line g a = getLine (active_buffer g) a g"

definition getLinkAt :: "grid option \<Rightarrow> int \<Rightarrow> int \<Rightarrow> detector \<Rightarrow> (js_error + link option) \<times> detector" where
  "getLinkAt w A g d =
     (case active_line w g of
        None \<Rightarrow> (Inr None, d)
      | Some I \<Rightarrow>
          if A < 0 \<or> A \<ge> int (llength I) \<or> getCell I A = None then (Inr None, d)
          else
            (case cached_at A g d of
               Some C \<Rightarrow> (Inr (Some C), d)
             | None \<Rightarrow>
                 if g \<in> set (scannedRows d) then (Inr (cached_at A g d), d)
                 else
                   (case scanRow w g d of
                      (Some e, d') \<Rightarrow> (Inl e, d')
                    | (None, d') \<Rightarrow> (Inr (cached_at A g d'), d'))))"

definition invalidateRows :: "int \<Rightarrow> int \<Rightarrow> detector \<Rightarrow> detector" where
  "invalidateRows A g d =
     d\<lparr>scannedRows := filter (\<lambda>q. \<not> (A \<le> q \<and> q \<le> g)) (scannedRows d),
       linkCache := filter (\<lambda>(_, C). let e = snd (l_start C); i = snd (l_end C)
         in \<not> ((e \<ge> A \<and> e \<le> g) \<or> (i \<ge> A \<and> i \<le> g) \<or> (e < A \<and> i > g))) (linkCache d)\<rparr>"

text \<open>The providers of this file have nothing to dispose of.\<close>

definition detector_dispose :: "detector \<Rightarrow> detector" where
  "detector_dispose d = (invalidateCache d)\<lparr>providers := []\<rparr>"

section \<open>OSC 8 hyperlinks\<close>

definition getHyperlinkId :: "cell \<Rightarrow> nat" where
  "getHyperlinkId c = hyperlink_id c"

text \<open>The address the core gives for a cell; the rows before the scrollback length are history.\<close>

definition core_uri :: "grid \<Rightarrow> int \<Rightarrow> nat \<Rightarrow> jstr option" where
  "core_uri w A e =
     (let s = A - int (g_scrollback w)
      in if s < 0 then g_history_uri w (nat A) e else g_screen_uri w (nat s) e)"

text \<open>The address of a linked cell, when it is a non-empty string.\<close>

definition cell_uri :: "grid \<Rightarrow> int \<Rightarrow> bline \<Rightarrow> nat \<Rightarrow> jstr option" where
  "cell_uri w A l e =
     (case getCell l (int e) of
        None \<Rightarrow> None
      | Some i \<Rightarrow>
          if getHyperlinkId i = 0 then None
          else (case core_uri w A e of Some u \<Rightarrow> if u = [] then None else Some u | None \<Rightarrow> None))"

fun run_end :: "(nat \<Rightarrow> jstr option) \<Rightarrow> jstr \<Rightarrow> nat \<Rightarrow> nat list \<Rightarrow> nat" where
  "run_end uri w t [] = t"
| "run_end uri w t (a # as) = (if uri a = Some w then run_end uri w a as else t)"

fun osc8_scan :: "(nat \<Rightarrow> jstr option) \<Rightarrow> int \<Rightarrow> nat \<Rightarrow> nat list \<Rightarrow> nat set \<Rightarrow> link list" where
  "osc8_scan uri A len [] Q = []"
| "osc8_scan uri A len (e # es) Q =
     (if e \<in> Q then osc8_scan uri A len es Q
      else case uri e of
             None \<Rightarrow> osc8_scan uri A len es Q
           | Some w \<Rightarrow>
               (let t = run_end uri w e [Suc e..<len]
                in mk_link w (int e) (int t) A # osc8_scan uri A len es (Q \<union> {e..t})))"

definition nonempty :: "link list \<Rightarrow> link list option" where
  "nonempty ls = (if ls = [] then None else Some ls)"

definition osc8_provideLinks :: provider where
  "osc8_provideLinks g A =
     Inr (case (g, active_line g A) of
            (Some w, Some C) \<Rightarrow> nonempty (osc8_scan (cell_uri w A C) A (llength C) [0..<llength C] {})
          | _ \<Rightarrow> None)"

section \<open>The extent of a link over several rows\<close>

text \<open>\<open>findLinkRange\<close>: whether the cell at a column of a row has the given hyperlink id.\<close>

definition linked :: "grid option \<Rightarrow> nat \<Rightarrow> nat \<Rightarrow> nat \<Rightarrow> bool" where
  "linked g A y x =
     (case active_line g (int y) of
        None \<Rightarrow> False
      | Some l \<Rightarrow> (case getCell l (int x) of None \<Rightarrow> False | Some c \<Rightarrow> getHyperlinkId c = A))"

definition line_length :: "grid option \<Rightarrow> nat \<Rightarrow> nat" where
  "line_length g y = (case active_line g (int y) of None \<Rightarrow> 0 | Some l \<Rightarrow> llength l)"

text \<open>The first column of the run that ends before column \<open>e\<close>, and the last of the run after \<open>e\<close>.\<close>

fun back_col :: "(nat \<Rightarrow> bool) \<Rightarrow> nat \<Rightarrow> nat" where
  "back_col ok 0 = 0"
| "back_col ok (Suc e) = (if ok e then back_col ok e else Suc e)"

fun fwd_col :: "(nat \<Rightarrow> bool) \<Rightarrow> nat \<Rightarrow> nat list \<Rightarrow> nat" where
  "fwd_col ok o' [] = o'"
| "fwd_col ok o' (a # as) = (if ok a then fwd_col ok a as else o')"

text \<open>Both loops go on to the next row only when the run fills this one.\<close>

fun back_rows :: "grid option \<Rightarrow> nat \<Rightarrow> nat \<Rightarrow> nat \<times> nat \<Rightarrow> nat \<times> nat" where
  "back_rows g A 0 ce = ce"
| "back_rows g A (Suc s) ce =
     (let n = line_length g s
      in if n = 0 \<or> \<not> linked g A s (n - 1) then ce
         else let e = back_col (linked g A s) n
              in if e = 0 then back_rows g A s (s, 0) else (s, e))"

fun fwd_rows :: "grid option \<Rightarrow> nat \<Rightarrow> nat list \<Rightarrow> nat \<times> nat \<Rightarrow> nat \<times> nat" where
  "fwd_rows g A [] io = io"
| "fwd_rows g A (s # ss) io =
     (let n = line_length g s
      in if n = 0 \<or> \<not> linked g A s 0 then io
         else let o' = fwd_col (linked g A s) 0 [1..<n]
              in if o' = n - 1 then fwd_rows g A ss (s, o') else (s, o'))"

definition findLinkRange :: "grid option \<Rightarrow> nat \<Rightarrow> nat \<Rightarrow> nat \<Rightarrow> (nat \<times> nat) \<times> (nat \<times> nat)" where
  "findLinkRange w A g I =
     (let e = back_col (linked w A g) I;
          (cy, cx) = (if e = 0 then back_rows w A g (g, e) else (g, e));
          n = line_length w g;
          o' = fwd_col (linked w A g) I [Suc I..<n];
          (iy, ix) = (if active_line w (int g) \<noteq> None \<and> int o' = int n - 1
                      then fwd_rows w A [Suc g..<buffer_length (active_buffer w) w] (g, o') else (g, o'))
      in ((cx, cy), (ix, iy)))"

lemma back_col_le: "back_col ok e \<le> e"
  by (induction e) auto

lemma fwd_col_ge: "sorted (o' # as) \<Longrightarrow> o' \<le> fwd_col ok o' as"
  by (induction as arbitrary: o') (auto intro: order_trans)

lemma back_rows_row: "back_rows g A s ce = ce \<or> fst (back_rows g A s ce) < s"
proof (induction s arbitrary: ce)
  case (Suc s)
  have "fst (back_rows g A s (s, 0)) \<le> s" using Suc.IH [of "(s, 0)"] by auto
  then show ?case by (simp add: Let_def)
qed simp

lemma fwd_rows_row: "fwd_rows g A ss io = io \<or> fst (fwd_rows g A ss io) \<in> set ss"
proof (induction ss arbitrary: io)
  case (Cons s ss)
  have "fst (fwd_rows g A ss (s, x)) \<in> insert s (set ss)" for x using Cons.IH [of "(s, x)"] by auto
  then show ?case by (simp add: Let_def)
qed simp

text \<open>The range found contains the cell it was looked for from.\<close>

lemma findLinkRange_contains:
  assumes "findLinkRange w A g I = ((cx, cy), (ix, iy))"
  shows "(cy < g \<or> (cy = g \<and> cx \<le> I)) \<and> (g < iy \<or> (iy = g \<and> I \<le> ix))"
proof -
  let ?e = "back_col (linked w A g) I" and ?n = "line_length w g"
  let ?o = "fwd_col (linked w A g) I [Suc I..<?n]" and ?ss = "[Suc g..<buffer_length (active_buffer w) w]"
  define b where "b = (if ?e = 0 then back_rows w A g (g, ?e) else (g, ?e))"
  define f where "f = (if active_line w (int g) \<noteq> None \<and> int ?o = int ?n - 1 then fwd_rows w A ?ss (g, ?o) else (g, ?o))"
  have r: "(cy, cx) = b" "(iy, ix) = f"
    using assms unfolding findLinkRange_def Let_def b_def [symmetric] f_def [symmetric]
    by (simp_all split: prod.splits)
  have "b = (g, ?e) \<or> fst b < g" using back_rows_row [of w A g "(g, ?e)"] unfolding b_def by presburger
  moreover have "f = (g, ?o) \<or> g < fst f" using fwd_rows_row [of w A ?ss "(g, ?o)"] by (auto simp: f_def)
  moreover have "?e \<le> I" by (rule back_col_le)
  moreover have "I \<le> ?o" by (rule fwd_col_ge) auto
  ultimately show ?thesis unfolding r [symmetric] by auto
qed

section \<open>URLs in the text\<close>

text \<open>\<open>lineToText\<close>; \<^term>\<open>None\<close> is the \<open>RangeError\<close> of \<open>String.fromCodePoint\<close>.\<close>

definition column_text :: "bline \<Rightarrow> nat \<Rightarrow> jstr option" where
  "column_text l i =
     (case getCell l (int i) of
        None \<Rightarrow> Some [32]
      | Some c \<Rightarrow>
          if getCode c < 32 then Some [32]
          else if getCode c > 1114111 then None
          else Some (utf16 (nat (getCode c))))"

fun join_all :: "jstr option list \<Rightarrow> jstr option" where
  "join_all [] = Some []"
| "join_all (x # xs) =
     (case x of None \<Rightarrow> None | Some s \<Rightarrow> map_option ((@) s) (join_all xs))"

definition lineToText :: "bline \<Rightarrow> jstr option" where
  "lineToText l = join_all (map (column_text l) [0..<llength l])"

definition schemes :: "jstr list" where
  "schemes = map js [''https://'', ''http://'', ''mailto:'', ''ftp://'', ''ssh://'', ''git://'',
     ''tel:'', ''magnet:'', ''gemini://'', ''gopher://'', ''news:'']"

text \<open>The pattern ignores case: no character outside ASCII folds into ASCII there.\<close>

definition fold_case :: "16 word \<Rightarrow> 16 word" where
  "fold_case u = (if 65 \<le> u \<and> u \<le> 90 then u + 32 else u)"

definition has_scheme :: "jstr \<Rightarrow> jstr \<Rightarrow> bool" where
  "has_scheme p s = (map fold_case (take (length p) s) = p)"

lemma has_scheme_prefix: "has_scheme p s = prefix p (map fold_case s)"
  unfolding has_scheme_def by (metis append_eq_conv_conj prefix_def take_map)

definition url_char :: "16 word \<Rightarrow> bool" where
  "url_char u =
     ((48 \<le> u \<and> u \<le> 57) \<or> (65 \<le> u \<and> u \<le> 90) \<or> (97 \<le> u \<and> u \<le> 122) \<or>
      u \<in> set (js ''_-.~:/?#@!$&*+,;=%''))"

text \<open>The match of \<open>URL_REGEX\<close> at the head of a string: a scheme and at least one more character.\<close>

definition match_with :: "jstr \<Rightarrow> jstr \<Rightarrow> jstr option" where
  "match_with s p =
     (if has_scheme p s
      then (let b = takeWhile url_char (drop (length p) s)
            in if b = [] then None else Some (take (length p) s @ b))
      else None)"

fun first_match :: "jstr \<Rightarrow> jstr list \<Rightarrow> jstr option" where
  "first_match s [] = None"
| "first_match s (p # ps) = (case match_with s p of Some m \<Rightarrow> Some m | None \<Rightarrow> first_match s ps)"

definition url_match :: "jstr \<Rightarrow> jstr option" where
  "url_match s = first_match s schemes"

lemma match_with_Some:
  assumes "match_with s p = Some m"
  shows "prefix m s" "length p < length m" "has_scheme p s" "has_scheme p m"
    "list_all url_char (drop (length p) m)"
proof -
  let ?b = "takeWhile url_char (drop (length p) s)"
  from assms have m: "m = take (length p) s @ ?b" and h: "has_scheme p s" and b: "?b \<noteq> []"
    by (auto simp: match_with_def Let_def split: if_splits)
  from h have le: "length p \<le> length s"
    using prefix_length_le by (fastforce simp: has_scheme_prefix)
  have "s = take (length p) s @ ?b @ dropWhile url_char (drop (length p) s)" by simp
  then show "prefix m s" unfolding m by (metis append.assoc prefixI)
  show "length p < length m" using b le by (simp add: m)
  show "has_scheme p s" by (rule h)
  have "take (length p) (map fold_case m) = take (length p) (map fold_case s)"
    using le by (simp add: m take_map)
  with h show "has_scheme p m" by (metis has_scheme_prefix take_is_prefix append_eq_conv_conj prefix_def)
  show "list_all url_char (drop (length p) m)"
    using le by (simp add: m list_all_iff) (meson set_takeWhileD)
qed

lemma first_match_Some:
  "first_match s ps = Some m \<Longrightarrow> \<exists>p \<in> set ps. match_with s p = Some m"
  by (induction ps) (auto split: option.splits)

lemma first_match_None:
  "first_match s ps = None \<longleftrightarrow> (\<forall>p \<in> set ps. match_with s p = None)"
  by (induction ps) (auto split: option.splits)

lemma url_match_Some:
  assumes "url_match s = Some m"
  obtains p where "p \<in> set schemes" "prefix m s" "length p < length m" "has_scheme p m"
    "list_all url_char (drop (length p) m)"
  using first_match_Some [of s schemes m] match_with_Some assms by (metis url_match_def)

text \<open>The successive results of \<open>exec\<close>: each search goes on after the previous match.\<close>

function url_matches :: "nat \<Rightarrow> jstr \<Rightarrow> (nat \<times> jstr) list" where
  "url_matches k [] = []"
| "url_matches k (u # s) =
     (case url_match (u # s) of
        Some m \<Rightarrow> (k, m) # url_matches (k + length m) (drop (length m) (u # s))
      | None \<Rightarrow> url_matches (Suc k) s)"
  by pat_completeness auto
termination
proof (relation "measure (\<lambda>(k, s). length s)")
  fix k and u :: "16 word" and s m
  assume "url_match (u # s) = Some m"
  then obtain p :: jstr where "length p < length m" by (meson url_match_Some)
  then show "((k + length m, drop (length m) (u # s)), k, u # s) \<in> measure (\<lambda>(k, s). length s)"
    by (cases m) auto
qed auto

definition trailing_punctuation :: "16 word \<Rightarrow> bool" where
  "trailing_punctuation u = (u \<in> set (js ''.,;!?)]''))"

definition strip_trailing :: "jstr \<Rightarrow> jstr" where
  "strip_trailing s = rev (dropWhile trailing_punctuation (rev s))"

definition url_link :: "int \<Rightarrow> nat \<times> jstr \<Rightarrow> link option" where
  "url_link A m =
     (let o' = fst m; i = strip_trailing (snd m)
      in if length i > 8 then Some (mk_link i (int o') (int (o' + length i) - 1) A) else None)"

definition url_provideLinks :: provider where
  "url_provideLinks g A =
     (case active_line g A of
        None \<Rightarrow> Inr None
      | Some Q \<Rightarrow>
          (case lineToText Q of
             None \<Rightarrow> Inl Range_Error
           | Some C \<Rightarrow> Inr (nonempty (List.map_filter (url_link A) (url_matches 0 C)))))"

end
