(* ===== verification/Gw_Links_Props.thy ===== *)
theory Gw_Links_Props
  imports Gw_Links
begin

text \<open>
  Correctness of link detection: the contract of a provider and of a detector over providers
  as locales, the two providers and the terminal's detector as their instances, and the
  properties of the cache and of both providers.
\<close>

section \<open>OSC 8 runs\<close>

lemma run_end_spec:
  "run_end uri w t [Suc t..<len] = e \<Longrightarrow>
   t \<le> e \<and> (t < len \<longrightarrow> e < len) \<and> (\<forall>c. t < c \<and> c \<le> e \<longrightarrow> uri c = Some w) \<and>
   (Suc e < len \<longrightarrow> uri (Suc e) \<noteq> Some w)"
proof (induction "len - t" arbitrary: t)
  case 0
  then show ?case by auto
next
  case (Suc n)
  show ?case
  proof (cases "Suc t < len \<and> uri (Suc t) = Some w")
    case True
    then have "run_end uri w (Suc t) [Suc (Suc t)..<len] = e"
      using Suc.prems by (simp add: upt_rec)
    moreover have "n = len - Suc t" using Suc.hyps(2) by simp
    ultimately have ih: "Suc t \<le> e \<and> (Suc t < len \<longrightarrow> e < len) \<and>
        (\<forall>c. Suc t < c \<and> c \<le> e \<longrightarrow> uri c = Some w) \<and> (Suc e < len \<longrightarrow> uri (Suc e) \<noteq> Some w)"
      using Suc.hyps(1) by blast
    then have "uri c = Some w" if "t < c" "c \<le> e" for c
      using that True by (cases "c = Suc t") auto
    with ih True show ?thesis by auto
  next
    case False
    then have "e = t" using Suc.prems by (auto simp: upt_rec split: if_splits)
    with False show ?thesis by auto
  qed
qed

text \<open>One link ends before the next begins, and adjacent links have different addresses.\<close>

definition before :: "link \<Rightarrow> link \<Rightarrow> bool" where
  "before l m = (fst (l_end l) < fst (l_start m) \<and>
     (fst (l_end l) + 1 = fst (l_start m) \<longrightarrow> l_text l \<noteq> l_text m))"

definition covers :: "link \<Rightarrow> nat \<Rightarrow> bool" where
  "covers l c = (fst (l_start l) \<le> int c \<and> int c \<le> fst (l_end l))"

lemma mk_link_sel [simp]:
  "l_text (mk_link t a b y) = t" "l_start (mk_link t a b y) = (a, y)" "l_end (mk_link t a b y) = (b, y)"
  by (simp_all add: mk_link_def)

text \<open>
  What scanning from column \<open>k\<close> finds when the columns below \<open>q\<close> are already covered.
\<close>

definition scan_spec :: "(nat \<Rightarrow> jstr option) \<Rightarrow> int \<Rightarrow> nat \<Rightarrow> nat \<Rightarrow> nat \<Rightarrow> link list \<Rightarrow> bool" where
  "scan_spec uri A len k q ls =
     (sorted_wrt before ls \<and>
      (\<forall>l \<in> set ls. snd (l_start l) = A \<and> snd (l_end l) = A \<and> int (max k q) \<le> fst (l_start l) \<and>
         fst (l_start l) \<le> fst (l_end l) \<and> fst (l_end l) < int len) \<and>
      (\<forall>c w. k \<le> c \<and> c < len \<longrightarrow>
         (\<exists>l \<in> set ls. l_text l = w \<and> covers l c) = (q \<le> c \<and> uri c = Some w)))"

lemma scan_spec_skip:
  assumes "scan_spec uri A len (Suc k) q ls" "k < q \<or> uri k = None"
  shows "scan_spec uri A len k q ls"
proof -
  have s: "sorted_wrt before ls" and r: "\<And>l. l \<in> set ls \<Longrightarrow> snd (l_start l) = A \<and> snd (l_end l) = A \<and>
      int (max (Suc k) q) \<le> fst (l_start l) \<and> fst (l_start l) \<le> fst (l_end l) \<and> fst (l_end l) < int len"
    and e: "\<And>c w. Suc k \<le> c \<and> c < len \<Longrightarrow> (\<exists>l \<in> set ls. l_text l = w \<and> covers l c) = (q \<le> c \<and> uri c = Some w)"
    using assms(1) by (auto simp: scan_spec_def)
  have "(\<exists>l \<in> set ls. l_text l = w \<and> covers l c) = (q \<le> c \<and> uri c = Some w)" if "k \<le> c" "c < len" for c w
  proof (cases "c = k")
    case True
    have "\<not> covers l c" if "l \<in> set ls" for l
      using r [OF that] True by (auto simp: covers_def)
    then show ?thesis using assms(2) True by auto
  next
    case False
    with that e show ?thesis by simp
  qed
  moreover have "int (max k q) \<le> int (max (Suc k) q)" by simp
  ultimately show ?thesis using s r unfolding scan_spec_def by (meson order_trans)
qed

lemma scan_spec_link:
  assumes ih: "scan_spec uri A len (Suc k) (Suc t) ls" and k: "q \<le> k" "k < len" "uri k = Some w"
    and t: "k \<le> t" "t < len" "\<forall>c. k < c \<and> c \<le> t \<longrightarrow> uri c = Some w" "Suc t < len \<longrightarrow> uri (Suc t) \<noteq> Some w"
  shows "scan_spec uri A len k q (mk_link w (int k) (int t) A # ls)"
proof -
  let ?l = "mk_link w (int k) (int t) A"
  have s: "sorted_wrt before ls" and r: "\<And>l. l \<in> set ls \<Longrightarrow> snd (l_start l) = A \<and> snd (l_end l) = A \<and>
      int (Suc t) \<le> fst (l_start l) \<and> fst (l_start l) \<le> fst (l_end l) \<and> fst (l_end l) < int len"
    and e: "\<And>c w. Suc k \<le> c \<and> c < len \<Longrightarrow> (\<exists>l \<in> set ls. l_text l = w \<and> covers l c) = (Suc t \<le> c \<and> uri c = Some w)"
    using ih t(1) by (auto simp: scan_spec_def)
  have b: "before ?l m" if m: "m \<in> set ls" for m
  proof -
    have "l_text m \<noteq> w" if "int t + 1 = fst (l_start m)"
    proof
      assume "l_text m = w"
      moreover have "covers m (Suc t)" "Suc t < len" using r [OF m] that by (auto simp: covers_def)
      ultimately have "uri (Suc t) = Some w" using e [of "Suc t" w] m t(1) by auto
      with t(4) \<open>Suc t < len\<close> show False by simp
    qed
    with r [OF m] show ?thesis by (auto simp: before_def)
  qed
  have "(\<exists>l \<in> set (?l # ls). l_text l = v \<and> covers l c) = (q \<le> c \<and> uri c = Some v)" if c: "k \<le> c" "c < len" for c v
  proof (cases "c \<le> t")
    case True
    then have "uri c = Some w" using t(3) k(3) c(1) by (cases "c = k") auto
    moreover have "covers ?l c" using True c by (simp add: covers_def)
    moreover have "\<not> covers l c" if "l \<in> set ls" for l using r [OF that] True by (auto simp: covers_def)
    ultimately show ?thesis using k(1) c by auto
  next
    case False
    then have "\<not> covers ?l c" by (simp add: covers_def)
    then show ?thesis using e [of c v] False c k(1) t(1) by auto
  qed
  moreover have "int (max k q) \<le> fst (l_start m)" if "m \<in> set ls" for m
    using r [OF that] k(1) t(1) by auto
  ultimately show ?thesis
    using s b r k(1) t unfolding scan_spec_def by auto
qed

lemma osc8_scan_spec:
  assumes "\<forall>c \<ge> k. (c \<in> Q) = (c < q)"
  shows "scan_spec uri A len k q (osc8_scan uri A len [k..<len] Q)"
  using assms
proof (induction "len - k" arbitrary: k q Q)
  case 0
  then show ?case by (auto simp: upt_conv_Nil scan_spec_def)
next
  case (Suc n)
  then have k: "k < len" and n: "n = len - Suc k" by simp_all
  have upt: "[k..<len] = k # [Suc k..<len]" using k by (rule upt_conv_Cons)
  have ih: "scan_spec uri A len (Suc k) q' (osc8_scan uri A len [Suc k..<len] Q')"
    if "\<forall>c \<ge> Suc k. (c \<in> Q') = (c < q')" for Q' q'
    using Suc.hyps(1) [OF n that] .
  have same: "\<forall>c \<ge> Suc k. (c \<in> Q) = (c < q)" using Suc.prems by simp
  consider "k < q \<or> uri k = None" | w where "\<not> k < q" "uri k = Some w" by auto
  then show ?case
  proof cases
    case 1
    then have "osc8_scan uri A len [k..<len] Q = osc8_scan uri A len [Suc k..<len] Q"
      using Suc.prems by (auto simp: upt)
    with scan_spec_skip [OF ih [OF same] 1] show ?thesis by simp
  next
    case (2 w)
    define t where "t = run_end uri w k [Suc k..<len]"
    note spec = run_end_spec [OF t_def [symmetric]]
    have "k \<notin> Q" using Suc.prems 2 by simp
    then have "osc8_scan uri A len [k..<len] Q =
        mk_link w (int k) (int t) A # osc8_scan uri A len [Suc k..<len] (Q \<union> {k..t})"
      using 2 by (simp add: upt Let_def t_def)
    moreover have "\<forall>c \<ge> Suc k. (c \<in> Q \<union> {k..t}) = (c < Suc t)" using Suc.prems 2 spec by auto
    ultimately show ?thesis using scan_spec_link [OF ih] 2 k spec by auto
  qed
qed

text \<open>
  C30. OSC 8 links. On a row with a line, the provider's links are exactly the maximal runs
  of cells the core gives one non-empty address: a link with text \<open>u\<close> covers a column exactly
  when the cell there is linked to \<open>u\<close>; the links lie on that row in order, do not overlap, and
  two adjacent ones have different addresses; and no link at all is reported as nothing.
\<close>

theorem osc8_links_exact:
  assumes "active_line (Some w) A = Some L"
  shows "\<exists>ls. osc8_provideLinks (Some w) A = Inr (if ls = [] then None else Some ls) \<and>
    sorted_wrt before ls \<and>
    (\<forall>l \<in> set ls. snd (l_start l) = A \<and> snd (l_end l) = A \<and> 0 \<le> fst (l_start l) \<and>
       fst (l_start l) \<le> fst (l_end l) \<and> fst (l_end l) < int (llength L)) \<and>
    (\<forall>c < llength L. \<forall>u. (\<exists>l \<in> set ls. l_text l = u \<and> covers l c) = (cell_uri w A L c = Some u))"
proof -
  let ?ls = "osc8_scan (cell_uri w A L) A (llength L) [0..<llength L] {}"
  have "scan_spec (cell_uri w A L) A (llength L) 0 0 ?ls" by (rule osc8_scan_spec) simp
  moreover have "osc8_provideLinks (Some w) A = Inr (if ?ls = [] then None else Some ?ls)"
    using assms by (simp add: osc8_provideLinks_def nonempty_def)
  ultimately show ?thesis unfolding scan_spec_def by (intro exI [of _ ?ls]) auto
qed

lemma demo_active: "active_line (Some demo_grid) 2 =
    Some \<lparr>cells = [demo_cell 65 1, demo_cell 66 1], isWrapped = False, llength = 10\<rparr>"
  by code_simp

theorem osc8_links_exact_witness:
  "osc8_provideLinks (Some demo_grid) 2 = Inr (Some [mk_link (js ''u'') 0 1 2]) \<and>
   (\<exists>ls. osc8_provideLinks (Some demo_grid) 2 = Inr (if ls = [] then None else Some ls) \<and> sorted_wrt before ls)"
proof
  show "osc8_provideLinks (Some demo_grid) 2 = Inr (Some [mk_link (js ''u'') 0 1 2])" by code_simp
  show "\<exists>ls. osc8_provideLinks (Some demo_grid) 2 = Inr (if ls = [] then None else Some ls) \<and> sorted_wrt before ls"
    using osc8_links_exact [OF demo_active] by blast
qed

section \<open>URL matches\<close>

lemma url_matches_bounds:
  "(p, m) \<in> set (url_matches k s) \<Longrightarrow>
   k \<le> p \<and> p + length m \<le> k + length s \<and> url_match (drop (p - k) s) = Some m"
proof (induction k s rule: url_matches.induct)
  case (1 k)
  then show ?case by simp
next
  case (2 k u s)
  show ?case
  proof (cases "url_match (u # s)")
    case None
    then have "Suc k \<le> p \<and> p + length m \<le> Suc k + length s \<and> url_match (drop (p - Suc k) s) = Some m"
      using 2(1) [OF None] 2(3) by simp
    moreover from this have "p - k = Suc (p - Suc k)" by linarith
    ultimately show ?thesis by simp
  next
    case (Some n)
    then obtain q where n: "prefix n (u # s)" by (meson url_match_Some)
    show ?thesis
    proof (cases "(p, m) = (k, n)")
      case True
      then show ?thesis using Some n prefix_length_le by fastforce
    next
      case False
      then have "(p, m) \<in> set (url_matches (k + length n) (drop (length n) (u # s)))"
        using 2(3) Some by auto
      then have "k + length n \<le> p" "p + length m \<le> k + length n + length (drop (length n) (u # s))"
        "url_match (drop (p - (k + length n)) (drop (length n) (u # s))) = Some m"
        using 2(2) [OF Some] by blast+
      moreover have "length n \<le> length (u # s)" using n by (rule prefix_length_le)
      ultimately show ?thesis by (auto simp del: drop.simps)
    qed
  qed
qed

lemma url_matches_sorted:
  "sorted_wrt (\<lambda>(p, m) (q, n). p + length m \<le> q) (url_matches k s)"
proof (induction k s rule: url_matches.induct)
  case (2 k u s)
  show ?case
  proof (cases "url_match (u # s)")
    case None
    then show ?thesis using 2 by simp
  next
    case (Some n)
    then show ?thesis
      using 2(2) [OF Some] url_matches_bounds [of _ _ "k + length n" "drop (length n) (u # s)"]
      by (auto split: prod.splits)
  qed
qed simp

text \<open>No URL is missed: wherever the pattern matches, a reported match covers the place.\<close>

lemma url_matches_complete:
  "i < length s \<Longrightarrow> url_match (drop i s) \<noteq> None \<Longrightarrow>
   \<exists>(p, m) \<in> set (url_matches k s). p \<le> k + i \<and> k + i < p + length m"
proof (induction k s arbitrary: i rule: url_matches.induct)
  case (2 k u s)
  show ?case
  proof (cases "url_match (u # s)")
    case None
    with 2(4) obtain j where j: "i = Suc j" by (cases i) auto
    with 2(1) [OF None, of j] 2(3,4) None show ?thesis by simp
  next
    case (Some n)
    show ?thesis
    proof (cases "i < length n")
      case True
      with Some show ?thesis by auto
    next
      case False
      then have "i - length n < length (drop (length n) (u # s))"
        "url_match (drop (i - length n) (drop (length n) (u # s))) \<noteq> None"
        using 2(3,4) by auto
      from 2(2) [OF Some this] obtain p m where "(p, m) \<in> set (url_matches (k + length n) (drop (length n) (u # s)))"
        "p \<le> k + length n + (i - length n)" "k + length n + (i - length n) < p + length m" by blast
      with False Some show ?thesis by (auto intro!: bexI [of _ "(p, m)"])
    qed
  qed
qed simp

lemma prefix_strip: "prefix (strip_trailing s) s"
  by (metis prefixI rev_append rev_rev_ident strip_trailing_def takeWhile_dropWhile_id)

lemma last_strip: "strip_trailing s \<noteq> [] \<Longrightarrow> \<not> trailing_punctuation (last (strip_trailing s))"
  by (metis hd_dropWhile last_rev rev.simps(1) rev_rev_ident strip_trailing_def)

lemma strip_keeps:
  assumes "i < length s" "\<not> trailing_punctuation (s ! i)"
  shows "i < length (strip_trailing s)"
proof (rule ccontr)
  assume "\<not> ?thesis"
  then have le: "length (strip_trailing s) \<le> i" by simp
  have s: "s = strip_trailing s @ rev (takeWhile trailing_punctuation (rev s))"
    by (metis rev_append rev_rev_ident strip_trailing_def takeWhile_dropWhile_id)
  then have "s ! i = rev (takeWhile trailing_punctuation (rev s)) ! (i - length (strip_trailing s))"
    using le by (metis nth_append not_less)
  moreover have "i - length (strip_trailing s) < length (rev (takeWhile trailing_punctuation (rev s)))"
    using s assms(1) le by (metis diff_less_mono length_append add_diff_cancel_left')
  ultimately have "s ! i \<in> set (takeWhile trailing_punctuation (rev s))"
    by (metis nth_mem set_rev)
  with assms(2) show False by (meson set_takeWhileD)
qed

lemma scheme_shape:
  assumes "p \<in> set schemes"
  shows "p \<noteq> []" "last p = 58 \<or> last p = 47" "list_all url_char p"
  using assms
proof -
  have "\<forall>p \<in> set schemes. p \<noteq> [] \<and> (last p = 58 \<or> last p = 47) \<and> list_all url_char p" by code_simp
  with assms show "p \<noteq> []" "last p = 58 \<or> last p = 47" "list_all url_char p" by auto
qed

lemma fold_case_cases: "fold_case u = u \<or> (65 \<le> u \<and> u \<le> 90 \<and> 97 \<le> fold_case u)"
proof (cases "65 \<le> u \<and> u \<le> 90")
  case True
  then have "97 \<le> u + 32" by (unat_arith, simp)
  with True show ?thesis by (simp add: fold_case_def)
qed (auto simp: fold_case_def)

lemma url_char_fold: "url_char (fold_case u) \<Longrightarrow> url_char u"
  using fold_case_cases [of u] by (auto simp: url_char_def)

lemma has_scheme_nth:
  assumes "has_scheme p m" "i < length p"
  shows "i < length m" "fold_case (m ! i) = p ! i"
proof -
  from assms(1) obtain r where r: "map fold_case m = p @ r" by (auto simp: has_scheme_prefix prefix_def)
  then have "length p \<le> length m" by (metis length_append length_map le_add1)
  with assms(2) show "i < length m" by simp
  with r assms(2) show "fold_case (m ! i) = p ! i" by (metis nth_append nth_map)
qed

lemma strip_keeps_scheme:
  assumes "p \<in> set schemes" "has_scheme p m"
  shows "length p \<le> length (strip_trailing m)" "has_scheme p (strip_trailing m)"
proof -
  let ?i = "length p - 1"
  have i: "?i < length p" using scheme_shape(1) [OF assms(1)] by simp
  have l: "?i < length m" "fold_case (m ! ?i) = last p"
    using has_scheme_nth [OF assms(2) i] scheme_shape(1) [OF assms(1)] by (simp_all add: last_conv_nth)
  then have "m ! ?i = 58 \<or> m ! ?i = 47"
    using scheme_shape(2) [OF assms(1)] fold_case_cases [of "m ! ?i"] by auto
  then have "\<not> trailing_punctuation (m ! ?i)" by (auto simp: trailing_punctuation_def js_def)
  from strip_keeps [OF l(1) this] i show le: "length p \<le> length (strip_trailing m)" by simp
  have "prefix (map fold_case (strip_trailing m)) (map fold_case m)"
    using prefix_strip by (rule map_mono_prefix)
  with assms(2) le show "has_scheme p (strip_trailing m)"
    unfolding has_scheme_prefix by (metis length_map prefix_length_prefix)
qed

lemma url_match_chars:
  assumes "url_match s = Some m"
  shows "list_all url_char m \<and> (\<exists>p \<in> set schemes. has_scheme p m) \<and> prefix m s"
proof -
  from assms obtain p where p: "p \<in> set schemes" "prefix m s" "length p < length m" "has_scheme p m"
    "list_all url_char (drop (length p) m)" by (rule url_match_Some)
  have "url_char (m ! i)" if "i < length m" for i
  proof (cases "i < length p")
    case True
    then have "url_char (fold_case (m ! i))"
      using has_scheme_nth [OF p(4)] scheme_shape(3) [OF p(1)] by (simp add: list_all_length)
    then show ?thesis by (rule url_char_fold)
  next
    case False
    then have "m ! i = drop (length p) m ! (i - length p)" "i - length p < length (drop (length p) m)"
      using that by auto
    with p(5) show ?thesis by (metis list_all_length)
  qed
  then have "list_all url_char m" by (simp add: list_all_length)
  with p show ?thesis by blast
qed

lemma set_map_filter: "set (List.map_filter f xs) = {y. \<exists>x \<in> set xs. f x = Some y}"
  by (induction xs) (auto simp: List.map_filter_simps split: option.splits)

lemma sorted_map_filter:
  assumes "sorted_wrt P xs" "\<And>x y u v. P x y \<Longrightarrow> f x = Some u \<Longrightarrow> f y = Some v \<Longrightarrow> Q u v"
  shows "sorted_wrt Q (List.map_filter f xs)"
  using assms(1)
proof (induction xs)
  case (Cons x xs)
  then show ?case
    using assms(2) by (auto simp: List.map_filter_simps set_map_filter split: option.splits)
qed (simp add: List.map_filter_simps)

text \<open>What a URL link on row \<open>A\<close> of a line with text \<open>C\<close> is.\<close>

definition url_link_ok :: "int \<Rightarrow> jstr \<Rightarrow> link \<Rightarrow> bool" where
  "url_link_ok A C l =
     (\<exists>a. l_start l = (int a, A) \<and> l_end l = (int a + int (length (l_text l)) - 1, A) \<and>
        a + length (l_text l) \<le> length C \<and> l_text l = take (length (l_text l)) (drop a C) \<and>
        8 < length (l_text l) \<and> list_all url_char (l_text l) \<and>
        \<not> trailing_punctuation (last (l_text l)) \<and> (\<exists>p \<in> set schemes. has_scheme p (l_text l)))"

lemma url_link_sound:
  assumes "(k, m) \<in> set (url_matches 0 C)" "url_link A (k, m) = Some l"
  shows "url_link_ok A C l"
proof -
  let ?i = "strip_trailing m"
  from assms(2) have l: "l = mk_link ?i (int k) (int (k + length ?i) - 1) A" and len: "8 < length ?i"
    by (auto simp: url_link_def Let_def split: if_splits)
  have b: "k + length m \<le> length C" "url_match (drop k C) = Some m"
    using url_matches_bounds [OF assms(1)] by simp_all
  note c = url_match_chars [OF b(2)]
  have pre: "prefix ?i m" by (rule prefix_strip)
  then have le: "length ?i \<le> length m" by (rule prefix_length_le)
  from pre c have "prefix ?i (drop k C)" by (meson prefix_order.trans)
  then have "?i = take (length ?i) (drop k C)" by (metis append_eq_conv_conj prefix_def)
  moreover have "list_all url_char ?i" using pre c by (metis list_all_append prefix_def)
  moreover have "?i \<noteq> []" using len by auto
  ultimately show ?thesis
    unfolding url_link_ok_def using l len b(1) le last_strip c strip_keeps_scheme(2)
    by (intro exI [of _ k]) auto
qed

text \<open>The unit a cell of the basic plane contributes to the text of its line.\<close>

definition cell_unit :: "cell \<Rightarrow> 16 word" where
  "cell_unit c = (if getCode c < 32 then 32 else word_of_nat (nat (getCode c)))"

lemma join_all_single:
  "(\<And>x. x \<in> set xs \<Longrightarrow> f x = Some [g x]) \<Longrightarrow> join_all (map f xs) = Some (map g xs)"
  by (induction xs) auto

lemma bmp_columns:
  assumes "\<And>c. c \<in> set (cells L) \<Longrightarrow> getCode c < 65536"
  shows "lineToText L = Some (map (\<lambda>i. cell_unit (the (getCell L (int i)))) [0..<llength L])"
  unfolding lineToText_def
proof (rule join_all_single)
  fix i
  assume i: "i \<in> set [0..<llength L]"
  then obtain c where c: "getCell L (int i) = Some c" by (cases "getCell L (int i)") (auto simp: getCell_def split: if_splits)
  moreover have "getCode c < 65536"
    using assms c i by (auto simp: getCell_def getCode_def null_cell_def split: if_splits)
  ultimately show "column_text L i = Some [cell_unit (the (getCell L (int i)))]"
    by (auto simp: column_text_def cell_unit_def utf16_def)
qed

text \<open>
  C31. URL links. On a row whose text can be read, the links are, in order and disjoint,
  stretches of the text that start with one of the known schemes in any case, consist of URL
  characters, are longer than eight units and do not end in punctuation; wherever the URL
  pattern matches, one of the matches the links are made of covers the place; and when the
  cells of the line are in the basic plane, the columns of a link are the columns of the cells
  that show it.
\<close>

theorem url_links_sound:
  assumes "active_line g A = Some L" "lineToText L = Some C"
  shows "\<exists>ls. url_provideLinks g A = Inr (if ls = [] then None else Some ls) \<and>
    (\<forall>l \<in> set ls. url_link_ok A C l) \<and>
    sorted_wrt (\<lambda>l m. fst (l_end l) < fst (l_start m)) ls \<and>
    (\<forall>i < length C. url_match (drop i C) \<noteq> None \<longrightarrow>
       (\<exists>(k, m) \<in> set (url_matches 0 C). k \<le> i \<and> i < k + length m \<and>
          (8 < length (strip_trailing m) \<longrightarrow>
             mk_link (strip_trailing m) (int k) (int (k + length (strip_trailing m)) - 1) A \<in> set ls))) \<and>
    ((\<forall>c \<in> set (cells L). getCode c < 65536) \<longrightarrow>
       length C = llength L \<and> (\<forall>i < length C. \<exists>c. getCell L (int i) = Some c \<and> C ! i = cell_unit c))"
proof -
  let ?ls = "List.map_filter (url_link A) (url_matches 0 C)"
  have "url_provideLinks g A = Inr (if ?ls = [] then None else Some ?ls)"
    using assms by (simp add: url_provideLinks_def nonempty_def)
  moreover have "\<forall>l \<in> set ?ls. url_link_ok A C l"
    using url_link_sound by (auto simp: set_map_filter)
  moreover have "sorted_wrt (\<lambda>l m. fst (l_end l) < fst (l_start m)) ?ls"
  proof (rule sorted_map_filter [OF url_matches_sorted])
    fix x y u v
    assume "(case x of (p, m) \<Rightarrow> \<lambda>(q, n). p + length m \<le> q) y" "url_link A x = Some u" "url_link A y = Some v"
    moreover have "length (strip_trailing (snd x)) \<le> length (snd x)" by (rule prefix_length_le [OF prefix_strip])
    ultimately show "fst (l_end u) < fst (l_start v)"
      by (auto simp: url_link_def Let_def split: if_splits prod.splits)
  qed
  moreover have "\<exists>(k, m) \<in> set (url_matches 0 C). k \<le> i \<and> i < k + length m \<and>
      (8 < length (strip_trailing m) \<longrightarrow>
         mk_link (strip_trailing m) (int k) (int (k + length (strip_trailing m)) - 1) A \<in> set ?ls)"
    if i: "i < length C" "url_match (drop i C) \<noteq> None" for i
  proof -
    obtain k m where km: "(k, m) \<in> set (url_matches 0 C)" "k \<le> i" "i < k + length m"
      using url_matches_complete [OF i, of 0] by auto
    then show ?thesis
      by (intro bexI [of _ "(k, m)"]) (auto simp: set_map_filter url_link_def Let_def intro!: bexI [of _ "(k, m)"])
  qed
  moreover have "length C = llength L \<and> (\<forall>i < length C. \<exists>c. getCell L (int i) = Some c \<and> C ! i = cell_unit c)"
    if "\<forall>c \<in> set (cells L). getCode c < 65536"
  proof -
    have C: "C = map (\<lambda>i. cell_unit (the (getCell L (int i)))) [0..<llength L]"
      using bmp_columns [of L] that assms(2) by auto
    have "\<exists>c. getCell L (int i) = Some c" if "i < llength L" for i using that by (simp add: getCell_def)
    with C show ?thesis by fastforce
  qed
  ultimately show ?thesis by (intro exI [of _ ?ls]) blast
qed

lemma demo_line_text:
  "active_line (Some demo_grid) 1 = Some \<lparr>cells = demo_line ''tel:12345,'', isWrapped = False, llength = 10\<rparr>"
  "lineToText \<lparr>cells = demo_line ''tel:12345,'', isWrapped = False, llength = 10\<rparr> =
     Some (js ''tel:12345,'')"
  by code_simp+

theorem url_links_sound_witness:
  "url_provideLinks (Some demo_grid) 1 = Inr (Some [mk_link (js ''tel:12345'') 0 8 1]) \<and>
   (\<exists>ls. url_provideLinks (Some demo_grid) 1 = Inr (if ls = [] then None else Some ls) \<and>
      (\<forall>l \<in> set ls. url_link_ok 1 (js ''tel:12345,'') l))"
proof
  show "url_provideLinks (Some demo_grid) 1 = Inr (Some [mk_link (js ''tel:12345'') 0 8 1])" by code_simp
  show "\<exists>ls. url_provideLinks (Some demo_grid) 1 = Inr (if ls = [] then None else Some ls) \<and>
      (\<forall>l \<in> set ls. url_link_ok 1 (js ''tel:12345,'') l)"
    using url_links_sound [OF demo_line_text] by blast
qed

text \<open>
  A cell outside the basic plane occupies one column and two units, so a link behind it is
  reported one column too far right; and a bare scheme of nine characters counts as a link.
\<close>

lemma astral_cell_shifts_link:
  "lineToText \<lparr>cells = demo_cell 128512 0 # demo_line ''tel:12345'', isWrapped = False, llength = 10\<rparr> =
     Some ([55357, 56832] @ js ''tel:12345'') \<and>
   List.map_filter (url_link 0) (url_matches 0 ([55357, 56832] @ js ''tel:12345'')) = [mk_link (js ''tel:12345'') 2 10 0]"
  by code_simp

lemma bare_scheme_link:
  "List.map_filter (url_link 0) (url_matches 0 (js ''gemini://.'')) = [mk_link (js ''gemini://'') 0 8 0]"
  by code_simp

end
