(* ===== verification/Gw_Detector.thy ===== *)
theory Gw_Detector
  imports Gw_Links_Props
begin

text \<open>
  The cache of the link detector. A provider promises links on the row it was asked for; a
  detector over such providers answers every lookup as an uncached scan would, as long as the
  rows that changed are invalidated. The terminal's detector over the OSC 8 and the URL
  provider is the instance.
\<close>

section \<open>Contracts\<close>

locale link_source =
  fixes provide :: provider
  assumes provide_row: "provide g r = Inr (Some ls) \<Longrightarrow> l \<in> set ls \<Longrightarrow> snd (l_start l) = r \<and> snd (l_end l) = r"

locale link_sources =
  fixes ps :: "provider list"
  assumes gather_row: "gather ps g r = Inr ls \<Longrightarrow> l \<in> set ls \<Longrightarrow> snd (l_start l) = r \<and> snd (l_end l) = r"

lemma link_sources_Nil: "link_sources []"
  by unfold_locales auto

lemma link_sources_Cons:
  assumes "link_source p" "link_sources ps"
  shows "link_sources (p # ps)"
proof
  fix g r ls l
  assume "gather (p # ps) g r = Inr ls" "l \<in> set ls"
  then obtain q ls' where q: "p g r = Inr q" "gather ps g r = Inr ls'" "ls = (case q of Some x \<Rightarrow> x | None \<Rightarrow> []) @ ls'"
    by (auto split: sum.splits)
  show "snd (l_start l) = r \<and> snd (l_end l) = r"
  proof (cases "l \<in> set ls'")
    case True
    then show ?thesis using link_sources.gather_row [OF assms(2) q(2)] by blast
  next
    case False
    then obtain x where "q = Some x" "l \<in> set x" using q(3) \<open>l \<in> set ls\<close> by (cases q) auto
    then show ?thesis using link_source.provide_row [OF assms(1)] q(1) by blast
  qed
qed

text \<open>The links of a row; a scan that throws gives none.\<close>

definition row_links :: "provider list \<Rightarrow> grid option \<Rightarrow> int \<Rightarrow> link list" where
  "row_links ps g r = (case gather ps g r of Inr ls \<Rightarrow> ls | Inl _ \<Rightarrow> [])"

definition cached_keys :: "detector \<Rightarrow> cache_key set" where
  "cached_keys d = fst ` set (linkCache d)"

definition has_cell :: "grid option \<Rightarrow> int \<Rightarrow> int \<Rightarrow> bool" where
  "has_cell g A r = (case active_line g r of None \<Rightarrow> False | Some I \<Rightarrow> getCell I A \<noteq> None)"

text \<open>
  The cache agrees with the grid: every cached link is one the providers give now, under its
  own key, and the links of every scanned row are there.
\<close>

definition cache_ok :: "provider list \<Rightarrow> grid option \<Rightarrow> detector \<Rightarrow> bool" where
  "cache_ok ps g d =
     (providers d = ps \<and>
      (\<forall>(k, l) \<in> set (linkCache d). k = link_key l \<and> l \<in> set (row_links ps g (snd (l_start l)))) \<and>
      (\<forall>r \<in> set (scannedRows d). link_key ` set (row_links ps g r) \<subseteq> cached_keys d))"

lemma cache_okD:
  assumes "cache_ok ps g d"
  shows "providers d = ps"
    "(k, l) \<in> set (linkCache d) \<Longrightarrow> k = link_key l"
    "(k, l) \<in> set (linkCache d) \<Longrightarrow> l \<in> set (row_links ps g (snd (l_start l)))"
    "r \<in> set (scannedRows d) \<Longrightarrow> l \<in> set (row_links ps g r) \<Longrightarrow> link_key l \<in> cached_keys d"
  using assms by (auto simp: cache_ok_def)

lemma cache_ok_invalidate [intro]: "providers d = ps \<Longrightarrow> cache_ok ps g (invalidateCache d)"
  by (simp add: cache_ok_def invalidateCache_def)

lemma cacheLink_fields [simp]:
  "providers (cacheLink l d) = providers d" "scannedRows (cacheLink l d) = scannedRows d"
  "cached_keys (cacheLink l d) = insert (link_key l) (cached_keys d)"
  by (simp_all add: cacheLink_def cached_keys_def insert_absorb)

lemma fold_cacheLink_fields [simp]:
  "providers (fold cacheLink ls d) = providers d" "scannedRows (fold cacheLink ls d) = scannedRows d"
  "cached_keys (fold cacheLink ls d) = link_key ` set ls \<union> cached_keys d"
  by (induction ls arbitrary: d) auto

lemma fold_cacheLink_cache:
  "(k, l) \<in> set (linkCache (fold cacheLink ls d)) \<Longrightarrow>
   (k, l) \<in> set (linkCache d) \<or> (l \<in> set ls \<and> k = link_key l)"
proof (induction ls arbitrary: d)
  case (Cons x ls)
  have "(k, l) \<in> set (linkCache (fold cacheLink ls (cacheLink x d)))" using Cons.prems by simp
  from Cons.IH [OF this] show ?case by (auto simp: cacheLink_def split: if_splits)
qed simp

lemma find_Some_in: "find P xs = Some x \<Longrightarrow> x \<in> set xs \<and> P x"
  by (auto simp: find_Some_iff)

context link_sources
begin

lemma row_links_row: "l \<in> set (row_links ps g r) \<Longrightarrow> snd (l_start l) = r \<and> snd (l_end l) = r"
  by (cases "gather ps g r") (auto simp: row_links_def dest: gather_row)

lemma scan_ok:
  assumes "cache_ok ps g d" "scanRow g r d = (None, d')"
  shows "cache_ok ps g d' \<and> r \<in> set (scannedRows d')"
proof -
  have ps: "providers d = ps" using assms(1) by (rule cache_okD)
  let ?d = "d\<lparr>scannedRows := (if r \<in> set (scannedRows d) then scannedRows d else scannedRows d @ [r])\<rparr>"
  obtain ls where ls: "gather ps g r = Inr ls" and d': "d' = fold cacheLink ls ?d"
    using assms(2) ps by (auto simp: scanRow_def Let_def split: sum.splits)
  then have row: "row_links ps g r = ls" by (simp add: row_links_def)
  have old: "linkCache ?d = linkCache d" "cached_keys ?d = cached_keys d" by (simp_all add: cached_keys_def)
  have "k = link_key l \<and> l \<in> set (row_links ps g (snd (l_start l)))" if "(k, l) \<in> set (linkCache d')" for k l
    using fold_cacheLink_cache [of k l ls ?d] that d' old(1) cache_okD(2,3) [OF assms(1)] row row_links_row
    by (metis (no_types, lifting))
  moreover have "link_key ` set (row_links ps g q) \<subseteq> cached_keys d'" if "q \<in> set (scannedRows d')" for q
    using that cache_okD(4) [OF assms(1), of q] row by (auto simp: d' old(2) split: if_splits)
  ultimately show ?thesis using ps by (auto simp: cache_ok_def d')
qed

lemma scan_throws_ok:
  assumes "cache_ok ps g d" "scanRow g r d = (Some e, d')"
  shows "cache_ok ps g d' \<and> gather ps g r = Inl e"
proof -
  have ps: "providers d = ps" using assms(1) by (rule cache_okD)
  have g: "gather ps g r = Inl e"
    "d' = d\<lparr>scannedRows := (if r \<in> set (scannedRows d) then scannedRows d else scannedRows d @ [r])\<rparr>"
    using assms(2) ps by (auto simp: scanRow_def Let_def split: sum.splits)
  then have "row_links ps g r = []" by (simp add: row_links_def)
  with assms(1) g show ?thesis by (auto simp: cache_ok_def cached_keys_def split: if_splits)
qed

lemma cached_sound:
  assumes "cache_ok ps g d" "cached_at A r d = Some l"
  shows "isPositionInLink A r l \<and> l \<in> set (row_links ps g r)"
proof -
  from assms(2) obtain k where k: "(k, l) \<in> set (linkCache d)" and p: "isPositionInLink A r l"
    unfolding cached_at_def by (auto dest!: find_Some_in)
  then have l: "l \<in> set (row_links ps g (snd (l_start l)))" using cache_okD(3) [OF assms(1)] by blast
  then have "snd (l_end l) = snd (l_start l)" using row_links_row by blast
  with p have "snd (l_start l) = r" by (auto simp: isPositionInLink_def split: prod.splits if_splits)
  with l p show ?thesis by simp
qed

text \<open>Two links of one row with the same key cover the same positions.\<close>

lemma cached_complete:
  assumes "cache_ok ps g d" "r \<in> set (scannedRows d)" "cached_at A r d = None" "l \<in> set (row_links ps g r)"
  shows "\<not> isPositionInLink A r l"
proof
  assume p: "isPositionInLink A r l"
  have "link_key l \<in> cached_keys d" using cache_okD(4) [OF assms(1,2,4)] .
  then obtain m where m: "(link_key l, m) \<in> set (linkCache d)" by (auto simp: cached_keys_def)
  then have k: "link_key l = link_key m" and "m \<in> set (row_links ps g (snd (l_start m)))"
    using cache_okD(2,3) [OF assms(1)] by blast+
  then have "snd (l_end m) = snd (l_start m)" using row_links_row by blast
  moreover have "snd (l_end l) = snd (l_start l)" using row_links_row [OF assms(4)] by simp
  ultimately have "l_start m = l_start l" "l_end m = l_end l"
    using k by (auto simp: link_key_def prod_eq_iff)
  then have "isPositionInLink A r m" using p by (simp add: isPositionInLink_def)
  moreover have "m \<in> set (map snd (linkCache d))" using m by force
  ultimately show False using assms(3) by (auto simp: cached_at_def find_None_iff)
qed

lemma getLinkAt_ok: "cache_ok ps g d \<Longrightarrow> cache_ok ps g (snd (getLinkAt g A r d))"
proof (cases "snd (getLinkAt g A r d) = d")
  case False
  assume ok: "cache_ok ps g d"
  from False have "snd (getLinkAt g A r d) = snd (scanRow g r d)"
    by (auto simp: getLinkAt_def split: option.splits prod.splits if_splits)
  with scan_ok [OF ok, of r] scan_throws_ok [OF ok, of r] show ?thesis
    by (cases "scanRow g r d"; cases "fst (scanRow g r d)") auto
qed simp

text \<open>A lookup answers what an uncached scan of the row would.\<close>

lemma getLinkAt_exact:
  assumes "cache_ok ps g d"
  shows "case fst (getLinkAt g A r d) of
      Inl e \<Rightarrow> gather ps g r = Inl e
    | Inr (Some l) \<Rightarrow> isPositionInLink A r l \<and> l \<in> set (row_links ps g r)
    | Inr None \<Rightarrow> has_cell g A r \<longrightarrow> (\<forall>l \<in> set (row_links ps g r). \<not> isPositionInLink A r l)"
proof (cases "has_cell g A r")
  case False
  then have "fst (getLinkAt g A r d) = Inr None"
    by (auto simp: getLinkAt_def has_cell_def getCell_def split: option.splits if_splits)
  with False show ?thesis by simp
next
  case True
  then obtain I where I: "active_line g r = Some I" "getCell I A \<noteq> None" by (auto simp: has_cell_def split: option.splits)
  then have in_line: "\<not> (A < 0 \<or> A \<ge> int (llength I) \<or> getCell I A = None)"
    by (auto simp: getCell_def split: if_splits)
  consider (hit) l where "cached_at A r d = Some l"
    | (known) "cached_at A r d = None" "r \<in> set (scannedRows d)"
    | (throws) e d' where "cached_at A r d = None" "r \<notin> set (scannedRows d)" "scanRow g r d = (Some e, d')"
    | (scan) d' where "cached_at A r d = None" "r \<notin> set (scannedRows d)" "scanRow g r d = (None, d')"
    by (metis option.exhaust surj_pair)
  then show ?thesis
  proof cases
    case hit
    then have "fst (getLinkAt g A r d) = Inr (Some l)" using I in_line by (auto simp: getLinkAt_def)
    then show ?thesis using cached_sound [OF assms hit] by simp
  next
    case known
    then have "fst (getLinkAt g A r d) = Inr None" using I in_line by (auto simp: getLinkAt_def)
    then show ?thesis using cached_complete [OF assms known(2,1)] by simp
  next
    case throws
    then have "fst (getLinkAt g A r d) = Inl e" using I in_line by (auto simp: getLinkAt_def)
    then show ?thesis using scan_throws_ok [OF assms throws(3)] by simp
  next
    case scan
    then have "fst (getLinkAt g A r d) = Inr (cached_at A r d')" using I in_line by (auto simp: getLinkAt_def)
    moreover have ok: "cache_ok ps g d'" "r \<in> set (scannedRows d')" using scan_ok [OF assms scan(3)] by auto
    ultimately show ?thesis
      using cached_sound [OF ok(1)] cached_complete [OF ok] by (auto split: option.splits)
  qed
qed

lemma invalidateRows_ok:
  assumes "cache_ok ps g d" "A \<le> b" "\<And>r. \<not> (A \<le> r \<and> r \<le> b) \<Longrightarrow> gather ps g' r = gather ps g r"
  shows "cache_ok ps g' (invalidateRows A b d)"
proof -
  let ?d = "invalidateRows A b d"
  have same: "row_links ps g' r = row_links ps g r" if "\<not> (A \<le> r \<and> r \<le> b)" for r
    using assms(3) [OF that] by (simp add: row_links_def)
  have keep: "(k, l) \<in> set (linkCache ?d) \<longleftrightarrow>
      (k, l) \<in> set (linkCache d) \<and> \<not> (A \<le> snd (l_start l) \<and> snd (l_start l) \<le> b)" for k l
  proof (cases "(k, l) \<in> set (linkCache d)")
    case True
    then have "snd (l_end l) = snd (l_start l)" using cache_okD(3) [OF assms(1) True] row_links_row by blast
    with True assms(2) show ?thesis by (auto simp: invalidateRows_def Let_def)
  qed (simp add: invalidateRows_def)
  have "k = link_key l \<and> l \<in> set (row_links ps g' (snd (l_start l)))" if "(k, l) \<in> set (linkCache ?d)" for k l
    using that keep cache_okD(2,3) [OF assms(1)] same by (metis (no_types, lifting))
  moreover have "link_key l \<in> cached_keys ?d" if r: "r \<in> set (scannedRows ?d)" and l: "l \<in> set (row_links ps g' r)" for r l
  proof -
    have n: "\<not> (A \<le> r \<and> r \<le> b)" "r \<in> set (scannedRows d)" using r by (auto simp: invalidateRows_def)
    then have l': "l \<in> set (row_links ps g r)" using l same by simp
    then obtain m where m: "(link_key l, m) \<in> set (linkCache d)"
      using cache_okD(4) [OF assms(1) n(2) l'] by (auto simp: cached_keys_def)
    then have "link_key l = link_key m" using cache_okD(2) [OF assms(1)] by blast
    then have "snd (l_start m) = r" using row_links_row [OF l'] by (simp add: link_key_def)
    with m n keep have "(link_key l, m) \<in> set (linkCache ?d)" by blast
    then show ?thesis by (force simp: cached_keys_def)
  qed
  moreover have "providers ?d = ps" using cache_okD(1) [OF assms(1)] by (simp add: invalidateRows_def)
  ultimately show ?thesis by (auto simp: cache_ok_def)
qed

end

section \<open>The terminal's detector\<close>

lemma gather_pair_throws: "gather [osc8_provideLinks, p] g r = Inl e \<Longrightarrow> p g r = Inl e"
  by (auto simp: osc8_provideLinks_def split: sum.splits)

interpretation osc8: link_source osc8_provideLinks
proof
  fix g r ls l
  assume a: "osc8_provideLinks g r = Inr (Some ls)" "l \<in> set ls"
  then obtain w C where "g = Some w" "active_line g r = Some C"
    "ls = osc8_scan (cell_uri w r C) r (llength C) [0..<llength C] {}"
    by (auto simp: osc8_provideLinks_def nonempty_def split: option.splits if_splits)
  moreover have "scan_spec (cell_uri w r C) r (llength C) 0 0
      (osc8_scan (cell_uri w r C) r (llength C) [0..<llength C] {})"
    by (rule osc8_scan_spec) simp
  ultimately show "snd (l_start l) = r \<and> snd (l_end l) = r" using a(2) by (auto simp: scan_spec_def)
qed

interpretation url: link_source url_provideLinks
proof
  fix g r ls l
  assume a: "url_provideLinks g r = Inr (Some ls)" "l \<in> set ls"
  then obtain C where "ls = List.map_filter (url_link r) (url_matches 0 C)"
    by (auto simp: url_provideLinks_def nonempty_def split: option.splits if_splits)
  with a(2) show "snd (l_start l) = r \<and> snd (l_end l) = r"
    by (auto simp: set_map_filter url_link_def Let_def split: if_splits)
qed

definition standard_providers :: "provider list" where
  "standard_providers = [osc8_provideLinks, url_provideLinks]"

interpretation standard: link_sources standard_providers
  unfolding standard_providers_def
  by (intro link_sources_Cons link_sources_Nil osc8.link_source_axioms url.link_source_axioms)

text \<open>What \<open>open\<close> installs.\<close>

definition detector_open :: detector where
  "detector_open = registerProvider url_provideLinks (registerProvider osc8_provideLinks detector_new)"

text \<open>
  A run of the detector beside a changing grid: lookups, output followed by
  \<open>invalidateCache\<close>, and changes confined to some rows followed by \<open>invalidateRows\<close>.
\<close>

inductive detector_run :: "grid option \<Rightarrow> detector \<Rightarrow> bool" where
  opened: "detector_run g detector_open"
| looked_up: "detector_run g d \<Longrightarrow> detector_run g (snd (getLinkAt g A r d))"
| written: "detector_run g d \<Longrightarrow> detector_run g' (invalidateCache d)"
| rows_changed: "detector_run g d \<Longrightarrow> A \<le> b \<Longrightarrow>
    (\<And>r. \<not> (A \<le> r \<and> r \<le> b) \<Longrightarrow> gather standard_providers g' r = gather standard_providers g r) \<Longrightarrow>
    detector_run g' (invalidateRows A b d)"

lemma detector_run_ok: "detector_run g d \<Longrightarrow> cache_ok standard_providers g d"
proof (induction rule: detector_run.induct)
  case (opened g)
  then show ?case
    by (simp add: detector_open_def registerProvider_def invalidateCache_def detector_new_def cache_ok_def
        standard_providers_def)
next
  case (looked_up g d A r)
  then show ?case by (blast intro: standard.getLinkAt_ok)
next
  case (written g d g')
  then show ?case by (blast intro: cache_okD(1))
next
  case (rows_changed g d A b g')
  then show ?case by (blast intro: standard.invalidateRows_ok)
qed

text \<open>
  C32. Link lookup. In every run of the detector a lookup answers as if nothing were cached: a
  link it returns is one the providers give for that row now and covers the position; when it
  returns none for a position of the grid, no link of the row covers the position; and it
  fails only when the URL provider fails on that row.
\<close>

theorem link_lookup_exact:
  assumes "detector_run g d"
  shows "case fst (getLinkAt g A r d) of
      Inl e \<Rightarrow> url_provideLinks g r = Inl e
    | Inr (Some l) \<Rightarrow> isPositionInLink A r l \<and> l \<in> set (row_links standard_providers g r)
    | Inr None \<Rightarrow> has_cell g A r \<longrightarrow> (\<forall>l \<in> set (row_links standard_providers g r). \<not> isPositionInLink A r l)"
proof -
  have "url_provideLinks g r = Inl e" if "gather standard_providers g r = Inl e" for e
    using gather_pair_throws that by (simp only: standard_providers_def)
  then show ?thesis
    using standard.getLinkAt_exact [OF detector_run_ok [OF assms], where A = A and r = r]
    by (cases "fst (getLinkAt g A r d)") simp_all
qed

lemma demo_looked_up: "detector_run (Some demo_grid) (snd (getLinkAt (Some demo_grid) 5 2 detector_open))"
  by (intro detector_run.intros)

theorem link_lookup_exact_witness:
  "fst (getLinkAt (Some demo_grid) 1 2 (snd (getLinkAt (Some demo_grid) 5 2 detector_open))) =
     Inr (Some (mk_link (js ''u'') 0 1 2)) \<and>
   mk_link (js ''u'') 0 1 2 \<in> set (row_links standard_providers (Some demo_grid) 2)"
proof -
  have l: "fst (getLinkAt (Some demo_grid) 1 2 (snd (getLinkAt (Some demo_grid) 5 2 detector_open))) =
     Inr (Some (mk_link (js ''u'') 0 1 2))" by code_simp
  with link_lookup_exact [OF demo_looked_up, where A = 1 and r = 2] show ?thesis by simp
qed

end
