(* ===== verification/Wasm_Calls.thy ===== *)
theory Wasm_Calls
  imports Js_Object "HOL-Library.Multiset"
begin

text \<open>
  Calls from JavaScript into a WebAssembly instance that may throw: a state and exception
  monad over the instance, with \<open>finally\<close>, the \<open>let\<close> variables that a \<open>finally\<close> block reads,
  typed views of the memory that die when the memory grows, and a log of what was acquired
  from the instance and released to it. The instance itself is the type variable \<open>'w\<close>.
\<close>

section \<open>The monad\<close>

text \<open>The kinds of buffer the instance lends, and the handles its constructors return.\<close>

datatype wkind = Opaque | U8 | Usize | U8_array nat | Handle string

datatype wevent = Acquire wkind nat | Release wkind nat

record 'w wst =
  world :: 'w
  vars :: "string \<Rightarrow> nat"
  log :: "wevent list"

type_synonym ('w, 'a) wm = "'w wst \<Rightarrow> 'a result \<times> 'w wst"

definition wreturn :: "'a \<Rightarrow> ('w, 'a) wm" where
  "wreturn x s = (Inr x, s)"

definition wfail :: "string \<Rightarrow> ('w, 'a) wm" where
  "wfail e s = (Inl (Js_Error e), s)"

definition wbind :: "('w, 'a) wm \<Rightarrow> ('a \<Rightarrow> ('w, 'b) wm) \<Rightarrow> ('w, 'b) wm" where
  "wbind m f s = (case m s of (Inl e, s') \<Rightarrow> (Inl e, s') | (Inr x, s') \<Rightarrow> f x s')"

definition wseq :: "('w, 'a) wm \<Rightarrow> ('w, 'b) wm \<Rightarrow> ('w, 'b) wm" where
  "wseq m n = wbind m (\<lambda>_. n)"

text \<open>\<open>try m finally f\<close>, for a block \<open>f\<close> that does not throw.\<close>

definition wfinally :: "('w, 'a) wm \<Rightarrow> ('w wst \<Rightarrow> 'w wst) \<Rightarrow> ('w, 'a) wm" where
  "wfinally m f s = (case m s of (r, s') \<Rightarrow> (r, f s'))"

section \<open>Exports and memory\<close>

text \<open>
  Memory and allocation of an instance: \<open>bytes_of\<close> is the buffer and \<open>generation\<close> changes whenever
  the buffer is replaced by a larger one; \<open>set_bytes\<close> is a write by JavaScript.
\<close>

record 'w exports =
  bytes_of :: "'w \<Rightarrow> 8 word list"
  set_bytes :: "8 word list \<Rightarrow> 'w \<Rightarrow> 'w"
  generation :: "'w \<Rightarrow> nat"
  alloc :: "wkind \<Rightarrow> 'w \<Rightarrow> nat \<times> 'w"
  free :: "wkind \<Rightarrow> nat \<Rightarrow> 'w \<Rightarrow> 'w"

definition wget :: "string \<Rightarrow> 'w wst \<Rightarrow> nat" where
  "wget x s = vars s x"

definition wset :: "string \<Rightarrow> nat \<Rightarrow> ('w, unit) wm" where
  "wset x v s = (Inr (), s\<lparr>vars := (vars s)(x := v)\<rparr>)"

definition wlog :: "wevent \<Rightarrow> ('w, unit) wm" where
  "wlog e s = (Inr (), s\<lparr>log := log s @ [e]\<rparr>)"

text \<open>A call that only changes the instance, and one that also returns a number.\<close>

definition wdo :: "('w \<Rightarrow> 'w) \<Rightarrow> ('w, unit) wm" where
  "wdo f s = (Inr (), s\<lparr>world := f (world s)\<rparr>)"

definition wcall :: "('w \<Rightarrow> 'a \<times> 'w) \<Rightarrow> ('w, 'a) wm" where
  "wcall f s = (let (x, w) = f (world s) in (Inr x, s\<lparr>world := w\<rparr>))"

text \<open>An allocation that fails returns address 0 and lends nothing.\<close>

definition walloc_of :: "'w exports \<Rightarrow> wkind \<Rightarrow> ('w, nat) wm" where
  "walloc_of X k s =
     (let (a, w) = alloc X k (world s)
      in (Inr a, s\<lparr>world := w, log := (if a = 0 then log s else log s @ [Acquire k a])\<rparr>))"

definition wfree_of :: "'w exports \<Rightarrow> wkind \<Rightarrow> nat \<Rightarrow> 'w wst \<Rightarrow> 'w wst" where
  "wfree_of X k a s = s\<lparr>world := free X k a (world s), log := log s @ [Release k a]\<rparr>"

text \<open>A \<open>DataView\<close> on the memory, by the generation of the buffer it was made on.\<close>

definition wview :: "'w exports \<Rightarrow> ('w, nat) wm" where
  "wview X s = (Inr (generation X (world s)), s)"

definition u32_at :: "8 word list \<Rightarrow> nat \<Rightarrow> nat" where
  "u32_at bs a = unat (bs ! a) + 256 * unat (bs ! (a + 1)) + 65536 * unat (bs ! (a + 2)) + 16777216 * unat (bs ! (a + 3))"

text \<open>\<open>view.getUint32(a, true)\<close>: a view of a replaced buffer throws, and so does an address out of range.\<close>

definition wget_u32 :: "'w exports \<Rightarrow> nat \<Rightarrow> nat \<Rightarrow> ('w, nat) wm" where
  "wget_u32 X v a s =
     (let bs = bytes_of X (world s)
      in if v \<noteq> generation X (world s) then (Inl (Js_Error ''TypeError''), s)
         else if a + 4 \<le> length bs then (Inr (u32_at bs a), s) else (Inl Range_Error, s))"

definition wstore :: "'w exports \<Rightarrow> nat \<Rightarrow> 8 word list \<Rightarrow> ('w, unit) wm" where
  "wstore X a d s =
     (let bs = bytes_of X (world s)
      in if a + length d \<le> length bs
         then (Inr (), s\<lparr>world := set_bytes X (take a bs @ d @ drop (a + length d) bs) (world s)\<rparr>)
         else (Inl Range_Error, s))"

text \<open>\<open>new Uint8Array(buffer, a, n).slice()\<close>.\<close>

definition wslice :: "'w exports \<Rightarrow> nat \<Rightarrow> nat \<Rightarrow> ('w, 8 word list) wm" where
  "wslice X a n s =
     (let bs = bytes_of X (world s)
      in if a + n \<le> length bs then (Inr (take n (drop a bs)), s) else (Inl Range_Error, s))"

section \<open>What is held\<close>

fun acquired :: "wevent list \<Rightarrow> (wkind \<times> nat) multiset" where
  "acquired [] = {#}"
| "acquired (Acquire k a # es) = add_mset (k, a) (acquired es)"
| "acquired (Release k a # es) = acquired es"

fun released :: "wevent list \<Rightarrow> (wkind \<times> nat) multiset" where
  "released [] = {#}"
| "released (Acquire k a # es) = released es"
| "released (Release k a # es) = add_mset (k, a) (released es)"

lemma acquired_append [simp]: "acquired (es @ fs) = acquired es + acquired fs"
  by (induction es rule: acquired.induct) auto

lemma released_append [simp]: "released (es @ fs) = released es + released fs"
  by (induction es rule: released.induct) auto

text \<open>
  A run from one state to another owes a collection of resources: those it acquired and did
  not release.
\<close>

definition owes :: "'w wst \<Rightarrow> (wkind \<times> nat) multiset \<Rightarrow> 'w wst \<Rightarrow> bool" where
  "owes s M s' = (\<exists>es. log s' = log s @ es \<and> acquired es = released es + M)"

lemma owes_refl [simp, intro]: "owes s {#} s"
  by (simp add: owes_def)

lemma owes_trans: "owes s M s' \<Longrightarrow> owes s' N s'' \<Longrightarrow> owes s (M + N) s''"
  by (force simp: owes_def ac_simps)

lemma owes_acquire: "owes s M s' \<Longrightarrow> log s'' = log s' @ [Acquire k a] \<Longrightarrow> owes s (add_mset (k, a) M) s''"
  by (force simp: owes_def)

lemma owes_release: "owes s (add_mset (k, a) M) s' \<Longrightarrow> log s'' = log s' @ [Release k a] \<Longrightarrow> owes s M s''"
  by (force simp: owes_def)

lemma owes_same: "owes s M s' \<Longrightarrow> log s'' = log s' \<Longrightarrow> owes s M s''"
  by (simp add: owes_def)

text \<open>
  A command that keeps the account and the variables, whichever way it ends; one that does not
  touch the log at all is quiet.
\<close>

definition balanced :: "('w, 'a) wm \<Rightarrow> bool" where
  "balanced m = (\<forall>s. owes s {#} (snd (m s)) \<and> vars (snd (m s)) = vars s)"

definition quiet :: "('w, 'a) wm \<Rightarrow> bool" where
  "quiet m = (\<forall>s. log (snd (m s)) = log s \<and> vars (snd (m s)) = vars s)"

named_theorems quiet_rules

lemma quiet_basic [quiet_rules]:
  "quiet (wreturn x)" "quiet (wfail e)" "quiet (wdo f)" "quiet (wcall g)" "quiet (wview X)"
  "quiet (wget_u32 X v a)" "quiet (wstore X a d)" "quiet (wslice X a n)"
  by (simp_all add: quiet_def wreturn_def wfail_def wdo_def wcall_def wview_def wget_u32_def wstore_def
      wslice_def Let_def split: prod.splits)

lemma quiet_bind [quiet_rules]: "quiet m \<Longrightarrow> (\<And>x. quiet (f x)) \<Longrightarrow> quiet (wbind m f)"
  unfolding quiet_def wbind_def by (simp split: prod.splits sum.splits) (metis snd_conv)

lemma quiet_seq [quiet_rules]: "quiet m \<Longrightarrow> quiet n \<Longrightarrow> quiet (wseq m n)"
  by (simp add: wseq_def quiet_bind)

lemma quiet_if [quiet_rules]: "quiet m \<Longrightarrow> quiet n \<Longrightarrow> quiet (if b then m else n)"
  by simp

lemma quiet_balanced: "quiet m \<Longrightarrow> balanced m"
  by (simp add: quiet_def balanced_def owes_def)

text \<open>A buffer freed in a \<open>finally\<close> block around quiet code is balanced.\<close>

definition wusing :: "'w exports \<Rightarrow> wkind \<Rightarrow> string \<Rightarrow> (nat \<Rightarrow> ('w, 'a) wm) \<Rightarrow> ('w, 'a) wm" where
  "wusing X k msg body =
     wbind (walloc_of X k) (\<lambda>a. if a = 0 then wfail msg else wfinally (body a) (wfree_of X k a))"

lemma walloc_log:
  "walloc_of X k s = (r, s') \<Longrightarrow>
   \<exists>a. r = Inr a \<and> vars s' = vars s \<and> log s' = (if a = 0 then log s else log s @ [Acquire k a])"
  by (cases "alloc X k (world s)") (force simp: walloc_of_def)

lemma wfree_log [simp]:
  "log (wfree_of X k a s) = log s @ [Release k a]" "vars (wfree_of X k a s) = vars s"
  by (simp_all add: wfree_of_def)

lemma balanced_using:
  assumes "\<And>a. balanced (body a)"
  shows "balanced (wusing X k msg body)"
proof -
  have "owes s {#} (snd (wusing X k msg body s)) \<and> vars (snd (wusing X k msg body s)) = vars s" for s
  proof -
    obtain a s1 where al: "walloc_of X k s = (Inr a, s1)" "vars s1 = vars s"
      "log s1 = (if a = 0 then log s else log s @ [Acquire k a])"
      by (metis surj_pair walloc_log)
    show ?thesis
    proof (cases "a = 0")
      case True
      with al show ?thesis by (simp add: wusing_def wbind_def wfail_def owes_def)
    next
      case False
      obtain r s2 where b: "body a s1 = (r, s2)" by fastforce
      have "owes s {#(k, a)#} s1" using False al(3) by (intro owes_acquire [OF owes_refl]) simp
      moreover have b': "owes s1 {#} s2" "vars s2 = vars s1" using assms b by (metis balanced_def snd_conv)+
      ultimately have "owes s {#(k, a)#} s2" using owes_trans by fastforce
      with False al b b' show ?thesis by (simp add: wusing_def wbind_def wfinally_def owes_release)
    qed
  qed
  then show ?thesis by (simp add: balanced_def)
qed

end
