(* ===== verification/Gw_Keys.thy ===== *)
theory Gw_Keys
  imports Wasm_Calls
begin

text \<open>
  Keys in \<open>ghostty-web.js\<close>: the key numbers and modifier bits of the core, the table from
  \<open>KeyboardEvent.code\<close> to key numbers, and the class \<open>KeyEncoder\<close>, which drives the core's key
  encoder through buffers it borrows from the instance. What the compiled core does is given by
  the fields of \<open>key_api\<close>; the log records the two kinds of handle its constructors create.
\<close>

section \<open>Key numbers\<close>

text \<open>The names of the key enumeration in order: the number of a key is its position.\<close>

definition key_names :: "string list" where
  "key_names = [
     ''UNIDENTIFIED'', ''GRAVE'', ''BACKSLASH'', ''BRACKET_LEFT'', ''BRACKET_RIGHT'', ''COMMA'',
     ''ZERO'', ''ONE'', ''TWO'', ''THREE'', ''FOUR'', ''FIVE'', ''SIX'', ''SEVEN'', ''EIGHT'',
     ''NINE'', ''EQUAL'', ''INTL_BACKSLASH'', ''INTL_RO'', ''INTL_YEN'']
     @ map (\<lambda>c. [c]) ''ABCDEFGHIJKLMNOPQRSTUVWXYZ'' @ [
     ''MINUS'', ''PERIOD'',
     ''QUOTE'', ''SEMICOLON'', ''SLASH'', ''ALT_LEFT'', ''ALT_RIGHT'', ''BACKSPACE'',
     ''CAPS_LOCK'', ''CONTEXT_MENU'', ''CONTROL_LEFT'', ''CONTROL_RIGHT'', ''ENTER'',
     ''META_LEFT'', ''META_RIGHT'', ''SHIFT_LEFT'', ''SHIFT_RIGHT'', ''SPACE'', ''TAB'',
     ''CONVERT'', ''KANA_MODE'', ''NON_CONVERT'', ''DELETE'', ''END'', ''HELP'', ''HOME'',
     ''INSERT'', ''PAGE_DOWN'', ''PAGE_UP'', ''DOWN'', ''LEFT'', ''RIGHT'', ''UP'', ''NUM_LOCK'',
     ''KP_0'', ''KP_1'', ''KP_2'', ''KP_3'', ''KP_4'', ''KP_5'', ''KP_6'', ''KP_7'', ''KP_8'',
     ''KP_9'', ''KP_PLUS'', ''KP_BACKSPACE'', ''KP_CLEAR'', ''KP_CLEAR_ENTRY'', ''KP_COMMA'',
     ''KP_PERIOD'', ''KP_DIVIDE'', ''KP_ENTER'', ''KP_EQUAL'', ''KP_MEMORY_ADD'',
     ''KP_MEMORY_CLEAR'', ''KP_MEMORY_RECALL'', ''KP_MEMORY_STORE'', ''KP_MEMORY_SUBTRACT'',
     ''KP_MULTIPLY'', ''KP_PAREN_LEFT'', ''KP_PAREN_RIGHT'', ''KP_MINUS'', ''KP_SEPARATOR'',
     ''NUMPAD_UP'', ''NUMPAD_DOWN'', ''NUMPAD_RIGHT'', ''NUMPAD_LEFT'', ''NUMPAD_BEGIN'',
     ''NUMPAD_HOME'', ''NUMPAD_END'', ''NUMPAD_INSERT'', ''NUMPAD_DELETE'', ''NUMPAD_PAGE_UP'',
     ''NUMPAD_PAGE_DOWN'', ''ESCAPE'', ''F1'', ''F2'', ''F3'', ''F4'', ''F5'', ''F6'', ''F7'',
     ''F8'', ''F9'', ''F10'', ''F11'', ''F12'', ''F13'', ''F14'', ''F15'', ''F16'', ''F17'',
     ''F18'', ''F19'', ''F20'', ''F21'', ''F22'', ''F23'', ''F24'', ''F25'', ''FN_LOCK'',
     ''PRINT_SCREEN'', ''SCROLL_LOCK'', ''PAUSE'', ''BROWSER_BACK'', ''BROWSER_FAVORITES'',
     ''BROWSER_FORWARD'', ''BROWSER_HOME'', ''BROWSER_REFRESH'', ''BROWSER_SEARCH'',
     ''BROWSER_STOP'', ''EJECT'', ''LAUNCH_APP_1'', ''LAUNCH_APP_2'', ''LAUNCH_MAIL'',
     ''MEDIA_PLAY_PAUSE'', ''MEDIA_SELECT'', ''MEDIA_STOP'', ''MEDIA_TRACK_NEXT'',
     ''MEDIA_TRACK_PREVIOUS'', ''POWER'', ''SLEEP'', ''AUDIO_VOLUME_DOWN'',
     ''AUDIO_VOLUME_MUTE'', ''AUDIO_VOLUME_UP'', ''WAKE_UP'', ''COPY'', ''CUT'', ''PASTE'']"

fun index_from :: "nat \<Rightarrow> 'a list \<Rightarrow> 'a \<Rightarrow> nat option" where
  "index_from n [] x = None"
| "index_from n (y # ys) x = (if x = y then Some n else index_from (Suc n) ys x)"

definition key_number :: "string \<Rightarrow> nat option" where
  "key_number = index_from 0 key_names"

definition code_table :: "(string \<times> string) list" where
  "code_table = [
     (''KeyA'', ''A''), (''KeyB'', ''B''), (''KeyC'', ''C''), (''KeyD'', ''D''),
     (''KeyE'', ''E''), (''KeyF'', ''F''), (''KeyG'', ''G''), (''KeyH'', ''H''),
     (''KeyI'', ''I''), (''KeyJ'', ''J''), (''KeyK'', ''K''), (''KeyL'', ''L''),
     (''KeyM'', ''M''), (''KeyN'', ''N''), (''KeyO'', ''O''), (''KeyP'', ''P''),
     (''KeyQ'', ''Q''), (''KeyR'', ''R''), (''KeyS'', ''S''), (''KeyT'', ''T''),
     (''KeyU'', ''U''), (''KeyV'', ''V''), (''KeyW'', ''W''), (''KeyX'', ''X''),
     (''KeyY'', ''Y''), (''KeyZ'', ''Z''), (''Digit1'', ''ONE''), (''Digit2'', ''TWO''),
     (''Digit3'', ''THREE''), (''Digit4'', ''FOUR''), (''Digit5'', ''FIVE''),
     (''Digit6'', ''SIX''), (''Digit7'', ''SEVEN''), (''Digit8'', ''EIGHT''),
     (''Digit9'', ''NINE''), (''Digit0'', ''ZERO''), (''Enter'', ''ENTER''),
     (''Escape'', ''ESCAPE''), (''Backspace'', ''BACKSPACE''), (''Tab'', ''TAB''),
     (''Space'', ''SPACE''), (''Minus'', ''MINUS''), (''Equal'', ''EQUAL''),
     (''BracketLeft'', ''BRACKET_LEFT''), (''BracketRight'', ''BRACKET_RIGHT''),
     (''Backslash'', ''BACKSLASH''), (''Semicolon'', ''SEMICOLON''), (''Quote'', ''QUOTE''),
     (''Backquote'', ''GRAVE''), (''Comma'', ''COMMA''), (''Period'', ''PERIOD''),
     (''Slash'', ''SLASH''), (''CapsLock'', ''CAPS_LOCK''), (''F1'', ''F1''), (''F2'', ''F2''),
     (''F3'', ''F3''), (''F4'', ''F4''), (''F5'', ''F5''), (''F6'', ''F6''), (''F7'', ''F7''),
     (''F8'', ''F8''), (''F9'', ''F9''), (''F10'', ''F10''), (''F11'', ''F11''),
     (''F12'', ''F12''), (''PrintScreen'', ''PRINT_SCREEN''), (''ScrollLock'', ''SCROLL_LOCK''),
     (''Pause'', ''PAUSE''), (''Insert'', ''INSERT''), (''Home'', ''HOME''),
     (''PageUp'', ''PAGE_UP''), (''Delete'', ''DELETE''), (''End'', ''END''),
     (''PageDown'', ''PAGE_DOWN''), (''ArrowRight'', ''RIGHT''), (''ArrowLeft'', ''LEFT''),
     (''ArrowDown'', ''DOWN''), (''ArrowUp'', ''UP''), (''NumLock'', ''NUM_LOCK''),
     (''NumpadDivide'', ''KP_DIVIDE''), (''NumpadMultiply'', ''KP_MULTIPLY''),
     (''NumpadSubtract'', ''KP_MINUS''), (''NumpadAdd'', ''KP_PLUS''),
     (''NumpadEnter'', ''KP_ENTER''), (''Numpad1'', ''KP_1''), (''Numpad2'', ''KP_2''),
     (''Numpad3'', ''KP_3''), (''Numpad4'', ''KP_4''), (''Numpad5'', ''KP_5''),
     (''Numpad6'', ''KP_6''), (''Numpad7'', ''KP_7''), (''Numpad8'', ''KP_8''),
     (''Numpad9'', ''KP_9''), (''Numpad0'', ''KP_0''), (''NumpadDecimal'', ''KP_PERIOD''),
     (''IntlBackslash'', ''INTL_BACKSLASH''), (''ContextMenu'', ''CONTEXT_MENU''),
     (''F13'', ''F13''), (''F14'', ''F14''), (''F15'', ''F15''), (''F16'', ''F16''),
     (''F17'', ''F17''), (''F18'', ''F18''), (''F19'', ''F19''), (''F20'', ''F20''),
     (''F21'', ''F21''), (''F22'', ''F22''), (''F23'', ''F23''), (''F24'', ''F24'')]"

definition mapKeyCode :: "string \<Rightarrow> nat option" where
  "mapKeyCode A = (case map_of code_table A of None \<Rightarrow> None | Some k \<Rightarrow> key_number k)"

section \<open>Modifiers\<close>

record modifiers =
  shiftKey :: bool
  ctrlKey :: bool
  altKey :: bool
  metaKey :: bool

definition flag :: "bool \<Rightarrow> nat \<Rightarrow> nat \<Rightarrow> nat" where
  "flag b v g = (if b then g OR v else g)"

definition extractModifiers :: "'a modifiers_scheme \<Rightarrow> nat" where
  "extractModifiers A = flag (metaKey A) 8 (flag (altKey A) 4 (flag (ctrlKey A) 2 (flag (shiftKey A) 1 0)))"

section \<open>Decimal numbers\<close>

definition digit :: "nat \<Rightarrow> char" where
  "digit n = char_of (48 + n)"

fun dec :: "nat \<Rightarrow> string" where
  "dec n = (if n < 10 then [digit n] else dec (n div 10) @ [digit (n mod 10)])"

declare dec.simps [simp del]

section \<open>The key encoder\<close>

record 'w key_api =
  inst :: "'w exports"
  encoder_new :: "nat \<Rightarrow> 'w \<Rightarrow> nat \<times> 'w"
  encoder_free :: "nat \<Rightarrow> 'w \<Rightarrow> 'w"
  encoder_setopt :: "nat \<Rightarrow> nat \<Rightarrow> nat \<Rightarrow> 'w \<Rightarrow> 'w"
  encoder_encode :: "nat \<Rightarrow> nat \<Rightarrow> nat \<Rightarrow> nat \<Rightarrow> nat \<Rightarrow> 'w \<Rightarrow> nat \<times> 'w"
  event_new :: "nat \<Rightarrow> 'w \<Rightarrow> nat \<times> 'w"
  event_free :: "nat \<Rightarrow> 'w \<Rightarrow> 'w"
  event_set_action :: "nat \<Rightarrow> nat \<Rightarrow> 'w \<Rightarrow> 'w"
  event_set_key :: "nat \<Rightarrow> nat \<Rightarrow> 'w \<Rightarrow> 'w"
  event_set_mods :: "nat \<Rightarrow> nat \<Rightarrow> 'w \<Rightarrow> 'w"
  event_set_utf8 :: "nat \<Rightarrow> nat \<Rightarrow> nat \<Rightarrow> 'w \<Rightarrow> 'w"
  text_encode :: "jstr \<Rightarrow> 8 word list"
  text_decode :: "8 word list \<Rightarrow> jstr"

record key_event =
  k_action :: nat
  k_key :: nat
  k_mods :: nat
  k_utf8 :: "jstr option"

definition encoder_ctor :: "'w key_api \<Rightarrow> ('w, nat) wm" where
  "encoder_ctor K =
     wusing (inst K) Opaque ''Failed to allocate key encoder handle'' (\<lambda>g.
       wbind (wcall (encoder_new K g)) (\<lambda>I.
         if I \<noteq> 0 then wfail (''Failed to create key encoder: '' @ dec I)
         else
           wbind (wview (inst K)) (\<lambda>Q.
           wbind (wget_u32 (inst K) Q g) (\<lambda>h.
             if h = 0 then wfail ''Failed to create key encoder''
             else wseq (wlog (Acquire (Handle ''encoder'') h)) (wreturn h)))))"

definition setOption :: "'w key_api \<Rightarrow> nat \<Rightarrow> nat \<Rightarrow> nat \<Rightarrow> ('w, unit) wm" where
  "setOption K enc A g =
     wusing (inst K) U8 ''Failed to allocate key encoder option value'' (\<lambda>I.
       wseq (wstore (inst K) I [word_of_nat g]) (wdo (encoder_setopt K enc A I)))"

definition KITTY_KEYBOARD_FLAGS :: nat where
  "KITTY_KEYBOARD_FLAGS = 5"

definition CURSOR_KEY_APPLICATION :: nat where
  "CURSOR_KEY_APPLICATION = 0"

definition setKittyFlags :: "'w key_api \<Rightarrow> nat \<Rightarrow> nat \<Rightarrow> ('w, unit) wm" where
  "setKittyFlags K enc A = setOption K enc KITTY_KEYBOARD_FLAGS A"

text \<open>The text of a key, when there is any, is copied in through a borrowed buffer.\<close>

definition set_utf8 :: "'w key_api \<Rightarrow> nat \<Rightarrow> jstr option \<Rightarrow> ('w, unit) wm" where
  "set_utf8 K I u =
     (case u of
        None \<Rightarrow> wreturn ()
      | Some x \<Rightarrow>
          if x = [] then wreturn ()
          else
            let t = text_encode K x
            in wusing (inst K) (U8_array (length t)) ''Failed to allocate key event utf8 bytes'' (\<lambda>e.
                 wseq (wstore (inst K) e t) (wdo (event_set_utf8 K I e (length t)))))"

text \<open>
  The \<open>try\<close> block of \<open>encode\<close>: \<open>I\<close>, \<open>Q\<close> and \<open>C\<close> are its variables, and \<open>v\<close> the view it makes
  before the buffers are allocated.
\<close>

definition encode_output :: "'w key_api \<Rightarrow> nat \<Rightarrow> nat \<Rightarrow> nat \<Rightarrow> ('w, 8 word list) wm" where
  "encode_output K enc v I =
     wbind (walloc_of (inst K) (U8_array 32)) (\<lambda>Q.
     wseq (wset ''Q'' Q)
    (wbind (walloc_of (inst K) Usize) (\<lambda>C.
     wseq (wset ''C'' C)
    (if Q = 0 \<or> C = 0 then wfail ''Failed to allocate key encoder output buffer''
     else
       wbind (wcall (encoder_encode K enc I Q 32 C)) (\<lambda>D.
         if D \<noteq> 0 then wfail (''Failed to encode key: '' @ dec D)
         else wbind (wget_u32 (inst K) v C) (\<lambda>s. wslice (inst K) Q s))))))"

definition encode_try :: "'w key_api \<Rightarrow> nat \<Rightarrow> key_event \<Rightarrow> nat \<Rightarrow> ('w, 8 word list) wm" where
  "encode_try K enc A g =
     wbind (wcall (event_new K g)) (\<lambda>i.
       if i \<noteq> 0 then wfail (''Failed to create key event: '' @ dec i)
       else
         wbind (wview (inst K)) (\<lambda>v.
         wbind (wget_u32 (inst K) v g) (\<lambda>I.
         wseq (wset ''I'' I)
        (if I = 0 then wfail ''Failed to create key event''
         else
           wseq (wlog (Acquire (Handle ''event'') I))
          (wseq (wdo (event_set_action K I (k_action A)))
          (wseq (wdo (event_set_key K I (k_key A)))
          (wseq (wdo (event_set_mods K I (k_mods A)))
          (wseq (set_utf8 K I (k_utf8 A))
                (encode_output K enc v I)))))))))"

definition free_if :: "'w exports \<Rightarrow> wkind \<Rightarrow> string \<Rightarrow> 'w wst \<Rightarrow> 'w wst" where
  "free_if X k x s = (if vars s x \<noteq> 0 then wfree_of X k (vars s x) s else s)"

definition encode_finally :: "'w key_api \<Rightarrow> nat \<Rightarrow> 'w wst \<Rightarrow> 'w wst" where
  "encode_finally K g s =
     (let s1 = free_if (inst K) Usize ''C'' (free_if (inst K) (U8_array 32) ''Q'' (wfree_of (inst K) Opaque g s));
          I = vars s1 ''I''
      in if I \<noteq> 0
         then s1\<lparr>world := event_free K I (world s1), log := log s1 @ [Release (Handle ''event'') I]\<rparr>
         else s1)"

definition encode :: "'w key_api \<Rightarrow> nat \<Rightarrow> key_event \<Rightarrow> ('w, 8 word list) wm" where
  "encode K enc A =
     wbind (walloc_of (inst K) Opaque) (\<lambda>g.
       if g = 0 then wfail ''Failed to allocate key event handle''
       else
         wseq (wset ''I'' 0) (wseq (wset ''Q'' 0) (wseq (wset ''C'' 0)
           (wfinally (encode_try K enc A g) (encode_finally K g)))))"

text \<open>\<open>dispose\<close>: the handle is freed once and forgotten.\<close>

definition encoder_dispose :: "'w key_api \<Rightarrow> nat \<Rightarrow> 'w wst \<Rightarrow> nat \<times> 'w wst" where
  "encoder_dispose K enc s =
     (if enc \<noteq> 0
      then (0, s\<lparr>world := encoder_free K enc (world s), log := log s @ [Release (Handle ''encoder'') enc]\<rparr>)
      else (enc, s))"

section \<open>Every borrowed buffer is given back\<close>

lemma setOption_balanced: "balanced (setOption K enc A g)"
  unfolding setOption_def by (intro balanced_using quiet_balanced quiet_rules)

lemma set_utf8_balanced: "balanced (set_utf8 K I u)"
proof (cases "u = None \<or> u = Some []")
  case True
  then show ?thesis by (auto simp: set_utf8_def intro!: quiet_balanced quiet_rules)
next
  case False
  then obtain x where "u = Some x" "x \<noteq> []" by auto
  then have "set_utf8 K I u = wusing (inst K) (U8_array (length (text_encode K x)))
      ''Failed to allocate key event utf8 bytes'' (\<lambda>e. wseq (wstore (inst K) e (text_encode K x))
        (wdo (event_set_utf8 K I e (length (text_encode K x)))))"
    by (simp add: set_utf8_def Let_def)
  then show ?thesis by (simp only: balanced_using quiet_balanced quiet_seq quiet_basic)
qed

text \<open>What the variables of \<open>encode\<close> hold, and the account of a run with them.\<close>

definition mine :: "wkind \<Rightarrow> nat \<Rightarrow> (wkind \<times> nat) multiset" where
  "mine k a = (if a = 0 then {#} else {#(k, a)#})"

definition held :: "'w wst \<Rightarrow> (wkind \<times> nat) multiset" where
  "held s = mine (Handle ''event'') (vars s ''I'') + mine (U8_array 32) (vars s ''Q'') + mine Usize (vars s ''C'')"

definition account :: "'w wst \<Rightarrow> (wkind \<times> nat) multiset \<Rightarrow> 'w wst \<Rightarrow> bool" where
  "account s0 B s = owes s0 (B + held s) s"

lemma held_cong: "vars s = vars t \<Longrightarrow> held s = held t"
  by (simp add: held_def)

lemma account_balanced:
  assumes "account s0 B s" "balanced m"
  shows "account s0 B (snd (m s))"
proof -
  have "owes s {#} (snd (m s))" "vars (snd (m s)) = vars s" using assms(2) by (simp_all add: balanced_def)
  with assms(1) show ?thesis
    unfolding account_def using owes_trans [of s0 "B + held s" s "{#}"] held_cong by fastforce
qed

lemma account_bind:
  assumes "account s0 B s" "balanced m" "\<And>x t. account s0 B t \<Longrightarrow> vars t = vars s \<Longrightarrow> account s0 B (snd (f x t))"
  shows "account s0 B (snd (wbind m f s))"
proof (cases "m s")
  case (Pair r t)
  have "account s0 B t" "vars t = vars s"
    using account_balanced [OF assms(1,2)] assms(2) Pair by (simp_all add: balanced_def) (metis snd_conv)
  with assms(3) Pair show ?thesis by (cases r) (simp_all add: wbind_def)
qed

lemma account_seq:
  "account s0 B s \<Longrightarrow> balanced m \<Longrightarrow> (\<And>t. account s0 B t \<Longrightarrow> vars t = vars s \<Longrightarrow> account s0 B (snd (n t))) \<Longrightarrow>
   account s0 B (snd (wseq m n s))"
  unfolding wseq_def by (rule account_bind)

text \<open>An allocation kept in a variable that was empty.\<close>

lemma account_alloc:
  assumes "account s0 B s" "vars s x = 0" "(k, x) = (U8_array 32, ''Q'') \<or> (k, x) = (Usize, ''C'')"
    and "\<And>a t. account s0 B t \<Longrightarrow> vars t = (vars s)(x := a) \<Longrightarrow> account s0 B (snd (f a t))"
  shows "account s0 B (snd (wbind (walloc_of X k) (\<lambda>a. wseq (wset x a) (f a)) s))"
proof -
  obtain a t where t: "walloc_of X k s = (Inr a, t)" "vars t = vars s"
    "log t = (if a = 0 then log s else log s @ [Acquire k a])"
    by (metis surj_pair walloc_log)
  define u where "u = t\<lparr>vars := (vars s)(x := a)\<rparr>"
  have u: "vars u = (vars s)(x := a)" "log u = log t" by (simp_all add: u_def)
  have "held u = held s + mine k a"
    using assms(2,3) by (auto simp: held_def u mine_def)
  moreover have "owes s (mine k a) u"
    using t(3) u(2) by (auto simp: owes_def mine_def)
  ultimately have "account s0 B u"
    using assms(1) owes_trans [of s0 "B + held s" s "mine k a" u] by (simp add: account_def ac_simps)
  then have "account s0 B (snd (f a u))" using assms(4) u(1) by blast
  moreover have "wbind (walloc_of X k) (\<lambda>a. wseq (wset x a) (f a)) s = f a u"
    using t by (simp add: wbind_def wseq_def wset_def u_def)
  ultimately show ?thesis by simp
qed

lemma encode_output_account:
  assumes "account s0 B s" "vars s ''Q'' = 0" "vars s ''C'' = 0"
  shows "account s0 B (snd (encode_output K enc v I s))"
  unfolding encode_output_def
proof (rule account_alloc [OF assms(1,2)])
  fix Q t
  assume t: "account s0 B t" "vars t = (vars s)(''Q'' := Q)"
  let ?f = "\<lambda>C. if Q = 0 \<or> C = 0 then wfail ''Failed to allocate key encoder output buffer''
     else wbind (wcall (encoder_encode K enc I Q 32 C)) (\<lambda>D.
         if D \<noteq> 0 then wfail (''Failed to encode key: '' @ dec D)
         else wbind (wget_u32 (inst K) v C) (\<lambda>s. wslice (inst K) Q s))"
  have q: "balanced (?f C)" for C by (intro quiet_balanced quiet_rules)
  show "account s0 B (snd (wbind (walloc_of (inst K) Usize) (\<lambda>C. wseq (wset ''C'' C) (?f C)) t))"
    using t(2) assms(3) by (intro account_alloc [OF t(1)] account_balanced q) auto
qed simp

lemma encode_try_account:
  assumes "account s0 B s" "vars s ''I'' = 0" "vars s ''Q'' = 0" "vars s ''C'' = 0"
  shows "account s0 B (snd (encode_try K enc A g s))"
  unfolding encode_try_def
proof (rule account_bind [OF assms(1) quiet_balanced [OF quiet_basic(4)]])
  fix i t
  assume t: "account s0 B t" "vars t = vars s"
  let ?n = "\<lambda>v I. wseq (wdo (event_set_action K I (k_action A))) (wseq (wdo (event_set_key K I (k_key A)))
    (wseq (wdo (event_set_mods K I (k_mods A))) (wseq (set_utf8 K I (k_utf8 A)) (encode_output K enc v I))))"
  let ?h = "\<lambda>v I. wseq (wset ''I'' I) (if I = 0 then wfail ''Failed to create key event''
     else wseq (wlog (Acquire (Handle ''event'') I)) (?n v I))"
  have n: "account s0 B (snd (?n v I u))" if "account s0 B u" "vars u ''Q'' = 0" "vars u ''C'' = 0" for v I u
    using that
    by (intro account_seq quiet_balanced quiet_basic set_utf8_balanced encode_output_account) auto
  have h: "account s0 B (snd (?h v I u))" if u: "account s0 B u" "vars u = vars s" for v I u
  proof (cases "I = 0")
    case True
    then have "vars (u\<lparr>vars := (vars u)(''I'' := I)\<rparr>) = vars u" using u(2) assms(2) by auto
    then have "account s0 B (u\<lparr>vars := (vars u)(''I'' := I)\<rparr>)"
      using u(1) held_cong [of "u\<lparr>vars := (vars u)(''I'' := I)\<rparr>" u]
      by (auto simp: account_def intro: owes_same)
    with True show ?thesis by (simp add: wseq_def wbind_def wset_def wfail_def)
  next
    case False
    define w where "w = u\<lparr>vars := (vars u)(''I'' := I), log := log u @ [Acquire (Handle ''event'') I]\<rparr>"
    have "held w = add_mset (Handle ''event'', I) (held u)"
      using False u(2) assms(2) by (simp add: held_def w_def mine_def)
    moreover have "owes s0 (add_mset (Handle ''event'', I) (B + held u)) w"
      using u(1) by (intro owes_acquire [of s0 "B + held u" u]) (simp_all add: account_def w_def)
    ultimately have "account s0 B w" by (simp add: account_def)
    then have "account s0 B (snd (?n v I w))" using u(2) assms(3,4) by (intro n) (simp_all add: w_def)
    moreover have "?h v I u = ?n v I w" using False by (simp add: wseq_def wbind_def wset_def wlog_def w_def)
    ultimately show ?thesis by simp
  qed
  show "account s0 B (snd ((if i \<noteq> 0 then wfail (''Failed to create key event: '' @ dec i)
      else wbind (wview (inst K)) (\<lambda>v. wbind (wget_u32 (inst K) v g) (?h v))) t))"
  proof (cases "i = 0")
    case True
    have "account s0 B (snd (wbind (wview (inst K)) (\<lambda>v. wbind (wget_u32 (inst K) v g) (?h v)) t))"
      using t by (intro account_bind quiet_balanced quiet_basic h) auto
    with True show ?thesis by simp
  qed (use t in \<open>simp add: wfail_def\<close>)
qed

lemma free_if_vars: "vars (free_if X k x t) = vars t"
  by (simp add: free_if_def)

lemma free_if_owes: "owes s0 (M + mine k (vars t x)) t \<Longrightarrow> owes s0 M (free_if X k x t)"
  by (cases "vars t x = 0") (simp_all add: free_if_def mine_def owes_release)

lemma encode_finally_owes:
  assumes "account s0 {#(Opaque, g)#} s"
  shows "owes s0 {#} (encode_finally K g s)"
proof -
  let ?e = "mine (Handle ''event'') (vars s ''I'')" and ?s1 = "wfree_of (inst K) Opaque g s"
  let ?s2 = "free_if (inst K) (U8_array 32) ''Q'' ?s1"
  let ?s3 = "free_if (inst K) Usize ''C'' ?s2"
  have v: "vars ?s2 = vars s" "vars ?s3 = vars s" by (simp_all add: free_if_vars)
  have "owes s0 (?e + mine (U8_array 32) (vars s ''Q'') + mine Usize (vars s ''C'')) ?s1"
    by (rule owes_release [of s0 Opaque g _ s]) (use assms in \<open>simp_all add: account_def held_def ac_simps\<close>)
  then have "owes s0 (?e + mine Usize (vars s ''C'')) ?s2"
    by (intro free_if_owes) (simp add: ac_simps)
  then have o3: "owes s0 ?e ?s3" by (metis free_if_owes v(1))
  show ?thesis
  proof (cases "vars s ''I'' = 0")
    case True
    then show ?thesis using o3 by (simp add: encode_finally_def Let_def v mine_def)
  next
    case False
    then have "owes s0 (add_mset (Handle ''event'', vars s ''I'') {#}) ?s3" using o3 by (simp add: mine_def)
    then show ?thesis using False by (simp add: encode_finally_def Let_def v owes_release)
  qed
qed

lemma encode_neutral: "owes s {#} (snd (encode K enc A s))"
proof -
  obtain g t where t: "walloc_of (inst K) Opaque s = (Inr g, t)" "vars t = vars s"
    "log t = (if g = 0 then log s else log s @ [Acquire Opaque g])"
    by (metis surj_pair walloc_log)
  show ?thesis
  proof (cases "g = 0")
    case True
    with t show ?thesis by (simp add: encode_def wbind_def wfail_def owes_def)
  next
    case False
    define u where "u = t\<lparr>vars := ((vars s)(''I'' := 0, ''Q'' := 0, ''C'' := 0))\<rparr>"
    have "account s {#(Opaque, g)#} u"
      using False t(3) by (simp add: account_def held_def mine_def u_def owes_def)
    then have "account s {#(Opaque, g)#} (snd (encode_try K enc A g u))"
      by (rule encode_try_account) (simp_all add: u_def)
    moreover have "snd (encode K enc A s) = encode_finally K g (snd (encode_try K enc A g u))"
      using False t by (simp add: encode_def wbind_def wseq_def wset_def wfinally_def u_def split: prod.splits)
    ultimately show ?thesis using encode_finally_owes by metis
  qed
qed

lemma encoder_ctor_spec:
  "case encoder_ctor K s of
      (Inl e, s') \<Rightarrow> owes s {#} s'
    | (Inr h, s') \<Rightarrow> h \<noteq> 0 \<and> owes s {#(Handle ''encoder'', h)#} s'"
proof -
  obtain g t where t: "walloc_of (inst K) Opaque s = (Inr g, t)" "vars t = vars s"
    "log t = (if g = 0 then log s else log s @ [Acquire Opaque g])"
    by (metis surj_pair walloc_log)
  show ?thesis
    using t
    by (cases "encoder_new K g (world t)")
      (auto simp: encoder_ctor_def wusing_def wbind_def wseq_def wfail_def wfinally_def wcall_def wview_def
        wget_u32_def wlog_def wreturn_def owes_def wfree_of_def Let_def)
qed

lemma encoder_ctor_owes:
  "encoder_ctor K s = (Inr h, s') \<Longrightarrow> owes s {#(Handle ''encoder'', h)#} s'"
  using encoder_ctor_spec [where K = K and s = s] by simp

text \<open>
  C33. No leak in the key encoder. Whatever the core answers, and whether the call returns or
  throws, \<open>setOption\<close> and \<open>encode\<close> give back every buffer and event handle they took; the
  constructor keeps nothing but the encoder it returns, and nothing at all when it throws; and
  \<open>dispose\<close> gives that encoder back once, however often it is called.
\<close>

theorem key_encoder_no_leak:
  "owes s {#} (snd (setOption K enc opt v s)) \<and>
   owes s {#} (snd (encode K enc ev s)) \<and>
   (case encoder_ctor K s of
      (Inl e, s') \<Rightarrow> owes s {#} s'
    | (Inr h, s') \<Rightarrow> h \<noteq> 0 \<and> owes s {#(Handle ''encoder'', h)#} s' \<and>
        (let (h1, s1) = encoder_dispose K h s'; (h2, s2) = encoder_dispose K h1 s1
         in owes s {#} s1 \<and> s2 = s1))"
proof -
  have "owes s {#} s1 \<and> s2 = s1"
    if "encoder_ctor K s = (Inr h, s')" "encoder_dispose K h s' = (h1, s1)" "encoder_dispose K h1 s1 = (h2, s2)" for h s' h1 s1 h2 s2
  proof -
    have h: "h \<noteq> 0" "owes s {#(Handle ''encoder'', h)#} s'" using encoder_ctor_spec [where K = K and s = s] that(1) by simp_all
    then have "h1 = 0" "log s1 = log s' @ [Release (Handle ''encoder'') h]"
      using that(2) by (auto simp: encoder_dispose_def)
    then show ?thesis using h(2) that(3) by (auto simp: encoder_dispose_def intro: owes_release)
  qed
  then show ?thesis
    using setOption_balanced [of K enc opt v] encode_neutral [of s K enc ev] encoder_ctor_spec [where K = K and s = s]
    by (auto simp: balanced_def split: prod.splits sum.splits)
qed

text \<open>
  \<open>encode\<close> reads the length of the output through the view it made before it allocated the output
  buffers: when one of those allocations makes the memory grow, the view is dead and the key is lost.
\<close>

definition growing_core :: "nat key_api" where
  "growing_core = \<lparr>inst = \<lparr>bytes_of = \<lambda>_. replicate 64 1, set_bytes = \<lambda>_ w. w, generation = id,
       alloc = \<lambda>k w. (case k of U8_array _ \<Rightarrow> (16, Suc w) | _ \<Rightarrow> (8, w)), free = \<lambda>_ _ w. w\<rparr>,
     encoder_new = \<lambda>_ w. (0, w), encoder_free = \<lambda>_ w. w, encoder_setopt = \<lambda>_ _ _ w. w,
     encoder_encode = \<lambda>_ _ _ _ _ w. (0, w), event_new = \<lambda>_ w. (0, w), event_free = \<lambda>_ w. w,
     event_set_action = \<lambda>_ _ w. w, event_set_key = \<lambda>_ _ w. w, event_set_mods = \<lambda>_ _ w. w,
     event_set_utf8 = \<lambda>_ _ _ w. w, text_encode = \<lambda>s. map ucast s, text_decode = \<lambda>bs. map ucast bs\<rparr>"

lemma encode_stale_view:
  "fst (encode growing_core 1 \<lparr>k_action = 1, k_key = 75, k_mods = 2, k_utf8 = None\<rparr>
     \<lparr>world = 0, vars = \<lambda>_. 0, log = []\<rparr>) = Inl (Js_Error ''TypeError'')"
  by (simp add: encode_def encode_try_def encode_output_def set_utf8_def wbind_def wseq_def wset_def wfinally_def
      wcall_def wview_def wget_u32_def wlog_def wreturn_def wdo_def walloc_of_def growing_core_def u32_at_def
      nth_replicate Let_def)

end
