(* ===== verification/Gw_Input.thy ===== *)
theory Gw_Input
  imports Gw_Keys
begin

text \<open>
  The class \<open>InputHandler\<close> of \<open>ghostty-web.js\<close>: key presses, pastes, \<open>beforeinput\<close> events,
  compositions and mouse events become data for the program in the terminal. A handler takes the
  time \<open>getNow()\<close> reads; what it does to the outside is the list \<open>out\<close>.
\<close>

section \<open>Events, configuration and state\<close>

record key_down = modifiers +
  dk_key :: jstr
  dk_code :: string
  dk_composing :: bool
  dk_keyCode :: nat

record mouse_event = modifiers +
  clientX :: rat
  clientY :: rat
  button :: nat
  deltaY :: rat

record before_input =
  inputType :: string
  bi_data :: "jstr option"
  bi_composing :: bool

record mouse_config =
  hasMouseTracking :: bool
  hasSgrMouseMode :: "bool option"
  cell_width :: rat
  cell_height :: rat
  canvas_left :: rat
  canvas_top :: rat

text \<open>The element the listeners of text input are on.\<close>

datatype target = Container | InputElement

text \<open>
  The callbacks: an absent one is \<^term>\<open>None\<close> (or \<^term>\<open>False\<close> for \<open>has_onKey\<close>). \<open>custom\<close> answers
  \<open>true\<close>, \<open>false\<close> or something else, and \<open>onCopy\<close> whether it copied. \<open>inputElement\<close> is
  \<^term>\<open>Some Container\<close> when the input element is the container itself.
\<close>

record 'w input_config =
  api :: "'w key_api"
  has_onKey :: bool
  custom :: "(key_down \<Rightarrow> bool option) option"
  getMode :: "(nat \<Rightarrow> bool) option"
  onCopy :: "bool option"
  inputElement :: "target option"
  mouseConfig :: "mouse_config option"

datatype effect = Data jstr | Key jstr | Warn string | PreventDefault | StopPropagation

datatype paste_source = FromPaste | FromBeforeInput

record 'w input_handler =
  isComposing :: bool
  compositionJustEnded :: bool
  pendingKeyAfterComposition :: "jstr option"
  isDisposed :: bool
  mouseButtonsPressed :: nat
  lastKeyDownData :: "jstr option"
  lastKeyDownTime :: rat
  lastPasteData :: "jstr option"
  lastPasteTime :: rat
  lastPasteSource :: "paste_source option"
  lastCompositionData :: "jstr option"
  lastCompositionTime :: rat
  lastBeforeInputData :: "jstr option"
  lastBeforeInputTime :: rat
  encoder :: nat
  wasm :: "'w wst"
  listeners :: "(target \<times> string) list"
  childNodes :: "nat list"
  out :: "effect list"

definition emit :: "effect list \<Rightarrow> 'w input_handler \<Rightarrow> 'w input_handler" where
  "emit es h = h\<lparr>out := out h @ es\<rparr>"

text \<open>\<open>attach\<close>: the listeners in the order they are added.\<close>

definition text_target :: "'w input_config \<Rightarrow> target" where
  "text_target c = (case inputElement c of Some t \<Rightarrow> t | None \<Rightarrow> Container)"

definition attached :: "'w input_config \<Rightarrow> (target \<times> string) list" where
  "attached c =
     [(Container, ''keydown''), (Container, ''paste'')] @
     (if inputElement c = Some InputElement then [(InputElement, ''paste'')] else []) @
     (case inputElement c of Some t \<Rightarrow> [(t, ''beforeinput'')] | None \<Rightarrow> []) @
     [(text_target c, ''compositionstart''), (text_target c, ''compositionupdate''), (text_target c, ''compositionend''),
      (Container, ''mousedown''), (Container, ''mouseup''), (Container, ''mousemove''), (Container, ''wheel'')]"

definition attach :: "'w input_config \<Rightarrow> 'w input_handler \<Rightarrow> 'w input_handler" where
  "attach c h = h\<lparr>listeners := listeners h @ attached c\<rparr>"

definition input_new :: "'w input_config \<Rightarrow> nat list \<Rightarrow> 'w wst \<Rightarrow> 'w input_handler result" where
  "input_new c nodes w =
     (case encoder_ctor (api c) w of
        (Inl e, _) \<Rightarrow> Inl e
      | (Inr enc, w') \<Rightarrow>
          Inr (attach c \<lparr>isComposing = False, compositionJustEnded = False, pendingKeyAfterComposition = None,
            isDisposed = False, mouseButtonsPressed = 0, lastKeyDownData = None, lastKeyDownTime = 0,
            lastPasteData = None, lastPasteTime = 0, lastPasteSource = None, lastCompositionData = None,
            lastCompositionTime = 0, lastBeforeInputData = None, lastBeforeInputTime = 0, encoder = enc,
            wasm = w', listeners = [], childNodes = nodes, out = []\<rparr>))"

definition setCustomKeyEventHandler ::
  "(key_down \<Rightarrow> bool option) option \<Rightarrow> 'w input_config \<Rightarrow> 'w input_config" where
  "setCustomKeyEventHandler A c = c\<lparr>custom := A\<rparr>"

section \<open>De-duplication\<close>

definition BEFORE_INPUT_IGNORE_MS :: rat where
  "BEFORE_INPUT_IGNORE_MS = 100"

definition recordKeyDownData :: "rat \<Rightarrow> jstr \<Rightarrow> 'w input_handler \<Rightarrow> 'w input_handler" where
  "recordKeyDownData t A h = h\<lparr>lastKeyDownData := Some A, lastKeyDownTime := t\<rparr>"

definition recordPasteData :: "rat \<Rightarrow> jstr \<Rightarrow> paste_source \<Rightarrow> 'w input_handler \<Rightarrow> 'w input_handler" where
  "recordPasteData t A g h = h\<lparr>lastPasteData := Some A, lastPasteTime := t, lastPasteSource := Some g\<rparr>"

definition recordBeforeInputData :: "rat \<Rightarrow> jstr \<Rightarrow> 'w input_handler \<Rightarrow> 'w input_handler" where
  "recordBeforeInputData t A h = h\<lparr>lastBeforeInputData := Some A, lastBeforeInputTime := t\<rparr>"

definition recordCompositionData :: "rat \<Rightarrow> jstr \<Rightarrow> 'w input_handler \<Rightarrow> 'w input_handler" where
  "recordCompositionData t A h = h\<lparr>lastCompositionData := Some A, lastCompositionTime := t\<rparr>"

text \<open>An absent or empty string is falsy.\<close>

definition some_text :: "jstr option \<Rightarrow> bool" where
  "some_text x = (x \<noteq> None \<and> x \<noteq> Some [])"

definition recent :: "rat \<Rightarrow> rat \<Rightarrow> jstr option \<Rightarrow> jstr \<Rightarrow> bool" where
  "recent now t x A = (now - t < BEFORE_INPUT_IGNORE_MS \<and> x = Some A)"

text \<open>A key press is remembered for one \<open>beforeinput\<close> event only.\<close>

definition shouldIgnoreBeforeInput :: "rat \<Rightarrow> jstr \<Rightarrow> 'w input_handler \<Rightarrow> bool \<times> 'w input_handler" where
  "shouldIgnoreBeforeInput now A h =
     (if \<not> some_text (lastKeyDownData h) then (False, h)
      else (recent now (lastKeyDownTime h) (lastKeyDownData h) A, h\<lparr>lastKeyDownData := None\<rparr>))"

definition shouldIgnoreBeforeInputFromComposition ::
  "rat \<Rightarrow> jstr \<Rightarrow> 'w input_handler \<Rightarrow> bool \<times> 'w input_handler" where
  "shouldIgnoreBeforeInputFromComposition now A h =
     (if \<not> some_text (lastCompositionData h) then (False, h)
      else if recent now (lastCompositionTime h) (lastCompositionData h) A
      then (True, h\<lparr>lastCompositionData := None\<rparr>) else (False, h))"

definition shouldIgnoreCompositionEnd :: "rat \<Rightarrow> jstr \<Rightarrow> 'w input_handler \<Rightarrow> bool \<times> 'w input_handler" where
  "shouldIgnoreCompositionEnd now A h =
     (if \<not> some_text (lastBeforeInputData h) then (False, h)
      else if recent now (lastBeforeInputTime h) (lastBeforeInputData h) A
      then (True, h\<lparr>lastBeforeInputData := None\<rparr>) else (False, h))"

definition shouldIgnorePasteEvent ::
  "rat \<Rightarrow> jstr \<Rightarrow> paste_source \<Rightarrow> 'w input_handler \<Rightarrow> bool \<times> 'w input_handler" where
  "shouldIgnorePasteEvent now A g h =
     (if \<not> some_text (lastPasteData h) \<or> lastPasteSource h = Some g then (False, h)
      else if recent now (lastPasteTime h) (lastPasteData h) A
      then (True, h\<lparr>lastPasteData := None, lastPasteSource := None\<rparr>) else (False, h))"

section \<open>Keys\<close>

definition esc :: "string \<Rightarrow> jstr" where
  "esc s = 27 # js s"

definition isPrintableCharacter :: "key_down \<Rightarrow> bool" where
  "isPrintableCharacter A =
     (if (ctrlKey A \<and> \<not> altKey A) \<or> (altKey A \<and> \<not> ctrlKey A) \<or> metaKey A then False
      else length (dk_key A) = 1)"

text \<open>The keys with a fixed sequence when no modifier but shift is down.\<close>

definition special_keys :: "(string \<times> jstr) list" where
  "special_keys =
     [(''ENTER'', [13]), (''BACKSPACE'', [127]), (''ESCAPE'', [27]), (''HOME'', esc ''[H''), (''END'', esc ''[F''),
      (''INSERT'', esc ''[2~''), (''DELETE'', esc ''[3~''), (''PAGE_UP'', esc ''[5~''), (''PAGE_DOWN'', esc ''[6~''),
      (''F1'', esc ''OP''), (''F2'', esc ''OQ''), (''F3'', esc ''OR''), (''F4'', esc ''OS''), (''F5'', esc ''[15~''),
      (''F6'', esc ''[17~''), (''F7'', esc ''[18~''), (''F8'', esc ''[19~''), (''F9'', esc ''[20~''), (''F10'', esc ''[21~''),
      (''F11'', esc ''[23~''), (''F12'', esc ''[24~'')]"

definition special_key :: "nat \<Rightarrow> nat \<Rightarrow> jstr option" where
  "special_key I g =
     (if key_number ''TAB'' = Some g then Some (if I = 1 then esc ''[Z'' else [9])
      else map_of (map (\<lambda>(k, s). (key_number k, s)) special_keys) (Some g))"

definition lower16 :: "16 word \<Rightarrow> 16 word" where
  "lower16 u = (if 65 \<le> u \<and> u \<le> 90 then u + 32 else u)"

text \<open>The text of a key event for the encoder: one ASCII character in lower case.\<close>

definition key_text :: "jstr \<Rightarrow> jstr option" where
  "key_text k = (case k of [u] \<Rightarrow> if u < 128 then Some [lower16 u] else None | _ \<Rightarrow> None)"

definition encode_key :: "'w input_config \<Rightarrow> nat \<Rightarrow> nat \<Rightarrow> key_down \<Rightarrow> 'w input_handler \<Rightarrow> 8 word list result \<times> 'w wst" where
  "encode_key c g I A h =
     wseq (case getMode c of
             Some m \<Rightarrow> setOption (api c) (encoder h) CURSOR_KEY_APPLICATION (if m 1 then 1 else 0)
           | None \<Rightarrow> wreturn ())
          (encode (api c) (encoder h) \<lparr>k_action = 1, k_key = g, k_mods = I, k_utf8 = key_text (dk_key A)\<rparr>)
          (wasm h)"

text \<open>The end of \<open>handleKeyDown\<close>, for a key that is neither printable nor left to the browser.\<close>

definition send_key :: "rat \<Rightarrow> jstr \<Rightarrow> 'w input_handler \<Rightarrow> 'w input_handler" where
  "send_key now C h = recordKeyDownData now C (emit [PreventDefault, Data C] h)"

definition encoded_key :: "'w input_config \<Rightarrow> rat \<Rightarrow> key_down \<Rightarrow> nat \<Rightarrow> nat \<Rightarrow> 'w input_handler \<Rightarrow> 'w input_handler" where
  "encoded_key c now A g I h =
     (case encode_key c g I A h of
        (Inl e, w) \<Rightarrow> emit [Warn (dk_code A)] (h\<lparr>wasm := w\<rparr>)
      | (Inr bs, w) \<Rightarrow>
          let o' = text_decode (api c) bs; h1 = emit [PreventDefault, StopPropagation] (h\<lparr>wasm := w\<rparr>)
          in if length o' > 0 then recordKeyDownData now o' (emit [Data o'] h1) else h1)"

definition mapped_key :: "'w input_config \<Rightarrow> rat \<Rightarrow> key_down \<Rightarrow> 'w input_handler \<Rightarrow> 'w input_handler" where
  "mapped_key c now A h =
     (case mapKeyCode (dk_code A) of
        None \<Rightarrow> h
      | Some g \<Rightarrow>
          let I = extractModifiers A
          in case (if I = 0 \<or> I = 1 then special_key I g else None) of
               Some C \<Rightarrow> send_key now C h
             | None \<Rightarrow> encoded_key c now A g I h)"

definition default_key :: "'w input_config \<Rightarrow> rat \<Rightarrow> key_down \<Rightarrow> 'w input_handler \<Rightarrow> 'w input_handler" where
  "default_key c now A h =
     (if (ctrlKey A \<or> metaKey A) \<and> dk_code A = ''KeyV'' then h
      else if metaKey A \<and> dk_code A = ''KeyC''
      then (if onCopy c = Some True then emit [PreventDefault] h else h)
      else if metaKey A \<and> \<not> ctrlKey A then h
      else if isPrintableCharacter A then send_key now (dk_key A) h
      else mapped_key c now A h)"

definition handleKeyDown :: "'w input_config \<Rightarrow> rat \<Rightarrow> key_down \<Rightarrow> 'w input_handler \<Rightarrow> 'w input_handler" where
  "handleKeyDown c now A h =
     (if isDisposed h \<or> dk_composing A \<or> dk_keyCode A = 229 then h
      else if isComposing h then emit [PreventDefault] (h\<lparr>pendingKeyAfterComposition := Some (dk_key A)\<rparr>)
      else if compositionJustEnded h then h\<lparr>compositionJustEnded := False\<rparr>
      else
        let h1 = (if has_onKey c then emit [Key (dk_key A)] h else h)
        in case custom c of
             None \<Rightarrow> default_key c now A h1
           | Some f \<Rightarrow>
               (case f A of
                  Some True \<Rightarrow> emit [PreventDefault] h1
                | Some False \<Rightarrow> h1
                | None \<Rightarrow> default_key c now A h1))"

section \<open>Paste, text input and composition\<close>

definition mode :: "'w input_config \<Rightarrow> nat \<Rightarrow> bool" where
  "mode c n = (case getMode c of Some m \<Rightarrow> m n | None \<Rightarrow> False)"

definition emitPasteData :: "'w input_config \<Rightarrow> jstr \<Rightarrow> 'w input_handler \<Rightarrow> 'w input_handler" where
  "emitPasteData c A h =
     (if mode c 2004 then emit [Data (esc ''[200~'' @ A @ esc ''[201~'')] h else emit [Data A] h)"

text \<open>The clipboard's text, when the event has a clipboard.\<close>

definition handlePaste :: "'w input_config \<Rightarrow> rat \<Rightarrow> jstr option \<Rightarrow> 'w input_handler \<Rightarrow> 'w input_handler" where
  "handlePaste c now g h =
     (if isDisposed h then h
      else
        let h1 = emit [PreventDefault, StopPropagation] h
        in case g of
             None \<Rightarrow> emit [Warn ''No clipboard data available''] h1
           | Some I \<Rightarrow>
               if I = [] then emit [Warn ''No text in clipboard''] h1
               else
                 let (ign, h2) = shouldIgnorePasteEvent now I FromPaste h1
                 in if ign then h2 else recordPasteData now I FromPaste (emitPasteData c I h2))"

definition newline_to_return :: "jstr \<Rightarrow> jstr" where
  "newline_to_return = map (\<lambda>u. if u = 10 then 13 else u)"

text \<open>The text a \<open>beforeinput\<close> event inserts, for the types that insert something but a paste.\<close>

definition inserted :: "before_input \<Rightarrow> jstr option" where
  "inserted A =
     (let g = inputType A; I = (case bi_data A of Some x \<Rightarrow> x | None \<Rightarrow> [])
      in if g = ''insertText'' \<or> g = ''insertReplacementText''
         then (if length I > 0 then Some (newline_to_return I) else None)
         else if g = ''insertLineBreak'' \<or> g = ''insertParagraph'' then Some [13]
         else if g = ''deleteContentBackward'' then Some [127]
         else if g = ''deleteContentForward'' then Some (esc ''[3~'')
         else None)"

definition swallow :: "'w input_handler \<Rightarrow> 'w input_handler" where
  "swallow h = emit [PreventDefault, StopPropagation] h"

definition insert_text :: "rat \<Rightarrow> jstr \<Rightarrow> jstr \<Rightarrow> 'w input_handler \<Rightarrow> 'w input_handler" where
  "insert_text now I Q h =
     (let (ign, h1) = shouldIgnoreBeforeInput now Q h
      in if ign then swallow h1
         else
           let (ign', h2) = (if I \<noteq> [] then shouldIgnoreBeforeInputFromComposition now I h1 else (False, h1))
           in if ign' then swallow h2
              else
                let h3 = emit [Data Q] (swallow h2)
                in if I \<noteq> [] then recordBeforeInputData now I h3 else h3)"

definition handleBeforeInput :: "'w input_config \<Rightarrow> rat \<Rightarrow> before_input \<Rightarrow> 'w input_handler \<Rightarrow> 'w input_handler" where
  "handleBeforeInput c now A h =
     (if isDisposed h \<or> isComposing h \<or> bi_composing A then h
      else
        let I = (case bi_data A of Some x \<Rightarrow> x | None \<Rightarrow> [])
        in if inputType A = ''insertFromPaste''
           then
             (if I = [] then h
              else
                let (ign, h1) = shouldIgnorePasteEvent now I FromBeforeInput h
                in if ign then swallow h1
                   else recordPasteData now I FromBeforeInput (emitPasteData c I (swallow h1)))
           else case inserted A of
                  Some Q \<Rightarrow> if Q = [] then h else insert_text now I Q h
                | None \<Rightarrow> h)"

definition handleCompositionStart :: "'w input_handler \<Rightarrow> 'w input_handler" where
  "handleCompositionStart h = (if isDisposed h then h else h\<lparr>isComposing := True\<rparr>)"

definition handleCompositionUpdate :: "'w input_handler \<Rightarrow> 'w input_handler" where
  "handleCompositionUpdate h = h"

definition processPendingKeyAfterComposition :: "'w input_handler \<Rightarrow> 'w input_handler" where
  "processPendingKeyAfterComposition h =
     (if some_text (pendingKeyAfterComposition h)
      then emit [Data (the (pendingKeyAfterComposition h))] (h\<lparr>pendingKeyAfterComposition := None\<rparr>) else h)"

text \<open>Text nodes have type 3.\<close>

definition cleanupCompositionTextNodes :: "'w input_handler \<Rightarrow> 'w input_handler" where
  "cleanupCompositionTextNodes h = h\<lparr>childNodes := filter (\<lambda>n. n \<noteq> 3) (childNodes h)\<rparr>"

definition handleCompositionEnd :: "rat \<Rightarrow> jstr option \<Rightarrow> 'w input_handler \<Rightarrow> 'w input_handler" where
  "handleCompositionEnd now g h =
     (if isDisposed h then h
      else
        let h1 = h\<lparr>isComposing := False\<rparr>;
            h2 = (if some_text g
                  then let (ign, h') = shouldIgnoreCompositionEnd now (the g) h1
                       in if ign then h' else recordCompositionData now (the g) (emit [Data (the g)] h')
                  else h1)
        in processPendingKeyAfterComposition (cleanupCompositionTextNodes h2))"

section \<open>Mouse\<close>

definition pixelToCell :: "'w input_config \<Rightarrow> mouse_event \<Rightarrow> (nat \<times> nat) option" where
  "pixelToCell c A =
     (case mouseConfig c of
        None \<Rightarrow> None
      | Some m \<Rightarrow>
          if cell_width m \<le> 0 \<or> cell_height m \<le> 0 then None
          else
            let e = \<lfloor>(clientX A - canvas_left m) / cell_width m\<rfloor> + 1;
                i = \<lfloor>(clientY A - canvas_top m) / cell_height m\<rfloor> + 1
            in Some (nat (max 1 e), nat (max 1 i)))"

definition getMouseModifiers :: "mouse_event \<Rightarrow> nat" where
  "getMouseModifiers A = flag (ctrlKey A) 16 (flag (metaKey A) 8 (flag (shiftKey A) 4 0))"

definition encodeMouseSGR :: "nat \<Rightarrow> nat \<Rightarrow> nat \<Rightarrow> bool \<Rightarrow> nat \<Rightarrow> jstr" where
  "encodeMouseSGR A g I Q C =
     esc (''[<'' @ dec (A + C) @ '';'' @ dec g @ '';'' @ dec I @ (if Q then ''m'' else ''M''))"

definition encodeMouseX10 :: "nat \<Rightarrow> nat \<Rightarrow> nat \<Rightarrow> nat \<Rightarrow> jstr" where
  "encodeMouseX10 A g I Q =
     esc ''[M'' @ [word_of_nat (A + Q + 32), word_of_nat (min (g + 32) 255), word_of_nat (min (I + 32) 255)]"

definition sendMouseEvent ::
  "'w input_config \<Rightarrow> nat \<Rightarrow> nat \<Rightarrow> nat \<Rightarrow> bool \<Rightarrow> mouse_event \<Rightarrow> 'w input_handler \<Rightarrow> 'w input_handler" where
  "sendMouseEvent c A g I Q C h =
     (let E = getMouseModifiers C;
          i = (case mouseConfig c of None \<Rightarrow> True | Some m \<Rightarrow> (case hasSgrMouseMode m of None \<Rightarrow> True | Some b \<Rightarrow> b));
          o' = (if i then encodeMouseSGR A g I Q E else encodeMouseX10 (if Q then 3 else A) g I E)
      in emit [Data o'] h)"

definition tracking :: "'w input_config \<Rightarrow> bool" where
  "tracking c = (case mouseConfig c of Some m \<Rightarrow> hasMouseTracking m | None \<Rightarrow> False)"

definition handleMouseDown :: "'w input_config \<Rightarrow> mouse_event \<Rightarrow> 'w input_handler \<Rightarrow> 'w input_handler" where
  "handleMouseDown c A h =
     (if isDisposed h \<or> \<not> tracking c then h
      else case pixelToCell c A of
             None \<Rightarrow> h
           | Some (col, row) \<Rightarrow>
               sendMouseEvent c (button A) col row False A
                 (h\<lparr>mouseButtonsPressed := mouseButtonsPressed h OR push_bit (button A) 1\<rparr>))"

definition handleMouseUp :: "'w input_config \<Rightarrow> mouse_event \<Rightarrow> 'w input_handler \<Rightarrow> 'w input_handler" where
  "handleMouseUp c A h =
     (if isDisposed h \<or> \<not> tracking c then h
      else case pixelToCell c A of
             None \<Rightarrow> h
           | Some (col, row) \<Rightarrow>
               sendMouseEvent c (button A) col row True A
                 (h\<lparr>mouseButtonsPressed := unset_bit (button A) (mouseButtonsPressed h)\<rparr>))"

definition motion_button :: "nat \<Rightarrow> nat" where
  "motion_button p = 32 + (if p AND 1 \<noteq> 0 then 0 else if p AND 2 \<noteq> 0 then 1 else if p AND 4 \<noteq> 0 then 2 else 0)"

definition handleMouseMove :: "'w input_config \<Rightarrow> mouse_event \<Rightarrow> 'w input_handler \<Rightarrow> 'w input_handler" where
  "handleMouseMove c A h =
     (if isDisposed h \<or> \<not> tracking c then h
      else
        let g = mode c 1002; I = mode c 1003
        in if (\<not> g \<and> \<not> I) \<or> (g \<and> \<not> I \<and> mouseButtonsPressed h = 0) then h
           else case pixelToCell c A of
                  None \<Rightarrow> h
                | Some (col, row) \<Rightarrow> sendMouseEvent c (motion_button (mouseButtonsPressed h)) col row False A h)"

definition handleWheel :: "'w input_config \<Rightarrow> mouse_event \<Rightarrow> 'w input_handler \<Rightarrow> 'w input_handler" where
  "handleWheel c A h =
     (if isDisposed h \<or> \<not> tracking c then h
      else case pixelToCell c A of
             None \<Rightarrow> h
           | Some (col, row) \<Rightarrow>
               emit [PreventDefault] (sendMouseEvent c (if deltaY A < 0 then 64 else 65) col row False A h))"

section \<open>Disposal\<close>

definition input_dispose :: "'w input_config \<Rightarrow> 'w input_handler \<Rightarrow> 'w input_handler" where
  "input_dispose c h =
     (if isDisposed h then h
      else h\<lparr>listeners := filter (\<lambda>l. l \<notin> set (attached c)) (listeners h), isDisposed := True\<rparr>)"

definition isActive :: "'w input_handler \<Rightarrow> bool" where
  "isActive h = (\<not> isDisposed h)"

end
