(* ===== verification/Gw_Input_Props.thy ===== *)
theory Gw_Input_Props
  imports Gw_Input
begin

text \<open>
  Correctness of the input handler: text that the browser reports twice is delivered once, mouse
  reports can be decoded, and a disposed handler is inert.
\<close>

section \<open>What the program receives\<close>

fun data_of :: "effect \<Rightarrow> jstr list" where
  "data_of (Data s) = [s]"
| "data_of _ = []"

definition received :: "'w input_handler \<Rightarrow> jstr list" where
  "received h = concat (map data_of (out h))"

lemma received_emit [simp]: "received (emit es h) = received h @ concat (map data_of es)"
  by (simp add: received_def emit_def)

text \<open>Updates of the fields other than the output do not change it.\<close>

lemma received_update [simp]:
  "received (h\<lparr>pendingKeyAfterComposition := a\<rparr>) = received h"
  "received (h\<lparr>isComposing := b\<rparr>) = received h"
  "received (h\<lparr>lastKeyDownData := c\<rparr>) = received h"
  "received (h\<lparr>lastPasteData := c\<rparr>) = received h"
  "received (h\<lparr>lastPasteSource := d\<rparr>) = received h"
  "received (h\<lparr>lastCompositionData := c\<rparr>) = received h"
  "received (h\<lparr>lastBeforeInputData := c\<rparr>) = received h"
  "received (h\<lparr>lastKeyDownTime := t\<rparr>) = received h"
  "received (h\<lparr>lastPasteTime := t\<rparr>) = received h"
  "received (h\<lparr>lastCompositionTime := t\<rparr>) = received h"
  "received (h\<lparr>lastBeforeInputTime := t\<rparr>) = received h"
  "received (h\<lparr>childNodes := e\<rparr>) = received h"
  "received (recordKeyDownData t s h) = received h"
  "received (recordPasteData t s src h) = received h"
  "received (recordBeforeInputData t s h) = received h"
  "received (recordCompositionData t s h) = received h"
  by (simp_all add: received_def recordKeyDownData_def recordPasteData_def recordBeforeInputData_def
      recordCompositionData_def)

text \<open>A handler ready for text: neither disposed nor composing.\<close>

definition ready :: "'w input_handler \<Rightarrow> bool" where
  "ready h = (\<not> isDisposed h \<and> \<not> isComposing h)"

text \<open>A plain character key, with no handler of the application in the way.\<close>

definition plain_key :: "'w input_config \<Rightarrow> key_down \<Rightarrow> bool" where
  "plain_key c k =
     (\<not> dk_composing k \<and> dk_keyCode k \<noteq> 229 \<and> (case custom c of None \<Rightarrow> True | Some f \<Rightarrow> f k = None) \<and>
      \<not> ctrlKey k \<and> \<not> altKey k \<and> \<not> metaKey k \<and> length (dk_key k) = 1)"

definition text_input :: "jstr \<Rightarrow> before_input \<Rightarrow> bool" where
  "text_input s b = (inputType b = ''insertText'' \<and> bi_data b = Some s \<and> \<not> bi_composing b)"

definition paste_input :: "jstr \<Rightarrow> before_input \<Rightarrow> bool" where
  "paste_input s b = (inputType b = ''insertFromPaste'' \<and> bi_data b = Some s \<and> \<not> bi_composing b)"

lemmas ignore_defs = shouldIgnoreBeforeInput_def shouldIgnoreBeforeInputFromComposition_def
  shouldIgnoreCompositionEnd_def shouldIgnorePasteEvent_def some_text_def recent_def BEFORE_INPUT_IGNORE_MS_def

lemmas record_defs = recordKeyDownData_def recordPasteData_def recordBeforeInputData_def recordCompositionData_def

text \<open>A plain key sends its character and remembers it.\<close>

lemma plain_key_down:
  assumes "ready h" "\<not> compositionJustEnded h" "plain_key c k"
  shows "\<exists>es. handleKeyDown c t k h = recordKeyDownData t (dk_key k) (emit es h) \<and> concat (map data_of es) = [dk_key k]"
proof -
  let ?es = "(if has_onKey c then [Key (dk_key k)] else []) @ [PreventDefault, Data (dk_key k)]"
  have "handleKeyDown c t k h = recordKeyDownData t (dk_key k) (emit ?es h)"
    using assms
    by (auto simp: handleKeyDown_def ready_def plain_key_def default_key_def isPrintableCharacter_def send_key_def
        emit_def Let_def split: option.splits)
  then show ?thesis by (intro exI [of _ ?es]) simp
qed

lemma key_then_input:
  assumes "ready h" "\<not> compositionJustEnded h" "plain_key c k" "dk_key k \<noteq> [10]" "text_input (dk_key k) b" "t' - t < 100"
  shows "received (handleBeforeInput c t' b (handleKeyDown c t k h)) = received h @ [dk_key k]"
proof -
  obtain es where es: "handleKeyDown c t k h = recordKeyDownData t (dk_key k) (emit es h)"
    "concat (map data_of es) = [dk_key k]"
    using plain_key_down [OF assms(1,2,3)] by blast
  obtain u where u: "dk_key k = [u]" using assms(3) by (auto simp: plain_key_def length_Suc_conv)
  then have "inserted b = Some (dk_key k)"
    using assms(4,5) by (auto simp: inserted_def text_input_def newline_to_return_def Let_def)
  then show ?thesis
    using assms u es
    by (auto simp: handleBeforeInput_def ready_def text_input_def insert_text_def ignore_defs record_defs
        swallow_def Let_def received_def emit_def)
qed

lemma key_then_late_input:
  assumes "ready h" "\<not> compositionJustEnded h" "plain_key c k" "dk_key k \<noteq> [10]" "text_input (dk_key k) b" "100 \<le> t' - t"
    "\<not> fst (shouldIgnoreBeforeInputFromComposition t' (dk_key k) h)"
  shows "received (handleBeforeInput c t' b (handleKeyDown c t k h)) = received h @ [dk_key k, dk_key k]"
proof -
  obtain es where es: "handleKeyDown c t k h = recordKeyDownData t (dk_key k) (emit es h)"
    "concat (map data_of es) = [dk_key k]"
    using plain_key_down [OF assms(1,2,3)] by blast
  obtain u where u: "dk_key k = [u]" using assms(3) by (auto simp: plain_key_def length_Suc_conv)
  then have "inserted b = Some (dk_key k)"
    using assms(4,5) by (auto simp: inserted_def text_input_def newline_to_return_def Let_def)
  then show ?thesis
    using assms u es
    by (auto simp: handleBeforeInput_def ready_def text_input_def insert_text_def ignore_defs record_defs
        swallow_def Let_def received_def emit_def split: if_splits)
qed

definition pasted :: "'w input_config \<Rightarrow> jstr \<Rightarrow> jstr" where
  "pasted c s = (if mode c 2004 then esc ''[200~'' @ s @ esc ''[201~'' else s)"

lemma received_paste [simp]: "received (emitPasteData c s h) = received h @ [pasted c s]"
  by (simp add: emitPasteData_def pasted_def)

lemma shouldIgnorePaste_False:
  "\<not> fst (shouldIgnorePasteEvent t s src h) \<Longrightarrow> shouldIgnorePasteEvent t s src h = (False, h)"
  by (auto simp: shouldIgnorePasteEvent_def split: if_splits)

lemma emit_fields [simp]:
  "isDisposed (emit es h) = isDisposed h" "isComposing (emit es h) = isComposing h"
  "lastPasteData (emit es h) = lastPasteData h" "lastPasteTime (emit es h) = lastPasteTime h"
  "lastPasteSource (emit es h) = lastPasteSource h" "lastCompositionData (emit es h) = lastCompositionData h"
  "lastCompositionTime (emit es h) = lastCompositionTime h" "lastBeforeInputData (emit es h) = lastBeforeInputData h"
  "lastBeforeInputTime (emit es h) = lastBeforeInputTime h" "lastKeyDownData (emit es h) = lastKeyDownData h"
  "lastKeyDownTime (emit es h) = lastKeyDownTime h"
  "pendingKeyAfterComposition (emit es h) = pendingKeyAfterComposition h"
  by (simp_all add: emit_def)

lemma emitPasteData_fields [simp]:
  "isDisposed (emitPasteData c s h) = isDisposed h" "isComposing (emitPasteData c s h) = isComposing h"
  by (simp_all add: emitPasteData_def)

lemma ignore_emit [simp]:
  "fst (shouldIgnorePasteEvent t s src (emit es h)) = fst (shouldIgnorePasteEvent t s src h)"
  by (simp add: shouldIgnorePasteEvent_def)

lemma paste_event:
  assumes "ready h" "s \<noteq> []" "\<not> fst (shouldIgnorePasteEvent t s FromPaste h)"
  shows "handlePaste c t (Some s) h = recordPasteData t s FromPaste (emitPasteData c s (swallow h))"
  using assms shouldIgnorePaste_False [of t s FromPaste "swallow h"]
  by (simp add: handlePaste_def ready_def swallow_def)

lemma paste_by_input:
  assumes "ready h" "s \<noteq> []" "paste_input s b" "\<not> fst (shouldIgnorePasteEvent t s FromBeforeInput h)"
  shows "handleBeforeInput c t b h = recordPasteData t s FromBeforeInput (emitPasteData c s (swallow h))"
  using assms shouldIgnorePaste_False [of t s FromBeforeInput h]
  by (simp add: handleBeforeInput_def ready_def paste_input_def)

lemma paste_then_input:
  assumes "ready h" "s \<noteq> []" "paste_input s b" "t' - t < 100" "\<not> fst (shouldIgnorePasteEvent t s FromPaste h)"
  shows "received (handleBeforeInput c t' b (handlePaste c t (Some s) h)) = received h @ [pasted c s]"
  using assms unfolding paste_event [OF assms(1,2,5)]
  by (simp add: handleBeforeInput_def ready_def paste_input_def ignore_defs record_defs swallow_def)

lemma input_then_paste:
  assumes "ready h" "s \<noteq> []" "paste_input s b" "t' - t < 100" "\<not> fst (shouldIgnorePasteEvent t s FromBeforeInput h)"
  shows "received (handlePaste c t' (Some s) (handleBeforeInput c t b h)) = received h @ [pasted c s]"
  using assms unfolding paste_by_input [OF assms(1,2,3,5)]
  by (simp add: handlePaste_def ready_def ignore_defs record_defs swallow_def)

text \<open>The key pressed during a composition follows its text.\<close>

definition pending :: "'w input_handler \<Rightarrow> jstr list" where
  "pending h = (if some_text (pendingKeyAfterComposition h) then [the (pendingKeyAfterComposition h)] else [])"

lemma composition_then_input:
  assumes "\<not> isDisposed h" "s \<noteq> []" "text_input s b" "t' - t < 100" "\<not> fst (shouldIgnoreCompositionEnd t s h)"
  shows "received (handleBeforeInput c t' b (handleCompositionEnd t (Some s) h)) = received h @ [s] @ pending h"
proof -
  have i: "inserted b = Some (newline_to_return s)" "newline_to_return s \<noteq> []"
    using assms(2,3) by (simp_all add: inserted_def text_input_def newline_to_return_def Let_def)
  have "\<not> fst (shouldIgnoreCompositionEnd t s (h\<lparr>isComposing := False\<rparr>))"
    using assms(5) by (simp add: shouldIgnoreCompositionEnd_def split: if_splits)
  then have "shouldIgnoreCompositionEnd t s (h\<lparr>isComposing := False\<rparr>) = (False, h\<lparr>isComposing := False\<rparr>)"
    by (auto simp: shouldIgnoreCompositionEnd_def split: if_splits)
  then have "handleCompositionEnd t (Some s) h =
      processPendingKeyAfterComposition (cleanupCompositionTextNodes (recordCompositionData t s (emit [Data s] (h\<lparr>isComposing := False\<rparr>))))"
    using assms(1,2) by (simp add: handleCompositionEnd_def some_text_def)
  with i assms show ?thesis
    by (auto simp: handleBeforeInput_def text_input_def insert_text_def ignore_defs record_defs swallow_def
        processPendingKeyAfterComposition_def cleanupCompositionTextNodes_def pending_def)
qed

lemma input_then_composition:
  assumes "ready h" "s \<noteq> []" "text_input s b" "t' - t < 100"
    "\<not> fst (shouldIgnoreBeforeInput t (newline_to_return s) h)" "\<not> fst (shouldIgnoreBeforeInputFromComposition t s h)"
  shows "received (handleCompositionEnd t' (Some s) (handleBeforeInput c t b h)) = received h @ [newline_to_return s] @ pending h"
proof -
  have i: "inserted b = Some (newline_to_return s)" "newline_to_return s \<noteq> []"
    using assms(2,3) by (simp_all add: inserted_def text_input_def newline_to_return_def Let_def)
  define h1 where "h1 = snd (shouldIgnoreBeforeInput t (newline_to_return s) h)"
  have h1: "shouldIgnoreBeforeInput t (newline_to_return s) h = (False, h1)" using assms(5) by (simp add: h1_def prod_eq_iff)
  then have f: "isDisposed h1 = isDisposed h" "pendingKeyAfterComposition h1 = pendingKeyAfterComposition h"
    "received h1 = received h" "shouldIgnoreBeforeInputFromComposition t s h1 = (False, h1)"
    using assms(6) by (auto simp: shouldIgnoreBeforeInput_def shouldIgnoreBeforeInputFromComposition_def split: if_splits)
  have "handleBeforeInput c t b h = recordBeforeInputData t s (emit [Data (newline_to_return s)] (swallow h1))"
    using i assms(1-3) h1 f(4)
    by (simp add: handleBeforeInput_def ready_def text_input_def insert_text_def)
  with assms f show ?thesis
    by (simp add: handleCompositionEnd_def ready_def ignore_defs record_defs swallow_def pending_def
        processPendingKeyAfterComposition_def cleanupCompositionTextNodes_def)
qed

text \<open>
  C34. Text is delivered once. Browsers report one piece of text through two events. When the
  second comes less than 100 ms after the first, the program receives the text exactly once:
  for a plain character key and its \<open>beforeinput\<close>, for a paste and its \<open>insertFromPaste\<close> in either
  order (bracketed when the program asked for it), and for the end of a composition and its
  \<open>insertText\<close> in either order, followed by a key that waited for the composition. Two key
  reports 100 ms apart are two keys.
\<close>

theorem text_delivered_once:
  assumes "ready h" "\<not> compositionJustEnded h" "s \<noteq> []"
  shows "(t' - t < 100 \<and> plain_key c k \<and> dk_key k = s \<and> s \<noteq> [10] \<and> text_input s b \<longrightarrow>
      received (handleBeforeInput c t' b (handleKeyDown c t k h)) = received h @ [s]) \<and>
    (100 \<le> t' - t \<and> plain_key c k \<and> dk_key k = s \<and> s \<noteq> [10] \<and> text_input s b \<and>
      \<not> fst (shouldIgnoreBeforeInputFromComposition t' s h) \<longrightarrow>
      received (handleBeforeInput c t' b (handleKeyDown c t k h)) = received h @ [s, s]) \<and>
    (t' - t < 100 \<and> paste_input s b \<and> \<not> fst (shouldIgnorePasteEvent t s FromPaste h) \<longrightarrow>
      received (handleBeforeInput c t' b (handlePaste c t (Some s) h)) = received h @ [pasted c s]) \<and>
    (t' - t < 100 \<and> paste_input s b \<and> \<not> fst (shouldIgnorePasteEvent t s FromBeforeInput h) \<longrightarrow>
      received (handlePaste c t' (Some s) (handleBeforeInput c t b h)) = received h @ [pasted c s]) \<and>
    (t' - t < 100 \<and> text_input s b \<and> \<not> fst (shouldIgnoreCompositionEnd t s h) \<longrightarrow>
      received (handleBeforeInput c t' b (handleCompositionEnd t (Some s) h)) = received h @ [s] @ pending h) \<and>
    (t' - t < 100 \<and> text_input s b \<and> \<not> fst (shouldIgnoreBeforeInput t (newline_to_return s) h) \<and>
      \<not> fst (shouldIgnoreBeforeInputFromComposition t s h) \<longrightarrow>
      received (handleCompositionEnd t' (Some s) (handleBeforeInput c t b h)) = received h @ [newline_to_return s] @ pending h)"
proof -
  have "\<not> isDisposed h" using assms(1) by (simp add: ready_def)
  then show ?thesis
    using assms key_then_input [of h c k b t' t] key_then_late_input [of h c k b t' t] paste_then_input [of h s b t' t c]
      input_then_paste [of h s b t' t c] composition_then_input [of h s b t' t c] input_then_composition [of h s b t' t c]
    by blast
qed

section \<open>A handler on a concrete instance\<close>

definition still_core :: "unit key_api" where
  "still_core = \<lparr>inst = \<lparr>bytes_of = \<lambda>_. replicate 64 1, set_bytes = \<lambda>_ _. (), generation = \<lambda>_. 0,
       alloc = \<lambda>_ _. (8, ()), free = \<lambda>_ _ _. ()\<rparr>,
     encoder_new = \<lambda>_ _. (0, ()), encoder_free = \<lambda>_ _. (), encoder_setopt = \<lambda>_ _ _ _. (),
     encoder_encode = \<lambda>_ _ _ _ _ _. (0, ()), event_new = \<lambda>_ _. (0, ()), event_free = \<lambda>_ _. (),
     event_set_action = \<lambda>_ _ _. (), event_set_key = \<lambda>_ _ _. (), event_set_mods = \<lambda>_ _ _. (),
     event_set_utf8 = \<lambda>_ _ _ _. (), text_encode = \<lambda>s. map ucast s, text_decode = \<lambda>bs. map ucast bs\<rparr>"

definition demo_input_config :: "unit input_config" where
  "demo_input_config = \<lparr>api = still_core, has_onKey = False, custom = None, getMode = None, onCopy = None,
     inputElement = Some InputElement,
     mouseConfig = Some \<lparr>hasMouseTracking = True, hasSgrMouseMode = Some True, cell_width = 10, cell_height = 20,
       canvas_left = 5, canvas_top = 5\<rparr>\<rparr>"

definition demo_handler :: "unit input_handler" where
  "demo_handler = \<lparr>isComposing = False, compositionJustEnded = False, pendingKeyAfterComposition = None,
     isDisposed = False, mouseButtonsPressed = 0, lastKeyDownData = None, lastKeyDownTime = 0, lastPasteData = None,
     lastPasteTime = 0, lastPasteSource = None, lastCompositionData = None, lastCompositionTime = 0,
     lastBeforeInputData = None, lastBeforeInputTime = 0, encoder = 1, wasm = \<lparr>world = (), vars = \<lambda>_. 0, log = []\<rparr>,
     listeners = attached demo_input_config, childNodes = [], out = []\<rparr>"

definition demo_key :: key_down where
  "demo_key = \<lparr>shiftKey = False, ctrlKey = False, altKey = False, metaKey = False, dk_key = js ''a'', dk_code = ''KeyA'',
     dk_composing = False, dk_keyCode = 65\<rparr>"

theorem text_delivered_once_witness:
  "received (handleBeforeInput demo_input_config 40 \<lparr>inputType = ''insertText'', bi_data = Some (js ''a''), bi_composing = False\<rparr>
     (handleKeyDown demo_input_config 10 demo_key demo_handler)) = [js ''a''] \<and>
   received (handlePaste demo_input_config 40 (Some (js ''ls''))
     (handleBeforeInput demo_input_config 10 \<lparr>inputType = ''insertFromPaste'', bi_data = Some (js ''ls''), bi_composing = False\<rparr>
       demo_handler)) = [js ''ls'']"
proof
  have r: "ready demo_handler" "\<not> compositionJustEnded demo_handler" "received demo_handler = []"
    by (simp_all add: ready_def demo_handler_def received_def)
  have k: "plain_key demo_input_config demo_key" "dk_key demo_key = js ''a''" "js ''a'' \<noteq> [10]"
    by (simp_all add: plain_key_def demo_key_def demo_input_config_def js_def)
  have n: "js ''a'' \<noteq> []" "js ''ls'' \<noteq> []" by (simp_all add: js_def)
  let ?b = "\<lparr>inputType = ''insertText'', bi_data = Some (js ''a''), bi_composing = False\<rparr>"
  have b: "text_input (js ''a'') ?b" by (simp add: text_input_def)
  show "received (handleBeforeInput demo_input_config 40 ?b (handleKeyDown demo_input_config 10 demo_key demo_handler)) = [js ''a'']"
    using text_delivered_once [OF r(1,2) n(1), of 40 10 demo_input_config demo_key ?b] k b r(3) by simp
  let ?p = "\<lparr>inputType = ''insertFromPaste'', bi_data = Some (js ''ls''), bi_composing = False\<rparr>"
  have p: "paste_input (js ''ls'') ?p" "\<not> fst (shouldIgnorePasteEvent 10 (js ''ls'') FromBeforeInput demo_handler)"
    "pasted demo_input_config (js ''ls'') = js ''ls''"
    by (simp_all add: paste_input_def shouldIgnorePasteEvent_def some_text_def demo_handler_def pasted_def mode_def
        demo_input_config_def)
  show "received (handlePaste demo_input_config 40 (Some (js ''ls'')) (handleBeforeInput demo_input_config 10 ?p demo_handler)) = [js ''ls'']"
    using text_delivered_once [OF r(1,2) n(2), of 40 10 demo_input_config demo_key ?p] p r(3) by simp
qed

text \<open>
  Nothing in the pasted text is quoted: text that contains the closing bracket ends the bracketed
  paste early, and the rest reaches the program as if it had been typed.
\<close>

lemma paste_bracket_escape:
  "mode c 2004 \<Longrightarrow> pasted c (esc ''[201~'' @ s) = esc ''[200~'' @ esc ''[201~'' @ s @ esc ''[201~''"
  by (simp add: pasted_def)

section \<open>Mouse reports\<close>

definition digit16 :: "16 word \<Rightarrow> bool" where
  "digit16 u = (48 \<le> unat u \<and> unat u \<le> 57)"

definition number16 :: "jstr \<Rightarrow> nat" where
  "number16 s = foldl (\<lambda>v u. 10 * v + (unat u - 48)) 0 s"

text \<open>A reader of \<open>ESC [ < b ; x ; y M|m\<close> and one of \<open>ESC [ M b x y\<close>.\<close>

definition split_number :: "jstr \<Rightarrow> nat \<times> jstr" where
  "split_number s = (number16 (takeWhile digit16 s), dropWhile digit16 s)"

definition decode_sgr :: "jstr \<Rightarrow> (nat \<times> nat \<times> nat \<times> bool) option" where
  "decode_sgr s =
     (if take 3 s \<noteq> esc ''[<'' then None
      else
        let (b, s1) = split_number (drop 3 s); (x, s2) = split_number (tl s1); (y, s3) = split_number (tl s2)
        in if take 1 s1 = js '';'' \<and> take 1 s2 = js '';'' \<and> (s3 = js ''M'' \<or> s3 = js ''m'')
           then Some (b, x, y, s3 = js ''m'') else None)"

definition decode_x10 :: "jstr \<Rightarrow> (nat \<times> nat \<times> nat) option" where
  "decode_x10 s =
     (if take 3 s = esc ''[M'' \<and> length s = 6
      then Some (unat (s ! 3) - 32, unat (s ! 4) - 32, unat (s ! 5) - 32) else None)"

lemma unat_small16: "n < 65536 \<Longrightarrow> unat (word_of_nat n :: 16 word) = n"
  by (simp add: unat_of_nat)

lemma unat_digit:
  assumes "n < 10"
  shows "unat (word_of_nat (of_char (digit n)) :: 16 word) = 48 + n"
proof -
  have "of_char (digit n) = 48 + n" using assms by (simp add: digit_def of_char_of)
  then show ?thesis using assms unat_small16 [of "48 + n"] by simp
qed

lemma dec_digits: "list_all digit16 (js (dec n))"
proof (induction n rule: dec.induct)
  case (1 n)
  have d: "digit16 (word_of_nat (of_char (digit m)))" if "m < 10" for m
    using unat_digit [OF that] that by (simp add: digit16_def)
  show ?case
  proof (cases "n < 10")
    case True
    then show ?thesis using d by (simp add: dec.simps [of n] js_def)
  next
    case False
    have "list_all digit16 (js (dec n)) = (list_all digit16 (js (dec (n div 10))) \<and> digit16 (word_of_nat (of_char (digit (n mod 10)))))"
      using False by (simp add: dec.simps [of n] js_def)
    then show ?thesis using 1 False d [of "n mod 10"] by simp
  qed
qed

lemma number16_dec: "number16 (js (dec n)) = n"
proof (induction n rule: dec.induct)
  case (1 n)
  show ?case
  proof (cases "n < 10")
    case True
    then show ?thesis by (simp add: dec.simps [of n] js_def number16_def unat_digit)
  next
    case False
    then have "number16 (js (dec n)) = 10 * number16 (js (dec (n div 10))) + n mod 10"
      using unat_digit [of "n mod 10"] by (simp add: dec.simps [of n] js_def number16_def)
    also have "\<dots> = n" using 1 False by simp
    finally show ?thesis .
  qed
qed

lemma split_number_dec: "\<not> digit16 u \<Longrightarrow> split_number (js (dec n) @ u # s) = (n, u # s)"
  using dec_digits [of n]
  by (simp add: split_number_def number16_dec takeWhile_append2 dropWhile_append2 list_all_iff)

lemma decode_sgr_encode: "decode_sgr (encodeMouseSGR A g I Q C) = Some (A + C, g, I, Q)"
proof -
  let ?fin = "(if Q then 109 else 77) :: 16 word"
  have nd: "\<not> digit16 59" "\<not> digit16 ?fin" by (simp_all add: digit16_def)
  have e: "encodeMouseSGR A g I Q C = esc ''[<'' @ js (dec (A + C)) @ 59 # js (dec g) @ 59 # js (dec I) @ [?fin]"
    by (simp add: encodeMouseSGR_def esc_def js_def)
  have three: "take 3 (esc ''[<'' @ r) = esc ''[<''" "drop 3 (esc ''[<'' @ r) = r" for r
    by (simp_all add: esc_def js_def)
  have lit: "js '';'' = [59]" "js ''M'' = [77]" "js ''m'' = [109]" by (simp_all add: js_def)
  show ?thesis
    unfolding e decode_sgr_def three lit using nd by (simp add: split_number_dec)
qed

lemma decode_x10_encode:
  assumes "A + C \<le> 223" "g \<le> 223" "I \<le> 223"
  shows "decode_x10 (encodeMouseX10 A g I C) = Some (A + C, g, I)"
proof -
  have u: "unat (word_of_nat n :: 16 word) = n" if "n \<le> 255" for n :: nat
    using that by (intro unat_small16) simp
  have m: "min (g + 32) 255 = g + 32" "min (I + 32) 255 = I + 32" using assms by simp_all
  have e: "encodeMouseX10 A g I C = esc ''[M'' @ [word_of_nat (A + C + 32), word_of_nat (g + 32), word_of_nat (I + 32)]"
    by (simp only: encodeMouseX10_def m)
  have "esc ''[M'' = [27, 91, 77]" by (simp add: esc_def js_def)
  then show ?thesis
    unfolding e decode_x10_def using assms u [of "A + C + 32"] u [of "g + 32"] u [of "I + 32"]
    by (simp add: numeral_eq_Suc del: of_nat_add)
qed

lemma getMouseModifiers_cases: "getMouseModifiers ev \<in> {0, 4, 8, 12, 16, 20, 24, 28}"
  by (simp add: getMouseModifiers_def flag_def)

lemma modifiers_apart:
  assumes "b AND 28 = 0"
  shows "(b + getMouseModifiers ev) AND 28 = getMouseModifiers ev"
proof -
  let ?m = "getMouseModifiers ev"
  have m: "?m AND 28 = ?m" using getMouseModifiers_cases [of ev] by auto
  then have "b AND ?m = 0" using assms by (metis and.assoc and.commute and_zero_eq)
  then have "b + ?m = b OR ?m" by (rule disjunctive_add_eq_or)
  moreover have "(b OR ?m) AND 28 = (b AND 28) OR (?m AND 28)"
    by (auto simp: bit_eq_iff bit_and_iff bit_or_iff)
  ultimately show ?thesis using assms m by simp
qed

text \<open>The cell of a pixel at or after the edge of the canvas.\<close>

lemma floor_cell:
  fixes x w :: rat
  assumes "0 < w" "0 \<le> x"
  shows "of_nat (nat (max 1 (\<lfloor>x / w\<rfloor> + 1)) - 1) * w \<le> x \<and> x < of_nat (nat (max 1 (\<lfloor>x / w\<rfloor> + 1))) * w"
proof -
  have n: "0 \<le> \<lfloor>x / w\<rfloor>" using assms by simp
  define k where "k = nat \<lfloor>x / w\<rfloor>"
  have e: "nat (max 1 (\<lfloor>x / w\<rfloor> + 1)) = Suc k" using n unfolding k_def by linarith
  have kf: "of_nat k = (of_int \<lfloor>x / w\<rfloor> :: rat)" using n by (simp add: k_def)
  have "of_nat k \<le> x / w" "x / w < of_nat k + 1" unfolding kf by linarith+
  then show ?thesis using assms(1) unfolding e by (simp add: field_simps)
qed


definition demo_mouse :: mouse_event where
  "demo_mouse = \<lparr>shiftKey = True, ctrlKey = False, altKey = False, metaKey = False, clientX = 27, clientY = 30,
     button = 0, deltaY = 0\<rparr>"


text \<open>
  The browser's fourth extra button has the bit of the shift key, and moving with no button down is
  reported like dragging with the first one.
\<close>

lemma fifth_button_is_shift: "encodeMouseSGR 4 x y r 0 = encodeMouseSGR 0 x y r 4"
  by (simp add: encodeMouseSGR_def)

lemma hover_is_drag: "motion_button 0 = motion_button 1"
  by (simp add: motion_button_def)

section \<open>Disposal\<close>

text \<open>Disposal detaches every listener that was attached and leaves an inert handler.\<close>

lemma input_dispose_inert:
  assumes "input_new c nodes w = Inr h0" "listeners h = listeners h0"
  shows "listeners (input_dispose c (h\<lparr>isDisposed := False\<rparr>)) = []"
    and "isDisposed g \<Longrightarrow> handleKeyDown c t k g = g \<and> handlePaste c t x g = g \<and> handleBeforeInput c t b g = g \<and>
      handleCompositionStart g = g \<and> handleCompositionEnd t x g = g \<and> handleMouseDown c e g = g \<and>
      handleMouseUp c e g = g \<and> handleMouseMove c e g = g \<and> handleWheel c e g = g \<and> input_dispose c g = g"
proof -
  have "listeners h0 = attached c"
    using assms(1) by (auto simp: input_new_def attach_def split: prod.splits sum.splits)
  then show "listeners (input_dispose c (h\<lparr>isDisposed := False\<rparr>)) = []"
    using assms(2) by (simp add: input_dispose_def)
qed (simp add: handleKeyDown_def handlePaste_def handleBeforeInput_def handleCompositionStart_def
    handleCompositionEnd_def handleMouseDown_def handleMouseUp_def handleMouseMove_def handleWheel_def input_dispose_def)

text \<open>The encoder the constructor made is not given back.\<close>

lemma input_dispose_keeps_encoder:
  assumes "input_new c nodes w = Inr h"
  shows "wasm (input_dispose c h) = wasm h \<and> owes w {#(Handle ''encoder'', encoder h)#} (wasm (input_dispose c h))"
proof -
  obtain w' where e: "encoder_ctor (api c) w = (Inr (encoder h), w')" "wasm h = w'"
    using assms by (auto simp: input_new_def attach_def split: prod.splits sum.splits)
  then show ?thesis using encoder_ctor_owes [OF e(1)] by (simp add: input_dispose_def)
qed

end
