(* ===== verification/Gw_Selection.thy ===== *)
theory Gw_Selection
  imports Gw_Buffer
begin

text \<open>
  The class \<open>SelectionManager\<close> of \<open>ghostty-web.js\<close>: selections by mouse, by word, by line and by the
  xterm-compatible calls, their highlighted part and their text. Positions are a column and an
  absolute row, counted from the first history line. What the class reads of the terminal, the
  renderer and the core at one moment is the record \<open>sel_env\<close>; rendering is not requested
  (\<open>requestRender\<close> is empty in the source).
\<close>

section \<open>Surroundings and state\<close>

record sel_env =
  se_scrollback :: int
  se_viewportY :: rat
  se_cols :: int
  se_rows :: int
  se_tcols :: int
  se_trows :: int
  se_history :: "int \<Rightarrow> cell list option"
  se_screen :: "int \<Rightarrow> cell list option"
  se_history_text :: "int \<Rightarrow> int \<Rightarrow> jstr"
  se_screen_text :: "int \<Rightarrow> int \<Rightarrow> jstr"
  se_width :: rat
  se_height :: rat

datatype sel_effect =
  SelectionChanged | Copied jstr | FocusParent | ScrollLines int | SetInterval | ClearInterval | TextareaValue jstr
  | Thrown js_error

record selection =
  selectionStart :: "(int \<times> int) option"
  selectionEnd :: "(int \<times> int) option"
  isSelecting :: bool
  mouseDownX :: rat
  mouseDownY :: rat
  dragThresholdMet :: bool
  mouseDownInside :: "bool option"
  dirtySelectionRows :: "int list"
  autoScrollInterval :: bool
  autoScrollDirection :: int
  effects :: "sel_effect list"

definition selection_new :: selection where
  "selection_new = \<lparr>selectionStart = None, selectionEnd = None, isSelecting = False, mouseDownX = 0, mouseDownY = 0,
     dragThresholdMet = False, mouseDownInside = None, dirtySelectionRows = [], autoScrollInterval = False,
     autoScrollDirection = 0, effects = []\<rparr>"

definition note_eff :: "sel_effect \<Rightarrow> selection \<Rightarrow> selection" where
  "note_eff e s = s\<lparr>effects := effects s @ [e]\<rparr>"

section \<open>Rows\<close>

definition getViewportY :: "sel_env \<Rightarrow> int" where
  "getViewportY e = max 0 \<lfloor>se_viewportY e\<rfloor>"

definition viewportRowToAbsolute :: "sel_env \<Rightarrow> int \<Rightarrow> int" where
  "viewportRowToAbsolute e A = se_scrollback e + A - getViewportY e"

definition absoluteRowToViewport :: "sel_env \<Rightarrow> int \<Rightarrow> int" where
  "absoluteRowToViewport e A = A - se_scrollback e + getViewportY e"

definition line_at :: "sel_env \<Rightarrow> int \<Rightarrow> cell list option" where
  "line_at e i = (if i < se_scrollback e then se_history e i else se_screen e (i - se_scrollback e))"

text \<open>The ends of a selection in reading order.\<close>

definition ordered :: "int \<times> int \<Rightarrow> int \<times> int \<Rightarrow> (int \<times> int) \<times> (int \<times> int)" where
  "ordered p q =
     (case (p, q) of ((a, g), (i, r)) \<Rightarrow> if g > r \<or> (g = r \<and> a > i) then (q, p) else (p, q))"

section \<open>Text\<close>

definition cell_in :: "cell list \<Rightarrow> int \<Rightarrow> cell option" where
  "cell_in o' k = (if 0 \<le> k \<and> k < int (length o') then Some (o' ! nat k) else None)"

text \<open>The text of one cell; an empty or missing cell is a blank.\<close>

definition cell_text :: "sel_env \<Rightarrow> int \<Rightarrow> int \<Rightarrow> cell \<Rightarrow> jstr result" where
  "cell_text e i k a =
     (if grapheme_len a > 0
      then Inr (if i < se_scrollback e then se_history_text e i k else se_screen_text e (i - se_scrollback e) k)
      else if codepoint a < 0 \<or> codepoint a > 1114111 then Inl Range_Error
      else Inr (utf16 (nat (codepoint a))))"

definition blank_text :: "jstr \<Rightarrow> bool" where
  "blank_text s = list_all js_space16 s"

text \<open>The text of columns of a row so far, and the length of it up to its last visible cell.\<close>

fun row_cells :: "sel_env \<Rightarrow> int \<Rightarrow> cell list \<Rightarrow> int list \<Rightarrow> jstr \<times> int \<Rightarrow> (jstr \<times> int) result" where
  "row_cells e i o' [] td = Inr td"
| "row_cells e i o' (k # ks) (t, d) =
     (case cell_in o' k of
        Some a \<Rightarrow>
          if codepoint a \<noteq> 0
          then and_then (cell_text e i k a) (\<lambda>G.
                 let t' = t @ G in row_cells e i o' ks (t', if blank_text G then d else int (length t')))
          else row_cells e i o' ks (t @ [32], d)
      | None \<Rightarrow> row_cells e i o' ks (t @ [32], d))"

definition row_text :: "sel_env \<Rightarrow> int \<Rightarrow> cell list \<Rightarrow> int \<Rightarrow> int \<Rightarrow> jstr result" where
  "row_text e i o' s w =
     and_then (row_cells e i o' [s..w] ([], -1)) (\<lambda>(t, d). Inr (if d \<ge> 0 then take (nat d) t else []))"

text \<open>The rows of a selection from the start \<open>(a, g)\<close> to the end \<open>(c, r)\<close>; a row that cannot be read is left out.\<close>

fun rows_text :: "sel_env \<Rightarrow> int \<times> int \<Rightarrow> int \<times> int \<Rightarrow> int list \<Rightarrow> jstr result" where
  "rows_text e p q [] = Inr []"
| "rows_text e p q (i # is) =
     (case line_at e i of
        None \<Rightarrow> rows_text e p q is
      | Some o' \<Rightarrow>
          and_then (row_text e i o' (if i = snd p then fst p else 0) (if i = snd q then fst q else int (length o') - 1)) (\<lambda>t.
          and_then (rows_text e p q is) (\<lambda>rest. Inr (t @ (if i < snd q then [10] else []) @ rest))))"

definition getSelection :: "sel_env \<Rightarrow> selection \<Rightarrow> jstr result" where
  "getSelection e s =
     (case (selectionStart s, selectionEnd s) of
        (Some a, Some b) \<Rightarrow> (let (p, q) = ordered a b in rows_text e p q [snd p..snd q])
      | _ \<Rightarrow> Inr [])"

definition hasSelection :: "selection \<Rightarrow> bool" where
  "hasSelection s =
     (\<not> (selectionStart s = None \<or> selectionEnd s = None \<or> (isSelecting s \<and> \<not> dragThresholdMet s)))"

section \<open>The highlighted part\<close>

record coords =
  startCol :: int
  startRow :: int
  endCol :: int
  endRow :: int

definition normalizeSelection :: "sel_env \<Rightarrow> selection \<Rightarrow> coords option" where
  "normalizeSelection e s =
     (case (selectionStart s, selectionEnd s) of
        (Some a, Some b) \<Rightarrow>
          (let (p, q) = ordered a b; C = absoluteRowToViewport e (snd p); E = absoluteRowToViewport e (snd q);
               o' = se_rows e - 1
           in if E < 0 \<or> C > o' then None
              else Some \<lparr>startCol = (if C < 0 then 0 else fst p), startRow = (if C < 0 then 0 else C),
                         endCol = (if E > o' then se_cols e - 1 else fst q), endRow = (if E > o' then o' else E)\<rparr>)
      | _ \<Rightarrow> None)"

definition getSelectionCoords :: "sel_env \<Rightarrow> selection \<Rightarrow> coords option" where
  "getSelectionCoords = normalizeSelection"

definition getSelectionPosition :: "sel_env \<Rightarrow> selection \<Rightarrow> ((int \<times> int) \<times> (int \<times> int)) option" where
  "getSelectionPosition e s =
     map_option (\<lambda>A. ((startCol A, startRow A), (endCol A, endRow A))) (normalizeSelection e s)"

definition markCurrentSelectionDirty :: "sel_env \<Rightarrow> selection \<Rightarrow> selection" where
  "markCurrentSelectionDirty e s =
     (case normalizeSelection e s of
        None \<Rightarrow> s
      | Some A \<Rightarrow> s\<lparr>dirtySelectionRows := List.union (dirtySelectionRows s) [startRow A..endRow A]\<rparr>)"

definition clearDirtySelectionRows :: "selection \<Rightarrow> selection" where
  "clearDirtySelectionRows s = s\<lparr>dirtySelectionRows := []\<rparr>"

definition clearSelection :: "sel_env \<Rightarrow> selection \<Rightarrow> selection" where
  "clearSelection e s =
     (if \<not> hasSelection s then s
      else (markCurrentSelectionDirty e s)\<lparr>selectionStart := None, selectionEnd := None, isSelecting := False\<rparr>)"

definition deselect :: "sel_env \<Rightarrow> selection \<Rightarrow> selection" where
  "deselect e s = note_eff SelectionChanged (clearSelection e s)"

section \<open>Selecting by call\<close>

definition selectAll :: "sel_env \<Rightarrow> selection \<Rightarrow> selection" where
  "selectAll e s =
     note_eff SelectionChanged
       (s\<lparr>selectionStart := Some (0, getViewportY e),
          selectionEnd := Some (se_cols e - 1, getViewportY e + se_rows e - 1)\<rparr>)"

text \<open>The loop of \<open>select\<close> that carries the end over to the next rows; \<^term>\<open>None\<close> is not returning.\<close>

partial_function (option) wrap_end :: "int \<Rightarrow> int \<Rightarrow> int \<Rightarrow> (int \<times> int) option" where
  "wrap_end cols E C = (if E \<ge> cols then wrap_end cols (E - cols) (C + 1) else Some (E, C))"

declare wrap_end.simps [code]

definition select :: "num_arg \<Rightarrow> num_arg \<Rightarrow> num_arg \<Rightarrow> sel_env \<Rightarrow> selection \<Rightarrow> selection option" where
  "select A g I e s =
     (case (A, g, I) of
        (Some a, Some r, Some n) \<Rightarrow>
          if n \<le> 0 then Some (clearSelection e s)
          else
            let row = max 0 (min \<lfloor>r\<rfloor> (se_rows e - 1)); col = max 0 (min \<lfloor>a\<rfloor> (se_cols e - 1))
            in case wrap_end (se_cols e) (col + \<lfloor>n\<rfloor> - 1) row of
                 None \<Rightarrow> None
               | Some (E, C) \<Rightarrow>
                   Some (note_eff SelectionChanged
                     (s\<lparr>selectionStart := Some (col, getViewportY e + row),
                        selectionEnd := Some (E, getViewportY e + min C (se_rows e - 1))\<rparr>))
      | _ \<Rightarrow> Some s)"

definition selectLines :: "num_arg \<Rightarrow> num_arg \<Rightarrow> sel_env \<Rightarrow> selection \<Rightarrow> selection" where
  "selectLines A g e s =
     (case (A, g) of
        (Some a, Some b) \<Rightarrow>
          let a' = max 0 (min \<lfloor>a\<rfloor> (se_rows e - 1)); b' = max 0 (min \<lfloor>b\<rfloor> (se_rows e - 1));
              lo = min a' b'; hi = max a' b'
          in note_eff SelectionChanged
               (s\<lparr>selectionStart := Some (0, viewportRowToAbsolute e lo),
                  selectionEnd := Some (se_cols e - 1, viewportRowToAbsolute e hi)\<rparr>)
      | _ \<Rightarrow> s)"

section \<open>Copying\<close>

text \<open>
  What the browser offers and how it answers: the clipboard, the item interface, whether making an
  item throws, whether writing it is refused, and the same for plain text.
\<close>

record clipboard =
  cb_present :: bool
  cb_item :: bool
  cb_item_throws :: bool
  cb_item_refused :: bool
  cb_text :: bool
  cb_text_refused :: bool

datatype attempt = ByItem | ByWriteText | ByExecCommand

definition copyWithWriteText :: "clipboard \<Rightarrow> attempt list" where
  "copyWithWriteText b =
     (if cb_present b \<and> cb_text b then ByWriteText # (if cb_text_refused b then [ByExecCommand] else []) else [ByExecCommand])"

definition copyToClipboard :: "clipboard \<Rightarrow> attempt list" where
  "copyToClipboard b =
     (if cb_present b \<and> cb_item b \<and> \<not> cb_item_throws b
      then ByItem # (if cb_item_refused b then copyWithWriteText b else [])
      else if cb_present b \<and> cb_text b then ByWriteText # (if cb_text_refused b then [ByExecCommand] else [])
      else [ByExecCommand])"

definition copySelection :: "sel_env \<Rightarrow> selection \<Rightarrow> bool result \<times> selection" where
  "copySelection e s =
     (if \<not> hasSelection s then (Inr False, s)
      else case getSelection e s of
             Inl x \<Rightarrow> (Inl x, s)
           | Inr A \<Rightarrow> if A \<noteq> [] then (Inr True, note_eff (Copied A) s) else (Inr False, s))"

text \<open>Copying after a gesture, with the event.\<close>

definition copy_and_tell :: "sel_env \<Rightarrow> selection \<Rightarrow> selection" where
  "copy_and_tell e s =
     (case getSelection e s of
        Inl x \<Rightarrow> note_eff (Thrown x) s
      | Inr Q \<Rightarrow> if Q \<noteq> [] then note_eff SelectionChanged (note_eff (Copied Q) s) else s)"

section \<open>Automatic scrolling\<close>

definition AUTO_SCROLL_EDGE_SIZE :: rat where
  "AUTO_SCROLL_EDGE_SIZE = 30"

definition AUTO_SCROLL_SPEED :: int where
  "AUTO_SCROLL_SPEED = 3"

definition stopAutoScroll :: "selection \<Rightarrow> selection" where
  "stopAutoScroll s =
     (if autoScrollInterval s then note_eff ClearInterval (s\<lparr>autoScrollInterval := False\<rparr>) else s)\<lparr>autoScrollDirection := 0\<rparr>"

definition startAutoScroll :: "int \<Rightarrow> selection \<Rightarrow> selection" where
  "startAutoScroll A s =
     (if autoScrollInterval s \<and> autoScrollDirection s = A then s
      else note_eff SetInterval ((stopAutoScroll s)\<lparr>autoScrollDirection := A, autoScrollInterval := True\<rparr>))"

definition updateAutoScroll :: "rat \<Rightarrow> rat \<Rightarrow> selection \<Rightarrow> selection" where
  "updateAutoScroll A g s =
     (if A < AUTO_SCROLL_EDGE_SIZE then startAutoScroll (- 1) s
      else if A > g - AUTO_SCROLL_EDGE_SIZE then startAutoScroll 1 s
      else stopAutoScroll s)"

text \<open>One tick of the interval; \<open>e\<close> is what is seen after the terminal has scrolled.\<close>

definition autoScrollTick :: "sel_env \<Rightarrow> selection \<Rightarrow> selection" where
  "autoScrollTick e s =
     (if \<not> isSelecting s then stopAutoScroll s
      else
        let s1 = note_eff (ScrollLines (AUTO_SCROLL_SPEED * autoScrollDirection s)) s
        in case selectionEnd s1 of
             None \<Rightarrow> s1
           | Some (_, row) \<Rightarrow>
               if autoScrollDirection s1 < 0
               then (let C = viewportRowToAbsolute e 0
                     in if C < row then s1\<lparr>selectionEnd := Some (0, C)\<rparr> else s1)
               else (let C = viewportRowToAbsolute e (se_rows e - 1)
                     in if C > row then s1\<lparr>selectionEnd := Some (se_cols e - 1, C)\<rparr> else s1))"

section \<open>Mouse\<close>

definition sel_pixelToCell :: "sel_env \<Rightarrow> rat \<Rightarrow> rat \<Rightarrow> int \<times> int" where
  "sel_pixelToCell e A g =
     (max 0 (min \<lfloor>A / se_width e\<rfloor> (se_tcols e - 1)), max 0 (min \<lfloor>g / se_height e\<rfloor> (se_trows e - 1)))"

definition end_at :: "sel_env \<Rightarrow> rat \<Rightarrow> rat \<Rightarrow> (int \<times> int)" where
  "end_at e x y = (let (col, row) = sel_pixelToCell e x y in (col, viewportRowToAbsolute e row))"

definition canvasMouseDown :: "sel_env \<Rightarrow> nat \<Rightarrow> rat \<Rightarrow> rat \<Rightarrow> selection \<Rightarrow> selection" where
  "canvasMouseDown e button x y s =
     (if button \<noteq> 0 then s
      else
        let s1 = note_eff FocusParent s; s2 = (if hasSelection s1 then clearSelection e s1 else s1)
        in s2\<lparr>selectionStart := Some (end_at e x y), selectionEnd := Some (end_at e x y), isSelecting := True,
              mouseDownX := x, mouseDownY := y, dragThresholdMet := False\<rparr>)"

definition below_threshold :: "sel_env \<Rightarrow> rat \<Rightarrow> rat \<Rightarrow> bool" where
  "below_threshold e dx dy = (dx * dx + dy * dy < (se_width e * (1 / 2)) * (se_width e * (1 / 2)))"

definition canvasMouseMove :: "sel_env \<Rightarrow> rat \<Rightarrow> rat \<Rightarrow> rat \<Rightarrow> selection \<Rightarrow> selection" where
  "canvasMouseMove e clientHeight x y s =
     (if \<not> isSelecting s then s
      else if \<not> dragThresholdMet s \<and> below_threshold e (x - mouseDownX s) (y - mouseDownY s) then s
      else
        let s1 = markCurrentSelectionDirty e (s\<lparr>dragThresholdMet := True\<rparr>)
        in updateAutoScroll y clientHeight (s1\<lparr>selectionEnd := Some (end_at e x y)\<rparr>))"

text \<open>The bounding rectangle of the canvas.\<close>

record rect =
  r_left :: rat
  r_right :: rat
  r_upper :: rat
  r_lower :: rat

definition canvasMouseLeave :: "rect \<Rightarrow> rat \<Rightarrow> selection \<Rightarrow> selection" where
  "canvasMouseLeave Q cy s =
     (if \<not> isSelecting s then s
      else if cy < r_upper Q then startAutoScroll (- 1) s
      else if cy > r_lower Q then startAutoScroll 1 s
      else s)"

definition canvasMouseEnter :: "selection \<Rightarrow> selection" where
  "canvasMouseEnter s = (if isSelecting s then stopAutoScroll s else s)"

definition documentMouseMove :: "sel_env \<Rightarrow> rect \<Rightarrow> rat \<Rightarrow> rat \<Rightarrow> selection \<Rightarrow> selection" where
  "documentMouseMove e Q cx cy s =
     (if \<not> isSelecting s then s
      else if \<not> dragThresholdMet s \<and>
        below_threshold e (cx - (r_left Q + mouseDownX s)) (cy - (r_upper Q + mouseDownY s)) then s
      else
        let s1 = s\<lparr>dragThresholdMet := True\<rparr>;
            C = max (r_left Q) (min cx (r_right Q)); E = max (r_upper Q) (min cy (r_lower Q))
        in if cx < r_left Q \<or> cx > r_right Q \<or> cy < r_upper Q \<or> cy > r_lower Q
           then
             (let s2 = (if cy < r_upper Q then startAutoScroll (- 1) s1
                        else if cy > r_lower Q then startAutoScroll 1 s1 else stopAutoScroll s1)
              in if autoScrollDirection s2 = 0
                 then (markCurrentSelectionDirty e s2)\<lparr>selectionEnd := Some (end_at e (C - r_left Q) (E - r_upper Q))\<rparr>
                 else s2)
           else s1)"

definition documentMouseDown :: "bool \<Rightarrow> selection \<Rightarrow> selection" where
  "documentMouseDown inside s = s\<lparr>mouseDownInside := Some inside\<rparr>"

definition mouseUp :: "sel_env \<Rightarrow> selection \<Rightarrow> selection" where
  "mouseUp e s =
     (if \<not> isSelecting s then s
      else
        let s1 = stopAutoScroll (s\<lparr>isSelecting := False\<rparr>)
        in if \<not> dragThresholdMet s1 then clearSelection e s1
           else if hasSelection s1 then copy_and_tell e s1 else s1)"

text \<open>A word is made of word characters and \<open>- . / ~ @ +\<close>.\<close>

definition word_char :: "int \<Rightarrow> bool" where
  "word_char n = ((48 \<le> n \<and> n \<le> 57) \<or> (65 \<le> n \<and> n \<le> 90) \<or> (97 \<le> n \<and> n \<le> 122) \<or> n \<in> {95, 45, 46, 47, 126, 64, 43})"

definition word_cell :: "cell option \<Rightarrow> bool" where
  "word_cell c = (case c of None \<Rightarrow> False | Some a \<Rightarrow> codepoint a \<noteq> 0 \<and> word_char (codepoint a))"

fun word_back :: "(nat \<Rightarrow> bool) \<Rightarrow> nat \<Rightarrow> nat" where
  "word_back ok 0 = 0"
| "word_back ok (Suc i) = (if ok i then word_back ok i else Suc i)"

fun word_forward :: "(nat \<Rightarrow> bool) \<Rightarrow> nat \<Rightarrow> nat list \<Rightarrow> nat" where
  "word_forward ok i [] = i"
| "word_forward ok i (k # ks) = (if ok k then word_forward ok k ks else i)"

definition getWordAtCell :: "sel_env \<Rightarrow> nat \<Rightarrow> int \<Rightarrow> (nat \<times> nat) option" where
  "getWordAtCell e A g =
     (case line_at e (viewportRowToAbsolute e g) of
        None \<Rightarrow> None
      | Some C \<Rightarrow>
          let ok = (\<lambda>k. word_cell (cell_in C (int k)))
          in if \<not> ok A then None else Some (word_back ok A, word_forward ok A [Suc A..<length C]))"

text \<open>The last column of a line that is neither empty nor a space.\<close>

definition last_visible :: "cell list \<Rightarrow> int" where
  "last_visible i =
     int (length (rev (dropWhile (\<lambda>a. codepoint a = 0 \<or> codepoint a = 32) (rev i)))) - 1"

definition canvasClick :: "sel_env \<Rightarrow> nat \<Rightarrow> rat \<Rightarrow> rat \<Rightarrow> selection \<Rightarrow> selection" where
  "canvasClick e detail x y s =
     (let (col, row) = sel_pixelToCell e x y; C = viewportRowToAbsolute e row
      in if detail = 2
         then (case getWordAtCell e (nat col) row of
                 None \<Rightarrow> s
               | Some (a, b) \<Rightarrow>
                   copy_and_tell e (s\<lparr>selectionStart := Some (int a, C), selectionEnd := Some (int b, C)\<rparr>))
         else if detail \<ge> 3
         then (case line_at e C of
                 None \<Rightarrow> s
               | Some i \<Rightarrow>
                   if last_visible i \<ge> 0
                   then copy_and_tell e (s\<lparr>selectionStart := Some (0, C), selectionEnd := Some (last_visible i, C)\<rparr>)
                   else s)
         else s)"

definition contextMenu :: "sel_env \<Rightarrow> selection \<Rightarrow> selection" where
  "contextMenu e s =
     (if hasSelection s
      then (case getSelection e s of Inl x \<Rightarrow> note_eff (Thrown x) s | Inr E \<Rightarrow> note_eff (TextareaValue E) s)
      else note_eff (TextareaValue []) s)"

definition documentClick :: "sel_env \<Rightarrow> bool \<Rightarrow> selection \<Rightarrow> selection" where
  "documentClick e inside s =
     (if isSelecting s \<or> mouseDownInside s = Some True then s
      else if inside then s
      else if hasSelection s then clearSelection e s else s)"

end
