(* ===== verification/Gw_Selection_Props.thy ===== *)
theory Gw_Selection_Props
  imports Gw_Selection
begin

text \<open>
  Correctness of selections: what is highlighted is the visible part of what is selected, in either
  direction of dragging; the calls that select by coordinates return and cover what they are asked
  for; words are maximal.
\<close>

section \<open>Rows\<close>

lemma rows_inverse [simp]:
  "absoluteRowToViewport e (viewportRowToAbsolute e y) = y"
  "viewportRowToAbsolute e (absoluteRowToViewport e r) = r"
  by (simp_all add: absoluteRowToViewport_def viewportRowToAbsolute_def)

text \<open>Reading order of positions, the column first in the pair.\<close>

definition pos_le :: "int \<times> int \<Rightarrow> int \<times> int \<Rightarrow> bool" where
  "pos_le p q = (snd p < snd q \<or> (snd p = snd q \<and> fst p \<le> fst q))"

lemma ordered_le: "ordered a b = (p, q) \<Longrightarrow> pos_le p q"
  by (auto simp: ordered_def pos_le_def split: prod.splits if_splits)

lemma ordered_swap: "ordered a b = ordered b a"
  by (auto simp: ordered_def split: prod.splits)

lemma ordered_between:
  "ordered a b = (p, q) \<Longrightarrow> (pos_le p x \<and> pos_le x q) = ((pos_le a x \<and> pos_le x b) \<or> (pos_le b x \<and> pos_le x a))"
  by (auto simp: ordered_def pos_le_def split: prod.splits if_splits)

definition highlighted :: "coords \<Rightarrow> int \<Rightarrow> int \<Rightarrow> bool" where
  "highlighted c x y =
     (startRow c \<le> y \<and> y \<le> endRow c \<and> (y = startRow c \<longrightarrow> startCol c \<le> x) \<and> (y = endRow c \<longrightarrow> x \<le> endCol c))"

lemma normalize_highlight:
  assumes "ordered a b = (p, q)" "selectionStart s = Some a" "selectionEnd s = Some b"
    "0 \<le> x" "x < se_cols e" "0 \<le> y" "y < se_rows e"
  shows "(\<exists>c. normalizeSelection e s = Some c \<and> highlighted c x y) =
    (pos_le p (x, viewportRowToAbsolute e y) \<and> pos_le (x, viewportRowToAbsolute e y) q)"
proof -
  let ?C = "absoluteRowToViewport e (snd p)" and ?E = "absoluteRowToViewport e (snd q)"
  have le: "pos_le p q" using assms(1) by (rule ordered_le)
  have r: "snd p < viewportRowToAbsolute e y \<longleftrightarrow> ?C < y" "snd p = viewportRowToAbsolute e y \<longleftrightarrow> ?C = y"
    "viewportRowToAbsolute e y < snd q \<longleftrightarrow> y < ?E" "viewportRowToAbsolute e y = snd q \<longleftrightarrow> y = ?E"
    by (auto simp: absoluteRowToViewport_def viewportRowToAbsolute_def)
  have n: "normalizeSelection e s = (if ?E < 0 \<or> ?C > se_rows e - 1 then None
      else Some \<lparr>startCol = (if ?C < 0 then 0 else fst p), startRow = (if ?C < 0 then 0 else ?C),
        endCol = (if ?E > se_rows e - 1 then se_cols e - 1 else fst q),
        endRow = (if ?E > se_rows e - 1 then se_rows e - 1 else ?E)\<rparr>)"
    using assms(1-3) by (simp add: normalizeSelection_def Let_def)
  have "?C \<le> ?E" using le by (auto simp: pos_le_def absoluteRowToViewport_def)
  show ?thesis
  proof (cases "?E < 0 \<or> ?C > se_rows e - 1")
    case True
    then show ?thesis using n assms(6,7) by (auto simp: pos_le_def r)
  next
    case False
    show ?thesis
      unfolding n using False assms(4-7)
      by (cases "?C < 0"; cases "?E > se_rows e - 1") (auto simp: pos_le_def r highlighted_def)
  qed
qed

text \<open>
  C36. Highlighting. Whichever end of the selection comes first, a cell of the viewport is
  highlighted exactly when its position in the buffer lies between the two ends in reading
  order; the highlighted rows lie in the viewport; and the text of the selection does not depend
  on the direction it was made in.
\<close>

theorem selection_highlight_exact:
  assumes "selectionStart s = Some a" "selectionEnd s = Some b"
    "0 \<le> x" "x < se_cols e" "0 \<le> y" "y < se_rows e"
  shows "(\<exists>c. normalizeSelection e s = Some c \<and> highlighted c x y) =
      ((pos_le a (x, viewportRowToAbsolute e y) \<and> pos_le (x, viewportRowToAbsolute e y) b) \<or>
       (pos_le b (x, viewportRowToAbsolute e y) \<and> pos_le (x, viewportRowToAbsolute e y) a)) \<and>
    (\<forall>c. normalizeSelection e s = Some c \<longrightarrow> 0 \<le> startRow c \<and> startRow c \<le> endRow c \<and> endRow c < se_rows e) \<and>
    getSelection e (s\<lparr>selectionStart := Some b, selectionEnd := Some a\<rparr>) = getSelection e s \<and>
    normalizeSelection e (s\<lparr>selectionStart := Some b, selectionEnd := Some a\<rparr>) = normalizeSelection e s"
proof (intro conjI allI impI)
  obtain p q where o: "ordered a b = (p, q)" by (cases "ordered a b")
  show "(\<exists>c. normalizeSelection e s = Some c \<and> highlighted c x y) =
      ((pos_le a (x, viewportRowToAbsolute e y) \<and> pos_le (x, viewportRowToAbsolute e y) b) \<or>
       (pos_le b (x, viewportRowToAbsolute e y) \<and> pos_le (x, viewportRowToAbsolute e y) a))"
    using normalize_highlight [OF o assms] ordered_between [OF o] by simp
  fix c
  assume c: "normalizeSelection e s = Some c"
  have "absoluteRowToViewport e (snd p) \<le> absoluteRowToViewport e (snd q)"
    using ordered_le [OF o] by (auto simp: pos_le_def absoluteRowToViewport_def)
  then show "0 \<le> startRow c" "startRow c \<le> endRow c" "endRow c < se_rows e"
    using c o assms by (auto simp: normalizeSelection_def Let_def split: if_splits)
qed (use assms ordered_swap [of a b] in \<open>simp_all add: getSelection_def normalizeSelection_def\<close>)

definition demo_sel_env :: sel_env where
  "demo_sel_env = \<lparr>se_scrollback = 4, se_viewportY = 1, se_cols = 5, se_rows = 3, se_tcols = 5, se_trows = 3,
     se_history = \<lambda>_. Some (demo_line ''old''), se_screen = \<lambda>_. Some (demo_line ''new''),
     se_history_text = \<lambda>_ _. [], se_screen_text = \<lambda>_ _. [], se_width = 10, se_height = 20\<rparr>"

theorem selection_highlight_exact_witness:
  "(\<exists>c. normalizeSelection demo_sel_env (selection_new\<lparr>selectionStart := Some (2, 5), selectionEnd := Some (1, 3)\<rparr>) = Some c \<and>
      highlighted c 4 1) \<and>
   getSelection demo_sel_env (selection_new\<lparr>selectionStart := Some (2, 5), selectionEnd := Some (1, 3)\<rparr>) =
     Inr (js ''ld'' @ [10] @ js ''new'' @ [10] @ js ''new'')"
proof -
  let ?s = "selection_new\<lparr>selectionStart := Some (2, 5), selectionEnd := Some (1, 3)\<rparr>"
  have "selectionStart ?s = Some (2, 5)" "selectionEnd ?s = Some (1, 3)" by simp_all
  moreover have "(0 :: int) \<le> 4" "4 < se_cols demo_sel_env" "(0 :: int) \<le> 1" "1 < se_rows demo_sel_env"
    by (simp_all add: demo_sel_env_def)
  ultimately have "(\<exists>c. normalizeSelection demo_sel_env ?s = Some c \<and> highlighted c 4 1) =
      ((pos_le (2, 5) (4, viewportRowToAbsolute demo_sel_env 1) \<and> pos_le (4, viewportRowToAbsolute demo_sel_env 1) (1, 3)) \<or>
       (pos_le (1, 3) (4, viewportRowToAbsolute demo_sel_env 1) \<and> pos_le (4, viewportRowToAbsolute demo_sel_env 1) (2, 5)))"
    using selection_highlight_exact [of ?s "(2, 5)" "(1, 3)" 4 demo_sel_env 1] by blast
  moreover have "viewportRowToAbsolute demo_sel_env 1 = 4"
    by (simp add: viewportRowToAbsolute_def getViewportY_def demo_sel_env_def)
  ultimately have "\<exists>c. normalizeSelection demo_sel_env ?s = Some c \<and> highlighted c 4 1" by (simp add: pos_le_def)
  moreover have "getSelection demo_sel_env ?s = Inr (js ''ld'' @ [10] @ js ''new'' @ [10] @ js ''new'')" by code_simp
  ultimately show ?thesis by blast
qed

section \<open>Selecting a length of text\<close>

lemma wrap_end_div:
  assumes "0 < cols" "0 \<le> E"
  shows "wrap_end cols E C = Some (E mod cols, C + E div cols)"
  using assms(2)
proof (induction "nat E" arbitrary: E C rule: less_induct)
  case less
  show ?case
  proof (cases "E \<ge> cols")
    case True
    then have "wrap_end cols (E - cols) (C + 1) = Some ((E - cols) mod cols, C + 1 + (E - cols) div cols)"
      using less assms(1) by simp
    moreover have "(E - cols) mod cols = E mod cols" by simp
    moreover have "(E - cols) div cols = E div cols - 1"
      using assms(1) div_add_self2 [of cols "E - cols"] by simp
    ultimately show ?thesis using True by (simp add: wrap_end.simps [of cols E C])
  next
    case False
    then show ?thesis using less.prems by (simp add: wrap_end.simps [of cols E C])
  qed
qed

lemma select_fits:
  fixes row w col n h k ec :: int
  assumes "0 < w" "k * w + ec = col + n - 1" "0 \<le> ec" "row * w + col + n \<le> h * w"
  shows "row + k \<le> h - 1 \<and> (row + k) * w + ec = row * w + col + n - 1"
proof
  show e: "(row + k) * w + ec = row * w + col + n - 1" using assms(2) by (simp add: algebra_simps)
  have "(row + k) * w < h * w" using e assms(3,4) by simp
  then show "row + k \<le> h - 1" using assms(1) by (simp add: mult_less_cancel_right)
qed

lemma select_overflows:
  fixes row w col n h k ec :: int
  assumes "0 < w" "k * w + ec = col + n - 1" "ec < w" "h * w < row * w + col + n"
  shows "h - 1 \<le> row + k"
proof -
  have "(row + k) * w + ec = row * w + col + n - 1" using assms(2) by (simp add: algebra_simps)
  then have "h * w \<le> (row + k) * w + ec" using assms(4) by linarith
  then have "h * w < (row + k + 1) * w" using assms(3) by (simp add: algebra_simps)
  then have "h < row + k + 1" using assms(1) by (simp add: mult_less_cancel_right)
  then show ?thesis by simp
qed



text \<open>
  \<open>select\<close> and \<open>selectAll\<close> take the distance scrolled back for the absolute row of the first visible
  line, while \<open>selectLines\<close> converts rows properly. With a scrollback longer than the screen,
  \<open>selectAll\<close> on an unscrolled terminal selects the oldest history and highlights nothing.
\<close>

lemma selectAll_selects_history:
  assumes "0 < se_cols e" "0 < se_rows e" "getViewportY e = 0" "se_rows e \<le> se_scrollback e"
  shows "normalizeSelection e (selectAll e s) = None \<and> selectionStart (selectAll e s) = Some (0, 0)"
  using assms
  by (simp add: normalizeSelection_def selectAll_def note_eff_def ordered_def absoluteRowToViewport_def)

lemma selectLines_visible:
  assumes "0 < se_cols e" "0 < se_rows e"
  shows "normalizeSelection e (selectLines (Some 0) (Some (of_int (se_rows e - 1))) e s) =
    Some \<lparr>startCol = 0, startRow = 0, endCol = se_cols e - 1, endRow = se_rows e - 1\<rparr>"
  using assms
  by (simp add: normalizeSelection_def selectLines_def note_eff_def ordered_def absoluteRowToViewport_def
      viewportRowToAbsolute_def Let_def)

section \<open>Words\<close>

lemma word_back_spec: "word_back ok i \<le> i \<and> (\<forall>k. word_back ok i \<le> k \<and> k < i \<longrightarrow> ok k) \<and>
    (word_back ok i > 0 \<longrightarrow> \<not> ok (word_back ok i - 1))"
  by (induction i) (auto simp: less_Suc_eq)

lemma word_forward_spec:
  "i < n \<Longrightarrow> word_forward ok i [Suc i..<n] = j \<Longrightarrow>
   i \<le> j \<and> j < n \<and> (\<forall>k. i < k \<and> k \<le> j \<longrightarrow> ok k) \<and> (Suc j < n \<longrightarrow> \<not> ok (Suc j))"
proof (induction "n - i" arbitrary: i)
  case (Suc m)
  show ?case
  proof (cases "Suc i < n \<and> ok (Suc i)")
    case True
    then have "word_forward ok (Suc i) [Suc (Suc i)..<n] = j" using Suc.prems by (simp add: upt_conv_Cons)
    then have ih: "Suc i \<le> j \<and> j < n \<and> (\<forall>k. Suc i < k \<and> k \<le> j \<longrightarrow> ok k) \<and> (Suc j < n \<longrightarrow> \<not> ok (Suc j))"
      using Suc.hyps(1) [of "Suc i"] Suc.hyps(2) True by simp
    have "ok k" if "i < k" "k \<le> j" for k using that ih True by (cases "k = Suc i") auto
    with ih show ?thesis by auto
  next
    case False
    then have "j = i" using Suc.prems by (cases "Suc i < n") (auto simp: upt_conv_Cons)
    with False Suc.prems show ?thesis by auto
  qed
qed simp

text \<open>A double click selects the whole word under the pointer and nothing more.\<close>

lemma getWordAtCell_maximal:
  assumes "line_at e (viewportRowToAbsolute e g) = Some C" "getWordAtCell e A g = Some (a, b)"
  shows "a \<le> A \<and> A \<le> b \<and> b < length C \<and> (\<forall>k. a \<le> k \<and> k \<le> b \<longrightarrow> word_cell (cell_in C (int k))) \<and>
    (a > 0 \<longrightarrow> \<not> word_cell (cell_in C (int (a - 1)))) \<and> (Suc b < length C \<longrightarrow> \<not> word_cell (cell_in C (int (Suc b))))"
proof -
  define ok where "ok = (\<lambda>k. word_cell (cell_in C (int k)))"
  have ab: "ok A" "a = word_back ok A" "word_forward ok A [Suc A..<length C] = b"
    using assms by (auto simp: getWordAtCell_def ok_def Let_def split: if_splits)
  then have "A < length C" by (auto simp: ok_def word_cell_def cell_in_def split: if_splits)
  note f = word_forward_spec [OF this ab(3)] and w = word_back_spec [of ok A]
  have "ok k" if "a \<le> k" "k \<le> b" for k
    using that f w ab(1,2) by (cases k A rule: linorder_cases) auto
  moreover have "word_cell (cell_in C (int k)) = ok k" for k by (simp add: ok_def)
  ultimately show ?thesis using f w unfolding ab(2) by blast
qed

section \<open>Copying\<close>

text \<open>Copying tries something, and what it tries last either worked or is the oldest way.\<close>

lemma copy_tries_until_done:
  "copyToClipboard b \<noteq> [] \<and>
   (case last (copyToClipboard b) of
      ByItem \<Rightarrow> \<not> cb_item_refused b
    | ByWriteText \<Rightarrow> \<not> cb_text_refused b
    | ByExecCommand \<Rightarrow> True)"
  by (auto simp: copyToClipboard_def copyWithWriteText_def)

end
