(* ===== verification/Gw_Fit.thy ===== *)
theory Gw_Fit
  imports Js_Object
begin

text \<open>
  The addon \<open>FitAddon\<close> of \<open>ghostty-web.js\<close>: the grid that fits the terminal's element, and a resize
  observer with a debounce timer. Lengths are rational numbers of pixels; the two timers (50 ms after
  a resize, 100 ms after an observation) are events of the model.
\<close>

section \<open>What the addon reads\<close>

text \<open>
  The terminal as the addon finds it: \<open>f_element\<close> and \<open>f_metrics\<close> are absent before the terminal is
  open, and the paddings are already numbers (a padding that is not a number counts as 0).
\<close>

record fit_element =
  clientWidth :: int
  clientHeight :: int
  padding_top :: "int option"
  padding_bottom :: "int option"
  padding_left :: "int option"
  padding_right :: "int option"

record fit_terminal =
  f_element :: "fit_element option"
  f_metrics :: "(rat \<times> rat) option"
  f_cols :: int
  f_rows :: int

definition MINIMUM_COLS :: int where "MINIMUM_COLS = 2"

definition MINIMUM_ROWS :: int where "MINIMUM_ROWS = 1"

definition SCROLLBAR_WIDTH :: int where "SCROLLBAR_WIDTH = 15"

definition pad :: "int option \<Rightarrow> int" where
  "pad p = (case p of Some n \<Rightarrow> n | None \<Rightarrow> 0)"

definition free_width :: "fit_element \<Rightarrow> int" where
  "free_width q = clientWidth q - pad (padding_left q) - pad (padding_right q) - SCROLLBAR_WIDTH"

definition free_height :: "fit_element \<Rightarrow> int" where
  "free_height q = clientHeight q - pad (padding_top q) - pad (padding_bottom q)"

definition proposeDimensions :: "fit_terminal option \<Rightarrow> (int \<times> int) option" where
  "proposeDimensions t =
     (case t of
        None \<Rightarrow> None
      | Some T \<Rightarrow>
          (case (f_element T, f_metrics T) of
             (Some q, Some (w, h)) \<Rightarrow>
               if w = 0 \<or> h = 0 \<or> clientWidth q = 0 \<or> clientHeight q = 0 then None
               else Some (max MINIMUM_COLS \<lfloor>of_int (free_width q) / w\<rfloor>, max MINIMUM_ROWS \<lfloor>of_int (free_height q) / h\<rfloor>)
           | _ \<Rightarrow> None))"

section \<open>The addon\<close>

record fit_addon =
  fit_terminal :: "fit_terminal option"
  isResizing :: bool
  lastCols :: "int option"
  lastRows :: "int option"
  observing :: bool
  debounce :: bool
  resizes :: "(int \<times> int) list"

definition fit_new :: fit_addon where
  "fit_new = \<lparr>fit_terminal = None, isResizing = False, lastCols = None, lastRows = None, observing = False,
     debounce = False, resizes = []\<rparr>"

definition fit_activate :: "fit_terminal \<Rightarrow> fit_addon \<Rightarrow> fit_addon" where
  "fit_activate T s = s\<lparr>fit_terminal := Some T\<rparr>"

definition fit_dispose :: "fit_addon \<Rightarrow> fit_addon" where
  "fit_dispose s = s\<lparr>observing := False, debounce := False, lastCols := None, lastRows := None, fit_terminal := None\<rparr>"

definition fit :: "fit_addon \<Rightarrow> fit_addon" where
  "fit s =
     (if isResizing s then s
      else
        case (proposeDimensions (fit_terminal s), fit_terminal s) of
          (Some (c, r), Some T) \<Rightarrow>
            if (lastCols s = Some c \<and> lastRows s = Some r) \<or> (c = f_cols T \<and> r = f_rows T) then s
            else s\<lparr>lastCols := Some c, lastRows := Some r, isResizing := True,
                   fit_terminal := Some (T\<lparr>f_cols := c, f_rows := r\<rparr>), resizes := resizes s @ [(c, r)]\<rparr>
        | _ \<Rightarrow> s)"

text \<open>The timer set by \<open>fit\<close>.\<close>

definition resize_done :: "fit_addon \<Rightarrow> fit_addon" where
  "resize_done s = s\<lparr>isResizing := False\<rparr>"

definition observeResize :: "fit_addon \<Rightarrow> fit_addon" where
  "observeResize s =
     (case fit_terminal s of
        Some T \<Rightarrow> if f_element T \<noteq> None \<and> \<not> observing s then s\<lparr>observing := True\<rparr> else s
      | None \<Rightarrow> s)"

text \<open>An observation of the element with its new size, and the debounce timer.\<close>

definition element_resized :: "fit_element \<Rightarrow> fit_addon \<Rightarrow> fit_addon" where
  "element_resized q s =
     (let s1 = s\<lparr>fit_terminal := map_option (\<lambda>T. T\<lparr>f_element := Some q\<rparr>) (fit_terminal s)\<rparr>
      in if \<not> observing s \<or> isResizing s then s1 else s1\<lparr>debounce := True\<rparr>)"

definition debounce_fired :: "fit_addon \<Rightarrow> fit_addon" where
  "debounce_fired s = (if debounce s then fit (s\<lparr>debounce := False\<rparr>) else s)"

section \<open>The grid fits\<close>

text \<open>
  Fitting. For an open terminal with positive cell sizes and an element of a size, the grid
  proposed is at least 2 by 1 and otherwise the largest whose cells fit into the element less its
  padding and the scroll bar; a terminal that did not have it, and was not just given it, has it after
  \<open>fit\<close>, by exactly one resize; and fitting again changes nothing.
\<close>

theorem fit_largest_grid:
  assumes "fit_terminal s = Some T" "f_element T = Some q" "f_metrics T = Some (w, h)" "0 < w" "0 < h"
    "clientWidth q \<noteq> 0" "clientHeight q \<noteq> 0" "\<not> isResizing s"
  shows "\<exists>c r. proposeDimensions (Some T) = Some (c, r) \<and> 2 \<le> c \<and> 1 \<le> r \<and>
    (c = 2 \<or> of_int c * w \<le> of_int (free_width q)) \<and> of_int (free_width q) < (of_int c + 1) * w \<and>
    (r = 1 \<or> of_int r * h \<le> of_int (free_height q)) \<and> of_int (free_height q) < (of_int r + 1) * h \<and>
    ((lastCols s, lastRows s) \<noteq> (Some c, Some r) \<longrightarrow>
       fit_terminal (fit s) = Some (T\<lparr>f_cols := c, f_rows := r\<rparr>) \<and>
       resizes (fit s) = resizes s @ (if (c, r) = (f_cols T, f_rows T) then [] else [(c, r)])) \<and>
    fit (resize_done (fit s)) = resize_done (fit s)"
proof -
  define c where "c = max MINIMUM_COLS \<lfloor>of_int (free_width q) / w\<rfloor>"
  define r where "r = max MINIMUM_ROWS \<lfloor>of_int (free_height q) / h\<rfloor>"
  have p: "proposeDimensions (Some (T\<lparr>f_cols := a, f_rows := b\<rparr>)) = Some (c, r)" for a b
    using assms by (simp add: proposeDimensions_def c_def r_def)
  then have p0: "proposeDimensions (Some T) = Some (c, r)" using assms by (simp add: proposeDimensions_def c_def r_def)
  have f: "fit s = (if (lastCols s = Some c \<and> lastRows s = Some r) \<or> (c = f_cols T \<and> r = f_rows T) then s
      else s\<lparr>lastCols := Some c, lastRows := Some r, isResizing := True,
             fit_terminal := Some (T\<lparr>f_cols := c, f_rows := r\<rparr>), resizes := resizes s @ [(c, r)]\<rparr>)"
    using assms(1,8) p0 by (simp add: fit_def)
  have again: "fit (resize_done (fit s)) = resize_done (fit s)"
  proof (cases "(lastCols s = Some c \<and> lastRows s = Some r) \<or> (c = f_cols T \<and> r = f_rows T)")
    case True
    then have "fit s = s" using f by simp
    moreover have "resize_done s = s" using assms(8) by (simp add: resize_done_def)
    ultimately show ?thesis by simp
  next
    case False
    define u where "u = s\<lparr>lastCols := Some c, lastRows := Some r, isResizing := True,
        fit_terminal := Some (T\<lparr>f_cols := c, f_rows := r\<rparr>), resizes := resizes s @ [(c, r)]\<rparr>"
    have "fit s = u" using f False by (simp only: u_def if_False)
    moreover have "fit (resize_done u) = resize_done u" using p by (simp add: fit_def resize_done_def u_def)
    ultimately show ?thesis by simp
  qed
  have bound: "of_int x < (of_int (max m \<lfloor>of_int x / z\<rfloor>) + 1) * z \<and> (max m \<lfloor>of_int x / z\<rfloor> = m \<or> of_int (max m \<lfloor>of_int x / z\<rfloor>) * z \<le> of_int x)"
    if "0 < z" for x m :: int and z :: rat
  proof
    have "of_int x / z < of_int \<lfloor>of_int x / z\<rfloor> + 1" by linarith
    also have "\<dots> \<le> of_int (max m \<lfloor>of_int x / z\<rfloor>) + 1" by simp
    finally show "of_int x < (of_int (max m \<lfloor>of_int x / z\<rfloor>) + 1) * z" using that by (simp add: pos_divide_less_eq)
    have "of_int \<lfloor>of_int x / z\<rfloor> \<le> of_int x / z" by linarith
    then have "of_int \<lfloor>of_int x / z\<rfloor> * z \<le> of_int x" using pos_le_divide_eq [OF that] by blast
    then show "max m \<lfloor>of_int x / z\<rfloor> = m \<or> of_int (max m \<lfloor>of_int x / z\<rfloor>) * z \<le> of_int x" by (auto simp: max_def)
  qed
  have "2 \<le> c" "1 \<le> r" by (simp_all add: c_def r_def MINIMUM_COLS_def MINIMUM_ROWS_def)
  moreover have "(c = 2 \<or> of_int c * w \<le> of_int (free_width q)) \<and> of_int (free_width q) < (of_int c + 1) * w"
    using bound [OF assms(4), of "free_width q" MINIMUM_COLS] unfolding c_def MINIMUM_COLS_def by blast
  moreover have "(r = 1 \<or> of_int r * h \<le> of_int (free_height q)) \<and> of_int (free_height q) < (of_int r + 1) * h"
    using bound [OF assms(5), of "free_height q" MINIMUM_ROWS] unfolding r_def MINIMUM_ROWS_def by blast
  moreover have "fit_terminal (fit s) = Some (T\<lparr>f_cols := c, f_rows := r\<rparr>) \<and>
       resizes (fit s) = resizes s @ (if (c, r) = (f_cols T, f_rows T) then [] else [(c, r)])"
    if "(lastCols s, lastRows s) \<noteq> (Some c, Some r)"
  proof (cases "c = f_cols T \<and> r = f_rows T")
    case True
    then have "fit s = s" by (simp only: f simp_thms if_True)
    then show ?thesis using True assms(1) by simp
  next
    case False
    with that show ?thesis unfolding f by auto
  qed
  ultimately show ?thesis using p0 again by blast
qed

definition demo_fit :: fit_addon where
  "demo_fit = fit_activate \<lparr>f_element = Some \<lparr>clientWidth = 815, clientHeight = 401, padding_top = None, padding_bottom = None,
     padding_left = None, padding_right = None\<rparr>, f_metrics = Some (10, 20), f_cols = 80, f_rows = 24\<rparr> fit_new"

theorem fit_largest_grid_witness:
  "proposeDimensions (fit_terminal demo_fit) = Some (80, 20) \<and> resizes (fit demo_fit) = [(80, 20)] \<and>
   fit (resize_done (fit demo_fit)) = resize_done (fit demo_fit)"
proof -
  define q where "q = \<lparr>clientWidth = 815, clientHeight = 401, padding_top = None, padding_bottom = None,
     padding_left = None, padding_right = None\<rparr>"
  define T where "T = \<lparr>f_element = Some q, f_metrics = Some (10, 20), f_cols = 80, f_rows = 24\<rparr>"
  have "fit_terminal demo_fit = Some T" "f_element T = Some q" "f_metrics T = Some (10, 20)" "clientWidth q \<noteq> 0"
    "clientHeight q \<noteq> 0" "\<not> isResizing demo_fit"
    by (simp_all add: demo_fit_def fit_activate_def fit_new_def T_def q_def)
  from fit_largest_grid [OF this(1-3) _ _ this(4-6)]
  have again: "fit (resize_done (fit demo_fit)) = resize_done (fit demo_fit)" by fastforce
  have "proposeDimensions (fit_terminal demo_fit) = Some (80, 20)" "resizes (fit demo_fit) = [(80, 20)]" by code_simp+
  with again show ?thesis by blast
qed

text \<open>
  An observation that falls into the 50 ms after a resize is dropped, timer and all: the grid keeps
  the size of the earlier observation.
\<close>

lemma observation_lost:
  assumes "isResizing s" "\<not> debounce s"
  shows "resizes (debounce_fired (resize_done (element_resized q s))) = resizes s"
  using assms by (simp add: element_resized_def debounce_fired_def resize_done_def Let_def)

end
