(* ===== verification/Wasm_Account.thy ===== *)
theory Wasm_Account
  imports Wasm_Calls
begin

text \<open>
  More of the calls into a WebAssembly instance: little-endian numbers in its memory, loops
  with early exit, scratch buffers, and rules that account for buffers which are freed
  without having been checked. Freeing address 0 gives nothing back, so a run may do that
  any number of times; every other address must be freed exactly as often as it was lent.
\<close>

section \<open>Little-endian numbers\<close>

fun le :: "8 word list \<Rightarrow> nat" where
  "le [] = 0"
| "le (b # bs) = unat b + 256 * le bs"

fun le_bytes :: "nat \<Rightarrow> nat \<Rightarrow> 8 word list" where
  "le_bytes 0 x = []"
| "le_bytes (Suc n) x = word_of_nat x # le_bytes n (x div 256)"

lemma length_le_bytes [simp]: "length (le_bytes n x) = n"
  by (induction n arbitrary: x) auto

text \<open>A number that is written and read back is reduced to its width, as \<open>setUint32\<close> does.\<close>

lemma le_le_bytes: "le (le_bytes n x) = x mod 256 ^ n"
proof (induction n arbitrary: x)
  case (Suc n)
  have "unat (word_of_nat x :: 8 word) = x mod 256" by (simp add: unat_of_nat)
  with Suc show ?case by (simp add: mod_mult2_eq)
qed simp

lemma le_less: "le bs < 256 ^ length bs"
proof (induction bs)
  case (Cons b bs)
  have "unat b < 256" using unsigned_less [of b, where ?'a = nat] by simp
  with Cons show ?case by simp
qed simp

text \<open>Reading and writing a number of \<open>n\<close> bytes through a \<open>DataView\<close> made for the purpose.\<close>

definition wread :: "'w exports \<Rightarrow> nat \<Rightarrow> nat \<Rightarrow> ('w, nat) wm" where
  "wread X n a = wbind (wslice X a n) (\<lambda>bs. wreturn (le bs))"

definition wput :: "'w exports \<Rightarrow> nat \<Rightarrow> nat \<Rightarrow> nat \<Rightarrow> ('w, unit) wm" where
  "wput X n a x = wstore X a (le_bytes n x)"

text \<open>\<open>getUint8\<close> on a view that was made earlier.\<close>

definition wget_u8 :: "'w exports \<Rightarrow> nat \<Rightarrow> nat \<Rightarrow> ('w, nat) wm" where
  "wget_u8 X v a s =
     (if v \<noteq> generation X (world s) then (Inl (Js_Error ''TypeError''), s) else wread X 1 a s)"

text \<open>\<open>getInt32\<close>: the same bytes as a signed number.\<close>

definition signed32 :: "nat \<Rightarrow> int" where
  "signed32 n = (if n < 2147483648 then int n else int n - 4294967296)"

text \<open>\<open>Array.from(new Uint32Array(buffer, a, n))\<close>: the address must be a multiple of 4.\<close>

fun groups4 :: "nat \<Rightarrow> 8 word list \<Rightarrow> nat list" where
  "groups4 0 bs = []"
| "groups4 (Suc n) bs = le (take 4 bs) # groups4 n (drop 4 bs)"

definition wwords :: "'w exports \<Rightarrow> nat \<Rightarrow> nat \<Rightarrow> ('w, nat list) wm" where
  "wwords X a n s =
     (if a mod 4 \<noteq> 0 then (Inl Range_Error, s)
      else wbind (wslice X a (4 * n)) (\<lambda>bs. wreturn (groups4 n bs)) s)"

section \<open>Loops and scratch buffers\<close>

text \<open>
  A \<open>for\<close> loop over known indices that the body may leave: it returns the new value of the
  local variables and whether to go on.
\<close>

fun wfold :: "nat list \<Rightarrow> (nat \<Rightarrow> 'a \<Rightarrow> ('w, 'a \<times> bool) wm) \<Rightarrow> 'a \<Rightarrow> ('w, 'a) wm" where
  "wfold [] b x = wreturn x"
| "wfold (i # ks) b x = wbind (b i x) (\<lambda>(y, more). if more then wfold ks b y else wreturn y)"

text \<open>
  A loop that ends when its body says so, with fuel: a loop that is still running when the
  fuel is used up ends in the error \<open>unfinished\<close>, which no code throws.
\<close>

definition unfinished :: string where
  "unfinished = ''unfinished loop''"

fun wwhile :: "nat \<Rightarrow> ('a \<Rightarrow> ('w, 'a \<times> bool) wm) \<Rightarrow> 'a \<Rightarrow> ('w, 'a) wm" where
  "wwhile 0 b x = wfail unfinished"
| "wwhile (Suc n) b x = wbind (b x) (\<lambda>(y, more). if more then wwhile n b y else wreturn y)"

text \<open>
  \<open>const a = alloc(); if (a === 0) return d; try { ... } finally { free(a) }\<close>, and the same
  without the test.
\<close>

definition wscratch :: "'w exports \<Rightarrow> wkind \<Rightarrow> 'a \<Rightarrow> (nat \<Rightarrow> ('w, 'a) wm) \<Rightarrow> ('w, 'a) wm" where
  "wscratch X k d body =
     wbind (walloc_of X k) (\<lambda>a. if a = 0 then wreturn d else wfinally (body a) (wfree_of X k a))"

definition wfree_m :: "'w exports \<Rightarrow> wkind \<Rightarrow> nat \<Rightarrow> ('w, unit) wm" where
  "wfree_m X k a s = (Inr (), wfree_of X k a s)"

fun wfree_all :: "'w exports \<Rightarrow> (wkind \<times> nat) list \<Rightarrow> 'w wst \<Rightarrow> 'w wst" where
  "wfree_all X [] s = s"
| "wfree_all X ((k, a) # ps) s = wfree_all X ps (wfree_of X k a s)"

lemma snd_wcall [simp]: "snd (wcall f s) = s\<lparr>world := snd (f (world s))\<rparr>"
  by (simp add: wcall_def split: prod.splits)

lemma snd_wbind: "snd (wbind m f s) = (case fst (m s) of Inl e \<Rightarrow> snd (m s) | Inr x \<Rightarrow> snd (f x (snd (m s))))"
  by (simp add: wbind_def split: prod.splits sum.splits)

lemma snd_wfinally [simp]: "snd (wfinally m f s) = f (snd (m s))"
  by (simp add: wfinally_def split: prod.splits)

section \<open>Debts\<close>

definition lent :: "wkind \<Rightarrow> nat \<Rightarrow> (wkind \<times> nat) multiset" where
  "lent k a = (if a = 0 then {#} else {#(k, a)#})"

text \<open>What a run acquired and did not release, releases of address 0 aside.\<close>

definition debt :: "'w wst \<Rightarrow> (wkind \<times> nat) multiset \<Rightarrow> 'w wst \<Rightarrow> bool" where
  "debt s M s' = (\<exists>es. log s' = log s @ es \<and> acquired es = {#p \<in># released es. snd p \<noteq> 0#} + M)"

lemma debt_refl [simp]: "debt s {#} s"
  by (simp add: debt_def)

lemma debt_trans: "debt s M s' \<Longrightarrow> debt s' N s'' \<Longrightarrow> debt s (M + N) s''"
  by (force simp: debt_def ac_simps)

lemma debt_free: "debt s (lent k a + N) s' \<Longrightarrow> debt s N (wfree_of X k a s')"
  by (force simp: debt_def lent_def)

lemma debt_release: "debt s (lent k a + N) s' \<Longrightarrow> log s'' = log s' @ [Release k a] \<Longrightarrow> debt s N s''"
  by (force simp: debt_def lent_def)

lemma debt_free_all: "debt s (sum_list (map (\<lambda>(k, a). lent k a) ps) + N) s' \<Longrightarrow> debt s N (wfree_all X ps s')"
proof (induction ps arbitrary: s')
  case (Cons p ps)
  obtain k a where p: "p = (k, a)" by fastforce
  have "debt s (sum_list (map (\<lambda>(k, a). lent k a) ps) + N) (wfree_of X k a s')"
    using Cons.prems by (intro debt_free) (simp add: p ac_simps)
  then show ?case using Cons.IH p by simp
qed simp

lemma debt_log: "debt s M s' \<Longrightarrow> log s'' = log s' \<Longrightarrow> debt s M s''"
  by (simp add: debt_def)

lemma debt_acquire: "log s' = log s @ [Acquire k a] \<Longrightarrow> a \<noteq> 0 \<Longrightarrow> debt s (lent k a) s'"
  by (force simp: debt_def lent_def)

text \<open>
  The memory as an object sees it that keeps more than the instance: the calls that read,
  write, allocate and free leave the part \<open>h\<close> of the state alone.
\<close>

locale wrapped_memory =
  fixes X :: "'w exports" and h :: "'w \<Rightarrow> 'h"
  assumes h_set: "h (set_bytes X bs w) = h w"
    and h_alloc: "h (snd (alloc X k w)) = h w"
    and h_free: "h (free X k a w) = h w"
begin

text \<open>
  A command settles the debt \<open>M\<close> if, whichever way it ends, everything but \<open>M\<close> that was owed
  before is owed after, and \<open>h\<close> has kept its value.
\<close>

definition pays :: "(wkind \<times> nat) multiset \<Rightarrow> ('w, 'a) wm \<Rightarrow> bool" where
  "pays M m = ((\<forall>s0 N s. debt s0 (M + N) s \<longrightarrow> debt s0 N (snd (m s))) \<and>
               (\<forall>s. h (world (snd (m s))) = h (world s)))"

text \<open>It lends a buffer of kind \<open>k\<close> if it cannot fail and returns the address.\<close>

definition lends :: "wkind \<Rightarrow> ('w, nat) wm \<Rightarrow> bool" where
  "lends k m = (\<forall>s. \<exists>a s'. m s = (Inr a, s') \<and> debt s (lent k a) s' \<and> h (world s') = h (world s))"

lemma paysI:
  "(\<And>s. debt s {#} (snd (m s))) \<Longrightarrow> (\<And>s. h (world (snd (m s))) = h (world s)) \<Longrightarrow> pays {#} m"
  unfolding pays_def by (metis add.commute debt_trans add_0)

lemma pays_debt: "pays {#} m \<Longrightarrow> debt s {#} (snd (m s))"
  unfolding pays_def by (metis add_0 debt_refl)

lemma pays_keeps: "pays M m \<Longrightarrow> h (world (snd (m s))) = h (world s)"
  by (simp add: pays_def)

lemma pays_quiet: "(\<And>s. log (snd (m s)) = log s) \<Longrightarrow> (\<And>s. h (world (snd (m s))) = h (world s)) \<Longrightarrow> pays {#} m"
  by (rule paysI) (simp_all add: debt_def)

lemma pays_basic:
  "pays {#} (wreturn x)" "pays {#} (wfail e)" "pays {#} (wview X)" "pays {#} (wslice X a n)" "pays {#} (wstore X a d)"
  by (auto intro!: pays_quiet simp: wreturn_def wfail_def wview_def wslice_def wstore_def Let_def h_set)

lemma pays_call: "(\<And>w. h (snd (f w)) = h w) \<Longrightarrow> pays {#} (wcall f)"
  by (rule pays_quiet) simp_all

lemma pays_do: "(\<And>w. h (f w) = h w) \<Longrightarrow> pays {#} (wdo f)"
  by (rule pays_quiet) (simp_all add: wdo_def)

lemma pays_bind: "pays {#} m \<Longrightarrow> (\<And>x. pays {#} (f x)) \<Longrightarrow> pays {#} (wbind m f)"
proof -
  assume m: "pays {#} m" and f: "\<And>x. pays {#} (f x)"
  show ?thesis
  proof (rule paysI)
    show "debt s {#} (snd (wbind m f s))" for s
      using pays_debt [OF m, of s] debt_trans [OF pays_debt [OF m, of s] pays_debt [OF f]]
      by (simp add: snd_wbind split: sum.splits)
    show "h (world (snd (wbind m f s))) = h (world s)" for s
      using pays_keeps [OF m] pays_keeps [OF f] by (simp add: snd_wbind split: sum.splits)
  qed
qed

lemma pays_seq: "pays {#} m \<Longrightarrow> pays {#} n \<Longrightarrow> pays {#} (wseq m n)"
  by (simp add: wseq_def pays_bind)

lemma pays_if: "pays M m \<Longrightarrow> pays M n \<Longrightarrow> pays M (if b then m else n)"
  by simp

lemma pays_read: "pays {#} (wread X n a)"
  unfolding wread_def by (intro pays_bind pays_basic)

lemma pays_put: "pays {#} (wput X n a x)"
  unfolding wput_def by (rule pays_basic)

lemma pays_get_u8: "pays {#} (wget_u8 X v a)"
  using pays_read [of 1 a] by (simp add: pays_def wget_u8_def)

lemma pays_words: "pays {#} (wwords X a n)"
proof -
  have "pays {#} (wbind (wslice X a (4 * n)) (\<lambda>bs. wreturn (groups4 n bs)))" by (intro pays_bind pays_basic)
  then show ?thesis by (simp add: pays_def wwords_def)
qed

lemma pays_fold: "(\<And>i x. pays {#} (b i x)) \<Longrightarrow> pays {#} (wfold ks b x)"
  by (induction ks arbitrary: x) (auto intro!: pays_bind pays_basic split: prod.splits)

lemma pays_while: "(\<And>x. pays {#} (b x)) \<Longrightarrow> pays {#} (wwhile n b x)"
  by (induction n arbitrary: x) (auto intro!: pays_bind pays_basic split: prod.splits)

text \<open>Borrowing, and paying back in a \<open>finally\<close> block or by hand.\<close>

lemma lends_alloc: "lends k (walloc_of X k)"
  unfolding lends_def
proof
  fix s :: "'w wst"
  obtain a w where a: "alloc X k (world s) = (a, w)" by fastforce
  then have "h w = h (world s)" using h_alloc by (metis snd_conv)
  with a show "\<exists>a s'. walloc_of X k s = (Inr a, s') \<and> debt s (lent k a) s' \<and> h (world s') = h (world s)"
    by (cases "a = 0") (auto simp: walloc_of_def lent_def debt_def)
qed

lemma pays_borrow:
  assumes "lends k m" "\<And>a. pays (lent k a + M) (f a)"
  shows "pays M (wbind m f)"
proof -
  have "debt s0 N (snd (wbind m f s)) \<and> h (world (snd (wbind m f s))) = h (world s)"
    if d: "debt s0 (M + N) s" for s0 N s
  proof -
    obtain a s' where s': "m s = (Inr a, s')" "debt s (lent k a) s'" "h (world s') = h (world s)"
      using assms(1) unfolding lends_def by blast
    have "debt s0 (lent k a + M + N) s'" using debt_trans [OF d s'(2)] by (simp add: ac_simps)
    with assms(2) [of a] s' show ?thesis unfolding pays_def wbind_def by simp
  qed
  moreover have "h (world (snd (wbind m f s))) = h (world s)" for s
  proof -
    obtain a s' where s': "m s = (Inr a, s')" "h (world s') = h (world s)"
      using assms(1) unfolding lends_def by blast
    then show ?thesis using assms(2) [of a] by (simp add: wbind_def pays_def)
  qed
  ultimately show ?thesis unfolding pays_def by blast
qed

lemma h_free_of: "h (world (wfree_of X k a s)) = h (world s)"
  by (simp add: wfree_of_def h_free)

lemma h_free_all: "h (world (wfree_all X ps s)) = h (world s)"
  by (induction ps arbitrary: s rule: list.induct) (auto simp: h_free_of)

lemma pays_finally:
  assumes "pays {#} m"
  shows "pays (lent k a) (wfinally m (wfree_of X k a))"
proof -
  have "debt s0 N (wfree_of X k a (snd (m s)))" if "debt s0 (lent k a + N) s" for s0 N s
  proof (rule debt_free)
    show "debt s0 (lent k a + N) (snd (m s))"
      using that assms unfolding pays_def by (metis add_0)
  qed
  then show ?thesis using assms by (simp add: pays_def h_free_of)
qed

lemma pays_finally_all:
  assumes "pays {#} m" "M = sum_list (map (\<lambda>(k, a). lent k a) ps)"
  shows "pays M (wfinally m (wfree_all X ps))"
proof -
  have "debt s0 N (wfree_all X ps (snd (m s)))" if "debt s0 (M + N) s" for s0 N s
  proof (rule debt_free_all)
    show "debt s0 (sum_list (map (\<lambda>(k, a). lent k a) ps) + N) (snd (m s))"
      using that assms unfolding pays_def by (metis add_0)
  qed
  then show ?thesis using assms by (simp add: pays_def h_free_all)
qed

lemma pays_free: "pays (lent k a) (wfree_m X k a)"
  by (simp add: pays_def wfree_m_def debt_free h_free_of)

lemma lent_0 [simp]: "lent k 0 = {#}"
  by (simp add: lent_def)

lemma pays_scratch: "(\<And>a. pays {#} (body a)) \<Longrightarrow> pays {#} (wscratch X k d body)"
  unfolding wscratch_def
  by (rule pays_borrow [OF lends_alloc]) (auto intro: pays_finally pays_basic)

lemma pays_using: "(\<And>a. pays {#} (body a)) \<Longrightarrow> pays {#} (wusing X k msg body)"
  unfolding wusing_def
  by (rule pays_borrow [OF lends_alloc]) (auto intro: pays_finally pays_basic)

end

end
