(* ===== verification/Gw_Wrapper.thy ===== *)
theory Gw_Wrapper
  imports Gw_Keys Gw_Buffer Gw_Png Wasm_Account
begin

text \<open>
  The class \<open>Dg\<close> of \<open>ghostty-web.js\<close> (the \<open>GhosttyTerminal\<close> object) call by call: its
  constructor, the scratch buffers of every query, the callbacks it installs, configuration,
  the reading of the viewport, of scrollback lines, graphemes and hyperlinks, and kitty
  graphics. The compiled core is the record of its exports. The theory \<open>Gw_Core\<close> has the same
  object seen from the \<open>Terminal\<close>, with the buffers left out.
\<close>

unbundle bit_operations_syntax

section \<open>The exports of the core\<close>

text \<open>
  An export takes its arguments and the state of the instance and returns its result. Two
  of them may call back: \<open>vt_write\<close> and \<open>resize\<close> return the calls of the \<open>WRITE_PTY\<close> callback
  (the terminal and a copy of the bytes), and are given what the \<open>SIZE\<close> callback answers.
  \<open>ghostty_terminal_set_colors\<close> may be missing. \<open>table_grow\<close> and \<open>table_set\<close> are the methods of
  the function table, \<open>png_decode\<close> the compiled decoder, which may throw.
\<close>

datatype forwarder = WritePtyFwd | SizeFwd | DecodePngFwd

type_synonym size_info = "(nat \<times> nat \<times> nat \<times> nat) option"

record 'v term_api =
  t_inst :: "'v exports"
  ghostty_terminal_new :: "nat \<Rightarrow> nat \<Rightarrow> 'v \<Rightarrow> int \<times> 'v"
  ghostty_terminal_free :: "nat \<Rightarrow> 'v \<Rightarrow> 'v"
  ghostty_terminal_set :: "nat \<Rightarrow> nat \<Rightarrow> nat \<Rightarrow> 'v \<Rightarrow> 'v"
  ghostty_terminal_get :: "nat \<Rightarrow> nat \<Rightarrow> nat \<Rightarrow> 'v \<Rightarrow> int \<times> 'v"
  ghostty_terminal_mode_set :: "nat \<Rightarrow> nat \<Rightarrow> bool \<Rightarrow> 'v \<Rightarrow> 'v"
  ghostty_terminal_mode_get :: "nat \<Rightarrow> nat \<Rightarrow> nat \<Rightarrow> 'v \<Rightarrow> int \<times> 'v"
  ghostty_terminal_resize :: "nat \<Rightarrow> nat \<Rightarrow> nat \<Rightarrow> nat \<Rightarrow> nat \<Rightarrow> size_info \<Rightarrow> 'v \<Rightarrow> (nat \<times> 8 word list) list \<times> 'v"
  ghostty_terminal_vt_write :: "nat \<Rightarrow> nat \<Rightarrow> nat \<Rightarrow> size_info \<Rightarrow> 'v \<Rightarrow> (nat \<times> 8 word list) list \<times> 'v"
  ghostty_terminal_set_colors :: "(nat \<Rightarrow> nat \<Rightarrow> 'v \<Rightarrow> 'v) option"
  ghostty_terminal_grid_ref :: "nat \<Rightarrow> nat \<Rightarrow> nat \<Rightarrow> 'v \<Rightarrow> int \<times> 'v"
  ghostty_grid_ref_cell :: "nat \<Rightarrow> nat \<Rightarrow> 'v \<Rightarrow> int \<times> 'v"
  ghostty_grid_ref_style :: "nat \<Rightarrow> nat \<Rightarrow> 'v \<Rightarrow> int \<times> 'v"
  ghostty_grid_ref_hyperlink_uri :: "nat \<Rightarrow> nat \<Rightarrow> nat \<Rightarrow> nat \<Rightarrow> 'v \<Rightarrow> int \<times> 'v"
  ghostty_grid_ref_graphemes :: "nat \<Rightarrow> nat \<Rightarrow> nat \<Rightarrow> nat \<Rightarrow> 'v \<Rightarrow> int \<times> 'v"
  ghostty_render_state_new :: "nat \<Rightarrow> 'v \<Rightarrow> int \<times> 'v"
  ghostty_render_state_free :: "nat \<Rightarrow> 'v \<Rightarrow> 'v"
  ghostty_render_state_update :: "nat \<Rightarrow> nat \<Rightarrow> 'v \<Rightarrow> int \<times> 'v"
  ghostty_render_state_get :: "nat \<Rightarrow> nat \<Rightarrow> nat \<Rightarrow> 'v \<Rightarrow> int \<times> 'v"
  ghostty_render_state_set :: "nat \<Rightarrow> nat \<Rightarrow> nat \<Rightarrow> 'v \<Rightarrow> int \<times> 'v"
  ghostty_render_state_row_iterator_new :: "nat \<Rightarrow> 'v \<Rightarrow> int \<times> 'v"
  ghostty_render_state_row_iterator_free :: "nat \<Rightarrow> 'v \<Rightarrow> 'v"
  ghostty_render_state_row_iterator_next :: "nat \<Rightarrow> 'v \<Rightarrow> int \<times> 'v"
  ghostty_render_state_row_get :: "nat \<Rightarrow> nat \<Rightarrow> nat \<Rightarrow> 'v \<Rightarrow> int \<times> 'v"
  ghostty_render_state_row_set :: "nat \<Rightarrow> nat \<Rightarrow> nat \<Rightarrow> 'v \<Rightarrow> int \<times> 'v"
  ghostty_row_get :: "nat \<Rightarrow> nat \<Rightarrow> nat \<Rightarrow> 'v \<Rightarrow> int \<times> 'v"
  ghostty_render_state_row_cells_new :: "nat \<Rightarrow> 'v \<Rightarrow> int \<times> 'v"
  ghostty_render_state_row_cells_free :: "nat \<Rightarrow> 'v \<Rightarrow> 'v"
  ghostty_render_state_row_cells_next :: "nat \<Rightarrow> 'v \<Rightarrow> int \<times> 'v"
  ghostty_render_state_row_cells_select :: "nat \<Rightarrow> nat \<Rightarrow> 'v \<Rightarrow> int \<times> 'v"
  ghostty_render_state_row_cells_get :: "nat \<Rightarrow> nat \<Rightarrow> nat \<Rightarrow> 'v \<Rightarrow> int \<times> 'v"
  ghostty_cell_get :: "nat \<Rightarrow> nat \<Rightarrow> nat \<Rightarrow> 'v \<Rightarrow> int \<times> 'v"
  ghostty_kitty_graphics_placement_iterator_new :: "nat \<Rightarrow> 'v \<Rightarrow> int \<times> 'v"
  ghostty_kitty_graphics_placement_iterator_free :: "nat \<Rightarrow> 'v \<Rightarrow> 'v"
  ghostty_kitty_graphics_get :: "nat \<Rightarrow> nat \<Rightarrow> nat \<Rightarrow> 'v \<Rightarrow> int \<times> 'v"
  ghostty_kitty_graphics_placement_next :: "nat \<Rightarrow> 'v \<Rightarrow> int \<times> 'v"
  ghostty_kitty_graphics_placement_get :: "nat \<Rightarrow> nat \<Rightarrow> nat \<Rightarrow> 'v \<Rightarrow> int \<times> 'v"
  ghostty_kitty_graphics_placement_render_info :: "nat \<Rightarrow> nat \<Rightarrow> nat \<Rightarrow> nat \<Rightarrow> 'v \<Rightarrow> int \<times> 'v"
  ghostty_kitty_graphics_image :: "nat \<Rightarrow> nat \<Rightarrow> 'v \<Rightarrow> nat \<times> 'v"
  ghostty_kitty_graphics_image_get :: "nat \<Rightarrow> nat \<Rightarrow> nat \<Rightarrow> 'v \<Rightarrow> int \<times> 'v"
  ghostty_alloc :: "nat \<Rightarrow> nat \<Rightarrow> 'v \<Rightarrow> nat \<times> 'v"
  ghostty_sys_set :: "nat \<Rightarrow> nat \<Rightarrow> 'v \<Rightarrow> 'v"
  table_grow :: "'v \<Rightarrow> nat option \<times> 'v"
  table_set :: "nat \<Rightarrow> forwarder \<Rightarrow> 'v \<Rightarrow> 'v"
  png_decode :: "8 word list \<Rightarrow> png result"
  t_encode :: "jstr \<Rightarrow> 8 word list"
  t_decode :: "8 word list \<Rightarrow> jstr"

text \<open>The enumerations of the C interface, as far as the class uses them.\<close>

abbreviation (input) "RS_DIRTY \<equiv> 3 :: nat"
abbreviation (input) "RS_ROW_ITERATOR \<equiv> 4 :: nat"
abbreviation (input) "RS_COLOR_BACKGROUND \<equiv> 5 :: nat"
abbreviation (input) "RS_COLOR_FOREGROUND \<equiv> 6 :: nat"
abbreviation (input) "RS_COLOR_CURSOR \<equiv> 7 :: nat"
abbreviation (input) "RS_COLOR_CURSOR_HAS_VALUE \<equiv> 8 :: nat"
abbreviation (input) "RS_CURSOR_VISUAL_STYLE \<equiv> 10 :: nat"
abbreviation (input) "RS_CURSOR_VISIBLE \<equiv> 11 :: nat"
abbreviation (input) "RS_CURSOR_BLINKING \<equiv> 12 :: nat"
abbreviation (input) "RS_CURSOR_VIEWPORT_HAS_VALUE \<equiv> 14 :: nat"
abbreviation (input) "RS_CURSOR_VIEWPORT_X \<equiv> 15 :: nat"
abbreviation (input) "RS_CURSOR_VIEWPORT_Y \<equiv> 16 :: nat"
abbreviation (input) "TD_ACTIVE_SCREEN \<equiv> 6 :: nat"
abbreviation (input) "TD_MOUSE_TRACKING \<equiv> 11 :: nat"
abbreviation (input) "TD_SCROLLBACK_ROWS \<equiv> 15 :: nat"
abbreviation (input) "TD_COLOR_PALETTE \<equiv> 21 :: nat"
abbreviation (input) "TD_COLOR_PALETTE_DEFAULT \<equiv> 25 :: nat"
abbreviation (input) "TD_KITTY_GRAPHICS \<equiv> 30 :: nat"
abbreviation (input) "OPT_WRITE_PTY \<equiv> 1 :: nat"
abbreviation (input) "OPT_SIZE \<equiv> 6 :: nat"
abbreviation (input) "OPT_COLOR_FOREGROUND \<equiv> 11 :: nat"
abbreviation (input) "OPT_COLOR_BACKGROUND \<equiv> 12 :: nat"
abbreviation (input) "OPT_COLOR_CURSOR \<equiv> 13 :: nat"
abbreviation (input) "OPT_COLOR_PALETTE \<equiv> 14 :: nat"
abbreviation (input) "OPT_KITTY_IMAGE_STORAGE_LIMIT \<equiv> 15 :: nat"
abbreviation (input) "ROW_DIRTY \<equiv> 1 :: nat"
abbreviation (input) "ROW_RAW \<equiv> 2 :: nat"
abbreviation (input) "ROW_CELLS \<equiv> 3 :: nat"
abbreviation (input) "WRAP_CONTINUATION \<equiv> 2 :: nat"
abbreviation (input) "RC_RAW \<equiv> 1 :: nat"
abbreviation (input) "RC_STYLE \<equiv> 2 :: nat"
abbreviation (input) "RC_GRAPHEMES_LEN \<equiv> 3 :: nat"
abbreviation (input) "RC_GRAPHEMES_BUF \<equiv> 4 :: nat"
abbreviation (input) "RC_BG_COLOR \<equiv> 5 :: nat"
abbreviation (input) "RC_FG_COLOR \<equiv> 6 :: nat"
abbreviation (input) "CELL_CODEPOINT \<equiv> 1 :: nat"
abbreviation (input) "CELL_WIDE \<equiv> 3 :: nat"
abbreviation (input) "CELL_HAS_HYPERLINK \<equiv> 7 :: nat"
abbreviation (input) "POINT_ACTIVE \<equiv> 0 :: nat"
abbreviation (input) "POINT_HISTORY \<equiv> 3 :: nat"

section \<open>The object\<close>

text \<open>
  The fields of the object, the state \<open>cw\<close> of the instance beside it, and what is shared by
  all objects of the instance: the entry of \<open>callbackRegistries\<close> for its table, with the map
  from handles to objects. \<open>self\<close> identifies the object in that map.
\<close>

type_synonym indices = "nat \<times> nat \<times> nat"

record 'v gobj =
  cw :: 'v
  self :: nat
  o_handle :: nat
  renderHandle :: nat
  rowIter :: nat
  rowCells :: nat
  o_cols :: nat
  o_rows :: nat
  o_cellWidthPx :: nat
  o_cellHeightPx :: nat
  o_cellPool :: "cell list"
  rowDirtyCache :: "bool list option"
  rowWrapCache :: "bool list option"
  o_pending :: "8 word list list"
  callbackRegistry :: "indices option"
  callbackRegistries :: "indices option"
  instancesByHandle :: "nat \<rightharpoonup> nat"

type_synonym ('v, 'a) gm = "('v gobj, 'a) wm"

text \<open>The memory and the allocator of the instance, seen from the object.\<close>

definition mem :: "'v term_api \<Rightarrow> 'v gobj exports" where
  "mem T =
     \<lparr>bytes_of = \<lambda>g. bytes_of (t_inst T) (cw g),
      set_bytes = \<lambda>b g. g\<lparr>cw := set_bytes (t_inst T) b (cw g)\<rparr>,
      generation = \<lambda>g. generation (t_inst T) (cw g),
      alloc = \<lambda>k g. (let (a, v) = alloc (t_inst T) k (cw g) in (a, g\<lparr>cw := v\<rparr>)),
      free = \<lambda>k a g. g\<lparr>cw := free (t_inst T) k a (cw g)\<rparr>\<rparr>"

text \<open>A field of the object, a call of an export, and one whose result is not used.\<close>

definition own :: "('v gobj \<Rightarrow> 'a) \<Rightarrow> ('v, 'a) gm" where
  "own f s = (Inr (f (world s)), s)"

definition ecall :: "('v gobj \<Rightarrow> 'v \<Rightarrow> 'a \<times> 'v) \<Rightarrow> ('v, 'a) gm" where
  "ecall f = wcall (\<lambda>g. let (x, v) = f g (cw g) in (x, g\<lparr>cw := v\<rparr>))"

definition erun :: "('v gobj \<Rightarrow> 'v \<Rightarrow> 'v) \<Rightarrow> ('v, unit) gm" where
  "erun f = wdo (\<lambda>g. g\<lparr>cw := f g (cw g)\<rparr>)"

definition do_call :: "('v gobj \<Rightarrow> 'v \<Rightarrow> 'a \<times> 'v) \<Rightarrow> ('v, unit) gm" where
  "do_call f = wbind (ecall f) (\<lambda>_. wreturn ())"

text \<open>A number in an error message.\<close>

definition idec :: "int \<Rightarrow> string" where
  "idec i = (if i < 0 then CHR ''-'' # dec (nat (- i)) else dec (nat i))"

section \<open>Callbacks\<close>

text \<open>\<open>Q\<close> of \<open>installCallbacks\<close>: the bytes go to the object registered for the terminal.\<close>

definition write_pty_cb :: "nat \<times> 8 word list \<Rightarrow> 'v gobj \<Rightarrow> 'v gobj" where
  "write_pty_cb p g =
     (if instancesByHandle g (fst p) = Some (self g) then g\<lparr>o_pending := o_pending g @ [snd p]\<rparr> else g)"

text \<open>\<open>C\<close>: the size of the grid and of a cell, once the cell size is known, is written to \<open>F\<close>.\<close>

definition size_cb :: "'v term_api \<Rightarrow> nat \<Rightarrow> nat \<Rightarrow> ('v, nat) gm" where
  "size_cb T G F =
     wbind (own (\<lambda>g. instancesByHandle g G = Some (self g) \<and> o_cellWidthPx g \<noteq> 0 \<and> o_cellHeightPx g \<noteq> 0)) (\<lambda>known.
     if \<not> known then wreturn 0
     else
       wbind (own o_rows) (\<lambda>r. wbind (own o_cols) (\<lambda>c.
       wbind (own o_cellWidthPx) (\<lambda>w. wbind (own o_cellHeightPx) (\<lambda>h.
         wseq (wput (mem T) 2 F r)
        (wseq (wput (mem T) 2 (F + 2) c)
        (wseq (wput (mem T) 4 (F + 4) w)
        (wseq (wput (mem T) 4 (F + 8) h) (wreturn 1)))))))))"

text \<open>\<open>try { m } catch { return d }\<close>\<close>

definition wcatch :: "('w, 'a) wm \<Rightarrow> 'a \<Rightarrow> ('w, 'a) wm" where
  "wcatch m d s = (case m s of (Inl e, s') \<Rightarrow> (Inr d, s') | (Inr x, s') \<Rightarrow> (Inr x, s'))"

text \<open>\<open>o\<close>: a PNG in memory is decoded into a buffer from the allocator the core passes.\<close>

definition decode_png_cb :: "'v term_api \<Rightarrow> nat \<Rightarrow> nat \<Rightarrow> nat \<Rightarrow> nat \<Rightarrow> ('v, nat) gm" where
  "decode_png_cb T N F J M =
     wcatch
       (wbind (wslice (mem T) F J) (\<lambda>y.
          case png_decode T y of
            Inl e \<Rightarrow> (\<lambda>s. (Inl e, s))
          | Inr a \<Rightarrow>
              (case pg (\<lambda>_. a) y of
                 None \<Rightarrow> wreturn 0
               | Some H \<Rightarrow>
                   wbind (ecall (\<lambda>_. ghostty_alloc T N (length (rgba H)))) (\<lambda>k.
                     if k = 0 then wreturn 0
                     else
                       wseq (wstore (mem T) k (rgba H))
                      (wseq (wput (mem T) 4 M (nat (i_width H)))
                      (wseq (wput (mem T) 4 (M + 4) (nat (i_height H)))
                      (wseq (wput (mem T) 4 (M + 8) k)
                      (wseq (wput (mem T) 4 (M + 12) (length (rgba H))) (wreturn 1)))))))))
       0"

definition grow_table :: "'v term_api \<Rightarrow> forwarder \<Rightarrow> ('v, nat) gm" where
  "grow_table T f =
     wbind (ecall (\<lambda>_. table_grow T)) (\<lambda>t.
       case t of None \<Rightarrow> (\<lambda>s. (Inl Range_Error, s)) | Some i \<Rightarrow> wseq (erun (\<lambda>_. table_set T i f)) (wreturn i))"

definition installCallbacks :: "'v term_api \<Rightarrow> ('v, unit) gm" where
  "installCallbacks T =
     wbind (own callbackRegistries) (\<lambda>r.
     wbind (case r of
              Some g \<Rightarrow> wreturn g
            | None \<Rightarrow>
                wbind (grow_table T WritePtyFwd) (\<lambda>t.
                wbind (grow_table T SizeFwd) (\<lambda>e.
                wbind (grow_table T DecodePngFwd) (\<lambda>a.
                wseq (wdo (\<lambda>g. g\<lparr>callbackRegistries := Some (t, e, a), instancesByHandle := Map.empty\<rparr>))
               (wseq (erun (\<lambda>_. ghostty_sys_set T 1 a)) (wreturn (t, e, a))))))) (\<lambda>(t, e, a).
     wseq (wdo (\<lambda>g. g\<lparr>instancesByHandle := (instancesByHandle g)(o_handle g \<mapsto> self g), callbackRegistry := Some (t, e, a)\<rparr>))
    (wseq (erun (\<lambda>g. ghostty_terminal_set T (o_handle g) OPT_WRITE_PTY t))
          (erun (\<lambda>g. ghostty_terminal_set T (o_handle g) OPT_SIZE e)))))"

text \<open>What the \<open>SIZE\<close> callback answers about this object, and a call that may call back.\<close>

definition size_answer :: "'v gobj \<Rightarrow> size_info" where
  "size_answer g =
     (if instancesByHandle g (o_handle g) = Some (self g) \<and> o_cellWidthPx g \<noteq> 0 \<and> o_cellHeightPx g \<noteq> 0
      then Some (o_rows g, o_cols g, o_cellWidthPx g, o_cellHeightPx g) else None)"

definition call_pty ::
  "('v gobj \<Rightarrow> size_info \<Rightarrow> 'v \<Rightarrow> (nat \<times> 8 word list) list \<times> 'v) \<Rightarrow> ('v, unit) gm" where
  "call_pty f = wdo (\<lambda>g. let (ps, v) = f g (size_answer g) (cw g) in fold write_pty_cb ps (g\<lparr>cw := v\<rparr>))"

section \<open>Configuration\<close>

definition rgb_bytes :: "nat \<Rightarrow> 8 word list" where
  "rgb_bytes g = [word_of_nat (g div 65536), word_of_nat (g div 256), word_of_nat g]"

definition setColorOption :: "'v term_api \<Rightarrow> nat \<Rightarrow> nat \<Rightarrow> ('v, unit) gm" where
  "setColorOption T A g =
     wusing (mem T) (U8_array 3) ''Failed to allocate color option buffer'' (\<lambda>I.
       wseq (wstore (mem T) I (rgb_bytes g)) (erun (\<lambda>o'. ghostty_terminal_set T (o_handle o') A I)))"

text \<open>The non-zero entries of the palette over the default palette at \<open>I\<close>.\<close>

definition overlay_palette :: "'v term_api \<Rightarrow> nat \<Rightarrow> nat list \<Rightarrow> ('v, unit) gm" where
  "overlay_palette T I pal =
     wfold [0..<min (length pal) 16] (\<lambda>i _.
       let c = pal ! i
       in if c \<noteq> 0 then wseq (wstore (mem T) (I + i * 3) (rgb_bytes c)) (wreturn ((), True))
          else wreturn ((), True)) ()"

definition applyPalette :: "'v term_api \<Rightarrow> nat list \<Rightarrow> ('v, unit) gm" where
  "applyPalette T pal =
     wusing (mem T) (U8_array 768) ''Failed to allocate color palette buffer'' (\<lambda>I.
       wbind (ecall (\<lambda>g. ghostty_terminal_get T (o_handle g) TD_COLOR_PALETTE_DEFAULT I)) (\<lambda>r.
       wseq (if r \<noteq> 0 then wstore (mem T) I (replicate 768 0) else wreturn ())
      (wbind (wslice (mem T) I 768) (\<lambda>_.
       wseq (overlay_palette T I pal)
            (erun (\<lambda>g. ghostty_terminal_set T (o_handle g) OPT_COLOR_PALETTE I))))))"

definition wwhen :: "bool \<Rightarrow> ('w, unit) wm \<Rightarrow> ('w, unit) wm" where
  "wwhen b m = (if b then m else wreturn ())"

definition applyConfig :: "'v term_api \<Rightarrow> colors \<Rightarrow> ('v, unit) gm" where
  "applyConfig T A =
     wseq (wwhen (fgColor A \<noteq> 0) (setColorOption T OPT_COLOR_FOREGROUND (fgColor A)))
    (wseq (wwhen (bgColor A \<noteq> 0) (setColorOption T OPT_COLOR_BACKGROUND (bgColor A)))
    (wseq (wwhen (cursorColor A \<noteq> 0) (setColorOption T OPT_COLOR_CURSOR (cursorColor A)))
          (wwhen (list_ex (\<lambda>c. c \<noteq> 0) (palette A)) (applyPalette T (palette A)))))"

text \<open>The two halves of a 64-bit number: \<open>A >>> 0\<close> and \<open>Math.floor(A / 4294967296) >>> 0\<close>.\<close>

definition low_word :: "rat \<Rightarrow> nat" where
  "low_word A = nat (\<lfloor>A\<rfloor> mod 4294967296)"

definition high_word :: "rat \<Rightarrow> nat" where
  "high_word A = nat (\<lfloor>A / 4294967296\<rfloor> mod 4294967296)"

definition setKittyImageStorageLimit :: "'v term_api \<Rightarrow> num_arg \<Rightarrow> ('v, unit) gm" where
  "setKittyImageStorageLimit T n =
     (let A = (case n of None \<Rightarrow> 0 | Some a \<Rightarrow> if a < 0 then 0 else a)
      in wusing (mem T) (U8_array 8) ''Failed to allocate kitty image storage limit buffer'' (\<lambda>g.
           wseq (wput (mem T) 4 g (low_word A))
          (wseq (wput (mem T) 4 (g + 4) (high_word A))
                (erun (\<lambda>o'. ghostty_terminal_set T (o_handle o') OPT_KITTY_IMAGE_STORAGE_LIMIT g)))))"

text \<open>The words of the configuration structure in order, and their layout at \<open>A\<close>.\<close>

definition config_words :: "colors \<Rightarrow> nat list" where
  "config_words g =
     [case scrollbackLimit g of None \<Rightarrow> 0 | Some n \<Rightarrow> n, fgColor g, bgColor g, cursorColor g] @
     map (\<lambda>e. if e < length (palette g) then palette g ! e else 0) [0..<16]"

definition writeConfigToPtr :: "'v term_api \<Rightarrow> nat \<Rightarrow> colors \<Rightarrow> ('v, unit) gm" where
  "writeConfigToPtr T A g =
     wfold [0..<length (config_words g)] (\<lambda>i _.
       wseq (wput (mem T) 4 (A + 4 * i) (config_words g ! i)) (wreturn ((), True))) ()"

definition setColors :: "'v term_api \<Rightarrow> colors \<Rightarrow> ('v, unit) gm" where
  "setColors T A =
     (case ghostty_terminal_set_colors T of
        None \<Rightarrow> wreturn ()
      | Some upd \<Rightarrow>
          wscratch (mem T) (U8_array 80) () (\<lambda>I.
            wseq (writeConfigToPtr T I A) (erun (\<lambda>g. upd (o_handle g) I))))"

section \<open>Life cycle\<close>

text \<open>\<open>dA\<close>: the number of a mode with the bit for ANSI modes.\<close>

definition mode_tag :: "nat \<Rightarrow> bool \<Rightarrow> nat" where
  "mode_tag B ansi = (B AND 32767) OR (if ansi then 32768 else 0)"

definition initCellPool_w :: "('v, unit) gm" where
  "initCellPool_w = wdo (\<lambda>g. g\<lparr>o_cellPool := o_cellPool g @ replicate (o_cols g * o_rows g - length (o_cellPool g)) null_cell\<rparr>)"

text \<open>A handle of the object is freed and forgotten.\<close>

definition drop_handle ::
  "('v gobj \<Rightarrow> nat) \<Rightarrow> ('v gobj \<Rightarrow> 'v gobj) \<Rightarrow> string \<Rightarrow> (nat \<Rightarrow> 'v \<Rightarrow> 'v) \<Rightarrow> 'v gobj wst \<Rightarrow> 'v gobj wst" where
  "drop_handle fld clear name fr s =
     (let h = fld (world s)
      in if h \<noteq> 0
         then s\<lparr>world := clear ((world s)\<lparr>cw := fr h (cw (world s))\<rparr>), log := log s @ [Release (Handle name) h]\<rparr>
         else s)"

definition forget_callbacks :: "'v gobj wst \<Rightarrow> 'v gobj wst" where
  "forget_callbacks s =
     (let g = world s
      in if callbackRegistry g \<noteq> None
         then s\<lparr>world := g\<lparr>instancesByHandle := (instancesByHandle g)(o_handle g := None), callbackRegistry := None\<rparr>\<rparr>
         else s)"

definition drop_render :: "'v term_api \<Rightarrow> 'v gobj wst \<Rightarrow> 'v gobj wst" where
  "drop_render T s =
     drop_handle renderHandle (\<lambda>g. g\<lparr>renderHandle := 0\<rparr>) ''render'' (ghostty_render_state_free T)
    (drop_handle rowIter (\<lambda>g. g\<lparr>rowIter := 0\<rparr>) ''rows'' (ghostty_render_state_row_iterator_free T)
    (drop_handle rowCells (\<lambda>g. g\<lparr>rowCells := 0\<rparr>) ''cells'' (ghostty_render_state_row_cells_free T)
    (forget_callbacks s)))"

definition cleanupOnConstructorFailure :: "'v term_api \<Rightarrow> 'v gobj wst \<Rightarrow> 'v gobj wst" where
  "cleanupOnConstructorFailure T s =
     drop_handle o_handle (\<lambda>g. g\<lparr>o_handle := 0\<rparr>) ''terminal'' (ghostty_terminal_free T) (drop_render T s)"

text \<open>\<open>throw\<close> after cleaning up.\<close>

definition clean_fail :: "'v term_api \<Rightarrow> string \<Rightarrow> ('v, 'a) gm" where
  "clean_fail T msg s = (Inl (Js_Error msg), cleanupOnConstructorFailure T s)"

definition allocOpaqueOrFail ::
  "'v term_api \<Rightarrow> string \<Rightarrow> string \<Rightarrow> (nat \<Rightarrow> 'v \<Rightarrow> int \<times> 'v) \<Rightarrow> ('v, nat) gm" where
  "allocOpaqueOrFail T kind A g =
     wbind (walloc_of (mem T) Opaque) (\<lambda>I.
       if I = 0 then clean_fail T (''Failed to allocate handle for '' @ A)
       else
         wfinally
           (wbind (ecall (\<lambda>_. g I)) (\<lambda>Q.
              if Q \<noteq> 0 then clean_fail T (A @ '' failed: '' @ idec Q)
              else
                wbind (wread (mem T) 4 I) (\<lambda>h.
                  if h = 0 then wreturn h else wseq (wlog (Acquire (Handle kind) h)) (wreturn h))))
           (wfree_of (mem T) Opaque I))"

text \<open>The first part of the constructor: the terminal itself.\<close>

definition new_terminal :: "'v term_api \<Rightarrow> nat \<Rightarrow> nat \<Rightarrow> colors option \<Rightarrow> ('v, unit) gm" where
  "new_terminal T I Q C =
     wbind (walloc_of (mem T) (U8_array 8)) (\<lambda>i.
     if i = 0 then wfail ''Failed to allocate terminal options''
     else
       wbind (walloc_of (mem T) Opaque) (\<lambda>o'.
       if o' = 0 then wseq (wfree_m (mem T) (U8_array 8) i) (wfail ''Failed to allocate terminal handle'')
       else
         wfinally
           (wbind (wslice (mem T) i 8) (\<lambda>_.
            wseq (wput (mem T) 2 i I)
           (wseq (wput (mem T) 2 (i + 2) Q)
           (wseq (wput (mem T) 4 (i + 4)
                   (case C of None \<Rightarrow> 10000 | Some c \<Rightarrow> (case scrollbackLimit c of None \<Rightarrow> 10000 | Some n \<Rightarrow> n)))
           (wbind (ecall (\<lambda>_. ghostty_terminal_new T o' i)) (\<lambda>s.
            if s \<noteq> 0 then wfail (''ghostty_terminal_new failed: '' @ idec s)
            else
              wbind (wread (mem T) 4 o') (\<lambda>h.
                wseq (wdo (\<lambda>g. g\<lparr>o_handle := h\<rparr>))
                     (wwhen (h \<noteq> 0) (wlog (Acquire (Handle ''terminal'') h))))))))))
           (\<lambda>s. wfree_of (mem T) Opaque o' (wfree_of (mem T) (U8_array 8) i s))))"

text \<open>The second part, inside \<open>try\<close>.\<close>

definition set_up :: "'v term_api \<Rightarrow> colors option \<Rightarrow> ('v, unit) gm" where
  "set_up T C =
     wseq (installCallbacks T)
    (wseq (case C of None \<Rightarrow> wreturn () | Some c \<Rightarrow> applyConfig T c)
    (wseq (erun (\<lambda>g. ghostty_terminal_mode_set T (o_handle g) (mode_tag 2027 False) True))
    (wseq (setKittyImageStorageLimit T (Some 67108864))
    (wbind (allocOpaqueOrFail T ''render'' ''ghostty_render_state_new'' (ghostty_render_state_new T)) (\<lambda>h.
     wseq (wdo (\<lambda>g. g\<lparr>renderHandle := h\<rparr>))
    (wbind (allocOpaqueOrFail T ''rows'' ''ghostty_render_state_row_iterator_new''
              (ghostty_render_state_row_iterator_new T)) (\<lambda>h.
     wseq (wdo (\<lambda>g. g\<lparr>rowIter := h\<rparr>))
    (wbind (allocOpaqueOrFail T ''cells'' ''ghostty_render_state_row_cells_new''
              (ghostty_render_state_row_cells_new T)) (\<lambda>h.
     wseq (wdo (\<lambda>g. g\<lparr>rowCells := h\<rparr>)) initCellPool_w)))))))))"

text \<open>\<open>catch (D) { cleanup(); throw D }\<close>\<close>

definition or_clean_up :: "'v term_api \<Rightarrow> ('v, 'a) gm \<Rightarrow> ('v, 'a) gm" where
  "or_clean_up T m s =
     (case m s of (Inl e, s') \<Rightarrow> (Inl e, cleanupOnConstructorFailure T s') | (Inr x, s') \<Rightarrow> (Inr x, s'))"

definition fresh_object :: "nat \<Rightarrow> nat \<Rightarrow> 'v gobj \<Rightarrow> 'v gobj" where
  "fresh_object I Q g =
     g\<lparr>o_handle := 0, renderHandle := 0, rowIter := 0, rowCells := 0, o_cols := I, o_rows := Q,
       o_cellWidthPx := 0, o_cellHeightPx := 0, o_cellPool := [], rowDirtyCache := None, rowWrapCache := None,
       o_pending := [], callbackRegistry := None\<rparr>"

definition gt_ctor :: "'v term_api \<Rightarrow> nat \<Rightarrow> nat \<Rightarrow> colors option \<Rightarrow> ('v, unit) gm" where
  "gt_ctor T I Q C =
     wseq (wdo (fresh_object I Q))
    (wseq (new_terminal T I Q C)
    (wbind (own o_handle) (\<lambda>h.
       if h = 0 then wfail ''Failed to create terminal'' else or_clean_up T (set_up T C))))"

definition gt_free :: "'v term_api \<Rightarrow> ('v, unit) gm" where
  "gt_free T s =
     (let s1 = drop_render T s; h = o_handle (world s1)
      in (Inr (), s1\<lparr>world := (world s1)\<lparr>cw := ghostty_terminal_free T h (cw (world s1))\<rparr>,
                     log := log s1 @ [Release (Handle ''terminal'') h]\<rparr>))"

definition write_data :: "'v term_api \<Rightarrow> wdata \<Rightarrow> ('v, unit) gm" where
  "write_data T A =
     (let g = (case A of Text t \<Rightarrow> t_encode T t | Bytes b \<Rightarrow> b)
      in if length g = 0 then wreturn ()
         else
           wusing (mem T) (U8_array (length g)) ''Failed to allocate terminal write buffer'' (\<lambda>I.
             wseq (wstore (mem T) I g)
                  (call_pty (\<lambda>o'. ghostty_terminal_vt_write T (o_handle o') I (length g)))))"

definition resize_w :: "'v term_api \<Rightarrow> nat \<Rightarrow> nat \<Rightarrow> ('v, unit) gm" where
  "resize_w T A g =
     wbind (own (\<lambda>o'. A = o_cols o' \<and> g = o_rows o')) (\<lambda>same.
     if same then wreturn ()
     else
       wseq (wdo (\<lambda>o'. o'\<lparr>o_cols := A, o_rows := g\<rparr>))
      (wseq (call_pty (\<lambda>o'. ghostty_terminal_resize T (o_handle o') A g (o_cellWidthPx o') (o_cellHeightPx o')))
            initCellPool_w))"

definition setCellPixelSize_w :: "'v term_api \<Rightarrow> num_arg \<Rightarrow> num_arg \<Rightarrow> ('v, unit) gm" where
  "setCellPixelSize_w T A g =
     (case (A, g) of
        (Some a, Some b) \<Rightarrow>
          let I = nat (max 1 (js_round a)); Q = nat (max 1 (js_round b))
          in wbind (own (\<lambda>o'. I = o_cellWidthPx o' \<and> Q = o_cellHeightPx o')) (\<lambda>same.
             if same then wreturn ()
             else
               wseq (wdo (\<lambda>o'. o'\<lparr>o_cellWidthPx := I, o_cellHeightPx := Q\<rparr>))
                    (call_pty (\<lambda>o'. ghostty_terminal_resize T (o_handle o') (o_cols o') (o_rows o') I Q)))
      | _ \<Rightarrow> wreturn ())"

section \<open>Queries through a scratch buffer\<close>

definition rsGetU8 :: "'v term_api \<Rightarrow> nat \<Rightarrow> ('v, nat) gm" where
  "rsGetU8 T A =
     wscratch (mem T) U8 0 (\<lambda>g.
       wseq (do_call (\<lambda>o'. ghostty_render_state_get T (renderHandle o') A g)) (wread (mem T) 1 g))"

definition rsGetU16 :: "'v term_api \<Rightarrow> nat \<Rightarrow> ('v, nat) gm" where
  "rsGetU16 T A =
     wscratch (mem T) (U8_array 2) 0 (\<lambda>g.
       wseq (do_call (\<lambda>o'. ghostty_render_state_get T (renderHandle o') A g)) (wread (mem T) 2 g))"

definition rsGetU32 :: "'v term_api \<Rightarrow> nat \<Rightarrow> ('v, nat) gm" where
  "rsGetU32 T A =
     wscratch (mem T) (U8_array 4) 0 (\<lambda>g.
       wseq (do_call (\<lambda>o'. ghostty_render_state_get T (renderHandle o') A g)) (wread (mem T) 4 g))"

definition rsGetRgb :: "'v term_api \<Rightarrow> nat \<Rightarrow> ('v, rgb) gm" where
  "rsGetRgb T A =
     wscratch (mem T) (U8_array 3) \<lparr>red = 0, green = 0, blue = 0\<rparr> (\<lambda>g.
       wseq (do_call (\<lambda>o'. ghostty_render_state_get T (renderHandle o') A g))
      (wbind (wslice (mem T) g 3) (\<lambda>I.
         wreturn \<lparr>red = unat (I ! 0), green = unat (I ! 1), blue = unat (I ! 2)\<rparr>)))"

definition tGetU8 :: "'v term_api \<Rightarrow> nat \<Rightarrow> ('v, nat) gm" where
  "tGetU8 T A =
     wscratch (mem T) U8 0 (\<lambda>g.
       wseq (do_call (\<lambda>o'. ghostty_terminal_get T (o_handle o') A g)) (wread (mem T) 1 g))"

definition tGetU32 :: "'v term_api \<Rightarrow> nat \<Rightarrow> ('v, nat) gm" where
  "tGetU32 T A =
     wscratch (mem T) (U8_array 4) 0 (\<lambda>g.
       wseq (do_call (\<lambda>o'. ghostty_terminal_get T (o_handle o') A g)) (wread (mem T) 4 g))"

definition getMode_w :: "'v term_api \<Rightarrow> nat \<Rightarrow> bool \<Rightarrow> ('v, bool) gm" where
  "getMode_w T A g =
     wscratch (mem T) U8 False (\<lambda>Q.
       wseq (do_call (\<lambda>o'. ghostty_terminal_mode_get T (o_handle o') (mode_tag A g) Q))
      (wbind (wread (mem T) 1 Q) (\<lambda>x. wreturn (x \<noteq> 0))))"

definition isAlternateScreen :: "'v term_api \<Rightarrow> ('v, bool) gm" where
  "isAlternateScreen T = wbind (tGetU32 T TD_ACTIVE_SCREEN) (\<lambda>x. wreturn (x = 1))"

definition hasBracketedPaste :: "'v term_api \<Rightarrow> ('v, bool) gm" where
  "hasBracketedPaste T = getMode_w T 2004 False"

definition hasFocusEvents :: "'v term_api \<Rightarrow> ('v, bool) gm" where
  "hasFocusEvents T = getMode_w T 1004 False"

definition hasMouseTracking :: "'v term_api \<Rightarrow> ('v, bool) gm" where
  "hasMouseTracking T = wbind (tGetU8 T TD_MOUSE_TRACKING) (\<lambda>x. wreturn (x \<noteq> 0))"

definition getScrollbackLength_w :: "'v term_api \<Rightarrow> ('v, nat) gm" where
  "getScrollbackLength_w T = tGetU32 T TD_SCROLLBACK_ROWS"

section \<open>The render state\<close>

definition update :: "'v term_api \<Rightarrow> ('v, nat) gm" where
  "update T =
     wbind (ecall (\<lambda>g. ghostty_render_state_update T (renderHandle g) (o_handle g))) (\<lambda>A.
     if A \<noteq> 0 then wfail (''ghostty_render_state_update failed: '' @ idec A)
     else wseq (wdo (\<lambda>g. g\<lparr>rowDirtyCache := None, rowWrapCache := None\<rparr>)) (rsGetU32 T RS_DIRTY))"

record cursor =
  cu_x :: int
  cu_y :: int
  cu_viewportX :: int
  cu_viewportY :: int
  cu_visible :: bool
  cu_blinking :: bool
  cu_style :: string

definition getCursor :: "'v term_api \<Rightarrow> ('v, cursor) gm" where
  "getCursor T =
     wbind (update T) (\<lambda>_.
     wbind (rsGetU8 T RS_CURSOR_VIEWPORT_HAS_VALUE) (\<lambda>A.
     wbind (rsGetU8 T RS_CURSOR_VISIBLE) (\<lambda>g.
     wbind (rsGetU8 T RS_CURSOR_BLINKING) (\<lambda>I.
     wbind (rsGetU32 T RS_CURSOR_VISUAL_STYLE) (\<lambda>Q.
     wbind (if A \<noteq> 0 then wbind (rsGetU16 T RS_CURSOR_VIEWPORT_X) (\<lambda>n. wreturn (int n)) else wreturn (- 1)) (\<lambda>C.
     wbind (if A \<noteq> 0 then wbind (rsGetU16 T RS_CURSOR_VIEWPORT_Y) (\<lambda>n. wreturn (int n)) else wreturn (- 1)) (\<lambda>E.
       wreturn \<lparr>cu_x = max 0 C, cu_y = max 0 E, cu_viewportX = C, cu_viewportY = E, cu_visible = (g \<noteq> 0),
                cu_blinking = (I \<noteq> 0),
                cu_style = (if Q = 0 then ''bar'' else if Q = 2 then ''underline'' else ''block'')\<rparr>)))))))"

definition getColors :: "'v term_api \<Rightarrow> ('v, rgb \<times> rgb \<times> rgb option) gm" where
  "getColors T =
     wbind (update T) (\<lambda>_.
     wbind (rsGetRgb T RS_COLOR_BACKGROUND) (\<lambda>A.
     wbind (rsGetRgb T RS_COLOR_FOREGROUND) (\<lambda>g.
     wbind (rsGetU8 T RS_COLOR_CURSOR_HAS_VALUE) (\<lambda>h.
     wbind (if h \<noteq> 0 then wbind (rsGetRgb T RS_COLOR_CURSOR) (\<lambda>c. wreturn (Some c)) else wreturn None) (\<lambda>Q.
       wreturn (A, g, Q))))))"

definition isDirty :: "'v term_api \<Rightarrow> ('v, bool) gm" where
  "isDirty T = wbind (update T) (\<lambda>d. wreturn (d \<noteq> 0))"

definition needsFullRedraw :: "'v term_api \<Rightarrow> ('v, bool) gm" where
  "needsFullRedraw T = wbind (update T) (\<lambda>d. wreturn (d = 2))"

definition populateHandle :: "'v term_api \<Rightarrow> ('v gobj \<Rightarrow> nat \<Rightarrow> 'v \<Rightarrow> int \<times> 'v) \<Rightarrow> ('v gobj \<Rightarrow> nat) \<Rightarrow> ('v, unit) gm" where
  "populateHandle T A fld =
     wbind (own fld) (\<lambda>g.
     wbind (walloc_of (mem T) (U8_array 4)) (\<lambda>I.
     wseq (wput (mem T) 4 I g)
    (wseq (do_call (\<lambda>o'. A o' I)) (wfree_m (mem T) (U8_array 4) I))))"

definition populate_rows :: "'v term_api \<Rightarrow> ('v, unit) gm" where
  "populate_rows T =
     populateHandle T (\<lambda>o' E. ghostty_render_state_get T (renderHandle o') RS_ROW_ITERATOR E) rowIter"

definition populate_cells :: "'v term_api \<Rightarrow> ('v, unit) gm" where
  "populate_cells T = populateHandle T (\<lambda>o' G. ghostty_render_state_row_get T (rowIter o') ROW_CELLS G) rowCells"

definition next_row :: "'v term_api \<Rightarrow> ('v, bool) gm" where
  "next_row T = wbind (ecall (\<lambda>g. ghostty_render_state_row_iterator_next T (rowIter g))) (\<lambda>n. wreturn (n \<noteq> 0))"

definition refreshRowMetaCache :: "'v term_api \<Rightarrow> ('v, unit) gm" where
  "refreshRowMetaCache T =
     wbind (update T) (\<lambda>_.
     wbind (own o_rows) (\<lambda>rows.
     wseq (populate_rows T)
    (wbind (walloc_of (mem T) U8) (\<lambda>I.
     wbind (walloc_of (mem T) (U8_array 8)) (\<lambda>Q.
     wbind (walloc_of (mem T) U8) (\<lambda>C.
     wbind
       (wfinally
         (wfold [0..<rows] (\<lambda>E (A, g).
            wbind (next_row T) (\<lambda>more.
            if \<not> more then wreturn ((A, g), False)
            else
              wbind (wview (mem T)) (\<lambda>i.
              wseq (do_call (\<lambda>o'. ghostty_render_state_row_get T (rowIter o') ROW_DIRTY I))
             (wbind (wget_u8 (mem T) i I) (\<lambda>d.
              wseq (do_call (\<lambda>o'. ghostty_render_state_row_get T (rowIter o') ROW_RAW Q))
             (wbind (wread (mem T) 8 Q) (\<lambda>r.
              wseq (do_call (\<lambda>_. ghostty_row_get T r WRAP_CONTINUATION C))
             (wbind (wread (mem T) 1 C) (\<lambda>w.
                wreturn ((A[E := d \<noteq> 0], g[E := w \<noteq> 0]), True)))))))))) (replicate rows False, replicate rows False))
         (wfree_all (mem T) [(U8, I), (U8_array 8, Q), (U8, C)])) (\<lambda>(A, g).
     wdo (\<lambda>o'. o'\<lparr>rowDirtyCache := Some A, rowWrapCache := Some g\<rparr>))))))))"

text \<open>An index outside the cached array reads \<open>undefined\<close>, and \<open>?? false\<close> turns it into \<open>false\<close>.\<close>

definition cached :: "bool list option \<Rightarrow> int \<Rightarrow> bool" where
  "cached c A = (case c of None \<Rightarrow> False | Some xs \<Rightarrow> nat A < length xs \<and> xs ! nat A)"

definition row_flag :: "'v term_api \<Rightarrow> ('v gobj \<Rightarrow> bool list option) \<Rightarrow> int \<Rightarrow> ('v, bool) gm" where
  "row_flag T cache A =
     wbind (own (\<lambda>g. A < 0 \<or> int (o_rows g) \<le> A)) (\<lambda>out.
     if out then wreturn False
     else
       wbind (own (\<lambda>g. cache g = None)) (\<lambda>stale.
       wseq (wwhen stale (refreshRowMetaCache T)) (own (\<lambda>g. cached (cache g) A))))"

definition isRowDirty :: "'v term_api \<Rightarrow> int \<Rightarrow> ('v, bool) gm" where
  "isRowDirty T A = row_flag T rowDirtyCache A"

definition isRowWrapped :: "'v term_api \<Rightarrow> int \<Rightarrow> ('v, bool) gm" where
  "isRowWrapped T A = row_flag T rowWrapCache A"

text \<open>The loop over all rows takes the fuel \<open>n\<close>.\<close>

definition markClean :: "'v term_api \<Rightarrow> nat \<Rightarrow> ('v, unit) gm" where
  "markClean T n =
     wbind (walloc_of (mem T) (U8_array 4)) (\<lambda>A.
     wseq (wput (mem T) 4 A 0)
    (wseq (do_call (\<lambda>o'. ghostty_render_state_set T (renderHandle o') 0 A))
    (wseq (wfree_m (mem T) (U8_array 4) A)
    (wseq (populate_rows T)
    (wbind (walloc_of (mem T) U8) (\<lambda>g.
     wseq (wput (mem T) 1 g 0)
    (wseq (wwhile n (\<lambda>_.
             wbind (next_row T) (\<lambda>more.
             if \<not> more then wreturn ((), False)
             else wseq (do_call (\<lambda>o'. ghostty_render_state_row_set T (rowIter o') 0 g)) (wreturn ((), True)))) ())
    (wseq (wfree_m (mem T) U8 g) (wdo (\<lambda>o'. o'\<lparr>rowDirtyCache := None\<rparr>))))))))))"

section \<open>The viewport\<close>

text \<open>Bit flags of a cell from the bytes of a style structure, whose last four bytes are the underline.\<close>

definition style_flags :: "8 word list \<Rightarrow> nat" where
  "style_flags y =
     flag (le (take 4 (drop 64 y)) \<noteq> 0) 4 (flag (y ! 62 \<noteq> 0) 8 (flag (y ! 61 \<noteq> 0) 32 (flag (y ! 60 \<noteq> 0) 16
    (flag (y ! 59 \<noteq> 0) 64 (flag (y ! 58 \<noteq> 0) 128 (flag (y ! 57 \<noteq> 0) 2 (flag (y ! 56 \<noteq> 0) 1 0)))))))"

definition wide_width :: "nat \<Rightarrow> nat" where
  "wide_width M = (if M = 1 then 2 else if M = 2 \<or> M = 3 then 0 else 1)"

definition zeroCellPool :: "('v, unit) gm" where
  "zeroCellPool = wdo (\<lambda>g. g\<lparr>o_cellPool := map (\<lambda>_. null_cell) (o_cellPool g)\<rparr>)"

text \<open>An assignment to fields of the cell \<open>G = cellPool[k]\<close>.\<close>

definition set_cell :: "nat \<Rightarrow> (cell \<Rightarrow> cell) \<Rightarrow> ('v, unit) gm" where
  "set_cell k f = wdo (\<lambda>g. g\<lparr>o_cellPool := (o_cellPool g)[k := f (o_cellPool g ! k)]\<rparr>)"

definition cells_get :: "'v term_api \<Rightarrow> nat \<Rightarrow> nat \<Rightarrow> ('v, int) gm" where
  "cells_get T key ptr = ecall (\<lambda>g. ghostty_render_state_row_cells_get T (rowCells g) key ptr)"

definition set_fg :: "8 word list \<Rightarrow> cell \<Rightarrow> cell" where
  "set_fg y c = c\<lparr>fg_r := unat (y ! 0), fg_g := unat (y ! 1), fg_b := unat (y ! 2), fgIsDefault := False\<rparr>"

definition set_bg :: "8 word list \<Rightarrow> cell \<Rightarrow> cell" where
  "set_bg y c = c\<lparr>bg_r := unat (y ! 0), bg_g := unat (y ! 1), bg_b := unat (y ! 2), bgIsDefault := False\<rparr>"

text \<open>The buffers of \<open>getViewport\<close>, by the names of the code.\<close>

record viewport_bufs =
  v_g :: nat
  v_I :: nat
  v_Q :: nat
  v_C :: nat
  v_E :: nat
  v_i :: nat
  v_o :: nat
  v_D :: nat

text \<open>Codepoint and colours of the cell under the iterator; a missing cell of the pool is a \<open>TypeError\<close>.\<close>

definition read_glyph :: "'v term_api \<Rightarrow> viewport_bufs \<Rightarrow> nat \<Rightarrow> ('v, unit) gm" where
  "read_glyph T b k =
     wbind (cells_get T RC_GRAPHEMES_LEN (v_g b)) (\<lambda>_.
     wbind (wread (mem T) 4 (v_g b)) (\<lambda>F.
     wbind (own (\<lambda>g. k < length (o_cellPool g))) (\<lambda>there.
     if \<not> there then wfail ''TypeError''
     else
       wseq (set_cell k (\<lambda>c. c\<lparr>grapheme_len := F - 1\<rparr>))
      (wseq (if F > 0
             then wbind (cells_get T RC_GRAPHEMES_BUF (v_g b)) (\<lambda>_.
                  wbind (wread (mem T) 4 (v_g b)) (\<lambda>cp. set_cell k (\<lambda>c. c\<lparr>codepoint := int cp\<rparr>)))
             else set_cell k (\<lambda>c. c\<lparr>codepoint := 0\<rparr>))
      (wseq (set_cell k (\<lambda>c. c\<lparr>fg_r := 0, fg_g := 0, fg_b := 0, bg_r := 0, bg_g := 0, bg_b := 0,
                               fgIsDefault := True, bgIsDefault := True\<rparr>))
      (wbind (cells_get T RC_FG_COLOR (v_I b)) (\<lambda>r.
       wseq (wwhen (r = 0) (wbind (wslice (mem T) (v_I b) 3) (\<lambda>y. set_cell k (set_fg y))))
      (wbind (cells_get T RC_BG_COLOR (v_I b)) (\<lambda>r.
       wwhen (r = 0) (wbind (wslice (mem T) (v_I b) 3) (\<lambda>y. set_cell k (set_bg y))))))))))))"

text \<open>Its style flags, width and hyperlink mark.\<close>

definition read_attributes :: "'v term_api \<Rightarrow> viewport_bufs \<Rightarrow> nat \<Rightarrow> ('v, unit) gm" where
  "read_attributes T b k =
     wbind (cells_get T RC_STYLE (v_i b)) (\<lambda>_.
     wbind (wslice (mem T) (v_i b) 72) (\<lambda>y.
     wseq (set_cell k (\<lambda>c. c\<lparr>flags := style_flags y\<rparr>))
    (wbind (cells_get T RC_RAW (v_o b)) (\<lambda>_.
     wbind (wread (mem T) 8 (v_o b)) (\<lambda>J.
     wseq (do_call (\<lambda>_. ghostty_cell_get T J CELL_WIDE (v_D b)))
    (wbind (wread (mem T) 4 (v_D b)) (\<lambda>M.
     wseq (set_cell k (\<lambda>c. c\<lparr>cwidth := wide_width M\<rparr>))
    (wseq (do_call (\<lambda>_. ghostty_cell_get T J CELL_HAS_HYPERLINK (v_D b)))
    (wbind (wread (mem T) 1 (v_D b)) (\<lambda>x.
     set_cell k (\<lambda>c. c\<lparr>hyperlink_id := (if x \<noteq> 0 then 1 else 0)\<rparr>)))))))))))"

definition read_row_cells :: "'v term_api \<Rightarrow> viewport_bufs \<Rightarrow> nat \<Rightarrow> nat \<Rightarrow> ('v, unit) gm" where
  "read_row_cells T b cols t =
     wfold [0..<cols] (\<lambda>a _.
       wbind (ecall (\<lambda>g. ghostty_render_state_row_cells_next T (rowCells g))) (\<lambda>more.
       if more = 0 then wreturn ((), False)
       else
         wseq (read_glyph T b (t * cols + a))
        (wseq (read_attributes T b (t * cols + a)) (wreturn ((), True))))) ()"

definition read_rows :: "'v term_api \<Rightarrow> viewport_bufs \<Rightarrow> nat \<Rightarrow> nat \<Rightarrow> ('v, bool list \<times> bool list) gm" where
  "read_rows T b cols rows =
     wfold [0..<rows] (\<lambda>t (s, w).
       wbind (next_row T) (\<lambda>more.
       if \<not> more then wreturn ((s, w), False)
       else
         wseq (do_call (\<lambda>o'. ghostty_render_state_row_get T (rowIter o') ROW_DIRTY (v_Q b)))
        (wbind (wread (mem T) 1 (v_Q b)) (\<lambda>d.
         wseq (do_call (\<lambda>o'. ghostty_render_state_row_get T (rowIter o') ROW_RAW (v_C b)))
        (wbind (wread (mem T) 8 (v_C b)) (\<lambda>e.
         wseq (do_call (\<lambda>_. ghostty_row_get T e WRAP_CONTINUATION (v_E b)))
        (wbind (wread (mem T) 1 (v_E b)) (\<lambda>x.
         wseq (populate_cells T)
        (wseq (read_row_cells T b cols t)
              (wreturn ((s[t := d \<noteq> 0], w[t := x \<noteq> 0]), True)))))))))))
     (replicate rows False, replicate rows False)"

text \<open>A buffer that is filled in right after it was allocated.\<close>

definition alloc_put :: "'v term_api \<Rightarrow> nat \<Rightarrow> nat \<Rightarrow> ('v, nat) gm" where
  "alloc_put T n x =
     wbind (walloc_of (mem T) (U8_array n)) (\<lambda>a. wseq (wput (mem T) 4 a x) (wreturn a))"

definition getViewport :: "'v term_api \<Rightarrow> ('v, cell list) gm" where
  "getViewport T =
     wbind (update T) (\<lambda>_.
     wseq zeroCellPool
    (wseq (populate_rows T)
    (wbind (walloc_of (mem T) (U8_array 4)) (\<lambda>g.
     wbind (walloc_of (mem T) (U8_array 3)) (\<lambda>I.
     wbind (walloc_of (mem T) U8) (\<lambda>Q.
     wbind (walloc_of (mem T) (U8_array 8)) (\<lambda>C.
     wbind (walloc_of (mem T) U8) (\<lambda>E.
     wbind (alloc_put T 72 72) (\<lambda>i.
     wbind (walloc_of (mem T) (U8_array 8)) (\<lambda>o'.
     wbind (walloc_of (mem T) (U8_array 4)) (\<lambda>D.
     wbind
       (wfinally
         (wbind (own o_rows) (\<lambda>rows.
          wbind (own o_cols) (\<lambda>cols.
            read_rows T \<lparr>v_g = g, v_I = I, v_Q = Q, v_C = C, v_E = E, v_i = i, v_o = o', v_D = D\<rparr> cols rows)))
         (wfree_all (mem T) [(U8_array 4, g), (U8_array 3, I), (U8, Q), (U8_array 8, C), (U8, E), (U8_array 72, i),
                             (U8_array 8, o'), (U8_array 4, D)])) (\<lambda>(s, w).
     wseq (wdo (\<lambda>ob. ob\<lparr>rowDirtyCache := Some s, rowWrapCache := Some w\<rparr>)) (own o_cellPool)))))))))))))"

definition getLine_w :: "'v term_api \<Rightarrow> int \<Rightarrow> ('v, cell list option) gm" where
  "getLine_w T A =
     wbind (own (\<lambda>g. A < 0 \<or> int (o_rows g) \<le> A)) (\<lambda>out.
     if out then wreturn None
     else
       wbind (update T) (\<lambda>_.
       wbind (getViewport T) (\<lambda>g.
       wbind (own o_cols) (\<lambda>cols. wreturn (Some (take cols (drop (nat A * cols) g)))))))"

section \<open>Cells by reference\<close>

definition allocPoint :: "'v term_api \<Rightarrow> nat \<Rightarrow> nat \<Rightarrow> nat \<Rightarrow> ('v, nat) gm" where
  "allocPoint T A g I =
     wbind (walloc_of (mem T) (U8_array 24)) (\<lambda>Q.
     wseq (wstore (mem T) Q (replicate 24 0))
    (wseq (wput (mem T) 4 Q A)
    (wseq (wput (mem T) 2 (Q + 8) g)
    (wseq (wput (mem T) 4 (Q + 12) I) (wreturn Q)))))"

text \<open>The colour at \<open>A\<close> by its tag: none, an entry of the palette, or direct.\<close>

definition style_color :: "nat \<Rightarrow> 8 word list option \<Rightarrow> 8 word list \<Rightarrow> nat \<times> nat \<times> nat" where
  "style_color E g v =
     (case g of
        Some pal \<Rightarrow>
          if E = 1 then
            (let w = unat (v ! 0) in (unat (pal ! (w * 3)), unat (pal ! (w * 3 + 1)), unat (pal ! (w * 3 + 2))))
          else if E = 2 then (unat (v ! 0), unat (v ! 1), unat (v ! 2)) else (0, 0, 0)
      | None \<Rightarrow> if E = 2 then (unat (v ! 0), unat (v ! 1), unat (v ! 2)) else (0, 0, 0))"

definition resolveStyleColor ::
  "'v term_api \<Rightarrow> nat \<Rightarrow> 8 word list option \<Rightarrow> cell \<Rightarrow> bool \<Rightarrow> ('v, cell) gm" where
  "resolveStyleColor T A g I Q =
     wbind (wread (mem T) 4 A) (\<lambda>E.
     wbind (if E = 1 \<and> g \<noteq> None then wbind (wslice (mem T) (A + 8) 1) (\<lambda>v. wreturn (style_color E g v))
            else if E = 2 then wbind (wslice (mem T) (A + 8) 3) (\<lambda>v. wreturn (style_color E g v))
            else wreturn (0, 0, 0)) (\<lambda>(i, o', D).
       wreturn (if Q then I\<lparr>fg_r := i, fg_g := o', fg_b := D, fgIsDefault := (E = 0)\<rparr>
                else I\<lparr>bg_r := i, bg_g := o', bg_b := D, bgIsDefault := (E = 0)\<rparr>)))"

text \<open>One cell of a line, with the reference at \<open>Q\<close> and the buffers \<open>s\<close>, \<open>w\<close>, \<open>t\<close> and \<open>a\<close>.\<close>

definition read_grid_cell ::
  "'v term_api \<Rightarrow> 8 word list option \<Rightarrow> nat \<Rightarrow> nat \<Rightarrow> nat \<Rightarrow> nat \<Rightarrow> nat \<Rightarrow> nat \<Rightarrow> ('v, cell) gm" where
  "read_grid_cell T pal Q s w t a G =
     wseq (wput (mem T) 2 (Q + 8) G)
    (wbind (ecall (\<lambda>_. ghostty_grid_ref_cell T Q s)) (\<lambda>r.
     if r \<noteq> 0 then wreturn null_cell
     else
       wbind (wread (mem T) 8 s) (\<lambda>F.
       wseq (do_call (\<lambda>_. ghostty_cell_get T F CELL_CODEPOINT w))
      (wbind (wread (mem T) 4 w) (\<lambda>J.
       wseq (do_call (\<lambda>_. ghostty_cell_get T F CELL_WIDE t))
      (wbind (wread (mem T) 4 t) (\<lambda>M.
       wseq (do_call (\<lambda>_. ghostty_cell_get T F CELL_HAS_HYPERLINK t))
      (wbind (wread (mem T) 1 t) (\<lambda>H.
       wseq (wput (mem T) 4 a 72)
      (wbind (ecall (\<lambda>_. ghostty_grid_ref_style T Q a)) (\<lambda>k.
       let h = null_cell\<lparr>codepoint := int J, cwidth := wide_width M, hyperlink_id := (if H \<noteq> 0 then 1 else 0)\<rparr>
       in if k \<noteq> 0 then wreturn h
          else
            wbind (wslice (mem T) a 72) (\<lambda>y.
            wbind (resolveStyleColor T (a + 8) pal (h\<lparr>flags := style_flags y\<rparr>) True) (\<lambda>h.
                   resolveStyleColor T (a + 24) pal h False)))))))))))))"

text \<open>The palette in effect, copied out of a buffer that is kept until the line is read.\<close>

definition read_palette :: "'v term_api \<Rightarrow> ('v, nat \<times> 8 word list option) gm" where
  "read_palette T =
     wbind (walloc_of (mem T) (U8_array 768)) (\<lambda>E.
     wbind (ecall (\<lambda>o'. ghostty_terminal_get T (o_handle o') TD_COLOR_PALETTE E)) (\<lambda>r.
     if r = 0 then wbind (wslice (mem T) E 768) (\<lambda>p. wreturn (E, Some p)) else wreturn (E, None)))"

definition readGridLine :: "'v term_api \<Rightarrow> nat \<Rightarrow> nat \<Rightarrow> ('v, cell list option) gm" where
  "readGridLine T A g =
     wbind (allocPoint T A 0 g) (\<lambda>I.
     wbind (alloc_put T 12 12) (\<lambda>Q.
       wfinally
         (wbind (ecall (\<lambda>o'. ghostty_terminal_grid_ref T (o_handle o') I Q)) (\<lambda>r.
          if r \<noteq> 0 then wreturn None
          else
            wbind (read_palette T) (\<lambda>(E, pal).
            wbind (own o_cols) (\<lambda>cols.
            wbind (walloc_of (mem T) (U8_array 8)) (\<lambda>s.
            wbind (walloc_of (mem T) (U8_array 4)) (\<lambda>w.
            wbind (walloc_of (mem T) (U8_array 4)) (\<lambda>t.
            wbind (alloc_put T 72 72) (\<lambda>a.
              wfinally
                (wbind
                  (wfold [0..<cols] (\<lambda>G D.
                     wbind (read_grid_cell T pal Q s w t a G) (\<lambda>h. wreturn (D @ [h], True))) []) (\<lambda>D.
                   wreturn (Some D)))
                (wfree_all (mem T) [(U8_array 8, s), (U8_array 4, w), (U8_array 4, t), (U8_array 72, a),
                                    (U8_array 768, E)])))))))))
         (wfree_all (mem T) [(U8_array 24, I), (U8_array 12, Q)])))"

definition getScrollbackLine :: "'v term_api \<Rightarrow> nat \<Rightarrow> ('v, cell list option) gm" where
  "getScrollbackLine T A = readGridLine T POINT_HISTORY A"

text \<open>
  The common shape of \<open>readHyperlinkUri\<close> and \<open>getScrollbackGrapheme\<close>: a reference to the cell,
  then \<open>body\<close> with the reference and a buffer for a length.
\<close>

definition with_grid_ref :: "'v term_api \<Rightarrow> nat \<Rightarrow> nat \<Rightarrow> nat \<Rightarrow> (nat \<Rightarrow> nat \<Rightarrow> ('v, 'a option) gm) \<Rightarrow> ('v, 'a option) gm" where
  "with_grid_ref T tag x y body =
     wbind (allocPoint T tag x y) (\<lambda>Q.
     wbind (alloc_put T 12 12) (\<lambda>C.
       wfinally
         (wbind (ecall (\<lambda>o'. ghostty_terminal_grid_ref T (o_handle o') Q C)) (\<lambda>r.
          if r \<noteq> 0 then wreturn None
          else
            wbind (walloc_of (mem T) Usize) (\<lambda>E.
              wfinally (body C E) (wfree_of (mem T) Usize E))))
         (wfree_all (mem T) [(U8_array 24, Q), (U8_array 12, C)])))"

definition readHyperlinkUri :: "'v term_api \<Rightarrow> nat \<Rightarrow> nat \<Rightarrow> nat \<Rightarrow> ('v, jstr option) gm" where
  "readHyperlinkUri T A g I =
     with_grid_ref T A I g (\<lambda>C E.
       wseq (do_call (\<lambda>_. ghostty_grid_ref_hyperlink_uri T C 0 0 E))
      (wbind (wread (mem T) 4 E) (\<lambda>i.
       if i = 0 then wreturn None
       else
         wbind (walloc_of (mem T) (U8_array i)) (\<lambda>o'.
           wfinally
             (wbind (ecall (\<lambda>_. ghostty_grid_ref_hyperlink_uri T C o' i E)) (\<lambda>r.
              if r \<noteq> 0 then wreturn None
              else
                wbind (wread (mem T) 4 E) (\<lambda>s.
                wbind (wslice (mem T) o' s) (\<lambda>w. wreturn (Some (t_decode T w))))))
             (wfree_of (mem T) (U8_array i) o')))))"

definition getHyperlinkUri :: "'v term_api \<Rightarrow> int \<Rightarrow> int \<Rightarrow> ('v, jstr option) gm" where
  "getHyperlinkUri T A g =
     wbind (own (\<lambda>o'. A < 0 \<or> int (o_rows o') \<le> A \<or> g < 0 \<or> int (o_cols o') \<le> g)) (\<lambda>out.
     if out then wreturn None else readHyperlinkUri T POINT_ACTIVE (nat A) (nat g))"

definition getScrollbackHyperlinkUri :: "'v term_api \<Rightarrow> nat \<Rightarrow> int \<Rightarrow> ('v, jstr option) gm" where
  "getScrollbackHyperlinkUri T A g =
     wbind (own (\<lambda>o'. g < 0 \<or> int (o_cols o') \<le> g)) (\<lambda>out.
     if out then wreturn None else readHyperlinkUri T POINT_HISTORY A (nat g))"

section \<open>Graphemes\<close>

text \<open>The iterator is moved to row \<open>A\<close>; \<open>False\<close> when there are fewer rows.\<close>

definition seek_row :: "'v term_api \<Rightarrow> nat \<Rightarrow> ('v, bool) gm" where
  "seek_row T A = wfold [0..<Suc A] (\<lambda>_ _. wbind (next_row T) (\<lambda>more. wreturn (more, more))) True"

definition getGrapheme :: "'v term_api \<Rightarrow> int \<Rightarrow> int \<Rightarrow> ('v, nat list option) gm" where
  "getGrapheme T A g =
     wbind (own (\<lambda>o'. A < 0 \<or> int (o_rows o') \<le> A \<or> g < 0 \<or> int (o_cols o') \<le> g)) (\<lambda>out.
     if out then wreturn None
     else
       wbind (update T) (\<lambda>_.
       wseq (populate_rows T)
      (wbind (seek_row T (nat A)) (\<lambda>found.
       if \<not> found then wreturn None
       else
         wseq (populate_cells T)
        (wbind (ecall (\<lambda>o'. ghostty_render_state_row_cells_select T (rowCells o') (nat g))) (\<lambda>r.
         if r \<noteq> 0 then wreturn None
         else
           wbind (walloc_of (mem T) (U8_array 4)) (\<lambda>I.
           wbind (wfinally (wbind (cells_get T RC_GRAPHEMES_LEN I) (\<lambda>_. wread (mem T) 4 I))
                           (wfree_of (mem T) (U8_array 4) I)) (\<lambda>Q.
           if Q = 0 then wreturn (Some [])
           else
             wbind (walloc_of (mem T) (U8_array (Q * 4))) (\<lambda>E.
               wfinally
                 (wbind (cells_get T RC_GRAPHEMES_BUF E) (\<lambda>_.
                  wbind (wwords (mem T) E Q) (\<lambda>ws. wreturn (Some ws))))
                 (wfree_of (mem T) (U8_array (Q * 4)) E))))))))))"

text \<open>\<open>String.fromCodePoint(...I)\<close>, or a space for an empty cell.\<close>

definition code_point_string :: "nat list option \<Rightarrow> ('w, jstr) wm" where
  "code_point_string I =
     (case I of
        None \<Rightarrow> wreturn (js '' '')
      | Some ws \<Rightarrow>
          if ws = [] then wreturn (js '' '')
          else if list_ex (\<lambda>w. 1114111 < w) ws then (\<lambda>s. (Inl Range_Error, s))
          else wreturn (concat (map utf16 ws)))"

definition getGraphemeString :: "'v term_api \<Rightarrow> int \<Rightarrow> int \<Rightarrow> ('v, jstr) gm" where
  "getGraphemeString T A g = wbind (getGrapheme T A g) code_point_string"

definition getScrollbackGrapheme :: "'v term_api \<Rightarrow> nat \<Rightarrow> int \<Rightarrow> ('v, nat list option) gm" where
  "getScrollbackGrapheme T A g =
     wbind (own (\<lambda>o'. g < 0 \<or> int (o_cols o') \<le> g)) (\<lambda>out.
     if out then wreturn None
     else
       with_grid_ref T POINT_HISTORY (nat g) A (\<lambda>Q C.
         wseq (do_call (\<lambda>_. ghostty_grid_ref_graphemes T Q 0 0 C))
        (wbind (wread (mem T) 4 C) (\<lambda>E.
         if E = 0 then wreturn (Some [])
         else
           wbind (walloc_of (mem T) (U8_array (E * 4))) (\<lambda>o'.
             wfinally
               (wbind (ecall (\<lambda>_. ghostty_grid_ref_graphemes T Q o' E C)) (\<lambda>r.
                if r \<noteq> 0 then wreturn None
                else
                  wbind (wread (mem T) 4 C) (\<lambda>s.
                  wbind (wwords (mem T) o' s) (\<lambda>ws. wreturn (Some ws)))))
               (wfree_of (mem T) (U8_array (E * 4)) o'))))))"

definition getScrollbackGraphemeString :: "'v term_api \<Rightarrow> nat \<Rightarrow> int \<Rightarrow> ('v, jstr) gm" where
  "getScrollbackGraphemeString T A g = wbind (getScrollbackGrapheme T A g) code_point_string"

section \<open>Kitty graphics\<close>

definition getKittyGraphics :: "'v term_api \<Rightarrow> ('v, nat option) gm" where
  "getKittyGraphics T =
     wscratch (mem T) (U8_array 4) None (\<lambda>A.
       wbind (ecall (\<lambda>o'. ghostty_terminal_get T (o_handle o') TD_KITTY_GRAPHICS A)) (\<lambda>r.
       if r \<noteq> 0 then wreturn None
       else wbind (wread (mem T) 4 A) (\<lambda>I. wreturn (if I = 0 then None else Some I))))"

record placement =
  imageId :: nat
  pixelWidth :: nat
  pixelHeight :: nat
  gridCols :: nat
  gridRows :: nat
  viewportCol :: int
  viewportRow :: int
  viewportVisible :: bool
  sourceX :: nat
  sourceY :: nat
  sourceWidth :: nat
  sourceHeight :: nat
  isVirtual :: bool

text \<open>The fields of the 48-byte structure that \<open>placement_render_info\<close> fills in.\<close>

definition u32_field :: "8 word list \<Rightarrow> nat \<Rightarrow> nat" where
  "u32_field y k = le (take 4 (drop k y))"

definition placement_of :: "nat \<Rightarrow> bool \<Rightarrow> 8 word list \<Rightarrow> placement" where
  "placement_of D t y =
     \<lparr>imageId = D, pixelWidth = u32_field y 4, pixelHeight = u32_field y 8, gridCols = u32_field y 12,
      gridRows = u32_field y 16, viewportCol = signed32 (u32_field y 20), viewportRow = signed32 (u32_field y 24),
      viewportVisible = (y ! 28 \<noteq> 0), sourceX = u32_field y 32, sourceY = u32_field y 36,
      sourceWidth = u32_field y 40, sourceHeight = u32_field y 44, isVirtual = t\<rparr>"

text \<open>One turn of the loop over the placements: the ones found so far, and whether to go on.\<close>

definition placement_step ::
  "'v term_api \<Rightarrow> nat \<Rightarrow> bool \<Rightarrow> nat \<Rightarrow> nat \<Rightarrow> nat \<Rightarrow> placement list \<Rightarrow> ('v, placement list \<times> bool) gm" where
  "placement_step T A onlyVisible Q i o' ys =
     wbind (ecall (\<lambda>_. ghostty_kitty_graphics_placement_next T Q)) (\<lambda>more.
     if more = 0 then wreturn (ys, False)
     else
       wseq (do_call (\<lambda>_. ghostty_kitty_graphics_placement_get T Q 1 i))
      (wbind (wread (mem T) 4 i) (\<lambda>D.
       wbind (ecall (\<lambda>_. ghostty_kitty_graphics_image T A D)) (\<lambda>s.
       if s = 0 then wreturn (ys, True)
       else
         wseq (wput (mem T) 4 o' 48)
        (wbind (ecall (\<lambda>g. ghostty_kitty_graphics_placement_render_info T Q s (o_handle g) o')) (\<lambda>r.
         if r \<noteq> 0 then wreturn (ys, True)
         else
           wseq (do_call (\<lambda>_. ghostty_kitty_graphics_placement_get T Q 3 i))
          (wbind (wread (mem T) 1 i) (\<lambda>t.
           wbind (wslice (mem T) o' 48) (\<lambda>y.
           let a = placement_of D (t \<noteq> 0) y
           in wreturn (if onlyVisible \<and> \<not> viewportVisible a then ys else ys @ [a], True))))))))))"

text \<open>The buffers \<open>i\<close> and \<open>o\<close> of the loop: either may be missing.\<close>

definition placement_loop ::
  "'v term_api \<Rightarrow> nat \<Rightarrow> nat \<Rightarrow> bool \<Rightarrow> nat \<Rightarrow> ('v, placement list) gm" where
  "placement_loop T n A onlyVisible Q =
     wbind (walloc_of (mem T) (U8_array 4)) (\<lambda>i.
     wbind (walloc_of (mem T) (U8_array 48)) (\<lambda>o'.
     if i = 0 \<or> o' = 0
     then wseq (wwhen (i \<noteq> 0) (wfree_m (mem T) (U8_array 4) i))
         (wseq (wwhen (o' \<noteq> 0) (wfree_m (mem T) (U8_array 48) o')) (wreturn []))
     else
       wseq (wput (mem T) 4 o' 48)
            (wfinally (wwhile n (placement_step T A onlyVisible Q i o') [])
                      (wfree_all (mem T) [(U8_array 4, i), (U8_array 48, o')]))))"

text \<open>
  The generator run to its end: \<open>Q\<close> is the iterator, freed in the outer \<open>finally\<close> once it is
  known; \<open>n\<close> bounds the number of placements.
\<close>

definition iter_finally :: "'v term_api \<Rightarrow> nat \<Rightarrow> nat \<Rightarrow> 'v gobj wst \<Rightarrow> 'v gobj wst" where
  "iter_finally T Q I s =
     wfree_of (mem T) Opaque I
       (if Q \<noteq> 0
        then s\<lparr>world := (world s)\<lparr>cw := ghostty_kitty_graphics_placement_iterator_free T Q (cw (world s))\<rparr>,
               log := log s @ [Release (Handle ''placements'') Q]\<rparr>
        else s)"

definition bind_iterator :: "'v term_api \<Rightarrow> nat \<Rightarrow> nat \<Rightarrow> ('v, bool) gm" where
  "bind_iterator T A Q =
     wscratch (mem T) (U8_array 4) False (\<lambda>E.
       wseq (wput (mem T) 4 E Q)
      (wseq (do_call (\<lambda>_. ghostty_kitty_graphics_get T A 1 E)) (wreturn True)))"

definition iterPlacements :: "'v term_api \<Rightarrow> nat \<Rightarrow> nat \<Rightarrow> bool \<Rightarrow> ('v, placement list) gm" where
  "iterPlacements T n A onlyVisible =
     wbind (walloc_of (mem T) Opaque) (\<lambda>I.
     if I = 0 then wreturn []
     else
       wbind
         (\<lambda>s. case wbind (ecall (\<lambda>_. ghostty_kitty_graphics_placement_iterator_new T I)) (\<lambda>r.
                if r \<noteq> 0 then wreturn 0 else wread (mem T) 4 I) s of
                (Inl e, s') \<Rightarrow> (Inl e, iter_finally T 0 I s')
              | (Inr Q, s') \<Rightarrow> (Inr Q, s')) (\<lambda>Q.
       if Q = 0 then (\<lambda>s. (Inr [], iter_finally T 0 I s))
       else
         wseq (wlog (Acquire (Handle ''placements'') Q))
              (wfinally
                (wbind (bind_iterator T A Q) (\<lambda>ok. if ok then placement_loop T n A onlyVisible Q else wreturn []))
                (iter_finally T Q I))))"

record kitty_image =
  ki_width :: nat
  ki_height :: nat
  ki_format :: nat
  ki_data :: "nat \<times> nat"

text \<open>The pixels are a view of the memory, given by its address and length.\<close>

definition getKittyImagePixels :: "'v term_api \<Rightarrow> nat \<Rightarrow> nat \<Rightarrow> ('v, kitty_image option) gm" where
  "getKittyImagePixels T A g =
     wbind (ecall (\<lambda>_. ghostty_kitty_graphics_image T A g)) (\<lambda>I.
     if I = 0 then wreturn None
     else
       wscratch (mem T) (U8_array 4) None (\<lambda>Q.
         let E = (\<lambda>t. wbind (ecall (\<lambda>_. ghostty_kitty_graphics_image_get T I t Q)) (\<lambda>r.
                     if r \<noteq> 0 then wreturn 0 else wread (mem T) 4 Q))
         in wbind (E 3) (\<lambda>i. wbind (E 4) (\<lambda>o'. wbind (E 5) (\<lambda>D. wbind (E 7) (\<lambda>s. wbind (E 8) (\<lambda>w.
            if i = 0 \<or> o' = 0 \<or> s = 0 \<or> w = 0 then wreturn None
            else wbind (wslice (mem T) s w) (\<lambda>_.
                   wreturn (Some \<lparr>ki_width = i, ki_height = o', ki_format = D, ki_data = (s, w)\<rparr>)))))))))"

end
