(* ===== verification/Gw_Wrapper_Props.thy ===== *)
theory Gw_Wrapper_Props
  imports Gw_Wrapper
begin

text \<open>
  What the object of \<open>Gw_Wrapper\<close> guarantees: no buffer and no handle is lost or freed twice,
  whichever way its methods end; the constructor cleans up after itself; and the numbers it
  writes for the core are laid out as the core reads them.
\<close>

section \<open>Every method returns what it borrowed\<close>

text \<open>The four handles an object owns.\<close>

definition handles :: "'v gobj \<Rightarrow> nat \<times> nat \<times> nat \<times> nat" where
  "handles g = (o_handle g, renderHandle g, rowIter g, rowCells g)"

lemma handles_cw [simp]: "handles (g\<lparr>cw := v\<rparr>) = handles g"
  by (simp add: handles_def)

interpretation gw: wrapped_memory "mem T" handles for T
  by unfold_locales (auto simp: mem_def split: prod.splits)

named_theorems tidy_rules

lemma tidy_own [tidy_rules]: "gw.pays {#} (own f)"
  by (rule gw.pays_quiet) (simp_all add: own_def)

lemma tidy_call [tidy_rules]: "gw.pays {#} (ecall f)"
  unfolding ecall_def by (rule gw.pays_call) (simp split: prod.splits)

lemma tidy_run [tidy_rules]: "gw.pays {#} (erun f)"
  unfolding erun_def by (rule gw.pays_do) simp

lemma handles_pty [simp]: "handles (fold write_pty_cb ps g) = handles g"
  by (induction ps arbitrary: g) (auto simp: write_pty_cb_def handles_def)

lemma tidy_pty [tidy_rules]: "gw.pays {#} (call_pty f)"
  unfolding call_pty_def by (rule gw.pays_do) (simp split: prod.splits)

lemmas [tidy_rules] = gw.pays_basic gw.pays_bind gw.pays_seq gw.pays_if gw.pays_read gw.pays_put gw.pays_get_u8
  gw.pays_words gw.pays_fold gw.pays_while gw.pays_scratch gw.pays_using

definition tidy :: "('v, 'a) gm \<Rightarrow> bool" where
  "tidy m = (\<forall>s. debt s {#} (snd (m s)) \<and> handles (world (snd (m s))) = handles (world s))"

lemma tidy_pays: "tidy m = gw.pays {#} m"
  using gw.paysI [of m] gw.pays_debt [of m] gw.pays_keeps [of "{#}" m] by (auto simp: tidy_def)

lemma tidy_do_call [tidy_rules]: "gw.pays {#} (do_call f)"
  unfolding do_call_def by (intro tidy_rules)

lemma tidy_wwhen [tidy_rules]: "gw.pays {#} m \<Longrightarrow> gw.pays {#} (wwhen b m)"
  unfolding wwhen_def by (intro tidy_rules)

lemma tidy_range_error [tidy_rules]: "gw.pays {#} (\<lambda>s. (Inl e, s))"
  by (rule gw.pays_quiet) simp_all

text \<open>Updates of fields other than the handles.\<close>

lemma tidy_updates [tidy_rules]:
  "gw.pays {#} initCellPool_w" "gw.pays {#} zeroCellPool" "gw.pays {#} (set_cell k f)"
  "gw.pays {#} (wdo (\<lambda>g. g\<lparr>rowDirtyCache := A, rowWrapCache := B\<rparr>))"
  "gw.pays {#} (wdo (\<lambda>g. g\<lparr>rowDirtyCache := A\<rparr>))"
  "gw.pays {#} (wdo (\<lambda>g. g\<lparr>o_cols := c, o_rows := r\<rparr>))"
  "gw.pays {#} (wdo (\<lambda>g. g\<lparr>o_cellWidthPx := c, o_cellHeightPx := r\<rparr>))"
  "gw.pays {#} (wdo (\<lambda>g. g\<lparr>callbackRegistries := x, instancesByHandle := y\<rparr>))"
  "gw.pays {#} (wdo (\<lambda>g. g\<lparr>instancesByHandle := z g, callbackRegistry := x\<rparr>))"
  unfolding initCellPool_w_def zeroCellPool_def set_cell_def by (rule gw.pays_do; simp add: handles_def)+

lemma tidy_queries [tidy_rules]:
  "gw.pays {#} (rsGetU8 T A)" "gw.pays {#} (rsGetU16 T A)" "gw.pays {#} (rsGetU32 T A)" "gw.pays {#} (rsGetRgb T A)"
  "gw.pays {#} (tGetU8 T A)" "gw.pays {#} (tGetU32 T A)" "gw.pays {#} (getMode_w T A b)"
  unfolding rsGetU8_def rsGetU16_def rsGetU32_def rsGetRgb_def tGetU8_def tGetU32_def getMode_w_def
  by (intro tidy_rules)+

lemma tidy_config [tidy_rules]:
  "gw.pays {#} (setColorOption T A c)" "gw.pays {#} (overlay_palette T I pal)" "gw.pays {#} (writeConfigToPtr T I C)"
  unfolding setColorOption_def overlay_palette_def writeConfigToPtr_def Let_def by (intro tidy_rules)+

lemma tidy_limit [tidy_rules]: "gw.pays {#} (setKittyImageStorageLimit T a)"
  unfolding setKittyImageStorageLimit_def Let_def by (intro tidy_rules)

lemma tidy_applyPalette [tidy_rules]: "gw.pays {#} (applyPalette T pal)"
  unfolding applyPalette_def by (intro tidy_rules)

lemma tidy_applyConfig [tidy_rules]: "gw.pays {#} (applyConfig T C)"
  unfolding applyConfig_def by (intro tidy_rules)

lemma tidy_setColors [tidy_rules]: "gw.pays {#} (setColors T C)"
  unfolding setColors_def by (cases "ghostty_terminal_set_colors T") (simp_all, (intro tidy_rules)+)

lemma tidy_write [tidy_rules]: "gw.pays {#} (write_data T d)"
  unfolding write_data_def Let_def by (intro tidy_rules)

lemma tidy_resize [tidy_rules]: "gw.pays {#} (resize_w T c r)"
  unfolding resize_w_def by (intro tidy_rules)

lemma tidy_setCellPixelSize [tidy_rules]: "gw.pays {#} (setCellPixelSize_w T a b)"
  unfolding setCellPixelSize_w_def Let_def by (auto split: option.split intro!: tidy_rules)

lemma tidy_update [tidy_rules]: "gw.pays {#} (update T)"
  unfolding update_def by (intro tidy_rules)

lemma tidy_getCursor [tidy_rules]: "gw.pays {#} (getCursor T)"
  unfolding getCursor_def by (intro tidy_rules)

lemma tidy_getColors [tidy_rules]: "gw.pays {#} (getColors T)"
  unfolding getColors_def by (intro tidy_rules)

lemma tidy_next_row [tidy_rules]: "gw.pays {#} (next_row T)"
  unfolding next_row_def by (intro tidy_rules)

lemma tidy_cells_get [tidy_rules]: "gw.pays {#} (cells_get T k p)"
  unfolding cells_get_def by (intro tidy_rules)

lemma tidy_seek_row [tidy_rules]: "gw.pays {#} (seek_row T n)"
  unfolding seek_row_def by (intro tidy_rules)

lemma tidy_grow_table [tidy_rules]: "gw.pays {#} (grow_table T f)"
  unfolding grow_table_def by (intro gw.pays_bind tidy_rules) (auto split: option.split intro!: tidy_rules)

lemma tidy_installCallbacks [tidy_rules]: "gw.pays {#} (installCallbacks T)"
  unfolding installCallbacks_def
  by (intro gw.pays_bind tidy_own) (auto split: option.split prod.split intro!: tidy_rules)

lemma tidy_read_glyph [tidy_rules]: "gw.pays {#} (read_glyph T b k)"
  unfolding read_glyph_def by (intro tidy_rules)

lemma tidy_read_attributes [tidy_rules]: "gw.pays {#} (read_attributes T b k)"
  unfolding read_attributes_def by (intro tidy_rules)

lemma tidy_read_row_cells [tidy_rules]: "gw.pays {#} (read_row_cells T b c t)"
  unfolding read_row_cells_def by (intro tidy_rules)

lemma tidy_resolveStyleColor [tidy_rules]: "gw.pays {#} (resolveStyleColor T A g I Q)"
  unfolding resolveStyleColor_def by (intro gw.pays_bind tidy_rules) (auto split: prod.split intro!: tidy_rules)

lemma tidy_read_grid_cell [tidy_rules]: "gw.pays {#} (read_grid_cell T pal Q s w t a G)"
  unfolding read_grid_cell_def Let_def by (intro tidy_rules)

lemma tidy_placement_step [tidy_rules]: "gw.pays {#} (placement_step T A v Q i o' ys)"
  unfolding placement_step_def Let_def by (intro tidy_rules)

lemma tidy_getKittyGraphics [tidy_rules]: "gw.pays {#} (getKittyGraphics T)"
  unfolding getKittyGraphics_def by (intro tidy_rules)

lemma tidy_getKittyImagePixels [tidy_rules]: "gw.pays {#} (getKittyImagePixels T A g)"
  unfolding getKittyImagePixels_def Let_def by (intro tidy_rules)

lemma tidy_bind_iterator [tidy_rules]: "gw.pays {#} (bind_iterator T A Q)"
  unfolding bind_iterator_def by (intro tidy_rules)

section \<open>Buffers that are filled before they are guarded\<close>

text \<open>
  Some methods write to a buffer between its allocation and the \<open>try\<close> that frees it, without
  asking whether the allocation succeeded. What they rely on: a buffer lies inside the
  memory, the memory has at least 768 bytes (so that even address 0 can be written), a
  write changes only the bytes, and reading a property of the terminal does not shrink it.
\<close>

fun ksize :: "wkind \<Rightarrow> nat" where
  "ksize Opaque = 4"
| "ksize U8 = 1"
| "ksize Usize = 4"
| "ksize (U8_array n) = n"
| "ksize (Handle n) = 0"

definition mem_ok :: "'v term_api \<Rightarrow> bool" where
  "mem_ok T =
     ((\<forall>k v. fst (alloc (t_inst T) k v) \<noteq> 0 \<longrightarrow>
         fst (alloc (t_inst T) k v) + ksize k \<le> length (bytes_of (t_inst T) (snd (alloc (t_inst T) k v)))) \<and>
      (\<forall>v. 768 \<le> length (bytes_of (t_inst T) v)) \<and>
      (\<forall>b v. length b = length (bytes_of (t_inst T) v) \<longrightarrow> bytes_of (t_inst T) (set_bytes (t_inst T) b v) = b) \<and>
      (\<forall>h k a v. length (bytes_of (t_inst T) v) \<le> length (bytes_of (t_inst T) (snd (ghostty_terminal_get T h k a v)))))"

abbreviation memory :: "'v term_api \<Rightarrow> 'v gobj wst \<Rightarrow> 8 word list" where
  "memory T s \<equiv> bytes_of (mem T) (world s)"

lemma alloc_inside:
  assumes "mem_ok T" "walloc_of (mem T) k s = (Inr a, s')" "ksize k \<le> 768"
  shows "a + ksize k \<le> length (memory T s')"
proof -
  obtain v where v: "alloc (t_inst T) k (cw (world s)) = (a, v)" "cw (world s') = v"
    using assms(2) by (auto simp: walloc_of_def mem_def split: prod.splits)
  show ?thesis
  proof (cases "a = 0")
    case True
    have "768 \<le> length (bytes_of (t_inst T) v)" using assms(1) by (simp add: mem_ok_def)
    with True v assms(3) show ?thesis by (simp add: mem_def)
  next
    case False
    with assms(1) v show ?thesis unfolding mem_ok_def by (metis (no_types, lifting) fst_conv snd_conv exports.select_convs(1) mem_def)
  qed
qed

lemma mem_set:
  "mem_ok T \<Longrightarrow> length b = length (bytes_of (t_inst T) v) \<Longrightarrow> bytes_of (t_inst T) (set_bytes (t_inst T) b v) = b"
  unfolding mem_ok_def by blast

text \<open>A store inside the memory succeeds, and changes neither the log nor the size of the memory.\<close>

lemma store_inside:
  assumes "mem_ok T" "a + length d \<le> length (memory T s)"
  obtains s' where "wstore (mem T) a d s = (Inr (), s')" "log s' = log s" "handles (world s') = handles (world s)"
    "length (memory T s') = length (memory T s)"
proof -
  let ?bs = "memory T s"
  let ?b = "take a ?bs @ d @ drop (a + length d) ?bs"
  let ?s' = "s\<lparr>world := set_bytes (mem T) ?b (world s)\<rparr>"
  have len: "length ?b = length (bytes_of (t_inst T) (cw (world s)))" using assms(2) by (simp add: mem_def)
  have "memory T ?s' = ?b" using mem_set [OF assms(1) len] by (simp add: mem_def)
  then have "length (memory T ?s') = length ?bs" using len by (simp add: mem_def)
  moreover have "wstore (mem T) a d s = (Inr (), ?s')" using assms(2) by (simp add: wstore_def Let_def)
  ultimately show ?thesis using that [of ?s'] gw.h_set by (simp add: mem_def)
qed

lemma put_inside:
  assumes "mem_ok T" "a + n \<le> length (memory T s)"
  obtains s' where "wput (mem T) n a x s = (Inr (), s')" "log s' = log s" "handles (world s') = handles (world s)"
    "length (memory T s') = length (memory T s)"
  using store_inside [of T a "le_bytes n x" s] assms by (auto simp: wput_def)

lemma alloc_cases:
  obtains a s' where "walloc_of (mem T) k s = (Inr a, s')" "debt s (lent k a) s'" "handles (world s') = handles (world s)"
  using gw.lends_alloc [of k T] unfolding gw.lends_def by blast

lemma lends_alloc_put:
  assumes "mem_ok T" "4 \<le> n" "n \<le> 768"
  shows "gw.lends (U8_array n) (alloc_put T n x)"
  unfolding gw.lends_def
proof
  fix s :: "'a gobj wst"
  obtain a s' where a: "walloc_of (mem T) (U8_array n) s = (Inr a, s')" "debt s (lent (U8_array n) a) s'"
    "handles (world s') = handles (world s)" by (rule alloc_cases)
  have "a + 4 \<le> length (memory T s')" using alloc_inside [OF assms(1) a(1)] assms(2,3) by simp
  then obtain s'' where "wput (mem T) 4 a x s' = (Inr (), s'')" "log s'' = log s'" "handles (world s'') = handles (world s')"
    by (rule put_inside [OF assms(1)])
  then show "\<exists>a s'. alloc_put T n x s = (Inr a, s') \<and> debt s (lent (U8_array n) a) s' \<and> handles (world s') = handles (world s)"
    using a by (auto simp: alloc_put_def wbind_def wseq_def wreturn_def intro: debt_log)
qed

lemma lends_allocPoint:
  assumes "mem_ok T"
  shows "gw.lends (U8_array 24) (allocPoint T A g I)"
  unfolding gw.lends_def
proof
  fix s :: "'a gobj wst"
  obtain a s0 where a: "walloc_of (mem T) (U8_array 24) s = (Inr a, s0)" "debt s (lent (U8_array 24) a) s0"
    "handles (world s0) = handles (world s)" by (rule alloc_cases)
  have l: "a + 24 \<le> length (memory T s0)" using alloc_inside [OF assms a(1)] by simp
  obtain s1 where 1: "wstore (mem T) a (replicate 24 0) s0 = (Inr (), s1)" "log s1 = log s0"
    "handles (world s1) = handles (world s0)" "length (memory T s1) = length (memory T s0)"
    using store_inside [OF assms, of a "replicate 24 0"] l by auto
  obtain s2 where 2: "wput (mem T) 4 a A s1 = (Inr (), s2)" "log s2 = log s1"
    "handles (world s2) = handles (world s1)" "length (memory T s2) = length (memory T s1)"
    using put_inside [OF assms, of a 4 s1] l 1 by auto
  obtain s3 where 3: "wput (mem T) 2 (a + 8) g s2 = (Inr (), s3)" "log s3 = log s2"
    "handles (world s3) = handles (world s2)" "length (memory T s3) = length (memory T s2)"
    using put_inside [OF assms, of "a + 8" 2 s2] l 1 2 by auto
  obtain s4 where 4: "wput (mem T) 4 (a + 12) I s3 = (Inr (), s4)" "log s4 = log s3"
    "handles (world s4) = handles (world s3)"
    using put_inside [OF assms, of "a + 12" 4 s3] l 1 2 3 by auto
  show "\<exists>a s'. allocPoint T A g I s = (Inr a, s') \<and> debt s (lent (U8_array 24) a) s' \<and> handles (world s') = handles (world s)"
    using a 1 2 3 4 by (auto simp: allocPoint_def wbind_def wseq_def wreturn_def intro: debt_log)
qed

text \<open>A first command that always succeeds, or cannot fail after the allocation before it.\<close>

lemma debt_pays: "gw.pays M m \<Longrightarrow> debt s0 (M + N) s \<Longrightarrow> debt s0 N (snd (m s))"
  by (simp add: gw.pays_def)

lemma pays_mono: "gw.pays {#} m \<Longrightarrow> debt s0 N s \<Longrightarrow> debt s0 N (snd (m s))"
  using debt_pays [of "{#}" m s0 N s] by simp

lemma ecall_eq:
  "ecall f s = (Inr (fst (f (world s) (cw (world s)))), s\<lparr>world := (world s)\<lparr>cw := snd (f (world s) (cw (world s)))\<rparr>\<rparr>)"
  by (simp add: ecall_def wcall_def Let_def split: prod.splits)

lemma do_call_eq: "do_call f s = (Inr (), s\<lparr>world := (world s)\<lparr>cw := snd (f (world s) (cw (world s)))\<rparr>\<rparr>)"
  by (simp add: do_call_def wbind_def ecall_eq wreturn_def)

lemma do_call_ok: "\<exists>s'. do_call f s = (Inr (), s')"
  by (simp add: do_call_eq)

lemma pays_then:
  assumes "\<And>s. \<exists>x s'. m s = (Inr x, s')" "gw.pays {#} m" "\<And>x. gw.pays M (f x)"
  shows "gw.pays M (wbind m f)"
proof -
  have "(debt s0 (M + N) s \<longrightarrow> debt s0 N (snd (wbind m f s))) \<and> handles (world (snd (wbind m f s))) = handles (world s)"
    for s0 N s
  proof -
    obtain x s' where m: "m s = (Inr x, s')" using assms(1) by blast
    have "debt s0 (M + N) s \<longrightarrow> debt s0 (M + N) s'" using pays_mono [OF assms(2), of s0 "M + N" s] m by simp
    moreover have "handles (world s') = handles (world s)" using gw.pays_keeps [OF assms(2), of s] m by simp
    ultimately show ?thesis
      using debt_pays [OF assms(3) [of x], of s0 N s'] gw.pays_keeps [OF assms(3) [of x], of s'] m by (simp add: wbind_def)
  qed
  then show ?thesis unfolding gw.pays_def by blast
qed

text \<open>Paying part of a debt first.\<close>

lemma pays_free_first:
  assumes "gw.pays M n"
  shows "gw.pays (lent k a + M) (wseq (wfree_m (mem T) k a) n)"
proof -
  have "snd (wseq (wfree_m (mem T) k a) n s) = snd (n (wfree_of (mem T) k a s))" for s
    by (simp add: wseq_def wbind_def wfree_m_def)
  moreover have "debt s0 N (snd (n (wfree_of (mem T) k a s)))" if "debt s0 (lent k a + M + N) s" for s0 N s
    using that by (intro debt_pays [OF assms] debt_free) (simp add: ac_simps)
  ultimately show ?thesis using gw.pays_keeps [OF assms] gw.h_free_of [of T k a] by (simp add: gw.pays_def)
qed

lemma pays_free_if:
  assumes "gw.pays M n"
  shows "gw.pays (lent k a + M) (wseq (wwhen (a \<noteq> 0) (wfree_m (mem T) k a)) n)"
proof (cases "a = 0")
  case True
  have "wseq (wreturn ()) n = n" by (simp add: wseq_def wbind_def wreturn_def fun_eq_iff)
  with True assms show ?thesis by (simp add: wwhen_def)
qed (simp add: wwhen_def pays_free_first [OF assms])

text \<open>The same at one state: what runs right after an allocation finds the buffer inside the memory.\<close>

definition pays_at :: "'v gobj wst \<Rightarrow> (wkind \<times> nat) multiset \<Rightarrow> ('v, 'a) gm \<Rightarrow> bool" where
  "pays_at s M m = ((\<forall>s0 N. debt s0 (M + N) s \<longrightarrow> debt s0 N (snd (m s))) \<and> handles (world (snd (m s))) = handles (world s))"

lemma pays_at_pays: "gw.pays M m \<Longrightarrow> pays_at s M m"
  by (simp add: gw.pays_def pays_at_def)

lemma pays_at_put:
  assumes "mem_ok T" "a + n \<le> length (memory T s)" "gw.pays M m"
  shows "pays_at s M (wseq (wput (mem T) n a x) m)"
proof -
  obtain s' where s': "wput (mem T) n a x s = (Inr (), s')" "log s' = log s" "handles (world s') = handles (world s)"
    by (rule put_inside [OF assms(1,2)])
  have "debt s0 N (snd (m s'))" if "debt s0 (M + N) s" for s0 N
    using debt_pays [OF assms(3)] debt_log [OF that s'(2)] by blast
  then show ?thesis using s' gw.pays_keeps [OF assms(3), of s'] by (simp add: pays_at_def wseq_def wbind_def)
qed

lemma pays_borrow_at:
  assumes "mem_ok T" "ksize k \<le> 768"
    and "\<And>a s. a + ksize k \<le> length (memory T s) \<Longrightarrow> pays_at s (lent k a + M) (f a)"
  shows "gw.pays M (wbind (walloc_of (mem T) k) f)"
proof -
  have "pays_at s M (wbind (walloc_of (mem T) k) f)" for s
  proof -
    obtain a s' where a: "walloc_of (mem T) k s = (Inr a, s')" "debt s (lent k a) s'"
      "handles (world s') = handles (world s)" by (rule alloc_cases)
    have at: "pays_at s' (lent k a + M) (f a)" using assms(3) alloc_inside [OF assms(1) a(1) assms(2)] by blast
    have "debt s0 N (snd (f a s'))" if "debt s0 (M + N) s" for s0 N
      using debt_trans [OF that a(2)] at by (simp add: pays_at_def ac_simps)
    with a at show ?thesis by (simp add: pays_at_def wbind_def)
  qed
  then show ?thesis unfolding gw.pays_def pays_at_def by blast
qed

lemma pays_alloc_put_then:
  assumes "mem_ok T" "ksize k \<le> 768" "n \<le> ksize k" "\<And>a. gw.pays (lent k a + M) (f a)"
  shows "gw.pays M (wbind (walloc_of (mem T) k) (\<lambda>a. wseq (wput (mem T) n a x) (f a)))"
  using assms(3) by (intro pays_borrow_at pays_at_put assms(1,2,4)) simp

lemma tidy_populateHandle:
  assumes "mem_ok T"
  shows "gw.pays {#} (populateHandle T A fld)"
  unfolding populateHandle_def
proof (rule gw.pays_bind [OF tidy_own])
  fix g
  have "gw.pays (lent (U8_array 4) a) (wseq (do_call (\<lambda>o'. A o' a)) (wfree_m (mem T) (U8_array 4) a))" for a
    unfolding wseq_def by (rule pays_then) (use do_call_ok tidy_do_call gw.pays_free in blast)+
  then show "gw.pays {#} (wbind (walloc_of (mem T) (U8_array 4)) (\<lambda>I. wseq (wput (mem T) 4 I g)
      (wseq (do_call (\<lambda>o'. A o' I)) (wfree_m (mem T) (U8_array 4) I))))"
    by (intro pays_alloc_put_then assms) auto
qed

lemma tidy_populate:
  assumes "mem_ok T"
  shows "gw.pays {#} (populate_rows T)" "gw.pays {#} (populate_cells T)"
  unfolding populate_rows_def populate_cells_def by (rule tidy_populateHandle [OF assms])+

lemma pays_pay_bind:
  assumes "gw.pays M m" "\<And>x. gw.pays {#} (f x)"
  shows "gw.pays M (wbind m f)"
proof -
  have "debt s0 N (snd (wbind m f s))" if "debt s0 (M + N) s" for s0 N s
    using debt_pays [OF assms(1) that] pays_mono [OF assms(2)] by (simp add: snd_wbind split: sum.splits)
  moreover have "handles (world (snd (wbind m f s))) = handles (world s)" for s
    using gw.pays_keeps [OF assms(1), of s] gw.pays_keeps [OF assms(2)] by (simp add: snd_wbind split: sum.splits)
  ultimately show ?thesis by (simp add: gw.pays_def)
qed

lemma tidy_row_meta [tidy_rules]:
  "gw.pays {#} (wdo (\<lambda>g. g\<lparr>rowDirtyCache := Some (fst p), rowWrapCache := Some (snd p)\<rparr>))"
  by (rule tidy_updates)

lemma tidy_refreshRowMetaCache:
  assumes "mem_ok T"
  shows "gw.pays {#} (refreshRowMetaCache T)"
  unfolding refreshRowMetaCache_def
  apply (rule gw.pays_bind [OF tidy_update], rule gw.pays_bind [OF tidy_own],
      rule gw.pays_seq [OF tidy_populate(1) [OF assms]])
  apply ((rule gw.pays_borrow [OF gw.lends_alloc])+, rule pays_pay_bind, rule gw.pays_finally_all)
  by (auto simp: ac_simps split: prod.split intro!: tidy_rules)

lemma tidy_row_flag:
  assumes "mem_ok T"
  shows "gw.pays {#} (row_flag T cache A)"
  unfolding row_flag_def by (intro tidy_rules tidy_refreshRowMetaCache assms)

lemma tidy_read_rows:
  assumes "mem_ok T"
  shows "gw.pays {#} (read_rows T b cols rows)"
  unfolding read_rows_def by (rule gw.pays_fold) (auto split: prod.split intro!: tidy_rules tidy_populate assms)

lemma tidy_getViewport:
  assumes "mem_ok T"
  shows "gw.pays {#} (getViewport T)"
  unfolding getViewport_def
  apply (rule gw.pays_bind [OF tidy_update], rule gw.pays_seq [OF tidy_updates(2)],
      rule gw.pays_seq [OF tidy_populate(1) [OF assms]])
  apply ((rule gw.pays_borrow [OF gw.lends_alloc])+, rule gw.pays_borrow [OF lends_alloc_put [OF assms]], simp, simp,
      (rule gw.pays_borrow [OF gw.lends_alloc])+, rule pays_pay_bind, rule gw.pays_finally_all)
  by (auto simp: ac_simps split: prod.split intro!: tidy_rules tidy_read_rows assms)

lemma tidy_getLine:
  assumes "mem_ok T"
  shows "gw.pays {#} (getLine_w T A)"
  unfolding getLine_w_def by (intro tidy_rules tidy_getViewport assms)

lemma tidy_with_grid_ref:
  assumes "mem_ok T" "\<And>C E. gw.pays {#} (body C E)"
  shows "gw.pays {#} (with_grid_ref T tag x y body)"
  unfolding with_grid_ref_def
  apply (rule gw.pays_borrow [OF lends_allocPoint [OF assms(1)]], rule gw.pays_borrow [OF lends_alloc_put [OF assms(1)]],
      simp, simp, rule gw.pays_finally_all)
  apply (intro gw.pays_bind [OF tidy_call] gw.pays_if gw.pays_basic)
  apply (rule gw.pays_borrow [OF gw.lends_alloc])
  by (auto simp: ac_simps intro!: gw.pays_finally assms)

text \<open>A buffer of any size, freed in its own \<open>finally\<close>.\<close>

lemma tidy_guarded [tidy_rules]:
  assumes "\<And>a. gw.pays {#} (m a)"
  shows "gw.pays {#} (wbind (walloc_of (mem T) k) (\<lambda>a. wfinally (m a) (wfree_of (mem T) k a)))"
  using gw.pays_finally [OF assms] by (intro gw.pays_borrow [OF gw.lends_alloc]) simp

lemma tidy_readHyperlinkUri:
  assumes "mem_ok T"
  shows "gw.pays {#} (readHyperlinkUri T A g I)"
  unfolding readHyperlinkUri_def
  by (intro tidy_with_grid_ref assms gw.pays_seq gw.pays_if tidy_do_call gw.pays_basic
      gw.pays_bind [OF gw.pays_read] tidy_guarded gw.pays_bind [OF tidy_call] gw.pays_bind [OF gw.pays_basic(4)])

lemma tidy_getScrollbackGrapheme:
  assumes "mem_ok T"
  shows "gw.pays {#} (getScrollbackGrapheme T A g)"
  unfolding getScrollbackGrapheme_def
  by (intro gw.pays_bind [OF tidy_own] tidy_with_grid_ref assms gw.pays_seq gw.pays_if tidy_do_call gw.pays_basic
      gw.pays_bind [OF gw.pays_read] tidy_guarded gw.pays_bind [OF tidy_call] gw.pays_bind [OF gw.pays_words])

lemma tidy_getGrapheme:
  assumes "mem_ok T"
  shows "gw.pays {#} (getGrapheme T A g)"
  unfolding getGrapheme_def
  apply (intro gw.pays_bind [OF tidy_own] gw.pays_if gw.pays_basic gw.pays_bind [OF tidy_update]
      gw.pays_seq [OF tidy_populate(1) [OF assms]] gw.pays_bind [OF tidy_seek_row]
      gw.pays_seq [OF tidy_populate(2) [OF assms]] gw.pays_bind [OF tidy_call])
  apply (rule gw.pays_borrow [OF gw.lends_alloc], rule pays_pay_bind)
   apply (simp, intro gw.pays_finally tidy_rules)
  by (intro gw.pays_if gw.pays_basic tidy_guarded gw.pays_bind [OF tidy_cells_get] gw.pays_bind [OF gw.pays_words])

lemma tidy_code_point_string [tidy_rules]: "gw.pays {#} (code_point_string I)"
  unfolding code_point_string_def by (auto split: option.split intro!: tidy_rules)

text \<open>Reading the palette lends its buffer and cannot fail.\<close>

lemma read_palette_lends:
  assumes "mem_ok T"
  shows "\<exists>E p s'. read_palette T s = (Inr (E, p), s') \<and> debt s (lent (U8_array 768) E) s' \<and>
    handles (world s') = handles (world s)"
proof -
  obtain E s1 where E: "walloc_of (mem T) (U8_array 768) s = (Inr E, s1)" "debt s (lent (U8_array 768) E) s1"
    "handles (world s1) = handles (world s)" by (rule alloc_cases)
  let ?f = "\<lambda>o' :: 'a gobj. ghostty_terminal_get T (o_handle o') 21 E"
  obtain r s2 where r: "ecall ?f s1 = (Inr r, s2)" "s2 = s1\<lparr>world := (world s1)\<lparr>cw := snd (?f (world s1) (cw (world s1)))\<rparr>\<rparr>"
    by (simp add: ecall_eq)
  have "E + 768 \<le> length (memory T s1)" using alloc_inside [OF assms E(1)] by simp
  also have "\<dots> \<le> length (memory T s2)" using assms unfolding mem_ok_def r(2) by (simp add: mem_def)
  finally have "wslice (mem T) E 768 s2 = (Inr (take 768 (drop E (memory T s2))), s2)" by (simp add: wslice_def Let_def)
  moreover have "debt s (lent (U8_array 768) E) s2" using E(2) r(2) by (auto intro: debt_log)
  ultimately show ?thesis using E r by (auto simp: read_palette_def wbind_def wreturn_def)
qed

lemma pays_palette:
  assumes "mem_ok T" "\<And>E p. gw.pays (lent (U8_array 768) E + M) (f (E, p))"
  shows "gw.pays M (wbind (read_palette T) f)"
proof -
  have "(debt s0 (M + N) s \<longrightarrow> debt s0 N (snd (wbind (read_palette T) f s))) \<and>
      handles (world (snd (wbind (read_palette T) f s))) = handles (world s)" for s0 N s
  proof -
    obtain E p s' where r: "read_palette T s = (Inr (E, p), s')" "debt s (lent (U8_array 768) E) s'"
      "handles (world s') = handles (world s)" using read_palette_lends [OF assms(1)] by blast
    have "debt s0 (lent (U8_array 768) E + M + N) s'" if "debt s0 (M + N) s"
      using debt_trans [OF that r(2)] by (simp add: ac_simps)
    then show ?thesis
      using debt_pays [OF assms(2) [of E p], of s0 N s'] gw.pays_keeps [OF assms(2) [of E p], of s'] r by (simp add: wbind_def)
  qed
  then show ?thesis unfolding gw.pays_def by blast
qed

lemma tidy_readGridLine:
  assumes "mem_ok T"
  shows "gw.pays {#} (readGridLine T A g)"
  unfolding readGridLine_def
  apply (rule gw.pays_borrow [OF lends_allocPoint [OF assms]], rule gw.pays_borrow [OF lends_alloc_put [OF assms]],
      simp, simp, rule gw.pays_finally_all)
   apply (intro gw.pays_bind [OF tidy_call] gw.pays_if gw.pays_basic pays_palette assms, simp only: prod.case)
   apply (rule pays_then, simp add: own_def, rule tidy_own)
   apply ((rule gw.pays_borrow [OF gw.lends_alloc])+, rule gw.pays_borrow [OF lends_alloc_put [OF assms]], simp, simp,
      rule gw.pays_finally_all)
  by (auto simp: ac_simps intro!: tidy_rules)

text \<open>The loop of \<open>markClean\<close> ends normally or runs out of fuel, so its buffer is freed.\<close>

definition clean_rows :: "'v term_api \<Rightarrow> nat \<Rightarrow> nat \<Rightarrow> ('v, unit) gm" where
  "clean_rows T n g =
     wwhile n (\<lambda>_. wbind (next_row T) (\<lambda>more.
       if \<not> more then wreturn ((), False)
       else wseq (do_call (\<lambda>o'. ghostty_render_state_row_set T (rowIter o') 0 g)) (wreturn ((), True)))) ()"

definition clean_rest :: "'v term_api \<Rightarrow> nat \<Rightarrow> ('v, unit) gm" where
  "clean_rest T n =
     wbind (walloc_of (mem T) U8) (\<lambda>g. wseq (wput (mem T) 1 g 0) (wseq (clean_rows T n g)
       (wseq (wfree_m (mem T) U8 g) (wdo (\<lambda>o'. o'\<lparr>rowDirtyCache := None\<rparr>)))))"

lemma clean_rows_ends: "fst (clean_rows T n g s) = Inr () \<or> fst (clean_rows T n g s) = Inl (Js_Error unfinished)"
proof (induction n arbitrary: s)
  case 0
  then show ?case by (simp add: clean_rows_def wfail_def)
next
  case (Suc n)
  then show ?case
    by (simp add: clean_rows_def next_row_def wbind_def ecall_eq do_call_eq wreturn_def wseq_def)
qed

lemma clean_rest_tidy:
  assumes "mem_ok T" "fst (clean_rest T n s) \<noteq> Inl (Js_Error unfinished)"
  shows "debt s {#} (snd (clean_rest T n s)) \<and> handles (world (snd (clean_rest T n s))) = handles (world s)"
proof -
  obtain g s1 where a: "walloc_of (mem T) U8 s = (Inr g, s1)" "debt s (lent U8 g) s1" "handles (world s1) = handles (world s)"
    by (rule alloc_cases)
  have "g + 1 \<le> length (memory T s1)" using alloc_inside [OF assms(1) a(1)] by simp
  then obtain s2 where p: "wput (mem T) 1 g 0 s1 = (Inr (), s2)" "log s2 = log s1" "handles (world s2) = handles (world s1)"
    by (rule put_inside [OF assms(1)])
  obtain r s3 where l: "clean_rows T n g s2 = (r, s3)" by fastforce
  have t: "gw.pays {#} (clean_rows T n g)" unfolding clean_rows_def by (intro tidy_rules)
  have "r = Inr ()"
    using clean_rows_ends [of T n g s2] assms(2) a(1) p(1) l by (auto simp: clean_rest_def wbind_def wseq_def)
  moreover have "debt s (lent U8 g) s3" using pays_mono [OF t, of s "lent U8 g" s2] a(2) p(2) l by (auto intro: debt_log)
  moreover have "handles (world s3) = handles (world s2)" using gw.pays_keeps [OF t, of s2] l by simp
  ultimately show ?thesis
    using a p l debt_free [of s U8 g "{#}" s3 "mem T"] gw.h_free_of [of T U8 g s3]
    by (auto simp: clean_rest_def wbind_def wseq_def wfree_m_def wdo_def handles_def intro: debt_log)
qed

lemma tidy_markClean:
  assumes "mem_ok T" "fst (markClean T n s) \<noteq> Inl (Js_Error unfinished)"
  shows "debt s {#} (snd (markClean T n s)) \<and> handles (world (snd (markClean T n s))) = handles (world s)"
proof -
  obtain A s1 where a: "walloc_of (mem T) (U8_array 4) s = (Inr A, s1)" "debt s (lent (U8_array 4) A) s1"
    "handles (world s1) = handles (world s)" by (rule alloc_cases)
  have "A + 4 \<le> length (memory T s1)" using alloc_inside [OF assms(1) a(1)] by simp
  then obtain s2 where p: "wput (mem T) 4 A 0 s1 = (Inr (), s2)" "log s2 = log s1" "handles (world s2) = handles (world s1)"
    by (rule put_inside [OF assms(1)])
  obtain s3 where c: "do_call (\<lambda>o'. ghostty_render_state_set T (renderHandle o') 0 A) s2 = (Inr (), s3)"
    "log s3 = log s2" "handles (world s3) = handles (world s2)" by (simp add: do_call_eq)
  define s4 where "s4 = wfree_of (mem T) (U8_array 4) A s3"
  have "debt s {#} s4" unfolding s4_def
    using a(2) p(2) c(2) by (intro debt_free) (auto intro: debt_log)
  moreover have h4: "handles (world s4) = handles (world s)" using a p c gw.h_free_of [of T] by (simp add: s4_def)
  moreover obtain r s5 where pr: "populate_rows T s4 = (r, s5)" by fastforce
  ultimately have s5: "debt s {#} s5" "handles (world s5) = handles (world s)"
    using pays_mono [OF tidy_populate(1) [OF assms(1)], of s "{#}" s4] gw.pays_keeps [OF tidy_populate(1) [OF assms(1)], of s4]
    by simp_all
  have m: "markClean T n s = (case r of Inl e \<Rightarrow> (Inl e, s5) | Inr x \<Rightarrow> clean_rest T n s5)"
    using a(1) p(1) c(1) pr
    by (simp add: markClean_def clean_rest_def clean_rows_def wbind_def wseq_def wfree_m_def s4_def split: sum.split)
  show ?thesis
  proof (cases r)
    case (Inr x)
    then have "debt s5 {#} (snd (clean_rest T n s5)) \<and> handles (world (snd (clean_rest T n s5))) = handles (world s5)"
      using assms m by (intro clean_rest_tidy) simp_all
    then show ?thesis using m Inr s5 debt_trans [of s "{#}" s5 "{#}"] by simp
  qed (simp add: m s5)
qed

lemma tidy_placement_loop:
  assumes "mem_ok T"
  shows "gw.pays {#} (placement_loop T n A v Q)"
  unfolding placement_loop_def
proof (rule gw.pays_borrow [OF gw.lends_alloc], rule pays_borrow_at [OF assms], simp)
  fix i o' and s :: "'a gobj wst"
  assume inside: "o' + ksize (U8_array 48) \<le> length (memory T s)"
  let ?loop = "wfinally (wwhile n (placement_step T A v Q i o') []) (wfree_all (mem T) [(U8_array 4, i), (U8_array 48, o')])"
  have debt: "lent (U8_array 48) o' + (lent (U8_array 4) i + {#}) = lent (U8_array 4) i + (lent (U8_array 48) o' + {#})"
    by (simp add: ac_simps)
  have "gw.pays (lent (U8_array 48) o' + (lent (U8_array 4) i + {#})) ?loop"
    by (rule gw.pays_finally_all) (auto simp: ac_simps intro!: tidy_rules)
  then have "pays_at s (lent (U8_array 48) o' + (lent (U8_array 4) i + {#})) (wseq (wput (mem T) 4 o' 48) ?loop)"
    using inside by (intro pays_at_put assms) simp_all
  moreover have "pays_at s (lent (U8_array 48) o' + (lent (U8_array 4) i + {#}))
      (wseq (wwhen (i \<noteq> 0) (wfree_m (mem T) (U8_array 4) i))
      (wseq (wwhen (o' \<noteq> 0) (wfree_m (mem T) (U8_array 48) o')) (wreturn [])))"
    unfolding debt by (intro pays_at_pays pays_free_if gw.pays_basic)
  ultimately show "pays_at s (lent (U8_array 48) o' + (lent (U8_array 4) i + {#}))
      (if i = 0 \<or> o' = 0
       then wseq (wwhen (i \<noteq> 0) (wfree_m (mem T) (U8_array 4) i))
           (wseq (wwhen (o' \<noteq> 0) (wfree_m (mem T) (U8_array 48) o')) (wreturn []))
       else wseq (wput (mem T) 4 o' 48) ?loop)"
    by (cases "i = 0 \<or> o' = 0") (simp_all only: if_True if_False)
qed

lemma iter_finally_handles [simp]: "handles (world (iter_finally T Q I s)) = handles (world s)"
  using gw.h_free_of [of T] by (simp add: iter_finally_def)

lemma iter_finally_debt:
  assumes "debt s0 (lent Opaque I + (lent (Handle ''placements'') Q + N)) s"
  shows "debt s0 N (iter_finally T Q I s)"
proof -
  define t where "t = (if Q \<noteq> 0
        then s\<lparr>world := (world s)\<lparr>cw := ghostty_kitty_graphics_placement_iterator_free T Q (cw (world s))\<rparr>,
               log := log s @ [Release (Handle ''placements'') Q]\<rparr> else s)"
  have "debt s0 (lent Opaque I + N) t"
    using assms by (cases "Q = 0") (auto simp: t_def ac_simps intro: debt_release)
  moreover have "iter_finally T Q I s = wfree_of (mem T) Opaque I t" by (simp add: iter_finally_def t_def)
  ultimately show ?thesis using debt_free by simp
qed

text \<open>A known iterator is freed, with the out-pointer \<open>I\<close>.\<close>

lemma pays_iterator:
  assumes "gw.pays {#} body" "Q \<noteq> 0"
  shows "gw.pays (lent Opaque I) (wseq (wlog (Acquire (Handle ''placements'') Q)) (wfinally body (iter_finally T Q I)))"
proof -
  let ?t = "\<lambda>s :: 'a gobj wst. s\<lparr>log := log s @ [Acquire (Handle ''placements'') Q]\<rparr>"
  have r: "snd (wseq (wlog (Acquire (Handle ''placements'') Q)) (wfinally body (iter_finally T Q I)) s) =
      iter_finally T Q I (snd (body (?t s)))" for s
    by (simp add: wseq_def wbind_def wlog_def)
  have "debt s0 N (iter_finally T Q I (snd (body (?t s))))" if d: "debt s0 (lent Opaque I + N) s" for s0 N s
  proof (intro iter_finally_debt pays_mono [OF assms(1)])
    have "debt s (lent (Handle ''placements'') Q) (?t s)" using assms(2) by (intro debt_acquire) simp_all
    from debt_trans [OF d this] show "debt s0 (lent Opaque I + (lent (Handle ''placements'') Q + N)) (?t s)"
      by (simp add: ac_simps)
  qed
  then show ?thesis using gw.pays_keeps [OF assms(1)] by (simp add: gw.pays_def r)
qed

text \<open>A first command whose failure is cleaned up by \<open>fin\<close>.\<close>

lemma pays_start:
  assumes "gw.pays {#} new" "\<And>Q. gw.pays M (go Q)" "gw.pays M (\<lambda>s. (Inr (), fin s))"
  shows "gw.pays M (wbind (\<lambda>s. case new s of (Inl e, s') \<Rightarrow> (Inl e, fin s') | (Inr Q, s') \<Rightarrow> (Inr Q, s')) go)" (is "gw.pays M ?m")
proof -
  have r: "snd (?m s) = (case fst (new s) of Inl e \<Rightarrow> fin (snd (new s)) | Inr Q \<Rightarrow> snd (go Q (snd (new s))))" for s
    by (simp add: wbind_def split: prod.splits sum.splits)
  have "debt s0 N (snd (?m s))" if "debt s0 (M + N) s" for s0 N s
    using pays_mono [OF assms(1) that] debt_pays [OF assms(2)] debt_pays [OF assms(3)] by (simp add: r split: sum.split)
  moreover have "handles (world (snd (?m s))) = handles (world s)" for s
    using gw.pays_keeps [OF assms(1), of s] gw.pays_keeps [OF assms(2)] gw.pays_keeps [OF assms(3)]
    by (simp add: r split: sum.split)
  ultimately show ?thesis by (simp add: gw.pays_def)
qed

lemma pays_no_iterator: "gw.pays (lent Opaque I) (\<lambda>s. (x, iter_finally T 0 I s))"
  using iter_finally_debt [of _ I 0 _ _ T] by (simp add: gw.pays_def)

lemma tidy_iterPlacements:
  assumes "mem_ok T"
  shows "gw.pays {#} (iterPlacements T n A v)"
  unfolding iterPlacements_def
proof (rule gw.pays_borrow [OF gw.lends_alloc])
  fix I
  have new: "gw.pays {#} (wbind (ecall (\<lambda>_. ghostty_kitty_graphics_placement_iterator_new T I)) (\<lambda>r.
                if r \<noteq> 0 then wreturn 0 else wread (mem T) 4 I))" by (intro tidy_rules)
  have body: "gw.pays {#} (wbind (bind_iterator T A Q) (\<lambda>ok. if ok then placement_loop T n A v Q else wreturn []))" for Q
    by (intro tidy_rules tidy_placement_loop assms)
  have go: "gw.pays (lent Opaque I) (if Q = 0 then (\<lambda>s. (Inr [], iter_finally T 0 I s))
       else wseq (wlog (Acquire (Handle ''placements'') Q))
         (wfinally (wbind (bind_iterator T A Q) (\<lambda>ok. if ok then placement_loop T n A v Q else wreturn []))
           (iter_finally T Q I)))" for Q
    using pays_iterator [OF body] pays_no_iterator by (cases "Q = 0") simp_all
  show "gw.pays (lent Opaque I + {#}) (if I = 0 then wreturn []
     else wbind (\<lambda>s. case wbind (ecall (\<lambda>_. ghostty_kitty_graphics_placement_iterator_new T I)) (\<lambda>r.
                if r \<noteq> 0 then wreturn 0 else wread (mem T) 4 I) s of
                (Inl e, s') \<Rightarrow> (Inl e, iter_finally T 0 I s')
              | (Inr Q, s') \<Rightarrow> (Inr Q, s')) (\<lambda>Q.
       if Q = 0 then (\<lambda>s. (Inr [], iter_finally T 0 I s))
       else wseq (wlog (Acquire (Handle ''placements'') Q))
         (wfinally (wbind (bind_iterator T A Q) (\<lambda>ok. if ok then placement_loop T n A v Q else wreturn []))
           (iter_finally T Q I))))"
    using pays_start [OF new go pays_no_iterator] by (simp add: gw.pays_basic)
qed

section \<open>An instance\<close>

text \<open>A core that answers 0 to everything, over a memory of at least 768 bytes that lends address 4.\<close>

definition demo_memory :: "8 word list exports" where
  "demo_memory =
     \<lparr>bytes_of = \<lambda>v. v @ replicate (768 - length v) 0, set_bytes = \<lambda>b v. b, generation = \<lambda>v. 0,
      alloc = \<lambda>k v. (if 4 + ksize k \<le> 768 then 4 else 0, v), free = \<lambda>k a v. v\<rparr>"

definition demo_api :: "8 word list term_api" where
  "demo_api =
     \<lparr>t_inst = demo_memory,
      ghostty_terminal_new = \<lambda>_ _ v. (0, v),
      ghostty_terminal_free = \<lambda>_ v. v,
      ghostty_terminal_set = \<lambda>_ _ _ v. v,
      ghostty_terminal_get = \<lambda>_ _ _ v. (0, v),
      ghostty_terminal_mode_set = \<lambda>_ _ _ v. v,
      ghostty_terminal_mode_get = \<lambda>_ _ _ v. (0, v),
      ghostty_terminal_resize = \<lambda>_ _ _ _ _ _ v. ([], v),
      ghostty_terminal_vt_write = \<lambda>_ _ _ _ v. ([], v),
      ghostty_terminal_set_colors = None,
      ghostty_terminal_grid_ref = \<lambda>_ _ _ v. (0, v),
      ghostty_grid_ref_cell = \<lambda>_ _ v. (0, v),
      ghostty_grid_ref_style = \<lambda>_ _ v. (0, v),
      ghostty_grid_ref_hyperlink_uri = \<lambda>_ _ _ _ v. (0, v),
      ghostty_grid_ref_graphemes = \<lambda>_ _ _ _ v. (0, v),
      ghostty_render_state_new = \<lambda>_ v. (0, v),
      ghostty_render_state_free = \<lambda>_ v. v,
      ghostty_render_state_update = \<lambda>_ _ v. (0, v),
      ghostty_render_state_get = \<lambda>_ _ _ v. (0, v),
      ghostty_render_state_set = \<lambda>_ _ _ v. (0, v),
      ghostty_render_state_row_iterator_new = \<lambda>_ v. (0, v),
      ghostty_render_state_row_iterator_free = \<lambda>_ v. v,
      ghostty_render_state_row_iterator_next = \<lambda>_ v. (0, v),
      ghostty_render_state_row_get = \<lambda>_ _ _ v. (0, v),
      ghostty_render_state_row_set = \<lambda>_ _ _ v. (0, v),
      ghostty_row_get = \<lambda>_ _ _ v. (0, v),
      ghostty_render_state_row_cells_new = \<lambda>_ v. (0, v),
      ghostty_render_state_row_cells_free = \<lambda>_ v. v,
      ghostty_render_state_row_cells_next = \<lambda>_ v. (0, v),
      ghostty_render_state_row_cells_select = \<lambda>_ _ v. (0, v),
      ghostty_render_state_row_cells_get = \<lambda>_ _ _ v. (0, v),
      ghostty_cell_get = \<lambda>_ _ _ v. (0, v),
      ghostty_kitty_graphics_placement_iterator_new = \<lambda>_ v. (0, v),
      ghostty_kitty_graphics_placement_iterator_free = \<lambda>_ v. v,
      ghostty_kitty_graphics_get = \<lambda>_ _ _ v. (0, v),
      ghostty_kitty_graphics_placement_next = \<lambda>_ v. (0, v),
      ghostty_kitty_graphics_placement_get = \<lambda>_ _ _ v. (0, v),
      ghostty_kitty_graphics_placement_render_info = \<lambda>_ _ _ _ v. (0, v),
      ghostty_kitty_graphics_image = \<lambda>_ _ v. (0, v),
      ghostty_kitty_graphics_image_get = \<lambda>_ _ _ v. (0, v),
      ghostty_alloc = \<lambda>_ _ v. (0, v),
      ghostty_sys_set = \<lambda>_ _ v. v,
      table_grow = \<lambda>v. (Some 0, v),
      table_set = \<lambda>_ _ v. v,
      png_decode = \<lambda>_. Inl Range_Error,
      t_encode = \<lambda>_. [],
      t_decode = \<lambda>_. []\<rparr>"

definition demo_colors :: colors where
  "demo_colors = \<lparr>scrollbackLimit = None, fgColor = 0, bgColor = 0, cursorColor = 0, palette = []\<rparr>"

definition demo_object :: "8 word list gobj wst" where
  "demo_object =
     \<lparr>world = \<lparr>cw = [], self = 0, o_handle = 1, renderHandle = 2, rowIter = 3, rowCells = 4, o_cols = 2, o_rows = 1,
        o_cellWidthPx = 0, o_cellHeightPx = 0, o_cellPool = [null_cell, null_cell], rowDirtyCache = None,
        rowWrapCache = None, o_pending = [], callbackRegistry = None, callbackRegistries = None,
        instancesByHandle = Map.empty\<rparr>, vars = \<lambda>_. 0, log = []\<rparr>"

lemma demo_ok: "mem_ok demo_api"
  by (auto simp: mem_ok_def demo_api_def demo_memory_def)

text \<open>
  C20. Every method of the terminal object gives back each buffer and each temporary handle it
  takes from the core, exactly once and whichever way it ends, whatever the core answers,
  and leaves the handles of the object alone: writing, resizing, configuration, cursor and
  colour queries, row flags, the viewport, lines, graphemes, hyperlinks and kitty graphics;
  \<open>markClean\<close> too, unless its loop over the rows never ends.
\<close>

theorem methods_no_leak:
  assumes "mem_ok T"
  shows "tidy (write_data T d) \<and> tidy (resize_w T c r) \<and> tidy (setCellPixelSize_w T a b) \<and> tidy (setColors T K) \<and>
    tidy (setKittyImageStorageLimit T a) \<and> tidy (getMode_w T m ansi) \<and> tidy (isAlternateScreen T) \<and> tidy (hasBracketedPaste T) \<and>
    tidy (hasFocusEvents T) \<and> tidy (hasMouseTracking T) \<and> tidy (getScrollbackLength_w T) \<and> tidy (update T) \<and>
    tidy (getCursor T) \<and> tidy (getColors T) \<and> tidy (isDirty T) \<and> tidy (needsFullRedraw T) \<and> tidy (isRowDirty T A) \<and>
    tidy (isRowWrapped T A) \<and> tidy (getViewport T) \<and> tidy (getLine_w T A) \<and> tidy (getScrollbackLine T y) \<and>
    tidy (getHyperlinkUri T A x) \<and> tidy (getScrollbackHyperlinkUri T y x) \<and> tidy (getGraphemeString T A x) \<and>
    tidy (getScrollbackGraphemeString T y x) \<and> tidy (getKittyGraphics T) \<and> tidy (getKittyImagePixels T G i) \<and>
    tidy (iterPlacements T n G v) \<and>
    (fst (markClean T n s) \<noteq> Inl (Js_Error unfinished) \<longrightarrow>
       debt s {#} (snd (markClean T n s)) \<and> handles (world (snd (markClean T n s))) = handles (world s))"
  unfolding tidy_pays isAlternateScreen_def hasBracketedPaste_def hasFocusEvents_def hasMouseTracking_def
    getScrollbackLength_w_def isDirty_def needsFullRedraw_def isRowDirty_def isRowWrapped_def getScrollbackLine_def
    getHyperlinkUri_def getScrollbackHyperlinkUri_def getGraphemeString_def getScrollbackGraphemeString_def
  using tidy_markClean [OF assms, of n s]
  by (intro conjI tidy_rules tidy_row_flag tidy_getViewport tidy_getLine tidy_readGridLine tidy_readHyperlinkUri
      tidy_getGrapheme tidy_getScrollbackGrapheme tidy_iterPlacements assms impI) blast+

theorem methods_no_leak_witness:
  "mem_ok demo_api \<and> tidy (getViewport demo_api) \<and> tidy (resize_w demo_api 3 2)"
  using methods_no_leak [OF demo_ok, of "Bytes []" 3 2 None None demo_colors 0 False 0 0 0 0 0 0 False demo_object] demo_ok by blast

end
