(* ===== verification/Gw_Wrapper_Ctor.thy ===== *)
theory Gw_Wrapper_Ctor
  imports Gw_Wrapper_Props
begin

text \<open>
  The constructor of the object: at every step what has been acquired and not released is
  what the four handle fields hold, so that cleaning up after a failure releases all of it.
\<close>

section \<open>What the object owes\<close>

definition obj_debt :: "'v gobj \<Rightarrow> (wkind \<times> nat) multiset" where
  "obj_debt g = lent (Handle ''terminal'') (o_handle g) + lent (Handle ''render'') (renderHandle g) +
     lent (Handle ''rows'') (rowIter g) + lent (Handle ''cells'') (rowCells g)"

definition accounted :: "'v gobj wst \<Rightarrow> 'v gobj wst \<Rightarrow> bool" where
  "accounted s0 s = debt s0 (obj_debt (world s)) s"

lemma obj_debt_handles: "handles g = handles g' \<Longrightarrow> obj_debt g = obj_debt g'"
  by (simp add: obj_debt_def handles_def)

lemma accounted_tidy: "gw.pays {#} m \<Longrightarrow> accounted s0 s \<Longrightarrow> accounted s0 (snd (m s))"
  using pays_mono [of m s0 "obj_debt (world s)" s] gw.pays_keeps [of "{#}" m s] obj_debt_handles
  by (metis accounted_def)

lemma accounted_bind:
  assumes "accounted s0 (snd (m s))" "\<And>x s'. m s = (Inr x, s') \<Longrightarrow> accounted s0 (snd (f x s'))"
  shows "accounted s0 (snd (wbind m f s))"
  using assms by (cases "m s"; cases "fst (m s)") (auto simp: wbind_def)

section \<open>Cleaning up\<close>

lemma drop_handle_debt:
  assumes "debt s0 (lent (Handle name) (fld (world s)) + N) s"
  shows "debt s0 N (drop_handle fld clear name fr s)"
  using assms by (cases "fld (world s) = 0") (auto simp: drop_handle_def Let_def intro: debt_release)

lemma forget_callbacks_simps [simp]:
  "log (forget_callbacks s) = log s" "handles (world (forget_callbacks s)) = handles (world s)"
  by (simp_all add: forget_callbacks_def handles_def Let_def)

lemma drop_render_debt:
  assumes "debt s0 (obj_debt (world s) + N) s"
  shows "debt s0 (lent (Handle ''terminal'') (o_handle (world s)) + N) (drop_render T s) \<and>
    handles (world (drop_render T s)) = (o_handle (world s), 0, 0, 0)"
proof -
  let ?s1 = "forget_callbacks s"
  let ?s2 = "drop_handle rowCells (\<lambda>g. g\<lparr>rowCells := 0\<rparr>) ''cells'' (ghostty_render_state_row_cells_free T) ?s1"
  let ?s3 = "drop_handle rowIter (\<lambda>g. g\<lparr>rowIter := 0\<rparr>) ''rows'' (ghostty_render_state_row_iterator_free T) ?s2"
  let ?s4 = "drop_handle renderHandle (\<lambda>g. g\<lparr>renderHandle := 0\<rparr>) ''render'' (ghostty_render_state_free T) ?s3"
  let ?t = "lent (Handle ''terminal'') (o_handle (world s))"
  have h1: "handles (world ?s1) = handles (world s)" by simp
  have h2: "handles (world ?s2) = (o_handle (world s), renderHandle (world s), rowIter (world s), 0)"
    using h1 by (simp add: drop_handle_def handles_def Let_def)
  have h3: "handles (world ?s3) = (o_handle (world s), renderHandle (world s), 0, 0)"
    using h2 by (simp add: drop_handle_def [of rowIter] handles_def Let_def)
  have h4: "handles (world ?s4) = (o_handle (world s), 0, 0, 0)"
    using h3 by (simp add: drop_handle_def [of renderHandle] handles_def Let_def)
  have d1: "debt s0 (obj_debt (world s) + N) ?s1" using assms by (rule debt_log) simp
  have d2: "debt s0 (?t + lent (Handle ''render'') (renderHandle (world s)) + lent (Handle ''rows'') (rowIter (world s)) + N) ?s2"
    by (rule drop_handle_debt) (use d1 h1 in \<open>simp add: obj_debt_def handles_def ac_simps\<close>)
  have d3: "debt s0 (?t + lent (Handle ''render'') (renderHandle (world s)) + N) ?s3"
    by (rule drop_handle_debt) (use d2 h2 in \<open>simp add: handles_def ac_simps\<close>)
  have "debt s0 (?t + N) ?s4"
    by (rule drop_handle_debt) (use d3 h3 in \<open>simp add: handles_def ac_simps\<close>)
  then show ?thesis using h4 by (simp add: drop_render_def)
qed

lemma cleanup_debt:
  assumes "debt s0 (obj_debt (world s) + N) s"
  shows "debt s0 N (cleanupOnConstructorFailure T s) \<and> handles (world (cleanupOnConstructorFailure T s)) = (0, 0, 0, 0)"
proof -
  have d: "debt s0 (lent (Handle ''terminal'') (o_handle (world s)) + N) (drop_render T s)"
    "handles (world (drop_render T s)) = (o_handle (world s), 0, 0, 0)" using drop_render_debt [OF assms] by auto
  then have "debt s0 N (cleanupOnConstructorFailure T s)"
    unfolding cleanupOnConstructorFailure_def by (intro drop_handle_debt) (simp add: handles_def)
  moreover have "handles (world (cleanupOnConstructorFailure T s)) = (0, 0, 0, 0)"
    using d(2) by (simp add: cleanupOnConstructorFailure_def drop_handle_def handles_def Let_def)
  ultimately show ?thesis by simp
qed

lemma zero_handles: "handles g = (0, 0, 0, 0) \<Longrightarrow> obj_debt g = {#}"
  by (simp add: handles_def obj_debt_def)

section \<open>Acquiring the handles\<close>

lemma clean_fail_debt:
  assumes "debt s0 (obj_debt (world s) + N) s"
  shows "debt s0 (obj_debt (world (snd (clean_fail T msg s))) + N) (snd (clean_fail T msg s))"
  using cleanup_debt [OF assms, of T] by (simp add: clean_fail_def zero_handles)

text \<open>The \<open>try\<close> block of \<open>allocOpaqueOrFail\<close>, with the out-pointer \<open>I\<close> still borrowed.\<close>

definition opaque_try :: "'v term_api \<Rightarrow> string \<Rightarrow> string \<Rightarrow> (nat \<Rightarrow> 'v \<Rightarrow> int \<times> 'v) \<Rightarrow> nat \<Rightarrow> ('v, nat) gm" where
  "opaque_try T kind A g I =
     wbind (ecall (\<lambda>_. g I)) (\<lambda>Q.
       if Q \<noteq> 0 then clean_fail T (A @ '' failed: '' @ idec Q)
       else wbind (wread (mem T) 4 I) (\<lambda>h.
              if h = 0 then wreturn h else wseq (wlog (Acquire (Handle kind) h)) (wreturn h)))"

lemma opaque_try_debt:
  assumes "debt s0 (obj_debt (world s) + N) s"
  shows "case opaque_try T k A g I s of
      (Inl e, s') \<Rightarrow> debt s0 (obj_debt (world s') + N) s'
    | (Inr h, s') \<Rightarrow> debt s0 (obj_debt (world s') + lent (Handle k) h + N) s' \<and> handles (world s') = handles (world s)"
proof -
  let ?f = "\<lambda>_ :: 'a gobj. g I"
  obtain Q s1 where c: "ecall ?f s = (Inr Q, s1)" "log s1 = log s" "handles (world s1) = handles (world s)"
    by (simp add: ecall_eq)
  have d1: "debt s0 (obj_debt (world s1) + N) s1" using debt_log [OF assms c(2)] obj_debt_handles [OF c(3)] by simp
  show ?thesis
  proof (cases "Q = 0")
    case False
    then show ?thesis using c clean_fail_debt [OF d1, of T] by (simp add: opaque_try_def wbind_def clean_fail_def)
  next
    case True
    obtain r s2 where r: "wread (mem T) 4 I s1 = (r, s2)" "s2 = s1"
      by (cases "wslice (mem T) I 4 s1") (auto simp: wread_def wbind_def wslice_def wreturn_def Let_def split: if_splits)
    show ?thesis
    proof (cases r)
      case (Inl e)
      then show ?thesis using True c r d1 by (simp add: opaque_try_def wbind_def)
    next
      case (Inr h)
      have "debt s0 (obj_debt (world s1) + lent (Handle k) h + N) (s1\<lparr>log := log s1 @ [Acquire (Handle k) h]\<rparr>)" if "h \<noteq> 0"
        using debt_trans [OF d1 debt_acquire [of "s1\<lparr>log := log s1 @ [Acquire (Handle k) h]\<rparr>" s1 "Handle k" h]] that
        by (simp add: ac_simps)
      then show ?thesis using Inr True c r d1
        by (cases "h = 0") (simp_all add: opaque_try_def wbind_def wreturn_def wseq_def wlog_def)
    qed
  qed
qed

lemma allocOpaqueOrFail_debt:
  assumes "accounted s0 s"
  shows "case allocOpaqueOrFail T k A g s of
      (Inl e, s') \<Rightarrow> accounted s0 s'
    | (Inr h, s') \<Rightarrow> debt s0 (obj_debt (world s') + lent (Handle k) h) s' \<and> handles (world s') = handles (world s)"
proof -
  obtain I s1 where a: "walloc_of (mem T) Opaque s = (Inr I, s1)" "debt s (lent Opaque I) s1"
    "handles (world s1) = handles (world s)" by (rule alloc_cases)
  have d1: "debt s0 (obj_debt (world s1) + lent Opaque I) s1"
    using debt_trans [OF assms [unfolded accounted_def] a(2)] obj_debt_handles [OF a(3)] by simp
  show ?thesis
  proof (cases "I = 0")
    case True
    then show ?thesis using clean_fail_debt [of s0 s1 "{#}" T] d1 a(1)
      by (simp add: allocOpaqueOrFail_def wbind_def accounted_def clean_fail_def)
  next
    case False
    obtain r s2 where t: "opaque_try T k A g I s1 = (r, s2)" by fastforce
    let ?s3 = "wfree_of (mem T) Opaque I s2"
    have m: "allocOpaqueOrFail T k A g s = (r, ?s3)"
      using False a(1) t by (simp add: allocOpaqueOrFail_def opaque_try_def wbind_def wfinally_def)
    have o: "obj_debt (world ?s3) = obj_debt (world s2)" using gw.h_free_of [of T] by (intro obj_debt_handles) simp
    have "debt s0 N ?s3" if "debt s0 (N + lent Opaque I) s2" for N using that by (intro debt_free) (simp add: ac_simps)
    then show ?thesis
      using opaque_try_debt [OF d1, where T = T and k = k and A = A and g = g and I = I] a(3) gw.h_free_of [of T Opaque I s2]
      by (cases r) (simp_all add: m t o accounted_def)
  qed
qed

text \<open>Keeping a new handle in a field that was empty.\<close>

lemma accounted_keep:
  assumes "accounted s0 s"
    and upd: "\<And>h g'. handles g' = handles (world s) \<Longrightarrow> handles (upd h g') = H h \<and> obj_debt (upd h g') = obj_debt g' + lent (Handle k) h"
    and n: "\<And>h s'. accounted s0 s' \<Longrightarrow> handles (world s') = H h \<Longrightarrow> accounted s0 (snd (n s'))"
  shows "accounted s0 (snd (wbind (allocOpaqueOrFail T k A g) (\<lambda>h. wseq (wdo (upd h)) n) s))"
proof -
  obtain r s' where r: "allocOpaqueOrFail T k A g s = (r, s')" by fastforce
  note d = allocOpaqueOrFail_debt [OF assms(1), where T = T and k = k and A = A and g = g, unfolded r]
  show ?thesis
  proof (cases r)
    case (Inl e)
    then show ?thesis using d r by (simp add: wbind_def)
  next
    case (Inr h)
    let ?t = "s'\<lparr>world := upd h (world s')\<rparr>"
    have dh: "debt s0 (obj_debt (world s') + lent (Handle k) h) s'" "handles (world s') = handles (world s)"
      using d by (simp_all only: Inr prod.case sum.case)
    have u: "handles (upd h (world s')) = H h" "obj_debt (upd h (world s')) = obj_debt (world s') + lent (Handle k) h"
      using upd [OF dh(2)] by blast+
    have "accounted s0 ?t" unfolding accounted_def by (rule debt_log [of s0 _ s']) (use dh(1) in \<open>simp_all add: u\<close>)
    then have "accounted s0 (snd (n ?t))" by (rule n) (simp add: u)
    then show ?thesis using r Inr by (simp add: wbind_def wseq_def wdo_def)
  qed
qed

section \<open>The constructor\<close>

lemma accounted_step:
  assumes "gw.pays {#} m" "accounted s0 s" "\<And>s'. accounted s0 s' \<Longrightarrow> handles (world s') = handles (world s) \<Longrightarrow> accounted s0 (snd (n s'))"
  shows "accounted s0 (snd (wseq m n s))"
  unfolding wseq_def
proof (rule accounted_bind)
  show "accounted s0 (snd (m s))" by (rule accounted_tidy [OF assms(1,2)])
  show "accounted s0 (snd (n s'))" if "m s = (Inr x, s')" for x s'
    using accounted_tidy [OF assms(1,2)] gw.pays_keeps [OF assms(1), of s] that by (intro assms(3)) simp_all
qed

lemma keep_cells:
  assumes "accounted s0 s" "handles (world s) = (h, r, i, 0)" "gw.pays {#} n"
  shows "accounted s0 (snd (wbind (allocOpaqueOrFail T ''cells'' A g) (\<lambda>h. wseq (wdo (\<lambda>g. g\<lparr>rowCells := h\<rparr>)) n) s))"
  using assms(2) accounted_tidy [OF assms(3)]
  by (intro accounted_keep [OF assms(1), where H = "\<lambda>c. (h, r, i, c)"]) (simp_all add: handles_def obj_debt_def)

lemma keep_rows:
  assumes "accounted s0 s" "handles (world s) = (h, r, 0, 0)"
    "\<And>i s'. accounted s0 s' \<Longrightarrow> handles (world s') = (h, r, i, 0) \<Longrightarrow> accounted s0 (snd (n s'))"
  shows "accounted s0 (snd (wbind (allocOpaqueOrFail T ''rows'' A g) (\<lambda>h. wseq (wdo (\<lambda>g. g\<lparr>rowIter := h\<rparr>)) n) s))"
  using assms(2)
  by (intro accounted_keep [OF assms(1), where H = "\<lambda>i. (h, r, i, 0)"] assms(3)) (simp_all add: handles_def obj_debt_def)

lemma keep_render:
  assumes "accounted s0 s" "handles (world s) = (h, 0, 0, 0)"
    "\<And>r s'. accounted s0 s' \<Longrightarrow> handles (world s') = (h, r, 0, 0) \<Longrightarrow> accounted s0 (snd (n s'))"
  shows "accounted s0 (snd (wbind (allocOpaqueOrFail T ''render'' A g) (\<lambda>h. wseq (wdo (\<lambda>g. g\<lparr>renderHandle := h\<rparr>)) n) s))"
  using assms(2)
  by (intro accounted_keep [OF assms(1), where H = "\<lambda>r. (h, r, 0, 0)"] assms(3)) (simp_all add: handles_def obj_debt_def)

lemma set_up_accounted:
  assumes "accounted s0 s" "handles (world s) = (h, 0, 0, 0)"
  shows "accounted s0 (snd (set_up T C s))"
proof -
  have c: "gw.pays {#} (case C of None \<Rightarrow> wreturn () | Some c \<Rightarrow> applyConfig T c)" by (cases C) (simp_all add: tidy_rules)
  show ?thesis
    unfolding set_up_def
    apply (rule accounted_step [OF tidy_installCallbacks assms(1)], rule accounted_step [OF c], assumption,
        rule accounted_step [OF tidy_run], assumption, rule accounted_step [OF tidy_limit], assumption)
    apply (rule keep_render [where h = h], assumption, simp add: assms(2))
    by (rule keep_rows, assumption+, rule keep_cells [OF _ _ tidy_updates(1)])
qed

text \<open>The \<open>try\<close> block of \<open>new_terminal\<close>, with the options \<open>i\<close> and the out-pointer \<open>o\<close> still borrowed.\<close>

definition terminal_try :: "'v term_api \<Rightarrow> nat \<Rightarrow> nat \<Rightarrow> nat \<Rightarrow> nat \<Rightarrow> nat \<Rightarrow> ('v, unit) gm" where
  "terminal_try T i o' I Q limit =
     wbind (wslice (mem T) i 8) (\<lambda>_. wseq (wput (mem T) 2 i I) (wseq (wput (mem T) 2 (i + 2) Q) (wseq (wput (mem T) 4 (i + 4) limit)
    (wbind (ecall (\<lambda>_. ghostty_terminal_new T o' i)) (\<lambda>s.
       if s \<noteq> 0 then wfail (''ghostty_terminal_new failed: '' @ idec s)
       else wbind (wread (mem T) 4 o') (\<lambda>h.
         wseq (wdo (\<lambda>g. g\<lparr>o_handle := h\<rparr>)) (wwhen (h \<noteq> 0) (wlog (Acquire (Handle ''terminal'') h)))))))))"

text \<open>It ends in a failure with nothing acquired, or keeps the handle.\<close>

definition fine :: "'v gobj wst \<Rightarrow> (wkind \<times> nat) multiset \<Rightarrow> ('v, unit) gm \<Rightarrow> 'v gobj wst \<Rightarrow> bool" where
  "fine s0 N m s =
     (case m s of
        (Inl e, s') \<Rightarrow> debt s0 N s' \<and> handles (world s') = (0, 0, 0, 0)
      | (Inr _, s') \<Rightarrow> debt s0 (obj_debt (world s') + N) s' \<and> (\<exists>h. handles (world s') = (h, 0, 0, 0)))"

lemma fine_bind:
  assumes "gw.pays {#} m" "debt s0 N s" "handles (world s) = (0, 0, 0, 0)"
    and "\<And>x s'. debt s0 N s' \<Longrightarrow> handles (world s') = (0, 0, 0, 0) \<Longrightarrow> fine s0 N (f x) s'"
  shows "fine s0 N (wbind m f) s"
proof -
  obtain r s' where r: "m s = (r, s')" by fastforce
  have "debt s0 N s'" "handles (world s') = (0, 0, 0, 0)"
    using pays_mono [OF assms(1,2)] gw.pays_keeps [OF assms(1), of s] assms(3) r by simp_all
  then show ?thesis using assms(4) r by (cases r) (simp_all add: fine_def wbind_def)
qed

lemmas fine_seq = fine_bind [where f = "\<lambda>_. n" for n, folded wseq_def]

lemma fine_take_handle:
  assumes "debt s0 N s" "handles (world s) = (0, 0, 0, 0)"
  shows "fine s0 N (wseq (wdo (\<lambda>g. g\<lparr>o_handle := h\<rparr>)) (wwhen (h \<noteq> 0) (wlog (Acquire (Handle ''terminal'') h)))) s"
proof -
  let ?t = "s\<lparr>world := (world s)\<lparr>o_handle := h\<rparr>, log := log s @ (if h = 0 then [] else [Acquire (Handle ''terminal'') h])\<rparr>"
  have o: "obj_debt (world ?t) = lent (Handle ''terminal'') h" using assms(2) by (simp add: obj_debt_def handles_def)
  have "debt s (lent (Handle ''terminal'') h) ?t"
    by (cases "h = 0") (auto simp: debt_def lent_def)
  then have "debt s0 (obj_debt (world ?t) + N) ?t" using debt_trans [OF assms(1)] o by (metis add.commute)
  moreover have "handles (world ?t) = (h, 0, 0, 0)" using assms(2) by (simp add: handles_def)
  moreover have "wseq (wdo (\<lambda>g. g\<lparr>o_handle := h\<rparr>)) (wwhen (h \<noteq> 0) (wlog (Acquire (Handle ''terminal'') h))) s = (Inr (), ?t)"
    by (simp add: wseq_def wbind_def wdo_def wwhen_def wlog_def wreturn_def)
  ultimately show ?thesis by (simp add: fine_def)
qed

lemma terminal_try_fine:
  assumes "debt s0 N s" "handles (world s) = (0, 0, 0, 0)"
  shows "fine s0 N (terminal_try T i o' I Q limit) s"
  unfolding terminal_try_def
proof (rule fine_bind [OF gw.pays_basic(4) assms], rule fine_seq [OF gw.pays_put], assumption+, rule fine_seq [OF gw.pays_put],
    assumption+, rule fine_seq [OF gw.pays_put], assumption+, rule fine_bind [OF tidy_call], assumption+)
  fix r :: int and s'
  assume s': "debt s0 N s'" "handles (world s') = (0, 0, 0, 0)"
  have "fine s0 N (wbind (wread (mem T) 4 o') (\<lambda>h. wseq (wdo (\<lambda>g. g\<lparr>o_handle := h\<rparr>))
      (wwhen (h \<noteq> 0) (wlog (Acquire (Handle ''terminal'') h))))) s'"
    by (rule fine_bind [OF gw.pays_read s'], rule fine_take_handle)
  moreover have "fine s0 N (wfail e) s'" for e using s' by (simp add: fine_def wfail_def)
  ultimately show "fine s0 N (if r \<noteq> 0 then wfail (''ghostty_terminal_new failed: '' @ idec r)
       else wbind (wread (mem T) 4 o') (\<lambda>h. wseq (wdo (\<lambda>g. g\<lparr>o_handle := h\<rparr>))
         (wwhen (h \<noteq> 0) (wlog (Acquire (Handle ''terminal'') h))))) s'" by simp
qed

lemma new_terminal_fine:
  assumes "handles (world s) = (0, 0, 0, 0)"
  shows "fine s {#} (new_terminal T I Q C) s"
proof -
  let ?limit = "case C of None \<Rightarrow> 10000 | Some c \<Rightarrow> (case scrollbackLimit c of None \<Rightarrow> 10000 | Some n \<Rightarrow> n)"
  obtain i s1 where i: "walloc_of (mem T) (U8_array 8) s = (Inr i, s1)" "debt s (lent (U8_array 8) i) s1"
    "handles (world s1) = handles (world s)" by (rule alloc_cases)
  obtain o' s2 where o: "walloc_of (mem T) Opaque s1 = (Inr o', s2)" "debt s1 (lent Opaque o') s2"
    "handles (world s2) = handles (world s1)" by (rule alloc_cases)
  let ?fin = "\<lambda>t. wfree_of (mem T) Opaque o' (wfree_of (mem T) (U8_array 8) i t)"
  have fin: "debt s N (?fin t)" "handles (world (?fin t)) = handles (world t)" if "debt s (N + (lent (U8_array 8) i + lent Opaque o')) t" for N t
    using that gw.h_free_of [of T] by (auto intro!: debt_free simp: ac_simps)
  have d2: "debt s (lent (U8_array 8) i + lent Opaque o') s2" by (rule debt_trans [OF i(2) o(2)])
  consider "i = 0" | "i \<noteq> 0" "o' = 0" | "i \<noteq> 0" "o' \<noteq> 0" by blast
  then show ?thesis
  proof cases
    case 1
    then show ?thesis using i assms by (simp add: new_terminal_def wbind_def fine_def wfail_def)
  next
    case 2
    then have "debt s {#} (wfree_of (mem T) (U8_array 8) i s2)" using d2 by (intro debt_free) simp
    then show ?thesis
      using 2 i(1,3) o(1,3) assms gw.h_free_of [of T] by (simp add: new_terminal_def wbind_def wseq_def wfree_m_def fine_def wfail_def)
  next
    case 3
    obtain r t where t: "terminal_try T i o' I Q ?limit s2 = (r, t)" by fastforce
    have "new_terminal T I Q C s = (r, ?fin t)"
      using 3 i(1) o(1) t by (simp add: new_terminal_def terminal_try_def wbind_def wfinally_def)
    moreover have "fine s (lent (U8_array 8) i + lent Opaque o') (terminal_try T i o' I Q ?limit) s2"
      using d2 assms i(3) o(3) by (intro terminal_try_fine) simp_all
    ultimately show ?thesis
      using t fin [of "{#}" t] fin [of "obj_debt (world t)" t] obj_debt_handles [of "world (?fin t)" "world t"]
      by (cases r) (auto simp: fine_def)
  qed
qed

text \<open>A command that returns has left the handle of the terminal alone.\<close>

definition keeps_terminal :: "('v, 'a) gm \<Rightarrow> bool" where
  "keeps_terminal m = (\<forall>s x s'. m s = (Inr x, s') \<longrightarrow> o_handle (world s') = o_handle (world s))"

lemma keeps_tidy: "gw.pays {#} m \<Longrightarrow> keeps_terminal m"
  unfolding keeps_terminal_def using gw.pays_keeps [of "{#}" m] by (metis handles_def prod.inject snd_conv)

lemma keeps_bind: "keeps_terminal m \<Longrightarrow> (\<And>x. keeps_terminal (f x)) \<Longrightarrow> keeps_terminal (wbind m f)"
  unfolding keeps_terminal_def wbind_def by (auto split: prod.splits sum.splits)

lemma keeps_seq: "keeps_terminal m \<Longrightarrow> keeps_terminal n \<Longrightarrow> keeps_terminal (wseq m n)"
  by (simp add: wseq_def keeps_bind)

lemma keeps_opaque: "keeps_terminal (allocOpaqueOrFail T k A g)"
proof -
  have fail: "keeps_terminal (clean_fail T msg :: ('a, nat) gm)" for msg by (simp add: keeps_terminal_def clean_fail_def)
  have a: "keeps_terminal (walloc_of (mem T) Opaque)"
    unfolding keeps_terminal_def by (metis alloc_cases handles_def prod.inject)
  have w: "keeps_terminal (wseq (wlog e) (wreturn h))" for e h
    by (simp add: keeps_terminal_def wseq_def wbind_def wlog_def wreturn_def)
  have t: "keeps_terminal (opaque_try T k A g I)" for I
    unfolding opaque_try_def using fail w by (auto intro!: keeps_bind keeps_tidy [OF tidy_call] keeps_tidy [OF gw.pays_read]
      keeps_tidy [OF gw.pays_basic(1)])
  have "keeps_terminal (wfinally (opaque_try T k A g I) (wfree_of (mem T) Opaque I))" for I
    using t gw.h_free_of [of T Opaque I] unfolding keeps_terminal_def wfinally_def
    by (auto split: prod.splits simp: handles_def)
  then show ?thesis
    unfolding allocOpaqueOrFail_def opaque_try_def [symmetric] using fail by (intro keeps_bind a) auto
qed

lemma keeps_set_up: "keeps_terminal (set_up T C)"
proof -
  have "gw.pays {#} (case C of None \<Rightarrow> wreturn () | Some c \<Rightarrow> applyConfig T c)" by (cases C) (simp_all add: tidy_rules)
  moreover have "keeps_terminal (wdo (\<lambda>g. g\<lparr>renderHandle := h\<rparr>))" "keeps_terminal (wdo (\<lambda>g. g\<lparr>rowIter := h\<rparr>))"
    "keeps_terminal (wdo (\<lambda>g. g\<lparr>rowCells := h\<rparr>))" for h by (simp_all add: keeps_terminal_def wdo_def)
  ultimately show ?thesis
    unfolding set_up_def
    by (intro keeps_seq keeps_bind keeps_opaque keeps_tidy [OF tidy_installCallbacks] keeps_tidy [OF tidy_run]
        keeps_tidy [OF tidy_limit] keeps_tidy [OF tidy_updates(1)]) (rule keeps_tidy)
qed

lemma gt_free_debt:
  assumes "debt s0 (obj_debt (world s)) s"
  shows "debt s0 {#} (snd (gt_free T s))"
proof -
  have "debt s0 (lent (Handle ''terminal'') (o_handle (world s)) + {#}) (drop_render T s)"
    and h: "o_handle (world (drop_render T s)) = o_handle (world s)"
    using drop_render_debt [of s0 s "{#}" T] assms by (simp_all add: handles_def)
  from debt_release [OF this(1)] show ?thesis by (simp add: gt_free_def Let_def h)
qed

text \<open>
  C29. Construction and disposal of a terminal object are leak-free for every behaviour of the
  core: a constructor that throws has released every buffer and handle it acquired and
  holds none, one that returns owns exactly the terminal, render state and iterators in
  its fields, and \<open>free\<close> then releases those, each once.
\<close>

theorem constructor_no_leak:
  "case gt_ctor T I Q C s of
     (Inl e, s') \<Rightarrow> debt s {#} s' \<and> handles (world s') = (0, 0, 0, 0)
   | (Inr _, s') \<Rightarrow> o_handle (world s') \<noteq> 0 \<and> debt s (obj_debt (world s')) s' \<and> debt s {#} (snd (gt_free T s'))"
proof -
  let ?s0 = "s\<lparr>world := fresh_object I Q (world s)\<rparr>"
  have h0: "handles (world ?s0) = (0, 0, 0, 0)" by (simp add: handles_def fresh_object_def)
  have sd: "debt s N t" if "debt ?s0 N t" for N t using that by (simp add: debt_def)
  obtain r s1 where n: "new_terminal T I Q C ?s0 = (r, s1)" by fastforce
  note f = new_terminal_fine [OF h0, of T I Q C, unfolded fine_def n]
  show ?thesis
  proof (cases r)
    case (Inl e)
    then show ?thesis using f sd n by (simp add: gt_ctor_def wseq_def wbind_def wdo_def)
  next
    case (Inr u)
    then obtain h where h: "handles (world s1) = (h, 0, 0, 0)" "debt ?s0 (obj_debt (world s1)) s1" using f by auto
    show ?thesis
    proof (cases "h = 0")
      case True
      then show ?thesis
        using h n Inr sd zero_handles [of "world s1"]
        by (simp add: gt_ctor_def wseq_def wbind_def wdo_def own_def wfail_def handles_def)
    next
      case False
      obtain q s2 where u: "set_up T C s1 = (q, s2)" by fastforce
      have a: "debt s (obj_debt (world s2)) s2"
        using set_up_accounted [OF _ h(1), of ?s0 T C] h(2) sd u by (simp add: accounted_def)
      have m: "gt_ctor T I Q C s = or_clean_up T (set_up T C) s1"
        using n Inr False h(1) by (simp add: gt_ctor_def wseq_def wbind_def wdo_def own_def handles_def)
      show ?thesis
      proof (cases q)
        case (Inl e)
        then show ?thesis using cleanup_debt [of s s2 "{#}" T] a u by (simp add: m or_clean_up_def)
      next
        case (Inr x)
        have "o_handle (world s2) = o_handle (world s1)" using keeps_set_up [of T C] u Inr unfolding keeps_terminal_def by blast
        then show ?thesis
          using a u Inr False h(1) gt_free_debt [OF a, of T] by (simp add: m or_clean_up_def handles_def)
      qed
    qed
  qed
qed

end
