(* ===== verification/Gw_Wrapper_Pool.thy ===== *)
theory Gw_Wrapper_Pool
  imports Gw_Wrapper_Ctor
begin

text \<open>
  The cell pool of the terminal object: it always has a cell for each position of the grid and
  its cells always have the shape the renderers and the buffer API expect, however far a
  method gets before it throws. A line read through it has exactly the width of the grid.
\<close>

section \<open>Well-formed cells\<close>

definition cell_ok :: "cell \<Rightarrow> bool" where
  "cell_ok c =
     (0 \<le> codepoint c \<and> codepoint c < 2 ^ 32 \<and> grapheme_len c < 2 ^ 32 \<and>
      fg_r c < 256 \<and> fg_g c < 256 \<and> fg_b c < 256 \<and> bg_r c < 256 \<and> bg_g c < 256 \<and> bg_b c < 256 \<and>
      (fgIsDefault c \<longrightarrow> fg_r c = 0 \<and> fg_g c = 0 \<and> fg_b c = 0) \<and>
      (bgIsDefault c \<longrightarrow> bg_r c = 0 \<and> bg_g c = 0 \<and> bg_b c = 0) \<and>
      flags c < 256 \<and> cwidth c \<le> 2 \<and> hyperlink_id c \<le> 1)"

definition pool_ok :: "'v gobj \<Rightarrow> bool" where
  "pool_ok g = (o_cols g * o_rows g \<le> length (o_cellPool g) \<and> list_all cell_ok (o_cellPool g))"

lemma null_cell_ok [simp]: "cell_ok null_cell"
  by (simp add: cell_ok_def null_cell_def)

lemma flag_less: "g < 256 \<Longrightarrow> v < 256 \<Longrightarrow> flag b v g < 256"
proof -
  assume "g < 256" "v < 256"
  then have "take_bit 8 g = g" "take_bit 8 v = v" by (simp_all add: take_bit_eq_mod)
  then have "take_bit 8 (g OR v) = g OR v" by simp
  then have "g OR v < 2 ^ 8" by (metis take_bit_nat_less_exp)
  with \<open>g < 256\<close> show ?thesis by (simp add: flag_def)
qed

lemma style_flags_less: "style_flags y < 256"
  unfolding style_flags_def by (intro flag_less) simp_all

lemma wide_width_le: "wide_width M \<le> 2"
  by (simp add: wide_width_def)

lemma byte_less: "unat (b :: 8 word) < 256"
  using unsigned_less [of b, where ?'a = nat] by simp

section \<open>Every method keeps the pool well-formed\<close>

text \<open>The grid has \<open>c\<close> columns and \<open>r\<close> rows, and the pool at least \<open>lo\<close> well-formed cells.\<close>

definition grid_at :: "nat \<Rightarrow> nat \<Rightarrow> nat \<Rightarrow> 'v gobj \<Rightarrow> bool" where
  "grid_at lo c r g = (lo \<le> length (o_cellPool g) \<and> list_all cell_ok (o_cellPool g) \<and> o_cols g = c \<and> o_rows g = r)"

lemma pool_ok_grid: "pool_ok g = grid_at (o_cols g * o_rows g) (o_cols g) (o_rows g) g"
  by (simp add: pool_ok_def grid_at_def)

definition keeps_pool :: "('v, 'a) gm \<Rightarrow> bool" where
  "keeps_pool m = (\<forall>lo c r s. grid_at lo c r (world s) \<longrightarrow> grid_at lo c r (world (snd (m s))))"

named_theorems pool_rules

lemma keeps_pool_same: "(\<And>s. o_cellPool (world (snd (m s))) = o_cellPool (world s) \<and>
    o_cols (world (snd (m s))) = o_cols (world s) \<and> o_rows (world (snd (m s))) = o_rows (world s)) \<Longrightarrow> keeps_pool m"
  by (simp add: keeps_pool_def grid_at_def)

lemma keeps_pool_bind [pool_rules]: "keeps_pool m \<Longrightarrow> (\<And>x. keeps_pool (f x)) \<Longrightarrow> keeps_pool (wbind m f)"
  unfolding keeps_pool_def snd_wbind by (simp split: sum.split)

lemma keeps_pool_seq [pool_rules]: "keeps_pool m \<Longrightarrow> keeps_pool n \<Longrightarrow> keeps_pool (wseq m n)"
  by (simp add: wseq_def keeps_pool_bind)

lemma keeps_pool_if [pool_rules]: "keeps_pool m \<Longrightarrow> keeps_pool n \<Longrightarrow> keeps_pool (if b then m else n)"
  by simp

lemma keeps_pool_basic [pool_rules]:
  "keeps_pool (wreturn x)" "keeps_pool (wfail e)" "keeps_pool (wview (mem T))" "keeps_pool (wslice (mem T) a n)"
  "keeps_pool (wstore (mem T) a d)" "keeps_pool (own p)" "keeps_pool (ecall q)" "keeps_pool (erun h)"
  "keeps_pool (walloc_of (mem T) k)" "keeps_pool (wfree_m (mem T) k a)" "keeps_pool (\<lambda>s. (Inl err, s))"
  by (rule keeps_pool_same; simp add: wreturn_def wfail_def wview_def wslice_def wstore_def own_def ecall_def erun_def wdo_def
      walloc_of_def wfree_m_def wfree_of_def mem_def Let_def split: prod.splits)+

lemma keeps_pool_derived [pool_rules]:
  "keeps_pool (do_call f)" "keeps_pool (wread (mem T) n a)" "keeps_pool (wput (mem T) n a x)" "keeps_pool (alloc_put T n x)"
  "keeps_pool (allocPoint T A p q)"
  unfolding do_call_def wread_def wput_def alloc_put_def allocPoint_def by (intro pool_rules)+

lemma keeps_pool_get_u8 [pool_rules]: "keeps_pool (wget_u8 (mem T) v a)"
  using keeps_pool_derived(2) [of T 1 a] by (simp add: keeps_pool_def wget_u8_def)

lemma keeps_pool_words [pool_rules]: "keeps_pool (wwords (mem T) a n)"
proof -
  have "keeps_pool (wbind (wslice (mem T) a (4 * n)) (\<lambda>bs. wreturn (groups4 n bs)))" by (intro pool_rules)
  then show ?thesis by (simp add: keeps_pool_def wwords_def)
qed

lemma keeps_pool_fold [pool_rules]: "(\<And>i x. keeps_pool (b i x)) \<Longrightarrow> keeps_pool (wfold ks b x)"
  by (induction ks arbitrary: x) (auto intro!: pool_rules split: prod.splits)

lemma keeps_pool_while [pool_rules]: "(\<And>x. keeps_pool (b x)) \<Longrightarrow> keeps_pool (wwhile n b x)"
  by (induction n arbitrary: x) (auto intro!: pool_rules split: prod.splits)

lemma grid_at_cw [simp]: "grid_at lo c r (g\<lparr>cw := v\<rparr>) = grid_at lo c r g"
  by (simp add: grid_at_def)

lemma grid_at_free [simp]: "grid_at lo c r (world (wfree_of (mem T) k a s)) = grid_at lo c r (world s)"
  by (simp add: wfree_of_def mem_def)

lemma grid_at_free_all [simp]: "grid_at lo c r (world (wfree_all (mem T) ps s)) = grid_at lo c r (world s)"
proof (induction ps arbitrary: s)
  case (Cons p ps)
  then show ?case by (cases p) simp
qed simp

lemma keeps_pool_finally [pool_rules]: "keeps_pool m \<Longrightarrow> keeps_pool (wfinally m (wfree_of (mem T) k a))"
  "keeps_pool m \<Longrightarrow> keeps_pool (wfinally m (wfree_all (mem T) ps))"
  by (simp_all add: keeps_pool_def)

lemma keeps_pool_buffers [pool_rules]:
  "(\<And>a. keeps_pool (body a)) \<Longrightarrow> keeps_pool (wscratch (mem T) k d body)"
  "(\<And>a. keeps_pool (body a)) \<Longrightarrow> keeps_pool (wusing (mem T) k msg body)"
  unfolding wscratch_def wusing_def
  by (auto intro!: keeps_pool_bind keeps_pool_basic keeps_pool_finally)

lemma grid_at_pty [simp]: "grid_at lo c r (fold write_pty_cb ps g) = grid_at lo c r g"
  by (induction ps arbitrary: g) (auto simp: write_pty_cb_def grid_at_def)

lemma keeps_pool_pty [pool_rules]: "keeps_pool (call_pty f)"
  by (simp add: keeps_pool_def call_pty_def wdo_def split: prod.splits)

text \<open>A number read from \<open>n\<close> bytes fits them.\<close>

lemma wread_less: "wread (mem T) n a s = (Inr x, s') \<Longrightarrow> x < 256 ^ n"
  using le_less [of "take n (drop a (memory T s))"]
  by (auto simp: wread_def wbind_def wslice_def wreturn_def Let_def split: if_splits)

lemma keeps_pool_read:
  assumes "\<And>x. x < 256 ^ n \<Longrightarrow> keeps_pool (f x)"
  shows "keeps_pool (wbind (wread (mem T) n a) f)"
  using assms wread_less [of T n a] keeps_pool_derived(2) [of T n a] unfolding keeps_pool_def snd_wbind
  by (simp split: sum.split) (metis prod.collapse)

lemma list_all_update_at: "list_all P xs \<Longrightarrow> (\<And>x. P x \<Longrightarrow> P (f x)) \<Longrightarrow> list_all P (xs[k := f (xs ! k)])"
  by (cases "k < length xs") (auto simp: list_all_length nth_list_update)

lemma keeps_pool_cell [pool_rules]: "(\<And>c. cell_ok c \<Longrightarrow> cell_ok (f c)) \<Longrightarrow> keeps_pool (set_cell k f)"
  using list_all_update_at [of cell_ok] by (simp add: keeps_pool_def set_cell_def wdo_def grid_at_def)

lemma keeps_pool_updates [pool_rules]:
  "keeps_pool (wdo (\<lambda>g. g\<lparr>rowDirtyCache := A, rowWrapCache := B\<rparr>))"
  "keeps_pool (wdo (\<lambda>g. g\<lparr>rowDirtyCache := A\<rparr>))"
  "keeps_pool (wdo (\<lambda>g. g\<lparr>o_cellWidthPx := w, o_cellHeightPx := h\<rparr>))"
  by (rule keeps_pool_same; simp add: wdo_def)+

lemma keeps_pool_zero [pool_rules]: "keeps_pool zeroCellPool"
  by (simp add: keeps_pool_def zeroCellPool_def wdo_def grid_at_def list_all_iff)

lemma keeps_pool_wwhen [pool_rules]: "keeps_pool m \<Longrightarrow> keeps_pool (wwhen b m)"
  unfolding wwhen_def by (intro pool_rules)

lemma keeps_pool_queries [pool_rules]:
  "keeps_pool (rsGetU8 T A)" "keeps_pool (rsGetU16 T A)" "keeps_pool (rsGetU32 T A)" "keeps_pool (rsGetRgb T A)"
  "keeps_pool (tGetU8 T A)" "keeps_pool (tGetU32 T A)" "keeps_pool (getMode_w T A b)"
  unfolding rsGetU8_def rsGetU16_def rsGetU32_def rsGetRgb_def tGetU8_def tGetU32_def getMode_w_def
  by (intro pool_rules)+

lemma keeps_pool_rows [pool_rules]: "keeps_pool (update T)" "keeps_pool (next_row T)" "keeps_pool (cells_get T k p)"
  unfolding update_def next_row_def cells_get_def by (intro pool_rules)+

lemma keeps_pool_populate [pool_rules]: "keeps_pool (populate_rows T)" "keeps_pool (populate_cells T)"
  unfolding populate_rows_def populate_cells_def populateHandle_def by (intro pool_rules)+

text \<open>The assignments to a cell of the pool.\<close>

lemma cell_ok_steps:
  assumes "cell_ok c"
  shows "F < 256 ^ 4 \<Longrightarrow> cell_ok (c\<lparr>grapheme_len := F - 1\<rparr>)" "cp < 256 ^ 4 \<Longrightarrow> cell_ok (c\<lparr>codepoint := int cp\<rparr>)"
    "cell_ok (c\<lparr>codepoint := 0\<rparr>)" "cell_ok (set_fg y c)" "cell_ok (set_bg y c)" "cell_ok (c\<lparr>flags := style_flags y\<rparr>)"
    "cell_ok (c\<lparr>cwidth := wide_width M\<rparr>)" "cell_ok (c\<lparr>hyperlink_id := (if x \<noteq> 0 then 1 else 0)\<rparr>)"
    "cell_ok (c\<lparr>fg_r := 0, fg_g := 0, fg_b := 0, bg_r := 0, bg_g := 0, bg_b := 0, fgIsDefault := True, bgIsDefault := True\<rparr>)"
  using assms by (auto simp: cell_ok_def set_fg_def set_bg_def byte_less style_flags_less wide_width_le)

lemma keeps_pool_read_glyph [pool_rules]: "keeps_pool (read_glyph T b k)"
  unfolding read_glyph_def
  by (intro keeps_pool_read keeps_pool_if keeps_pool_wwhen keeps_pool_seq keeps_pool_cell cell_ok_steps
      keeps_pool_bind [OF keeps_pool_rows(3)] keeps_pool_bind [OF keeps_pool_basic(6)] keeps_pool_bind [OF keeps_pool_basic(4)]
      keeps_pool_basic)

lemma keeps_pool_read_attributes [pool_rules]: "keeps_pool (read_attributes T b k)"
  unfolding read_attributes_def by (intro pool_rules cell_ok_steps)

lemma keeps_pool_read_rows [pool_rules]: "keeps_pool (read_rows T b c r)"
  unfolding read_rows_def read_row_cells_def by (rule keeps_pool_fold) (auto split: prod.split intro!: pool_rules)

lemma keeps_pool_getViewport [pool_rules]: "keeps_pool (getViewport T)"
  unfolding getViewport_def by (intro pool_rules) (auto split: prod.split intro!: pool_rules)

lemma keeps_pool_refresh [pool_rules]: "keeps_pool (refreshRowMetaCache T)"
  unfolding refreshRowMetaCache_def by (intro pool_rules) (auto split: prod.split intro!: pool_rules)

lemma keeps_pool_meta [pool_rules]:
  "keeps_pool (row_flag T cache A)" "keeps_pool (markClean T n)" "keeps_pool (getCursor T)" "keeps_pool (getColors T)"
  "keeps_pool (getLine_w T A)" "keeps_pool (seek_row T n)"
  unfolding row_flag_def markClean_def getCursor_def getColors_def getLine_w_def seek_row_def by (intro pool_rules)+

lemma keeps_pool_config [pool_rules]:
  "keeps_pool (setColorOption T A c)" "keeps_pool (setKittyImageStorageLimit T a)" "keeps_pool (applyPalette T pal)"
  "keeps_pool (writeConfigToPtr T I C)"
  unfolding setColorOption_def setKittyImageStorageLimit_def applyPalette_def overlay_palette_def writeConfigToPtr_def Let_def
  by (intro pool_rules)+

lemma keeps_pool_applyConfig [pool_rules]: "keeps_pool (applyConfig T C)" "keeps_pool (setColors T C)"
   apply (unfold applyConfig_def, intro pool_rules)
  by (auto simp: setColors_def split: option.split intro!: pool_rules)

lemma keeps_pool_write [pool_rules]: "keeps_pool (write_data T d)" "keeps_pool (setCellPixelSize_w T a b)"
  unfolding write_data_def setCellPixelSize_w_def Let_def by (auto split: option.split intro!: pool_rules)

lemma keeps_pool_grid_ref [pool_rules]:
  "(\<And>C E. keeps_pool (body C E)) \<Longrightarrow> keeps_pool (with_grid_ref T tag x y body)"
  unfolding with_grid_ref_def by (intro pool_rules)

lemma keeps_pool_readHyperlinkUri [pool_rules]: "keeps_pool (readHyperlinkUri T A g I)"
  unfolding readHyperlinkUri_def by (intro pool_rules)

lemma keeps_pool_code_points [pool_rules]: "keeps_pool (code_point_string I)"
  unfolding code_point_string_def by (auto split: option.split intro!: pool_rules)

lemma keeps_pool_graphemes [pool_rules]:
  "keeps_pool (getScrollbackGrapheme T y x)" "keeps_pool (getGrapheme T A g)"
  unfolding getScrollbackGrapheme_def getGrapheme_def by (intro pool_rules)+

lemma keeps_pool_resolve [pool_rules]: "keeps_pool (resolveStyleColor T A g I Q)"
  unfolding resolveStyleColor_def by (intro pool_rules) (auto split: prod.split intro!: pool_rules)

lemma keeps_pool_grid_line [pool_rules]: "keeps_pool (readGridLine T A g)"
  unfolding readGridLine_def read_palette_def read_grid_cell_def Let_def
  by (intro pool_rules) (auto split: prod.split intro!: pool_rules)

lemma keeps_pool_kitty [pool_rules]:
  "keeps_pool (getKittyGraphics T)" "keeps_pool (getKittyImagePixels T A g)" "keeps_pool (bind_iterator T A Q)"
  "keeps_pool (placement_loop T n A v Q)"
  unfolding getKittyGraphics_def getKittyImagePixels_def bind_iterator_def placement_loop_def placement_step_def Let_def
  by (intro pool_rules)+

lemma grid_at_iter_finally [simp]: "grid_at lo c r (world (iter_finally T Q I s)) = grid_at lo c r (world s)"
  by (simp add: iter_finally_def)

lemma keeps_pool_iterPlacements [pool_rules]: "keeps_pool (iterPlacements T n A v)"
proof -
  have start: "keeps_pool (\<lambda>s. case m s of (Inl e, s') \<Rightarrow> (Inl e, iter_finally T 0 I s') | (Inr Q, s') \<Rightarrow> (Inr Q, s'))"
    if "keeps_pool m" for m :: "('a, nat) gm" and I
    using that unfolding keeps_pool_def by (auto split: prod.split sum.split) (metis snd_conv)+
  have none: "keeps_pool (\<lambda>s. (Inr [], iter_finally T 0 I s))" for I by (simp add: keeps_pool_def)
  have fin: "keeps_pool (wfinally m (iter_finally T Q I))" if "keeps_pool m" for m :: "('a, placement list) gm" and Q I
    using that by (simp add: keeps_pool_def)
  have log: "keeps_pool (wlog e)" for e by (rule keeps_pool_same) (simp add: wlog_def)
  show ?thesis unfolding iterPlacements_def by (intro pool_rules start none fin log)
qed

section \<open>Construction and resizing\<close>

lemma pool_filled_ok: "grid_at 0 c r (world s) \<Longrightarrow> pool_ok (world (snd (initCellPool_w s)))"
  by (auto simp: initCellPool_w_def wdo_def pool_ok_def grid_at_def list_all_iff)

lemma resize_pool:
  assumes "pool_ok (world s)"
  shows "pool_ok (world (snd (resize_w T c r s)))"
proof (cases "c = o_cols (world s) \<and> r = o_rows (world s)")
  case True
  then show ?thesis using assms by (simp add: resize_w_def wbind_def own_def wreturn_def)
next
  case False
  let ?f = "\<lambda>o'. ghostty_terminal_resize T (o_handle o') c r (o_cellWidthPx o') (o_cellHeightPx o')"
  let ?t = "s\<lparr>world := (world s)\<lparr>o_cols := c, o_rows := r\<rparr>\<rparr>"
  have "grid_at 0 c r (world ?t)" using assms by (simp add: grid_at_def pool_ok_def)
  then have "grid_at 0 c r (world (snd (call_pty ?f ?t)))" using keeps_pool_pty unfolding keeps_pool_def by blast
  moreover have "snd (resize_w T c r s) = snd (initCellPool_w (snd (call_pty ?f ?t)))"
    using False by (auto simp: resize_w_def wbind_def own_def wseq_def wdo_def call_pty_def)
  ultimately show ?thesis using pool_filled_ok by simp
qed

text \<open>The same for commands that keep the pool only when they return.\<close>

definition returns_pool :: "('v, 'a) gm \<Rightarrow> bool" where
  "returns_pool m = (\<forall>lo c r s x s'. grid_at lo c r (world s) \<longrightarrow> m s = (Inr x, s') \<longrightarrow> grid_at lo c r (world s'))"

lemma returns_keeps: "keeps_pool m \<Longrightarrow> returns_pool m"
  unfolding keeps_pool_def returns_pool_def by (metis snd_conv)

lemma wbind_Inr: "(wbind m f s = (Inr x, s')) = (\<exists>y t. m s = (Inr y, t) \<and> f y t = (Inr x, s'))"
  by (auto simp: wbind_def split: prod.splits sum.splits)

lemma returns_bind: "returns_pool m \<Longrightarrow> (\<And>x. returns_pool (f x)) \<Longrightarrow> returns_pool (wbind m f)"
  unfolding returns_pool_def wbind_Inr by blast

lemma returns_seq: "returns_pool m \<Longrightarrow> returns_pool n \<Longrightarrow> returns_pool (wseq m n)"
  by (simp add: wseq_def returns_bind)

lemma returns_opaque: "returns_pool (allocOpaqueOrFail T k A g)"
proof -
  have fail: "returns_pool (clean_fail T msg :: ('a, nat) gm)" for msg by (simp add: returns_pool_def clean_fail_def)
  have log: "keeps_pool (wseq (wlog e) (wreturn h))" for e and h :: nat
    by (rule keeps_pool_same) (simp add: wseq_def wbind_def wlog_def wreturn_def)
  have t: "returns_pool (opaque_try T k A g I)" for I
    unfolding opaque_try_def
    by (intro returns_bind) (auto intro!: fail returns_bind returns_keeps log pool_rules)
  have fin: "returns_pool (wfinally (opaque_try T k A g I) (wfree_of (mem T) Opaque I))" for I
    using t unfolding returns_pool_def wfinally_def by (auto split: prod.splits)
  show ?thesis
    unfolding allocOpaqueOrFail_def opaque_try_def [symmetric]
    by (intro returns_bind) (auto intro!: fail fin returns_keeps pool_rules)
qed

lemma keeps_pool_grow [pool_rules]: "keeps_pool (grow_table T f)"
  unfolding grow_table_def by (intro pool_rules) (auto split: option.split intro!: pool_rules)

lemma keeps_pool_callbacks [pool_rules]: "keeps_pool (installCallbacks T)"
proof -
  have u: "keeps_pool (wdo (\<lambda>g. g\<lparr>callbackRegistries := a, instancesByHandle := b\<rparr>))"
    "keeps_pool (wdo (\<lambda>g. g\<lparr>instancesByHandle := z g, callbackRegistry := a\<rparr>))" for a b z
    by (rule keeps_pool_same; simp add: wdo_def)+
  show ?thesis
    unfolding installCallbacks_def
    by (intro keeps_pool_bind pool_rules) (auto split: option.split prod.split intro!: pool_rules u)
qed

text \<open>Everything before the last step of \<open>set_up\<close>, which fills the pool.\<close>

definition prepare :: "'v term_api \<Rightarrow> colors option \<Rightarrow> ('v, unit) gm" where
  "prepare T C =
     wseq (installCallbacks T)
    (wseq (case C of None \<Rightarrow> wreturn () | Some c \<Rightarrow> applyConfig T c)
    (wseq (erun (\<lambda>g. ghostty_terminal_mode_set T (o_handle g) (mode_tag 2027 False) True))
    (wseq (setKittyImageStorageLimit T (Some 67108864))
    (wbind (allocOpaqueOrFail T ''render'' ''ghostty_render_state_new'' (ghostty_render_state_new T)) (\<lambda>h.
     wseq (wdo (\<lambda>g. g\<lparr>renderHandle := h\<rparr>))
    (wbind (allocOpaqueOrFail T ''rows'' ''ghostty_render_state_row_iterator_new''
              (ghostty_render_state_row_iterator_new T)) (\<lambda>h.
     wseq (wdo (\<lambda>g. g\<lparr>rowIter := h\<rparr>))
    (wbind (allocOpaqueOrFail T ''cells'' ''ghostty_render_state_row_cells_new''
              (ghostty_render_state_row_cells_new T)) (\<lambda>h.
     wdo (\<lambda>g. g\<lparr>rowCells := h\<rparr>))))))))))"

lemma wbind_assoc: "wbind (wbind m f) g = wbind m (\<lambda>x. wbind (f x) g)"
  by (simp add: wbind_def fun_eq_iff split: prod.splits sum.splits)

lemma set_up_prepare: "set_up T C = wseq (prepare T C) initCellPool_w"
  by (simp add: set_up_def prepare_def wseq_def wbind_assoc)

lemma returns_prepare: "returns_pool (prepare T C)"
proof -
  have "keeps_pool (wdo (\<lambda>g. g\<lparr>renderHandle := h\<rparr>))" "keeps_pool (wdo (\<lambda>g. g\<lparr>rowIter := h\<rparr>))"
    "keeps_pool (wdo (\<lambda>g. g\<lparr>rowCells := h\<rparr>))" for h by (rule keeps_pool_same; simp add: wdo_def)+
  moreover have "keeps_pool (case C of None \<Rightarrow> wreturn () | Some c \<Rightarrow> applyConfig T c)" by (cases C) (simp_all add: pool_rules)
  ultimately show ?thesis
    unfolding prepare_def by (intro returns_seq returns_bind returns_opaque returns_keeps pool_rules)
qed

lemma keeps_pool_new_terminal: "keeps_pool (new_terminal T I Q C)"
proof -
  have u: "keeps_pool (wlog e)" "keeps_pool (wdo (\<lambda>g. g\<lparr>o_handle := h\<rparr>))" for e h
    by (rule keeps_pool_same; simp add: wlog_def wdo_def)+
  have f: "keeps_pool (wfinally m (\<lambda>s. wfree_of (mem T) k a (wfree_of (mem T) j b s)))" if "keeps_pool m"
    for m :: "('a, unit) gm" and k a j b using that by (simp add: keeps_pool_def)
  show ?thesis unfolding new_terminal_def by (intro pool_rules u f)
qed

lemma gt_ctor_pool:
  assumes "gt_ctor T I Q C s = (Inr x, s')"
  shows "pool_ok (world s')"
proof -
  let ?s0 = "s\<lparr>world := fresh_object I Q (world s)\<rparr>"
  have g0: "grid_at 0 I Q (world ?s0)" by (simp add: grid_at_def fresh_object_def)
  obtain s1 where n: "new_terminal T I Q C ?s0 = (Inr (), s1)" and u: "or_clean_up T (set_up T C) s1 = (Inr x, s')"
    using assms by (auto simp: gt_ctor_def wseq_def wbind_Inr wdo_def own_def wfail_def split: if_splits)
  have g1: "grid_at 0 I Q (world s1)"
    using returns_keeps [OF keeps_pool_new_terminal] g0 n unfolding returns_pool_def by blast
  have "set_up T C s1 = (Inr x, s')" using u by (auto simp: or_clean_up_def split: prod.splits sum.splits)
  then obtain s2 where p: "prepare T C s1 = (Inr (), s2)" and i: "initCellPool_w s2 = (Inr x, s')"
    by (auto simp: set_up_prepare wseq_def wbind_Inr)
  have "grid_at 0 I Q (world s2)" using returns_prepare g1 p unfolding returns_pool_def by blast
  from pool_filled_ok [OF this] show ?thesis using i by simp
qed

section \<open>Lines read through the pool and by reference\<close>

definition yields :: "('a \<Rightarrow> bool) \<Rightarrow> ('w, 'a) wm \<Rightarrow> bool" where
  "yields P m = (\<forall>s x s'. m s = (Inr x, s') \<longrightarrow> P x)"

lemma yields_bind: "yields P m \<Longrightarrow> (\<And>x. P x \<Longrightarrow> yields R (f x)) \<Longrightarrow> yields R (wbind m f)"
  unfolding yields_def wbind_Inr by blast

lemma yields_any: "(\<And>x. yields R (f x)) \<Longrightarrow> yields R (wbind m f)"
  by (rule yields_bind [where P = "\<lambda>_. True"]) (simp_all add: yields_def)

lemma yields_seq: "yields R n \<Longrightarrow> yields R (wseq m n)"
  by (simp add: wseq_def yields_any)

lemma yields_return: "P x \<Longrightarrow> yields P (wreturn x)"
  by (simp add: yields_def wreturn_def)

lemma yields_if: "(b \<Longrightarrow> yields P m) \<Longrightarrow> (\<not> b \<Longrightarrow> yields P n) \<Longrightarrow> yields P (if b then m else n)"
  by simp

lemma yields_finally: "yields P m \<Longrightarrow> yields P (wfinally m f)"
  by (auto simp: yields_def wfinally_def split: prod.splits)

lemma yields_read: "yields (\<lambda>x. x < 256 ^ n) (wread (mem T) n a)"
  using wread_less unfolding yields_def by blast

lemma resolve_ok:
  assumes "cell_ok c"
  shows "yields cell_ok (resolveStyleColor T A g c Q)"
proof -
  have b: "fst (style_color E g v) < 256" "fst (snd (style_color E g v)) < 256" "snd (snd (style_color E g v)) < 256" for E v
    by (simp_all add: style_color_def byte_less Let_def split: option.split)
  show ?thesis
    unfolding resolveStyleColor_def
  proof (rule yields_any)
    fix E :: nat
    let ?P = "\<lambda>(i, o', D). i < 256 \<and> o' < 256 \<and> D < 256 \<and> (E = 0 \<longrightarrow> i = 0 \<and> o' = 0 \<and> D = (0 :: nat))"
    have c: "yields ?P (if E = 1 \<and> g \<noteq> None then wbind (wslice (mem T) (A + 8) 1) (\<lambda>v. wreturn (style_color E g v))
            else if E = 2 then wbind (wslice (mem T) (A + 8) 3) (\<lambda>v. wreturn (style_color E g v)) else wreturn (0, 0, 0))"
      using b by (intro yields_if yields_any yields_return) (auto split: prod.split simp: prod_eq_iff)
    show "yields cell_ok (wbind (if E = 1 \<and> g \<noteq> None then wbind (wslice (mem T) (A + 8) 1) (\<lambda>v. wreturn (style_color E g v))
            else if E = 2 then wbind (wslice (mem T) (A + 8) 3) (\<lambda>v. wreturn (style_color E g v)) else wreturn (0, 0, 0)) (\<lambda>(i, o', D).
       wreturn (if Q then c\<lparr>fg_r := i, fg_g := o', fg_b := D, fgIsDefault := (E = 0)\<rparr>
                else c\<lparr>bg_r := i, bg_g := o', bg_b := D, bgIsDefault := (E = 0)\<rparr>)))"
      by (rule yields_bind [OF c]) (use assms in \<open>auto intro!: yields_return simp: cell_ok_def\<close>)
  qed
qed

lemma read_grid_cell_ok: "yields cell_ok (read_grid_cell T pal Q s w t a G)"
proof -
  have h: "cell_ok (null_cell\<lparr>codepoint := int J, cwidth := wide_width M, hyperlink_id := (if H \<noteq> 0 then 1 else 0)\<rparr>)"
    if "J < 256 ^ 4" for J M H :: nat using that by (simp add: cell_ok_def null_cell_def wide_width_le)
  have f: "cell_ok c \<Longrightarrow> cell_ok (c\<lparr>flags := style_flags y\<rparr>)" for c y by (rule cell_ok_steps)
  show ?thesis
    unfolding read_grid_cell_def Let_def
    by (rule yields_seq, rule yields_any, rule yields_if, rule yields_return, rule null_cell_ok, rule yields_any,
        rule yields_seq, rule yields_bind [OF yields_read], rule yields_seq, rule yields_any, rule yields_seq, rule yields_any,
        rule yields_seq, rule yields_any, rule yields_if, rule yields_return, rule h, assumption, rule yields_any,
        rule yields_bind [OF resolve_ok], rule f, rule h, assumption, rule resolve_ok)
qed

lemma yields_line:
  assumes "\<And>i. yields P (body i)"
  shows "yields (\<lambda>D. length D = length D0 + length ks \<and> (list_all P D0 \<longrightarrow> list_all P D))
     (wfold ks (\<lambda>i D. wbind (body i) (\<lambda>h. wreturn (D @ [h], True))) D0)"
proof (induction ks arbitrary: D0)
  case Nil
  then show ?case by (simp add: yields_return)
next
  case (Cons k ks)
  show ?case
  proof -
    have "yields (\<lambda>(D, more). more \<and> (\<exists>h. P h \<and> D = D0 @ [h])) (wbind (body k) (\<lambda>h. wreturn (D0 @ [h], True)))"
      by (rule yields_bind [OF assms]) (simp add: yields_return)
    then show ?thesis
      unfolding wfold.simps by (rule yields_bind) (use Cons.IH in \<open>force simp: yields_def\<close>)
  qed
qed

text \<open>Results that depend on the size of the grid.\<close>

definition yields_in :: "nat \<Rightarrow> ('a \<Rightarrow> bool) \<Rightarrow> ('v, 'a) gm \<Rightarrow> bool" where
  "yields_in c P m = (\<forall>lo r s x s'. grid_at lo c r (world s) \<longrightarrow> m s = (Inr x, s') \<longrightarrow> P x)"

lemma yields_in_bind: "keeps_pool m \<Longrightarrow> (\<And>x. yields_in c R (f x)) \<Longrightarrow> yields_in c R (wbind m f)"
  using returns_keeps [of m] unfolding yields_in_def wbind_Inr returns_pool_def by blast

lemma yields_in_cols: "yields_in c R (f c) \<Longrightarrow> yields_in c R (wbind (own o_cols) f)"
  unfolding yields_in_def wbind_Inr own_def by (auto simp: grid_at_def)

lemma yields_in_finally: "yields_in c P m \<Longrightarrow> yields_in c P (wfinally m f)"
  by (auto simp: yields_in_def wfinally_def split: prod.splits)

lemma yields_in_if: "yields_in c P m \<Longrightarrow> yields_in c P n \<Longrightarrow> yields_in c P (if b then m else n)"
  by simp

lemma yields_in_plain: "yields P m \<Longrightarrow> yields_in c P m"
  by (auto simp: yields_in_def yields_def)

definition line_ok :: "nat \<Rightarrow> cell list option \<Rightarrow> bool" where
  "line_ok c l = (case l of None \<Rightarrow> True | Some cs \<Rightarrow> length cs = c \<and> list_all cell_ok cs)"

lemma keeps_pool_palette [pool_rules]: "keeps_pool (read_palette T)"
  unfolding read_palette_def by (intro pool_rules)

lemma readGridLine_ok: "yields_in c (line_ok c) (readGridLine T A g)"
proof -
  have l: "yields (line_ok c) (wbind (wfold [0..<c] (\<lambda>G D. wbind (read_grid_cell T pal Q s w t a G) (\<lambda>h. wreturn (D @ [h], True))) [])
      (\<lambda>D. wreturn (Some D)))" for pal Q s w t a
    by (rule yields_bind [OF yields_line [OF read_grid_cell_ok]]) (simp add: yields_return line_ok_def)
  show ?thesis
    unfolding readGridLine_def
    apply (rule yields_in_bind, intro pool_rules, rule yields_in_bind, intro pool_rules, rule yields_in_finally,
        rule yields_in_bind, intro pool_rules, rule yields_in_if, rule yields_in_plain, rule yields_return, simp add: line_ok_def,
        rule yields_in_bind, intro pool_rules)
    apply (clarify, rule yields_in_cols)
    by (intro yields_in_bind pool_rules yields_in_finally yields_in_plain l)
qed

lemma viewport_is_pool: "getViewport T s = (Inr p, s') \<Longrightarrow> p = o_cellPool (world s')"
  unfolding getViewport_def wseq_def wbind_Inr by (auto simp: own_def wbind_Inr)

lemma getLine_ok:
  assumes "pool_ok (world s)" "getLine_w T A s = (Inr l, s')"
  shows "line_ok (o_cols (world s)) l \<and> (l = None \<longleftrightarrow> A < 0 \<or> int (o_rows (world s)) \<le> A)"
proof (cases "A < 0 \<or> int (o_rows (world s)) \<le> A")
  case True
  then show ?thesis using assms(2) by (auto simp: getLine_w_def wbind_def own_def wreturn_def line_ok_def)
next
  case False
  let ?c = "o_cols (world s)" let ?r = "o_rows (world s)"
  obtain d s1 p s2 where 1: "update T s = (Inr d, s1)" and 2: "getViewport T s1 = (Inr p, s2)"
    and l: "l = Some (take (o_cols (world s2)) (drop (nat A * o_cols (world s2)) p))"
    using assms(2) False by (auto simp: getLine_w_def own_def wreturn_def wbind_Inr split: if_splits)
  have g: "grid_at (?c * ?r) ?c ?r (world s2)"
    using assms(1) 1 2 returns_keeps [OF keeps_pool_rows(1)] returns_keeps [OF keeps_pool_getViewport]
    unfolding pool_ok_grid returns_pool_def by metis
  have p: "p = o_cellPool (world s2)" by (rule viewport_is_pool [OF 2])
  have "nat A * ?c + ?c \<le> ?c * ?r"
  proof -
    have "Suc (nat A) * ?c \<le> ?r * ?c" using False by (intro mult_le_mono1) linarith
    then show ?thesis by (simp add: ac_simps)
  qed
  then have "nat A * ?c + ?c \<le> length p" using g p by (auto simp: grid_at_def intro: order_trans)
  then have "length (take ?c (drop (nat A * ?c) p)) = ?c" by simp
  moreover have "list_all cell_ok (take ?c (drop (nat A * ?c) p))"
    using g p by (auto simp: grid_at_def list_all_iff dest: in_set_takeD in_set_dropD)
  ultimately show ?thesis using False l g by (simp add: line_ok_def grid_at_def)
qed

section \<open>The invariant\<close>

lemma keeps_pool_ok: "keeps_pool m \<Longrightarrow> pool_ok (world s) \<Longrightarrow> pool_ok (world (snd (m s)))"
  unfolding keeps_pool_def pool_ok_def by (force simp: grid_at_def)

lemma keeps_pool_scrollback [pool_rules]: "keeps_pool (getScrollbackLine T y)"
  unfolding getScrollbackLine_def by (intro pool_rules)

lemma scrollback_ok: "pool_ok (world s) \<Longrightarrow> getScrollbackLine T y s = (Inr l, s') \<Longrightarrow> line_ok (o_cols (world s)) l"
  using readGridLine_ok unfolding getScrollbackLine_def yields_in_def pool_ok_grid by blast

text \<open>
  C11. From construction on, through every method and however a method ends, the pool has a
  cell for each position of the grid and every cell is well-formed: code point and
  grapheme length fit 32 bits, colours and flags a byte, a default colour is zero, the
  width is at most 2. A line that \<open>getLine\<close> or \<open>getScrollbackLine\<close> returns has exactly one
  well-formed cell for each column, and \<open>getLine\<close> returns none just for rows outside the grid.
\<close>

theorem pool_well_formed:
  "(\<forall>x s'. gt_ctor T I Q C s = (Inr x, s') \<longrightarrow> pool_ok (world s')) \<and>
   (pool_ok (world s) \<longrightarrow>
      pool_ok (world (snd (resize_w T c r s))) \<and> pool_ok (world (snd (write_data T d s))) \<and>
      pool_ok (world (snd (setCellPixelSize_w T a b s))) \<and> pool_ok (world (snd (setColors T K s))) \<and>
      pool_ok (world (snd (getViewport T s))) \<and> pool_ok (world (snd (getLine_w T A s))) \<and>
      pool_ok (world (snd (getScrollbackLine T y s))) \<and> pool_ok (world (snd (markClean T n s))) \<and>
      pool_ok (world (snd (getGrapheme T A g s))) \<and> pool_ok (world (snd (iterPlacements T n G v s))) \<and>
      (\<forall>l s'. getLine_w T A s = (Inr l, s') \<longrightarrow>
         line_ok (o_cols (world s)) l \<and> (l = None \<longleftrightarrow> A < 0 \<or> int (o_rows (world s)) \<le> A)) \<and>
      (\<forall>l s'. getScrollbackLine T y s = (Inr l, s') \<longrightarrow> line_ok (o_cols (world s)) l))"
  by (auto intro!: keeps_pool_ok pool_rules resize_pool dest: gt_ctor_pool getLine_ok scrollback_ok)

theorem pool_well_formed_witness:
  "pool_ok (world demo_object) \<and> pool_ok (world (snd (resize_w demo_api 3 2 demo_object))) \<and>
   pool_ok (world (snd (getViewport demo_api demo_object)))"
proof -
  have "pool_ok (world demo_object)" by (simp add: demo_object_def pool_ok_def)
  then show ?thesis
    using pool_well_formed [of demo_api 1 1 None demo_object 3 2 "Bytes []" None None demo_colors 0 0 1 0 0 False] by blast
qed

end
