(* ===== verification/Gw_Atlas.thy ===== *)
theory Gw_Atlas
  imports Gw_Buffer
begin

text \<open>
  The glyph atlas of the WebGL renderer (class \<open>hB\<close> of \<open>ghostty-web.js\<close>): two textures, one for
  monochrome and one for colour glyphs, each packed in shelves; a cache of glyphs with the place of
  each in its texture; eviction of the least recently used shelf, and repacking of a whole page.

  A texture is the function from its texels to their four bytes. What the browser does is a
  parameter, the record \<open>browser\<close>: measuring a text, drawing it on a cleared canvas and reading the
  pixels back, spelling a number, recognising pictographs, and multiplying a texel by its alpha.
  Pixel lengths are rational numbers; the use counter does not overflow.
\<close>

section \<open>What the browser provides\<close>

text \<open>
  The result of \<open>measureText\<close>: a bounding box field is \<^term>\<open>None\<close> where it is undefined, and
  \<^term>\<open>Some None\<close> where it is not a finite number.
\<close>

record text_metrics =
  tm_width :: num_arg
  actualBoundingBoxLeft :: "num_arg option"
  actualBoundingBoxRight :: "num_arg option"
  actualBoundingBoxAscent :: "num_arg option"
  actualBoundingBoxDescent :: "num_arg option"

text \<open>
  \<open>draw_text font s x y w h\<close> is what \<open>getImageData(0, 0, w, h)\<close> returns after the text \<open>s\<close> has
  been drawn in white at \<open>(x, y)\<close> on a cleared canvas of \<open>w * h\<close> pixels, \<^term>\<open>None\<close> where it
  throws. \<open>pictographic\<close> is the test with the Unicode property, \<^term>\<open>None\<close> where it throws.
\<close>

record browser =
  measureText :: "jstr \<Rightarrow> jstr \<Rightarrow> text_metrics"
  draw_text :: "jstr \<Rightarrow> jstr \<Rightarrow> rat \<Rightarrow> rat \<Rightarrow> int \<Rightarrow> int \<Rightarrow> byte list option"
  num_text :: "rat \<Rightarrow> jstr"
  pictographic :: "jstr \<Rightarrow> bool option"
  premultiply :: "byte list \<Rightarrow> byte list"

section \<open>Shelves\<close>

record shelf =
  sh_id :: int
  sh_y :: int
  sh_height :: int
  nextX :: int

record page =
  pg_width :: int
  pg_height :: int
  shelves :: "shelf list"
  nextShelfY :: int
  nextShelfId :: int

text \<open>Function \<open>DA\<close>.\<close>

definition empty_page :: "int \<Rightarrow> page" where
  "empty_page n = \<lparr>pg_width = n, pg_height = n, shelves = [], nextShelfY = 0, nextShelfId = 1\<rparr>"

text \<open>
  Function \<open>NB\<close>: the first shelf that is high enough and has room, or a new shelf below the
  others. A placement is \<open>(x, y, shelfId)\<close>.
\<close>

fun on_shelf :: "int \<Rightarrow> int \<Rightarrow> int \<Rightarrow> shelf list \<Rightarrow> (shelf list \<times> int \<times> int \<times> int) option" where
  "on_shelf W w h [] = None"
| "on_shelf W w h (s # ss) =
     (if h \<le> sh_height s \<and> w \<le> W - nextX s
      then Some (s\<lparr>nextX := nextX s + w\<rparr> # ss, nextX s, sh_y s, sh_id s)
      else case on_shelf W w h ss of
             None \<Rightarrow> None
           | Some (ss', pl) \<Rightarrow> Some (s # ss', pl))"

definition place :: "int \<Rightarrow> int \<Rightarrow> page \<Rightarrow> (page \<times> int \<times> int \<times> int) option" where
  "place w h P =
     (case on_shelf (pg_width P) w h (shelves P) of
        Some (ss, pl) \<Rightarrow> Some (P\<lparr>shelves := ss\<rparr>, pl)
      | None \<Rightarrow>
          if nextShelfY P + h \<le> pg_height P then
            let s = \<lparr>sh_id = nextShelfId P, sh_y = nextShelfY P, sh_height = h, nextX = w\<rparr>
            in Some (P\<lparr>shelves := shelves P @ [s], nextShelfY := nextShelfY P + h,
                       nextShelfId := nextShelfId P + 1\<rparr>, 0, sh_y s, sh_id s)
          else None)"

text \<open>\<open>I.nextX = 0\<close> on the evicted shelf.\<close>

definition rewound :: "int \<Rightarrow> shelf \<Rightarrow> shelf" where
  "rewound i s = (if sh_id s = i then s\<lparr>nextX := 0\<rparr> else s)"

definition rewind_shelf :: "int \<Rightarrow> page \<Rightarrow> page" where
  "rewind_shelf i P = P\<lparr>shelves := map (rewound i) (shelves P)\<rparr>"

section \<open>Textures\<close>

type_synonym texel = "byte list"
type_synonym texture = "int \<times> int \<Rightarrow> texel"

definition texel_at :: "byte list \<Rightarrow> int \<Rightarrow> int \<Rightarrow> int \<Rightarrow> texel" where
  "texel_at bs w i j = take 4 (drop (nat (4 * (j * w + i))) bs)"

text \<open>
  \<open>texSubImage2D\<close> with \<open>f\<close> applied to each texel on the way. A rectangle outside the texture
  or too little data is an error that leaves the texture as it is.
\<close>

definition texSubImage2D ::
  "int \<Rightarrow> int \<Rightarrow> int \<Rightarrow> int \<Rightarrow> int \<Rightarrow> (texel \<Rightarrow> texel) \<Rightarrow> byte list \<Rightarrow> texture \<Rightarrow> texture" where
  "texSubImage2D n x y w h f bs t =
     (if 0 \<le> x \<and> 0 \<le> y \<and> 0 \<le> w \<and> 0 \<le> h \<and> x + w \<le> n \<and> y + h \<le> n \<and> 4 * w * h \<le> int (length bs)
      then (\<lambda>(px, py). if x \<le> px \<and> px < x + w \<and> y \<le> py \<and> py < y + h
                       then f (texel_at bs w (px - x) (py - y)) else t (px, py))
      else t)"

text \<open>Function \<open>kB\<close>: white texels with the alpha of the drawn ones.\<close>

fun white_alpha :: "byte list \<Rightarrow> byte list" where
  "white_alpha (r # g # b # a # bs) = 255 # 255 # 255 # a # white_alpha bs"
| "white_alpha [] = []"
| "white_alpha bs = [255, 255, 255, 0]"

text \<open>The array the function allocates has \<open>w * h * 4\<close> bytes.\<close>

definition mono_pixels :: "byte list \<Rightarrow> int \<Rightarrow> int \<Rightarrow> byte list" where
  "mono_pixels bs w h =
     (let n = nat (4 * w * h); xs = white_alpha bs
      in take n xs @ replicate (n - length xs) 0)"

definition blank_texel :: texel where
  "blank_texel = [0, 0, 0, 0]"

section \<open>Glyphs and the atlas\<close>

record raw_glyph =
  atlasX :: int
  atlasY :: int
  atlasW :: int
  atlasH :: int
  bearingX :: int
  bearingY :: int
  gl_width :: int
  gl_height :: int
  gl_isColor :: bool
  shelfId :: int

record glyph = raw_glyph +
  gl_key :: jstr
  gl_grapheme :: jstr
  gl_bold :: bool
  gl_italic :: bool
  gl_pinned :: bool
  lastUsed :: int

record request =
  rq_grapheme :: jstr
  rq_bold :: bool
  rq_italic :: bool
  rq_isColor :: bool
  rq_pinned :: bool

record atlas =
  at_fontSize :: rat
  at_fontFamily :: jstr
  at_dpr :: rat
  atlasSize :: int
  colorAtlasSize :: int
  at_page :: page
  colorPage :: page
  atlasTexture :: texture
  colorTexture :: texture
  glyphs :: "(jstr \<times> glyph) list"
  useCounter :: int

definition page_of :: "bool \<Rightarrow> atlas \<Rightarrow> page" where
  "page_of c a = (if c then colorPage a else at_page a)"

definition set_page :: "bool \<Rightarrow> page \<Rightarrow> atlas \<Rightarrow> atlas" where
  "set_page c P a = (if c then a\<lparr>colorPage := P\<rparr> else a\<lparr>at_page := P\<rparr>)"

definition texture_of :: "bool \<Rightarrow> atlas \<Rightarrow> texture" where
  "texture_of c a = (if c then colorTexture a else atlasTexture a)"

definition size_of :: "bool \<Rightarrow> atlas \<Rightarrow> int" where
  "size_of c a = (if c then colorAtlasSize a else atlasSize a)"

text \<open>Uploading to the texture of one kind of glyph.\<close>

definition upload ::
  "bool \<Rightarrow> int \<Rightarrow> int \<Rightarrow> int \<Rightarrow> int \<Rightarrow> (texel \<Rightarrow> texel) \<Rightarrow> byte list \<Rightarrow> atlas \<Rightarrow> atlas" where
  "upload c x y w h f bs a =
     (if c then a\<lparr>colorTexture := texSubImage2D (colorAtlasSize a) x y w h f bs (colorTexture a)\<rparr>
      else a\<lparr>atlasTexture := texSubImage2D (atlasSize a) x y w h f bs (atlasTexture a)\<rparr>)"

text \<open>Functions \<open>wA\<close> (with \<open>shelfId: -1\<close>), \<open>sA\<close>, \<open>MB\<close> and \<open>FB\<close>.\<close>

definition no_glyph :: "bool \<Rightarrow> raw_glyph" where
  "no_glyph c = \<lparr>atlasX = 0, atlasY = 0, atlasW = 0, atlasH = 0, bearingX = 0, bearingY = 0,
     gl_width = 0, gl_height = 0, gl_isColor = c, shelfId = -1\<rparr>"

definition positive_or :: "num_arg \<Rightarrow> rat \<Rightarrow> rat" where
  "positive_or b d = (case b of Some x \<Rightarrow> if 0 < x then x else d | None \<Rightarrow> d)"

definition is_ascii :: "jstr \<Rightarrow> bool" where
  "is_ascii s = (length s = 1 \<and> 32 \<le> unat (hd s) \<and> unat (hd s) \<le> 126)"

text \<open>\<open>codePointAt(0) ?? 0\<close>.\<close>

fun first_code_point :: "jstr \<Rightarrow> nat" where
  "first_code_point [] = 0"
| "first_code_point [u] = unat u"
| "first_code_point (u # v # s) =
     (if 55296 \<le> unat u \<and> unat u \<le> 56319 \<and> 56320 \<le> unat v \<and> unat v \<le> 57343
      then 65536 + (unat u - 55296) * 1024 + (unat v - 56320) else unat u)"

definition is_color :: "browser \<Rightarrow> jstr \<Rightarrow> bool" where
  "is_color B s =
     (case pictographic B s of
        Some p \<Rightarrow> p
      | None \<Rightarrow> let n = first_code_point s
                in 127744 \<le> n \<and> n \<le> 129791 \<or> 9728 \<le> n \<and> n \<le> 10175)"

definition makeKey :: "browser \<Rightarrow> request \<Rightarrow> atlas \<Rightarrow> jstr" where
  "makeKey B q a =
     rq_grapheme q @ js ''|'' @ js (if rq_bold q then ''b'' else '''') @
     js (if rq_italic q then ''i'' else '''') @ js ''|'' @
     js (if rq_isColor q then ''c'' else ''m'') @ js ''|'' @ num_text B (at_dpr a)"

section \<open>Drawing a glyph\<close>

definition font_text :: "browser \<Rightarrow> atlas \<Rightarrow> bool \<Rightarrow> bool \<Rightarrow> jstr" where
  "font_text B a bold italic =
     js (if italic then ''italic '' else '''') @ js (if bold then ''bold '' else '''') @
     num_text B (at_fontSize a * at_dpr a) @ js ''px '' @ at_fontFamily a"

text \<open>The four distances from the origin of the text to the sides of its box.\<close>

definition text_box :: "text_metrics \<Rightarrow> rat \<Rightarrow> rat \<times> rat \<times> rat \<times> rat" where
  "text_box s px =
     (let w = (case actualBoundingBoxLeft s of None \<Rightarrow> Some 0 | Some v \<Rightarrow> v);
          t = (case actualBoundingBoxRight s of None \<Rightarrow> tm_width s | Some v \<Rightarrow> v);
          e = (case actualBoundingBoxAscent s of None \<Rightarrow> Some (px * (8 / 10)) | Some v \<Rightarrow> v);
          d = (case actualBoundingBoxDescent s of None \<Rightarrow> Some (px * (2 / 10)) | Some v \<Rightarrow> v)
      in case (w, t, e, d) of
           (Some w, Some t, Some e, Some d) \<Rightarrow> (w, t, e, d)
         | _ \<Rightarrow> (0, case tm_width s of
                       Some x \<Rightarrow> if 0 < x then x else px * (6 / 10)
                     | None \<Rightarrow> px * (6 / 10), px * (8 / 10), px * (2 / 10)))"

definition box_of :: "browser \<Rightarrow> atlas \<Rightarrow> jstr \<Rightarrow> bool \<Rightarrow> bool \<Rightarrow> rat \<times> rat \<times> rat \<times> rat" where
  "box_of B a s bold italic =
     text_box (measureText B (font_text B a bold italic) s) (at_fontSize a * at_dpr a)"

definition PADDING :: int where "PADDING = 1"

text \<open>The canvas is resized, cleared, drawn on and read back.\<close>

definition pixels_of :: "browser \<Rightarrow> atlas \<Rightarrow> jstr \<Rightarrow> bool \<Rightarrow> bool \<Rightarrow> byte list option" where
  "pixels_of B a s bold italic =
     (let (w, t, e, d) = box_of B a s bold italic
      in draw_text B (font_text B a bold italic) s (of_int PADDING - (- w)) (of_int PADDING + e)
           (\<lceil>w + t\<rceil> + PADDING * 2) (\<lceil>e + d\<rceil> + PADDING * 2))"

definition tryRasterizeGlyph :: "browser \<Rightarrow> request \<Rightarrow> atlas \<Rightarrow> atlas \<times> raw_glyph option" where
  "tryRasterizeGlyph B q a =
     (let c = rq_isColor q;
          (w, t, e, d) = box_of B a (rq_grapheme q) (rq_bold q) (rq_italic q);
          G = \<lceil>w + t\<rceil>; N = \<lceil>e + d\<rceil>
      in if G = 0 \<or> N = 0 then (a, Some (no_glyph c))
         else
           let F = G + PADDING * 2; J = N + PADDING * 2; P = page_of c a
           in if F > pg_width P \<or> J > pg_height P then (a, Some (no_glyph c))
              else case place F J P of
                None \<Rightarrow> (a, None)
              | Some (P', x, y, i) \<Rightarrow>
                  let a = set_page c P' a
                  in (case pixels_of B a (rq_grapheme q) (rq_bold q) (rq_italic q) of
                       None \<Rightarrow> (a, None)
                     | Some n \<Rightarrow>
                         (if c then upload c x y F J (premultiply B) n a
                          else upload c x y F J id (mono_pixels n F J) a,
                          Some \<lparr>atlasX = x + PADDING, atlasY = y + PADDING, atlasW = G, atlasH = N,
                                bearingX = js_round (- w), bearingY = js_round e,
                                gl_width = G, gl_height = N, gl_isColor = c, shelfId = i\<rparr>)))"

text \<open>\<open>{...raw, key, grapheme, ...}\<close>.\<close>

definition full_glyph :: "browser \<Rightarrow> request \<Rightarrow> atlas \<Rightarrow> int \<Rightarrow> raw_glyph \<Rightarrow> glyph" where
  "full_glyph B q a used r = raw_glyph.extend (r\<lparr>gl_isColor := rq_isColor q\<rparr>)
     (glyph.fields (makeKey B q a) (rq_grapheme q) (rq_bold q) (rq_italic q) (rq_pinned q) used)"

definition addGlyph :: "browser \<Rightarrow> request \<Rightarrow> int option \<Rightarrow> atlas \<Rightarrow> atlas \<times> glyph option" where
  "addGlyph B q used a =
     (case tryRasterizeGlyph B q a of
        (a, None) \<Rightarrow> (a, None)
      | (a, Some r) \<Rightarrow>
          let (a, u) = (case used of
                 Some u \<Rightarrow> (a, u)
               | None \<Rightarrow> (a\<lparr>useCounter := useCounter a + 1\<rparr>, useCounter a + 1));
              g = full_glyph B q a u r;
              a = (case used of
                 Some u \<Rightarrow> if u > useCounter a then a\<lparr>useCounter := u\<rparr> else a
               | None \<Rightarrow> a)
          in (a\<lparr>glyphs := AList.update (gl_key g) g (glyphs a)\<rparr>, Some g))"

section \<open>Eviction\<close>

text \<open>
  The glyphs of one kind on one shelf, in the order of the map. A pinned glyph keeps its shelf.
\<close>

definition on_this_shelf :: "bool \<Rightarrow> int \<Rightarrow> glyph \<Rightarrow> bool" where
  "on_this_shelf c i g = (gl_isColor g = c \<and> shelfId g = i)"

text \<open>The newest use of a shelf, \<^term>\<open>None\<close> where it is empty or has a pinned glyph.\<close>

definition shelf_age :: "bool \<Rightarrow> int \<Rightarrow> (jstr \<times> glyph) list \<Rightarrow> int option" where
  "shelf_age c i gs =
     (let on = filter (on_this_shelf c i) (map snd gs)
      in if on = [] \<or> (\<exists>g\<in>set on. gl_pinned g) then None
         else Some (Max (set (map lastUsed on))))"

fun oldest_shelf :: "bool \<Rightarrow> (jstr \<times> glyph) list \<Rightarrow> (int \<times> shelf) option \<Rightarrow> shelf list \<Rightarrow> shelf option" where
  "oldest_shelf c gs best [] = map_option snd best"
| "oldest_shelf c gs best (s # ss) =
     (case shelf_age c (sh_id s) gs of
        None \<Rightarrow> oldest_shelf c gs best ss
      | Some u \<Rightarrow>
          if (case best of None \<Rightarrow> True | Some (b, _) \<Rightarrow> u < b)
          then oldest_shelf c gs (Some (u, s)) ss else oldest_shelf c gs best ss)"

definition findEvictionShelf :: "page \<Rightarrow> bool \<Rightarrow> atlas \<Rightarrow> shelf option" where
  "findEvictionShelf P c a = oldest_shelf c (glyphs a) None (shelves P)"

definition clearShelfTexture :: "shelf \<Rightarrow> bool \<Rightarrow> int \<Rightarrow> atlas \<Rightarrow> atlas" where
  "clearShelfTexture s c W a =
     upload c 0 (sh_y s) W (sh_height s) id (replicate (nat (W * sh_height s * 4)) 0) a"

text \<open>
  The loop that deletes: it stops at a pinned glyph, with the earlier ones deleted. The result is
  the map, the number of deleted glyphs and whether the loop ran to its end.
\<close>

fun delete_shelf :: "bool \<Rightarrow> int \<Rightarrow> (jstr \<times> glyph) list \<Rightarrow> (jstr \<times> glyph) list \<times> nat \<times> bool" where
  "delete_shelf c i [] = ([], 0, True)"
| "delete_shelf c i ((k, g) # gs) =
     (if on_this_shelf c i g then
        if gl_pinned g then ((k, g) # gs, 0, False)
        else (let (gs', n, ok) = delete_shelf c i gs in (gs', n + 1, ok))
      else (let (gs', n, ok) = delete_shelf c i gs in ((k, g) # gs', n, ok)))"

definition evictLeastRecentlyUsedShelf :: "bool \<Rightarrow> atlas \<Rightarrow> atlas \<times> bool" where
  "evictLeastRecentlyUsedShelf c a =
     (let P = page_of c a
      in case findEvictionShelf P c a of
           None \<Rightarrow> (a, False)
         | Some s \<Rightarrow>
             let (gs, n, ok) = delete_shelf c (sh_id s) (glyphs a);
                 a = a\<lparr>glyphs := gs\<rparr>
             in if \<not> ok \<or> n = 0 then (a, False)
                else let a = clearShelfTexture s c (pg_width P) a
                     in (set_page c (rewind_shelf (sh_id s) (page_of c a)) a, True))"

section \<open>Repacking\<close>

definition resetPage :: "bool \<Rightarrow> atlas \<Rightarrow> atlas" where
  "resetPage c a = set_page c (empty_page (size_of c a)) a"

definition clearFullPageTexture :: "bool \<Rightarrow> atlas \<Rightarrow> atlas" where
  "clearFullPageTexture c a =
     (let P = page_of c a
      in clearShelfTexture \<lparr>sh_id = -1, sh_y = 0, sh_height = pg_height P, nextX = 0\<rparr> c (pg_width P) a)"

text \<open>The request that draws a cached glyph again.\<close>

definition again :: "glyph \<Rightarrow> request" where
  "again g = \<lparr>rq_grapheme = gl_grapheme g, rq_bold = gl_bold g, rq_italic = gl_italic g,
     rq_isColor = gl_isColor g, rq_pinned = gl_pinned g\<rparr>"

fun readd_all :: "browser \<Rightarrow> glyph list \<Rightarrow> atlas \<Rightarrow> atlas" where
  "readd_all B [] a = a"
| "readd_all B (g # gs) a = readd_all B gs (fst (addGlyph B (again g) (Some (lastUsed g)) a))"

fun readd_missing :: "browser \<Rightarrow> glyph list \<Rightarrow> atlas \<Rightarrow> atlas" where
  "readd_missing B [] a = a"
| "readd_missing B (g # gs) a =
     readd_missing B gs
       (if gl_key g \<in> fst ` set (glyphs a) then a
        else fst (addGlyph B (again g) (Some (lastUsed g)) a))"

definition repackAndAddGlyph :: "browser \<Rightarrow> request \<Rightarrow> atlas \<Rightarrow> atlas \<times> glyph option" where
  "repackAndAddGlyph B q a =
     (let c = rq_isColor q;
          I = sort_key (\<lambda>g. - lastUsed g)
                (filter (\<lambda>g. gl_isColor g = c \<and> 0 \<le> shelfId g) (map snd (glyphs a)));
          k = makeKey B q a;
          C = filter (\<lambda>g. gl_pinned g \<and> gl_key g \<noteq> k) I;
          E = filter (\<lambda>g. \<not> gl_pinned g \<and> gl_key g \<noteq> k) I;
          a = a\<lparr>glyphs := filter (\<lambda>(k, g). gl_isColor g \<noteq> c) (glyphs a)\<rparr>;
          a = clearFullPageTexture c (resetPage c a);
          a = readd_all B C a;
          (a, i) = addGlyph B q None a
      in (readd_missing B E a, i))"

definition createPlaceholder :: "browser \<Rightarrow> request \<Rightarrow> atlas \<Rightarrow> atlas \<times> glyph" where
  "createPlaceholder B q a =
     (let a = a\<lparr>useCounter := useCounter a + 1\<rparr>
      in (a, full_glyph B q a (useCounter a) (no_glyph (rq_isColor q))))"

section \<open>Looking a glyph up\<close>

lemma delete_shelf_length:
  "length (fst (delete_shelf c i gs)) + fst (snd (delete_shelf c i gs)) = length gs"
  by (induction gs) (auto simp: Let_def split: prod.splits)

lemma glyphs_set_page [simp]: "glyphs (set_page c P a) = glyphs a"
  by (simp add: set_page_def)

lemma glyphs_upload [simp]: "glyphs (upload c x y w h f bs a) = glyphs a"
  by (simp add: upload_def)

lemma glyphs_clearShelfTexture [simp]: "glyphs (clearShelfTexture s c W a) = glyphs a"
  by (simp add: clearShelfTexture_def)

lemma evict_fewer:
  assumes "evictLeastRecentlyUsedShelf c a = (a', True)"
  shows "length (glyphs a') < length (glyphs a)"
proof (cases "findEvictionShelf (page_of c a) c a")
  case (Some s)
  then show ?thesis
    using assms delete_shelf_length [of c "sh_id s" "glyphs a"]
    by (auto simp: evictLeastRecentlyUsedShelf_def Let_def split: prod.splits if_splits)
qed (use assms in \<open>simp add: evictLeastRecentlyUsedShelf_def\<close>)

lemma glyphs_tryRasterizeGlyph [simp]: "glyphs (fst (tryRasterizeGlyph B q a)) = glyphs a"
  by (simp add: tryRasterizeGlyph_def Let_def split: prod.splits option.splits)

lemma glyphs_add_failed:
  "addGlyph B q u a = (a', None) \<Longrightarrow> glyphs a' = glyphs a"
  using glyphs_tryRasterizeGlyph [of B q a]
  by (auto simp del: glyphs_tryRasterizeGlyph simp: addGlyph_def Let_def split: prod.splits option.splits)

text \<open>The loop of \<open>getGlyph\<close>: evict a shelf and try again, while there is a shelf to evict.\<close>

function evict_and_add :: "browser \<Rightarrow> request \<Rightarrow> atlas \<Rightarrow> atlas \<times> glyph option" where
  "evict_and_add B q a =
     (case evictLeastRecentlyUsedShelf (rq_isColor q) a of
        (a1, False) \<Rightarrow> (a1, None)
      | (a1, True) \<Rightarrow>
          (case addGlyph B q None a1 of
             (a2, Some g) \<Rightarrow> (a2, Some g)
           | (a2, None) \<Rightarrow> evict_and_add B q a2))"
  by pat_completeness auto
termination
  by (relation "measure (\<lambda>(B, q, a). length (glyphs a))")
    (auto dest!: evict_fewer [OF sym] glyphs_add_failed [OF sym])

declare evict_and_add.simps [simp del]

definition request_of :: "browser \<Rightarrow> jstr \<Rightarrow> bool \<Rightarrow> bool \<Rightarrow> request" where
  "request_of B s bold italic = \<lparr>rq_grapheme = s, rq_bold = bold, rq_italic = italic,
     rq_isColor = is_color B s, rq_pinned = is_ascii s\<rparr>"

text \<open>The glyph of the empty text has no key; its other fields are those of \<open>wA(false)\<close>.\<close>

definition getGlyph :: "browser \<Rightarrow> jstr \<Rightarrow> bool \<Rightarrow> bool \<Rightarrow> atlas \<Rightarrow> atlas \<times> raw_glyph" where
  "getGlyph B s bold italic a =
     (if s = [] then (a, no_glyph False)
      else
        let q = request_of B s bold italic; k = makeKey B q a
        in case map_of (glyphs a) k of
             Some g \<Rightarrow>
               let u = useCounter a + 1; g = g\<lparr>lastUsed := u\<rparr>
               in (a\<lparr>useCounter := u, glyphs := AList.update k g (glyphs a)\<rparr>, raw_glyph.truncate g)
           | None \<Rightarrow>
               (case addGlyph B q None a of
                  (a, Some g) \<Rightarrow> (a, raw_glyph.truncate g)
                | (a, None) \<Rightarrow>
                    (case evict_and_add B q a of
                       (a, Some g) \<Rightarrow> (a, raw_glyph.truncate g)
                     | (a, None) \<Rightarrow>
                         (case repackAndAddGlyph B q a of
                            (a, Some g) \<Rightarrow> (a, raw_glyph.truncate g)
                          | (a, None) \<Rightarrow>
                              let (a, g) = createPlaceholder B q a
                              in (a\<lparr>glyphs := AList.update k g (glyphs a)\<rparr>, raw_glyph.truncate g)))))"

section \<open>Construction and reset\<close>

definition resetPages :: "atlas \<Rightarrow> atlas" where
  "resetPages a = a\<lparr>at_page := empty_page (atlasSize a), colorPage := empty_page (colorAtlasSize a)\<rparr>"

text \<open>One character of \<open>prewarmAscii\<close>: regular, bold and italic.\<close>

definition prewarm_char :: "browser \<Rightarrow> nat \<Rightarrow> atlas \<Rightarrow> atlas" where
  "prewarm_char B n a =
     (let q = (\<lambda>b i. \<lparr>rq_grapheme = [word_of_nat n], rq_bold = b, rq_italic = i,
                      rq_isColor = False, rq_pinned = True\<rparr>);
          a = fst (addGlyph B (q False False) None a);
          a = fst (addGlyph B (q True False) None a)
      in fst (addGlyph B (q False True) None a))"

definition prewarmAscii :: "browser \<Rightarrow> atlas \<Rightarrow> atlas" where
  "prewarmAscii B a = fold (prewarm_char B) [32..<127] a"

text \<open>
  The constructor. \<open>tex\<close> and \<open>ctx\<close> say whether the two textures and the two contexts could be
  created. \<open>texStorage2D\<close> gives textures of zeros.
\<close>

definition new_atlas ::
  "browser \<Rightarrow> int \<Rightarrow> bool \<Rightarrow> bool \<Rightarrow> num_arg \<Rightarrow> jstr \<Rightarrow> num_arg \<Rightarrow> atlas result" where
  "new_atlas B max_size tex ctx sz family ratio =
     (let n = min 1024 max_size
      in if \<not> tex then Inl (Js_Error ''Failed to create glyph atlas textures'')
         else if \<not> ctx then Inl (Js_Error ''Failed to get 2D context for glyph atlas'')
         else Inr (prewarmAscii B
           \<lparr>at_fontSize = positive_or sz 15, at_fontFamily = family, at_dpr = positive_or ratio 1,
            atlasSize = n, colorAtlasSize = n, at_page = empty_page n, colorPage = empty_page n,
            atlasTexture = (\<lambda>_. blank_texel), colorTexture = (\<lambda>_. blank_texel),
            glyphs = [], useCounter = 0\<rparr>))"

definition reset_atlas :: "browser \<Rightarrow> num_arg \<Rightarrow> jstr \<Rightarrow> num_arg \<Rightarrow> atlas \<Rightarrow> atlas" where
  "reset_atlas B sz family ratio a =
     (let a = a\<lparr>at_fontSize := positive_or sz (at_fontSize a), at_fontFamily := family,
                at_dpr := positive_or ratio (at_dpr a)\<rparr>;
          a = (resetPages a)\<lparr>glyphs := [], useCounter := 0\<rparr>
      in prewarmAscii B (clearFullPageTexture True (clearFullPageTexture False a)))"

text \<open>The textures are deleted; what is left holds no glyph.\<close>

definition dispose_atlas :: "atlas \<Rightarrow> atlas" where
  "dispose_atlas a = resetPages (a\<lparr>glyphs := []\<rparr>)"

text \<open>
  New textures in place of the old ones: \<open>None\<close> where they cannot be created. The glyphs stay
  in the cache.
\<close>

definition recreateTextures :: "bool \<Rightarrow> atlas \<Rightarrow> atlas result" where
  "recreateTextures ok a =
     (if ok then Inr (a\<lparr>atlasTexture := (\<lambda>_. blank_texel), colorTexture := (\<lambda>_. blank_texel)\<rparr>)
      else Inl (Js_Error ''Failed to recreate glyph atlas textures''))"

end
