(* ===== verification/Gw_Atlas_Pages.thy ===== *)
theory Gw_Atlas_Pages
  imports Gw_Atlas
begin

text \<open>
  The pages of the glyph atlas as an allocator of rectangles. The locale \<open>packed_page\<close> says what the
  cache relies on: a placement lies in the page and in the band of its shelf, outside everything
  placed before, and rewinding a shelf gives back its band only. From these laws follows that the
  pictures in a texture stay intact while glyphs are placed and shelves are evicted. The page of
  \<open>ghostty-web.js\<close> is shown to keep the contract.
\<close>

type_synonym point = "int \<times> int"

definition rect :: "int \<Rightarrow> int \<Rightarrow> int \<Rightarrow> int \<Rightarrow> point set" where
  "rect x y w h = {(px, py). x \<le> px \<and> px < x + w \<and> y \<le> py \<and> py < y + h}"

text \<open>A picture: its key, its shelf, the points it covers and what they look like.\<close>

type_synonym ('k, 't) picture = "'k \<times> int \<times> point set \<times> (point \<Rightarrow> 't)"

definition covers :: "('k, 't) picture \<Rightarrow> point set" where
  "covers e = fst (snd (snd e))"

definition separate :: "('k, 't) picture \<Rightarrow> ('k, 't) picture \<Rightarrow> bool" where
  "separate e e' \<longleftrightarrow> fst e \<noteq> fst e' \<longrightarrow> covers e \<inter> covers e' = {}"

section \<open>What the cache relies on\<close>

locale packed_page =
  fixes ok :: "'p \<Rightarrow> bool"
    and width :: "'p \<Rightarrow> int"
    and height :: "'p \<Rightarrow> int"
    and taken :: "'p \<Rightarrow> point set"
    and band :: "'p \<Rightarrow> int \<Rightarrow> point set"
    and alloc :: "int \<Rightarrow> int \<Rightarrow> 'p \<Rightarrow> ('p \<times> int \<times> int \<times> int) option"
    and rewind :: "int \<Rightarrow> 'p \<Rightarrow> 'p"
  assumes alloc_ok:
      "\<lbrakk>ok P; 0 < w; 0 < h; w \<le> width P; alloc w h P = Some (P', x, y, i)\<rbrakk> \<Longrightarrow> ok P'"
    and alloc_inside:
      "\<lbrakk>ok P; 0 < w; 0 < h; w \<le> width P; alloc w h P = Some (P', x, y, i)\<rbrakk>
       \<Longrightarrow> 0 \<le> x \<and> x + w \<le> width P \<and> 0 \<le> y \<and> y + h \<le> height P"
    and alloc_size:
      "alloc w h P = Some (P', x, y, i) \<Longrightarrow> width P' = width P \<and> height P' = height P"
    and alloc_fresh:
      "\<lbrakk>ok P; 0 < w; 0 < h; alloc w h P = Some (P', x, y, i)\<rbrakk> \<Longrightarrow> rect x y w h \<inter> taken P = {}"
    and alloc_taken:
      "\<lbrakk>ok P; 0 < w; 0 < h; alloc w h P = Some (P', x, y, i)\<rbrakk>
       \<Longrightarrow> rect x y w h \<union> taken P \<subseteq> taken P'"
    and alloc_band:
      "\<lbrakk>ok P; 0 < w; 0 < h; w \<le> width P; alloc w h P = Some (P', x, y, i)\<rbrakk>
       \<Longrightarrow> rect x y w h \<subseteq> band P' i \<and> 0 < i"
    and alloc_keeps_band: "alloc w h P = Some (P', x, y, i) \<Longrightarrow> band P j \<subseteq> band P' j"
    and band_disjoint: "\<lbrakk>ok P; i \<noteq> j\<rbrakk> \<Longrightarrow> band P i \<inter> band P j = {}"
    and rewind_ok: "ok P \<Longrightarrow> ok (rewind i P)"
    and rewind_size: "width (rewind i P) = width P \<and> height (rewind i P) = height P"
    and rewind_taken: "ok P \<Longrightarrow> taken P - band P i \<subseteq> taken (rewind i P)"
    and rewind_band: "band (rewind i P) j = band P j"
begin

text \<open>
  A picture \<open>(k, i, b, f)\<close> is stored under the key \<open>k\<close> on shelf \<open>i\<close>; it covers \<open>b\<close> and looks like \<open>f\<close>.
\<close>

definition stored :: "'p \<Rightarrow> (point \<Rightarrow> 't) \<Rightarrow> ('k, 't) picture \<Rightarrow> bool" where
  "stored P t e = (case e of (k, i, b, f) \<Rightarrow>
     b \<subseteq> rect 0 0 (width P) (height P) \<and> b \<subseteq> taken P \<and> b \<subseteq> band P i \<and> (\<forall>p\<in>b. t p = f p))"

definition intact :: "'p \<Rightarrow> (point \<Rightarrow> 't) \<Rightarrow> ('k, 't) picture set \<Rightarrow> bool" where
  "intact P t L \<longleftrightarrow> ok P \<and> (\<forall>e\<in>L. stored P t e) \<and> (\<forall>e\<in>L. \<forall>e'\<in>L. separate e e')"

lemma intact_ok: "intact P t L \<Longrightarrow> ok P"
  by (simp add: intact_def)

lemma intact_empty: "ok P \<Longrightarrow> intact P t {}"
  by (simp add: intact_def)

lemma intact_subset: "intact P t L \<Longrightarrow> L' \<subseteq> L \<Longrightarrow> intact P t L'"
  by (auto simp: intact_def)

lemma intact_stored: "\<lbrakk>intact P t L; e \<in> L\<rbrakk> \<Longrightarrow> stored P t e"
  by (simp add: intact_def)

lemma intact_separate: "\<lbrakk>intact P t L; e \<in> L; e' \<in> L\<rbrakk> \<Longrightarrow> separate e e'"
  by (simp add: intact_def)

lemma stored_taken: "stored P t e \<Longrightarrow> covers e \<subseteq> taken P"
  by (simp add: stored_def covers_def split: prod.splits)

lemma stored_band: "stored P t e \<Longrightarrow> covers e \<subseteq> band P (fst (snd e))"
  by (simp add: stored_def covers_def split: prod.splits)

text \<open>A picture stays stored while its page grows and its part of the texture keeps its contents.\<close>

lemma stored_keep:
  assumes "stored P t e" "width P' = width P" "height P' = height P"
    "covers e \<subseteq> taken P'" "band P (fst (snd e)) \<subseteq> band P' (fst (snd e))" "\<And>p. p \<in> covers e \<Longrightarrow> t' p = t p"
  shows "stored P' t' e"
  using assms by (cases e) (auto simp: stored_def covers_def)

text \<open>A placement that is not drawn on.\<close>

lemma intact_reserve:
  assumes i: "intact P t L" and pos: "0 < w" "0 < h" "w \<le> width P" and a: "alloc w h P = Some (P', x, y, j)"
  shows "intact P' t L"
proof -
  note ok = intact_ok [OF i]
  have "stored P' t e" if "e \<in> L" for e
  proof (rule stored_keep [OF intact_stored [OF i that]])
    show "covers e \<subseteq> taken P'"
      using stored_taken [OF intact_stored [OF i that]] alloc_taken [OF ok pos(1,2) a] by blast
  qed (use alloc_size [OF a] alloc_keeps_band [OF a] in simp_all)
  then show ?thesis using i alloc_ok [OF ok pos a] by (simp add: intact_def)
qed

text \<open>A picture drawn at a new placement. A picture under the same key is forgotten.\<close>

lemma intact_draw:
  assumes i: "intact P t L" and pos: "0 < w" "0 < h" "w \<le> width P" and a: "alloc w h P = Some (P', x, y, j)"
    and out: "\<And>p. p \<notin> rect x y w h \<Longrightarrow> t' p = t p" and inn: "\<And>p. p \<in> rect x y w h \<Longrightarrow> t' p = f p"
    and L': "L' \<subseteq> insert (k, j, rect x y w h, f) {e \<in> L. fst e \<noteq> k}"
  shows "intact P' t' L'"
proof -
  let ?b = "rect x y w h" and ?e = "(k, j, rect x y w h, f)"
  note ok = intact_ok [OF i]
  have r: "intact P' t L" using intact_reserve [OF i pos a] .
  have apart: "covers e \<inter> ?b = {}" if "e \<in> L" for e
    using stored_taken [OF intact_stored [OF i that]] alloc_fresh [OF ok pos(1,2) a] by blast
  have old: "stored P' t' e" if "e \<in> L" for e
  proof (rule stored_keep [OF intact_stored [OF r that]])
    show "covers e \<subseteq> taken P'" by (rule stored_taken [OF intact_stored [OF r that]])
    show "t' p = t p" if p: "p \<in> covers e" for p
      using apart [OF \<open>e \<in> L\<close>] p out by blast
  qed simp_all
  have "?b \<subseteq> rect 0 0 (width P') (height P')"
    using alloc_inside [OF ok pos a] alloc_size [OF a] by (auto simp: rect_def)
  then have new: "stored P' t' ?e"
    using alloc_taken [OF ok pos(1,2) a] alloc_band [OF ok pos a] inn by (simp add: stored_def)
  have sep: "separate e ?e" "separate ?e e" if "e \<in> L" for e
    using apart [OF that] by (auto simp: separate_def covers_def)
  have "intact P' t' (insert ?e {e \<in> L. fst e \<noteq> k})"
    using intact_ok [OF r] intact_separate [OF r] old new sep
    by (simp add: intact_def separate_def [of ?e ?e])
  then show ?thesis using L' by (rule intact_subset)
qed

text \<open>A shelf without pictures is cleared and filled from its start again.\<close>

lemma intact_evict:
  assumes i: "intact P t L" and L': "L' \<subseteq> L" and gone: "\<And>e. e \<in> L' \<Longrightarrow> fst (snd e) \<noteq> s"
    and out: "\<And>p. p \<notin> band P s \<Longrightarrow> t' p = t p"
  shows "intact (rewind s P) t' L'"
proof -
  note ok = intact_ok [OF i]
  have i': "intact P t L'" using intact_subset [OF i L'] .
  have "stored (rewind s P) t' e" if m: "e \<in> L'" for e
  proof (rule stored_keep [OF intact_stored [OF i' m]])
    have off: "covers e \<inter> band P s = {}"
      using band_disjoint [OF ok gone [OF m]] stored_band [OF intact_stored [OF i' m]] by blast
    show "covers e \<subseteq> taken (rewind s P)"
      using off stored_taken [OF intact_stored [OF i' m]] rewind_taken [OF ok, of s] by blast
    show "t' p = t p" if "p \<in> covers e" for p
      using off that out by blast
  qed (use rewind_size rewind_band in simp_all)
  then show ?thesis using i' rewind_ok [OF ok] by (simp add: intact_def)
qed

end

section \<open>The pages of the atlas\<close>

definition shelf_ok :: "page \<Rightarrow> shelf \<Rightarrow> bool" where
  "shelf_ok P s \<longleftrightarrow> 1 \<le> sh_id s \<and> sh_id s < nextShelfId P \<and> 0 \<le> sh_y s \<and> 0 < sh_height s \<and>
     sh_y s + sh_height s \<le> nextShelfY P \<and> sh_y s + sh_height s \<le> pg_height P \<and>
     0 \<le> nextX s \<and> nextX s \<le> pg_width P"

text \<open>Two shelves are the same or one is below the other.\<close>

definition shelves_apart :: "shelf \<Rightarrow> shelf \<Rightarrow> bool" where
  "shelves_apart s t \<longleftrightarrow> sh_id s = sh_id t \<or> sh_y s + sh_height s \<le> sh_y t \<or> sh_y t + sh_height t \<le> sh_y s"

definition page_ok :: "page \<Rightarrow> bool" where
  "page_ok P \<longleftrightarrow> 0 \<le> nextShelfY P \<and> 1 \<le> nextShelfId P \<and> distinct (map sh_id (shelves P)) \<and>
     (\<forall>s\<in>set (shelves P). shelf_ok P s) \<and>
     (\<forall>s\<in>set (shelves P). \<forall>t\<in>set (shelves P). shelves_apart s t)"

definition page_taken :: "page \<Rightarrow> point set" where
  "page_taken P = {(px, py). \<exists>s\<in>set (shelves P). 0 \<le> px \<and> px < nextX s \<and> sh_y s \<le> py \<and> py < sh_y s + sh_height s}"

definition page_band :: "page \<Rightarrow> int \<Rightarrow> point set" where
  "page_band P i = {(px, py). \<exists>s\<in>set (shelves P). sh_id s = i \<and> 0 \<le> px \<and> px < pg_width P \<and>
     sh_y s \<le> py \<and> py < sh_y s + sh_height s}"

lemma on_shelf_split:
  assumes "on_shelf W w h ss = Some (ss', x, y, i)"
  obtains us s vs where "ss = us @ s # vs" "ss' = us @ s\<lparr>nextX := nextX s + w\<rparr> # vs"
    "x = nextX s" "y = sh_y s" "i = sh_id s" "h \<le> sh_height s" "w \<le> W - nextX s"
  using assms
proof (induction ss arbitrary: ss' thesis)
  case (Cons s ss)
  show ?case
  proof (cases "h \<le> sh_height s \<and> w \<le> W - nextX s")
    case True
    then have "s\<lparr>nextX := nextX s + w\<rparr> # ss = ss'" "nextX s = x" "sh_y s = y" "sh_id s = i"
      using Cons.prems(2) by auto
    then show ?thesis using True by (intro Cons.prems(1) [of "[]" s ss]) simp_all
  next
    case False
    then have "on_shelf W w h (s # ss) =
      (case on_shelf W w h ss of None \<Rightarrow> None | Some (ss', pl) \<Rightarrow> Some (s # ss', pl))"
      by (simp only: on_shelf.simps if_False)
    then obtain ss1 where r: "on_shelf W w h ss = Some (ss1, x, y, i)" and s: "ss' = s # ss1"
      using Cons.prems(2) by (auto split: option.splits)
    show ?thesis
    proof (rule Cons.IH [OF _ r])
      fix us t vs
      assume "ss = us @ t # vs" "ss1 = us @ t\<lparr>nextX := nextX t + w\<rparr> # vs"
        "x = nextX t" "y = sh_y t" "i = sh_id t" "h \<le> sh_height t" "w \<le> W - nextX t"
      then show thesis using s by (intro Cons.prems(1) [of "s # us" t vs]) simp_all
    qed
  qed
qed simp

text \<open>A placement is the end of a shelf, or a new shelf.\<close>

lemma place_cases:
  assumes "place w h P = Some (P', x, y, i)"
  obtains (shelf) us s vs where "shelves P = us @ s # vs"
      "P' = P\<lparr>shelves := us @ s\<lparr>nextX := nextX s + w\<rparr> # vs\<rparr>" "x = nextX s" "y = sh_y s" "i = sh_id s"
      "h \<le> sh_height s" "w \<le> pg_width P - nextX s"
    | (fresh) "P' = P\<lparr>shelves := shelves P @ [\<lparr>sh_id = i, sh_y = y, sh_height = h, nextX = w\<rparr>],
           nextShelfY := nextShelfY P + h, nextShelfId := nextShelfId P + 1\<rparr>"
        "x = 0" "y = nextShelfY P" "i = nextShelfId P" "nextShelfY P + h \<le> pg_height P"
proof (cases "on_shelf (pg_width P) w h (shelves P)")
  case None
  then have room: "nextShelfY P + h \<le> pg_height P" using assms by (simp add: place_def split: if_splits)
  then have "P' = P\<lparr>shelves := shelves P @ [\<lparr>sh_id = nextShelfId P, sh_y = nextShelfY P, sh_height = h, nextX = w\<rparr>],
      nextShelfY := nextShelfY P + h, nextShelfId := nextShelfId P + 1\<rparr>"
    "x = 0" "y = nextShelfY P" "i = nextShelfId P"
    using assms None by (auto simp: place_def Let_def)
  then show ?thesis using room by (intro fresh) simp_all
next
  case (Some r)
  then obtain ss where r: "on_shelf (pg_width P) w h (shelves P) = Some (ss, x, y, i)" and
    P': "P' = P\<lparr>shelves := ss\<rparr>"
    using assms by (cases r) (auto simp: place_def)
  show ?thesis by (rule on_shelf_split [OF r]) (use shelf P' in simp)
qed

text \<open>Moving the free position of a shelf.\<close>

lemma apart_nextX [simp]:
  "shelves_apart (s\<lparr>nextX := n\<rparr>) t = shelves_apart s t"
  "shelves_apart t (s\<lparr>nextX := n\<rparr>) = shelves_apart t s"
  by (simp_all add: shelves_apart_def)

lemma rewound_simps [simp]:
  "sh_id (rewound i s) = sh_id s" "sh_y (rewound i s) = sh_y s" "sh_height (rewound i s) = sh_height s"
  "nextX (rewound i s) = (if sh_id s = i then 0 else nextX s)"
  by (simp_all add: rewound_def)

lemma moved_shelf [simp]: "shelf_ok (P\<lparr>shelves := ss\<rparr>) s = shelf_ok P s"
  by (simp add: shelf_ok_def)

lemma place_page_ok:
  assumes ok: "page_ok P" and pos: "0 < w" "0 < h" "w \<le> pg_width P"
    and a: "place w h P = Some (P', x, y, i)"
  shows "page_ok P'"
  using a
proof (cases rule: place_cases)
  case (shelf us s vs)
  have s: "shelf_ok P s" using ok shelf(1) by (simp add: page_ok_def)
  then have "shelf_ok P (s\<lparr>nextX := nextX s + w\<rparr>)"
    using pos shelf(7) by (simp add: shelf_ok_def)
  then show ?thesis using ok shelf(1,2) by (simp add: page_ok_def)
next
  case fresh
  let ?n = "\<lparr>sh_id = i, sh_y = y, sh_height = h, nextX = w\<rparr>"
  have old: "shelf_ok P' s \<and> sh_id s < i \<and> shelves_apart s ?n \<and> shelves_apart ?n s"
    if "s \<in> set (shelves P)" for s
    using ok that pos fresh by (auto simp: page_ok_def shelf_ok_def shelves_apart_def)
  have new: "shelf_ok P' ?n" "shelves_apart ?n ?n"
    using ok pos fresh by (auto simp: page_ok_def shelf_ok_def shelves_apart_def)
  have sh: "shelves P' = shelves P @ [?n]" "0 \<le> nextShelfY P'" "1 \<le> nextShelfId P'"
    using ok pos fresh(1) by (simp_all add: page_ok_def)
  have "i \<notin> sh_id ` set (shelves P)" using old by fastforce
  then show ?thesis
    using ok old new sh by (simp add: page_ok_def)
qed

lemma place_inside:
  assumes ok: "page_ok P" and pos: "0 < w" "0 < h" "w \<le> pg_width P"
    and a: "place w h P = Some (P', x, y, i)"
  shows "0 \<le> x \<and> x + w \<le> pg_width P \<and> 0 \<le> y \<and> y + h \<le> pg_height P"
  using a
proof (cases rule: place_cases)
  case (shelf us s vs)
  have s: "shelf_ok P s" using ok shelf(1) by (simp add: page_ok_def)
  then show ?thesis using shelf by (auto simp: shelf_ok_def)
qed (use ok pos in \<open>auto simp: page_ok_def\<close>)

lemma place_fresh:
  assumes ok: "page_ok P" and pos: "0 < w" "0 < h" and a: "place w h P = Some (P', x, y, i)"
  shows "rect x y w h \<inter> page_taken P = {}"
  using a
proof (cases rule: place_cases)
  case (shelf us s vs)
  have s: "s \<in> set (shelves P)" using shelf(1) by simp
  have other: "t = s \<or> sh_y s + sh_height s \<le> sh_y t \<or> sh_y t + sh_height t \<le> sh_y s"
    if "t \<in> set (shelves P)" for t
    using ok s that by (auto simp: page_ok_def shelves_apart_def distinct_map dest: inj_onD)
  have False if "t \<in> set (shelves P)" "nextX s \<le> px" "sh_y s \<le> py" "py < sh_y s + h"
    "px < nextX t" "sh_y t \<le> py" "py < sh_y t + sh_height t" for t px py
    using other [OF that(1)] that shelf(6) by auto
  then show ?thesis using shelf(3,4) by (fastforce simp: rect_def page_taken_def)
next
  case fresh
  have "sh_y s + sh_height s \<le> y" if "s \<in> set (shelves P)" for s
    using ok that fresh by (simp add: page_ok_def shelf_ok_def)
  then show ?thesis by (fastforce simp: rect_def page_taken_def)
qed

lemma place_taken:
  assumes ok: "page_ok P" and pos: "0 < w" "0 < h" and a: "place w h P = Some (P', x, y, i)"
  shows "rect x y w h \<union> page_taken P \<subseteq> page_taken P'"
  using a
proof (cases rule: place_cases)
  case (shelf us s vs)
  have "0 \<le> nextX s" using ok shelf(1) by (simp add: page_ok_def shelf_ok_def)
  then show ?thesis using shelf pos by (force simp: rect_def page_taken_def)
qed (auto simp: rect_def page_taken_def)

lemma place_band:
  assumes ok: "page_ok P" and pos: "0 < w" "0 < h" "w \<le> pg_width P"
    and a: "place w h P = Some (P', x, y, i)"
  shows "rect x y w h \<subseteq> page_band P' i \<and> 0 < i"
  using a
proof (cases rule: place_cases)
  case (shelf us s vs)
  have "0 \<le> nextX s" "1 \<le> sh_id s" using ok shelf(1) by (simp_all add: page_ok_def shelf_ok_def)
  then show ?thesis using shelf pos by (auto simp: rect_def page_band_def)
next
  case fresh
  then show ?thesis using ok pos by (auto simp: rect_def page_band_def page_ok_def)
qed

lemma place_keeps_band:
  assumes a: "place w h P = Some (P', x, y, i)"
  shows "page_band P j \<subseteq> page_band P' j"
  using a by (cases rule: place_cases) (auto simp: page_band_def)

lemma place_size:
  assumes a: "place w h P = Some (P', x, y, i)"
  shows "pg_width P' = pg_width P \<and> pg_height P' = pg_height P"
  using a by (cases rule: place_cases) auto

lemma page_band_disjoint:
  assumes ok: "page_ok P" and "i \<noteq> j"
  shows "page_band P i \<inter> page_band P j = {}"
proof -
  have False if "s \<in> set (shelves P)" "t \<in> set (shelves P)" "sh_id s = i" "sh_id t = j"
    "sh_y s \<le> py" "py < sh_y s + sh_height s" "sh_y t \<le> py" "py < sh_y t + sh_height t" for s t py
  proof -
    have "shelves_apart s t" using ok that(1,2) by (simp add: page_ok_def)
    then show False using that \<open>i \<noteq> j\<close> by (auto simp: shelves_apart_def)
  qed
  then show ?thesis by (fastforce simp: page_band_def)
qed

lemma rewind_page_ok:
  assumes "page_ok P"
  shows "page_ok (rewind_shelf i P)"
proof -
  have "shelf_ok P s \<Longrightarrow> shelf_ok P (rewound i s)" for s by (auto simp: shelf_ok_def)
  moreover have "sh_id \<circ> rewound i = sh_id" by (rule ext) simp
  ultimately show ?thesis
    using assms by (simp add: page_ok_def rewind_shelf_def shelves_apart_def)
qed

lemma rewind_size: "pg_width (rewind_shelf i P) = pg_width P \<and> pg_height (rewind_shelf i P) = pg_height P"
  by (simp add: rewind_shelf_def)

lemma rewind_page_taken: "page_ok P \<Longrightarrow> page_taken P - page_band P i \<subseteq> page_taken (rewind_shelf i P)"
  by (fastforce simp: page_taken_def page_band_def rewind_shelf_def page_ok_def shelf_ok_def)

lemma rewind_page_band: "page_band (rewind_shelf i P) j = page_band P j"
  by (simp add: page_band_def rewind_shelf_def)

interpretation atlas_page: packed_page page_ok pg_width pg_height page_taken page_band place rewind_shelf
  by unfold_locales
    (fact place_page_ok place_inside place_size place_fresh place_taken place_band place_keeps_band
      page_band_disjoint rewind_page_ok Gw_Atlas_Pages.rewind_size rewind_page_taken rewind_page_band)+

lemma empty_page_ok: "page_ok (empty_page n)"
  by (simp add: page_ok_def empty_page_def)

end
