(* ===== verification/Gw_Atlas_Props.thy ===== *)
theory Gw_Atlas_Props
  imports Gw_Atlas_Pages
begin

text \<open>
  The glyph atlas keeps its promise: whatever was looked up, every cached glyph has its picture at
  its place in the texture, and a lookup returns a glyph of the text and style asked for.
\<close>

section \<open>What is documented of the browser\<close>

text \<open>
  The box of a text has its left side left of its right one, its top above its bottom, and the
  fields of a pair are defined together; a text is not narrower than nothing.
\<close>

definition metrics_ok :: "text_metrics \<Rightarrow> bool" where
  "metrics_ok m \<longleftrightarrow>
     (actualBoundingBoxLeft m = None \<longleftrightarrow> actualBoundingBoxRight m = None) \<and>
     (actualBoundingBoxAscent m = None \<longleftrightarrow> actualBoundingBoxDescent m = None) \<and>
     (case tm_width m of Some x \<Rightarrow> 0 \<le> x | None \<Rightarrow> True) \<and>
     (case (actualBoundingBoxLeft m, actualBoundingBoxRight m) of
        (Some (Some l), Some (Some r)) \<Rightarrow> 0 \<le> l + r | _ \<Rightarrow> True) \<and>
     (case (actualBoundingBoxAscent m, actualBoundingBoxDescent m) of
        (Some (Some u), Some (Some d)) \<Rightarrow> 0 \<le> u + d | _ \<Rightarrow> True)"

text \<open>\<open>getImageData\<close> returns four bytes for each pixel of a canvas that is not empty.\<close>

definition browser_ok :: "browser \<Rightarrow> bool" where
  "browser_ok B \<longleftrightarrow> (\<forall>f s. metrics_ok (measureText B f s)) \<and>
     (\<forall>f s x y w h bs. 0 < w \<longrightarrow> 0 < h \<longrightarrow> draw_text B f s x y w h = Some bs \<longrightarrow>
        int (length bs) = 4 * w * h)"

lemma text_box_extent:
  assumes "metrics_ok m" "0 < px" "text_box m px = (w, t, e, d)"
  shows "0 \<le> w + t \<and> 0 \<le> e + d"
proof -
  have "0 \<le> px * (8 / 10)" "0 \<le> px * (2 / 10)" "0 \<le> px * (6 / 10)" using assms(2) by simp_all
  then show ?thesis
    using assms by (auto simp: metrics_ok_def text_box_def Let_def split: option.splits if_splits)
qed

section \<open>The parts of the atlas\<close>

definition font_of :: "atlas \<Rightarrow> rat \<times> jstr \<times> rat" where
  "font_of a = (at_fontSize a, at_fontFamily a, at_dpr a)"

lemma font_cong:
  assumes "font_of a = font_of b"
  shows "makeKey B q a = makeKey B q b" "box_of B a s bo it = box_of B b s bo it"
    "pixels_of B a s bo it = pixels_of B b s bo it"
  using assms
  by (simp_all add: font_of_def makeKey_def box_of_def pixels_of_def font_text_def)

lemma font_of_simps [simp]:
  "font_of (set_page c P a) = font_of a" "font_of (upload c x y w h f bs a) = font_of a"
  "font_of (a\<lparr>glyphs := gs\<rparr>) = font_of a" "font_of (a\<lparr>useCounter := u\<rparr>) = font_of a"
  "font_of (clearShelfTexture sh c W a) = font_of a"
  by (simp_all add: font_of_def set_page_def upload_def clearShelfTexture_def)

lemma size_of_simps [simp]:
  "size_of c (set_page c' P a) = size_of c a" "size_of c (upload c' x y w h f bs a) = size_of c a"
  "size_of c (a\<lparr>glyphs := gs\<rparr>) = size_of c a" "size_of c (a\<lparr>useCounter := u\<rparr>) = size_of c a"
  "size_of c (clearShelfTexture sh c' W a) = size_of c a"
  by (simp_all add: size_of_def set_page_def upload_def clearShelfTexture_def)

lemma page_of_simps [simp]:
  "page_of c (set_page c' P a) = (if c = c' then P else page_of c a)"
  "page_of c (upload c' x y w h f bs a) = page_of c a"
  "page_of c (a\<lparr>glyphs := gs\<rparr>) = page_of c a" "page_of c (a\<lparr>useCounter := u\<rparr>) = page_of c a"
  "page_of c (clearShelfTexture sh c' W a) = page_of c a"
  by (simp_all add: page_of_def set_page_def upload_def clearShelfTexture_def)

lemma texture_of_simps [simp]:
  "texture_of c (set_page c' P a) = texture_of c a"
  "texture_of c (upload c' x y w h f bs a) =
     (if c = c' then texSubImage2D (size_of c a) x y w h f bs (texture_of c a) else texture_of c a)"
  "texture_of c (a\<lparr>glyphs := gs\<rparr>) = texture_of c a" "texture_of c (a\<lparr>useCounter := u\<rparr>) = texture_of c a"
  by (simp_all add: texture_of_def set_page_def upload_def size_of_def)

lemma useCounter_simps [simp]:
  "useCounter (set_page c P a) = useCounter a" "useCounter (upload c x y w h f bs a) = useCounter a"
  by (simp_all add: set_page_def upload_def)

lemma texSubImage2D_inside:
  assumes "0 \<le> x" "0 \<le> y" "0 \<le> w" "0 \<le> h" "x + w \<le> n" "y + h \<le> n" "4 * w * h \<le> int (length bs)"
  shows "texSubImage2D n x y w h f bs t (px, py) =
     (if (px, py) \<in> rect x y w h then f (texel_at bs w (px - x) (py - y)) else t (px, py))"
  using assms by (simp add: texSubImage2D_def rect_def)

lemma texSubImage2D_outside:
  "p \<notin> rect x y w h \<Longrightarrow> texSubImage2D n x y w h f bs t p = t p"
  by (cases p) (auto simp: texSubImage2D_def rect_def)

lemma length_mono_pixels: "length (mono_pixels bs w h) = nat (4 * w * h)"
  by (simp add: mono_pixels_def Let_def)

section \<open>The invariant\<close>

text \<open>The rectangle of a glyph with its margin, and what belongs there.\<close>

definition glyph_rect :: "'a raw_glyph_scheme \<Rightarrow> point set" where
  "glyph_rect g = rect (atlasX g - PADDING) (atlasY g - PADDING) (atlasW g + PADDING * 2) (atlasH g + PADDING * 2)"

definition picture_texel :: "browser \<Rightarrow> bool \<Rightarrow> byte list \<Rightarrow> int \<Rightarrow> int \<Rightarrow> int \<Rightarrow> int \<Rightarrow> texel" where
  "picture_texel B c n w h i j =
     (if c then premultiply B (texel_at n w i j) else texel_at (mono_pixels n w h) w i j)"

definition glyph_image :: "browser \<Rightarrow> atlas \<Rightarrow> glyph \<Rightarrow> point \<Rightarrow> texel" where
  "glyph_image B a g = (\<lambda>(px, py).
     case pixels_of B a (gl_grapheme g) (gl_bold g) (gl_italic g) of
       None \<Rightarrow> blank_texel
     | Some n \<Rightarrow> picture_texel B (gl_isColor g) n (atlasW g + PADDING * 2) (atlasH g + PADDING * 2)
                  (px - (atlasX g - PADDING)) (py - (atlasY g - PADDING)))"

text \<open>The size and the bearings a glyph must have.\<close>

definition measured :: "browser \<Rightarrow> atlas \<Rightarrow> glyph \<Rightarrow> bool" where
  "measured B a g =
     (case box_of B a (gl_grapheme g) (gl_bold g) (gl_italic g) of
        (w, t, e, d) \<Rightarrow> atlasW g = \<lceil>w + t\<rceil> \<and> atlasH g = \<lceil>e + d\<rceil> \<and>
          bearingX g = js_round (- w) \<and> bearingY g = js_round e \<and> 0 < atlasW g \<and> 0 < atlasH g)"

definition blank_glyph :: "'a raw_glyph_scheme \<Rightarrow> bool" where
  "blank_glyph g \<longleftrightarrow> atlasX g = 0 \<and> atlasY g = 0 \<and> atlasW g = 0 \<and> atlasH g = 0"

text \<open>A cached glyph has the key of its own text and style, and is blank or has a picture.\<close>

definition glyph_ok :: "browser \<Rightarrow> atlas \<Rightarrow> jstr \<times> glyph \<Rightarrow> bool" where
  "glyph_ok B a kg = (case kg of (k, g) \<Rightarrow>
     k = gl_key g \<and> gl_key g = makeKey B (again g) a \<and>
     (shelfId g = -1 \<and> blank_glyph g \<or>
      0 < shelfId g \<and> measured B a g \<and>
        pixels_of B a (gl_grapheme g) (gl_bold g) (gl_italic g) \<noteq> None))"

definition picture_of :: "browser \<Rightarrow> atlas \<Rightarrow> jstr \<times> glyph \<Rightarrow> (jstr, texel) picture" where
  "picture_of B a kg = (fst kg, shelfId (snd kg), glyph_rect (snd kg), glyph_image B a (snd kg))"

definition has_place :: "bool \<Rightarrow> jstr \<times> glyph \<Rightarrow> bool" where
  "has_place c kg \<longleftrightarrow> gl_isColor (snd kg) = c \<and> shelfId (snd kg) \<noteq> -1"

definition pictures :: "browser \<Rightarrow> bool \<Rightarrow> atlas \<Rightarrow> (jstr, texel) picture set" where
  "pictures B c a = picture_of B a ` {kg \<in> set (glyphs a). has_place c kg}"

definition sizes_ok :: "atlas \<Rightarrow> bool" where
  "sizes_ok a \<longleftrightarrow> 0 < at_fontSize a \<and> 0 < at_dpr a \<and>
     (\<forall>c. pg_width (page_of c a) = size_of c a \<and> pg_height (page_of c a) = size_of c a)"

definition textures_ok :: "browser \<Rightarrow> atlas \<Rightarrow> bool" where
  "textures_ok B a \<longleftrightarrow> (\<forall>c. atlas_page.intact (page_of c a) (texture_of c a) (pictures B c a))"

definition atlas_ok :: "browser \<Rightarrow> atlas \<Rightarrow> bool" where
  "atlas_ok B a \<longleftrightarrow> distinct (map fst (glyphs a)) \<and> (\<forall>kg\<in>set (glyphs a). glyph_ok B a kg) \<and>
     sizes_ok a \<and> textures_ok B a"

lemma glyph_image_cong: "font_of a = font_of b \<Longrightarrow> glyph_image B a g = glyph_image B b g"
  by (rule ext) (simp add: glyph_image_def font_cong [of a b])

lemma glyph_ok_cong: "font_of a = font_of b \<Longrightarrow> glyph_ok B a kg = glyph_ok B b kg"
  by (simp add: glyph_ok_def measured_def font_cong [of a b])

lemma picture_of_cong: "font_of a = font_of b \<Longrightarrow> picture_of B a = picture_of B b"
  by (rule ext) (simp add: picture_of_def glyph_image_cong [of a b])

text \<open>The pictures of a smaller cache.\<close>

lemma pictures_subset:
  assumes "font_of a = font_of b" "set (glyphs a) \<subseteq> set (glyphs b)"
  shows "pictures B c a \<subseteq> pictures B c b"
  using assms(2) unfolding pictures_def picture_of_cong [OF assms(1)] by (auto intro: image_mono)

lemma sizes_ok_cong:
  "\<lbrakk>sizes_ok a; font_of b = font_of a; \<And>c. size_of c b = size_of c a;
    \<And>c. pg_width (page_of c b) = pg_width (page_of c a) \<and> pg_height (page_of c b) = pg_height (page_of c a)\<rbrakk>
   \<Longrightarrow> sizes_ok b"
  by (simp add: sizes_ok_def font_of_def)

section \<open>Drawing a glyph\<close>

text \<open>The ways a glyph is drawn, or not.\<close>

lemma raster_cases:
  assumes r: "tryRasterizeGlyph B q a = (a', r)" and c: "rq_isColor q = c"
    and box: "box_of B a (rq_grapheme q) (rq_bold q) (rq_italic q) = (w, t, e, d)"
    and F: "F = \<lceil>w + t\<rceil> + PADDING * 2" and J: "J = \<lceil>e + d\<rceil> + PADDING * 2"
  obtains (blank) "a' = a" "r = Some (no_glyph c)"
        "\<lceil>w + t\<rceil> = 0 \<or> \<lceil>e + d\<rceil> = 0 \<or> F > pg_width (page_of c a) \<or> J > pg_height (page_of c a)"
    | (full) "a' = a" "r = None" "place F J (page_of c a) = None"
    | (failed) P x y i where "place F J (page_of c a) = Some (P, x, y, i)" "a' = set_page c P a" "r = None"
        "pixels_of B a (rq_grapheme q) (rq_bold q) (rq_italic q) = None"
        "\<lceil>w + t\<rceil> \<noteq> 0" "\<lceil>e + d\<rceil> \<noteq> 0" "F \<le> pg_width (page_of c a)" "J \<le> pg_height (page_of c a)"
    | (painted) P x y i n where "place F J (page_of c a) = Some (P, x, y, i)"
        "pixels_of B a (rq_grapheme q) (rq_bold q) (rq_italic q) = Some n"
        "a' = (if c then upload c x y F J (premultiply B) n (set_page c P a)
               else upload c x y F J id (mono_pixels n F J) (set_page c P a))"
        "r = Some \<lparr>atlasX = x + PADDING, atlasY = y + PADDING, atlasW = \<lceil>w + t\<rceil>, atlasH = \<lceil>e + d\<rceil>,
               bearingX = js_round (- w), bearingY = js_round e, gl_width = \<lceil>w + t\<rceil>, gl_height = \<lceil>e + d\<rceil>,
               gl_isColor = c, shelfId = i\<rparr>"
        "\<lceil>w + t\<rceil> \<noteq> 0" "\<lceil>e + d\<rceil> \<noteq> 0" "F \<le> pg_width (page_of c a)" "J \<le> pg_height (page_of c a)"
proof -
  let ?px = "pixels_of B a (rq_grapheme q) (rq_bold q) (rq_italic q)"
  have px: "pixels_of B (set_page c P a) (rq_grapheme q) (rq_bold q) (rq_italic q) = ?px" for P
    by (rule font_cong) simp
  note eq = r [unfolded tryRasterizeGlyph_def Let_def c box prod.case, folded F J]
  consider "\<lceil>w + t\<rceil> = 0 \<or> \<lceil>e + d\<rceil> = 0 \<or> F > pg_width (page_of c a) \<or> J > pg_height (page_of c a)"
    | (fits) "\<lceil>w + t\<rceil> \<noteq> 0" "\<lceil>e + d\<rceil> \<noteq> 0" "F \<le> pg_width (page_of c a)" "J \<le> pg_height (page_of c a)"
    by linarith
  then show ?thesis
  proof cases
    case 1
    then have "a' = a" "r = Some (no_glyph c)" using eq by (auto split: if_splits)
    then show ?thesis using 1 by (rule blank)
  next
    case fits
    show ?thesis
    proof (cases "place F J (page_of c a)")
      case None
      then show ?thesis using eq fits by (intro full) simp_all
    next
      case (Some pl)
      obtain P x y i where pl: "pl = (P, x, y, i)" by (cases pl)
      show ?thesis
      proof (cases ?px)
        case None
        then show ?thesis using eq fits Some pl px by (intro failed [of P x y i]) simp_all
      next
        case (Some n)
        then show ?thesis using eq fits \<open>place _ _ _ = Some pl\<close> pl px
          by (intro painted [of P x y i n]) (auto split: if_splits)
      qed
    qed
  qed
qed


lemma full_glyph_simps [simp]:
  "shelfId (full_glyph B q a u r) = shelfId r" "gl_isColor (full_glyph B q a u r) = rq_isColor q"
  "atlasX (full_glyph B q a u r) = atlasX r" "atlasY (full_glyph B q a u r) = atlasY r"
  "atlasW (full_glyph B q a u r) = atlasW r" "atlasH (full_glyph B q a u r) = atlasH r"
  "bearingX (full_glyph B q a u r) = bearingX r" "bearingY (full_glyph B q a u r) = bearingY r"
  "gl_key (full_glyph B q a u r) = makeKey B q a" "gl_grapheme (full_glyph B q a u r) = rq_grapheme q"
  "gl_bold (full_glyph B q a u r) = rq_bold q" "gl_italic (full_glyph B q a u r) = rq_italic q"
  "gl_pinned (full_glyph B q a u r) = rq_pinned q" "lastUsed (full_glyph B q a u r) = u"
  "again (full_glyph B q a u r) = q"
  by (simp_all add: full_glyph_def raw_glyph.defs glyph.defs again_def)

lemma set_update_distinct:
  "distinct (map fst xs) \<Longrightarrow> set (AList.update k v xs) = insert (k, v) {p \<in> set xs. fst p \<noteq> k}"
  by (induction xs) (auto simp: image_iff rev_image_eqI)

lemma image_keep_fst:
  "(\<And>x. fst (f x) = fst x) \<Longrightarrow> {e \<in> f ` A. fst e \<noteq> k} = f ` {x \<in> A. fst x \<noteq> k}"
  by force

text \<open>The pictures after an entry of the cache is set.\<close>

lemma pictures_update:
  assumes "distinct (map fst (glyphs a))" "glyphs b = AList.update k g (glyphs a)" "font_of b = font_of a"
  shows "pictures B c b =
    (if has_place c (k, g) then insert (picture_of B a (k, g)) {e \<in> pictures B c a. fst e \<noteq> k}
     else {e \<in> pictures B c a. fst e \<noteq> k})"
proof -
  have "{kg \<in> set (glyphs b). has_place c kg} =
    (if has_place c (k, g) then {(k, g)} else {}) \<union> {kg \<in> set (glyphs a). has_place c kg \<and> fst kg \<noteq> k}"
    unfolding assms(2) set_update_distinct [OF assms(1)] by auto
  moreover have "{e \<in> pictures B c a. fst e \<noteq> k} =
    picture_of B a ` {kg \<in> set (glyphs a). has_place c kg \<and> fst kg \<noteq> k}"
    unfolding pictures_def by (subst image_keep_fst) (simp_all add: picture_of_def conj_commute conj_left_commute)
  ultimately show ?thesis
    unfolding pictures_def [of B c b] picture_of_cong [OF assms(3)] by simp
qed

lemma box_extent:
  assumes "browser_ok B" "sizes_ok a" "box_of B a s bo it = (w, t, e, d)"
  shows "0 \<le> \<lceil>w + t\<rceil> \<and> 0 \<le> \<lceil>e + d\<rceil>"
proof -
  have "0 \<le> w + t \<and> 0 \<le> e + d"
    using assms text_box_extent [of "measureText B (font_text B a bo it) s" "at_fontSize a * at_dpr a"]
    by (auto simp: browser_ok_def sizes_ok_def box_of_def)
  then show ?thesis by (simp add: order_trans [of "-1" 0] less_le_trans)
qed

text \<open>The texture after a picture is uploaded.\<close>

lemma upload_picture:
  assumes in_page: "0 \<le> x" "x + F \<le> size_of c a" "0 \<le> y" "y + J \<le> size_of c a" and pos: "0 < F" "0 < J"
    and n: "int (length n) = 4 * F * J"
    and a': "a' = (if c then upload c x y F J (premultiply B) n a else upload c x y F J id (mono_pixels n F J) a)"
  shows "texture_of c a' (px, py) =
     (if (px, py) \<in> rect x y F J then picture_texel B c n F J (px - x) (py - y) else texture_of c a (px, py))"
proof -
  have "4 * F * J \<le> int (length (mono_pixels n F J))" using pos by (simp add: length_mono_pixels)
  then show ?thesis
    using in_page pos n a' by (cases c) (simp_all add: texSubImage2D_inside picture_texel_def)
qed

lemma drawn_bytes:
  assumes "browser_ok B" "box_of B a s bo it = (w, t, e, d)" "pixels_of B a s bo it = Some n"
    "0 < \<lceil>w + t\<rceil> + PADDING * 2" "0 < \<lceil>e + d\<rceil> + PADDING * 2"
  shows "int (length n) = 4 * (\<lceil>w + t\<rceil> + PADDING * 2) * (\<lceil>e + d\<rceil> + PADDING * 2)"
  using assms unfolding browser_ok_def pixels_of_def by (simp add: Let_def)


lemma full_glyph_cong: "font_of a = font_of b \<Longrightarrow> full_glyph B q a u r = full_glyph B q b u r"
  by (simp add: full_glyph_def font_cong [of a b])

lemma raster_frame:
  assumes "tryRasterizeGlyph B q a = (a', r)"
  shows "font_of a' = font_of a" "glyphs a' = glyphs a" "useCounter a' = useCounter a"
    "size_of c a' = size_of c a"
    "c \<noteq> rq_isColor q \<Longrightarrow> page_of c a' = page_of c a \<and> texture_of c a' = texture_of c a"
    "pg_width (page_of c a') = pg_width (page_of c a) \<and> pg_height (page_of c a') = pg_height (page_of c a)"
proof -
  obtain w t e d where box: "box_of B a (rq_grapheme q) (rq_bold q) (rq_italic q) = (w, t, e, d)"
    using prod_cases4 by blast
  show "font_of a' = font_of a" "glyphs a' = glyphs a" "useCounter a' = useCounter a"
    "size_of c a' = size_of c a"
    "c \<noteq> rq_isColor q \<Longrightarrow> page_of c a' = page_of c a \<and> texture_of c a' = texture_of c a"
    "pg_width (page_of c a') = pg_width (page_of c a) \<and> pg_height (page_of c a') = pg_height (page_of c a)"
    by (rule raster_cases [OF assms refl box refl refl]; auto dest: place_size)+
qed

text \<open>A glyph that gets no place leaves the textures as they are.\<close>

lemma raster_none:
  assumes a: "atlas_ok B a" and B: "browser_ok B" and r: "tryRasterizeGlyph B q a = (a', None)"
  shows "textures_ok B a'"
proof -
  let ?c = "rq_isColor q"
  obtain w t e d where box: "box_of B a (rq_grapheme q) (rq_bold q) (rq_italic q) = (w, t, e, d)"
    using prod_cases4 by blast
  have sz: "sizes_ok a" and tx: "textures_ok B a" using a by (simp_all add: atlas_ok_def)
  have pics: "pictures B c a' = pictures B c a" for c
    using raster_frame(1,2) [OF r] by (simp add: pictures_def picture_of_cong [of a' a])
  show ?thesis
    using r refl box refl refl
  proof (cases rule: raster_cases)
    case (failed P x y i)
    let ?F = "\<lceil>w + t\<rceil> + PADDING * 2" and ?J = "\<lceil>e + d\<rceil> + PADDING * 2"
    have pos: "0 < ?F" "0 < ?J" using box_extent [OF B sz box] unfolding PADDING_def by linarith+
    have "atlas_page.intact P (texture_of ?c a) (pictures B ?c a)"
      by (rule atlas_page.intact_reserve [OF _ pos failed(7,1)]) (use tx in \<open>simp add: textures_ok_def\<close>)
    then show ?thesis using tx failed(2) pics by (simp add: textures_ok_def)
  qed (use tx in simp_all)
qed

text \<open>A glyph that is added to the cache has its picture in the texture.\<close>

lemma raster_some:
  assumes a: "atlas_ok B a" and B: "browser_ok B" and r: "tryRasterizeGlyph B q a = (a', Some raw)"
    and g: "g = full_glyph B q a u raw" and b: "glyphs b = AList.update (makeKey B q a) g (glyphs a)"
    "font_of b = font_of a" "\<And>c. page_of c b = page_of c a'" "\<And>c. texture_of c b = texture_of c a'"
  shows "textures_ok B b \<and> glyph_ok B a (makeKey B q a, g)"
proof -
  let ?c = "rq_isColor q" and ?k = "makeKey B q a"
  obtain w t e d where box: "box_of B a (rq_grapheme q) (rq_bold q) (rq_italic q) = (w, t, e, d)"
    using prod_cases4 by blast
  have sz: "sizes_ok a" and tx: "\<And>c. atlas_page.intact (page_of c a) (texture_of c a) (pictures B c a)"
    and di: "distinct (map fst (glyphs a))" using a by (simp_all add: atlas_ok_def textures_ok_def)
  note pics = pictures_update [OF di b(1,2)]
  have other: "atlas_page.intact (page_of c b) (texture_of c b) (pictures B c b)" if "c \<noteq> ?c" for c
    using atlas_page.intact_subset [OF tx [of c]] raster_frame(5) [OF r that] that g
    by (simp add: b(3,4) pics has_place_def)
  have gk: "gl_key g = ?k" "again g = q" using g by simp_all
  show ?thesis
    using r refl box refl refl
  proof (cases rule: raster_cases)
    case blank
    have "atlas_page.intact (page_of c b) (texture_of c b) (pictures B c b)" for c
      using atlas_page.intact_subset [OF tx [of c]] blank(1,2) g
      by (simp add: b(3,4) pics has_place_def no_glyph_def)
    then show ?thesis using blank g gk by (simp add: textures_ok_def glyph_ok_def no_glyph_def blank_glyph_def)
  next
    case (painted P x y i n)
    let ?F = "\<lceil>w + t\<rceil> + PADDING * 2" and ?J = "\<lceil>e + d\<rceil> + PADDING * 2"
    have pos: "0 < ?F" "0 < ?J" using box_extent [OF B sz box] unfolding PADDING_def by linarith+
    have ok: "page_ok (page_of ?c a)" using atlas_page.intact_ok [OF tx] .
    have w: "pg_width (page_of ?c a) = size_of ?c a" "pg_height (page_of ?c a) = size_of ?c a"
      using sz by (simp_all add: sizes_ok_def)
    have inside: "0 \<le> x" "x + ?F \<le> size_of ?c a" "0 \<le> y" "y + ?J \<le> size_of ?c a" and i: "0 < i"
      using place_inside [OF ok pos painted(7,1)] place_band [OF ok pos painted(7,1)] w by simp_all
    have n: "int (length n) = 4 * ?F * ?J" using drawn_bytes [OF B box painted(2) pos] .
    have tex: "texture_of ?c a' (px, py) = (if (px, py) \<in> rect x y ?F ?J
        then picture_texel B ?c n ?F ?J (px - x) (py - y) else texture_of ?c a (px, py))" for px py
      using upload_picture [OF _ _ _ _ pos n painted(3)] inside by simp
    have rec: "glyph_rect g = rect x y ?F ?J" "shelfId g = i"
      using painted(4) g by (simp_all add: glyph_rect_def)
    have img: "glyph_image B a g = (\<lambda>(px, py). picture_texel B ?c n ?F ?J (px - x) (py - y))"
      using painted(2,4) g by (simp add: glyph_image_def)
    have "atlas_page.intact P (texture_of ?c b) (pictures B ?c b)"
    proof (rule atlas_page.intact_draw [OF tx pos painted(7,1)])
      show "pictures B ?c b \<subseteq> insert (?k, i, rect x y ?F ?J, glyph_image B a g) {e \<in> pictures B ?c a. fst e \<noteq> ?k}"
        using g rec i by (simp add: pics has_place_def picture_of_def)
    qed (auto simp: b(4) tex img)
    moreover have "page_of ?c b = P" using painted(3) by (simp add: b(3))
    ultimately have "atlas_page.intact (page_of c b) (texture_of c b) (pictures B c b)" for c
      using other by (cases "c = ?c") simp_all
    then have "textures_ok B b" by (simp add: textures_ok_def)
    moreover have "0 < \<lceil>w + t\<rceil>" "0 < \<lceil>e + d\<rceil>"
      using painted(5,6) box_extent [OF B sz box] by linarith+
    then have "measured B a g" using painted(4) g box by (simp add: measured_def)
    ultimately show ?thesis using gk painted(2) g i rec by (simp add: glyph_ok_def)
  qed simp_all
qed


section \<open>Adding, evicting, repacking\<close>

lemma add_ok:
  assumes a: "atlas_ok B a" and B: "browser_ok B" and r: "addGlyph B q u a = (a', r)"
  shows "atlas_ok B a' \<and> font_of a' = font_of a \<and> (\<forall>c. size_of c a' = size_of c a) \<and>
    (case r of None \<Rightarrow> glyphs a' = glyphs a
     | Some g \<Rightarrow> again g = q \<and> glyphs a' = AList.update (makeKey B q a) g (glyphs a))"
proof -
  obtain a1 raw where ra: "tryRasterizeGlyph B q a = (a1, raw)" by (cases "tryRasterizeGlyph B q a")
  note fr = raster_frame [OF ra]
  have sz1: "sizes_ok a1" by (rule sizes_ok_cong [OF _ fr(1,4,6)]) (use a in \<open>simp add: atlas_ok_def\<close>)
  show ?thesis
  proof (cases raw)
    case None
    then have e: "a' = a1" "r = None" using r ra by (auto simp: addGlyph_def)
    have "textures_ok B a1" using raster_none [OF a B] ra None by simp
    then show ?thesis
      using a e sz1 by (simp add: atlas_ok_def fr(1,2,4) glyph_ok_cong [OF fr(1)])
  next
    case (Some rg)
    define v where "v = (case u of Some u \<Rightarrow> u | None \<Rightarrow> useCounter a1 + 1)"
    define g where "g = full_glyph B q a v rg"
    have fg: "full_glyph B q a1 x rg = full_glyph B q a x rg"
      "full_glyph B q (a1\<lparr>useCounter := m\<rparr>) x rg = full_glyph B q a x rg" for x m
      by (rule full_glyph_cong, simp add: fr(1))+
    have mk: "makeKey B q a1 = makeKey B q a" "makeKey B q (a1\<lparr>useCounter := m\<rparr>) = makeKey B q a" for m
      by (rule font_cong(1), simp add: fr(1))+
    obtain n where "addGlyph B q u a =
      (a1\<lparr>useCounter := n, glyphs := AList.update (makeKey B q a) g (glyphs a)\<rparr>, Some g)"
    proof (cases u)
      case None
      then show ?thesis using that [of "useCounter a1 + 1"] ra Some
        by (simp add: addGlyph_def Let_def g_def v_def fg mk fr(2))
    next
      case (Some w)
      then show ?thesis
        using that [of "max w (useCounter a1)"] ra \<open>raw = Some rg\<close>
        by (simp add: addGlyph_def Let_def g_def v_def fg mk fr(2) max_def)
    qed
    then have rg: "r = Some g" and gs: "glyphs a' = AList.update (makeKey B q a) g (glyphs a)"
      and fo: "font_of a' = font_of a" and "\<And>c. page_of c a' = page_of c a1"
      and "\<And>c. texture_of c a' = texture_of c a1" and sz: "\<And>c. size_of c a' = size_of c a1"
      using r fr(1) by auto
    then have tx: "textures_ok B a' \<and> glyph_ok B a (makeKey B q a, g)"
      using ra Some by (intro raster_some [OF a B _ g_def]) simp_all
    have "sizes_ok a'"
      by (rule sizes_ok_cong [OF sz1]) (simp_all add: fo fr(1) sz \<open>\<And>c. page_of c a' = page_of c a1\<close>)
    moreover have "\<forall>kg\<in>set (glyphs a'). glyph_ok B a' kg"
      using a tx by (auto simp: atlas_ok_def gs set_update_distinct glyph_ok_cong [OF fo])
    moreover have "distinct (map fst (glyphs a'))"
      using a by (simp add: gs atlas_ok_def distinct_update)
    ultimately have "atlas_ok B a'" using tx by (simp add: atlas_ok_def)
    then show ?thesis using rg gs fo by (simp add: g_def sz fr(4))
  qed
qed

text \<open>Forgetting glyphs keeps the invariant.\<close>

lemma forget_ok:
  assumes a: "atlas_ok B a" and f: "font_of b = font_of a" "set (glyphs b) \<subseteq> set (glyphs a)"
    "distinct (map fst (glyphs b))" "sizes_ok b" "textures_ok B b"
  shows "atlas_ok B b"
  using a f by (auto simp: atlas_ok_def glyph_ok_cong [OF f(1)])

lemma delete_shelf_result:
  assumes "\<not> (\<exists>g\<in>snd ` set gs. on_this_shelf c i g \<and> gl_pinned g)"
  shows "fst (delete_shelf c i gs) = filter (\<lambda>(k, g). \<not> on_this_shelf c i g) gs"
    "snd (snd (delete_shelf c i gs))"
    "fst (snd (delete_shelf c i gs)) = length (filter (\<lambda>(k, g). on_this_shelf c i g) gs)"
  using assms by (induction gs) (auto simp: Let_def split: prod.splits)

lemma oldest_shelf_member:
  assumes "oldest_shelf c gs best ss = Some s"
  shows "(\<exists>u. best = Some (u, s)) \<or> s \<in> set ss \<and> shelf_age c (sh_id s) gs \<noteq> None"
  using assms
  by (induction ss arbitrary: best) (auto split: option.splits if_splits)

text \<open>The shelf to evict is in the page, holds a glyph and holds no pinned glyph.\<close>

lemma findEvictionShelf_found:
  assumes "findEvictionShelf P c a = Some s"
  shows "s \<in> set (shelves P)" "\<exists>g\<in>snd ` set (glyphs a). on_this_shelf c (sh_id s) g"
    "\<not> (\<exists>g\<in>snd ` set (glyphs a). on_this_shelf c (sh_id s) g \<and> gl_pinned g)"
  using oldest_shelf_member [OF assms [unfolded findEvictionShelf_def]]
  by (auto simp: shelf_age_def Let_def filter_empty_conv split: if_splits)


text \<open>What every operation on the cache keeps of the atlas: its invariant, its font and its sizes.\<close>

definition kept :: "browser \<Rightarrow> atlas \<Rightarrow> atlas \<Rightarrow> bool" where
  "kept B a a' \<longleftrightarrow> atlas_ok B a' \<and> font_of a' = font_of a \<and> (\<forall>c. size_of c a' = size_of c a)"

lemma kept_refl: "atlas_ok B a \<Longrightarrow> kept B a a"
  by (simp add: kept_def)

lemma kept_trans: "kept B a b \<Longrightarrow> kept B b c \<Longrightarrow> kept B a c"
  by (simp add: kept_def)

lemma kept_ok: "kept B a a' \<Longrightarrow> atlas_ok B a'"
  by (simp add: kept_def)

lemma add_kept: "\<lbrakk>atlas_ok B a; browser_ok B; addGlyph B q u a = (a', r)\<rbrakk> \<Longrightarrow> kept B a a'"
  using add_ok by (simp add: kept_def)

lemma evict_found:
  assumes e: "findEvictionShelf (page_of c a) c a = Some s"
  shows "evictLeastRecentlyUsedShelf c a =
    (set_page c (rewind_shelf (sh_id s) (page_of c a)) (clearShelfTexture s c (pg_width (page_of c a))
       (a\<lparr>glyphs := filter (\<lambda>(k, g). \<not> on_this_shelf c (sh_id s) g) (glyphs a)\<rparr>)), True)"
proof -
  note found = findEvictionShelf_found [OF e]
  have "filter (\<lambda>(k, g). on_this_shelf c (sh_id s) g) (glyphs a) \<noteq> []"
    using found(2) by (force simp: filter_empty_conv)
  then show ?thesis
    using e delete_shelf_result [OF found(3)]
    by (cases "delete_shelf c (sh_id s) (glyphs a)") (simp add: evictLeastRecentlyUsedShelf_def Let_def)
qed

lemma evict_kept:
  assumes a: "atlas_ok B a" and e: "evictLeastRecentlyUsedShelf c a = (a', r)"
  shows "kept B a a' \<and> set (glyphs a') \<subseteq> set (glyphs a)"
proof (cases "findEvictionShelf (page_of c a) c a")
  case None
  then show ?thesis using e a by (simp add: evictLeastRecentlyUsedShelf_def kept_refl)
next
  case (Some s)
  let ?P = "page_of c a"
  let ?gs = "filter (\<lambda>(k, g). \<not> on_this_shelf c (sh_id s) g) (glyphs a)"
  have a': "a' = set_page c (rewind_shelf (sh_id s) ?P) (clearShelfTexture s c (pg_width ?P) (a\<lparr>glyphs := ?gs\<rparr>))"
    using e evict_found [OF Some] by simp
  have gs: "glyphs a' = ?gs" and fo: "font_of a' = font_of a" and sz: "size_of d a' = size_of d a" for d
    by (simp_all add: a')
  have tx: "atlas_page.intact (page_of d a) (texture_of d a) (pictures B d a)" for d
    using a by (simp add: atlas_ok_def textures_ok_def)
  have sub: "pictures B d a' \<subseteq> pictures B d a" for d
    by (rule pictures_subset [OF fo]) (auto simp: gs)
  have "atlas_page.intact (rewind_shelf (sh_id s) ?P) (texture_of c a') (pictures B c a')"
  proof (rule atlas_page.intact_evict [OF tx sub])
    show "fst (snd e) \<noteq> sh_id s" if "e \<in> pictures B c a'" for e
      using that by (auto simp: pictures_def picture_of_def has_place_def gs on_this_shelf_def)
    show "texture_of c a' p = texture_of c a p" if p: "p \<notin> page_band ?P (sh_id s)" for p
    proof -
      have "rect 0 (sh_y s) (pg_width ?P) (sh_height s) \<subseteq> page_band ?P (sh_id s)"
        using findEvictionShelf_found(1) [OF Some] by (auto simp: rect_def page_band_def)
      then have "p \<notin> rect 0 (sh_y s) (pg_width ?P) (sh_height s)" using p by blast
      then show ?thesis by (simp add: a' clearShelfTexture_def texSubImage2D_outside)
    qed
  qed
  moreover have "atlas_page.intact (page_of d a) (texture_of d a) (pictures B d a')" for d
    using atlas_page.intact_subset [OF tx sub] .
  ultimately have "textures_ok B a'" by (simp add: textures_ok_def a' clearShelfTexture_def)
  moreover have "sizes_ok a'"
    by (rule sizes_ok_cong [of a]) (use a in \<open>simp_all add: a' atlas_ok_def rewind_shelf_def\<close>)
  moreover have "distinct (map fst (glyphs a'))" using a by (simp add: gs atlas_ok_def distinct_map_filter)
  ultimately have "atlas_ok B a'" by (intro forget_ok [OF a fo]) (auto simp: gs)
  then show ?thesis using fo sz gs by (auto simp: kept_def)
qed

lemma evict_and_add_kept:
  "\<lbrakk>atlas_ok B a; browser_ok B; evict_and_add B q a = (a', r)\<rbrakk> \<Longrightarrow> kept B a a'"
proof (induction B q a rule: evict_and_add.induct)
  case (1 B q a)
  obtain a1 f where e: "evictLeastRecentlyUsedShelf (rq_isColor q) a = (a1, f)"
    by (cases "evictLeastRecentlyUsedShelf (rq_isColor q) a")
  obtain a2 r2 where d: "addGlyph B q None a1 = (a2, r2)" by (cases "addGlyph B q None a1")
  have k1: "kept B a a1" using evict_kept [OF 1(2) e] by simp
  have k2: "kept B a a2" using kept_trans [OF k1 add_kept [OF kept_ok [OF k1] 1(3) d]] .
  show ?case
  proof (cases "f \<and> r2 = None")
    case True
    then have "evict_and_add B q a2 = (a', r)" using 1(4) e d by (simp add: evict_and_add.simps [of B q a])
    then have "kept B a2 a'" using 1(1) [OF e [symmetric]] True d kept_ok [OF k2] 1(3) by simp
    then show ?thesis by (rule kept_trans [OF k2])
  next
    case False
    then have "a' = a1 \<or> a' = a2"
      using 1(4) e d by (auto simp: evict_and_add.simps [of B q a] split: bool.splits)
    then show ?thesis using k1 k2 by auto
  qed
qed


lemma readd_all_kept: "\<lbrakk>atlas_ok B a; browser_ok B\<rbrakk> \<Longrightarrow> kept B a (readd_all B gs a)"
proof (induction gs arbitrary: a)
  case (Cons g gs)
  obtain a1 r where d: "addGlyph B (again g) (Some (lastUsed g)) a = (a1, r)"
    by (cases "addGlyph B (again g) (Some (lastUsed g)) a")
  have k: "kept B a a1" using add_kept [OF Cons.prems d] .
  show ?case using kept_trans [OF k Cons.IH [OF kept_ok [OF k] Cons.prems(2)]] d by simp
qed (simp add: kept_refl)

text \<open>Adding what is missing keeps the glyphs that are there.\<close>

lemma readd_missing_kept:
  assumes "atlas_ok B a" "browser_ok B" "map_of (glyphs a) k = v"
    "\<forall>g\<in>set gs. makeKey B (again g) a \<noteq> k"
  shows "kept B a (readd_missing B gs a) \<and> map_of (glyphs (readd_missing B gs a)) k = v"
  using assms
proof (induction gs arbitrary: a)
  case (Cons g gs)
  let ?q = "again g"
  obtain a1 r where d: "addGlyph B ?q (Some (lastUsed g)) a = (a1, r)"
    by (cases "addGlyph B ?q (Some (lastUsed g)) a")
  define b where "b = (if gl_key g \<in> fst ` set (glyphs a) then a else a1)"
  have k1: "kept B a a1" using add_kept [OF Cons.prems(1,2) d] .
  have "map_of (glyphs a1) k = v"
    using add_ok [OF Cons.prems(1,2) d] Cons.prems(3,4)
    by (auto simp: update_conv' split: option.splits)
  then have b: "map_of (glyphs b) k = v" "kept B a b"
    using Cons.prems(1,3) k1 by (simp_all add: b_def kept_refl)
  have "makeKey B q b = makeKey B q a" for q using b(2) by (intro font_cong) (simp add: kept_def)
  then have "\<forall>g\<in>set gs. makeKey B (again g) b \<noteq> k" using Cons.prems(4) by simp
  from Cons.IH [OF kept_ok [OF b(2)] Cons.prems(2) b(1) this]
  have "kept B b (readd_missing B gs b) \<and> map_of (glyphs (readd_missing B gs b)) k = v" .
  moreover have "readd_missing B (g # gs) a = readd_missing B gs b" using d by (simp add: b_def)
  ultimately show ?case using kept_trans [OF b(2)] by simp
qed (simp add: kept_refl)

text \<open>A page without glyphs.\<close>

definition emptied :: "bool \<Rightarrow> atlas \<Rightarrow> atlas" where
  "emptied c a = clearFullPageTexture c (resetPage c
     (a\<lparr>glyphs := filter (\<lambda>(k, g). gl_isColor g \<noteq> c) (glyphs a)\<rparr>))"

lemma emptied_simps [simp]:
  "glyphs (emptied c a) = filter (\<lambda>(k, g). gl_isColor g \<noteq> c) (glyphs a)"
  "font_of (emptied c a) = font_of a" "size_of d (emptied c a) = size_of d a"
  "page_of d (emptied c a) = (if d = c then empty_page (size_of c a) else page_of d a)"
  by (simp_all add: emptied_def clearFullPageTexture_def resetPage_def Let_def)

lemma emptied_kept:
  assumes a: "atlas_ok B a"
  shows "kept B a (emptied c a)"
proof -
  let ?b = "emptied c a"
  have none: "pictures B c ?b = {}" by (auto simp: pictures_def has_place_def)
  have tex: "d \<noteq> c \<Longrightarrow> texture_of d ?b = texture_of d a" for d
    by (simp add: emptied_def clearFullPageTexture_def resetPage_def Let_def clearShelfTexture_def)
  have sub: "pictures B d ?b \<subseteq> pictures B d a" for d by (rule pictures_subset) auto
  have "atlas_page.intact (page_of d a) (texture_of d a) (pictures B d ?b)" for d
    by (rule atlas_page.intact_subset [OF _ sub]) (use a in \<open>simp add: atlas_ok_def textures_ok_def\<close>)
  then have "textures_ok B ?b"
    using none tex by (auto simp: textures_ok_def empty_page_ok atlas_page.intact_empty)
  moreover have "sizes_ok ?b"
    using a emptied_simps(2) [of c a] by (simp add: sizes_ok_def atlas_ok_def font_of_def empty_page_def)
  ultimately have "atlas_ok B ?b"
    using a by (intro forget_ok [OF a]) (auto simp: atlas_ok_def distinct_map_filter)
  then show ?thesis by (simp add: kept_def)
qed

lemma repack_unfold:
  "repackAndAddGlyph B q a =
     (let c = rq_isColor q; k = makeKey B q a;
          I = sort_key (\<lambda>g. - lastUsed g) (filter (\<lambda>g. gl_isColor g = c \<and> 0 \<le> shelfId g) (map snd (glyphs a)));
          (a1, i) = addGlyph B q None
            (readd_all B (filter (\<lambda>g. gl_pinned g \<and> gl_key g \<noteq> k) I) (emptied c a))
      in (readd_missing B (filter (\<lambda>g. \<not> gl_pinned g \<and> gl_key g \<noteq> k) I) a1, i))"
  by (simp add: repackAndAddGlyph_def emptied_def Let_def)

lemma repack_kept:
  assumes a: "atlas_ok B a" and B: "browser_ok B" and r: "repackAndAddGlyph B q a = (a', r)"
  shows "kept B a a'" "r = Some g \<Longrightarrow> map_of (glyphs a') (makeKey B q a) = Some g \<and> again g = q"
proof -
  define c where "c = rq_isColor q"
  define k where "k = makeKey B q a"
  define I where "I = sort_key (\<lambda>g. - lastUsed g) (filter (\<lambda>g. gl_isColor g = c \<and> 0 \<le> shelfId g) (map snd (glyphs a)))"
  define b where "b = readd_all B (filter (\<lambda>g. gl_pinned g \<and> gl_key g \<noteq> k) I) (emptied c a)"
  obtain a1 i where d: "addGlyph B q None b = (a1, i)" by (cases "addGlyph B q None b")
  let ?E = "filter (\<lambda>g. \<not> gl_pinned g \<and> gl_key g \<noteq> k) I"
  have r': "a' = readd_missing B ?E a1" "r = i"
    using r d unfolding repack_unfold Let_def c_def [symmetric] k_def [symmetric] I_def [symmetric] b_def [symmetric]
    by simp_all
  have kb: "kept B a b"
    unfolding b_def using emptied_kept [OF a] readd_all_kept [OF kept_ok B] kept_trans by blast
  have k1: "kept B a a1" using kept_trans [OF kb add_kept [OF kept_ok [OF kb] B d]] .
  have key: "makeKey B p a1 = makeKey B p a" "makeKey B p b = makeKey B p a" for p
    by (rule font_cong, use k1 kb in \<open>simp add: kept_def\<close>)+
  have "makeKey B (again g) a1 \<noteq> k" if "g \<in> set ?E" for g
  proof -
    have "g \<in> snd ` set (glyphs a)" "gl_key g \<noteq> k" using that by (auto simp: I_def)
    then have "gl_key g = makeKey B (again g) a" using a by (force simp: atlas_ok_def glyph_ok_def)
    then show ?thesis using \<open>gl_key g \<noteq> k\<close> key by simp
  qed
  then have fin: "kept B a1 a' \<and> map_of (glyphs a') k = map_of (glyphs a1) k"
    unfolding r' using readd_missing_kept [OF kept_ok [OF k1] B refl] by blast
  then show "kept B a a'" using kept_trans [OF k1] by blast
  show "map_of (glyphs a') (makeKey B q a) = Some g \<and> again g = q" if "r = Some g"
    using add_ok [OF kept_ok [OF kb] B d] that r'(2) fin key by (simp add: update_conv' k_def)
qed

end
