(* ===== verification/Gw_Atlas_Cache.thy ===== *)
theory Gw_Atlas_Cache
  imports Gw_Atlas_Props
begin

text \<open>
  Looking glyphs up: what \<open>getGlyph\<close> returns, which shelf it evicts, when a glyph gets a place, and
  the invariant of every atlas the renderer can have.
\<close>

section \<open>Keys\<close>

text \<open>At one pixel ratio the key says which text, style and kind of glyph it is for.\<close>

lemma makeKey_inject:
  assumes "makeKey B q a = makeKey B q' a"
  shows "rq_grapheme q = rq_grapheme q' \<and> rq_bold q = rq_bold q' \<and> rq_italic q = rq_italic q' \<and>
    rq_isColor q = rq_isColor q'"
proof -
  define tail where "tail c = js (if c then ''c'' else ''m'')" for c
  define style where "style b i = js (if b then ''b'' else '''') @ js (if i then ''i'' else '''')" for b i
  have "(rq_grapheme q @ js ''|'' @ style (rq_bold q) (rq_italic q)) @ js ''|'' @ tail (rq_isColor q) =
    (rq_grapheme q' @ js ''|'' @ style (rq_bold q') (rq_italic q')) @ js ''|'' @ tail (rq_isColor q')"
    using assms by (simp add: makeKey_def tail_def style_def flip: append_assoc)
  moreover have "length (js ''|'' @ tail c) = length (js ''|'' @ tail d)" for c d by (simp add: tail_def js_def)
  ultimately have e: "rq_grapheme q @ js ''|'' @ style (rq_bold q) (rq_italic q) =
      rq_grapheme q' @ js ''|'' @ style (rq_bold q') (rq_italic q')"
    and t: "tail (rq_isColor q) = tail (rq_isColor q')"
    using append_eq_append_conv by blast+
  have "rq_isColor q = rq_isColor q'"
    using t by (auto simp: tail_def js_def split: if_splits)
  moreover have "rq_bold q = rq_bold q' \<and> rq_italic q = rq_italic q' \<and> rq_grapheme q = rq_grapheme q'"
    using arg_cong [OF e, of rev]
    by (cases "rq_bold q"; cases "rq_italic q"; cases "rq_bold q'"; cases "rq_italic q'")
      (simp_all add: style_def js_def)
  ultimately show ?thesis by simp
qed

section \<open>What a lookup returns\<close>

definition glyph_for :: "browser \<Rightarrow> jstr \<Rightarrow> bool \<Rightarrow> bool \<Rightarrow> glyph \<Rightarrow> bool" where
  "glyph_for B s bold italic g \<longleftrightarrow> gl_grapheme g = s \<and> gl_bold g = bold \<and> gl_italic g = italic \<and>
     gl_isColor g = is_color B s"

lemma again_glyph_for: "again g = request_of B s bold italic \<Longrightarrow> glyph_for B s bold italic g"
  by (simp add: again_def request_of_def glyph_for_def)

lemma truncate_simps [simp]:
  "shelfId (raw_glyph.truncate g) = shelfId g" "glyph_rect (raw_glyph.truncate g) = glyph_rect g"
  by (simp_all add: raw_glyph.defs glyph_rect_def)

text \<open>A glyph that has no place may be set without changing what the textures hold.\<close>

lemma set_entry_kept:
  assumes a: "atlas_ok B a" and b: "glyphs b = AList.update k g (glyphs a)" "font_of b = font_of a"
    "\<And>c. page_of c b = page_of c a" "\<And>c. texture_of c b = texture_of c a" "\<And>c. size_of c b = size_of c a"
    and g: "glyph_ok B a (k, g)" "\<And>c. has_place c (k, g) \<Longrightarrow> picture_of B a (k, g) \<in> pictures B c a"
  shows "kept B a b"
proof -
  have di: "distinct (map fst (glyphs a))" using a by (simp add: atlas_ok_def)
  have sub: "pictures B c b \<subseteq> pictures B c a" for c
    using g(2) [of c] by (auto simp: pictures_update [OF di b(1,2)] split: if_splits)
  have "atlas_page.intact (page_of c b) (texture_of c b) (pictures B c b)" for c
    unfolding b(3,4)
    by (rule atlas_page.intact_subset [OF _ sub]) (use a in \<open>simp add: atlas_ok_def textures_ok_def\<close>)
  moreover have "sizes_ok b"
    by (rule sizes_ok_cong [of a]) (use a b in \<open>simp_all add: atlas_ok_def\<close>)
  moreover have "\<forall>kg\<in>set (glyphs b). glyph_ok B b kg"
    using a g(1) by (auto simp: atlas_ok_def b(1) set_update_distinct glyph_ok_cong [OF b(2)])
  ultimately show ?thesis
    using di b by (simp add: kept_def atlas_ok_def textures_ok_def distinct_update)
qed

lemma use_kept:
  assumes a: "atlas_ok B a" and g: "map_of (glyphs a) k = Some g"
  shows "kept B a (a\<lparr>useCounter := u, glyphs := AList.update k (g\<lparr>lastUsed := u\<rparr>) (glyphs a)\<rparr>)"
proof -
  have mem: "(k, g) \<in> set (glyphs a)" using g by (rule map_of_SomeD)
  have "picture_of B a (k, g\<lparr>lastUsed := u\<rparr>) = picture_of B a (k, g)"
    "has_place c (k, g\<lparr>lastUsed := u\<rparr>) = has_place c (k, g)" for c
    by (simp_all add: picture_of_def glyph_image_def glyph_rect_def has_place_def cong: option.case_cong)
  moreover have "glyph_ok B a (k, g\<lparr>lastUsed := u\<rparr>) = glyph_ok B a (k, g)"
    by (simp add: glyph_ok_def measured_def again_def blank_glyph_def)
  ultimately show ?thesis
    using a mem by (intro set_entry_kept) (auto simp: atlas_ok_def pictures_def font_of_def
      page_of_def texture_of_def size_of_def)
qed

lemma placeholder_kept:
  assumes a: "atlas_ok B a" and p: "createPlaceholder B q a = (b, g)"
  shows "kept B a (b\<lparr>glyphs := AList.update (makeKey B q a) g (glyphs b)\<rparr>) \<and> again g = q"
proof -
  have b: "b = a\<lparr>useCounter := useCounter a + 1\<rparr>" and g: "g = full_glyph B q b (useCounter b) (no_glyph (rq_isColor q))"
    using p by (auto simp: createPlaceholder_def Let_def)
  have "makeKey B q b = makeKey B q a" by (rule font_cong) (simp add: b)
  then have g: "shelfId g = -1" "blank_glyph g" "gl_key g = makeKey B q a" "again g = q"
    unfolding g by (simp_all add: no_glyph_def blank_glyph_def)
  then have "glyph_ok B a (makeKey B q a, g)" "\<not> has_place c (makeKey B q a, g)" for c
    by (simp_all add: glyph_ok_def has_place_def)
  then show ?thesis
    using a g by (intro conjI set_entry_kept) (auto simp: b)
qed

lemma evict_and_add_some:
  "\<lbrakk>atlas_ok B a; browser_ok B; evict_and_add B q a = (a', Some g)\<rbrakk>
   \<Longrightarrow> map_of (glyphs a') (makeKey B q a) = Some g \<and> again g = q"
proof (induction B q a rule: evict_and_add.induct)
  case (1 B q a)
  obtain a1 f where e: "evictLeastRecentlyUsedShelf (rq_isColor q) a = (a1, f)"
    by (cases "evictLeastRecentlyUsedShelf (rq_isColor q) a")
  obtain a2 r where d: "addGlyph B q None a1 = (a2, r)" by (cases "addGlyph B q None a1")
  have k1: "kept B a a1" using evict_kept [OF 1(2) e] by simp
  have k2: "kept B a a2" using kept_trans [OF k1 add_kept [OF kept_ok [OF k1] 1(3) d]] .
  have key: "makeKey B q a1 = makeKey B q a" "makeKey B q a2 = makeKey B q a"
    by (rule font_cong, use k1 k2 in \<open>simp add: kept_def\<close>)+
  have f: "f" using 1(4) e by (cases f) (auto simp: evict_and_add.simps [of B q a])
  show ?case
  proof (cases r)
    case None
    then have "evict_and_add B q a2 = (a', Some g)"
      using 1(4) e d f by (simp add: evict_and_add.simps [of B q a])
    then show ?thesis using 1(1) [OF e [symmetric]] f d None kept_ok [OF k2] 1(3) key by simp
  next
    case (Some h)
    then have "h = g" "a2 = a'" using 1(4) e d f by (simp_all add: evict_and_add.simps [of B q a])
    then show ?thesis using add_ok [OF kept_ok [OF k1] 1(3) d] Some key by (simp add: update_conv')
  qed
qed

text \<open>Every way through \<open>getGlyph\<close>.\<close>

lemma getGlyph_result:
  assumes a: "atlas_ok B a" and B: "browser_ok B" and s: "s \<noteq> []"
    and r: "getGlyph B s bo it a = (a', r)" and k: "k = makeKey B (request_of B s bo it) a"
  shows "kept B a a' \<and> (\<exists>g. map_of (glyphs a') k = Some g \<and> r = raw_glyph.truncate g \<and> glyph_for B s bo it g)"
proof (cases "map_of (glyphs a) k")
  case (Some g)
  have "glyph_ok B a (k, g)" using a map_of_SomeD [OF Some] by (simp add: atlas_ok_def)
  then have "makeKey B (again g) a = makeKey B (request_of B s bo it) a" using k by (simp add: glyph_ok_def)
  then have "glyph_for B s bo it g"
    by (auto dest!: makeKey_inject simp: again_def request_of_def glyph_for_def)
  then show ?thesis
    using r s Some k use_kept [OF a Some]
    by (auto simp: getGlyph_def Let_def update_conv' glyph_for_def raw_glyph.defs)
next
  case None
  define q where "q = request_of B s bo it"
  have q: "glyph_for B s bo it g" if "again g = q" for g using again_glyph_for that by (simp add: q_def)
  have key: "makeKey B q b = k" if "kept B a b" for b
    unfolding k q_def by (rule font_cong) (use that in \<open>simp add: kept_def\<close>)
  obtain a1 r1 where d1: "addGlyph B q None a = (a1, r1)" by (cases "addGlyph B q None a")
  obtain a2 r2 where d2: "evict_and_add B q a1 = (a2, r2)" by (cases "evict_and_add B q a1")
  obtain a3 r3 where d3: "repackAndAddGlyph B q a2 = (a3, r3)" by (cases "repackAndAddGlyph B q a2")
  obtain a4 g4 where d4: "createPlaceholder B q a3 = (a4, g4)" by (cases "createPlaceholder B q a3")
  have k1: "kept B a a1" using add_kept [OF a B d1] .
  have k2: "kept B a a2" using kept_trans [OF k1 evict_and_add_kept [OF kept_ok [OF k1] B d2]] .
  have k3: "kept B a a3" using kept_trans [OF k2 repack_kept(1) [OF kept_ok [OF k2] B d3]] .
  note p4 = placeholder_kept [OF kept_ok [OF k3] d4, unfolded key [OF k3]]
  note gg = r [unfolded getGlyph_def Let_def q_def [symmetric] key [OF kept_refl [OF a]] None, simplified]
  consider (first) g where "r1 = Some g" "a' = a1" "r = raw_glyph.truncate g"
    | (second) g where "r1 = None" "r2 = Some g" "a' = a2" "r = raw_glyph.truncate g"
    | (third) g where "r1 = None" "r2 = None" "r3 = Some g" "a' = a3" "r = raw_glyph.truncate g"
    | (last) "r1 = None" "r2 = None" "r3 = None" "a' = a4\<lparr>glyphs := AList.update k g4 (glyphs a4)\<rparr>"
        "r = raw_glyph.truncate g4"
    using gg s d1 d2 d3 d4 by (cases r1; cases r2; cases r3) auto
  then show ?thesis
  proof cases
    case (first g)
    then show ?thesis using k1 q add_ok [OF a B d1] key [OF kept_refl [OF a]] by (simp add: update_conv')
  next
    case (second g)
    then show ?thesis using k2 q evict_and_add_some [OF kept_ok [OF k1] B] d2 key [OF k1] by blast
  next
    case (third g)
    then show ?thesis using k3 q repack_kept(2) [OF kept_ok [OF k2] B d3] key [OF k2] by auto
  next
    case last
    then show ?thesis using kept_trans [OF k3] p4 q by (simp add: update_conv')
  qed
qed


section \<open>The atlases of the renderer\<close>

lemma add_after: "\<lbrakk>kept B a b; browser_ok B\<rbrakk> \<Longrightarrow> kept B a (fst (addGlyph B q u b))"
  by (rule kept_trans [OF _ add_kept [OF kept_ok]]) (auto intro: prod.collapse [symmetric])

lemma prewarm_char_kept: "\<lbrakk>atlas_ok B a; browser_ok B\<rbrakk> \<Longrightarrow> kept B a (prewarm_char B n a)"
  unfolding prewarm_char_def Let_def by (intro add_after kept_refl)

lemma prewarmAscii_kept:
  assumes "atlas_ok B a" "browser_ok B"
  shows "kept B a (prewarmAscii B a)"
proof -
  have "kept B a (fold (prewarm_char B) ns a)" for ns
    using assms(1)
  proof (induction ns arbitrary: a)
    case (Cons n ns)
    have k: "kept B a (prewarm_char B n a)" using prewarm_char_kept [OF Cons.prems assms(2)] .
    show ?case using kept_trans [OF k Cons.IH [OF kept_ok [OF k]]] by simp
  qed (simp add: kept_refl)
  then show ?thesis unfolding prewarmAscii_def .
qed

text \<open>An atlas with empty pages and an empty cache.\<close>

lemma fresh_ok:
  assumes "glyphs a = []" "0 < at_fontSize a" "0 < at_dpr a" "\<And>c. page_of c a = empty_page (size_of c a)"
  shows "atlas_ok B a"
  using assms
  by (simp add: atlas_ok_def sizes_ok_def textures_ok_def pictures_def empty_page_ok
      atlas_page.intact_empty) (simp add: empty_page_def)

lemma positive_or_positive: "0 < d \<Longrightarrow> 0 < positive_or x d"
  by (simp add: positive_or_def split: option.splits)

lemma new_atlas_ok:
  assumes "browser_ok B" "new_atlas B m t c sz fam ra = Inr a"
  shows "atlas_ok B a"
proof -
  let ?a = "\<lparr>at_fontSize = positive_or sz 15, at_fontFamily = fam, at_dpr = positive_or ra 1,
    atlasSize = min 1024 m, colorAtlasSize = min 1024 m, at_page = empty_page (min 1024 m),
    colorPage = empty_page (min 1024 m), atlasTexture = (\<lambda>_. blank_texel),
    colorTexture = (\<lambda>_. blank_texel), glyphs = [], useCounter = 0\<rparr>"
  have "atlas_ok B ?a"
    by (rule fresh_ok) (simp_all add: positive_or_positive page_of_def size_of_def)
  from prewarmAscii_kept [OF this assms(1)] show ?thesis
    using assms(2) by (simp add: new_atlas_def Let_def kept_def split: if_splits)
qed

definition reset_start :: "num_arg \<Rightarrow> jstr \<Rightarrow> num_arg \<Rightarrow> atlas \<Rightarrow> atlas" where
  "reset_start sz fam ra a = clearFullPageTexture True (clearFullPageTexture False
     ((resetPages (a\<lparr>at_fontSize := positive_or sz (at_fontSize a), at_fontFamily := fam,
       at_dpr := positive_or ra (at_dpr a)\<rparr>))\<lparr>glyphs := [], useCounter := 0\<rparr>))"

lemma reset_atlas_start: "reset_atlas B sz fam ra a = prewarmAscii B (reset_start sz fam ra a)"
  by (simp add: reset_atlas_def reset_start_def Let_def)

lemma reset_start_size: "size_of c (reset_start sz fam ra a) = size_of c a"
  by (simp add: reset_start_def clearFullPageTexture_def Let_def) (simp add: size_of_def resetPages_def)

lemma reset_start_ok:
  assumes "atlas_ok B a"
  shows "atlas_ok B (reset_start sz fam ra a)"
proof -
  have "0 < at_fontSize a" "0 < at_dpr a" using assms by (simp_all add: atlas_ok_def sizes_ok_def)
  then show ?thesis
    by (intro fresh_ok)
      (simp_all add: reset_start_def positive_or_positive clearFullPageTexture_def Let_def clearShelfTexture_def
        upload_def resetPages_def page_of_def size_of_def)
qed

lemma reset_atlas_ok: "\<lbrakk>atlas_ok B a; browser_ok B\<rbrakk> \<Longrightarrow> atlas_ok B (reset_atlas B sz fam ra a)"
  unfolding reset_atlas_start by (intro kept_ok [OF prewarmAscii_kept] reset_start_ok)

inductive atlas_reach :: "browser \<Rightarrow> atlas \<Rightarrow> bool" for B where
  new: "new_atlas B m t c sz fam ra = Inr a \<Longrightarrow> atlas_reach B a"
| lookup: "atlas_reach B a \<Longrightarrow> getGlyph B s bo it a = (a', r) \<Longrightarrow> atlas_reach B a'"
| reset: "atlas_reach B a \<Longrightarrow> atlas_reach B (reset_atlas B sz fam ra a)"

lemma getGlyph_ok:
  assumes "atlas_ok B a" "browser_ok B" "getGlyph B s bo it a = (a', r)"
  shows "atlas_ok B a'"
  using assms getGlyph_result [OF assms(1,2) _ assms(3) refl]
  by (cases "s = []") (auto simp: getGlyph_def kept_def)

lemma reach_ok: "atlas_reach B a \<Longrightarrow> browser_ok B \<Longrightarrow> atlas_ok B a"
  by (induction rule: atlas_reach.induct) (auto intro: new_atlas_ok getGlyph_ok reset_atlas_ok)

lemma ok_picture:
  assumes "atlas_ok B a" "(k, g) \<in> set (glyphs a)" "shelfId g \<noteq> -1"
  shows "glyph_rect g \<subseteq> rect 0 0 (size_of (gl_isColor g) a) (size_of (gl_isColor g) a) \<and>
    (\<forall>p\<in>glyph_rect g. texture_of (gl_isColor g) a p = glyph_image B a g p)"
proof -
  let ?c = "gl_isColor g"
  have m: "picture_of B a (k, g) \<in> pictures B ?c a" using assms by (auto simp: pictures_def has_place_def)
  have "atlas_page.intact (page_of ?c a) (texture_of ?c a) (pictures B ?c a)"
    using assms(1) by (simp add: atlas_ok_def textures_ok_def)
  from atlas_page.intact_stored [OF this m] show ?thesis
    using assms(1) by (simp add: atlas_page.stored_def picture_of_def atlas_ok_def sizes_ok_def)
qed

lemma ok_apart:
  assumes "atlas_ok B a" "(k, g) \<in> set (glyphs a)" "shelfId g \<noteq> -1"
    "(k', h) \<in> set (glyphs a)" "shelfId h \<noteq> -1" "k \<noteq> k'" "gl_isColor g = gl_isColor h"
  shows "glyph_rect g \<inter> glyph_rect h = {}"
proof -
  let ?c = "gl_isColor g"
  have m: "picture_of B a (k, g) \<in> pictures B ?c a" "picture_of B a (k', h) \<in> pictures B ?c a"
    using assms by (auto simp: pictures_def has_place_def)
  have "atlas_page.intact (page_of ?c a) (texture_of ?c a) (pictures B ?c a)"
    using assms(1) by (simp add: atlas_ok_def textures_ok_def)
  from atlas_page.intact_separate [OF this m] show ?thesis
    using assms(6) by (simp add: separate_def picture_of_def covers_def)
qed

section \<open>Places\<close>

text \<open>The shelf that is evicted was used least recently of those without pinned glyphs.\<close>

lemma oldest_shelf_least:
  assumes "oldest_shelf c gs best ss = Some s"
    "case best of None \<Rightarrow> True | Some (u, b) \<Rightarrow> shelf_age c (sh_id b) gs = Some u"
  shows "\<exists>u. shelf_age c (sh_id s) gs = Some u \<and> (case best of None \<Rightarrow> True | Some (v, b) \<Rightarrow> u \<le> v) \<and>
    (\<forall>t\<in>set ss. \<forall>v. shelf_age c (sh_id t) gs = Some v \<longrightarrow> u \<le> v)"
  using assms
proof (induction ss arbitrary: best)
  case (Cons t ss)
  show ?case
  proof (cases "shelf_age c (sh_id t) gs")
    case None
    then show ?thesis using Cons.prems Cons.IH [of best] by simp
  next
    case (Some v)
    define b where "b = (case best of None \<Rightarrow> True | Some (u, _) \<Rightarrow> v < u)"
    let ?next = "if b then Some (v, t) else best"
    have "oldest_shelf c gs ?next ss = Some s" using Cons.prems(1) Some by (simp add: b_def split: if_splits)
    moreover have "case ?next of None \<Rightarrow> True | Some (u, b) \<Rightarrow> shelf_age c (sh_id b) gs = Some u"
      using Cons.prems(2) Some by (simp split: if_splits)
    ultimately obtain u where "shelf_age c (sh_id s) gs = Some u"
      "case ?next of None \<Rightarrow> True | Some (v, b) \<Rightarrow> u \<le> v"
      "\<forall>t\<in>set ss. \<forall>v. shelf_age c (sh_id t) gs = Some v \<longrightarrow> u \<le> v"
      using Cons.IH by blast
    then show ?thesis using Some by (auto simp: b_def split: option.splits if_splits)
  qed
qed (auto split: option.splits)

lemma evicts_least_recently_used:
  assumes "findEvictionShelf P c a = Some s" "t \<in> set (shelves P)" "shelf_age c (sh_id t) (glyphs a) = Some v"
  shows "\<exists>u\<le>v. shelf_age c (sh_id s) (glyphs a) = Some u"
  using oldest_shelf_least [OF assms(1) [unfolded findEvictionShelf_def]] assms(2,3) by auto


text \<open>A text whose picture can be drawn and, with its margin, fits an empty page.\<close>

definition fits :: "browser \<Rightarrow> request \<Rightarrow> atlas \<Rightarrow> bool" where
  "fits B q a \<longleftrightarrow> pixels_of B a (rq_grapheme q) (rq_bold q) (rq_italic q) \<noteq> None \<and>
     (case box_of B a (rq_grapheme q) (rq_bold q) (rq_italic q) of
        (w, t, e, d) \<Rightarrow> 0 < \<lceil>w + t\<rceil> \<and> 0 < \<lceil>e + d\<rceil> \<and>
          \<lceil>w + t\<rceil> + PADDING * 2 \<le> size_of (rq_isColor q) a \<and> \<lceil>e + d\<rceil> + PADDING * 2 \<le> size_of (rq_isColor q) a)"

lemma fits_kept: "kept B a a' \<Longrightarrow> fits B q a' = fits B q a"
  using font_cong [of a' a B] by (simp add: kept_def fits_def)

lemma ok_page: "atlas_ok B a \<Longrightarrow> page_ok (page_of c a)"
  by (rule atlas_page.intact_ok [of _ "texture_of c a" "pictures B c a"]) (simp add: atlas_ok_def textures_ok_def)

lemma raster_fits:
  assumes a: "atlas_ok B a" and f: "fits B q a" and r: "tryRasterizeGlyph B q a = (a', r)"
  shows "case r of Some raw \<Rightarrow> 0 < shelfId raw 
    | None \<Rightarrow> page_of (rq_isColor q) a \<noteq> empty_page (size_of (rq_isColor q) a)"
proof -
  let ?P = "page_of (rq_isColor q) a"
  obtain w t e d where box: "box_of B a (rq_grapheme q) (rq_bold q) (rq_italic q) = (w, t, e, d)"
    using prod_cases4 by blast
  let ?F = "\<lceil>w + t\<rceil> + PADDING * 2" and ?J = "\<lceil>e + d\<rceil> + PADDING * 2"
  have ok: "page_ok ?P" using ok_page [OF a] .
  have sz: "pg_width ?P = size_of (rq_isColor q) a" "pg_height ?P = size_of (rq_isColor q) a"
    using a by (simp_all add: atlas_ok_def sizes_ok_def)
  have in_page: "?F \<le> pg_width ?P" "?J \<le> pg_height ?P" and G: "\<lceil>w + t\<rceil> > 0" "\<lceil>e + d\<rceil> > 0"
    using f box unfolding fits_def sz by simp_all
  have pos: "0 < ?F" "0 < ?J" using G unfolding PADDING_def by linarith+
  show ?thesis
    using r refl box refl refl
  proof (cases rule: raster_cases)
    case blank
    then show ?thesis using in_page G by linarith
  next
    case full
    then show ?thesis using in_page(2) unfolding sz by (auto simp: place_def empty_page_def)
  next
    case (failed P x y i)
    then show ?thesis using f by (simp add: fits_def)
  next
    case (painted P x y i n)
    then show ?thesis using place_band [OF ok pos in_page(1) painted(1)] by simp
  qed
qed


lemma add_fits:
  assumes a: "atlas_ok B a" and f: "fits B q a" and r: "addGlyph B q u a = (a', r)"
  shows "case r of Some g \<Rightarrow> 0 < shelfId g | None \<Rightarrow> page_of (rq_isColor q) a \<noteq> empty_page (size_of (rq_isColor q) a)"
proof -
  obtain a1 raw where ra: "tryRasterizeGlyph B q a = (a1, raw)" by (cases "tryRasterizeGlyph B q a")
  have "r = None \<longleftrightarrow> raw = None" "\<And>g w. r = Some g \<Longrightarrow> raw = Some w \<Longrightarrow> shelfId g = shelfId w"
    using r ra by (auto simp: addGlyph_def Let_def split: option.splits prod.splits)
  then show ?thesis using raster_fits [OF a f ra] by (auto split: option.splits)
qed

lemma evict_and_add_fits:
  "\<lbrakk>atlas_ok B a; browser_ok B; fits B q a; evict_and_add B q a = (a', r)\<rbrakk>
   \<Longrightarrow> case r of Some g \<Rightarrow> 0 < shelfId g | None \<Rightarrow> set (glyphs a') \<subseteq> set (glyphs a)"
proof (induction B q a rule: evict_and_add.induct)
  case (1 B q a)
  obtain a1 f where e: "evictLeastRecentlyUsedShelf (rq_isColor q) a = (a1, f)"
    by (cases "evictLeastRecentlyUsedShelf (rq_isColor q) a")
  obtain a2 r2 where d: "addGlyph B q None a1 = (a2, r2)" by (cases "addGlyph B q None a1")
  have k1: "kept B a a1" and s1: "set (glyphs a1) \<subseteq> set (glyphs a)" using evict_kept [OF 1(2) e] by simp_all
  have k2: "kept B a a2" using kept_trans [OF k1 add_kept [OF kept_ok [OF k1] 1(3) d]] .
  note fit = add_fits [OF kept_ok [OF k1] _ d]
  show ?case
  proof (cases "f \<and> r2 = None")
    case True
    then have "evict_and_add B q a2 = (a', r)" using 1(5) e d by (simp add: evict_and_add.simps [of B q a])
    then have "case r of Some g \<Rightarrow> 0 < shelfId g | None \<Rightarrow> set (glyphs a') \<subseteq> set (glyphs a2)"
      using 1(1) [OF e [symmetric]] True d kept_ok [OF k2] 1(3,4) fits_kept [OF k2] by simp
    moreover have "glyphs a2 = glyphs a1" using glyphs_add_failed d True by blast
    ultimately show ?thesis using s1 by (auto split: option.splits)
  next
    case False
    then show ?thesis
      using 1(4,5) e d s1 fit fits_kept [OF k1]
      by (auto simp: evict_and_add.simps [of B q a] split: bool.splits option.splits)
  qed
qed

lemma repack_fits:
  assumes a: "atlas_ok B a" and B: "browser_ok B" and f: "fits B q a"
    and np: "\<forall>(k, g)\<in>set (glyphs a). gl_isColor g = rq_isColor q \<longrightarrow> \<not> gl_pinned g"
    and r: "repackAndAddGlyph B q a = (a', r)"
  shows "\<exists>g. r = Some g \<and> 0 < shelfId g"
proof -
  let ?c = "rq_isColor q"
  obtain a1 i where d: "addGlyph B q None (emptied ?c a) = (a1, i)" by (cases "addGlyph B q None (emptied ?c a)")
  have "filter (\<lambda>g. gl_pinned g \<and> gl_key g \<noteq> makeKey B q a) (sort_key (\<lambda>g. - lastUsed g)
      (filter (\<lambda>g. gl_isColor g = ?c \<and> 0 \<le> shelfId g) (map snd (glyphs a)))) = []"
    using np by (auto simp: filter_empty_conv)
  then have "r = i" using r d by (simp add: repack_unfold Let_def)
  moreover have e: "kept B a (emptied ?c a)" using emptied_kept [OF a] .
  ultimately show ?thesis
    using add_fits [OF kept_ok [OF e] _ d] f fits_kept [OF e] by (auto split: option.splits)
qed


lemma getGlyph_fits:
  assumes a: "atlas_ok B a" and B: "browser_ok B" and s: "s \<noteq> []" and q: "q = request_of B s bo it"
    and f: "fits B q a" and new: "map_of (glyphs a) (makeKey B q a) = None"
    and np: "\<forall>(k, g)\<in>set (glyphs a). gl_isColor g = rq_isColor q \<longrightarrow> \<not> gl_pinned g"
    and r: "getGlyph B s bo it a = (a', r)"
  shows "0 < shelfId r"
proof -
  obtain a1 r1 where d1: "addGlyph B q None a = (a1, r1)" by (cases "addGlyph B q None a")
  obtain a2 r2 where d2: "evict_and_add B q a1 = (a2, r2)" by (cases "evict_and_add B q a1")
  obtain a3 r3 where d3: "repackAndAddGlyph B q a2 = (a3, r3)" by (cases "repackAndAddGlyph B q a2")
  have k1: "kept B a a1" using add_kept [OF a B d1] .
  have k2: "kept B a a2" using kept_trans [OF k1 evict_and_add_kept [OF kept_ok [OF k1] B d2]] .
  note gg = r [unfolded getGlyph_def Let_def q [symmetric] new, simplified]
  note fit1 = add_fits [OF a f d1]
  note fit2 = evict_and_add_fits [OF kept_ok [OF k1] B f [folded fits_kept [OF k1]] d2]
  have fit3: "\<exists>g. r3 = Some g \<and> 0 < shelfId g" if "r1 = None" "r2 = None"
  proof (rule repack_fits [OF kept_ok [OF k2] B _ _ d3])
    show "fits B q a2" using f fits_kept [OF k2] by simp
    have "set (glyphs a2) \<subseteq> set (glyphs a)" using fit2 that(2) glyphs_add_failed d1 that(1) by auto
    then show "\<forall>(k, g)\<in>set (glyphs a2). gl_isColor g = rq_isColor q \<longrightarrow> \<not> gl_pinned g" using np by blast
  qed
  show ?thesis
    using gg s d1 d2 d3 fit1 fit2 fit3
    by (cases r1; cases r2; cases r3) auto
qed

text \<open>A glyph that is looked up again is found, and nothing is drawn.\<close>

lemma getGlyph_again:
  assumes "s \<noteq> []" "q = request_of B s bo it" "map_of (glyphs a) (makeKey B q a) = Some g"
  shows "\<exists>u. getGlyph B s bo it a = (u, raw_glyph.truncate g) \<and>
    (\<forall>c. page_of c u = page_of c a \<and> texture_of c u = texture_of c a)"
  using assms(1,3)
  by (auto simp: getGlyph_def Let_def assms(2) [symmetric] raw_glyph.defs page_of_def texture_of_def)

section \<open>Theorems\<close>


text \<open>
  A lookup in any atlas the renderer can have returns the cached glyph of exactly the text and
  style asked for, coloured as its text demands. If the glyph has a place, it has the measured size
  and the texture shows the text there; asking again returns the same glyph and draws nothing. A
  text that is not cached, can be drawn and fits an empty page gets a place whenever no glyph of
  its kind is pinned.
\<close>

theorem glyph_lookup:
  assumes "browser_ok B" "atlas_reach B a" "s \<noteq> []" "getGlyph B s bo it a = (a', r)"
    and "q = request_of B s bo it"
  shows "(\<exists>g. map_of (glyphs a') (makeKey B q a) = Some g \<and> r = raw_glyph.truncate g \<and> glyph_for B s bo it g \<and>
      (shelfId r \<noteq> -1 \<longrightarrow> measured B a' g \<and>
        (\<forall>p\<in>glyph_rect r. texture_of (is_color B s) a' p = glyph_image B a' g p))) \<and>
    (\<exists>u. getGlyph B s bo it a' = (u, r) \<and>
      (\<forall>c. page_of c u = page_of c a' \<and> texture_of c u = texture_of c a')) \<and>
    (fits B q a \<and> map_of (glyphs a) (makeKey B q a) = None \<and>
      (\<forall>(k, g)\<in>set (glyphs a). gl_isColor g = is_color B s \<longrightarrow> \<not> gl_pinned g) \<longrightarrow> 0 < shelfId r)"
    (is "?found \<and> ?again \<and> ?placed")
proof (intro conjI)
  note ok = reach_ok [OF assms(2,1)]
  obtain g where g: "map_of (glyphs a') (makeKey B q a) = Some g" "r = raw_glyph.truncate g"
    "glyph_for B s bo it g" and k: "kept B a a'"
    using getGlyph_result [OF ok assms(1,3,4) refl, folded assms(5)] by blast
  note ok' = kept_ok [OF k]
  have mem: "(makeKey B q a, g) \<in> set (glyphs a')" using g(1) by (rule map_of_SomeD)
  have "glyph_ok B a' (makeKey B q a, g)" using ok' mem by (simp add: atlas_ok_def)
  then have "shelfId g \<noteq> -1 \<Longrightarrow> measured B a' g" by (simp add: glyph_ok_def)
  moreover have "gl_isColor g = is_color B s" using g(3) by (simp add: glyph_for_def)
  ultimately show ?found using g ok_picture [OF ok' mem] by auto
  have "makeKey B q a' = makeKey B q a" by (rule font_cong) (use k in \<open>simp add: kept_def\<close>)
  then show ?again using getGlyph_again [OF assms(3,5), of a' g] g(1,2) by simp
  show ?placed
    using getGlyph_fits [OF ok assms(1,3,5) _ _ _ assms(4)] assms(5) by (auto simp: request_of_def)
qed

section \<open>An example\<close>

text \<open>
  A browser in which every text is two pixels wide and one high, and drawn as opaque pixels of the
  value of its first unit; a star and everything after it is a pictograph.
\<close>

definition demo_browser :: browser where
  "demo_browser = \<lparr>
     measureText = (\<lambda>f s. \<lparr>tm_width = Some 2, actualBoundingBoxLeft = Some (Some 0),
       actualBoundingBoxRight = Some (Some 2), actualBoundingBoxAscent = Some (Some 1),
       actualBoundingBoxDescent = Some (Some 0)\<rparr>),
     draw_text = (\<lambda>f s x y w h. Some (replicate (nat (4 * w * h)) (ucast (hd s)))),
     num_text = (\<lambda>x. js ''1''), pictographic = (\<lambda>s. Some (9733 \<le> first_code_point s)),
     premultiply = id\<rparr>"

lemma demo_browser_ok: "browser_ok demo_browser"
  by (simp add: browser_ok_def demo_browser_def metrics_ok_def)

definition demo_atlas :: "int \<Rightarrow> atlas" where
  "demo_atlas n = \<lparr>at_fontSize = 15, at_fontFamily = js ''mono'', at_dpr = 1, atlasSize = n, colorAtlasSize = n,
     at_page = empty_page n, colorPage = empty_page n, atlasTexture = (\<lambda>_. blank_texel),
     colorTexture = (\<lambda>_. blank_texel), glyphs = [], useCounter = 0\<rparr>"

lemma demo_reach: "atlas_reach demo_browser (prewarmAscii demo_browser (demo_atlas 64))"
  by (rule atlas_reach.new [of _ 64 True True "Some 15" "js ''mono''" "Some 1"])
    (simp only: new_atlas_def demo_atlas_def positive_or_def Let_def, simp)


text \<open>The glyphs drawn in advance are not coloured.\<close>

definition mono_only :: "atlas \<Rightarrow> bool" where
  "mono_only a \<longleftrightarrow> (\<forall>kg\<in>set (glyphs a). \<not> gl_isColor (snd kg))"

lemma add_mono_only:
  assumes "atlas_ok B a" "browser_ok B" "mono_only a" "\<not> rq_isColor q"
  shows "mono_only (fst (addGlyph B q u a))"
proof -
  obtain b r where d: "addGlyph B q u a = (b, r)" by (cases "addGlyph B q u a")
  have di: "distinct (map fst (glyphs a))" using assms(1) by (simp add: atlas_ok_def)
  show ?thesis
    using add_ok [OF assms(1,2) d] assms(3,4) d
    by (auto simp: mono_only_def set_update_distinct [OF di] again_def split: option.splits)
qed

lemma add_fst_ok: "\<lbrakk>atlas_ok B a; browser_ok B\<rbrakk> \<Longrightarrow> atlas_ok B (fst (addGlyph B q u a))"
  using add_after kept_ok kept_refl by blast

lemma prewarm_mono_only:
  assumes "atlas_ok B a" "browser_ok B" "mono_only a"
  shows "mono_only (prewarmAscii B a)"
proof -
  have "mono_only (fold (prewarm_char B) ns a)" for ns
    using assms(1,3)
  proof (induction ns arbitrary: a)
    case (Cons n ns)
    have "mono_only (prewarm_char B n a)"
      unfolding prewarm_char_def Let_def
      by (intro add_mono_only add_fst_ok assms(2) Cons.prems) simp_all
    then show ?case using Cons.IH [OF kept_ok [OF prewarm_char_kept [OF Cons.prems(1) assms(2)]]] by simp
  qed simp
  then show ?thesis unfolding prewarmAscii_def .
qed

text \<open>The first coloured glyph.\<close>

abbreviation demo_start :: atlas where "demo_start \<equiv> prewarmAscii demo_browser (demo_atlas 64)"

abbreviation demo_star :: "atlas \<times> raw_glyph" where
  "demo_star \<equiv> getGlyph demo_browser [9733] False False demo_start"

lemma demo_atlas_ok: "atlas_ok B (demo_atlas n)"
  by (rule fresh_ok) (simp_all add: demo_atlas_def page_of_def size_of_def)

lemma demo_star_new:
  fixes q defines "q \<equiv> request_of demo_browser [9733] False False"
  shows "fits demo_browser q demo_start" "map_of (glyphs demo_start) (makeKey demo_browser q demo_start) = None"
    "\<forall>(k, g)\<in>set (glyphs demo_start). gl_isColor g = is_color demo_browser [9733] \<longrightarrow> \<not> gl_pinned g"
proof -
  have k: "kept demo_browser (demo_atlas 64) demo_start"
    using prewarmAscii_kept [OF demo_atlas_ok demo_browser_ok] .
  have mono: "mono_only demo_start"
    by (rule prewarm_mono_only [OF demo_atlas_ok demo_browser_ok]) (simp add: mono_only_def demo_atlas_def)
  have color: "is_color demo_browser [9733]" by (simp add: is_color_def demo_browser_def)
  show "fits demo_browser q demo_start"
    unfolding fits_kept [OF k]
    by (simp add: fits_def q_def request_of_def box_of_def pixels_of_def text_box_def demo_browser_def
        demo_atlas_def size_of_def PADDING_def)
  show "map_of (glyphs demo_start) (makeKey demo_browser q demo_start) = None"
  proof (cases "map_of (glyphs demo_start) (makeKey demo_browser q demo_start)")
    case (Some g)
    have m: "(makeKey demo_browser q demo_start, g) \<in> set (glyphs demo_start)" using Some by (rule map_of_SomeD)
    then have "makeKey demo_browser (again g) demo_start = makeKey demo_browser q demo_start"
      using kept_ok [OF k] unfolding atlas_ok_def by (force simp: glyph_ok_def)
    from makeKey_inject [OF this] have "gl_isColor g" using color by (simp add: again_def q_def request_of_def)
    then show ?thesis using mono m unfolding mono_only_def by force
  qed
  show "\<forall>(k, g)\<in>set (glyphs demo_start). gl_isColor g = is_color demo_browser [9733] \<longrightarrow> \<not> gl_pinned g"
    using mono color unfolding mono_only_def by force
qed

lemma demo_star_reach: "atlas_reach demo_browser (fst demo_star)"
  using atlas_reach.lookup [OF demo_reach prod.collapse [symmetric]] .

lemma demo_star_cached: "\<exists>k g. (k, g) \<in> set (glyphs (fst demo_star)) \<and> shelfId g \<noteq> -1"
proof -
  note ok = reach_ok [OF demo_reach demo_browser_ok]
  have "0 < shelfId (snd demo_star)"
    using getGlyph_fits [OF ok demo_browser_ok _ refl demo_star_new(1,2) _ prod.collapse [symmetric]]
      demo_star_new(3) by (simp add: request_of_def)
  moreover have "([9733] :: jstr) \<noteq> []" by simp
  note getGlyph_result [OF ok demo_browser_ok this prod.collapse [symmetric] refl, of False False]
  then obtain g where g: "map_of (glyphs (fst demo_star))
      (makeKey demo_browser (request_of demo_browser [9733] False False) demo_start) = Some g"
    "snd demo_star = raw_glyph.truncate g"
    by blast
  ultimately have "shelfId g \<noteq> -1" by simp
  then show ?thesis using map_of_SomeD [OF g(1)] by blast
qed


theorem glyph_lookup_witness: "0 < shelfId (snd demo_star)"
  using glyph_lookup [OF demo_browser_ok demo_reach _ prod.collapse [symmetric] refl, of "[9733]" False False]
    demo_star_new by simp


lemmas demo_lookup = getGlyph_def Let_def demo_atlas_def addGlyph_def tryRasterizeGlyph_def request_of_def
  box_of_def text_box_def pixels_of_def demo_browser_def PADDING_def page_of_def set_page_def
  empty_page_def place_def makeKey_def is_color_def is_ascii_def upload_def full_glyph_def
  raw_glyph.defs glyph.defs js_def js_round_def

lemmas demo_evict = evictLeastRecentlyUsedShelf_def findEvictionShelf_def shelf_age_def on_this_shelf_def
  clearShelfTexture_def rewind_shelf_def rewound_def

text \<open>
  A glyph may be evicted while cells of the frame that is being written refer to it: on a page with
  room for one glyph, the second lookup returns the rectangle of the first.
\<close>

lemma eviction_reuses_rectangle:
  "let (a, r) = getGlyph demo_browser [9733] False False (demo_atlas 4);
       (a', r') = getGlyph demo_browser [9734] False False a
   in 0 < shelfId r \<and> r' = r"
  apply (simp add: demo_lookup)
  apply (subst evict_and_add.simps)
  apply (simp add: demo_lookup demo_evict)
  done

text \<open>New textures without a new cache leave the cached glyphs blank.\<close>

lemma recreated_textures_blank:
  "let (a, r) = getGlyph demo_browser [9733] False False (demo_atlas 4)
   in case recreateTextures True a of
        Inr a' \<Rightarrow> snd (getGlyph demo_browser [9733] False False a') = r \<and> 0 < atlasW r \<and>
          texture_of True a' (atlasX r, atlasY r) = blank_texel
      | Inl _ \<Rightarrow> False"
  by (simp add: demo_lookup recreateTextures_def texture_of_def)

end
