(* ===== verification/Gw_Cells.thy ===== *)
theory Gw_Cells
  imports Gw_Atlas_Cache Gw_Selection
begin

text \<open>
  The cell buffer of the WebGL renderer (class \<open>KA\<close> of \<open>ghostty-web.js\<close>): one record of 32 bytes
  for each cell of the grid, kept in an \<open>ArrayBuffer\<close> and copied to a buffer of the GPU. Writing a
  row resolves the colours of each cell and looks its glyph up in the atlas; only rows that may have
  changed are written, and neighbouring ones are uploaded together.

  Colours are numbers as the code has them. Alpha values are rational; the function that decodes a
  grapheme is a parameter, since it belongs to the terminal.
\<close>

section \<open>What a frame is drawn from\<close>

record rgba =
  c_r :: int
  c_g :: int
  c_b :: int
  c_a :: rat

record gl_theme =
  th_foreground :: rgba
  th_background :: rgba
  th_cursor :: rgba
  th_cursorAccent :: rgba
  th_selectionBackground :: rgba
  th_selectionForeground :: "rgba option"
  selectionOpacity :: rat

record gl_decoration =
  de_line :: int
  de_column :: int
  de_length :: int
  de_background :: "rgba option"
  de_foreground :: "rgba option"

record link_range =
  startX :: int
  startY :: int
  endX :: int
  endY :: int

record hovered_link =
  hl_id :: nat
  hl_range :: "link_range option"

datatype dirty_state = NONE | PARTIAL | FULL

text \<open>
  The input of a frame. A row of graphemes has the texts of some of its columns. The numbers of
  columns and rows are whole, as the terminal gives them.
\<close>

record frame_input =
  fi_cols :: int
  fi_rows :: int
  viewportCells :: "cell list"
  graphemeRows :: "(nat \<Rightarrow> jstr option) option list"
  rowFlags :: "nat list"
  dirtyState :: dirty_state
  selectionRange :: "coords option"
  hoveredLink :: "hovered_link option"
  decorations :: "gl_decoration list"
  fi_getGrapheme :: "(nat \<Rightarrow> nat \<Rightarrow> jstr) option"
  fi_theme :: gl_theme
  fi_viewportY :: rat
  fi_scrollback :: int

section \<open>Numbers\<close>

text \<open>Functions \<open>Z\<close>, \<open>WA\<close>, \<open>FA\<close> and \<open>V\<close>.\<close>

definition clamp_byte :: "int \<Rightarrow> int" where
  "clamp_byte b = (if b < 0 then 0 else if b > 255 then 255 else b)"

definition clamp_short :: "int \<Rightarrow> int" where
  "clamp_short b = (if b < -32768 then -32768 else if b > 32767 then 32767 else b)"

definition clamp_unit :: "rat \<Rightarrow> rat" where
  "clamp_unit b = (if b < 0 then 0 else if b > 1 then 1 else b)"

definition pack4 :: "int \<Rightarrow> int \<Rightarrow> int \<Rightarrow> int \<Rightarrow> 32 word" where
  "pack4 b a g i =
     (word_of_int b AND 255) OR push_bit 8 (word_of_int a AND 255) OR
     push_bit 16 (word_of_int g AND 255) OR push_bit 24 (word_of_int i AND 255)"

text \<open>Little-endian stores of a \<open>DataView\<close>; numbers wrap to the width of the field.\<close>

definition le16 :: "int \<Rightarrow> byte list" where
  "le16 n = [word_of_int n, word_of_int (n div 256)]"

definition le32 :: "32 word \<Rightarrow> byte list" where
  "le32 w = [ucast w, ucast (drop_bit 8 w), ucast (drop_bit 16 w), ucast (drop_bit 24 w)]"

section \<open>The colours of a cell\<close>

record resolved =
  fgR :: int
  fgG :: int
  fgB :: int
  fgA :: int
  bgR :: int
  bgG :: int
  bgB :: int
  bgA :: int
  decoR :: int
  decoG :: int
  decoB :: int
  decoA :: int
  decoFlags :: nat

definition DECO_UNDERLINE :: nat where "DECO_UNDERLINE = 1"
definition DECO_STRIKE :: nat where "DECO_STRIKE = 2"
definition DECO_LINK :: nat where "DECO_LINK = 4"

text \<open>Function \<open>aB\<close>: the last decoration that covers the cell.\<close>

definition decoration_at :: "gl_decoration list \<Rightarrow> int \<Rightarrow> int \<Rightarrow> gl_decoration option" where
  "decoration_at ds line col =
     find (\<lambda>d. de_line d = line \<and> de_column d \<le> col \<and> col < de_column d + de_length d) (rev ds)"

text \<open>Function \<open>GB\<close>, in its steps: the colours of the cell itself, \<open>INVERSE\<close> applied.\<close>

definition own_colors :: "cell \<Rightarrow> (int \<times> int \<times> int) \<times> (int \<times> int \<times> int) \<times> bool \<times> bool" where
  "own_colors c =
     (let f = (int (fg_r c), int (fg_g c), int (fg_b c)); b = (int (bg_r c), int (bg_g c), int (bg_b c))
      in if has_attr INVERSE c then (b, f, bgIsDefault c, fgIsDefault c)
         else (f, b, fgIsDefault c, bgIsDefault c))"

definition rgb_of :: "rgba \<Rightarrow> int \<times> int \<times> int" where
  "rgb_of x = (c_r x, c_g x, c_b x)"

definition blend :: "rat \<Rightarrow> int \<Rightarrow> int \<Rightarrow> int" where
  "blend h lower upper = clamp_byte (js_round (of_int lower * (1 - h) + of_int upper * h))"

text \<open>The foreground and its alpha before the selection; \<open>sel\<close> says that the cell is selected.\<close>

definition foreground_of :: "cell \<Rightarrow> gl_theme \<Rightarrow> bool \<Rightarrow> gl_decoration option \<Rightarrow> (int \<times> int \<times> int) \<times> rat" where
  "foreground_of c th sel d =
     (let (f, b, fd, bd) = own_colors c;
          f = (if fd then rgb_of (th_foreground th) else f);
          a = (if fd then clamp_unit (c_a (th_foreground th)) * 255 else 255);
          (f, a) = (case d of
             None \<Rightarrow> (f, a)
           | Some d \<Rightarrow> (case de_foreground d of
                None \<Rightarrow> (f, a)
              | Some x \<Rightarrow> if sel then (f, a) else (rgb_of x, clamp_unit (c_a x) * 255)))
      in (f, if has_attr INVISIBLE c then 0
             else if has_attr FAINT c then of_int (js_round (a * (1 / 2))) else a))"

definition background_of :: "cell \<Rightarrow> bool \<Rightarrow> gl_decoration option \<Rightarrow> (int \<times> int \<times> int) \<times> int" where
  "background_of c sel d =
     (let (f, b, fd, bd) = own_colors c;
          g = (if bd then 0 else 255)
      in case d of
           None \<Rightarrow> (b, g)
         | Some d \<Rightarrow> (case de_background d of
              None \<Rightarrow> (b, g)
            | Some x \<Rightarrow> if sel then (b, g) else (rgb_of x, clamp_byte (js_round (c_a x * 255)))))"

text \<open>The selection over the background of the cell, or over the theme's where that is the default.\<close>

definition select_back :: "cell \<Rightarrow> gl_theme \<Rightarrow> int \<times> int \<times> int \<Rightarrow> int \<times> int \<times> int" where
  "select_back c th b =
     (let (_, _, _, bd) = own_colors c;
          h = clamp_unit (selectionOpacity th * c_a (th_selectionBackground th));
          (r, g, bl) = (if bd then rgb_of (th_background th) else b);
          (sr, sg, sb) = rgb_of (th_selectionBackground th)
      in (blend h r sr, blend h g sg, blend h bl sb))"

definition resolve :: "cell \<Rightarrow> gl_theme \<Rightarrow> bool \<Rightarrow> bool \<Rightarrow> gl_decoration option \<Rightarrow> resolved" where
  "resolve c th sel link d =
     (let (f, a) = foreground_of c th sel d;
          (b, ba) = background_of c sel d;
          (f, a, b, ba) =
            (if sel then
               let b = select_back c th b
               in case th_selectionForeground th of
                    Some x \<Rightarrow> (rgb_of x, of_int (clamp_byte (js_round (c_a x * 255))), b, 255)
                  | None \<Rightarrow> (f, a, b, 255)
             else (f, a, b, ba));
          n = ((if has_attr UNDERLINE c then DECO_UNDERLINE else 0) OR
               (if has_attr STRIKETHROUGH c then DECO_STRIKE else 0)) OR
              (if link then DECO_LINK else 0);
          (dr, dg, db) = (if link then (74, 144, 226) else f)
      in \<lparr>fgR = fst f, fgG = fst (snd f), fgB = snd (snd f), fgA = clamp_byte (js_round a),
          bgR = fst b, bgG = fst (snd b), bgB = snd (snd b), bgA = ba,
          decoR = dr, decoG = dg, decoB = db, decoA = 255, decoFlags = n\<rparr>)"

section \<open>Ranges of columns\<close>

text \<open>
  The columns of row \<open>r\<close> in a range that runs from a column of one row to a column of another: the
  part of the selection, or of a link, in that row.
\<close>

definition columns_in :: "int \<Rightarrow> int \<Rightarrow> int \<Rightarrow> int \<Rightarrow> int \<Rightarrow> int \<Rightarrow> int \<times> int" where
  "columns_in cols r sc sr ec er =
     (if sr \<le> r \<and> r \<le> er then
        if sr = er then (sc, ec)
        else if r = sr then (sc, cols - 1)
        else if r = er then (0, ec)
        else (0, cols - 1)
      else (-1, -1))"

definition selected_columns :: "frame_input \<Rightarrow> int \<Rightarrow> int \<Rightarrow> int \<times> int" where
  "selected_columns A cols r =
     (case selectionRange A of
        None \<Rightarrow> (-1, -1)
      | Some s \<Rightarrow> columns_in cols r (startCol s) (startRow s) (endCol s) (endRow s))"

definition link_id :: "frame_input \<Rightarrow> nat" where
  "link_id A = (case hoveredLink A of None \<Rightarrow> 0 | Some h \<Rightarrow> hl_id h)"

definition linked_columns :: "frame_input \<Rightarrow> int \<Rightarrow> int \<Rightarrow> int \<times> int" where
  "linked_columns A cols r =
     (case hoveredLink A of
        None \<Rightarrow> (-1, -1)
      | Some h \<Rightarrow>
          (case hl_range h of
             Some k \<Rightarrow> if hl_id h = 0 then columns_in cols r (startX k) (startY k) (endX k) (endY k) else (-1, -1)
           | None \<Rightarrow> (-1, -1)))"

definition in_columns :: "int \<times> int \<Rightarrow> int \<Rightarrow> bool" where
  "in_columns ab k = (0 \<le> fst ab \<and> fst ab \<le> k \<and> k \<le> snd ab)"

definition is_linked :: "frame_input \<Rightarrow> int \<Rightarrow> int \<Rightarrow> int \<Rightarrow> cell \<Rightarrow> bool" where
  "is_linked A cols r k c =
     (if link_id A > 0 then hyperlink_id c = link_id A else in_columns (linked_columns A cols r) k)"


section \<open>Writing cells\<close>

definition EMPTY_CODE :: nat where "EMPTY_CODE = 32"
definition GLYPH_COLOR :: nat where "GLYPH_COLOR = 1"
definition CELL_BYTES :: nat where "CELL_BYTES = 32"

text \<open>
  The text of a cell and whether it is drawn. \<open>row\<close> are the graphemes of the row, \<open>get\<close> decodes
  one on demand. \<open>String.fromCodePoint\<close> throws on a number that is no code point.
\<close>

definition cell_glyph_text ::
  "(nat \<Rightarrow> jstr option) option \<Rightarrow> (nat \<Rightarrow> nat \<Rightarrow> jstr) option \<Rightarrow> nat \<Rightarrow> nat \<Rightarrow> cell \<Rightarrow> (jstr \<times> bool) result" where
  "cell_glyph_text row get r k c =
     (if grapheme_len c > 0 then
        let t = (case (case row of None \<Rightarrow> None | Some f \<Rightarrow> f k) of
                   Some q \<Rightarrow> q
                 | None \<Rightarrow> (case get of Some f \<Rightarrow> f r k | None \<Rightarrow> []))
        in Inr (t, if length t = 1 then unat (hd t) > EMPTY_CODE else \<not> blank_text t)
      else
        let q = (if codepoint c = 0 then int EMPTY_CODE else codepoint c)
        in if q > int EMPTY_CODE
           then if q > 1114111 then Inl Range_Error else Inr (utf16 (nat q), True)
           else Inr ([], False))"

text \<open>The 32 bytes of a cell: rectangle in the atlas, bearings, flags, three colours and a reserved word.\<close>

definition cell_bytes :: "nat \<Rightarrow> resolved \<Rightarrow> nat \<Rightarrow> raw_glyph \<Rightarrow> byte list" where
  "cell_bytes n a q R =
     le16 (atlasX R) @ le16 (atlasY R) @ le16 (atlasW R) @ le16 (atlasH R) @
     le16 (clamp_short (bearingX R)) @ le16 (clamp_short (bearingY R)) @
     le32 (pack4 (int n) (int (decoFlags a)) (int q) 0) @
     le32 (pack4 (fgR a) (fgG a) (fgB a) (fgA a)) @
     le32 (pack4 (bgR a) (bgG a) (bgB a) (bgA a)) @
     le32 (pack4 (decoR a) (decoG a) (decoB a) (decoA a)) @ le32 0"

definition writeEmptyCell :: "byte list" where
  "writeEmptyCell = replicate 12 0 @ le32 (pack4 1 0 0 0) @ replicate 16 0"

text \<open>The glyph of a cell: nothing where it has no width, is transparent or invisible, or blank.\<close>

definition cell_glyph ::
  "browser \<Rightarrow> (nat \<Rightarrow> jstr option) option \<Rightarrow> (nat \<Rightarrow> nat \<Rightarrow> jstr) option \<Rightarrow> nat \<Rightarrow> nat \<Rightarrow> resolved \<Rightarrow> cell
   \<Rightarrow> atlas \<Rightarrow> (atlas \<times> raw_glyph option) result" where
  "cell_glyph B row get r k res c a =
     (if cwidth c > 0 \<and> fgA res > 0 \<and> \<not> has_attr INVISIBLE c then
        and_then (cell_glyph_text row get r k c) (\<lambda>(t, ca).
          if ca then let (a, R) = getGlyph B t (has_attr BOLD c) (has_attr ITALIC c) a in Inr (a, Some R)
          else Inr (a, None))
      else Inr (a, None))"

text \<open>The colours of the cell \<open>c\<close> in column \<open>k\<close> of row \<open>r\<close>.\<close>

definition cell_colors :: "frame_input \<Rightarrow> nat \<Rightarrow> nat \<Rightarrow> cell \<Rightarrow> resolved" where
  "cell_colors A r k c =
     (let line = int r + fi_scrollback A - \<lfloor>fi_viewportY A\<rfloor>;
          sel = in_columns (selected_columns A (fi_cols A) (int r)) (int k)
      in resolve c (fi_theme A) sel (is_linked A (fi_cols A) (int r) (int k) c)
           (decoration_at (decorations A) line (int k)))"

text \<open>The bytes of column \<open>k\<close> of row \<open>r\<close>; the atlas changes with the lookup.\<close>

definition write_cell ::
  "browser \<Rightarrow> frame_input \<Rightarrow> (nat \<Rightarrow> jstr option) option \<Rightarrow> (nat \<Rightarrow> nat \<Rightarrow> jstr) option \<Rightarrow> nat \<Rightarrow> nat \<Rightarrow> atlas
   \<Rightarrow> (atlas \<times> byte list) result" where
  "write_cell B A row get r k a =
     (let i = r * nat (fi_cols A) + k
      in if i < length (viewportCells A) then
           let c = viewportCells A ! i; res = cell_colors A r k c
           in and_then (cell_glyph B row get r k res c a) (\<lambda>(a, R).
                let g = (case R of Some R \<Rightarrow> R | None \<Rightarrow> no_glyph False);
                    q = (case R of Some R \<Rightarrow> if gl_isColor R then GLYPH_COLOR else 0 | None \<Rightarrow> 0)
                in Inr (a, cell_bytes (cwidth c) res q g))
         else Inr (a, writeEmptyCell))"

text \<open>Stores outside the array throw.\<close>

definition store :: "nat \<Rightarrow> byte list \<Rightarrow> byte list \<Rightarrow> byte list result" where
  "store off bs d =
     (if off + length bs \<le> length d then Inr (take off d @ bs @ drop (off + length bs) d) else Inl Range_Error)"

fun write_columns ::
  "browser \<Rightarrow> frame_input \<Rightarrow> (nat \<Rightarrow> jstr option) option \<Rightarrow> (nat \<Rightarrow> nat \<Rightarrow> jstr) option \<Rightarrow> nat \<Rightarrow> nat list
   \<Rightarrow> atlas \<times> byte list \<Rightarrow> (atlas \<times> byte list) result" where
  "write_columns B A row get r [] ad = Inr ad"
| "write_columns B A row get r (k # ks) (a, d) =
     and_then (write_cell B A row get r k a) (\<lambda>(a, bs).
       and_then (store ((r * nat (fi_cols A) + k) * CELL_BYTES) bs d) (\<lambda>d.
         write_columns B A row get r ks (a, d)))"

definition writeRow ::
  "browser \<Rightarrow> frame_input \<Rightarrow> (nat \<Rightarrow> jstr option) option \<Rightarrow> (nat \<Rightarrow> nat \<Rightarrow> jstr) option \<Rightarrow> nat
   \<Rightarrow> atlas \<times> byte list \<Rightarrow> (atlas \<times> byte list) result" where
  "writeRow B A row get r ad = write_columns B A row get r [0..<nat (fi_cols A)] ad"

section \<open>The buffer\<close>

text \<open>\<open>gpu\<close> is the contents of the GL buffer, which \<open>bufferData\<close> allocates with zeros.\<close>

record cell_buffer =
  cb_cols :: int
  cb_rows :: int
  u8 :: "byte list"
  gpu :: "byte list"

definition new_cell_buffer :: "bool \<Rightarrow> cell_buffer result" where
  "new_cell_buffer ok =
     (if ok then Inr \<lparr>cb_cols = 0, cb_rows = 0, u8 = [], gpu = []\<rparr>
      else Inl (Js_Error ''Failed to create WebGL buffer''))"

definition dispose_cell_buffer :: "cell_buffer \<Rightarrow> cell_buffer" where
  "dispose_cell_buffer b = b\<lparr>u8 := [], gpu := [], cb_cols := 0, cb_rows := 0\<rparr>"

definition MAX_SAFE :: int where "MAX_SAFE = 9007199254740991"

definition resize_cells :: "num_arg \<Rightarrow> num_arg \<Rightarrow> cell_buffer \<Rightarrow> cell_buffer" where
  "resize_cells A g b =
     (case (A, g) of
        (Some x, Some y) \<Rightarrow>
          let c = \<lfloor>x\<rfloor>; r = \<lfloor>y\<rfloor>
          in if x < 1 \<or> y < 1 \<or> (c = cb_cols b \<and> r = cb_rows b) then b
             else let b = b\<lparr>cb_cols := c, cb_rows := r\<rparr>; n = c * r * int CELL_BYTES
                  in if n > MAX_SAFE \<or> n \<le> 0 then b
                     else b\<lparr>u8 := replicate (nat n) 0, gpu := replicate (nat n) 0\<rparr>
      | _ \<Rightarrow> b)"

text \<open>The rows to write: all of them, or those with a flag for new contents, selection or hovering.\<close>

definition ROW_DIRTY :: nat where "ROW_DIRTY = 1"
definition ROW_SELECTION :: nat where "ROW_SELECTION = 2"
definition ROW_HYPERLINK :: nat where "ROW_HYPERLINK = 4"

definition rows_to_write :: "frame_input \<Rightarrow> bool \<Rightarrow> nat list" where
  "rows_to_write A force =
     (if force \<or> dirtyState A = FULL then [0..<nat (fi_rows A)]
      else filter (\<lambda>r. r < length (rowFlags A) \<and>
             rowFlags A ! r AND (ROW_DIRTY OR ROW_SELECTION OR ROW_HYPERLINK) \<noteq> 0) [0..<nat (fi_rows A)])"

text \<open>Decoding graphemes here, where the input has none decoded.\<close>

definition resolveLegacyGraphemeRow :: "frame_input \<Rightarrow> nat \<Rightarrow> (nat \<Rightarrow> jstr option) option" where
  "resolveLegacyGraphemeRow A r =
     (case fi_getGrapheme A of
        None \<Rightarrow> None
      | Some f \<Rightarrow>
          let n = nat (fi_cols A);
              has = (\<lambda>k. r * n + k < length (viewportCells A) \<and>
                (let c = viewportCells A ! (r * n + k) in cwidth c \<noteq> 0 \<and> grapheme_len c > 0))
          in if (\<exists>k\<in>set [0..<n]. has k)
             then Some (\<lambda>k. if k < n \<and> has k then Some (f r k) else None) else None)"

definition resolveLegacyGraphemeRows :: "frame_input \<Rightarrow> nat list \<Rightarrow> (nat \<Rightarrow> jstr option) option list" where
  "resolveLegacyGraphemeRows A rs =
     (case fi_getGrapheme A of
        None \<Rightarrow> []
      | Some _ \<Rightarrow> map (\<lambda>r. if r \<in> set rs then resolveLegacyGraphemeRow A r else None) [0..<nat (fi_rows A)])"

definition grapheme_source ::
  "frame_input \<Rightarrow> nat list \<Rightarrow> (nat \<Rightarrow> jstr option) option list \<times> (nat \<Rightarrow> nat \<Rightarrow> jstr) option" where
  "grapheme_source A rs =
     (if graphemeRows A \<noteq> [] then (graphemeRows A, fi_getGrapheme A)
      else (resolveLegacyGraphemeRows A rs, None))"

definition row_at :: "(nat \<Rightarrow> jstr option) option list \<Rightarrow> nat \<Rightarrow> (nat \<Rightarrow> jstr option) option" where
  "row_at t r = (if r < length t then t ! r else None)"

fun write_rows ::
  "browser \<Rightarrow> frame_input \<Rightarrow> (nat \<Rightarrow> jstr option) option list \<Rightarrow> (nat \<Rightarrow> nat \<Rightarrow> jstr) option \<Rightarrow> nat list
   \<Rightarrow> atlas \<times> byte list \<Rightarrow> (atlas \<times> byte list) result" where
  "write_rows B A t get [] ad = Inr ad"
| "write_rows B A t get (r # rs) ad =
     and_then (writeRow B A (row_at t r) get r ad) (write_rows B A t get rs)"

section \<open>Uploading\<close>

text \<open>\<open>bufferSubData\<close>: data that does not fit the buffer is an error and changes nothing.\<close>

definition bufferSubData :: "nat \<Rightarrow> byte list \<Rightarrow> byte list \<Rightarrow> byte list" where
  "bufferSubData off bs g =
     (if off + length bs \<le> length g then take off g @ bs @ drop (off + length bs) g else g)"

definition upload_rows :: "nat \<Rightarrow> byte list \<Rightarrow> nat \<Rightarrow> nat \<Rightarrow> byte list \<Rightarrow> byte list" where
  "upload_rows G d k h g = bufferSubData (k * G) (take ((h - k + 1) * G) (drop (k * G) d)) g"

text \<open>The run from row \<open>k\<close> to row \<open>h\<close> is collected; it is uploaded when the next row does not follow.\<close>

fun upload_runs :: "nat \<Rightarrow> byte list \<Rightarrow> nat \<Rightarrow> nat \<Rightarrow> nat list \<Rightarrow> byte list \<Rightarrow> byte list" where
  "upload_runs G d k h [] g = upload_rows G d k h g"
| "upload_runs G d k h (r # rs) g =
     (if r = h + 1 then upload_runs G d k r rs g
      else upload_runs G d r r rs (upload_rows G d k h g))"

definition upload_dirty :: "nat \<Rightarrow> int \<Rightarrow> bool \<Rightarrow> nat list \<Rightarrow> byte list \<Rightarrow> byte list \<Rightarrow> byte list" where
  "upload_dirty G rows force rs d g =
     (if 2 * int (length rs) > rows \<or> force then bufferSubData 0 d g
      else case rs of r # rs \<Rightarrow> upload_runs G d r r rs g | [] \<Rightarrow> g)"

text \<open>\<open>update\<close>. An exception leaves the loop with the array half written; the buffer is not uploaded.\<close>

definition update_cells :: "browser \<Rightarrow> frame_input \<Rightarrow> bool \<Rightarrow> atlas \<Rightarrow> cell_buffer \<Rightarrow> (atlas \<times> cell_buffer) result" where
  "update_cells B A force a b =
     (let Q = fi_rows A; C = fi_cols A
      in if C < 1 \<or> Q < 1 \<or> Q * C > MAX_SAFE \<or> int (length (viewportCells A)) < Q * C then Inr (a, b)
         else
           let b = (if C \<noteq> cb_cols b \<or> Q \<noteq> cb_rows b then resize_cells (Some (of_int C)) (Some (of_int Q)) b else b);
               rs = rows_to_write A force
           in if rs = [] then Inr (a, b)
              else
                let (t, get) = grapheme_source A rs
                in and_then (write_rows B A t get rs (a, u8 b)) (\<lambda>(a, d).
                     Inr (a, b\<lparr>u8 := d, gpu := upload_dirty (nat C * CELL_BYTES) Q force rs d (gpu b)\<rparr>)))"

end
