(* ===== verification/Gw_Cells_Props.thy ===== *)
theory Gw_Cells_Props
  imports Gw_Cells Gw_Selection_Props
begin

text \<open>
  The cell buffer: after every update that returns, the GPU has the bytes of the array, and the
  vertex attributes the shaders read of a cell are the glyph, the flags and the colours resolved for
  it. An update returns whenever the code points are valid.
\<close>

section \<open>Cells of a byte array\<close>

definition cell_at :: "byte list \<Rightarrow> nat \<Rightarrow> byte list" where
  "cell_at d j = take CELL_BYTES (drop (j * CELL_BYTES) d)"

lemma length_cell_at: "(j + 1) * CELL_BYTES \<le> length d \<Longrightarrow> length (cell_at d j) = CELL_BYTES"
  by (simp add: cell_at_def CELL_BYTES_def)

lemma nth_cell_at:
  "\<lbrakk>(j + 1) * CELL_BYTES \<le> length d; i < CELL_BYTES\<rbrakk> \<Longrightarrow> cell_at d j ! i = d ! (j * CELL_BYTES + i)"
  by (simp add: cell_at_def CELL_BYTES_def)

text \<open>A splice of whole cells.\<close>

lemma cell_at_splice:
  assumes m: "length bs = m * CELL_BYTES" and fit: "(j0 + m) * CELL_BYTES \<le> length g" and j: "(j + 1) * CELL_BYTES \<le> length g"
  shows "cell_at (take (j0 * CELL_BYTES) g @ bs @ drop (j0 * CELL_BYTES + length bs) g) j =
    (if j0 \<le> j \<and> j < j0 + m then cell_at bs (j - j0) else cell_at g j)"
    (is "cell_at ?x j = ?rhs")
proof (rule nth_equalityI)
  have len: "length ?x = length g" using m fit by (simp add: CELL_BYTES_def)
  have in_bs: "(j - j0 + 1) * CELL_BYTES \<le> length bs" if "j0 \<le> j" "j < j0 + m"
    unfolding m using that by (intro mult_right_mono) auto
  show "length (cell_at ?x j) = length ?rhs"
    using len j in_bs length_cell_at [of j g] length_cell_at [of j ?x] length_cell_at [of "j - j0" bs] by auto
  fix i assume "i < length (cell_at ?x j)"
  then have i: "i < CELL_BYTES" using length_cell_at [of j ?x] j len by simp
  have x: "cell_at ?x j ! i = ?x ! (j * CELL_BYTES + i)" using nth_cell_at [of j ?x i] i j len by simp
  consider "j < j0" | "j0 \<le> j" "j < j0 + m" | "j0 + m \<le> j" by linarith
  then show "cell_at ?x j ! i = ?rhs ! i"
  proof cases
    case 1
    then have "j * CELL_BYTES + i < j0 * CELL_BYTES" using i by (simp add: CELL_BYTES_def)
    then show ?thesis using 1 x i j fit nth_cell_at [of j g i] by (simp add: nth_append CELL_BYTES_def)
  next
    case 2
    have "i + j * 32 - j0 * 32 < m * 32" using 2 i by (simp add: CELL_BYTES_def)
    then show ?thesis
      using 2 x i fit m nth_cell_at [OF in_bs [OF 2] i]
      by (simp add: nth_append CELL_BYTES_def algebra_simps diff_mult_distrib)
  next
    case 3
    then have "\<not> i + j * 32 - j0 * 32 < m * 32" by simp
    then show ?thesis
      using 3 x i j fit m nth_cell_at [of j g i] by (simp add: nth_append CELL_BYTES_def algebra_simps)
  qed
qed

lemma cells_eq:
  assumes "length d = n * CELL_BYTES" "length g = n * CELL_BYTES" "\<And>j. j < n \<Longrightarrow> cell_at d j = cell_at g j"
  shows "d = g"
proof (rule nth_equalityI)
  show "length d = length g" using assms by simp
  fix i assume i: "i < length d"
  let ?j = "i div CELL_BYTES" and ?o = "i mod CELL_BYTES"
  have "?j < n" using i assms(1) by (simp add: less_mult_imp_div_less)
  moreover have "?o < CELL_BYTES" by (simp add: CELL_BYTES_def)
  moreover have "(?j + 1) * CELL_BYTES \<le> n * CELL_BYTES" using \<open>?j < n\<close> by (intro mult_right_mono) auto
  ultimately show "d ! i = g ! i"
    using nth_cell_at [of ?j d ?o] nth_cell_at [of ?j g ?o] assms by simp
qed


section \<open>Writing\<close>

definition code_points_ok :: "frame_input \<Rightarrow> bool" where
  "code_points_ok A \<longleftrightarrow> (\<forall>c\<in>set (viewportCells A). codepoint c \<le> 1114111)"

lemma length_cell_bytes: "length (cell_bytes n res q R) = CELL_BYTES"
  by (simp add: cell_bytes_def le16_def le32_def CELL_BYTES_def)

lemma length_writeEmptyCell: "length writeEmptyCell = CELL_BYTES"
  by (simp add: writeEmptyCell_def le32_def CELL_BYTES_def)

lemma cell_glyph_reach:
  assumes "atlas_reach B a" "cell_glyph B row get r k res c a = Inr (a', R)"
  shows "atlas_reach B a'"
  using assms by (auto simp: cell_glyph_def and_then_Inr_iff split: if_splits prod.splits
    intro: atlas_reach.lookup)

lemma cell_glyph_returns: "codepoint c \<le> 1114111 \<Longrightarrow> \<exists>x. cell_glyph B row get r k res c a = Inr x"
  by (auto simp: cell_glyph_def cell_glyph_text_def Let_def split: prod.splits)

lemma write_cell_reach:
  assumes "atlas_reach B a" "write_cell B A row get r k a = Inr (a', bs)"
  shows "atlas_reach B a' \<and> length bs = CELL_BYTES"
  using assms cell_glyph_reach [OF assms(1)]
  by (auto simp: write_cell_def Let_def and_then_Inr_iff length_cell_bytes length_writeEmptyCell split: if_splits)

lemma and_then_returns:
  "\<lbrakk>\<exists>x. r = Inr x; \<And>x. \<exists>y. f x = Inr y\<rbrakk> \<Longrightarrow> \<exists>y. and_then r f = Inr y"
  by auto

lemma write_cell_returns:
  assumes "code_points_ok A"
  shows "\<exists>x. write_cell B A row get r k a = Inr x"
proof (cases "r * nat (fi_cols A) + k < length (viewportCells A)")
  case True
  then have "codepoint (viewportCells A ! (r * nat (fi_cols A) + k)) \<le> 1114111"
    using assms by (simp add: code_points_ok_def)
  then show ?thesis
    unfolding write_cell_def Let_def if_P [OF True]
    by (intro and_then_returns cell_glyph_returns) (auto split: prod.splits)
qed (simp add: write_cell_def)

text \<open>What was written into a cell: the bytes \<open>write_cell\<close> gives for an atlas of the renderer.\<close>

definition written :: "browser \<Rightarrow> frame_input \<Rightarrow> (nat \<Rightarrow> jstr option) option \<Rightarrow> (nat \<Rightarrow> nat \<Rightarrow> jstr) option \<Rightarrow>
    nat \<Rightarrow> nat \<Rightarrow> byte list \<Rightarrow> bool" where
  "written B A row get r k bs \<longleftrightarrow> (\<exists>a1 a2. atlas_reach B a1 \<and> write_cell B A row get r k a1 = Inr (a2, bs))"

lemma write_columns_result:
  assumes "code_points_ok A" "atlas_reach B a" "length d = n * CELL_BYTES"
    "\<forall>k\<in>set ks. r * nat (fi_cols A) + k < n" "distinct ks"
  shows "\<exists>a' d'. write_columns B A row get r ks (a, d) = Inr (a', d') \<and> atlas_reach B a' \<and> length d' = length d \<and>
    (\<forall>j<n. if j \<in> (\<lambda>k. r * nat (fi_cols A) + k) ` set ks
       then written B A row get r (j - r * nat (fi_cols A)) (cell_at d' j) else cell_at d' j = cell_at d j)"
  using assms(2-)
proof (induction ks arbitrary: a d)
  case (Cons k ks)
  let ?j = "r * nat (fi_cols A) + k"
  obtain a1 bs where w: "write_cell B A row get r k a = Inr (a1, bs)"
    using write_cell_returns [OF assms(1)] by (metis prod.collapse)
  have a1: "atlas_reach B a1" and bs: "length bs = CELL_BYTES" using write_cell_reach [OF Cons.prems(1) w] by auto
  define d1 where "d1 = take (?j * CELL_BYTES) d @ bs @ drop (?j * CELL_BYTES + length bs) d"
  have "?j < n" using Cons.prems(3) by simp
  then have fit: "(?j + 1) * CELL_BYTES \<le> length d" unfolding Cons.prems(2) by (intro mult_right_mono) auto
  then have st: "store (?j * CELL_BYTES) bs d = Inr d1" by (simp add: store_def d1_def bs)
  have len: "length d1 = n * CELL_BYTES" using fit bs Cons.prems(2) by (simp add: d1_def)
  have at: "cell_at d1 j = (if j = ?j then bs else cell_at d j)" if "j < n" for j
  proof -
    have "(j + 1) * CELL_BYTES \<le> length d" unfolding Cons.prems(2) using that by (intro mult_right_mono) auto
    then show ?thesis
      using cell_at_splice [of bs 1 ?j d j] bs fit by (auto simp: d1_def cell_at_def)
  qed
  obtain a' d' where r: "write_columns B A row get r ks (a1, d1) = Inr (a', d')" "atlas_reach B a'"
    "length d' = length d1" "\<And>j. j < n \<Longrightarrow> if j \<in> (\<lambda>k. r * nat (fi_cols A) + k) ` set ks
       then written B A row get r (j - r * nat (fi_cols A)) (cell_at d' j) else cell_at d' j = cell_at d1 j"
    using Cons.IH [OF a1 len] Cons.prems(3,4) by auto
  have "?j \<notin> (\<lambda>k. r * nat (fi_cols A) + k) ` set ks" using Cons.prems(4) by auto
  then have "written B A row get r k (cell_at d' ?j)"
    using r(4) [OF \<open>?j < n\<close>] at [OF \<open>?j < n\<close>] w Cons.prems(1) by (auto simp: written_def)
  then have "if j \<in> (\<lambda>k. r * nat (fi_cols A) + k) ` set (k # ks)
       then written B A row get r (j - r * nat (fi_cols A)) (cell_at d' j) else cell_at d' j = cell_at d j"
    if "j < n" for j
    using r(4) [OF that] at [OF that] by (cases "j = ?j") auto
  then show ?case using r(1-3) w st len Cons.prems(2) by auto
qed simp


text \<open>The cells of a row.\<close>

lemma row_cells_div:
  assumes "0 < (C :: nat)"
  shows "j \<in> (\<lambda>k. r * C + k) ` set [0..<C] \<longleftrightarrow> j div C = r"
proof
  assume "j div C = r"
  then have "j = r * C + j mod C" using div_mult_mod_eq [of j C] by simp
  then show "j \<in> (\<lambda>k. r * C + k) ` set [0..<C]" using assms by (intro image_eqI [of _ _ "j mod C"]) auto
next
  assume "j \<in> (\<lambda>k. r * C + k) ` set [0..<C]"
  then obtain k where "k \<in> set [0..<C]" "j = r * C + k" by (rule imageE)
  then show "j div C = r" by (simp add: div_add1_eq)
qed

lemma writeRow_result:
  assumes ok: "code_points_ok A" and a: "atlas_reach B a" and C: "C = nat (fi_cols A)" "0 < C"
    and d: "length d = R * C * CELL_BYTES" and r: "r < R"
  shows "\<exists>a' d'. writeRow B A row get r (a, d) = Inr (a', d') \<and> atlas_reach B a' \<and> length d' = length d \<and>
    (\<forall>j<R * C. if j div C = r then written B A row get r (j mod C) (cell_at d' j) else cell_at d' j = cell_at d j)"
proof -
  have "r * C + k < R * C" if "k < C" for k
  proof -
    have "r * C + k < (r + 1) * C" using that by simp
    also have "\<dots> \<le> R * C" using r by (intro mult_right_mono) auto
    finally show ?thesis .
  qed
  then obtain a' d' where w: "write_columns B A row get r [0..<C] (a, d) = Inr (a', d')" "atlas_reach B a'"
    "length d' = length d" "\<And>j. j < R * C \<Longrightarrow> if j \<in> (\<lambda>k. r * C + k) ` set [0..<C]
       then written B A row get r (j - r * C) (cell_at d' j) else cell_at d' j = cell_at d j"
    using write_columns_result [OF ok a d, of "[0..<C]" r row get] C(1) by auto
  have "j div C = r \<Longrightarrow> j - r * C = j mod C" for j by (metis minus_div_mult_eq_mod)
  then have "if j div C = r then written B A row get r (j mod C) (cell_at d' j) else cell_at d' j = cell_at d j"
    if "j < R * C" for j
    using w(4) [OF that] unfolding row_cells_div [OF C(2)] by (auto split: if_splits)
  then show ?thesis using w(1-3) C(1) by (auto simp: writeRow_def)
qed

lemma write_rows_result:
  assumes ok: "code_points_ok A" and C: "C = nat (fi_cols A)" "0 < C"
    and "atlas_reach B a" "length d = R * C * CELL_BYTES" "\<forall>r\<in>set rs. r < R" "distinct rs"
  shows "\<exists>a' d'. write_rows B A t get rs (a, d) = Inr (a', d') \<and> atlas_reach B a' \<and> length d' = length d \<and>
    (\<forall>j<R * C. if j div C \<in> set rs then written B A (row_at t (j div C)) get (j div C) (j mod C) (cell_at d' j)
       else cell_at d' j = cell_at d j)"
  using assms(4-)
proof (induction rs arbitrary: a d)
  case (Cons r rs)
  obtain a1 d1 where w: "writeRow B A (row_at t r) get r (a, d) = Inr (a1, d1)" "atlas_reach B a1"
    "length d1 = length d" "\<And>j. j < R * C \<Longrightarrow> if j div C = r
       then written B A (row_at t r) get r (j mod C) (cell_at d1 j) else cell_at d1 j = cell_at d j"
    using writeRow_result [OF ok Cons.prems(1) C Cons.prems(2), of r "row_at t r" get] Cons.prems(3) by auto
  obtain a' d' where r: "write_rows B A t get rs (a1, d1) = Inr (a', d')" "atlas_reach B a'"
    "length d' = length d1" "\<And>j. j < R * C \<Longrightarrow> if j div C \<in> set rs
       then written B A (row_at t (j div C)) get (j div C) (j mod C) (cell_at d' j)
       else cell_at d' j = cell_at d1 j"
    using Cons.IH [OF w(2), of d1] w(3) Cons.prems(2-4) by auto
  have "if j div C \<in> set (r # rs) then written B A (row_at t (j div C)) get (j div C) (j mod C) (cell_at d' j)
       else cell_at d' j = cell_at d j" if "j < R * C" for j
    using w(4) [OF that] r(4) [OF that] Cons.prems(4) by (auto split: if_splits)
  then show ?case using w(1) r w(3) by auto
qed simp

section \<open>Uploading\<close>

lemma length_bufferSubData [simp]: "length (bufferSubData off bs g) = length g"
  by (simp add: bufferSubData_def)

lemma upload_rows_result:
  assumes C: "0 < C" and d: "length d = R * C * CELL_BYTES" "length g = R * C * CELL_BYTES"
    and kh: "k \<le> h" "h < R" and j: "j < R * C"
  shows "cell_at (upload_rows (C * CELL_BYTES) d k h g) j =
    (if k \<le> j div C \<and> j div C \<le> h then cell_at d j else cell_at g j)"
proof -
  let ?m = "(h - k + 1) * C" and ?s = "take ((h - k + 1) * (C * CELL_BYTES)) (drop (k * (C * CELL_BYTES)) d)"
  have km: "k * C + ?m = (h + 1) * C" using kh(1) by (simp flip: add_mult_distrib)
  have le: "(h + 1) * C \<le> R * C" using kh(2) by (intro mult_right_mono) auto
  have all: "(k * C + ?m) * CELL_BYTES \<le> R * C * CELL_BYTES" unfolding km using le by (rule mult_right_mono) simp
  then have s: "length ?s = ?m * CELL_BYTES" using d(1) by (simp add: algebra_simps)
  have jn: "(j + 1) * CELL_BYTES \<le> length g" unfolding d(2) using j by (intro mult_right_mono) auto
  have "upload_rows (C * CELL_BYTES) d k h g =
    take ((k * C) * CELL_BYTES) g @ ?s @ drop ((k * C) * CELL_BYTES + length ?s) g"
    using all s d by (simp add: upload_rows_def bufferSubData_def algebra_simps)
  then have c: "cell_at (upload_rows (C * CELL_BYTES) d k h g) j =
    (if k * C \<le> j \<and> j < k * C + ?m then cell_at ?s (j - k * C) else cell_at g j)"
    using cell_at_splice [OF s _ jn, of "k * C"] all d(2) by simp
  have range: "k * C \<le> j \<and> j < k * C + ?m \<longleftrightarrow> k \<le> j div C \<and> j div C \<le> h"
    unfolding km less_eq_div_iff_mult_less_eq [OF C] using div_less_iff_less_mult [OF C, of j "h + 1"] by auto
  moreover have "cell_at ?s (j - k * C) = cell_at d j" if "k * C \<le> j" "j < k * C + ?m"
  proof -
    have "(j - k * C + 1) * CELL_BYTES \<le> ?m * CELL_BYTES" using that by (intro mult_right_mono) auto
    then show ?thesis
      using that by (simp add: cell_at_def take_drop min_def algebra_simps flip: add_mult_distrib)
  qed
  ultimately show ?thesis using c by auto
qed


lemma length_upload_runs [simp]: "length (upload_runs G d k h rs g) = length g"
  by (induction rs arbitrary: k h g) (simp_all add: upload_rows_def)

lemma length_upload_dirty [simp]: "length (upload_dirty G n force rs d g) = length g"
  by (simp add: upload_dirty_def split: list.splits)

lemma upload_runs_result:
  assumes C: "0 < C" and d: "length d = R * C * CELL_BYTES" and j: "j < R * C"
    and "length g = R * C * CELL_BYTES" "k \<le> h" "h < R" "\<forall>r\<in>set rs. r < R"
  shows "cell_at (upload_runs (C * CELL_BYTES) d k h rs g) j =
      (if k \<le> j div C \<and> j div C \<le> h \<or> j div C \<in> set rs then cell_at d j else cell_at g j)"
  using assms(4-)
proof (induction rs arbitrary: k h g)
  case Nil
  then show ?case using upload_rows_result [OF C d Nil(1-3) j] by (simp add: upload_rows_def)
next
  case (Cons r rs)
  show ?case
  proof (cases "r = h + 1")
    case True
    then show ?thesis using Cons.IH [of g k r] Cons.prems by auto
  next
    case False
    let ?g = "upload_rows (C * CELL_BYTES) d k h g"
    have "length ?g = R * C * CELL_BYTES" using Cons.prems(1) by (simp add: upload_rows_def)
    then show ?thesis
      using False Cons.IH [of ?g r r] Cons.prems upload_rows_result [OF C d Cons.prems(1-3) j] by auto
  qed
qed

text \<open>Whichever way the rows are uploaded, the GPU gets the bytes of all of them.\<close>

lemma upload_dirty_result:
  assumes C: "0 < C" and d: "length d = R * C * CELL_BYTES" and g: "length g = R * C * CELL_BYTES"
    and rs: "\<forall>r\<in>set rs. r < R" and same: "\<And>j. j < R * C \<Longrightarrow> j div C \<notin> set rs \<Longrightarrow> cell_at d j = cell_at g j"
  shows "upload_dirty (C * CELL_BYTES) n force rs d g = d"
proof (cases "2 * int (length rs) > n \<or> force")
  case True
  then show ?thesis using d g by (auto simp: upload_dirty_def bufferSubData_def)
next
  case False
  have "cell_at (upload_dirty (C * CELL_BYTES) n force rs d g) j = cell_at d j" if "j < R * C" for j
  proof (cases rs)
    case Nil
    then show ?thesis using same [OF that] False g by (simp add: upload_dirty_def)
  next
    case (Cons r ss)
    then show ?thesis
      using False rs same [OF that] upload_runs_result [OF C d that g, of r r ss] by (auto simp: upload_dirty_def)
  qed
  then show ?thesis using g by (intro cells_eq [OF _ d]) simp_all
qed


section \<open>A whole update\<close>

text \<open>The array has a record for each cell and the GPU has its bytes.\<close>

definition buffer_ok :: "cell_buffer \<Rightarrow> bool" where
  "buffer_ok b \<longleftrightarrow> length (u8 b) = nat (cb_rows b) * nat (cb_cols b) * CELL_BYTES \<and> gpu b = u8 b \<and>
     0 \<le> cb_cols b \<and> 0 \<le> cb_rows b"

text \<open>What a JavaScript array can hold.\<close>

definition frame_ok :: "frame_input \<Rightarrow> bool" where
  "frame_ok A \<longleftrightarrow> 1 \<le> fi_cols A \<and> 1 \<le> fi_rows A \<and> fi_rows A * fi_cols A \<le> int (length (viewportCells A)) \<and>
     length (viewportCells A) < 2 ^ 32"

lemma frame_small: "frame_ok A \<Longrightarrow> fi_rows A * fi_cols A < 2 ^ 32"
  by (simp add: frame_ok_def)

lemma resize_for_frame:
  assumes A: "frame_ok A" and b: "buffer_ok b"
    and b': "b' = (if fi_cols A \<noteq> cb_cols b \<or> fi_rows A \<noteq> cb_rows b
        then resize_cells (Some (of_int (fi_cols A))) (Some (of_int (fi_rows A))) b else b)"
  shows "buffer_ok b' \<and> cb_cols b' = fi_cols A \<and> cb_rows b' = fi_rows A"
proof (cases "fi_cols A \<noteq> cb_cols b \<or> fi_rows A \<noteq> cb_rows b")
  case False
  then show ?thesis using b b' by simp
next
  case True
  let ?C = "fi_cols A" and ?R = "fi_rows A"
  have pos: "1 \<le> ?C" "1 \<le> ?R" using A by (simp_all add: frame_ok_def)
  have small: "?C * ?R * int CELL_BYTES \<le> MAX_SAFE" "0 < ?C * ?R * int CELL_BYTES"
    using frame_small [OF A] pos by (simp_all add: CELL_BYTES_def MAX_SAFE_def mult.commute [of ?C])
  have n: "nat (?C * ?R * int CELL_BYTES) = nat ?R * nat ?C * CELL_BYTES"
    using pos by (simp add: nat_mult_distrib mult.commute)
  have "b' = b\<lparr>cb_cols := ?C, cb_rows := ?R, u8 := replicate (nat ?R * nat ?C * CELL_BYTES) 0,
      gpu := replicate (nat ?R * nat ?C * CELL_BYTES) 0\<rparr>"
    using True b' small pos n by (auto simp: resize_cells_def Let_def)
  then show ?thesis using pos by (simp add: buffer_ok_def)
qed

lemma rows_to_write_rows: "\<forall>r\<in>set (rows_to_write A force). r < nat (fi_rows A)" "distinct (rows_to_write A force)"
  by (auto simp: rows_to_write_def)

lemma update_result:
  assumes B: "atlas_reach B a" and A: "frame_ok A" "code_points_ok A" and b: "buffer_ok b"
    and rs: "rs = rows_to_write A force" and C: "C = nat (fi_cols A)" and src: "grapheme_source A rs = (t, get)"
  shows "\<exists>a' b' old. update_cells B A force a b = Inr (a', b') \<and> atlas_reach B a' \<and> buffer_ok b' \<and>
    cb_cols b' = fi_cols A \<and> cb_rows b' = fi_rows A \<and>
    (fi_cols A = cb_cols b \<and> fi_rows A = cb_rows b \<longrightarrow> old = gpu b) \<and>
    (\<forall>j < nat (fi_rows A) * C. if j div C \<in> set rs
       then written B A (row_at t (j div C)) get (j div C) (j mod C) (cell_at (gpu b') j)
       else cell_at (gpu b') j = cell_at old j)"
proof -
  define b1 where "b1 = (if fi_cols A \<noteq> cb_cols b \<or> fi_rows A \<noteq> cb_rows b
        then resize_cells (Some (of_int (fi_cols A))) (Some (of_int (fi_rows A))) b else b)"
  have b1: "buffer_ok b1" "cb_cols b1 = fi_cols A" "cb_rows b1 = fi_rows A"
    using resize_for_frame [OF A(1) b b1_def] by simp_all
  have len: "length (u8 b1) = nat (fi_rows A) * C * CELL_BYTES" "gpu b1 = u8 b1"
    using b1 C by (simp_all add: buffer_ok_def)
  have Cpos: "0 < C" using A(1) C by (simp add: frame_ok_def)
  have guard: "\<not> (fi_cols A < 1 \<or> fi_rows A < 1 \<or> fi_rows A * fi_cols A > MAX_SAFE \<or>
      int (length (viewportCells A)) < fi_rows A * fi_cols A)"
    using A(1) frame_small [OF A(1)] by (auto simp: frame_ok_def MAX_SAFE_def)
  have old: "fi_cols A = cb_cols b \<and> fi_rows A = cb_rows b \<longrightarrow> gpu b1 = gpu b" by (simp add: b1_def)
  obtain a' d where w: "write_rows B A t get rs (a, u8 b1) = Inr (a', d)" "atlas_reach B a'"
    "length d = length (u8 b1)" "\<And>j. j < nat (fi_rows A) * C \<Longrightarrow> if j div C \<in> set rs
       then written B A (row_at t (j div C)) get (j div C) (j mod C) (cell_at d j)
       else cell_at d j = cell_at (u8 b1) j"
    using write_rows_result [OF A(2) C Cpos B len(1) rows_to_write_rows [of A force, folded rs], of t get] by auto
  have up: "upload_dirty (C * CELL_BYTES) (fi_rows A) force rs d (gpu b1) = d"
  proof (rule upload_dirty_result [OF Cpos])
    show "cell_at d j = cell_at (gpu b1) j" if "j < nat (fi_rows A) * C" "j div C \<notin> set rs" for j
      using w(4) [OF that(1)] that(2) len(2) by simp
  qed (use w(3) len rows_to_write_rows(1) [of A force] rs in simp_all)
  define b' where "b' = (if rs = [] then b1 else b1\<lparr>u8 := d, gpu := d\<rparr>)"
  have none: "rs = [] \<Longrightarrow> d = u8 b1 \<and> a' = a" using w(1) by simp
  have "update_cells B A force a b = Inr (a', b')"
    unfolding update_cells_def Let_def if_not_P [OF guard] b1_def [symmetric] rs [symmetric] C [symmetric] src
    using w(1) up none by (simp add: b'_def)
  moreover have "buffer_ok b'" "cb_cols b' = fi_cols A" "cb_rows b' = fi_rows A" "gpu b' = d"
    using b1 w(3) none len(2) by (auto simp: b'_def buffer_ok_def)
  ultimately show ?thesis
    using w(2,4) old len(2) by (intro exI [of _ a'] exI [of _ b'] exI [of _ "gpu b1"]) simp
qed


section \<open>What the shaders read\<close>

text \<open>
  The vertex attributes as \<open>createProgramInfo\<close> lays them out: each record of 32 bytes has four
  unsigned shorts at 0, two shorts at 8, and four unsigned bytes at 12, 16, 20 and 24.
\<close>

definition u16_at :: "byte list \<Rightarrow> nat \<Rightarrow> int" where
  "u16_at bs i = uint (bs ! i) + 256 * uint (bs ! (i + 1))"

definition s16_at :: "byte list \<Rightarrow> nat \<Rightarrow> int" where
  "s16_at bs i = (let n = u16_at bs i in if n < 32768 then n else n - 65536)"

definition u8x4_at :: "byte list \<Rightarrow> nat \<Rightarrow> int list" where
  "u8x4_at bs i = map (\<lambda>k. uint (bs ! (i + k))) [0, 1, 2, 3]"

record vertex_attribs =
  a_atlasRect :: "int list"
  a_bearing :: "int list"
  a_flags :: "int list"
  a_fgColor :: "int list"
  a_bgColor :: "int list"
  a_decoColor :: "int list"

definition attribs_at :: "byte list \<Rightarrow> vertex_attribs" where
  "attribs_at bs = \<lparr>a_atlasRect = map (u16_at bs) [0, 2, 4, 6], a_bearing = map (s16_at bs) [8, 10],
     a_flags = u8x4_at bs 12, a_fgColor = u8x4_at bs 16, a_bgColor = u8x4_at bs 20, a_decoColor = u8x4_at bs 24\<rparr>"

definition is_byte :: "int \<Rightarrow> bool" where
  "is_byte n \<longleftrightarrow> 0 \<le> n \<and> n < 256"

lemma pack4_bit:
  "bit (pack4 b a g i) n \<longleftrightarrow> n < 32 \<and>
     (if n < 8 then bit b n else if n < 16 then bit a (n - 8) else if n < 24 then bit g (n - 16) else bit i (n - 24))"
proof -
  have "(255 :: 32 word) = mask 8" by (simp add: mask_eq_exp_minus_1)
  then show ?thesis
    unfolding pack4_def by (simp only: bit_simps) (auto simp: not_le)
qed

lemma le32_pack4: "le32 (pack4 b a g i) = [word_of_int b, word_of_int a, word_of_int g, word_of_int i]"
  unfolding le32_def list.inject
  by (intro conjI refl bit_word_eqI) (simp_all add: bit_unsigned_iff bit_drop_bit_eq pack4_bit bit_word_of_int_iff)

lemma uint_byte: "is_byte n \<Longrightarrow> uint (word_of_int n :: byte) = n"
  by (simp add: is_byte_def uint_word_of_int)

lemma u16_le16:
  assumes "0 \<le> n" "n < 65536"
  shows "uint (word_of_int n :: byte) + 256 * uint (word_of_int (n div 256) :: byte) = n"
proof -
  have "n div 256 mod 256 = n div 256" using assms by simp
  then show ?thesis by (simp add: uint_word_of_int)
qed

lemma s16_le16:
  assumes "-32768 \<le> n" "n < 32768" "u = uint (word_of_int n :: byte) + 256 * uint (word_of_int (n div 256) :: byte)"
  shows "(if u < 32768 then u else u - 65536) = n"
proof -
  have "u = n mod 65536"
    unfolding assms(3) using zmod_zmult2_eq [of 256 n 256] by (simp add: uint_word_of_int)
  moreover have "n mod 65536 = (if 0 \<le> n then n else n + 65536)"
    using assms(1,2) mod_pos_pos_trivial [of "n + 65536" 65536] by simp
  ultimately show ?thesis using assms(1,2) by auto
qed


definition is_short :: "int \<Rightarrow> bool" where
  "is_short n \<longleftrightarrow> 0 \<le> n \<and> n < 65536"

text \<open>The attributes a cell should have: its width, its colours and its glyph.\<close>

definition attribs_for :: "nat \<Rightarrow> resolved \<Rightarrow> raw_glyph option \<Rightarrow> vertex_attribs" where
  "attribs_for n a R = \<lparr>
     a_atlasRect = (case R of None \<Rightarrow> [0, 0, 0, 0] | Some R \<Rightarrow> [atlasX R, atlasY R, atlasW R, atlasH R]),
     a_bearing = (case R of None \<Rightarrow> [0, 0] | Some R \<Rightarrow> [clamp_short (bearingX R), clamp_short (bearingY R)]),
     a_flags = [int n, int (decoFlags a), case R of Some R \<Rightarrow> if gl_isColor R then 1 else 0 | None \<Rightarrow> 0, 0],
     a_fgColor = [fgR a, fgG a, fgB a, fgA a], a_bgColor = [bgR a, bgG a, bgB a, bgA a],
     a_decoColor = [decoR a, decoG a, decoB a, decoA a]\<rparr>"

definition colors_fit :: "resolved \<Rightarrow> bool" where
  "colors_fit a \<longleftrightarrow> list_all is_byte [fgR a, fgG a, fgB a, fgA a, bgR a, bgG a, bgB a, bgA a,
     decoR a, decoG a, decoB a, decoA a, int (decoFlags a)]"

lemma clamp_short_range: "-32768 \<le> clamp_short n \<and> clamp_short n < 32768"
  by (simp add: clamp_short_def)

lemma attribs_cell_bytes:
  assumes "colors_fit a" "n < 256" "q < 256" "list_all is_short [atlasX R, atlasY R, atlasW R, atlasH R]"
  shows "attribs_at (cell_bytes n a q R) = \<lparr>a_atlasRect = [atlasX R, atlasY R, atlasW R, atlasH R],
     a_bearing = [clamp_short (bearingX R), clamp_short (bearingY R)],
     a_flags = [int n, int (decoFlags a), int q, 0],
     a_fgColor = [fgR a, fgG a, fgB a, fgA a], a_bgColor = [bgR a, bgG a, bgB a, bgA a],
     a_decoColor = [decoR a, decoG a, decoB a, decoA a]\<rparr>"
proof -
  let ?bs = "cell_bytes n a q R"
  have bytes: "uint (word_of_int x :: byte) = x" if "x \<in> set [fgR a, fgG a, fgB a, fgA a, bgR a, bgG a, bgB a, bgA a,
     decoR a, decoG a, decoB a, decoA a, int (decoFlags a), int n, int q, 0]" for x
    using that assms(1-3) by (intro uint_byte) (auto simp: colors_fit_def is_byte_def)
  have "u16_at ?bs 0 = atlasX R" "u16_at ?bs 2 = atlasY R" "u16_at ?bs 4 = atlasW R" "u16_at ?bs 6 = atlasH R"
    using assms(4) u16_le16 by (simp_all add: u16_at_def cell_bytes_def le16_def is_short_def)
  moreover have "s16_at ?bs 8 = clamp_short (bearingX R)" "s16_at ?bs 10 = clamp_short (bearingY R)"
    unfolding s16_at_def Let_def
    using clamp_short_range [of "bearingX R"] clamp_short_range [of "bearingY R"]
    by (intro s16_le16; simp add: u16_at_def cell_bytes_def le16_def)+
  moreover have "u8x4_at ?bs 12 = [int n, int (decoFlags a), int q, 0]" "u8x4_at ?bs 16 = [fgR a, fgG a, fgB a, fgA a]"
    "u8x4_at ?bs 20 = [bgR a, bgG a, bgB a, bgA a]" "u8x4_at ?bs 24 = [decoR a, decoG a, decoB a, decoA a]"
    using bytes by (simp_all add: u8x4_at_def cell_bytes_def le16_def le32_pack4 del: of_int_of_nat_eq)
  ultimately show ?thesis by (simp add: attribs_at_def)
qed

section \<open>Ranges of colours and rectangles\<close>

definition rgba_ok :: "rgba \<Rightarrow> bool" where
  "rgba_ok x \<longleftrightarrow> is_byte (c_r x) \<and> is_byte (c_g x) \<and> is_byte (c_b x)"

definition colors_ok :: "frame_input \<Rightarrow> bool" where
  "colors_ok A \<longleftrightarrow>
     (let t = fi_theme A in list_all rgba_ok [th_foreground t, th_background t, th_selectionBackground t] \<and>
        pred_option rgba_ok (th_selectionForeground t)) \<and>
     (\<forall>d\<in>set (decorations A). pred_option rgba_ok (de_background d) \<and> pred_option rgba_ok (de_foreground d)) \<and>
     (\<forall>c\<in>set (viewportCells A). list_all (\<lambda>n. n < 256) [fg_r c, fg_g c, fg_b c, bg_r c, bg_g c, bg_b c, cwidth c])"

definition triple_ok :: "int \<times> int \<times> int \<Rightarrow> bool" where
  "triple_ok p \<longleftrightarrow> is_byte (fst p) \<and> is_byte (fst (snd p)) \<and> is_byte (snd (snd p))"

lemma rgb_of_ok: "rgba_ok x \<Longrightarrow> triple_ok (rgb_of x)"
  by (simp add: rgba_ok_def triple_ok_def rgb_of_def)

lemma clamp_byte_ok: "is_byte (clamp_byte n)"
  by (simp add: is_byte_def clamp_byte_def)

lemma own_colors_ok:
  assumes "list_all (\<lambda>n. n < 256) [fg_r c, fg_g c, fg_b c, bg_r c, bg_g c, bg_b c, cwidth c]" "own_colors c = (f, b, x, y)"
  shows "triple_ok f \<and> triple_ok b"
  using assms by (auto simp: own_colors_def Let_def triple_ok_def is_byte_def split: if_splits)

lemma foreground_of_ok:
  assumes c: "list_all (\<lambda>n. n < 256) [fg_r c, fg_g c, fg_b c, bg_r c, bg_g c, bg_b c, cwidth c]"
    and th: "rgba_ok (th_foreground th)" and d: "pred_option (\<lambda>d. pred_option rgba_ok (de_foreground d)) d"
  shows "triple_ok (fst (foreground_of c th sel d))"
proof -
  obtain f b x y where o: "own_colors c = (f, b, x, y)" by (metis prod_cases4)
  show ?thesis
    using own_colors_ok [OF c o] rgb_of_ok th d
    by (auto simp: foreground_of_def Let_def o split: option.splits)
qed

lemma background_of_ok:
  assumes c: "list_all (\<lambda>n. n < 256) [fg_r c, fg_g c, fg_b c, bg_r c, bg_g c, bg_b c, cwidth c]"
    and d: "pred_option (\<lambda>d. pred_option rgba_ok (de_background d)) d"
  shows "triple_ok (fst (background_of c sel d)) \<and> is_byte (snd (background_of c sel d))"
proof -
  obtain f b x y where o: "own_colors c = (f, b, x, y)" by (metis prod_cases4)
  show ?thesis
    using own_colors_ok [OF c o] rgb_of_ok d clamp_byte_ok
    by (auto simp: background_of_def Let_def o is_byte_def split: option.splits)
qed

lemma select_back_ok: "triple_ok (select_back c th b)"
  by (simp add: select_back_def Let_def triple_ok_def blend_def clamp_byte_ok split: prod.splits)

lemma resolve_fits:
  assumes c: "list_all (\<lambda>n. n < 256) [fg_r c, fg_g c, fg_b c, bg_r c, bg_g c, bg_b c, cwidth c]"
    and th: "rgba_ok (th_foreground th)" "pred_option rgba_ok (th_selectionForeground th)"
    and d: "pred_option (\<lambda>d. pred_option rgba_ok (de_background d) \<and> pred_option rgba_ok (de_foreground d)) d"
  shows "colors_fit (resolve c th sel link d)"
proof -
  have d': "pred_option (\<lambda>d. pred_option rgba_ok (de_foreground d)) d"
    "pred_option (\<lambda>d. pred_option rgba_ok (de_background d)) d"
    using d by (auto simp: option.pred_set)
  obtain f a where f: "foreground_of c th sel d = (f, a)" by (cases "foreground_of c th sel d")
  obtain b ba where b: "background_of c sel d = (b, ba)" by (cases "background_of c sel d")
  have ok: "triple_ok f" "triple_ok b" "is_byte ba"
    using foreground_of_ok [OF c th(1) d'(1), of sel] background_of_ok [OF c d'(2), of sel] f b by simp_all
  have flags: "is_byte (int (((if u then DECO_UNDERLINE else 0) OR (if s then DECO_STRIKE else 0)) OR
      (if l then DECO_LINK else 0)))" for u s l
    by (simp add: is_byte_def DECO_UNDERLINE_def DECO_STRIKE_def DECO_LINK_def)
  have num: "is_byte 74" "is_byte 144" "is_byte 226" "is_byte 255" by (simp_all add: is_byte_def)
  have sf: "\<And>x. th_selectionForeground th = Some x \<Longrightarrow> triple_ok (rgb_of x)" using th(2) rgb_of_ok by simp
  show ?thesis
    unfolding resolve_def Let_def f b prod.case colors_fit_def
    using ok select_back_ok [of c th b] num sf
      flags [of "has_attr UNDERLINE c" "has_attr STRIKETHROUGH c" link]
    by (cases f; cases sel; cases link; cases "th_selectionForeground th")
      (simp_all add: triple_ok_def clamp_byte_ok rgb_of_def split del: if_split)
qed


text \<open>The textures have at most 1024 texels a side, so the rectangles fit the attributes.\<close>

lemma reach_size: "atlas_reach B a \<Longrightarrow> browser_ok B \<Longrightarrow> size_of c a \<le> 1024"
proof (induction rule: atlas_reach.induct)
  case (new m t x sz fam ra a)
  let ?a = "\<lparr>at_fontSize = positive_or sz 15, at_fontFamily = fam, at_dpr = positive_or ra 1,
    atlasSize = min 1024 m, colorAtlasSize = min 1024 m, at_page = empty_page (min 1024 m),
    colorPage = empty_page (min 1024 m), atlasTexture = (\<lambda>_. blank_texel),
    colorTexture = (\<lambda>_. blank_texel), glyphs = [], useCounter = 0\<rparr>"
  have "atlas_ok B ?a" by (rule fresh_ok) (simp_all add: positive_or_positive page_of_def size_of_def)
  from prewarmAscii_kept [OF this new(2)] have "size_of c (prewarmAscii B ?a) = size_of c ?a"
    unfolding kept_def by blast
  then show ?case using new(1) by (auto simp: new_atlas_def Let_def size_of_def split: if_splits)
next
  case (lookup a s bo it a' r)
  then show ?case
    using getGlyph_result [OF reach_ok [OF lookup(1) lookup(4)] lookup(4) _ lookup(2) refl]
    by (cases "s = []") (auto simp: getGlyph_def kept_def)
next
  case (reset a sz fam ra)
  have "kept B (reset_start sz fam ra a) (reset_atlas B sz fam ra a)"
    unfolding reset_atlas_start by (rule prewarmAscii_kept [OF reset_start_ok [OF reach_ok [OF reset(1,3)]] reset(3)])
  then show ?case using reset(2,3) by (simp add: kept_def reset_start_size)
qed

lemma getGlyph_short:
  assumes B: "browser_ok B" and a: "atlas_reach B a" and g: "getGlyph B s bo it a = (a', r)"
  shows "list_all is_short [atlasX r, atlasY r, atlasW r, atlasH r]"
proof (cases "s = []")
  case True
  then show ?thesis using g by (auto simp: getGlyph_def no_glyph_def is_short_def)
next
  case False
  obtain h k where h: "map_of (glyphs a') k = Some h" "r = raw_glyph.truncate h"
    using getGlyph_result [OF reach_ok [OF a B] B False g refl] by blast
  note a' = atlas_reach.lookup [OF a g]
  note ok = reach_ok [OF a' B]
  note m = map_of_SomeD [OF h(1)]
  have gk: "glyph_ok B a' (k, h)" using ok m by (simp add: atlas_ok_def)
  have r: "atlasX r = atlasX h" "atlasY r = atlasY h" "atlasW r = atlasW h" "atlasH r = atlasH h"
    by (simp_all add: h(2) raw_glyph.defs)
  show ?thesis
  proof (cases "shelfId h = -1")
    case True
    then show ?thesis using gk r by (auto simp: glyph_ok_def blank_glyph_def is_short_def)
  next
    case False
    let ?n = "size_of (gl_isColor h) a'"
    have pos: "0 < atlasW h" "0 < atlasH h" using gk False by (auto simp: glyph_ok_def measured_def split: prod.splits)
    have sub: "glyph_rect h \<subseteq> rect 0 0 ?n ?n" using ok_picture [OF ok m False] by simp
    have "(atlasX h - 1, atlasY h - 1) \<in> glyph_rect h" "(atlasX h + atlasW h, atlasY h + atlasH h) \<in> glyph_rect h"
      using pos by (simp_all add: glyph_rect_def rect_def PADDING_def)
    from this [THEN subsetD [OF sub]] show ?thesis
      using pos reach_size [OF a' B, of "gl_isColor h"] by (simp add: r rect_def is_short_def)
  qed
qed

lemma cell_glyph_short:
  assumes "browser_ok B" "atlas_reach B a" "cell_glyph B row get r k res c a = Inr (a', Some R)"
  shows "list_all is_short [atlasX R, atlasY R, atlasW R, atlasH R]"
  using assms(3) getGlyph_short [OF assms(1,2)]
  by (auto simp: cell_glyph_def and_then_Inr_iff split: if_splits prod.splits)

lemma decoration_at_member: "decoration_at ds l k = Some d \<Longrightarrow> d \<in> set ds"
  by (auto simp: decoration_at_def find_Some_iff) (metis nth_mem length_rev set_rev)

lemma written_attribs:
  assumes B: "browser_ok B" and A: "colors_ok A" and i: "i = r * nat (fi_cols A) + k" "i < length (viewportCells A)"
    and c: "c = viewportCells A ! i" and w: "written B A row get r k bs"
  shows "\<exists>a1 a2 R. atlas_reach B a1 \<and> cell_glyph B row get r k (cell_colors A r k c) c a1 = Inr (a2, R) \<and>
    attribs_at bs = attribs_for (cwidth c) (cell_colors A r k c) R"
proof -
  let ?res = "cell_colors A r k c"
  obtain a1 a2 where a1: "atlas_reach B a1" and wc: "write_cell B A row get r k a1 = Inr (a2, bs)"
    using w by (auto simp: written_def)
  have "c \<in> set (viewportCells A)" using i c by simp
  then have cell: "list_all (\<lambda>n. n < 256) [fg_r c, fg_g c, fg_b c, bg_r c, bg_g c, bg_b c, cwidth c]"
    using A by (simp add: colors_ok_def)
  have fit: "colors_fit ?res"
    unfolding cell_colors_def Let_def
    using A by (intro resolve_fits [OF cell]) (auto simp: colors_ok_def Let_def option.pred_set dest: decoration_at_member)
  obtain R where g: "cell_glyph B row get r k ?res c a1 = Inr (a2, R)" and
    bs: "bs = cell_bytes (cwidth c) ?res (case R of Some R \<Rightarrow> if gl_isColor R then GLYPH_COLOR else 0 | None \<Rightarrow> 0)
      (case R of Some R \<Rightarrow> R | None \<Rightarrow> no_glyph False)"
    using wc i c by (auto simp: write_cell_def Let_def and_then_Inr_iff)
  have "list_all is_short [atlasX G, atlasY G, atlasW G, atlasH G]" if "G = (case R of Some R \<Rightarrow> R | None \<Rightarrow> no_glyph False)" for G
    using that cell_glyph_short [OF B a1, of row get r k ?res c a2] g
    by (cases R) (auto simp: no_glyph_def is_short_def)
  then have "attribs_at bs = attribs_for (cwidth c) ?res R"
    unfolding bs using fit cell
    by (subst attribs_cell_bytes)
      (auto simp: attribs_for_def GLYPH_COLOR_def no_glyph_def clamp_short_def split: option.splits)
  then show ?thesis using a1 g by blast
qed


text \<open>The part of the selection in a row is what the selection manager highlights there.\<close>

lemma selected_is_highlighted:
  assumes "selectionRange A = Some s" "0 \<le> startCol s" "0 \<le> k" "k < cols"
  shows "in_columns (selected_columns A cols r) k = highlighted s k r"
  using assms by (auto simp: in_columns_def selected_columns_def columns_in_def highlighted_def)

lemma cell_index:
  assumes "r < R" "k < (C :: nat)"
  shows "(r * C + k) div C = r" "(r * C + k) mod C = k" "r * C + k < R * C"
proof -
  show "(r * C + k) div C = r" "(r * C + k) mod C = k" using assms(2) by simp_all
  have "r * C + k < (r + 1) * C" using assms(2) by simp
  also have "\<dots> \<le> R * C" using assms(1) by (intro mult_right_mono) auto
  finally show "r * C + k < R * C" .
qed

lemma frame_cells: "frame_ok A \<Longrightarrow> nat (fi_rows A) * nat (fi_cols A) \<le> length (viewportCells A)"
  unfolding frame_ok_def by (simp flip: nat_mult_distrib) (simp add: nat_le_iff mult.commute)

text \<open>What an update does to every cell.\<close>

lemma update_attribs:
  assumes "browser_ok B" "atlas_reach B a" "frame_ok A" "code_points_ok A" "colors_ok A" "buffer_ok b"
    and "grapheme_source A (rows_to_write A force) = (t, get)" and C: "C = nat (fi_cols A)"
  shows "\<exists>a' b'. update_cells B A force a b = Inr (a', b') \<and> atlas_reach B a' \<and> buffer_ok b' \<and>
      cb_cols b' = fi_cols A \<and> cb_rows b' = fi_rows A \<and>
      (\<forall>r k. r < nat (fi_rows A) \<and> k < C \<longrightarrow>
        (let c = viewportCells A ! (r * C + k); res = cell_colors A r k c; now = cell_at (gpu b') (r * C + k)
         in if r \<in> set (rows_to_write A force)
            then \<exists>a1 a2 R. atlas_reach B a1 \<and> cell_glyph B (row_at t r) get r k res c a1 = Inr (a2, R) \<and>
              attribs_at now = attribs_for (cwidth c) res R
            else fi_cols A = cb_cols b \<and> fi_rows A = cb_rows b \<longrightarrow> now = cell_at (gpu b) (r * C + k)))"
proof -
  let ?rs = "rows_to_write A force"
  obtain a' b' old where u: "update_cells B A force a b = Inr (a', b')" "atlas_reach B a'" "buffer_ok b'"
      "cb_cols b' = fi_cols A" "cb_rows b' = fi_rows A"
    and same: "fi_cols A = cb_cols b \<and> fi_rows A = cb_rows b \<longrightarrow> old = gpu b"
    and w: "\<And>j. j < nat (fi_rows A) * C \<Longrightarrow> if j div C \<in> set ?rs
       then written B A (row_at t (j div C)) get (j div C) (j mod C) (cell_at (gpu b') j)
       else cell_at (gpu b') j = cell_at old j"
    using update_result [OF assms(2-4,6) refl C assms(7)] by blast
  have "let c = viewportCells A ! (r * C + k); res = cell_colors A r k c; now = cell_at (gpu b') (r * C + k)
         in if r \<in> set ?rs
            then \<exists>a1 a2 R. atlas_reach B a1 \<and> cell_glyph B (row_at t r) get r k res c a1 = Inr (a2, R) \<and>
              attribs_at now = attribs_for (cwidth c) res R
            else fi_cols A = cb_cols b \<and> fi_rows A = cb_rows b \<longrightarrow> now = cell_at (gpu b) (r * C + k)"
    if rk: "r < nat (fi_rows A)" "k < C" for r k
  proof -
    note j = cell_index [OF rk]
    have len: "r * C + k < length (viewportCells A)" using j(3) frame_cells [OF assms(3)] C by simp
    show ?thesis
      using w [OF j(3), unfolded j] same
        written_attribs [OF assms(1,5) _ len refl, of r k "row_at t r" get "cell_at (gpu b') (r * C + k)"]
      by (auto simp: Let_def C)
  qed
  then show ?thesis using u by blast
qed

section \<open>Theorem\<close>

text \<open>
  C27. On any atlas of the renderer, an update with a frame of valid code points and byte-sized
  colours returns, and the GPU then has the bytes of the array, whether rows were uploaded one by
  one, in runs or all together. Of every cell of a written row the shaders read its width and
  decoration flags, the resolved colours without loss, and the rectangle and bearings of the glyph
  the atlas returned for it; a cell of another row keeps its bytes. The cells coloured as selected
  are those the selection manager highlights.
\<close>

theorem frame_reaches_gpu:
  assumes "browser_ok B" "atlas_reach B a" "frame_ok A" "code_points_ok A" "colors_ok A" "buffer_ok b"
    and "grapheme_source A (rows_to_write A force) = (t, get)" and "C = nat (fi_cols A)"
  shows "(\<exists>a' b'. update_cells B A force a b = Inr (a', b') \<and> atlas_reach B a' \<and> buffer_ok b' \<and>
      cb_cols b' = fi_cols A \<and> cb_rows b' = fi_rows A \<and>
      (\<forall>r k. r < nat (fi_rows A) \<and> k < C \<longrightarrow>
        (let c = viewportCells A ! (r * C + k); res = cell_colors A r k c; now = cell_at (gpu b') (r * C + k)
         in if r \<in> set (rows_to_write A force)
            then \<exists>a1 a2 R. atlas_reach B a1 \<and> cell_glyph B (row_at t r) get r k res c a1 = Inr (a2, R) \<and>
              attribs_at now = attribs_for (cwidth c) res R
            else fi_cols A = cb_cols b \<and> fi_rows A = cb_rows b \<longrightarrow> now = cell_at (gpu b) (r * C + k)))) \<and>
    (\<forall>s r k. selectionRange A = Some s \<and> 0 \<le> startCol s \<and> k < C \<longrightarrow>
      in_columns (selected_columns A (fi_cols A) r) (int k) = highlighted s (int k) r)"
  using update_attribs [OF assms] selected_is_highlighted assms(8)
  by (intro conjI allI impI selected_is_highlighted) auto

definition demo_rgba :: "int \<Rightarrow> rgba" where
  "demo_rgba n = \<lparr>c_r = n, c_g = n, c_b = n, c_a = 1\<rparr>"

text \<open>One row: an underlined red letter and a blank cell, which is selected.\<close>

definition demo_frame :: frame_input where
  "demo_frame = \<lparr>fi_cols = 2, fi_rows = 1,
     viewportCells = [null_cell\<lparr>codepoint := 65, fg_r := 200, fgIsDefault := False, flags := 4\<rparr>, null_cell],
     graphemeRows = [], rowFlags = [1], dirtyState = PARTIAL,
     selectionRange = Some \<lparr>startCol = 1, startRow = 0, endCol = 1, endRow = 0\<rparr>,
     hoveredLink = None, decorations = [], fi_getGrapheme = None,
     fi_theme = \<lparr>th_foreground = demo_rgba 250, th_background = demo_rgba 10, th_cursor = demo_rgba 255,
       th_cursorAccent = demo_rgba 0, th_selectionBackground = demo_rgba 100,
       th_selectionForeground = None, selectionOpacity = 1\<rparr>,
     fi_viewportY = 0, fi_scrollback = 0\<rparr>"

definition demo_buffer :: cell_buffer where
  "demo_buffer = \<lparr>cb_cols = 0, cb_rows = 0, u8 = [], gpu = []\<rparr>"

theorem frame_reaches_gpu_witness:
  "\<exists>a' b'. update_cells demo_browser demo_frame False demo_start demo_buffer = Inr (a', b') \<and> buffer_ok b' \<and>
     a_fgColor (attribs_at (cell_at (gpu b') 0)) = [200, 0, 0, 255] \<and>
     a_flags (attribs_at (cell_at (gpu b') 1)) = [1, 0, 0, 0] \<and>
     a_bgColor (attribs_at (cell_at (gpu b') 1)) = [100, 100, 100, 255]"
proof -
  have f: "frame_ok demo_frame" "code_points_ok demo_frame" "colors_ok demo_frame" "buffer_ok demo_buffer"
    by (simp_all add: frame_ok_def code_points_ok_def colors_ok_def buffer_ok_def demo_frame_def demo_buffer_def
        null_cell_def rgba_ok_def is_byte_def demo_rgba_def)
  have rs: "rows_to_write demo_frame False = [0]" by code_simp
  have C: "2 = nat (fi_cols demo_frame)" "nat (fi_rows demo_frame) = 1" by (simp_all add: demo_frame_def)
  obtain t get where src: "grapheme_source demo_frame (rows_to_write demo_frame False) = (t, get)"
    by (cases "grapheme_source demo_frame (rows_to_write demo_frame False)")
  let ?c = "\<lambda>k. viewportCells demo_frame ! k"
  from frame_reaches_gpu [OF demo_browser_ok demo_reach f src C(1)] obtain a' b' where
    u: "update_cells demo_browser demo_frame False demo_start demo_buffer = Inr (a', b')" "buffer_ok b'"
    and at: "\<forall>r k. r < nat (fi_rows demo_frame) \<and> k < 2 \<longrightarrow>
        (let c = viewportCells demo_frame ! (r * 2 + k); res = cell_colors demo_frame r k c; now = cell_at (gpu b') (r * 2 + k)
         in if r \<in> set (rows_to_write demo_frame False)
            then \<exists>a1 a2 R. atlas_reach demo_browser a1 \<and> cell_glyph demo_browser (row_at t r) get r k res c a1 = Inr (a2, R) \<and>
              attribs_at now = attribs_for (cwidth c) res R
            else fi_cols demo_frame = cb_cols demo_buffer \<and> fi_rows demo_frame = cb_rows demo_buffer \<longrightarrow>
              now = cell_at (gpu demo_buffer) (r * 2 + k))"
    by blast
  from at [rule_format, of 0 0] obtain R where
    0: "attribs_at (cell_at (gpu b') 0) = attribs_for (cwidth (?c 0)) (cell_colors demo_frame 0 0 (?c 0)) R"
    by (auto simp: rs C(2) Let_def)
  from at [rule_format, of 0 1] obtain S a1 a2 where
    1: "attribs_at (cell_at (gpu b') 1) = attribs_for (cwidth (?c 1)) (cell_colors demo_frame 0 1 (?c 1)) S"
    and g: "cell_glyph demo_browser (row_at t 0) get 0 1 (cell_colors demo_frame 0 1 (?c 1)) (?c 1) a1 = Inr (a2, S)"
    by (auto simp: rs C(2) Let_def)
  have "S = None" using g
    by (auto simp: cell_glyph_def cell_glyph_text_def demo_frame_def null_cell_def EMPTY_CODE_def split: if_splits)
  moreover have "fgR (cell_colors demo_frame 0 0 (?c 0)) = 200 \<and> fgG (cell_colors demo_frame 0 0 (?c 0)) = 0 \<and>
    fgB (cell_colors demo_frame 0 0 (?c 0)) = 0 \<and> fgA (cell_colors demo_frame 0 0 (?c 0)) = 255" by code_simp
  moreover have "cell_colors demo_frame 0 1 (?c 1) = \<lparr>fgR = 250, fgG = 250, fgB = 250, fgA = 255,
    bgR = 100, bgG = 100, bgB = 100, bgA = 255, decoR = 250, decoG = 250, decoB = 250, decoA = 255, decoFlags = 0\<rparr>"
    "cwidth (?c 1) = 1" by code_simp+
  ultimately show ?thesis
    using u 0 1 by (intro exI [of _ a'] exI [of _ b']) (simp add: attribs_for_def)
qed

end
