(* ===== verification/Gw_Webgl.thy ===== *)
theory Gw_Webgl
  imports Gw_Cells_Props
begin

text \<open>
  The WebGL renderer (class \<open>lB\<close> of \<open>ghostty-web.js\<close>): its fonts and pixel ratio, the resources
  it owns (cell buffer, glyph atlas, programs), loss and restoration of the context, and the frame
  it draws. Calls that draw are recorded in order; shaders and their compilation are left out, and
  what the browser answers is the record \<open>gl_env\<close>.
\<close>

section \<open>State\<close>

record gl_metrics =
  gm_width :: rat
  gm_height :: rat
  gm_baseline :: rat

text \<open>
  \<open>view_dpr\<close> is \<open>devicePixelRatio\<close> of the canvas's window, \<open>window_dpr\<close> that of the global
  \<open>window\<close>, \<^term>\<open>None\<close> where it is not defined. \<open>measure_M\<close> measures the letter M in a font:
  its width, and ascent and descent where the browser gives them; \<^term>\<open>None\<close> where there is no
  2D context. The flags say which resources can be created.
\<close>

record gl_env =
  e_browser :: browser
  view_dpr :: "num_arg option"
  window_dpr :: "num_arg option"
  measure_M :: "rat \<Rightarrow> jstr \<Rightarrow> (rat \<times> rat option \<times> rat option) option"
  max_texture :: int
  quad_ok :: bool
  cells_ok :: bool
  textures_created :: bool
  contexts_ok :: bool
  programs_ok :: bool

text \<open>The size of the canvas in CSS pixels and in device pixels.\<close>

record canvas_size =
  css_width :: rat
  css_height :: rat
  px_width :: int
  px_height :: int

type_synonym color4 = "rat \<times> rat \<times> rat \<times> rat"

datatype gl_call =
    Clear color4
  | Draw_Background gl_metrics "int \<times> int" int
  | Draw_Glyphs gl_metrics "int \<times> int" int int
  | Draw_Decorations gl_metrics "int \<times> int" int
  | Solid "rat \<times> rat" "rat \<times> rat" color4

record gl_renderer =
  w_fontSize :: rat
  w_fontFamily :: jstr
  w_fixedDpr :: "num_arg option"
  w_dpr :: rat
  w_metrics :: gl_metrics
  gridCols :: int
  gridRows :: int
  cellSizePx :: gl_metrics
  w_canvas :: "canvas_size option"
  w_gl :: bool
  contextValid :: bool
  contextLossCount :: nat
  forceFullUpload :: bool
  w_theme :: gl_theme
  cellBuffer :: "cell_buffer option"
  glyphAtlas :: "atlas option"
  w_programs :: bool
  lossesReported :: nat
  gl_calls :: "gl_call list"

section \<open>Pixel ratio and fonts\<close>

definition getDevicePixelRatio :: "gl_env \<Rightarrow> gl_renderer \<Rightarrow> rat" where
  "getDevicePixelRatio e w =
     (let a = (case w_fixedDpr w of
                 Some x \<Rightarrow> x
               | None \<Rightarrow> if w_canvas w = None then Some 1
                          else (case view_dpr e of Some x \<Rightarrow> x | None \<Rightarrow> Some 1))
      in positive_or a 1)"

text \<open>\<open>a || b\<close> for a measure that may be missing.\<close>

definition or_number :: "rat option \<Rightarrow> rat \<Rightarrow> rat" where
  "or_number a b = (case a of Some x \<Rightarrow> if x = 0 then b else x | None \<Rightarrow> b)"

definition measureFont :: "gl_env \<Rightarrow> gl_renderer \<Rightarrow> gl_metrics" where
  "measureFont e w =
     (case measure_M e (w_fontSize w) (w_fontFamily w) of
        None \<Rightarrow> \<lparr>gm_width = w_fontSize w, gm_height = w_fontSize w, gm_baseline = w_fontSize w\<rparr>
      | Some (c, a, d) \<Rightarrow>
          let E = or_number a (w_fontSize w * (8 / 10)); i = or_number d (w_fontSize w * (2 / 10))
          in \<lparr>gm_width = of_int \<lceil>c\<rceil>, gm_height = of_int (\<lceil>E + i\<rceil> + 2), gm_baseline = of_int (\<lceil>E\<rceil> + 1)\<rparr>)"

definition default_gl_theme :: gl_theme where
  "default_gl_theme =
     (let black = \<lparr>c_r = 0, c_g = 0, c_b = 0, c_a = 1\<rparr>
      in \<lparr>th_foreground = black, th_background = black, th_cursor = \<lparr>c_r = 255, c_g = 255, c_b = 255, c_a = 1\<rparr>,
          th_cursorAccent = black, th_selectionBackground = black, th_selectionForeground = None,
          selectionOpacity = 4 / 10\<rparr>)"

text \<open>The constructor; \<open>None\<close> for an option that is not given.\<close>

definition new_gl_renderer :: "gl_env \<Rightarrow> rat option \<Rightarrow> jstr option \<Rightarrow> num_arg option \<Rightarrow> gl_renderer" where
  "new_gl_renderer e sz family dpr =
     (let none = \<lparr>gm_width = 0, gm_height = 0, gm_baseline = 0\<rparr>;
          w = \<lparr>w_fontSize = (case sz of Some x \<Rightarrow> x | None \<Rightarrow> 15),
               w_fontFamily = (case family of Some f \<Rightarrow> f | None \<Rightarrow> js ''monospace''),
               w_fixedDpr = dpr, w_dpr = 1, w_metrics = none, gridCols = 0, gridRows = 0, cellSizePx = none,
               w_canvas = None, w_gl = False, contextValid = False, contextLossCount = 0,
               forceFullUpload = True, w_theme = default_gl_theme, cellBuffer = None, glyphAtlas = None,
               w_programs = False, lossesReported = 0, gl_calls = []\<rparr>;
          w = w\<lparr>w_dpr := getDevicePixelRatio e w\<rparr>
      in w\<lparr>w_metrics := measureFont e w\<rparr>)"

section \<open>Resources\<close>

definition releaseResources :: "gl_renderer \<Rightarrow> gl_renderer" where
  "releaseResources w = (if w_gl w then w\<lparr>w_programs := False, cellBuffer := None, glyphAtlas := None\<rparr> else w)"

text \<open>\<open>initResources\<close>; an exception leaves what was created before it.\<close>

definition initResources :: "gl_env \<Rightarrow> gl_renderer \<Rightarrow> gl_renderer \<times> js_error option" where
  "initResources e w =
     (if \<not> w_gl w then (w, None)
      else
        let w = releaseResources w
        in if \<not> quad_ok e then (w, Some (Js_Error ''Failed to create quad buffer''))
           else case new_cell_buffer (cells_ok e) of
             Inl x \<Rightarrow> (w, Some x)
           | Inr b \<Rightarrow>
               let w = w\<lparr>cellBuffer := Some b\<rparr>
               in (case new_atlas (e_browser e) (max_texture e) (textures_created e) (contexts_ok e)
                         (Some (w_fontSize w)) (w_fontFamily w) (Some (w_dpr w)) of
                     Inl x \<Rightarrow> (w, Some x)
                   | Inr a \<Rightarrow>
                       let w = w\<lparr>glyphAtlas := Some a\<rparr>
                       in if programs_ok e then (w\<lparr>w_programs := True, forceFullUpload := True\<rparr>, None)
                          else (w, Some (Js_Error ''Failed to create program''))))"

text \<open>\<open>gl\<close> says whether the canvas gives a WebGL2 context.\<close>

definition attach :: "gl_env \<Rightarrow> bool \<Rightarrow> canvas_size \<Rightarrow> gl_renderer \<Rightarrow> gl_renderer \<times> js_error option" where
  "attach e gl c w =
     (let w = w\<lparr>w_canvas := Some c\<rparr>; w = w\<lparr>w_dpr := getDevicePixelRatio e w\<rparr>
      in if \<not> gl then (w, Some (Js_Error ''WebGL2 is not available''))
         else initResources e (w\<lparr>w_gl := True, contextValid := True\<rparr>))"

definition dispose_gl :: "gl_renderer \<Rightarrow> gl_renderer" where
  "dispose_gl w = (releaseResources w)\<lparr>w_gl := False, w_canvas := None, contextValid := False\<rparr>"

definition MAX_LOSSES :: nat where "MAX_LOSSES = 3"

definition handleContextLost :: "gl_renderer \<Rightarrow> gl_renderer" where
  "handleContextLost w =
     (let w = w\<lparr>contextValid := False, contextLossCount := contextLossCount w + 1\<rparr>
      in if MAX_LOSSES \<le> contextLossCount w then w\<lparr>lossesReported := lossesReported w + 1\<rparr> else w)"

text \<open>An exception of \<open>initResources\<close> ends the handler.\<close>

definition handleContextRestored :: "gl_env \<Rightarrow> gl_renderer \<Rightarrow> gl_renderer" where
  "handleContextRestored e w =
     (if w_canvas w = None \<or> \<not> w_gl w then w
      else case initResources e w of
             (w, Some _) \<Rightarrow> w
           | (w, None) \<Rightarrow> w\<lparr>contextValid := contextLossCount w < MAX_LOSSES, forceFullUpload := True\<rparr>)"

section \<open>Sizes\<close>

definition resize_gl :: "num_arg \<Rightarrow> num_arg \<Rightarrow> gl_renderer \<Rightarrow> gl_renderer result" where
  "resize_gl A g w =
     (if w_canvas w = None \<or> \<not> w_gl w then Inl (Js_Error ''WebGLRenderer is not attached'')
      else case (A, g) of
             (Some x, Some y) \<Rightarrow>
               if x < 1 \<or> y < 1 then Inr w
               else
                 let c = \<lfloor>x\<rfloor>; r = \<lfloor>y\<rfloor>; m = w_metrics w;
                     I = of_int c * gm_width m; Q = of_int r * gm_height m
                 in Inr (w\<lparr>gridCols := c, gridRows := r,
                      w_canvas := Some \<lparr>css_width = I, css_height = Q, px_width = \<lfloor>I * w_dpr w\<rfloor>, px_height = \<lfloor>Q * w_dpr w\<rfloor>\<rparr>,
                      cellSizePx := \<lparr>gm_width = gm_width m * w_dpr w, gm_height = gm_height m * w_dpr w,
                                     gm_baseline = gm_baseline m * w_dpr w\<rparr>,
                      cellBuffer := map_option (resize_cells (Some (of_int c)) (Some (of_int r))) (cellBuffer w),
                      forceFullUpload := True\<rparr>)
           | _ \<Rightarrow> Inr w)"

definition reset_gl_atlas :: "gl_env \<Rightarrow> gl_renderer \<Rightarrow> gl_renderer" where
  "reset_gl_atlas e w = w\<lparr>glyphAtlas := map_option
     (reset_atlas (e_browser e) (Some (w_fontSize w)) (w_fontFamily w) (Some (w_dpr w))) (glyphAtlas w)\<rparr>"

text \<open>The grid is sized again where it has a size.\<close>

definition resize_again :: "gl_renderer \<Rightarrow> gl_renderer result" where
  "resize_again w =
     (if gridCols w > 0 \<and> gridRows w > 0
      then resize_gl (Some (of_int (gridCols w))) (Some (of_int (gridRows w))) w else Inr w)"

definition setDevicePixelRatio :: "gl_env \<Rightarrow> rat \<Rightarrow> gl_renderer \<Rightarrow> gl_renderer result" where
  "setDevicePixelRatio e x w =
     (let w = w\<lparr>w_dpr := x\<rparr>; w = w\<lparr>w_metrics := measureFont e w\<rparr>; w = reset_gl_atlas e w
      in and_then (resize_again w) (\<lambda>w. Inr (w\<lparr>forceFullUpload := True\<rparr>)))"

definition setFontSize_gl :: "gl_env \<Rightarrow> num_arg \<Rightarrow> gl_renderer \<Rightarrow> gl_renderer" where
  "setFontSize_gl e A w =
     (case A of
        Some x \<Rightarrow>
          if x \<le> 0 then w
          else let w = w\<lparr>w_fontSize := x\<rparr>; w = w\<lparr>w_metrics := measureFont e w\<rparr>
               in (reset_gl_atlas e w)\<lparr>forceFullUpload := True\<rparr>
      | None \<Rightarrow> w)"

definition setFontFamily_gl :: "gl_env \<Rightarrow> jstr \<Rightarrow> gl_renderer \<Rightarrow> gl_renderer" where
  "setFontFamily_gl e f w =
     (let w = w\<lparr>w_fontFamily := f\<rparr>; w = w\<lparr>w_metrics := measureFont e w\<rparr>
      in (reset_gl_atlas e w)\<lparr>forceFullUpload := True\<rparr>)"

definition updateTheme :: "gl_theme \<Rightarrow> gl_renderer \<Rightarrow> gl_renderer" where
  "updateTheme th w = w\<lparr>w_theme := th\<rparr>"

section \<open>Drawing\<close>

definition call :: "gl_call \<Rightarrow> gl_renderer \<Rightarrow> gl_renderer" where
  "call c w = w\<lparr>gl_calls := gl_calls w @ [c]\<rparr>"

text \<open>A colour with its alpha multiplied in.\<close>

definition premultiplied :: "rgba \<Rightarrow> color4" where
  "premultiplied x = (of_int (c_r x) / 255 * c_a x, of_int (c_g x) / 255 * c_a x, of_int (c_b x) / 255 * c_a x, c_a x)"

definition clear_gl :: "gl_renderer \<Rightarrow> gl_renderer" where
  "clear_gl w = (if w_gl w \<and> w_canvas w \<noteq> None then call (Clear (premultiplied (th_background (w_theme w)))) w else w)"

definition drawSolidRect :: "rat \<times> rat \<Rightarrow> rat \<times> rat \<Rightarrow> rgba \<Rightarrow> gl_renderer \<Rightarrow> gl_renderer" where
  "drawSolidRect p s c w =
     (if w_gl w \<and> w_programs w \<and> w_canvas w \<noteq> None then call (Solid p s (premultiplied c)) w else w)"

datatype cursor_style = Block | Underline | Bar

text \<open>Function \<open>qB\<close>: width, height and offsets of the cursor.\<close>

definition cursor_rect :: "cursor_style \<Rightarrow> gl_metrics \<Rightarrow> rat \<Rightarrow> rat \<times> rat \<times> rat \<times> rat" where
  "cursor_rect st m g =
     (let I = gm_width m * g; Q = gm_height m * g
      in case st of
           Underline \<Rightarrow> let c = max (2 * g) (gm_height m * (15 / 100) * g) in (I, c, 0, Q - c)
         | Bar \<Rightarrow> (max (2 * g) (gm_width m * (15 / 100) * g), Q, 0, 0)
         | Block \<Rightarrow> (I, Q, 0, 0))"

text \<open>The track and the thumb of the scrollbar in CSS pixels: left, top, width and height.\<close>

definition scrollbar_rects ::
  "int \<Rightarrow> int \<Rightarrow> gl_metrics \<Rightarrow> int \<Rightarrow> rat \<Rightarrow> rat \<Rightarrow> ((rat \<times> rat \<times> rat \<times> rat) \<times> (rat \<times> rat \<times> rat \<times> rat)) option" where
  "scrollbar_rects cols rws m scrollback y sw =
     (let q = max 0 sw
      in if q \<le> 0 then None
         else
           let C = of_int cols * gm_width m; E = of_int rws * gm_height m; i = 4; o' = E - i * 2
           in if scrollback \<le> 0 \<or> o' \<le> 0 then None
              else
                let D = scrollback + rws;
                    s = max 20 (of_int rws / of_int D * o');
                    t = min 1 (max 0 (y / of_int scrollback));
                    e = i + (o' - s) * (1 - t);
                    a = C - q - i
                in Some ((a, i, q, o'), (a, e, q, s)))"

definition drawScrollbar :: "rat \<Rightarrow> int \<Rightarrow> rat \<Rightarrow> rat \<Rightarrow> gl_renderer \<Rightarrow> gl_renderer" where
  "drawScrollbar opac scrollback y sw w =
     (if w_canvas w = None then w
      else case scrollbar_rects (gridCols w) (gridRows w) (w_metrics w) scrollback y sw of
             None \<Rightarrow> w
           | Some ((tx, ty, tw, th), (x, e, u, s)) \<Rightarrow>
               let G = (\<lambda>j. j * w_dpr w);
                   grey = (\<lambda>al. \<lparr>c_r = 128, c_g = 128, c_b = 128, c_a = al\<rparr>);
                   w1 = drawSolidRect (G tx, G ty) (G tw, G th) (grey (1 / 10 * opac)) w
               in drawSolidRect (G x, G e) (G u, G s) (grey ((if y > 0 then 5 / 10 else 3 / 10) * opac)) w1)"

text \<open>What the frame says beside the cells.\<close>

record overlay_input =
  ov_cursorX :: int
  ov_cursorY :: int
  ov_cursorVisible :: bool
  ov_cursorStyle :: cursor_style
  ov_scrollbarOpacity :: rat
  ov_scrollbarWidth :: rat
  ov_allowTransparency :: bool

definition drawOverlays :: "frame_input \<Rightarrow> overlay_input \<Rightarrow> gl_renderer \<Rightarrow> gl_renderer" where
  "drawOverlays A o' w =
     (let w = (if ov_cursorVisible o' then
                 let (cw, ch, ox, oy) = cursor_rect (ov_cursorStyle o') (w_metrics w) (w_dpr w);
                     g = cellSizePx w
                 in drawSolidRect (of_int (ov_cursorX o') * gm_width g + ox, of_int (ov_cursorY o') * gm_height g + oy)
                      (cw, ch) (th_cursor (w_theme w)) w
               else w)
      in if ov_scrollbarWidth o' > 0 \<and> ov_scrollbarOpacity o' > 0 \<and> fi_scrollback A > 0
         then drawScrollbar (ov_scrollbarOpacity o') (fi_scrollback A) (fi_viewportY A) (ov_scrollbarWidth o') w
         else w)"

definition drawFramePasses :: "frame_input \<Rightarrow> overlay_input \<Rightarrow> int \<Rightarrow> gl_renderer \<Rightarrow> gl_renderer" where
  "drawFramePasses A o' n w =
     (case (w_gl w, glyphAtlas w) of
        (True, Some a) \<Rightarrow>
          let q = cellSizePx w; grid = (fi_cols A, fi_rows A);
              w = call (Clear (if ov_allowTransparency o' then (0, 0, 0, 0)
                               else premultiplied (th_background (fi_theme A)))) w;
              w = (if \<not> ov_allowTransparency o' \<and> w_programs w then call (Draw_Background q grid n) w else w);
              w = (if w_programs w then call (Draw_Glyphs q grid (atlasSize a) n) w else w)
          in if w_programs w then call (Draw_Decorations q grid n) w else w
      | _ \<Rightarrow> w)"

section \<open>A frame\<close>

text \<open>The result says whether there is a cell buffer and an atlas to draw from.\<close>

definition prepareFrame :: "gl_env \<Rightarrow> frame_input \<Rightarrow> gl_renderer \<Rightarrow> (gl_renderer \<times> bool) result" where
  "prepareFrame e A w =
     (if \<not> contextValid w \<or> \<not> w_gl w \<or> w_canvas w = None then Inr (w, False)
      else
        let g = (case window_dpr e of
                   Some (Some x) \<Rightarrow> if x = 0 then 1 else x
                 | Some None \<Rightarrow> 1
                 | None \<Rightarrow> w_dpr w)
        in and_then (if g \<noteq> w_dpr w then setDevicePixelRatio e g w else Inr w) (\<lambda>w.
             and_then (if fi_cols A \<noteq> gridCols w \<or> fi_rows A \<noteq> gridRows w
                       then resize_gl (Some (of_int (fi_cols A))) (Some (of_int (fi_rows A))) w else Inr w) (\<lambda>w.
               Inr (w\<lparr>w_theme := fi_theme A\<rparr>, cellBuffer w \<noteq> None \<and> glyphAtlas w \<noteq> None))))"

definition updateInstanceData :: "gl_env \<Rightarrow> frame_input \<Rightarrow> gl_renderer \<Rightarrow> gl_renderer result" where
  "updateInstanceData e A w =
     (case (cellBuffer w, glyphAtlas w) of
        (Some b, Some a) \<Rightarrow>
          and_then (update_cells (e_browser e) A (forceFullUpload w) a b) (\<lambda>(a, b).
            Inr (w\<lparr>cellBuffer := Some b, glyphAtlas := Some a, forceFullUpload := False\<rparr>))
      | _ \<Rightarrow> Inr w)"

definition render_gl :: "gl_env \<Rightarrow> frame_input \<Rightarrow> overlay_input \<Rightarrow> gl_renderer \<Rightarrow> gl_renderer result" where
  "render_gl e A o' w =
     (let g = getDevicePixelRatio e w
      in and_then (if g \<noteq> w_dpr w then resize_again (w\<lparr>w_dpr := g\<rparr>) else Inr w) (\<lambda>w.
           and_then (prepareFrame e A w) (\<lambda>(w, ready).
             if \<not> ready then Inr w
             else and_then (updateInstanceData e A w) (\<lambda>w.
                    Inr (drawOverlays A o' (drawFramePasses A o' (fi_cols A * fi_rows A) w))))))"

end
