(* ===== verification/Gw_Webgl_View.thy ===== *)
theory Gw_Webgl_View
  imports Gw_Webgl
begin

text \<open>
  The terminal's side of WebGL rendering (class \<open>_A\<close> of \<open>ghostty-web.js\<close>): it collects from the
  terminal, its scrollback and the selection what a frame shows, reads the colours of the theme, and
  keeps the cursor's blinking, the hovered link, decorations and the text being composed.
\<close>

section \<open>Colours\<close>

text \<open>Functions \<open>rA\<close>, \<open>Ag\<close>, \<open>yA\<close>, \<open>OB\<close> and \<open>pB\<close>. A channel that is not a number makes the colour invalid.\<close>

definition finite_color :: "jsnum \<Rightarrow> jsnum \<Rightarrow> jsnum \<Rightarrow> num_arg \<Rightarrow> rgba option" where
  "finite_color r g b a =
     (case (r, g, b, a) of
        (Num r, Num g, Num b, Some a) \<Rightarrow> Some \<lparr>c_r = r, c_g = g, c_b = b, c_a = a\<rparr>
      | _ \<Rightarrow> None)"

definition byte_channel :: "num_arg \<Rightarrow> int" where
  "byte_channel b = (case b of Some x \<Rightarrow> max 0 (min 255 (js_round x)) | None \<Rightarrow> 0)"

definition css_channel :: "string \<Rightarrow> int" where
  "css_channel s =
     (if s \<noteq> [] \<and> last s = CHR ''%'' then byte_channel (map_option (\<lambda>v. v / 100 * 255) (parse_float s))
      else byte_channel (parse_float s))"

definition css_alpha :: "num_arg \<Rightarrow> rat" where
  "css_alpha b = (case b of Some x \<Rightarrow> max 0 (min 1 x) | None \<Rightarrow> 1)"

definition clamp_finite :: "num_arg \<Rightarrow> rat \<Rightarrow> rat \<Rightarrow> rat" where
  "clamp_finite b lo hi = (case b of Some x \<Rightarrow> max lo (min hi x) | None \<Rightarrow> lo)"

definition hex_alpha :: "jsnum \<Rightarrow> num_arg" where
  "hex_alpha n = (case n of Num i \<Rightarrow> Some (of_int i / 255) | _ \<Rightarrow> None)"

text \<open>Function \<open>$A\<close>.\<close>

definition parse_css :: "string \<Rightarrow> rgba option" where
  "parse_css B =
     (let a = js_trim B; h = drop 1 a;
          twice = (\<lambda>k. parse_int [h ! k, h ! k] 16);
          pair = (\<lambda>k. parse_int (take 2 (drop k h)) 16)
      in if a \<noteq> [] \<and> hd a = CHR ''#'' \<and> (length h = 3 \<or> length h = 4) then
           finite_color (twice 0) (twice 1) (twice 2) (if length h = 4 then hex_alpha (twice 3) else Some 1)
         else if a \<noteq> [] \<and> hd a = CHR ''#'' \<and> (length h = 6 \<or> length h = 8) then
           finite_color (pair 0) (pair 2) (pair 4) (if length h = 8 then hex_alpha (pair 6) else Some 1)
         else case rgb_body a of
           None \<Rightarrow> None
         | Some g \<Rightarrow>
             let I = filter (\<lambda>s. s \<noteq> []) (map js_trim (js_split (CHR '','') g))
             in if 3 \<le> length I
                then finite_color (Num (css_channel (I ! 0))) (Num (css_channel (I ! 1))) (Num (css_channel (I ! 2)))
                       (Some (if 3 < length I then css_alpha (parse_float (I ! 3)) else 1))
                else None)"

text \<open>\<open>spell\<close> is function \<open>fB\<close>: how a canvas of the document spells the colour.\<close>

definition cssToRgba :: "(string \<Rightarrow> string option) \<Rightarrow> string \<Rightarrow> rgba" where
  "cssToRgba spell A =
     (case parse_css A of
        Some c \<Rightarrow> c
      | None \<Rightarrow>
          let black = \<lparr>c_r = 0, c_g = 0, c_b = 0, c_a = 1\<rparr>
          in (case spell A of
                Some I \<Rightarrow> if I \<noteq> [] \<and> I \<noteq> A then (case parse_css I of Some c \<Rightarrow> c | None \<Rightarrow> black) else black
              | None \<Rightarrow> black))"

record css_theme =
  ct_foreground :: string
  ct_background :: string
  ct_cursor :: string
  ct_cursorAccent :: string
  ct_selectionBackground :: string
  ct_selectionForeground :: string

definition default_css :: css_theme where
  "default_css = \<lparr>ct_foreground = ''#d4d4d4'', ct_background = ''#1e1e1e'', ct_cursor = ''#ffffff'',
     ct_cursorAccent = ''#1e1e1e'', ct_selectionBackground = ''#d4d4d4'', ct_selectionForeground = ''#1e1e1e''\<rparr>"

text \<open>A theme may leave colours out: spreading it over another one keeps those.\<close>

record css_patch =
  cp_foreground :: "string option"
  cp_background :: "string option"
  cp_cursor :: "string option"
  cp_cursorAccent :: "string option"
  cp_selectionBackground :: "string option"
  cp_selectionForeground :: "string option"

definition or_else :: "'a option \<Rightarrow> 'a \<Rightarrow> 'a" where
  "or_else x d = (case x of Some y \<Rightarrow> y | None \<Rightarrow> d)"

definition spread_theme :: "css_theme \<Rightarrow> css_patch \<Rightarrow> css_theme" where
  "spread_theme t A =
     \<lparr>ct_foreground = or_else (cp_foreground A) (ct_foreground t),
      ct_background = or_else (cp_background A) (ct_background t),
      ct_cursor = or_else (cp_cursor A) (ct_cursor t),
      ct_cursorAccent = or_else (cp_cursorAccent A) (ct_cursorAccent t),
      ct_selectionBackground = or_else (cp_selectionBackground A) (ct_selectionBackground t),
      ct_selectionForeground = or_else (cp_selectionForeground A) (ct_selectionForeground t)\<rparr>"

definition toWebGLTheme :: "(string \<Rightarrow> string option) \<Rightarrow> css_theme \<Rightarrow> gl_theme" where
  "toWebGLTheme spell A =
     \<lparr>th_foreground = cssToRgba spell (ct_foreground A), th_background = cssToRgba spell (ct_background A),
      th_cursor = cssToRgba spell (ct_cursor A), th_cursorAccent = cssToRgba spell (ct_cursorAccent A),
      th_selectionBackground = cssToRgba spell (ct_selectionBackground A),
      th_selectionForeground = Some (cssToRgba spell (ct_selectionForeground A)), selectionOpacity = 1\<rparr>"

record css_decoration =
  cd_line :: int
  cd_column :: int
  cd_length :: int
  cd_background :: "string option"
  cd_foreground :: "string option"

text \<open>An empty colour counts as none.\<close>

definition css_option :: "(string \<Rightarrow> string option) \<Rightarrow> string option \<Rightarrow> rgba option" where
  "css_option spell s = (case s of Some x \<Rightarrow> if x = [] then None else Some (cssToRgba spell x) | None \<Rightarrow> None)"

definition toWebGLDecorations :: "(string \<Rightarrow> string option) \<Rightarrow> css_decoration list \<Rightarrow> gl_decoration list" where
  "toWebGLDecorations spell ds = map (\<lambda>d. \<lparr>de_line = cd_line d, de_column = cd_column d, de_length = cd_length d,
     de_background = css_option spell (cd_background d), de_foreground = css_option spell (cd_foreground d)\<rparr>) ds"

section \<open>What the terminal provides\<close>

text \<open>
  \<open>src_viewport\<close> is the result of \<open>getViewport\<close> where the terminal has it, and a grapheme is
  decoded by row of the screen and column. \<open>sb_line\<close> reads a line of the scrollback.
\<close>

record screen_source =
  src_cols :: nat
  src_rows :: nat
  src_viewport :: "cell list option"
  src_line :: "nat \<Rightarrow> cell list option"
  src_dirty :: "nat \<Rightarrow> bool"
  src_grapheme :: "(nat \<Rightarrow> nat \<Rightarrow> jstr) option"
  cur_x :: int
  cur_y :: int
  cur_visible :: bool
  cur_style :: "cursor_style option"

record scroll_source =
  sb_length :: nat
  sb_line :: "nat \<Rightarrow> cell list option"

definition emptyCell :: cell where
  "emptyCell = \<lparr>codepoint = 32, fg_r = 0, fg_g = 0, fg_b = 0, bg_r = 0, bg_g = 0, bg_b = 0,
     fgIsDefault = True, bgIsDefault = True, flags = 0, cwidth = 1, hyperlink_id = 0, grapheme_len = 0\<rparr>"

definition cell_of :: "cell list \<Rightarrow> nat \<Rightarrow> cell option" where
  "cell_of cs k = (if k < length cs then Some (cs ! k) else None)"

definition getViewportLineCellReader :: "screen_source \<Rightarrow> int \<Rightarrow> nat \<Rightarrow> nat \<Rightarrow> cell option" where
  "getViewportLineCellReader s r cols k =
     (if r < 0 then None
      else case src_viewport s of
             None \<Rightarrow> cell_of (case src_line s (nat r) of Some l \<Rightarrow> l | None \<Rightarrow> []) k
           | Some v \<Rightarrow> cell_of v (nat r * cols + k))"

text \<open>A line to draw: its cells, the screen row its graphemes are decoded from, and whether it is dirty.\<close>

type_synonym line_source = "(nat \<Rightarrow> cell option) \<times> nat option \<times> bool"

definition getRenderLineSource ::
  "screen_source \<Rightarrow> nat \<Rightarrow> nat \<Rightarrow> int \<Rightarrow> nat \<Rightarrow> scroll_source option \<Rightarrow> line_source" where
  "getRenderLineSource s g cols Q sb E =
     (if Q > 0 then
        case (int g < Q, E) of
          (True, Some E) \<Rightarrow>
            let l = (case sb_line E (nat (int sb - Q + int g)) of Some l \<Rightarrow> l | None \<Rightarrow> [])
            in (cell_of l, None, True)
        | _ \<Rightarrow>
            let r = int g - Q
            in (getViewportLineCellReader s r cols, if 0 \<le> r then Some (nat r) else None,
                if 0 \<le> r then src_dirty s (nat r) else True)
      else (getViewportLineCellReader s (int g) cols, Some g, src_dirty s g))"

section \<open>State\<close>

text \<open>
  \<open>v_selection\<close> is what \<open>getSelectionCoords\<close> of the selection manager returns at the moment, and
  \<open>v_requests\<close> counts the calls of \<open>onRequestRender\<close>.
\<close>

record preedit =
  pe_text :: jstr
  pe_left :: rat
  pe_top :: rat
  pe_font :: "rat \<times> jstr"
  pe_color :: string

record gl_view =
  v_renderer :: gl_renderer
  v_cols :: int
  v_rows :: int
  v_fontSize :: "rat option"
  v_fontFamily :: "jstr option"
  v_theme :: css_theme
  v_transparent :: bool
  v_scrollbarWidth :: rat
  v_selection :: "coords option"
  v_hoveredId :: "nat option"
  v_hoveredRange :: "link_range option"
  v_decorations :: "css_decoration list"
  v_cursorVisible :: bool
  v_cursorStyle :: "cursor_style option"
  v_blinking :: bool
  v_preedit :: "preedit option option"
  v_requests :: nat

text \<open>Function \<open>dB\<close>; a coordinate that is not a finite number makes the range void.\<close>

definition link_range_of :: "(num_arg \<times> num_arg \<times> num_arg \<times> num_arg) option \<Rightarrow> link_range option" where
  "link_range_of B =
     (case B of
        Some (Some sx, Some sy, Some ex, Some ey) \<Rightarrow>
          Some \<lparr>startX = max 0 \<lfloor>sx\<rfloor>, startY = max 0 \<lfloor>sy\<rfloor>, endX = max 0 \<lfloor>ex\<rfloor>, endY = max 0 \<lfloor>ey\<rfloor>\<rparr>
      | _ \<Rightarrow> None)"

definition setHoveredHyperlinkId :: "num_arg option \<Rightarrow> gl_view \<Rightarrow> gl_view" where
  "setHoveredHyperlinkId A v =
     v\<lparr>v_hoveredId := (case A of Some (Some x) \<Rightarrow> Some (nat (max 0 \<lfloor>x\<rfloor>)) | _ \<Rightarrow> None)\<rparr>"

definition setHoveredLinkRange :: "(num_arg \<times> num_arg \<times> num_arg \<times> num_arg) option \<Rightarrow> gl_view \<Rightarrow> gl_view" where
  "setHoveredLinkRange A v = v\<lparr>v_hoveredRange := link_range_of A\<rparr>"

definition setDecorations :: "css_decoration list \<Rightarrow> gl_view \<Rightarrow> gl_view" where
  "setDecorations ds v = v\<lparr>v_decorations := ds\<rparr>"

definition clearDecorations :: "gl_view \<Rightarrow> gl_view" where
  "clearDecorations v = v\<lparr>v_decorations := []\<rparr>"

definition setScrollbarWidth :: "num_arg \<Rightarrow> gl_view \<Rightarrow> gl_view" where
  "setScrollbarWidth A v = v\<lparr>v_scrollbarWidth := (case A of Some x \<Rightarrow> max 0 x | None \<Rightarrow> 0)\<rparr>"

definition setTheme_gl :: "(string \<Rightarrow> string option) \<Rightarrow> css_patch \<Rightarrow> gl_view \<Rightarrow> gl_view" where
  "setTheme_gl spell A v =
     (let th = spread_theme (v_theme v) A
      in v\<lparr>v_theme := th, v_renderer := updateTheme (toWebGLTheme spell th) (v_renderer v)\<rparr>)"

definition setFontSize_view :: "gl_env \<Rightarrow> num_arg \<Rightarrow> gl_view \<Rightarrow> gl_view" where
  "setFontSize_view e A v =
     (case A of
        Some x \<Rightarrow> if x \<le> 0 then v
                   else v\<lparr>v_fontSize := Some x, v_renderer := setFontSize_gl e A (v_renderer v)\<rparr>
      | None \<Rightarrow> v)"

definition setFontFamily_view :: "gl_env \<Rightarrow> jstr \<Rightarrow> gl_view \<Rightarrow> gl_view" where
  "setFontFamily_view e A v =
     v\<lparr>v_fontFamily := Some A, v_renderer := setFontFamily_gl e A (v_renderer v)\<rparr>"

text \<open>\<open>A\<close> is the coordinates the selection manager gives, if there is one.\<close>

definition setSelectionManager :: "coords option \<Rightarrow> gl_view \<Rightarrow> gl_view" where
  "setSelectionManager A v = v\<lparr>v_selection := A\<rparr>"

definition clear_view :: "gl_view \<Rightarrow> gl_view" where
  "clear_view v = v\<lparr>v_renderer := clear_gl (v_renderer v)\<rparr>"

definition setAllowTransparency :: "bool \<Rightarrow> gl_view \<Rightarrow> gl_view" where
  "setAllowTransparency A v = v\<lparr>v_transparent := A\<rparr>"

definition setCursorStyle_gl :: "cursor_style \<Rightarrow> gl_view \<Rightarrow> gl_view" where
  "setCursorStyle_gl s v = v\<lparr>v_cursorStyle := Some s\<rparr>"

text \<open>The blinking interval: \<open>win\<close> says that the document has a window. Its ticks ask for a frame.\<close>

definition startCursorBlink :: "bool \<Rightarrow> gl_view \<Rightarrow> gl_view" where
  "startCursorBlink win v = (if v_blinking v \<or> \<not> win then v else v\<lparr>v_blinking := True\<rparr>)"

definition stopCursorBlink :: "gl_view \<Rightarrow> gl_view" where
  "stopCursorBlink v = v\<lparr>v_blinking := False, v_cursorVisible := True\<rparr>"

definition setCursorBlink :: "bool \<Rightarrow> bool \<Rightarrow> gl_view \<Rightarrow> gl_view" where
  "setCursorBlink win A v = (if A then startCursorBlink win v else stopCursorBlink v)"

definition blink_tick :: "gl_view \<Rightarrow> gl_view" where
  "blink_tick v = (if v_blinking v then v\<lparr>v_cursorVisible := \<not> v_cursorVisible v, v_requests := v_requests v + 1\<rparr> else v)"

text \<open>The overlay for text being composed: absent, hidden, or a text at a position in pixels.\<close>

definition attachOverlayTo :: "gl_view \<Rightarrow> gl_view" where
  "attachOverlayTo v = (if v_preedit v = None then v\<lparr>v_preedit := Some None\<rparr> else v)"

definition clearPreedit :: "gl_view \<Rightarrow> gl_view" where
  "clearPreedit v = v\<lparr>v_preedit := map_option (\<lambda>_. None) (v_preedit v)\<rparr>"

definition drawPreedit :: "jstr \<Rightarrow> num_arg \<Rightarrow> num_arg \<Rightarrow> gl_view \<Rightarrow> gl_view" where
  "drawPreedit s x y v =
     (if v_preedit v = None then v
      else if s = [] then clearPreedit v
      else let m = w_metrics (v_renderer v); pos = (\<lambda>a. case a of Some n \<Rightarrow> of_int (max 0 \<lfloor>n\<rfloor>) | None \<Rightarrow> 0)
           in v\<lparr>v_preedit := Some (Some \<lparr>pe_text = s, pe_left = pos x * gm_width m, pe_top = pos y * gm_height m,
                pe_font = (or_else (v_fontSize v) 15, or_else (v_fontFamily v) (js ''monospace'')),
                pe_color = ct_foreground (v_theme v)\<rparr>)\<rparr>)"

text \<open>
  Whether WebGL can be tried: \<open>doc\<close> says that there is a document, \<open>ctx\<close> is the outcome of asking a
  fresh canvas for a context.
\<close>

definition canUse :: "bool \<Rightarrow> bool result \<Rightarrow> bool" where
  "canUse doc ctx = (doc \<and> (case ctx of Inr c \<Rightarrow> c | Inl _ \<Rightarrow> False))"

text \<open>The constructor; the renderer may fail to attach.\<close>

definition new_gl_view ::
  "gl_env \<Rightarrow> (string \<Rightarrow> string option) \<Rightarrow> bool \<Rightarrow> canvas_size \<Rightarrow> rat option \<Rightarrow> jstr option \<Rightarrow> num_arg option \<Rightarrow> css_patch
   \<Rightarrow> bool \<Rightarrow> rat option \<Rightarrow> bool \<Rightarrow> bool \<Rightarrow> gl_view result" where
  "new_gl_view e spell gl c sz family dpr patch transparent sw blink win =
     (let th = spread_theme default_css patch in case attach e gl c (new_gl_renderer e sz family dpr) of
        (w, Some x) \<Rightarrow> Inl x
      | (w, None) \<Rightarrow>
          Inr (setCursorBlink win blink
            \<lparr>v_renderer = updateTheme (toWebGLTheme spell th) w, v_cols = 0, v_rows = 0,
             v_fontSize = sz, v_fontFamily = family, v_theme = th,
             v_transparent = transparent, v_scrollbarWidth = max 0 (case sw of Some x \<Rightarrow> x | None \<Rightarrow> 8),
             v_selection = None, v_hoveredId = None, v_hoveredRange = None, v_decorations = [],
             v_cursorVisible = True, v_cursorStyle = None, v_blinking = False, v_preedit = None, v_requests = 0\<rparr>))"

definition dispose_view :: "gl_view \<Rightarrow> gl_view" where
  "dispose_view v = (stopCursorBlink v)\<lparr>v_preedit := None, v_renderer := dispose_gl (v_renderer v)\<rparr>"

definition resize_view :: "num_arg \<Rightarrow> num_arg \<Rightarrow> gl_view \<Rightarrow> gl_view result" where
  "resize_view A g v =
     (case (A, g) of
        (Some x, Some y) \<Rightarrow>
          if x < 1 \<or> y < 1 then Inr v
          else and_then (resize_gl (Some (of_int \<lfloor>x\<rfloor>)) (Some (of_int \<lfloor>y\<rfloor>)) (v_renderer v)) (\<lambda>w.
                 Inr (v\<lparr>v_cols := \<lfloor>x\<rfloor>, v_rows := \<lfloor>y\<rfloor>, v_renderer := w\<rparr>))
      | _ \<Rightarrow> Inr v)"

section \<open>The input of a frame\<close>

definition rowIntersectsSelection :: "nat \<Rightarrow> coords option \<Rightarrow> bool" where
  "rowIntersectsSelection r s = (case s of Some s \<Rightarrow> startRow s \<le> int r \<and> int r \<le> endRow s | None \<Rightarrow> False)"

definition rowIntersectsHoveredLink :: "nat \<Rightarrow> gl_view \<Rightarrow> bool" where
  "rowIntersectsHoveredLink r v =
     (case v_hoveredRange v of Some g \<Rightarrow> startY g \<le> int r \<and> int r \<le> endY g | None \<Rightarrow> False)"

text \<open>One row: its cells, its decoded graphemes if it has any, and its flags.\<close>

definition render_row ::
  "screen_source \<Rightarrow> bool \<Rightarrow> int \<Rightarrow> nat \<Rightarrow> scroll_source option \<Rightarrow> gl_view \<Rightarrow> nat
   \<Rightarrow> cell list \<times> (nat \<Rightarrow> jstr option) option \<times> nat" where
  "render_row s force G sb E v r =
     (let (cellAt, grow, dirty) = getRenderLineSource s r (src_cols s) G sb E;
          cs = map (\<lambda>k. case cellAt k of Some c \<Rightarrow> c | None \<Rightarrow> emptyCell) [0..<src_cols s];
          has = (\<lambda>k. k < length cs \<and> grapheme_len (cs ! k) > 0);
          gr = (case (grow, src_grapheme s) of
                  (Some g, Some f) \<Rightarrow>
                    if (\<exists>k\<in>set [0..<src_cols s]. has k) then Some (\<lambda>k. if has k then Some (f g k) else None) else None
                | _ \<Rightarrow> None);
          h = (if force \<or> dirty then ROW_DIRTY else 0) OR
              (if rowIntersectsSelection r (v_selection v) then ROW_SELECTION else 0) OR
              (if rowIntersectsHoveredLink r v then ROW_HYPERLINK else 0)
      in (cs, gr, h))"

definition buildRenderInput ::
  "(string \<Rightarrow> string option) \<Rightarrow> screen_source \<Rightarrow> bool \<Rightarrow> num_arg \<Rightarrow> scroll_source option \<Rightarrow> rat \<Rightarrow> gl_view
   \<Rightarrow> frame_input \<times> overlay_input" where
  "buildRenderInput spell s force I Q opac v =
     (let sb = (case Q of Some q \<Rightarrow> sb_length q | None \<Rightarrow> 0);
          a = clamp_finite I 0 (of_nat sb); G = \<lfloor>a\<rfloor>;
          rs = map (render_row s force G sb Q v) [0..<src_rows s]
      in (\<lparr>fi_cols = int (src_cols s), fi_rows = int (src_rows s), viewportCells = concat (map fst rs),
           graphemeRows = map (fst \<circ> snd) rs, rowFlags = map (snd \<circ> snd) rs, dirtyState = FULL,
           selectionRange = v_selection v,
           hoveredLink = (if v_hoveredId v \<noteq> None \<or> v_hoveredRange v \<noteq> None
             then Some \<lparr>hl_id = (case v_hoveredId v of Some n \<Rightarrow> n | None \<Rightarrow> 0), hl_range = v_hoveredRange v\<rparr> else None),
           decorations = toWebGLDecorations spell (v_decorations v), fi_getGrapheme = src_grapheme s,
           fi_theme = toWebGLTheme spell (v_theme v), fi_viewportY = a, fi_scrollback = int sb\<rparr>,
          \<lparr>ov_cursorX = cur_x s, ov_cursorY = cur_y s, ov_cursorVisible = cur_visible s \<and> v_cursorVisible v,
           ov_cursorStyle = (case cur_style s of Some c \<Rightarrow> c
             | None \<Rightarrow> (case v_cursorStyle v of Some c \<Rightarrow> c | None \<Rightarrow> Block)),
           ov_scrollbarOpacity = opac, ov_scrollbarWidth = v_scrollbarWidth v, ov_allowTransparency = v_transparent v\<rparr>))"

definition render_view ::
  "gl_env \<Rightarrow> (string \<Rightarrow> string option) \<Rightarrow> screen_source \<Rightarrow> bool \<Rightarrow> num_arg \<Rightarrow> scroll_source option \<Rightarrow> rat \<Rightarrow> gl_view
   \<Rightarrow> gl_view result" where
  "render_view e spell s force I Q opac v =
     and_then (if int (src_cols s) \<noteq> v_cols v \<or> int (src_rows s) \<noteq> v_rows v
               then resize_view (Some (of_nat (src_cols s))) (Some (of_nat (src_rows s))) v else Inr v) (\<lambda>v.
       let (A, o') = buildRenderInput spell s force I Q opac v
       in and_then (render_gl e A o' (v_renderer v)) (\<lambda>w. Inr (v\<lparr>v_renderer := w\<rparr>)))"

end
