(* ===== verification/Gw_Webgl_Props.thy ===== *)
theory Gw_Webgl_Props
  imports Gw_Webgl Gw_Terminal
begin

text \<open>
  The WebGL renderer: a frame on an attached renderer is drawn, from a GPU buffer with the cells of
  that frame, and its scrollbar is where the terminal looks for it. A change of the pixel ratio
  does not reach the glyph atlas.
\<close>

section \<open>A renderer that can draw\<close>

definition grid_ok :: "int \<Rightarrow> int \<Rightarrow> bool" where
  "grid_ok c r \<longleftrightarrow> 0 \<le> c \<and> 0 \<le> r \<and> c * r * int CELL_BYTES \<le> MAX_SAFE"

definition gl_ready :: "gl_env \<Rightarrow> gl_renderer \<Rightarrow> bool" where
  "gl_ready e w \<longleftrightarrow> contextValid w \<and> w_gl w \<and> w_canvas w \<noteq> None \<and> w_programs w \<and>
     grid_ok (gridCols w) (gridRows w) \<and>
     (\<exists>a b. glyphAtlas w = Some a \<and> atlas_reach (e_browser e) a \<and> cellBuffer w = Some b \<and> buffer_ok b)"

lemma grid_ok_frame: "frame_ok A \<Longrightarrow> grid_ok (fi_cols A) (fi_rows A)"
  using frame_small [of A] by (simp add: grid_ok_def frame_ok_def CELL_BYTES_def MAX_SAFE_def mult.commute)

lemma resize_cells_ok:
  assumes "buffer_ok b" "grid_ok c r"
  shows "buffer_ok (resize_cells (Some (of_int c)) (Some (of_int r)) b)"
proof (cases "c < 1 \<or> r < 1 \<or> (c = cb_cols b \<and> r = cb_rows b)")
  case False
  then have "0 < c * r * int CELL_BYTES" "nat (c * r * int CELL_BYTES) = nat r * nat c * CELL_BYTES"
    by (simp_all add: CELL_BYTES_def nat_mult_distrib mult.commute)
  then show ?thesis
    using False assms(2) by (auto simp: resize_cells_def Let_def buffer_ok_def grid_ok_def)
qed (use assms(1) in \<open>auto simp: resize_cells_def Let_def\<close>)

text \<open>Sizing, measuring and resetting keep a renderer ready.\<close>

lemma resize_gl_ready:
  assumes w: "gl_ready e w" and g: "grid_ok c r"
  shows "\<exists>w'. resize_gl (Some (of_int c)) (Some (of_int r)) w = Inr w' \<and> gl_ready e w' \<and>
    w_dpr w' = w_dpr w \<and> glyphAtlas w' = glyphAtlas w \<and> gl_calls w' = gl_calls w \<and> w_metrics w' = w_metrics w \<and>
    (1 \<le> c \<and> 1 \<le> r \<longrightarrow> gridCols w' = c \<and> gridRows w' = r \<and> forceFullUpload w')"
proof -
  obtain a b where ab: "glyphAtlas w = Some a" "atlas_reach (e_browser e) a" "cellBuffer w = Some b" "buffer_ok b"
    using w by (auto simp: gl_ready_def)
  show ?thesis
    using w g ab resize_cells_ok [OF ab(4) g] by (auto simp: resize_gl_def Let_def gl_ready_def)
qed

lemma resize_again_ready:
  assumes "gl_ready e w"
  shows "\<exists>w'. resize_again w = Inr w' \<and> gl_ready e w' \<and> w_dpr w' = w_dpr w \<and> glyphAtlas w' = glyphAtlas w \<and>
    gl_calls w' = gl_calls w \<and> w_metrics w' = w_metrics w"
proof (cases "gridCols w > 0 \<and> gridRows w > 0")
  case True
  have "grid_ok (gridCols w) (gridRows w)" using assms by (simp add: gl_ready_def)
  then show ?thesis using resize_gl_ready [OF assms] True by (auto simp: resize_again_def)
qed (use assms in \<open>auto simp: resize_again_def\<close>)

lemma setDevicePixelRatio_ready:
  assumes w: "gl_ready e w"
  shows "\<exists>w'. setDevicePixelRatio e x w = Inr w' \<and> gl_ready e w' \<and> w_dpr w' = x \<and> gl_calls w' = gl_calls w"
proof -
  let ?w = "reset_gl_atlas e ((w\<lparr>w_dpr := x\<rparr>)\<lparr>w_metrics := measureFont e (w\<lparr>w_dpr := x\<rparr>)\<rparr>)"
  have "gl_ready e ?w" using w by (auto simp: gl_ready_def reset_gl_atlas_def intro: atlas_reach.reset)
  from resize_again_ready [OF this] obtain w' where w': "resize_again ?w = Inr w'" "gl_ready e w'"
    "w_dpr w' = x" "gl_calls w' = gl_calls w"
    by (auto simp: reset_gl_atlas_def)
  then show ?thesis by (auto simp: setDevicePixelRatio_def Let_def gl_ready_def)
qed

lemma prepareFrame_ready:
  assumes w: "gl_ready e w" and A: "frame_ok A"
  shows "\<exists>w'. prepareFrame e A w = Inr (w', True) \<and> gl_ready e w' \<and> gridCols w' = fi_cols A \<and>
    gridRows w' = fi_rows A \<and> gl_calls w' = gl_calls w \<and> w_theme w' = fi_theme A \<and>
    (window_dpr e = Some (Some (w_dpr w)) \<and> w_dpr w \<noteq> 0 \<longrightarrow> w_dpr w' = w_dpr w \<and> glyphAtlas w' = glyphAtlas w)"
proof -
  define g where "g = (case window_dpr e of
    Some (Some x) \<Rightarrow> if x = 0 then 1 else x | Some None \<Rightarrow> 1 | None \<Rightarrow> w_dpr w)"
  have same: "window_dpr e = Some (Some (w_dpr w)) \<and> w_dpr w \<noteq> 0 \<longrightarrow> g = w_dpr w" by (auto simp: g_def)
  obtain w1 where w1: "(if g \<noteq> w_dpr w then setDevicePixelRatio e g w else Inr w) = Inr w1" "gl_ready e w1"
    "gl_calls w1 = gl_calls w" "g = w_dpr w \<longrightarrow> w1 = w"
    using setDevicePixelRatio_ready [OF w, of g] w by (cases "g = w_dpr w") auto
  obtain w2 where w2: "(if fi_cols A \<noteq> gridCols w1 \<or> fi_rows A \<noteq> gridRows w1
      then resize_gl (Some (of_int (fi_cols A))) (Some (of_int (fi_rows A))) w1 else Inr w1) = Inr w2"
    "gl_ready e w2" "gridCols w2 = fi_cols A" "gridRows w2 = fi_rows A" "gl_calls w2 = gl_calls w1"
    "w_dpr w2 = w_dpr w1" "glyphAtlas w2 = glyphAtlas w1"
    using resize_gl_ready [OF w1(2) grid_ok_frame [OF A]] A w1(2)
    by (cases "fi_cols A \<noteq> gridCols w1 \<or> fi_rows A \<noteq> gridRows w1") (auto simp: frame_ok_def)
  have "\<not> (\<not> contextValid w \<or> \<not> w_gl w \<or> w_canvas w = None)" using w by (auto simp: gl_ready_def)
  then have "prepareFrame e A w = Inr (w2\<lparr>w_theme := fi_theme A\<rparr>, True)"
    using w1(1) w2(1,2) by (auto simp: prepareFrame_def Let_def g_def [symmetric] gl_ready_def)
  moreover have "gl_ready e (w2\<lparr>w_theme := fi_theme A\<rparr>)" using w2(2) by (simp add: gl_ready_def)
  ultimately show ?thesis using w1(3,4) w2(3-) same by auto
qed


section \<open>A frame\<close>

text \<open>The shaders read of every cell of the frame what it should look like.\<close>

definition shows_frame :: "browser \<Rightarrow> frame_input \<Rightarrow> byte list \<Rightarrow> bool" where
  "shows_frame B A g \<longleftrightarrow>
     (let C = nat (fi_cols A); (t, get) = grapheme_source A [0..<nat (fi_rows A)]
      in \<forall>r<nat (fi_rows A). \<forall>k<C. let c = viewportCells A ! (r * C + k); res = cell_colors A r k c
         in \<exists>a1 a2 R. atlas_reach B a1 \<and> cell_glyph B (row_at t r) get r k res c a1 = Inr (a2, R) \<and>
              attribs_at (cell_at g (r * C + k)) = attribs_for (cwidth c) res R)"

lemma updateInstanceData_ready:
  assumes B: "browser_ok (e_browser e)" and w: "gl_ready e w" and A: "frame_ok A" "code_points_ok A" "colors_ok A"
    and full: "dirtyState A = FULL"
  shows "\<exists>w' b. updateInstanceData e A w = Inr w' \<and> gl_ready e w' \<and> cellBuffer w' = Some b \<and>
    shows_frame (e_browser e) A (gpu b) \<and> \<not> forceFullUpload w' \<and>
    w' = w\<lparr>cellBuffer := cellBuffer w', glyphAtlas := glyphAtlas w', forceFullUpload := False\<rparr>"
proof -
  obtain a b where ab: "glyphAtlas w = Some a" "atlas_reach (e_browser e) a" "cellBuffer w = Some b" "buffer_ok b"
    using w by (auto simp: gl_ready_def)
  let ?f = "forceFullUpload w"
  have rs: "rows_to_write A ?f = [0..<nat (fi_rows A)]" using full by (simp add: rows_to_write_def)
  obtain t get where src: "grapheme_source A (rows_to_write A ?f) = (t, get)"
    by (cases "grapheme_source A (rows_to_write A ?f)")
  from update_attribs [OF B ab(2) A ab(4) src refl]
  obtain a' b' where u: "update_cells (e_browser e) A ?f a b = Inr (a', b')" "atlas_reach (e_browser e) a'" "buffer_ok b'"
    "shows_frame (e_browser e) A (gpu b')"
    using src by (auto simp: shows_frame_def rs Let_def)
  then show ?thesis using w ab by (auto simp: updateInstanceData_def gl_ready_def)
qed

text \<open>The calls of a frame, in order.\<close>

definition scrollbar_calls :: "frame_input \<Rightarrow> overlay_input \<Rightarrow> gl_renderer \<Rightarrow> gl_call list" where
  "scrollbar_calls A o' w =
     (let d = w_dpr w; grey = (\<lambda>al. premultiplied \<lparr>c_r = 128, c_g = 128, c_b = 128, c_a = al\<rparr>)
      in if ov_scrollbarWidth o' > 0 \<and> ov_scrollbarOpacity o' > 0 \<and> fi_scrollback A > 0 then
           case scrollbar_rects (gridCols w) (gridRows w) (w_metrics w) (fi_scrollback A) (fi_viewportY A) (ov_scrollbarWidth o') of
             None \<Rightarrow> []
           | Some ((tx, ty, tw, th), (x, y, u, s)) \<Rightarrow>
               [Solid (tx * d, ty * d) (tw * d, th * d) (grey (1 / 10 * ov_scrollbarOpacity o')),
                Solid (x * d, y * d) (u * d, s * d)
                  (grey ((if fi_viewportY A > 0 then 5 / 10 else 3 / 10) * ov_scrollbarOpacity o'))]
         else [])"

definition cursor_calls :: "overlay_input \<Rightarrow> gl_renderer \<Rightarrow> gl_call list" where
  "cursor_calls o' w =
     (if ov_cursorVisible o' then
        let (cw, ch, ox, oy) = cursor_rect (ov_cursorStyle o') (w_metrics w) (w_dpr w)
        in [Solid (of_int (ov_cursorX o') * gm_width (cellSizePx w) + ox, of_int (ov_cursorY o') * gm_height (cellSizePx w) + oy)
              (cw, ch) (premultiplied (th_cursor (w_theme w)))]
      else [])"

definition pass_calls :: "frame_input \<Rightarrow> overlay_input \<Rightarrow> int \<Rightarrow> gl_renderer \<Rightarrow> gl_call list" where
  "pass_calls A o' n w =
     (let q = cellSizePx w; grid = (fi_cols A, fi_rows A); count = fi_cols A * fi_rows A
      in if ov_allowTransparency o'
         then [Clear (0, 0, 0, 0), Draw_Glyphs q grid n count, Draw_Decorations q grid count]
         else [Clear (premultiplied (th_background (fi_theme A))), Draw_Background q grid count,
               Draw_Glyphs q grid n count, Draw_Decorations q grid count])"

lemma drawSolidRect_call:
  "\<lbrakk>w_gl w; w_programs w; w_canvas w \<noteq> None\<rbrakk>
   \<Longrightarrow> drawSolidRect p s c w = w\<lparr>gl_calls := gl_calls w @ [Solid p s (premultiplied c)]\<rparr>"
  by (simp add: drawSolidRect_def call_def)

lemma drawOverlays_calls:
  assumes "w_gl w" "w_programs w" "w_canvas w \<noteq> None"
  shows "drawOverlays A o' w = w\<lparr>gl_calls := gl_calls w @ cursor_calls o' w @ scrollbar_calls A o' w\<rparr>"
proof -
  obtain cw ch ox oy where c: "cursor_rect (ov_cursorStyle o') (w_metrics w) (w_dpr w) = (cw, ch, ox, oy)"
    by (cases "cursor_rect (ov_cursorStyle o') (w_metrics w) (w_dpr w)")
  define v where "v = w\<lparr>gl_calls := gl_calls w @ cursor_calls o' w\<rparr>"
  have v: "w_gl v" "w_programs v" "w_canvas v \<noteq> None" "scrollbar_calls A o' v = scrollbar_calls A o' w"
    using assms by (simp_all add: v_def scrollbar_calls_def Let_def)
  have "drawOverlays A o' w =
    (if ov_scrollbarWidth o' > 0 \<and> ov_scrollbarOpacity o' > 0 \<and> fi_scrollback A > 0
     then drawScrollbar (ov_scrollbarOpacity o') (fi_scrollback A) (fi_viewportY A) (ov_scrollbarWidth o') v else v)"
    using assms by (simp add: drawOverlays_def Let_def c drawSolidRect_call v_def cursor_calls_def)
  also have "\<dots> = v\<lparr>gl_calls := gl_calls v @ scrollbar_calls A o' v\<rparr>"
    using v(1-3)
    by (cases "scrollbar_rects (gridCols v) (gridRows v) (w_metrics v) (fi_scrollback A) (fi_viewportY A) (ov_scrollbarWidth o')")
      (simp_all add: scrollbar_calls_def drawScrollbar_def drawSolidRect_call Let_def split: prod.splits)
  finally show ?thesis using v(4) by (simp add: v_def)
qed

lemma drawFramePasses_calls:
  assumes "w_gl w" "w_programs w" "glyphAtlas w = Some a"
  shows "drawFramePasses A o' (fi_cols A * fi_rows A) w = w\<lparr>gl_calls := gl_calls w @ pass_calls A o' (atlasSize a) w\<rparr>"
  using assms by (auto simp: drawFramePasses_def pass_calls_def call_def Let_def)


text \<open>What \<open>render\<close> does first with a new pixel ratio.\<close>

lemma render_start:
  assumes w: "gl_ready e w"
  shows "\<exists>w'. (if getDevicePixelRatio e w \<noteq> w_dpr w then resize_again (w\<lparr>w_dpr := getDevicePixelRatio e w\<rparr>) else Inr w) = Inr w' \<and>
    gl_ready e w' \<and> gl_calls w' = gl_calls w \<and> glyphAtlas w' = glyphAtlas w \<and> w_dpr w' = getDevicePixelRatio e w"
proof (cases "getDevicePixelRatio e w = w_dpr w")
  case False
  have "gl_ready e (w\<lparr>w_dpr := getDevicePixelRatio e w\<rparr>)" using w by (simp add: gl_ready_def)
  from resize_again_ready [OF this] show ?thesis using False by auto
qed (use w in simp)

lemma render_result:
  assumes B: "browser_ok (e_browser e)" and w: "gl_ready e w" and A: "frame_ok A" "code_points_ok A" "colors_ok A"
    and full: "dirtyState A = FULL"
  shows "\<exists>w' a b. render_gl e A o' w = Inr w' \<and> gl_ready e w' \<and> gridCols w' = fi_cols A \<and> gridRows w' = fi_rows A \<and>
    glyphAtlas w' = Some a \<and> cellBuffer w' = Some b \<and> shows_frame (e_browser e) A (gpu b) \<and> w_theme w' = fi_theme A \<and>
    gl_calls w' = gl_calls w @ pass_calls A o' (atlasSize a) w' @ cursor_calls o' w' @ scrollbar_calls A o' w'"
proof -
  obtain w1 where w1: "(if getDevicePixelRatio e w \<noteq> w_dpr w then resize_again (w\<lparr>w_dpr := getDevicePixelRatio e w\<rparr>) else Inr w) = Inr w1"
    "gl_ready e w1" "gl_calls w1 = gl_calls w" using render_start [OF w] by blast
  obtain w2 where w2: "prepareFrame e A w1 = Inr (w2, True)" "gl_ready e w2" "gridCols w2 = fi_cols A"
    "gridRows w2 = fi_rows A" "gl_calls w2 = gl_calls w1" "w_theme w2 = fi_theme A"
    using prepareFrame_ready [OF w1(2) A(1)] by blast
  obtain w3 b where w3: "updateInstanceData e A w2 = Inr w3" "gl_ready e w3" "cellBuffer w3 = Some b"
    "shows_frame (e_browser e) A (gpu b)"
    "w3 = w2\<lparr>cellBuffer := cellBuffer w3, glyphAtlas := glyphAtlas w3, forceFullUpload := False\<rparr>"
    using updateInstanceData_ready [OF B w2(2) A full] by blast
  have same: "gridCols w3 = fi_cols A" "gridRows w3 = fi_rows A" "gl_calls w3 = gl_calls w" "w_theme w3 = fi_theme A"
    by (subst w3(5), simp add: w1(3) w2(3-))+
  obtain a where a: "glyphAtlas w3 = Some a" "w_gl w3" "w_programs w3" "w_canvas w3 \<noteq> None"
    using w3(2) by (auto simp: gl_ready_def)
  define w4 where "w4 = w3\<lparr>gl_calls := gl_calls w3 @ pass_calls A o' (atlasSize a) w3\<rparr>"
  define w5 where "w5 = w4\<lparr>gl_calls := gl_calls w4 @ cursor_calls o' w4 @ scrollbar_calls A o' w4\<rparr>"
  have "render_gl e A o' w = Inr (drawOverlays A o' (drawFramePasses A o' (fi_cols A * fi_rows A) w3))"
    unfolding render_gl_def Let_def w1(1) and_then_simps w2(1) prod.case w3(1) by simp
  also have "drawFramePasses A o' (fi_cols A * fi_rows A) w3 = w4"
    unfolding w4_def using a by (intro drawFramePasses_calls) simp_all
  also have "drawOverlays A o' w4 = w5"
    unfolding w5_def using a by (intro drawOverlays_calls) (simp_all add: w4_def)
  finally have "render_gl e A o' w = Inr w5" .
  moreover have "pass_calls A o' n w5 = pass_calls A o' n w3" "cursor_calls o' w5 = cursor_calls o' w4"
    "scrollbar_calls A o' w5 = scrollbar_calls A o' w4" for n
    by (simp_all add: w5_def w4_def pass_calls_def cursor_calls_def scrollbar_calls_def Let_def)
  ultimately show ?thesis
    using w3(2-4) a(1) same by (intro exI [of _ w5] exI [of _ a] exI [of _ b]) (simp add: w5_def w4_def gl_ready_def)
qed

section \<open>The scrollbar\<close>

text \<open>
  The thumb that is drawn, in CSS pixels, is the part of the scrollbar where a press of the button
  starts a drag: the canvas has the size the renderer gave it, and the terminal computes the thumb
  on its own.
\<close>

lemma thumb_is_draggable:
  fixes t :: "'w terminal"
  assumes m: "0 < gm_height m" and dims: "r_width R = of_int n * gm_width m" "r_height R = of_nat (rows t) * gm_height m"
    and ready: "renderer t \<noteq> None" "wasmTerm t \<noteq> None" and sw: "o_scrollbarWidth (options t) = Some sw" "0 < sw"
    and y: "0 \<le> viewportY t" "viewportY t \<le> of_nat (getScrollbackLength core t)"
    and sb: "getScrollbackLength core t \<noteq> 0"
    and r: "scrollbar_rects n (int (rows t)) m (int (getScrollbackLength core t)) (viewportY t) sw = Some (track, (x, e, u, s))"
    and inn: "x \<le> px" "px \<le> x + u" "e \<le> py" "py \<le> e + s"
  shows "handleMouseDown core R (r_left R + px) (r_top R + py) t =
    t\<lparr>isDraggingScrollbar := True, scrollbarDragStart := Some py, scrollbarDragStartViewportY := viewportY t\<rparr>"
proof -
  let ?g = "getScrollbackLength core t"
  have g: "0 < ?g" using sb by simp
  have frac: "min 1 (max 0 (viewportY t / of_nat ?g)) = viewportY t / of_nat ?g" using y g by simp
  have rr: "x = of_int n * gm_width m - sw - 4" "u = sw"
    "s = max 20 (of_nat (rows t) / of_nat (?g + rows t) * (of_nat (rows t) * gm_height m - 8))"
    "e = 4 + (of_nat (rows t) * gm_height m - 8 - s) * (1 - viewportY t / of_nat ?g)"
    using r sw(2) frac by (auto simp: scrollbar_rects_def Let_def split: if_splits)
  show ?thesis
    using ready sw g inn rr dims
    by (auto simp: handleMouseDown_def Let_def track_length_def thumb_length_def thumb_top_def)
qed


section \<open>Attaching, losing and restoring the context\<close>

definition resources_available :: "gl_env \<Rightarrow> bool" where
  "resources_available e \<longleftrightarrow> quad_ok e \<and> cells_ok e \<and> textures_created e \<and> contexts_ok e \<and> programs_ok e"

lemma initResources_available:
  assumes "resources_available e" "w_gl w"
  shows "\<exists>w' a b. initResources e w = (w', None) \<and> glyphAtlas w' = Some a \<and> atlas_reach (e_browser e) a \<and>
    cellBuffer w' = Some b \<and> buffer_ok b \<and> w_programs w' \<and> forceFullUpload w' \<and>
    w' = w\<lparr>cellBuffer := Some b, glyphAtlas := Some a, w_programs := True, forceFullUpload := True\<rparr>"
proof -
  obtain a where a: "new_atlas (e_browser e) (max_texture e) (textures_created e) (contexts_ok e)
      (Some (w_fontSize w)) (w_fontFamily w) (Some (w_dpr w)) = Inr a"
    using assms(1) by (simp add: new_atlas_def resources_available_def Let_def)
  then have "atlas_reach (e_browser e) a" by (rule atlas_reach.new)
  then show ?thesis
    using assms a by (simp add: initResources_def Let_def resources_available_def releaseResources_def
      new_cell_buffer_def buffer_ok_def)
qed

lemma attach_ready:
  assumes "resources_available e"
  shows "\<exists>w. attach e True c (new_gl_renderer e sz f d) = (w, None) \<and> gl_ready e w"
proof -
  let ?w = "new_gl_renderer e sz f d"
  define v where "v = (let w = ?w\<lparr>w_canvas := Some c\<rparr> in w\<lparr>w_dpr := getDevicePixelRatio e w, w_gl := True, contextValid := True\<rparr>)"
  have v: "w_gl v" "contextValid v" "w_canvas v = Some c" "gridCols v = 0" "gridRows v = 0"
    by (simp_all add: v_def new_gl_renderer_def Let_def)
  obtain w a b where w: "initResources e v = (w, None)" "glyphAtlas w = Some a" "atlas_reach (e_browser e) a"
    "cellBuffer w = Some b" "buffer_ok b" "w_programs w"
    "w = v\<lparr>cellBuffer := Some b, glyphAtlas := Some a, w_programs := True, forceFullUpload := True\<rparr>"
    using initResources_available [OF assms v(1)] by blast
  have "attach e True c ?w = initResources e v" by (simp add: attach_def v_def Let_def)
  moreover have "gl_ready e w"
    unfolding gl_ready_def using w(2-6) by (subst w(7))+ (simp add: v grid_ok_def MAX_SAFE_def)
  ultimately show ?thesis using w(1) by simp
qed

text \<open>
  After the first and the second loss the restored context is used again, with fresh resources; the
  third loss is reported and final.
\<close>

lemma context_restored:
  assumes w: "gl_ready e w" and e: "resources_available e"
  shows "gl_ready e (handleContextRestored e (handleContextLost w)) \<longleftrightarrow> contextLossCount w < 2"
proof -
  let ?l = "handleContextLost w"
  have l: "w_gl ?l" "w_canvas ?l = w_canvas w" "gridCols ?l = gridCols w" "gridRows ?l = gridRows w"
    "contextLossCount ?l = contextLossCount w + 1"
    using w by (simp_all add: handleContextLost_def Let_def gl_ready_def)
  obtain w' a b where w': "initResources e ?l = (w', None)" "atlas_reach (e_browser e) a" "buffer_ok b"
    "w' = ?l\<lparr>cellBuffer := Some b, glyphAtlas := Some a, w_programs := True, forceFullUpload := True\<rparr>"
    using initResources_available [OF e l(1)] by blast
  have "handleContextRestored e ?l = w'\<lparr>contextValid := contextLossCount w' < MAX_LOSSES, forceFullUpload := True\<rparr>"
    using w l(1,2) w'(1) by (auto simp: handleContextRestored_def gl_ready_def)
  then show ?thesis
    using w w'(2,3) l by (simp add: w'(4) gl_ready_def MAX_LOSSES_def)
qed

section \<open>Theorem\<close>

text \<open>
  C8. A frame with valid code points and colours, on a renderer whose context is valid and whose
  resources exist, is drawn: \<open>render\<close> returns; the grid has the size of the frame; the GPU buffer
  shows every cell of it; and the calls are, in this order, the clearing with the frame's background,
  the passes for backgrounds (unless transparent), glyphs and decorations over all cells, the
  cursor if it is visible, and the track and the thumb of the scrollbar. The renderer stays able to
  draw. Pressing the button anywhere on the thumb starts a drag of the terminal's scrollbar.
\<close>

theorem frame_drawn:
  fixes t :: "'w terminal"
  assumes "browser_ok (e_browser e)" "gl_ready e w" "frame_ok A" "code_points_ok A" "colors_ok A" "dirtyState A = FULL"
  shows "(\<exists>w' a b. render_gl e A o' w = Inr w' \<and> gl_ready e w' \<and> gridCols w' = fi_cols A \<and> gridRows w' = fi_rows A \<and>
      glyphAtlas w' = Some a \<and> cellBuffer w' = Some b \<and> shows_frame (e_browser e) A (gpu b) \<and> w_theme w' = fi_theme A \<and>
      gl_calls w' = gl_calls w @ pass_calls A o' (atlasSize a) w' @ cursor_calls o' w' @ scrollbar_calls A o' w') \<and>
    (\<forall>m n R sw track x y u s px py.
      0 < gm_height m \<and> r_width R = of_int n * gm_width m \<and> r_height R = of_nat (rows t) * gm_height m \<and>
      renderer t \<noteq> None \<and> wasmTerm t \<noteq> None \<and> o_scrollbarWidth (options t) = Some sw \<and> 0 < sw \<and>
      0 \<le> viewportY t \<and> viewportY t \<le> of_nat (getScrollbackLength core t) \<and> getScrollbackLength core t \<noteq> 0 \<and>
      scrollbar_rects n (int (rows t)) m (int (getScrollbackLength core t)) (viewportY t) sw = Some (track, (x, y, u, s)) \<and>
      x \<le> px \<and> px \<le> x + u \<and> y \<le> py \<and> py \<le> y + s \<longrightarrow>
      handleMouseDown core R (r_left R + px) (r_top R + py) t =
        t\<lparr>isDraggingScrollbar := True, scrollbarDragStart := Some py, scrollbarDragStartViewportY := viewportY t\<rparr>)"
  using render_result [OF assms] thumb_is_draggable [of _ _ _ t _ core] by blast

definition demo_env :: gl_env where
  "demo_env = \<lparr>e_browser = demo_browser, view_dpr = Some (Some 2), window_dpr = Some (Some 2),
     measure_M = (\<lambda>sz f. Some (7, Some 10, Some 3)), max_texture = 64, quad_ok = True, cells_ok = True,
     textures_created = True, contexts_ok = True, programs_ok = True\<rparr>"

definition demo_overlay :: overlay_input where
  "demo_overlay = \<lparr>ov_cursorX = 1, ov_cursorY = 0, ov_cursorVisible = True, ov_cursorStyle = Bar,
     ov_scrollbarOpacity = 0, ov_scrollbarWidth = 8, ov_allowTransparency = True\<rparr>"

theorem frame_drawn_witness:
  "\<exists>w w'. fst (attach demo_env True \<lparr>css_width = 0, css_height = 0, px_width = 0, px_height = 0\<rparr>
        (new_gl_renderer demo_env None None None)) = w \<and>
     render_gl demo_env (demo_frame\<lparr>dirtyState := FULL\<rparr>) demo_overlay w = Inr w' \<and> gridCols w' = 2 \<and> gridRows w' = 1"
proof -
  have "resources_available demo_env" by (simp add: resources_available_def demo_env_def)
  from attach_ready [OF this] obtain w where
    w: "attach demo_env True \<lparr>css_width = 0, css_height = 0, px_width = 0, px_height = 0\<rparr>
        (new_gl_renderer demo_env None None None) = (w, None)" "gl_ready demo_env w" by blast
  have f: "frame_ok (demo_frame\<lparr>dirtyState := FULL\<rparr>)" "code_points_ok (demo_frame\<lparr>dirtyState := FULL\<rparr>)"
    "colors_ok (demo_frame\<lparr>dirtyState := FULL\<rparr>)"
    by (simp_all add: frame_ok_def code_points_ok_def colors_ok_def demo_frame_def
        null_cell_def rgba_ok_def is_byte_def demo_rgba_def)
  have B: "browser_ok (e_browser demo_env)" using demo_browser_ok by (simp add: demo_env_def)
  show ?thesis
    using frame_drawn [OF B w(2) f, of demo_overlay undefined undefined] w(1)
    by (auto simp: demo_frame_def)
qed

text \<open>
  A new pixel ratio, the same for the canvas's window and the global one, becomes the renderer's at
  the start of \<open>render\<close>; the test in \<open>prepareFrame\<close> then finds no difference, and the atlas keeps
  the glyphs it drew for the old ratio.
\<close>

lemma pixel_ratio_misses_atlas:
  assumes w: "gl_ready e w" and A: "frame_ok A" and d: "0 < d" "view_dpr e = Some (Some d)" "window_dpr e = Some (Some d)"
    "w_fixedDpr w = None"
  shows "\<exists>w1 w2. (if getDevicePixelRatio e w \<noteq> w_dpr w then resize_again (w\<lparr>w_dpr := getDevicePixelRatio e w\<rparr>) else Inr w) = Inr w1 \<and>
    prepareFrame e A w1 = Inr (w2, True) \<and> w_dpr w2 = d \<and> glyphAtlas w2 = glyphAtlas w"
proof -
  have g: "getDevicePixelRatio e w = d"
    using w d by (auto simp: getDevicePixelRatio_def Let_def positive_or_def gl_ready_def)
  obtain w1 where w1: "(if getDevicePixelRatio e w \<noteq> w_dpr w then resize_again (w\<lparr>w_dpr := getDevicePixelRatio e w\<rparr>) else Inr w) = Inr w1"
    "gl_ready e w1" "glyphAtlas w1 = glyphAtlas w" "w_dpr w1 = d" using render_start [OF w] g by metis
  show ?thesis
    using w1 prepareFrame_ready [OF w1(2) A] d by fastforce
qed

end
