(* ===== verification/Gw_Webgl_View_Props.thy ===== *)
theory Gw_Webgl_View_Props
  imports Gw_Webgl_View Gw_Webgl_Props
begin

text \<open>
  What the WebGL view hands to the renderer: the cells of the visible lines, in the same rows the
  selection manager counts, and colours that fit their bytes.
\<close>

section \<open>Lines\<close>

text \<open>The cell of a line of the buffer: history first, then the screen.\<close>

definition buffer_cell :: "screen_source \<Rightarrow> scroll_source option \<Rightarrow> nat \<Rightarrow> int \<Rightarrow> nat \<Rightarrow> cell" where
  "buffer_cell s Q sb line x =
     (let c = (if line < int sb
               then case Q of
                      Some q \<Rightarrow> cell_of (case sb_line q (nat line) of Some l \<Rightarrow> l | None \<Rightarrow> []) x
                    | None \<Rightarrow> None
               else getViewportLineCellReader s (line - int sb) (src_cols s) x)
      in case c of Some c \<Rightarrow> c | None \<Rightarrow> emptyCell)"

lemma render_row_cells:
  assumes G: "0 \<le> G" "G \<le> int sb" and Q: "sb = (case Q of Some q \<Rightarrow> sb_length q | None \<Rightarrow> 0)"
  shows "fst (render_row s force G sb Q v r) = map (buffer_cell s Q sb (int sb + int r - G)) [0..<src_cols s]"
proof -
  obtain f g d where src: "getRenderLineSource s r (src_cols s) G sb Q = (f, g, d)"
    by (cases "getRenderLineSource s r (src_cols s) G sb Q")
  have "(case f k of Some c \<Rightarrow> c | None \<Rightarrow> emptyCell) = buffer_cell s Q sb (int sb + int r - G) k" for k
  proof (cases Q)
    case None
    then have "G = 0" using G Q by simp
    then show ?thesis using src None Q by (auto simp: getRenderLineSource_def buffer_cell_def)
  next
    case (Some q)
    then show ?thesis
      using src G by (auto simp: getRenderLineSource_def buffer_cell_def Let_def split: if_splits)
        (auto simp: algebra_simps)
  qed
  then show ?thesis by (simp add: render_row_def src Let_def)
qed

lemma nth_concat_rows:
  assumes "\<And>r. r < n \<Longrightarrow> length (f r) = C" "r < n" "k < C"
  shows "concat (map f [0..<n]) ! (r * C + k) = f r ! k"
  using assms
proof (induction n)
  case (Suc n)
  have len: "length (concat (map f [0..<n])) = n * C" if "\<And>r. r < n \<Longrightarrow> length (f r) = C" for n
    using that by (induction n) auto
  show ?case
  proof (cases "r < n")
    case True
    have "r * C + k < n * C" using cell_index(3) [OF True Suc.prems(3)] .
    then show ?thesis using Suc.IH Suc.prems True by (simp add: nth_append len)
  next
    case False
    then have "r = n" using Suc.prems(2) by simp
    then show ?thesis using Suc.prems by (simp add: nth_append len)
  qed
qed simp

lemma length_concat_rows:
  "(\<And>r. r < n \<Longrightarrow> length (f r) = C) \<Longrightarrow> length (concat (map f [0..<n])) = n * C"
  by (induction n) auto

lemma build_cells:
  assumes b: "buildRenderInput spell s force (Some y0) Q opac v = (A, o')"
    and sb: "sb = (case Q of Some q \<Rightarrow> sb_length q | None \<Rightarrow> 0)" and y0: "0 \<le> y0" "y0 \<le> of_nat sb"
  shows "length (viewportCells A) = src_rows s * src_cols s"
    and "r < src_rows s \<Longrightarrow> k < src_cols s \<Longrightarrow>
      viewportCells A ! (r * src_cols s + k) = buffer_cell s Q sb (int sb + int r - \<lfloor>y0\<rfloor>) k"
proof -
  have c: "clamp_finite (Some y0) 0 (of_nat sb) = y0" using y0 by (simp add: clamp_finite_def)
  have G: "0 \<le> \<lfloor>y0\<rfloor>" "\<lfloor>y0\<rfloor> \<le> int sb" using y0 by (simp, linarith)
  let ?f = "fst \<circ> render_row s force \<lfloor>y0\<rfloor> sb Q v"
  have A: "viewportCells A = concat (map ?f [0..<src_rows s])"
    using b c sb by (auto simp: buildRenderInput_def Let_def)
  have f: "?f r = map (buffer_cell s Q sb (int sb + int r - \<lfloor>y0\<rfloor>)) [0..<src_cols s]" for r
    using render_row_cells [OF G sb] by simp
  show "length (viewportCells A) = src_rows s * src_cols s"
    unfolding A by (rule length_concat_rows) (simp add: f del: o_apply)
  show "viewportCells A ! (r * src_cols s + k) = buffer_cell s Q sb (int sb + int r - \<lfloor>y0\<rfloor>) k"
    if "r < src_rows s" "k < src_cols s"
    unfolding A using that by (subst nth_concat_rows [where C = "src_cols s"]) (simp_all add: f del: o_apply)
qed


section \<open>Colours\<close>

text \<open>A colour written without a minus sign has channels of a byte.\<close>

lemma parse_int_byte:
  assumes "CHR ''-'' \<notin> set s" "length s \<le> 2" "parse_int s 16 = Num n"
  shows "is_byte n"
proof -
  define t where "t = js_trim_start s"
  define u where "u = (if t \<noteq> [] \<and> (hd t = CHR ''-'' \<or> hd t = CHR ''+'') then tl t else t)"
  define v where "v = (if prefix ''0x'' u \<or> prefix ''0X'' u then drop 2 u else u)"
  have t1: "set t \<subseteq> set s" unfolding t_def js_trim_start_def by (auto dest: set_dropWhileD)
  have t2: "length t \<le> length s" unfolding t_def js_trim_start_def by (rule length_dropWhile_le)
  have "length v \<le> length t" by (simp add: u_def v_def)
  then have len: "length v \<le> 2" using t2 assms(2) by simp
  have "\<not> (t \<noteq> [] \<and> hd t = CHR ''-'')"
    using subsetD [OF t1 hd_in_set] assms(1) by (intro notI, elim conjE) simp
  then have "n = int (digits_value 16 0 v)"
    using assms(3) unfolding parse_int_def Let_def t_def [symmetric] u_def [symmetric]
    by (auto simp: v_def split: if_splits)
  moreover have "digits_value 16 0 v < 256"
  proof -
    have "(16 :: nat) ^ length v \<le> 16 ^ 2" using len by (intro power_increasing) auto
    then show ?thesis using digits_value_lt [of 0 v] by simp
  qed
  ultimately show ?thesis by (simp add: is_byte_def)
qed

lemma byte_channel_byte: "is_byte (byte_channel b)"
  by (cases b) (simp_all add: byte_channel_def is_byte_def min_def max_def)

lemma css_channel_byte: "is_byte (css_channel s)"
  by (simp add: css_channel_def byte_channel_byte)

lemma finite_color_ok:
  assumes "finite_color r g b a = Some c" "\<And>n. r = Num n \<or> g = Num n \<or> b = Num n \<Longrightarrow> is_byte n"
  shows "rgba_ok c"
  using assms by (auto simp: finite_color_def rgba_ok_def split: jsnum.splits option.splits)

lemma parse_css_ok:
  assumes m: "CHR ''-'' \<notin> set B" and p: "parse_css B = Some c"
  shows "rgba_ok c"
proof -
  define a where "a = js_trim B"
  define h where "h = drop 1 a"
  have "set a \<subseteq> set B" by (auto simp: a_def js_trim_def js_trim_start_def dest!: set_dropWhileD)
  then have h: "CHR ''-'' \<notin> set h" using m set_drop_subset [of 1 a] by (auto simp: h_def)
  have twice: "is_byte n" if "parse_int [h ! k, h ! k] 16 = Num n" "k < length h" for k n
    using that h nth_mem [of k h] by (intro parse_int_byte [OF _ _ that(1)]) auto
  have pair: "is_byte n" if "parse_int (take 2 (drop k h)) 16 = Num n" for k n
    using h set_take_subset [of 2 "drop k h"] set_drop_subset [of k h] by (intro parse_int_byte [OF _ _ that]) auto
  note q = p [unfolded parse_css_def Let_def, folded a_def, folded h_def]
  consider (three) "a \<noteq> [] \<and> hd a = CHR ''#'' \<and> (length h = 3 \<or> length h = 4)"
    | (six) "\<not> (a \<noteq> [] \<and> hd a = CHR ''#'' \<and> (length h = 3 \<or> length h = 4))"
        "a \<noteq> [] \<and> hd a = CHR ''#'' \<and> (length h = 6 \<or> length h = 8)"
    | (body) "\<not> (a \<noteq> [] \<and> hd a = CHR ''#'' \<and> (length h = 3 \<or> length h = 4))"
        "\<not> (a \<noteq> [] \<and> hd a = CHR ''#'' \<and> (length h = 6 \<or> length h = 8))" by blast
  then show ?thesis
  proof cases
    case three
    have "0 < length h" "1 < length h" "2 < length h" using three by auto
    then show ?thesis using q [unfolded if_P [OF three]] twice by (elim finite_color_ok) blast
  next
    case six
    show ?thesis using q [unfolded if_not_P [OF six(1)] if_P [OF six(2)]] pair by (elim finite_color_ok) blast
  next
    case body
    show ?thesis
      using q [unfolded if_not_P [OF body(1)] if_not_P [OF body(2)]] css_channel_byte
      by (auto split: option.splits if_splits elim!: finite_color_ok)
  qed
qed

definition spelling_ok :: "(string \<Rightarrow> string option) \<Rightarrow> bool" where
  "spelling_ok spell \<longleftrightarrow> (\<forall>s t. spell s = Some t \<longrightarrow> CHR ''-'' \<notin> set t)"

lemma cssToRgba_ok:
  assumes "CHR ''-'' \<notin> set s" "spelling_ok spell"
  shows "rgba_ok (cssToRgba spell s)"
proof -
  have "rgba_ok \<lparr>c_r = 0, c_g = 0, c_b = 0, c_a = 1\<rparr>" by (simp add: rgba_ok_def is_byte_def)
  then show ?thesis
    using assms parse_css_ok by (auto simp: cssToRgba_def Let_def spelling_ok_def split: option.splits)
qed


lemma css_option_ok:
  assumes "spelling_ok spell" "\<And>x. s = Some x \<Longrightarrow> CHR ''-'' \<notin> set x"
  shows "pred_option rgba_ok (css_option spell s)"
  using assms cssToRgba_ok by (auto simp: css_option_def split: option.splits)

text \<open>No colour of the theme and of the decorations has a minus sign.\<close>

definition css_ok :: "gl_view \<Rightarrow> bool" where
  "css_ok v \<longleftrightarrow>
     (let t = v_theme v in list_all (\<lambda>s. CHR ''-'' \<notin> set s)
        [ct_foreground t, ct_background t, ct_selectionBackground t, ct_selectionForeground t]) \<and>
     (\<forall>d\<in>set (v_decorations v). pred_option (\<lambda>s. CHR ''-'' \<notin> set s) (cd_background d) \<and>
        pred_option (\<lambda>s. CHR ''-'' \<notin> set s) (cd_foreground d))"

section \<open>Cells\<close>

definition cell_fits :: "cell \<Rightarrow> bool" where
  "cell_fits c \<longleftrightarrow> codepoint c \<le> 1114111 \<and>
     list_all (\<lambda>n. n < 256) [fg_r c, fg_g c, fg_b c, bg_r c, bg_g c, bg_b c, cwidth c]"

definition sources_fit :: "screen_source \<Rightarrow> scroll_source option \<Rightarrow> bool" where
  "sources_fit s Q \<longleftrightarrow> pred_option (list_all cell_fits) (src_viewport s) \<and>
     (\<forall>r. pred_option (list_all cell_fits) (src_line s r)) \<and>
     pred_option (\<lambda>q. \<forall>r. pred_option (list_all cell_fits) (sb_line q r)) Q"

lemma cell_of_fits: "cell_of l k = Some c \<Longrightarrow> list_all cell_fits l \<Longrightarrow> cell_fits c"
  by (auto simp: cell_of_def list_all_iff split: if_splits)

lemma reader_fits:
  assumes "sources_fit s Q" "getViewportLineCellReader s r n k = Some c"
  shows "cell_fits c"
  using assms cell_of_fits
  by (auto simp: getViewportLineCellReader_def sources_fit_def option.pred_set cell_of_def list_all_iff
      split: if_splits option.splits)

lemma history_fits:
  assumes "sources_fit s (Some q)"
  shows "cell_of [] k = Some c \<Longrightarrow> cell_fits c"
    and "sb_line q n = Some l \<Longrightarrow> cell_of l k = Some c \<Longrightarrow> cell_fits c"
  using assms cell_of_fits by (auto simp: sources_fit_def cell_of_def option.pred_set)

lemma buffer_cell_fits:
  assumes "sources_fit s Q"
  shows "cell_fits (buffer_cell s Q sb l k)"
proof -
  have "cell_fits emptyCell" by (simp add: cell_fits_def emptyCell_def)
  then show ?thesis
    using reader_fits [OF assms] history_fits [of s] assms
    by (auto simp: buffer_cell_def Let_def split: option.splits)
qed

lemma build_fits:
  assumes b: "buildRenderInput spell s force (Some y0) Q opac v = (A, o')"
    and sb: "sb = (case Q of Some q \<Rightarrow> sb_length q | None \<Rightarrow> 0)" and y0: "0 \<le> y0" "y0 \<le> of_nat sb"
    and size: "1 \<le> src_cols s" "1 \<le> src_rows s" "src_rows s * src_cols s < 2 ^ 32"
    and css: "css_ok v" "spelling_ok spell" and cells: "sources_fit s Q"
  shows "frame_ok A" "code_points_ok A" "colors_ok A"
proof -
  note len = build_cells(1) [OF b sb y0] and cell = build_cells(2) [OF b sb y0]
  have fields: "fi_cols A = int (src_cols s)" "fi_rows A = int (src_rows s)"
    "fi_theme A = toWebGLTheme spell (v_theme v)" "decorations A = toWebGLDecorations spell (v_decorations v)"
    using b by (auto simp: buildRenderInput_def Let_def)
  show "frame_ok A" using size by (simp add: frame_ok_def fields len)
  have fit: "cell_fits c" if c: "c \<in> set (viewportCells A)" for c
  proof -
    obtain i where i: "i < src_rows s * src_cols s" "c = viewportCells A ! i" using c len by (auto simp: in_set_conv_nth)
    have "i div src_cols s < src_rows s" "i mod src_cols s < src_cols s"
      using i(1) size(1) by (simp_all add: less_mult_imp_div_less)
    from cell [OF this] show ?thesis using i(2) buffer_cell_fits [OF cells] by simp
  qed
  then show "code_points_ok A" by (auto simp: code_points_ok_def cell_fits_def)
  have "rgba_ok (cssToRgba spell x)" if "CHR ''-'' \<notin> set x" for x using cssToRgba_ok [OF that css(2)] .
  then have theme: "list_all rgba_ok [th_foreground (fi_theme A), th_background (fi_theme A),
      th_selectionBackground (fi_theme A)]" "pred_option rgba_ok (th_selectionForeground (fi_theme A))"
    using css(1) by (simp_all add: fields toWebGLTheme_def css_ok_def Let_def)
  have "pred_option rgba_ok (css_option spell x)" if "pred_option (\<lambda>s. CHR ''-'' \<notin> set s) x" for x
    using that by (intro css_option_ok [OF css(2)]) simp
  then have "\<forall>d\<in>set (decorations A). pred_option rgba_ok (de_background d) \<and> pred_option rgba_ok (de_foreground d)"
    using css(1) by (simp add: fields toWebGLDecorations_def css_ok_def)
  then show "colors_ok A" using theme fit by (simp add: colors_ok_def cell_fits_def Let_def)
qed

section \<open>Theorem\<close>

lemma resize_view_ready:
  assumes w: "gl_ready e (v_renderer v)" and g: "grid_ok (int c) (int r)" "1 \<le> c" "1 \<le> r"
  shows "\<exists>v'. resize_view (Some (of_nat c)) (Some (of_nat r)) v = Inr v' \<and> gl_ready e (v_renderer v') \<and>
    v' = v\<lparr>v_cols := v_cols v', v_rows := v_rows v', v_renderer := v_renderer v'\<rparr>"
proof -
  obtain w' where "resize_gl (Some (of_int (int c))) (Some (of_int (int r))) (v_renderer v) = Inr w'" "gl_ready e w'"
    using resize_gl_ready [OF w g(1)] by blast
  then show ?thesis using g by (simp add: resize_view_def)
qed

text \<open>The input does not depend on the renderer and the size of the view.\<close>

lemma build_same:
  "buildRenderInput spell s force I Q opac (v\<lparr>v_cols := c, v_rows := r, v_renderer := w\<rparr>) =
   buildRenderInput spell s force I Q opac v"
proof -
  have "render_row s force G sb Q (v\<lparr>v_cols := c, v_rows := r, v_renderer := w\<rparr>) = render_row s force G sb Q v" for G sb
    by (rule ext) (simp add: render_row_def rowIntersectsHoveredLink_def)
  then show ?thesis
    unfolding buildRenderInput_def Let_def by (simp split del: if_split cong: option.case_cong if_cong)
qed


definition demo_css :: css_patch where
  "demo_css = \<lparr>cp_foreground = Some ''#eee'', cp_background = None, cp_cursor = Some ''#fff'', cp_cursorAccent = None,
     cp_selectionBackground = Some ''rgb(10, 20, 30)'', cp_selectionForeground = None\<rparr>"

text \<open>Two columns and one row, scrolled back to the only line of history.\<close>

definition demo_screen :: screen_source where
  "demo_screen = \<lparr>src_cols = 2, src_rows = 1, src_viewport = Some [null_cell, null_cell], src_line = (\<lambda>_. None),
     src_dirty = (\<lambda>_. False), src_grapheme = Some (\<lambda>r k. [word_of_nat (48 + r)]), cur_x = 0, cur_y = 0,
     cur_visible = True, cur_style = None\<rparr>"

definition demo_history :: scroll_source where
  "demo_history = \<lparr>sb_length = 1, sb_line = (\<lambda>i. if i = 0 then Some [null_cell\<lparr>codepoint := 72, grapheme_len := 1\<rparr>] else None)\<rparr>"

definition demo_no_canvas :: canvas_size where
  "demo_no_canvas = \<lparr>css_width = 0, css_height = 0, px_width = 0, px_height = 0\<rparr>"

definition demo_sel_env :: sel_env where
  "demo_sel_env = \<lparr>se_scrollback = 1, se_viewportY = 1, se_cols = 2, se_rows = 1, se_tcols = 2, se_trows = 1,
     se_history = (\<lambda>_. None), se_screen = (\<lambda>_. None), se_history_text = (\<lambda>_ _. []), se_screen_text = (\<lambda>_ _. []),
     se_width = 7, se_height = 13\<rparr>"

lemma demo_view_ready:
  "\<exists>v. new_gl_view demo_env (\<lambda>_. None) True demo_no_canvas None None None demo_css False None False True = Inr v \<and>
     gl_ready demo_env (v_renderer v) \<and> css_ok v \<and> v_selection v = None"
proof -
  have "resources_available demo_env" by (simp add: resources_available_def demo_env_def)
  from attach_ready [OF this] obtain w where
    w: "attach demo_env True demo_no_canvas (new_gl_renderer demo_env None None None) = (w, None)" "gl_ready demo_env w"
    by blast
  have "gl_ready demo_env (updateTheme th w)" for th using w(2) by (simp add: updateTheme_def gl_ready_def)
  then show ?thesis
    using w(1) by (simp add: new_gl_view_def setCursorBlink_def stopCursorBlink_def css_ok_def demo_css_def
      spread_theme_def or_else_def default_css_def Let_def)
qed


section \<open>Two departures\<close>

text \<open>
  A row of history has no decoded graphemes, so the cell writer asks for the grapheme at the row of
  the viewport: the text of a combined character of history is taken from the screen.
\<close>

lemma history_grapheme_from_screen:
  assumes b: "buildRenderInput spell s force (Some y0) (Some q) opac v = (A, o')"
    and y0: "0 \<le> y0" "y0 \<le> of_nat (sb_length q)" and r: "int r < \<lfloor>y0\<rfloor>" "r < src_rows s"
    and get: "src_grapheme s = Some f" and c: "grapheme_len c > 0"
  shows "grapheme_source A rs = (graphemeRows A, Some f)" and "row_at (graphemeRows A) r = None"
    and "\<exists>ca. cell_glyph_text (row_at (graphemeRows A) r) (Some f) r k c = Inr (f r k, ca)"
proof -
  have cl: "clamp_finite (Some y0) 0 (of_nat (sb_length q)) = y0" using y0 by (simp add: clamp_finite_def)
  have fields: "graphemeRows A = map (fst \<circ> snd \<circ> render_row s force \<lfloor>y0\<rfloor> (sb_length q) (Some q) v) [0..<src_rows s]"
    "fi_getGrapheme A = src_grapheme s"
    using b cl by (auto simp: buildRenderInput_def Let_def o_assoc)
  have "0 < \<lfloor>y0\<rfloor>" using r(1) by linarith
  then obtain h where line: "getRenderLineSource s r (src_cols s) \<lfloor>y0\<rfloor> (sb_length q) (Some q) = (h, None, True)"
    using r(1) by (simp add: getRenderLineSource_def Let_def)
  show "grapheme_source A rs = (graphemeRows A, Some f)" using r(2) by (simp add: grapheme_source_def fields get)
  show row: "row_at (graphemeRows A) r = None"
    using r(2) line by (simp add: row_at_def fields render_row_def)
  show "\<exists>ca. cell_glyph_text (row_at (graphemeRows A) r) (Some f) r k c = Inr (f r k, ca)"
    using c by (simp add: row cell_glyph_text_def Let_def)
qed

text \<open>A minus sign passes the test for a number and gives a negative channel.\<close>

lemma negative_channel: "parse_css ''#-1-1-1'' = Some \<lparr>c_r = -1, c_g = -1, c_b = -1, c_a = 1\<rparr>"
  by code_simp

end
