(* ===== verification/Gw_Box.thy ===== *)
theory Gw_Box
  imports Js_Object
begin

text \<open>
  Characters that the canvas renderer of \<open>ghostty-web.js\<close> (class \<open>jA\<close>) draws itself so that they
  fill the cell exactly: block elements, box drawing lines and Powerline separators. A rectangle is
  \<open>(x, y, width, height)\<close> in CSS pixels.
\<close>

section \<open>Block elements\<close>

type_synonym rect4 = "rat \<times> rat \<times> rat \<times> rat"

text \<open>
  \<open>renderBlockChar\<close>: the rectangles filled for a character at \<open>(g, I)\<close> in a cell of width \<open>Q\<close> and
  height \<open>C\<close>, each with the factor by which it lowers the opacity. Other characters are not handled.
\<close>

definition block_table :: "rat \<Rightarrow> rat \<Rightarrow> rat \<Rightarrow> rat \<Rightarrow> (int \<times> (rat \<times> rect4) list) list" where
  "block_table g I Q C =
    [(9600, [(1, (g, I, Q, C / 2))]),
     (9601, [(1, (g, I + C * 7 / 8, Q, C / 8))]),
     (9602, [(1, (g, I + C * 3 / 4, Q, C / 4))]),
     (9603, [(1, (g, I + C * 5 / 8, Q, C * 3 / 8))]),
     (9604, [(1, (g, I + C / 2, Q, C / 2))]),
     (9605, [(1, (g, I + C * 3 / 8, Q, C * 5 / 8))]),
     (9606, [(1, (g, I + C / 4, Q, C * 3 / 4))]),
     (9607, [(1, (g, I + C / 8, Q, C * 7 / 8))]),
     (9608, [(1, (g, I, Q, C))]),
     (9609, [(1, (g, I, Q * 7 / 8, C))]),
     (9610, [(1, (g, I, Q * 3 / 4, C))]),
     (9611, [(1, (g, I, Q * 5 / 8, C))]),
     (9612, [(1, (g, I, Q / 2, C))]),
     (9613, [(1, (g, I, Q * 3 / 8, C))]),
     (9614, [(1, (g, I, Q / 4, C))]),
     (9615, [(1, (g, I, Q / 8, C))]),
     (9616, [(1, (g + Q / 2, I, Q / 2, C))]),
     (9617, [(1 / 4, (g, I, Q, C))]),
     (9618, [(1 / 2, (g, I, Q, C))]),
     (9619, [(3 / 4, (g, I, Q, C))]),
     (9620, [(1, (g, I, Q, C / 8))]),
     (9621, [(1, (g + Q * 7 / 8, I, Q / 8, C))]),
     (9622, [(1, (g, I + C / 2, Q / 2, C / 2))]),
     (9623, [(1, (g + Q / 2, I + C / 2, Q / 2, C / 2))]),
     (9624, [(1, (g, I, Q / 2, C / 2))]),
     (9625, [(1, (g, I, Q / 2, C)), (1, (g + Q / 2, I + C / 2, Q / 2, C / 2))]),
     (9626, [(1, (g, I, Q / 2, C / 2)), (1, (g + Q / 2, I + C / 2, Q / 2, C / 2))]),
     (9627, [(1, (g, I, Q, C / 2)), (1, (g, I + C / 2, Q / 2, C / 2))]),
     (9628, [(1, (g, I, Q, C / 2)), (1, (g + Q / 2, I + C / 2, Q / 2, C / 2))]),
     (9629, [(1, (g + Q / 2, I, Q / 2, C / 2))]),
     (9630, [(1, (g + Q / 2, I, Q / 2, C / 2)), (1, (g, I + C / 2, Q / 2, C / 2))]),
     (9631, [(1, (g + Q / 2, I, Q / 2, C / 2)), (1, (g, I + C / 2, Q, C / 2))])]"

definition renderBlockChar :: "int \<Rightarrow> rat \<Rightarrow> rat \<Rightarrow> rat \<Rightarrow> rat \<Rightarrow> (rat \<times> rect4) list option" where
  "renderBlockChar A g I Q C = map_of (block_table g I Q C) A"

section \<open>Box drawing\<close>

datatype arm = Leftward | Rightward | Upward | Downward

datatype weight = Light | Heavy

text \<open>\<open>getBoxDrawingSegments\<close>.\<close>

definition segment_table :: "(int \<times> (arm \<times> weight) list) list" where
  "segment_table =
    [(9472, [(Leftward, Light), (Rightward, Light)]),
     (9473, [(Leftward, Heavy), (Rightward, Heavy)]),
     (9474, [(Upward, Light), (Downward, Light)]),
     (9475, [(Upward, Heavy), (Downward, Heavy)]),
     (9484, [(Rightward, Light), (Downward, Light)]),
     (9485, [(Rightward, Heavy), (Downward, Light)]),
     (9486, [(Rightward, Light), (Downward, Heavy)]),
     (9487, [(Rightward, Heavy), (Downward, Heavy)]),
     (9488, [(Leftward, Light), (Downward, Light)]),
     (9489, [(Leftward, Heavy), (Downward, Light)]),
     (9490, [(Leftward, Light), (Downward, Heavy)]),
     (9491, [(Leftward, Heavy), (Downward, Heavy)]),
     (9492, [(Rightward, Light), (Upward, Light)]),
     (9493, [(Rightward, Heavy), (Upward, Light)]),
     (9494, [(Rightward, Light), (Upward, Heavy)]),
     (9495, [(Rightward, Heavy), (Upward, Heavy)]),
     (9496, [(Leftward, Light), (Upward, Light)]),
     (9497, [(Leftward, Heavy), (Upward, Light)]),
     (9498, [(Leftward, Light), (Upward, Heavy)]),
     (9499, [(Leftward, Heavy), (Upward, Heavy)]),
     (9500, [(Upward, Light), (Downward, Light), (Rightward, Light)]),
     (9508, [(Upward, Light), (Downward, Light), (Leftward, Light)]),
     (9516, [(Leftward, Light), (Rightward, Light), (Downward, Light)]),
     (9524, [(Leftward, Light), (Rightward, Light), (Upward, Light)]),
     (9532, [(Upward, Light), (Downward, Light), (Leftward, Light), (Rightward, Light)]),
     (9476, [(Leftward, Light), (Rightward, Light)]),
     (9477, [(Leftward, Heavy), (Rightward, Heavy)]),
     (9478, [(Upward, Light), (Downward, Light)]),
     (9479, [(Upward, Heavy), (Downward, Heavy)]),
     (9480, [(Leftward, Light), (Rightward, Light)]),
     (9481, [(Leftward, Heavy), (Rightward, Heavy)]),
     (9482, [(Upward, Light), (Downward, Light)]),
     (9483, [(Upward, Heavy), (Downward, Heavy)]),
     (9581, [(Rightward, Light), (Downward, Light)]),
     (9582, [(Leftward, Light), (Downward, Light)]),
     (9583, [(Leftward, Light), (Upward, Light)]),
     (9584, [(Rightward, Light), (Upward, Light)])]"

definition getBoxDrawingSegments :: "int \<Rightarrow> (arm \<times> weight) list option" where
  "getBoxDrawingSegments A = map_of segment_table A"

text \<open>
  \<open>renderDoubleBoxDrawing\<close>: lines of thickness 1, the two of a double line 2 to either side of the
  middle of the cell.
\<close>

definition double_table :: "rat \<Rightarrow> rat \<Rightarrow> rat \<Rightarrow> rat \<Rightarrow> (int \<times> rect4 list) list" where
  "double_table g I Q C =
    (let i = g + Q / 2; o' = I + C / 2; D = 2;
         w = (\<lambda>e a G. (e, G - 1 / 2, a - e, 1)); t = (\<lambda>e a G. (G - 1 / 2, e, 1, a - e)) in
    [(9552, [w g (g + Q) (o' - D), w g (g + Q) (o' + D)]),
     (9553, [t I (I + C) (i - D), t I (I + C) (i + D)]),
     (9554, [w i (g + Q) (o' - D), w i (g + Q) (o' + D), t (o' - D) (I + C) i]),
     (9555, [w (i - D) (g + Q) o', t o' (I + C) (i - D), t o' (I + C) (i + D)]),
     (9556, [w (i + D) (g + Q) (o' - D), w (i - D) (g + Q) (o' + D), t (o' - D) (I + C) (i - D), t (o' + D) (I + C) (i + D)]),
     (9557, [w g i (o' - D), w g i (o' + D), t (o' - D) (I + C) i]),
     (9558, [w g (i + D) o', t o' (I + C) (i - D), t o' (I + C) (i + D)]),
     (9559, [w g (i - D) (o' - D), w g (i + D) (o' + D), t (o' - D) (I + C) (i + D), t (o' + D) (I + C) (i - D)]),
     (9560, [w i (g + Q) (o' - D), w i (g + Q) (o' + D), t I (o' + D) i]),
     (9561, [w (i - D) (g + Q) o', t I o' (i - D), t I o' (i + D)]),
     (9562, [w (i + D) (g + Q) (o' - D), w (i - D) (g + Q) (o' + D), t I (o' - D) (i - D), t I (o' + D) (i + D)]),
     (9563, [w g i (o' - D), w g i (o' + D), t I (o' + D) i]),
     (9564, [w g (i + D) o', t I o' (i - D), t I o' (i + D)]),
     (9565, [w g (i - D) (o' - D), w g (i + D) (o' + D), t I (o' - D) (i + D), t I (o' + D) (i - D)]),
     (9566, [w i (g + Q) (o' - D), w i (g + Q) (o' + D), t I (I + C) i]),
     (9567, [w (i - D) (g + Q) o', t I (I + C) (i - D), t I (I + C) (i + D)]),
     (9568, [w (i + D) (g + Q) (o' - D), w (i + D) (g + Q) (o' + D), t I (I + C) (i - D), t I (I + C) (i + D)]),
     (9569, [w g i (o' - D), w g i (o' + D), t I (I + C) i]),
     (9570, [w g (i + D) o', t I (I + C) (i - D), t I (I + C) (i + D)]),
     (9571, [w g (i - D) (o' - D), w g (i - D) (o' + D), t I (I + C) (i - D), t I (I + C) (i + D)]),
     (9572, [w g (g + Q) (o' - D), w g (g + Q) (o' + D), t (o' + D) (I + C) i]),
     (9573, [w g (g + Q) o', t o' (I + C) (i - D), t o' (I + C) (i + D)]),
     (9574, [w g (g + Q) (o' - D), w g (i - D) (o' + D), w (i + D) (g + Q) (o' + D), t (o' + D) (I + C) (i - D), t (o' + D) (I + C) (i + D)]),
     (9575, [w g (g + Q) (o' - D), w g (g + Q) (o' + D), t I (o' - D) i]),
     (9576, [w g (g + Q) o', t I o' (i - D), t I o' (i + D)]),
     (9577, [w g (i - D) (o' - D), w (i + D) (g + Q) (o' - D), w g (g + Q) (o' + D), t I (o' - D) (i - D), t I (o' - D) (i + D)]),
     (9578, [w g (g + Q) (o' - D), w g (g + Q) (o' + D), t I (I + C) i]),
     (9579, [w g (g + Q) o', t I (I + C) (i - D), t I (I + C) (i + D)]),
     (9580, [w g (i - D) (o' - D), w (i + D) (g + Q) (o' - D), w g (i - D) (o' + D), w (i + D) (g + Q) (o' + D), t I (o' - D) (i - D), t I (o' - D) (i + D), t (o' + D) (I + C) (i - D), t (o' + D) (I + C) (i + D)])])"

definition renderDoubleBoxDrawing :: "int \<Rightarrow> rat \<Rightarrow> rat \<Rightarrow> rat \<Rightarrow> rat \<Rightarrow> rect4 list option" where
  "renderDoubleBoxDrawing A g I Q C = map_of (double_table g I Q C) A"

definition thickness :: "weight \<Rightarrow> int" where
  "thickness k = (case k of Heavy \<Rightarrow> 3 | Light \<Rightarrow> 1)"

definition irect :: "int \<Rightarrow> int \<Rightarrow> int \<Rightarrow> int \<Rightarrow> rect4" where
  "irect x y w h = (of_int x, of_int y, of_int w, of_int h)"

text \<open>The rectangles of one arm from the middle \<open>(i, o)\<close> to the edge.\<close>

definition arm_rect :: "int \<Rightarrow> int \<Rightarrow> int \<Rightarrow> int \<Rightarrow> int \<Rightarrow> int \<Rightarrow> arm \<times> weight \<Rightarrow> rect4" where
  "arm_rect i o' t e a G k =
     (let h = thickness (snd k); r = h div 2
      in case fst k of
           Rightward \<Rightarrow> irect i (o' - r) (a - i) h
         | Leftward \<Rightarrow> irect t (o' - r) (i - t) h
         | Downward \<Rightarrow> irect (i - r) o' h (G - o')
         | Upward \<Rightarrow> irect (i - r) e h (o' - e))"

definition horizontal :: "arm \<Rightarrow> bool" where
  "horizontal d = (d = Leftward \<or> d = Rightward)"

text \<open>
  The lines of \<open>renderBoxDrawing\<close> for the segments \<open>w\<close>: one through line where both arms of a
  direction are there, else each arm on its own.
\<close>

definition box_lines :: "rat \<Rightarrow> rat \<Rightarrow> rat \<Rightarrow> rat \<Rightarrow> (arm \<times> weight) list \<Rightarrow> rect4 list" where
  "box_lines g I Q C w =
     (let i = js_round (g + Q / 2); o' = js_round (I + C / 2);
          t = js_round g; e = js_round I; a = js_round (g + Q); G = js_round (I + C);
          has = (\<lambda>d. d \<in> set (map fst w));
          H = thickness (if Heavy \<in> set (map snd w) then Heavy else Light); h = H div 2
      in (if has Leftward \<and> has Rightward then [irect t (o' - h) (a - t) H]
          else map (arm_rect i o' t e a G) (filter (horizontal \<circ> fst) w)) @
         (if has Upward \<and> has Downward then [irect (i - h) e H (G - e)]
          else map (arm_rect i o' t e a G) (filter (Not \<circ> horizontal \<circ> fst) w)))"

text \<open>\<open>renderBoxDrawing\<close>; \<^term>\<open>None\<close> where it leaves the character to the font.\<close>

definition renderBoxDrawing :: "int \<Rightarrow> rat \<Rightarrow> rat \<Rightarrow> rat \<Rightarrow> rat \<Rightarrow> rect4 list option" where
  "renderBoxDrawing A g I Q C =
     (case if 9552 \<le> A \<and> A \<le> 9580 then renderDoubleBoxDrawing A g I Q C else None of
        Some rs \<Rightarrow> Some rs
      | None \<Rightarrow> map_option (box_lines g I Q C) (getBoxDrawingSegments A))"

section \<open>Powerline separators\<close>

text \<open>
  A path: a polygon through points, or half an ellipse with a centre and two radii from the top
  to the bottom, to the right or (\<open>counter\<close>) to the left. It is closed and filled, or stroked.
\<close>

datatype outline = Polygon "(rat \<times> rat) list" | Half_Ellipse "rat \<times> rat" "rat \<times> rat" bool

definition renderPowerlineGlyph :: "int \<Rightarrow> rat \<Rightarrow> rat \<Rightarrow> rat \<Rightarrow> rat \<Rightarrow> (outline \<times> bool) option" where
  "renderPowerlineGlyph A g I Q C =
     (if A = 57520 \<or> A = 57521 then Some (Polygon [(g, I), (g + Q, I + C / 2), (g, I + C)], A = 57520)
      else if A = 57522 \<or> A = 57523 then Some (Polygon [(g + Q, I), (g, I + C / 2), (g + Q, I + C)], A = 57522)
      else if A = 57524 \<or> A = 57525 then Some (Half_Ellipse (g, I + C / 2) (Q, C / 2) False, A = 57524)
      else if A = 57526 \<or> A = 57527 then Some (Half_Ellipse (g + Q, I + C / 2) (Q, C / 2) True, A = 57526)
      else None)"

end
