(* ===== verification/Gw_Box_Props.thy ===== *)
theory Gw_Box_Props
  imports Gw_Box
begin

text \<open>
  Block elements cover exactly the part of the cell that the character names, and box drawing
  lines of neighbouring cells meet without a gap.
\<close>

section \<open>Block elements\<close>

definition in_rect :: "rect4 \<Rightarrow> rat \<Rightarrow> rat \<Rightarrow> bool" where
  "in_rect r x y = (case r of (rx, ry, w, h) \<Rightarrow> rx \<le> x \<and> x < rx + w \<and> ry \<le> y \<and> y < ry + h)"

text \<open>
  The Unicode block elements: halves, eighths, shades and unions of quadrants, at a point of the
  unit square with \<open>v\<close> counted from the top.
\<close>

definition quadrants :: "int \<Rightarrow> (bool \<times> bool) set" where
  "quadrants n = (let ul = (False, False); ur = (True, False); ll = (False, True); lr = (True, True)
     in if n = 9622 then {ll} else if n = 9623 then {lr} else if n = 9624 then {ul}
        else if n = 9625 then {ul, ll, lr} else if n = 9626 then {ul, lr} else if n = 9627 then {ul, ur, ll}
        else if n = 9628 then {ul, ur, lr} else if n = 9629 then {ur} else if n = 9630 then {ur, ll}
        else {ur, ll, lr})"

definition block_covers :: "int \<Rightarrow> rat \<Rightarrow> rat \<Rightarrow> bool" where
  "block_covers n u v =
     (if n = 9600 then v < 1 / 2
      else if n \<le> 9608 then 1 - of_int (n - 9600) / 8 \<le> v
      else if n \<le> 9615 then u < of_int (9616 - n) / 8
      else if n = 9616 then 1 / 2 \<le> u
      else if n \<le> 9619 then True
      else if n = 9620 then v < 1 / 8
      else if n = 9621 then 7 / 8 \<le> u
      else (1 / 2 \<le> u, 1 / 2 \<le> v) \<in> quadrants n)"

definition shade :: "int \<Rightarrow> rat" where
  "shade n = (if 9617 \<le> n \<and> n \<le> 9619 then of_int (n - 9616) / 4 else 1)"

definition scaled :: "rat \<Rightarrow> rat \<Rightarrow> rat \<Rightarrow> rat \<Rightarrow> rat \<times> rect4 \<Rightarrow> rat \<times> rect4" where
  "scaled g I Q C = (\<lambda>(f, x, y, w, h). (f, g + x * Q, I + y * C, w * Q, h * C))"

text \<open>The table is the one of the unit square, moved and stretched.\<close>

lemma block_table_scaled:
  "block_table g I Q C = map (\<lambda>(k, rs). (k, map (scaled g I Q C) rs)) (block_table 0 0 1 1)"
  by (simp add: block_table_def scaled_def)

lemma renderBlockChar_scaled:
  "renderBlockChar n g I Q C = map_option (map (scaled g I Q C)) (renderBlockChar n 0 0 1 1)"
  unfolding renderBlockChar_def by (subst block_table_scaled) (simp add: map_of_map)

lemma in_scaled:
  assumes "0 < Q" "0 < C"
  shows "in_rect (snd (scaled g I Q C r)) (g + u * Q) (I + v * C) = in_rect (snd r) u v"
proof -
  obtain f x y w h where r: "r = (f, x, y, w, h)" by (metis prod_cases5)
  have "x * Q \<le> u * Q \<longleftrightarrow> x \<le> u" "y * C \<le> v * C \<longleftrightarrow> y \<le> v"
    "u * Q < x * Q + w * Q \<longleftrightarrow> u < x + w" "v * C < y * C + h * C \<longleftrightarrow> v < y + h"
    using assms by (simp_all flip: distrib_right)
  then show ?thesis by (simp add: r scaled_def in_rect_def add.assoc)
qed

definition in_cell :: "rect4 \<Rightarrow> bool" where
  "in_cell r = (case r of (x, y, w, h) \<Rightarrow> 0 \<le> x \<and> 0 \<le> y \<and> 0 < w \<and> 0 < h \<and> x + w \<le> 1 \<and> y + h \<le> 1)"

text \<open>What is wanted of one character, at a point of the unit square.\<close>

definition block_ok :: "rat \<Rightarrow> rat \<Rightarrow> int \<Rightarrow> bool" where
  "block_ok u v n = (case renderBlockChar n 0 0 1 1 of None \<Rightarrow> False | Some rs \<Rightarrow>
     ((\<exists>r\<in>set rs. in_rect (snd r) u v) \<longleftrightarrow> block_covers n u v) \<and>
     list_all (\<lambda>r. fst r = shade n \<and> in_cell (snd r)) rs \<and> length (filter (\<lambda>r. in_rect (snd r) u v) rs) \<le> 1)"

lemma block_unit:
  assumes "0 \<le> u" "u < 1" "0 \<le> v" "v < 1"
  shows "list_all (block_ok u v) [9600..9631]"
  using assms
  by (simp add: block_ok_def renderBlockChar_def block_table_def in_rect_def block_covers_def quadrants_def
      shade_def in_cell_def Let_def)

text \<open>
  C9. The renderer handles exactly the block elements U+2580 to U+259F. For each of them, a point of
  the cell is filled if and only if the character covers it, never twice (so a shade is not
  darkened), with the opacity of the shade, and nothing outside the cell is filled.
\<close>

theorem block_elements_exact:
  assumes "0 < Q" "0 < C" "0 \<le> u" "u < 1" "0 \<le> v" "v < 1"
  shows "(if 9600 \<le> n \<and> n \<le> 9631
     then \<exists>rs. renderBlockChar n g I Q C = Some rs \<and>
       ((\<exists>r\<in>set rs. in_rect (snd r) (g + u * Q) (I + v * C)) \<longleftrightarrow> block_covers n u v) \<and>
       length (filter (\<lambda>r. in_rect (snd r) (g + u * Q) (I + v * C)) rs) \<le> 1 \<and>
       (\<forall>r\<in>set rs. fst r = shade n \<and> (case snd r of (x, y, w, h) \<Rightarrow>
          g \<le> x \<and> I \<le> y \<and> 0 < w \<and> 0 < h \<and> x + w \<le> g + Q \<and> y + h \<le> I + C))
     else renderBlockChar n g I Q C = None)"
proof (cases "9600 \<le> n \<and> n \<le> 9631")
  case True
  then have "n \<in> set [9600..9631]" unfolding set_upto by simp
  then have "block_ok u v n" using block_unit [OF assms(3-)] unfolding list_all_iff by blast
  then obtain rs where rs: "renderBlockChar n 0 0 1 1 = Some rs"
    "(\<exists>r\<in>set rs. in_rect (snd r) u v) \<longleftrightarrow> block_covers n u v" "\<forall>r\<in>set rs. fst r = shade n \<and> in_cell (snd r)"
    "length (filter (\<lambda>r. in_rect (snd r) u v) rs) \<le> 1"
    by (auto simp: block_ok_def list_all_iff split: option.splits)
  let ?rs = "map (scaled g I Q C) rs"
  have "fst r = shade n \<and> (case snd r of (x, y, w, h) \<Rightarrow>
      g \<le> x \<and> I \<le> y \<and> 0 < w \<and> 0 < h \<and> x + w \<le> g + Q \<and> y + h \<le> I + C)" if r: "r \<in> set ?rs" for r
  proof -
    obtain p where p: "p \<in> set rs" "r = scaled g I Q C p" using r by auto
    obtain f x y w h where "p = (f, x, y, w, h)" by (cases p)
    with p have q: "(f, x, y, w, h) \<in> set rs" "r = scaled g I Q C (f, x, y, w, h)" by simp_all
    have "in_cell (x, y, w, h)" "f = shade n" using rs(3) q(1) by force+
    moreover have "x * Q + w * Q \<le> Q" "y * C + h * C \<le> C" if "x + w \<le> 1" "y + h \<le> 1"
      using that assms(1,2) mult_right_mono [of "x + w" 1 Q] mult_right_mono [of "y + h" 1 C] by (simp_all add: distrib_right)
    ultimately show ?thesis using assms(1,2) by (simp add: q(2) scaled_def in_cell_def add.assoc)
  qed
  moreover have "renderBlockChar n g I Q C = Some ?rs" by (simp add: renderBlockChar_scaled [of n g] rs(1))
  moreover have "(\<exists>r\<in>set ?rs. in_rect (snd r) (g + u * Q) (I + v * C)) \<longleftrightarrow> block_covers n u v"
    using rs(2) by (simp add: in_scaled [OF assms(1,2)])
  moreover have "length (filter (\<lambda>r. in_rect (snd r) (g + u * Q) (I + v * C)) ?rs) \<le> 1"
    using rs(4) by (simp add: filter_map comp_def in_scaled [OF assms(1,2)])
  ultimately show ?thesis using True by auto
next
  case False
  have "set (map fst (block_table g I Q C)) \<subseteq> {9600..9631}" by (simp add: block_table_def)
  then have "n \<notin> fst ` set (block_table g I Q C)" using False by auto
  then have "renderBlockChar n g I Q C = None" unfolding renderBlockChar_def by (simp add: map_of_eq_None_iff)
  then show ?thesis using False by simp
qed

theorem block_elements_exact_witness:
  "\<exists>rs. renderBlockChar 9618 7 13 7 13 = Some rs \<and> (\<forall>r\<in>set rs. fst r = 1 / 2)"
  using block_elements_exact [of 7 13 "1 / 2" "1 / 4" 9618 7 13] by (auto simp: shade_def)

section \<open>Box drawing lines\<close>

text \<open>
  In the table, the arms of a character are pairwise different, and where two arms are opposite to
  each other all its arms have the same weight.
\<close>

definition segments_ok :: "(arm \<times> weight) list \<Rightarrow> bool" where
  "segments_ok w \<longleftrightarrow> distinct (map fst w) \<and>
     ((Leftward \<in> fst ` set w \<and> Rightward \<in> fst ` set w) \<or> (Upward \<in> fst ` set w \<and> Downward \<in> fst ` set w) \<longrightarrow>
      (\<exists>k. snd ` set w = {k}))"

lemma segments_all_ok: "list_all (\<lambda>(n, w). segments_ok w) segment_table"
  by (simp add: segment_table_def segments_ok_def)

lemma getBoxDrawingSegments_ok: "getBoxDrawingSegments n = Some w \<Longrightarrow> segments_ok w"
  using segments_all_ok unfolding getBoxDrawingSegments_def list_all_iff by (blast dest: map_of_SomeD)

text \<open>The place where an arm leaves the cell, as an interval along the edge.\<close>

definition arm_edge :: "rat \<Rightarrow> rat \<Rightarrow> rat \<Rightarrow> rat \<Rightarrow> weight \<Rightarrow> arm \<Rightarrow> rat \<times> rat" where
  "arm_edge g I Q C k d =
     (let m = (if horizontal d then js_round (I + C / 2) else js_round (g + Q / 2))
      in (of_int (m - thickness k div 2), of_int (thickness k)))"

lemma through_weight:
  assumes "segments_ok w" "(Leftward \<in> fst ` set w \<and> Rightward \<in> fst ` set w) \<or> (Upward \<in> fst ` set w \<and> Downward \<in> fst ` set w)"
    "(d, k) \<in> set w"
  shows "(if Heavy \<in> snd ` set w then Heavy else Light) = k"
proof -
  obtain k' where "snd ` set w = {k'}" using assms(1,2) unfolding segments_ok_def by blast
  moreover from this have "k' = k" using assms(3) by force
  ultimately show ?thesis by (cases k) auto
qed

fun opposite :: "arm \<Rightarrow> arm" where
  "opposite Leftward = Rightward"
| "opposite Rightward = Leftward"
| "opposite Upward = Downward"
| "opposite Downward = Upward"

text \<open>The line an arm is part of, with or without the opposite arm.\<close>

definition arm_line :: "rat \<Rightarrow> rat \<Rightarrow> rat \<Rightarrow> rat \<Rightarrow> bool \<Rightarrow> arm \<times> weight \<Rightarrow> rect4" where
  "arm_line g I Q C through k =
     (let i = js_round (g + Q / 2); o' = js_round (I + C / 2); t = js_round g; e = js_round I;
          a = js_round (g + Q); G = js_round (I + C); H = thickness (snd k); h = H div 2
      in if through then (if horizontal (fst k) then irect t (o' - h) (a - t) H else irect (i - h) e H (G - e))
         else arm_rect i o' t e a G k)"

lemma arm_line_drawn:
  assumes ok: "segments_ok w" and k: "(d, k) \<in> set w"
  shows "arm_line g I Q C (opposite d \<in> fst ` set w) (d, k) \<in> set (box_lines g I Q C w)"
proof -
  have d: "d \<in> fst ` set w" using k by force
  show ?thesis
  proof (cases "opposite d \<in> fst ` set w")
    case True
    then have both: "(Leftward \<in> fst ` set w \<and> Rightward \<in> fst ` set w) \<or> (Upward \<in> fst ` set w \<and> Downward \<in> fst ` set w)"
      using d by (cases d) auto
    note H = through_weight [OF ok both k]
    show ?thesis
      using True d unfolding box_lines_def arm_line_def Let_def set_map H
      by (cases d) (simp_all add: horizontal_def)
  next
    case False
    then show ?thesis
      using d k unfolding box_lines_def arm_line_def Let_def
      by (cases d) (auto simp: horizontal_def)
  qed
qed

text \<open>An arm reaches from the middle of the cell to the edge, which its neighbour shares.\<close>

lemma arm_line_edges:
  assumes "0 < Q" "0 < C" and r: "arm_line g I Q C b (d, k) = (x, y, w, h)"
  shows "d = Rightward \<Longrightarrow> x + w = of_int (js_round (g + Q)) \<and> x \<le> of_int (js_round (g + Q / 2)) \<and> (y, h) = arm_edge g I Q C k d"
    and "d = Leftward \<Longrightarrow> x = of_int (js_round g) \<and> of_int (js_round (g + Q / 2)) \<le> x + w \<and> (y, h) = arm_edge g I Q C k d"
    and "d = Downward \<Longrightarrow> y + h = of_int (js_round (I + C)) \<and> y \<le> of_int (js_round (I + C / 2)) \<and> (x, w) = arm_edge g I Q C k d"
    and "d = Upward \<Longrightarrow> y = of_int (js_round I) \<and> of_int (js_round (I + C / 2)) \<le> y + h \<and> (x, w) = arm_edge g I Q C k d"
proof -
  have m: "js_round g \<le> js_round (g + Q / 2)" "js_round (g + Q / 2) \<le> js_round (g + Q)"
    "js_round I \<le> js_round (I + C / 2)" "js_round (I + C / 2) \<le> js_round (I + C)"
    using assms(1,2) by (auto intro: js_round_mono)
  note defs = arm_line_def Let_def irect_def arm_edge_def horizontal_def arm_rect_def
  show "d = Rightward \<Longrightarrow> x + w = of_int (js_round (g + Q)) \<and> x \<le> of_int (js_round (g + Q / 2)) \<and> (y, h) = arm_edge g I Q C k d"
    using r m by (cases b) (auto simp: defs)
  show "d = Leftward \<Longrightarrow> x = of_int (js_round g) \<and> of_int (js_round (g + Q / 2)) \<le> x + w \<and> (y, h) = arm_edge g I Q C k d"
    using r m by (cases b) (auto simp: defs)
  show "d = Downward \<Longrightarrow> y + h = of_int (js_round (I + C)) \<and> y \<le> of_int (js_round (I + C / 2)) \<and> (x, w) = arm_edge g I Q C k d"
    using r m by (cases b) (auto simp: defs)
  show "d = Upward \<Longrightarrow> y = of_int (js_round I) \<and> of_int (js_round (I + C / 2)) \<le> y + h \<and> (x, w) = arm_edge g I Q C k d"
    using r m by (cases b) (auto simp: defs)
qed

text \<open>
  The lines of the double box characters by their names: how many leave the cell to the left, to the
  right, up and down. A single line leaves in the middle, two leave 2 to either side of it.
\<close>

definition double_arms :: "(int \<times> nat \<times> nat \<times> nat \<times> nat) list" where
  "double_arms = [(9552, 2, 2, 0, 0), (9553, 0, 0, 2, 2), (9554, 0, 2, 0, 1), (9555, 0, 1, 0, 2), (9556, 0, 2, 0, 2),
     (9557, 2, 0, 0, 1), (9558, 1, 0, 0, 2), (9559, 2, 0, 0, 2), (9560, 0, 2, 1, 0), (9561, 0, 1, 2, 0),
     (9562, 0, 2, 2, 0), (9563, 2, 0, 1, 0), (9564, 1, 0, 2, 0), (9565, 2, 0, 2, 0), (9566, 0, 2, 1, 1),
     (9567, 0, 1, 2, 2), (9568, 0, 2, 2, 2), (9569, 2, 0, 1, 1), (9570, 1, 0, 2, 2), (9571, 2, 0, 2, 2),
     (9572, 2, 2, 0, 1), (9573, 1, 1, 0, 2), (9574, 2, 2, 0, 2), (9575, 2, 2, 1, 0), (9576, 1, 1, 2, 0),
     (9577, 2, 2, 2, 0), (9578, 2, 2, 1, 1), (9579, 1, 1, 2, 2), (9580, 2, 2, 2, 2)]"

definition offsets :: "nat \<Rightarrow> rat set" where
  "offsets n = (if n = 0 then {} else if n = 1 then {0} else {-2, 2})"

definition double_ok :: "rat \<Rightarrow> rat \<Rightarrow> rat \<Rightarrow> rat \<Rightarrow> int \<times> nat \<times> nat \<times> nat \<times> nat \<Rightarrow> bool" where
  "double_ok g I Q C = (\<lambda>(n, l, r, u, d). case renderDoubleBoxDrawing n g I Q C of None \<Rightarrow> False | Some rs \<Rightarrow>
     let m = I + C / 2; i = g + Q / 2
     in set (map (\<lambda>(x, y, w, h). y + h / 2 - m) (filter (\<lambda>(x, y, w, h). x = g) rs)) = offsets l \<and>
        set (map (\<lambda>(x, y, w, h). y + h / 2 - m) (filter (\<lambda>(x, y, w, h). x + w = g + Q) rs)) = offsets r \<and>
        set (map (\<lambda>(x, y, w, h). x + w / 2 - i) (filter (\<lambda>(x, y, w, h). y = I) rs)) = offsets u \<and>
        set (map (\<lambda>(x, y, w, h). x + w / 2 - i) (filter (\<lambda>(x, y, w, h). y + h = I + C) rs)) = offsets d)"

lemma double_lines_ok:
  assumes "5 < Q" "5 < C"
  shows "list_all (double_ok g I Q C) double_arms"
  using assms
  by (simp add: double_arms_def double_ok_def renderDoubleBoxDrawing_def double_table_def Let_def offsets_def insert_commute)

lemma segments_rendered:
  assumes "getBoxDrawingSegments A = Some s"
  shows "renderBoxDrawing A g I Q C = Some (box_lines g I Q C s)"
proof -
  have "list_all (\<lambda>(n, w). n < 9552 \<or> 9580 < n) segment_table" by (simp add: segment_table_def)
  then have "A < 9552 \<or> 9580 < A"
    using map_of_SomeD [OF assms [unfolded getBoxDrawingSegments_def]] unfolding list_all_iff by fast
  then show ?thesis using assms by (auto simp: renderBoxDrawing_def)
qed

lemma arms_meet:
  assumes s: "segments_ok s" "(d, k) \<in> set s" and t: "segments_ok t" "(opposite d, k) \<in> set t"
    and pos: "0 < Q" "0 < Q'" "0 < C" "0 < C'"
  shows "d = Rightward \<Longrightarrow> \<exists>x y w h w'. (x, y, w, h) \<in> set (box_lines g I Q C s) \<and>
      (x + w, y, w', h) \<in> set (box_lines (g + Q) I Q' C t) \<and> h = of_int (thickness k)"
    and "d = Downward \<Longrightarrow> \<exists>x y w h h'. (x, y, w, h) \<in> set (box_lines g I Q C s) \<and>
      (x, y + h, w, h') \<in> set (box_lines g (I + C) Q C' t) \<and> w = of_int (thickness k)"
proof -
  show "\<exists>x y w h w'. (x, y, w, h) \<in> set (box_lines g I Q C s) \<and>
      (x + w, y, w', h) \<in> set (box_lines (g + Q) I Q' C t) \<and> h = of_int (thickness k)" if d: "d = Rightward"
  proof -
    obtain x y w h where r: "arm_line g I Q C (opposite d \<in> fst ` set s) (d, k) = (x, y, w, h)" by (metis prod_cases4)
    obtain x' y' w' h' where r': "arm_line (g + Q) I Q' C (d \<in> fst ` set t) (opposite d, k) = (x', y', w', h')"
      by (metis prod_cases4)
    have "(x', y', w', h') = (x + w, y, w', h) \<and> h = of_int (thickness k)"
      using arm_line_edges(1) [OF pos(1,3) r d] arm_line_edges(2) [OF pos(2,3) r'] d
      by (auto simp: arm_edge_def horizontal_def Let_def)
    then show ?thesis
      using arm_line_drawn [OF s, of g I Q C] arm_line_drawn [OF t, of "g + Q" I Q' C] r r' d by auto
  qed
  show "\<exists>x y w h h'. (x, y, w, h) \<in> set (box_lines g I Q C s) \<and>
      (x, y + h, w, h') \<in> set (box_lines g (I + C) Q C' t) \<and> w = of_int (thickness k)" if d: "d = Downward"
  proof -
    obtain x y w h where r: "arm_line g I Q C (opposite d \<in> fst ` set s) (d, k) = (x, y, w, h)" by (metis prod_cases4)
    obtain x' y' w' h' where r': "arm_line g (I + C) Q C' (d \<in> fst ` set t) (opposite d, k) = (x', y', w', h')"
      by (metis prod_cases4)
    have "(x', y', w', h') = (x, y + h, w, h') \<and> w = of_int (thickness k)"
      using arm_line_edges(3) [OF pos(1,3) r d] arm_line_edges(4) [OF pos(1,4) r'] d
      by (auto simp: arm_edge_def horizontal_def Let_def)
    then show ?thesis
      using arm_line_drawn [OF s, of g I Q C] arm_line_drawn [OF t, of g "I + C" Q C'] r r' d by auto
  qed
qed

text \<open>
  C12. Box drawing lines connect. If a character has a light or heavy arm to the right and its
  right neighbour an arm of the same weight to the left, the line of the one ends exactly where the
  line of the other begins, at the same height and with the same thickness; likewise for a character
  and the one below it. The double line characters send to each side of the cell the lines their
  names say: none, one in the middle, or two beside the middle.
\<close>

theorem box_lines_connect:
  assumes "getBoxDrawingSegments A = Some s" "getBoxDrawingSegments B = Some t" "5 < Q" "0 < Q'" "5 < C" "0 < C'"
  shows "\<exists>ra rb rc. renderBoxDrawing A g I Q C = Some ra \<and> renderBoxDrawing B (g + Q) I Q' C = Some rb \<and>
      renderBoxDrawing B g (I + C) Q C' = Some rc \<and>
      (\<forall>k. ((Rightward, k) \<in> set s \<and> (Leftward, k) \<in> set t \<longrightarrow>
         (\<exists>x y w h w'. (x, y, w, h) \<in> set ra \<and> (x + w, y, w', h) \<in> set rb \<and> h = of_int (thickness k))) \<and>
       ((Downward, k) \<in> set s \<and> (Upward, k) \<in> set t \<longrightarrow>
         (\<exists>x y w h h'. (x, y, w, h) \<in> set ra \<and> (x, y + h, w, h') \<in> set rc \<and> w = of_int (thickness k)))) \<and>
      list_all (double_ok g I Q C) double_arms"
proof -
  note ok = assms(1,2) [THEN getBoxDrawingSegments_ok]
  have pos: "0 < Q" "0 < C" using assms(3,5) by simp_all
  show ?thesis
    using assms(1,2) [THEN segments_rendered] arms_meet(1) [OF ok(1) _ ok(2), of Rightward]
      arms_meet(2) [OF ok(1) _ ok(2), of Downward] pos assms(4,6) double_lines_ok [OF assms(3,5)]
    by simp
qed

theorem box_lines_connect_witness:
  "\<exists>ra rb x y w h w'. renderBoxDrawing 9473 0 0 7 13 = Some ra \<and> renderBoxDrawing 9499 7 0 7 13 = Some rb \<and>
     (x, y, w, h) \<in> set ra \<and> (x + w, y, w', h) \<in> set rb \<and> h = 3"
proof -
  have "getBoxDrawingSegments 9473 = Some [(Leftward, Heavy), (Rightward, Heavy)]"
    "getBoxDrawingSegments 9499 = Some [(Leftward, Heavy), (Upward, Heavy)]"
    by (simp_all add: getBoxDrawingSegments_def segment_table_def)
  from box_lines_connect [OF this, of 7 7 13 13 0 0] show ?thesis by (fastforce simp: thickness_def)
qed

text \<open>
  The corners of double lines are open: the ends of the outer and the inner line are interchanged, so
  the outer line has a gap where it should turn.
\<close>

lemma double_corners_open:
  assumes "5 < Q" "5 < C" and n: "n \<in> {9556, 9559, 9562, 9565}"
    and p: "(x, y) = (if n = 9556 \<or> n = 9559 then (g + Q / 2, I + C / 2 - 2)
      else (g + Q / 2 + (if n = 9562 then -2 else 2), I + C / 2))"
  shows "\<exists>rs. renderDoubleBoxDrawing n g I Q C = Some rs \<and> \<not> (\<exists>r\<in>set rs. in_rect r x y)"
  using n p assms(1,2)
  by (auto simp: renderDoubleBoxDrawing_def double_table_def Let_def in_rect_def)

end
