(* ===== verification/Gw_Kitty.thy ===== *)
theory Gw_Kitty
  imports Gw_Wrapper Gw_Box "HOL-Library.AList"
begin

text \<open>
  Kitty graphics in the canvas renderer (class \<open>jA\<close> of \<open>ghostty-web.js\<close>): placements of a frame and
  the rows they damage, the cache of decoded images, placeholder cells that show a piece of an
  image, and the expansion of image data to RGBA.
\<close>

section \<open>Diacritics\<close>

text \<open>The combining characters that count rows and columns (\<open>$g\<close>, \<open>AB\<close> and \<open>kA\<close>).\<close>

definition diacritics :: "nat list" where
  "diacritics = [773, 781, 782, 784, 786, 829, 830, 831, 838, 842, 843, 844, 848, 849, 850, 855, 859, 867, 868, 869,
     870, 871, 872, 873, 874, 875, 876, 877, 878, 879, 1155, 1156, 1157, 1158, 1159, 1426, 1427, 1428,
     1429, 1431, 1432, 1433, 1436, 1437, 1438, 1439, 1440, 1441, 1448, 1449, 1451, 1452, 1455, 1476,
     1552, 1553, 1554, 1555, 1556, 1557, 1558, 1559, 1623, 1624, 1625, 1626, 1627, 1629, 1630, 1750,
     1751, 1752, 1753, 1754, 1755, 1756, 1759, 1760, 1761, 1762, 1764, 1767, 1768, 1771, 1772, 1840,
     1842, 1843, 1845, 1846, 1850, 1853, 1855, 1856, 1857, 1859, 1861, 1863, 1865, 1866, 2027, 2028,
     2029, 2030, 2031, 2032, 2033, 2035, 2070, 2071, 2072, 2073, 2075, 2076, 2077, 2078, 2079, 2080,
     2081, 2082, 2083, 2085, 2086, 2087, 2089, 2090, 2091, 2092, 2093, 2385, 2387, 2388, 3970, 3971,
     3974, 3975, 4957, 4958, 4959, 6109, 6458, 6679, 6773, 6774, 6775, 6776, 6777, 6778, 6779, 6780,
     7019, 7021, 7022, 7023, 7024, 7025, 7026, 7027, 7376, 7377, 7378, 7386, 7387, 7392, 7616, 7617,
     7619, 7620, 7621, 7622, 7623, 7624, 7625, 7627, 7628, 7633, 7634, 7635, 7636, 7637, 7638, 7639,
     7640, 7641, 7642, 7643, 7644, 7645, 7646, 7647, 7648, 7649, 7650, 7651, 7652, 7653, 7654, 7678,
     8400, 8401, 8404, 8405, 8406, 8407, 8411, 8412, 8417, 8423, 8425, 8432, 11503, 11504, 11505, 11744,
     11745, 11746, 11747, 11748, 11749, 11750, 11751, 11752, 11753, 11754, 11755, 11756, 11757, 11758,
     11759, 11760, 11761, 11762, 11763, 11764, 11765, 11766, 11767, 11768, 11769, 11770, 11771, 11772,
     11773, 11774, 11775, 42607, 42620, 42621, 42736, 42737, 43232, 43233, 43234, 43235, 43236, 43237,
     43238, 43239, 43240, 43241, 43242, 43243, 43244, 43245, 43246, 43247, 43248, 43249, 43696, 43698,
     43699, 43703, 43704, 43710, 43711, 43713, 65056, 65057, 65058, 65059, 65060, 65061, 65062, 68111,
     68152, 119173, 119174, 119175, 119176, 119177, 119210, 119211, 119212, 119213, 119362, 119363,
     119364]"

definition kA :: "nat \<Rightarrow> int" where
  "kA B = (case map_of (rev (zip diacritics [0..<length diacritics])) B of Some i \<Rightarrow> int i | None \<Rightarrow> -1)"

section \<open>Images\<close>

text \<open>An image of the core: its size, format, and its data with their address in the memory.\<close>

record kpixels =
  kp_width :: nat
  kp_height :: nat
  kp_format :: nat
  kp_ptr :: nat
  kp_bytes :: "byte list"

definition FORMAT_RGB :: nat where "FORMAT_RGB = 0"
definition FORMAT_RGBA :: nat where "FORMAT_RGBA = 1"
definition FORMAT_GRAY_ALPHA :: nat where "FORMAT_GRAY_ALPHA = 3"
definition FORMAT_GRAY :: nat where "FORMAT_GRAY = 4"

text \<open>The loops; a missing byte reads as \<open>undefined\<close>, which is stored as 0.\<close>

fun expand_rgb :: "byte list \<Rightarrow> byte list" where
  "expand_rgb (r # g # b # bs) = r # g # b # 255 # expand_rgb bs"
| "expand_rgb [r, g] = [r, g, 0, 255]"
| "expand_rgb [r] = [r, 0, 0, 255]"
| "expand_rgb [] = []"

fun expand_gray :: "byte list \<Rightarrow> byte list" where
  "expand_gray (w # bs) = w # w # w # 255 # expand_gray bs"
| "expand_gray [] = []"

fun expand_gray_alpha :: "byte list \<Rightarrow> byte list" where
  "expand_gray_alpha (w # a # bs) = w # w # w # a # expand_gray_alpha bs"
| "expand_gray_alpha [w] = [w, w, w, 0]"
| "expand_gray_alpha [] = []"

text \<open>An array of \<open>n\<close> zeros with \<open>xs\<close> stored from its start; what does not fit is dropped.\<close>

definition filled :: "nat \<Rightarrow> byte list \<Rightarrow> byte list" where
  "filled n xs = take n xs @ replicate (n - length xs) 0"

text \<open>
  \<open>decodeKittyImageToCanvas\<close>: the pixels put on a fresh canvas. \<open>ok\<close> says that the canvas has a 2D
  context; \<open>E.set(C)\<close> throws when the data do not fit.
\<close>

definition decodeKittyImageToCanvas :: "bool \<Rightarrow> kpixels \<Rightarrow> byte list option result" where
  "decodeKittyImageToCanvas ok A =
     (let n = kp_width A * kp_height A * 4; C = kp_bytes A;
          put = (\<lambda>E. Inr (if ok then Some (filled n E) else None))
      in if kp_width A = 0 \<or> kp_height A = 0 then Inr None
         else if kp_format A = FORMAT_RGBA then (if length C > n then Inl Range_Error else put C)
         else if kp_format A = FORMAT_RGB then put (expand_rgb C)
         else if kp_format A = FORMAT_GRAY then put (expand_gray C)
         else if kp_format A = FORMAT_GRAY_ALPHA then put (expand_gray_alpha C)
         else Inr None)"

record cached_image =
  ci_canvas :: "byte list"
  ci_width :: nat
  ci_height :: nat
  ci_format :: nat
  ci_ptr :: nat
  ci_len :: nat

text \<open>Function \<open>uA\<close>: does the cached image belong to these data?\<close>

definition same_image :: "cached_image \<Rightarrow> kpixels \<Rightarrow> bool" where
  "same_image B A = (ci_width B = kp_width A \<and> ci_height B = kp_height A \<and> ci_format B = kp_format A \<and>
     ci_ptr B = kp_ptr A \<and> ci_len B = length (kp_bytes A))"

definition cache_entry :: "byte list \<Rightarrow> kpixels \<Rightarrow> cached_image" where
  "cache_entry E C = \<lparr>ci_canvas = E, ci_width = kp_width C, ci_height = kp_height C, ci_format = kp_format C,
     ci_ptr = kp_ptr C, ci_len = length (kp_bytes C)\<rparr>"

section \<open>Placements\<close>

text \<open>
  What the buffer answers during a frame: the storage (\<^term>\<open>None\<close> where it has no kitty graphics),
  its placements, the images, and the code points of a cell.
\<close>

record kitty_source =
  ks_graphics :: "nat option"
  ks_placements :: "placement list"
  ks_pixels :: "nat \<Rightarrow> kpixels option"
  ks_grapheme :: "(nat \<Rightarrow> nat \<Rightarrow> nat list option) option"

text \<open>What a placement looked like in the last frame.\<close>

record kitty_sig =
  sg_col :: int
  sg_row :: int
  sg_pixelWidth :: nat
  sg_pixelHeight :: nat
  sg_source :: "nat \<times> nat \<times> nat \<times> nat"
  sg_image :: "nat \<times> nat \<times> nat"
  sg_data :: "nat \<times> nat"

record kitty_state =
  k_cache :: "(nat \<times> cached_image) list"
  k_virtual :: "(nat \<times> placement) list"
  k_direct :: "placement list"
  k_sigs :: "(nat \<times> kitty_sig) list"
  k_damaged :: "int list"
  k_graphics :: "nat option"

definition new_kitty :: kitty_state where
  "new_kitty = \<lparr>k_cache = [], k_virtual = [], k_direct = [], k_sigs = [], k_damaged = [], k_graphics = None\<rparr>"

text \<open>The rows of the grid that a picture of \<open>D\<close> pixels at row \<open>r\<close> touches, \<open>C\<close> pixels a row.\<close>

definition damage :: "int \<Rightarrow> rat \<Rightarrow> int \<Rightarrow> nat \<Rightarrow> int list" where
  "damage rows C r D =
     (let hi = (if C = 0 then (if D = 0 then 0 else rows) else min rows \<lceil>of_int r + of_nat D / C\<rceil>)
      in [max 0 r..hi - 1])"

definition sig_of :: "kitty_source \<Rightarrow> placement \<Rightarrow> kitty_sig" where
  "sig_of S s =
     (let w = ks_pixels S (imageId s); f = (\<lambda>g. case w of Some p \<Rightarrow> g p | None \<Rightarrow> 0)
      in \<lparr>sg_col = viewportCol s, sg_row = viewportRow s, sg_pixelWidth = pixelWidth s, sg_pixelHeight = pixelHeight s,
          sg_source = (sourceX s, sourceY s, sourceWidth s, sourceHeight s),
          sg_image = (f kp_width, f kp_height, f kp_format), sg_data = (f kp_ptr, f (length \<circ> kp_bytes))\<rparr>)"

text \<open>One turn of the loop over the placements: \<open>Q\<close> collects the new signatures.\<close>

definition add_placement ::
  "kitty_source \<Rightarrow> int \<Rightarrow> rat \<Rightarrow> int \<Rightarrow> placement \<Rightarrow> kitty_state \<times> (nat \<times> kitty_sig) list
   \<Rightarrow> kitty_state \<times> (nat \<times> kitty_sig) list" where
  "add_placement S rows C I D kq =
     (let (k, Q) = kq
      in if isVirtual D then (k\<lparr>k_virtual := AList.update (imageId D) D (k_virtual k)\<rparr>, Q)
         else
           let s = D\<lparr>viewportRow := viewportRow D - I\<rparr>; t = sig_of S s; old = map_of (k_sigs k) (imageId D);
               hit = damage rows C (sg_row t) (sg_pixelHeight t) @
                 (case old of Some e \<Rightarrow> damage rows C (sg_row e) (sg_pixelHeight e) | None \<Rightarrow> [])
           in (k\<lparr>k_direct := k_direct k @ [s], k_damaged := k_damaged k @ (if old = Some t then [] else hit)\<rparr>,
               AList.update (imageId D) t Q))"

text \<open>\<open>precomputeKittyState\<close>; \<open>I\<close> is the distance scrolled back.\<close>

definition precomputeKittyState :: "kitty_source \<Rightarrow> int \<Rightarrow> rat \<Rightarrow> int \<Rightarrow> kitty_state \<Rightarrow> kitty_state" where
  "precomputeKittyState S rows C I k =
     (let k = k\<lparr>k_virtual := [], k_direct := [], k_damaged := [], k_graphics := ks_graphics S\<rparr>;
          (k, Q) = (if ks_graphics S = None then (k, []) else fold (add_placement S rows C I) (ks_placements S) (k, []));
          gone = concat (map (\<lambda>(o', D). if map_of Q o' = None then damage rows C (sg_row D) (sg_pixelHeight D) else []) (k_sigs k))
      in k\<lparr>k_damaged := k_damaged k @ gone, k_sigs := Q\<rparr>)"

section \<open>Drawing\<close>

text \<open>An image drawn: its pixels, the part of it that is shown, and where.\<close>

type_synonym image_draw = "byte list \<times> rect4 \<times> rect4"

definition getOrDecodeKittyImage ::
  "bool \<Rightarrow> kitty_source \<Rightarrow> nat \<Rightarrow> kitty_state \<Rightarrow> (kitty_state \<times> byte list option) result" where
  "getOrDecodeKittyImage ok S I k =
     (let Q = map_of (k_cache k) I
      in case ks_pixels S I of
           None \<Rightarrow> Inr (k, map_option ci_canvas Q)
         | Some C \<Rightarrow>
             if (case Q of Some q \<Rightarrow> same_image q C | None \<Rightarrow> False) then Inr (k, map_option ci_canvas Q)
             else and_then (decodeKittyImageToCanvas ok C) (\<lambda>E. case E of
                    None \<Rightarrow> Inr (k, None)
                  | Some E \<Rightarrow> Inr (k\<lparr>k_cache := AList.update I (cache_entry E C) (k_cache k)\<rparr>, Some E)))"

text \<open>The image a placeholder cell names: three bytes in its colour, the fourth in a diacritic.\<close>

definition placeholder_id :: "cell \<Rightarrow> nat list \<Rightarrow> int" where
  "placeholder_id A E =
     (let D = fg_r A * 65536 + fg_g A * 256 + fg_b A; k = (if length E \<ge> 4 then kA (E ! 3) else -1)
      in if k \<ge> 0 then signed32 ((nat k * 16777216 + D) mod 2 ^ 32) else int D)"

text \<open>
  \<open>renderPlaceholderCell\<close> for the cell in column \<open>g\<close> of row \<open>I\<close>, with cells of \<open>mw * mh\<close> pixels. The
  flag says that the cell is handled. A placement without columns or rows makes the arguments of
  \<open>drawImage\<close> infinite, and nothing is drawn.
\<close>

definition renderPlaceholderCell ::
  "bool \<Rightarrow> kitty_source \<Rightarrow> rat \<Rightarrow> rat \<Rightarrow> cell \<Rightarrow> nat \<Rightarrow> nat \<Rightarrow> kitty_state
   \<Rightarrow> (kitty_state \<times> bool \<times> image_draw list) result" where
  "renderPlaceholderCell ok S mw mh A g I k =
     (case (k_graphics k, ks_grapheme S) of
        (Some C, Some get) \<Rightarrow>
          (case get I g of
             None \<Rightarrow> Inr (k, False, [])
           | Some E \<Rightarrow>
               if length E < 3 \<or> kA (E ! 1) < 0 \<or> kA (E ! 2) < 0 then Inr (k, False, [])
               else
                 let i = kA (E ! 1); o' = kA (E ! 2); s = placeholder_id A E
                 in (case (if s < 0 then None else map_of (k_virtual k) (nat s)) of
                      None \<Rightarrow> Inr (k, False, [])
                    | Some w \<Rightarrow>
                        (case ks_pixels S (nat s) of
                           None \<Rightarrow> Inr (k, False, [])
                         | Some t \<Rightarrow>
                             and_then (getOrDecodeKittyImage ok S (nat s) k) (\<lambda>(k, e). case e of
                               None \<Rightarrow> Inr (k, False, [])
                             | Some e \<Rightarrow>
                                 let a = of_nat (kp_width t) / of_nat (gridCols w); G = of_nat (kp_height t) / of_nat (gridRows w)
                                 in Inr (k, True, if gridCols w = 0 \<or> gridRows w = 0 then []
                                      else [(e, (of_int o' * a, of_int i * G, a, G),
                                             (of_nat g * mw, of_nat I * mh, mw, mh))])))))
      | _ \<Rightarrow> Inr (k, False, []))"

text \<open>One placement of \<open>renderKittyImages\<close>, and the loop.\<close>

definition draw_placement ::
  "bool \<Rightarrow> kitty_source \<Rightarrow> rat \<Rightarrow> rat \<Rightarrow> placement \<Rightarrow> kitty_state \<Rightarrow> (kitty_state \<times> image_draw list) result" where
  "draw_placement ok S mw mh I k =
     (case ks_pixels S (imageId I) of
        None \<Rightarrow> Inr (k, [])
      | Some C \<Rightarrow>
          and_then (getOrDecodeKittyImage ok S (imageId I) k) (\<lambda>(k, E). Inr (k, case E of
            None \<Rightarrow> []
          | Some E \<Rightarrow>
              [(E, (of_nat (sourceX I), of_nat (sourceY I), of_nat (sourceWidth I), of_nat (sourceHeight I)),
                (of_int (viewportCol I) * mw, of_int (viewportRow I) * mh, of_nat (pixelWidth I), of_nat (pixelHeight I)))])))"

fun draw_placements ::
  "bool \<Rightarrow> kitty_source \<Rightarrow> rat \<Rightarrow> rat \<Rightarrow> placement list \<Rightarrow> kitty_state \<Rightarrow> (kitty_state \<times> image_draw list) result" where
  "draw_placements ok S mw mh [] k = Inr (k, [])"
| "draw_placements ok S mw mh (p # ps) k =
     and_then (draw_placement ok S mw mh p k) (\<lambda>(k, d).
       and_then (draw_placements ok S mw mh ps k) (\<lambda>(k, ds). Inr (k, d @ ds)))"

definition renderKittyImages ::
  "bool \<Rightarrow> kitty_source \<Rightarrow> rat \<Rightarrow> rat \<Rightarrow> kitty_state \<Rightarrow> (kitty_state \<times> image_draw list) result" where
  "renderKittyImages ok S mw mh k =
     (if k_graphics k = None then Inr (k, []) else draw_placements ok S mw mh (k_direct k) k)"

end
