(* ===== verification/Gw_Kitty_Props.thy ===== *)
theory Gw_Kitty_Props
  imports Gw_Kitty
begin

text \<open>
  Rows without damage show the pieces of kitty images they showed before; placeholder cells show the
  piece of the image their diacritics count; and image data become four bytes for each pixel.
\<close>

section \<open>Diacritics\<close>

lemma diacritics_distinct: "distinct diacritics"
proof -
  have "successively (<) diacritics" by code_simp
  then have "sorted_wrt (<) diacritics" by (simp add: successively_conv_sorted_wrt)
  then show ?thesis by (simp add: strict_sorted_iff)
qed

lemma kA_nth: "i < length diacritics \<Longrightarrow> kA (diacritics ! i) = int i"
proof -
  assume i: "i < length diacritics"
  let ?z = "zip diacritics [0..<length diacritics]"
  have "(diacritics ! i, i) \<in> set (rev ?z)" using i by (auto simp: set_zip)
  moreover have "distinct (map fst (rev ?z))" using diacritics_distinct by (simp flip: rev_map)
  ultimately show ?thesis unfolding kA_def by simp
qed

lemma kA_nonneg: "0 \<le> kA b \<Longrightarrow> b = diacritics ! nat (kA b) \<and> nat (kA b) < length diacritics"
  by (auto simp: kA_def set_zip split: option.splits dest!: map_of_SomeD)

section \<open>Damage\<close>

text \<open>A picture of \<open>D\<close> pixels at row \<open>r\<close> has a pixel in row \<open>h\<close>.\<close>

definition touches :: "rat \<Rightarrow> int \<Rightarrow> nat \<Rightarrow> int \<Rightarrow> bool" where
  "touches C r D h \<longleftrightarrow> of_int r * C < of_int (h + 1) * C \<and> of_int h * C < of_int r * C + of_nat D"

lemma damage_covers:
  assumes "0 < C" "touches C r D h" "0 \<le> h" "h < rows"
  shows "h \<in> set (damage rows C r D)"
proof -
  have "r < h + 1" using assms(1,2) by (simp add: touches_def)
  moreover have "of_int h < of_int r + of_nat D / C"
    using assms(1,2) by (simp add: touches_def field_simps)
  then have "h < \<lceil>of_int r + of_nat D / C\<rceil>" by (simp add: less_ceiling_iff)
  ultimately show ?thesis using assms(1,3,4) by (simp add: damage_def)
qed

section \<open>Placements\<close>

definition moved :: "int \<Rightarrow> placement \<Rightarrow> placement" where
  "moved I D = D\<lparr>viewportRow := viewportRow D - I\<rparr>"

definition direct :: "int \<Rightarrow> placement list \<Rightarrow> placement list" where
  "direct I ps = map (moved I) (filter (Not \<circ> isVirtual) ps)"

text \<open>The rows that a placement with signature \<open>t\<close> damages when \<open>old\<close> was its signature before.\<close>

definition damage_of :: "int \<Rightarrow> rat \<Rightarrow> kitty_sig option \<Rightarrow> kitty_sig \<Rightarrow> int list" where
  "damage_of rows C old t = (if old = Some t then [] else damage rows C (sg_row t) (sg_pixelHeight t) @
     (case old of Some e \<Rightarrow> damage rows C (sg_row e) (sg_pixelHeight e) | None \<Rightarrow> []))"

lemma update_new: "k \<notin> fst ` set xs \<Longrightarrow> AList.update k v xs = xs @ [(k, v)]"
  by (induction xs) auto

lemma add_placements:
  assumes "fold (add_placement S rows C I) ps (k, Q) = (k', Q')"
    "distinct (map fst Q @ map imageId (direct I ps))"
  shows "Q' = Q @ map (\<lambda>s. (imageId s, sig_of S s)) (direct I ps) \<and> k_sigs k' = k_sigs k \<and>
    k_direct k' = k_direct k @ direct I ps \<and>
    k_damaged k' = k_damaged k @
       concat (map (\<lambda>s. damage_of rows C (map_of (k_sigs k) (imageId s)) (sig_of S s)) (direct I ps)) \<and>
    k_cache k' = k_cache k \<and> k_graphics k' = k_graphics k"
  using assms
proof (induction ps arbitrary: k Q)
  case Nil
  then show ?case by (simp add: direct_def)
next
  case (Cons p ps)
  obtain k1 Q1 where a: "add_placement S rows C I p (k, Q) = (k1, Q1)" by fastforce
  have f: "fold (add_placement S rows C I) ps (k1, Q1) = (k', Q')" using Cons.prems(1) a by simp
  show ?case
  proof (cases "isVirtual p")
    case True
    have k1: "k_sigs k1 = k_sigs k" "k_direct k1 = k_direct k" "k_damaged k1 = k_damaged k" "k_cache k1 = k_cache k"
      "k_graphics k1 = k_graphics k" "Q1 = Q" using a True by (auto simp: add_placement_def)
    have d: "direct I (p # ps) = direct I ps" using True by (simp add: direct_def)
    show ?thesis using Cons.IH [OF f] Cons.prems(2) by (simp add: k1 d)
  next
    case False
    have d: "direct I (p # ps) = moved I p # direct I ps" using False by (simp add: direct_def)
    have "imageId (moved I p) = imageId p" by (simp add: moved_def)
    then have new: "imageId p \<notin> fst ` set Q" using Cons.prems(2) by (simp add: d)
    have k1: "k_sigs k1 = k_sigs k" "k_direct k1 = k_direct k @ [moved I p]"
      "k_damaged k1 = k_damaged k @ damage_of rows C (map_of (k_sigs k) (imageId (moved I p))) (sig_of S (moved I p))"
      "k_cache k1 = k_cache k" "k_graphics k1 = k_graphics k" "Q1 = Q @ [(imageId (moved I p), sig_of S (moved I p))]"
      using a False by (auto simp: add_placement_def moved_def damage_of_def Let_def update_new [OF new])
    show ?thesis using Cons.IH [OF f] Cons.prems(2) by (simp add: k1 d)
  qed
qed

lemma precompute_result:
  assumes k': "k' = precomputeKittyState S rows C I k"
    and ps: "ps = (if ks_graphics S = None then [] else direct I (ks_placements S))" and ids: "distinct (map imageId ps)"
  shows "k_sigs k' = map (\<lambda>s. (imageId s, sig_of S s)) ps \<and> k_direct k' = ps \<and> k_cache k' = k_cache k \<and>
    k_graphics k' = ks_graphics S \<and>
    k_damaged k' = concat (map (\<lambda>s. damage_of rows C (map_of (k_sigs k) (imageId s)) (sig_of S s)) ps) @
      concat (map (\<lambda>(i, g). if i \<in> imageId ` set ps then [] else damage rows C (sg_row g) (sg_pixelHeight g)) (k_sigs k))"
proof -
  define k0 where "k0 = k\<lparr>k_virtual := [], k_direct := [], k_damaged := [], k_graphics := ks_graphics S\<rparr>"
  obtain k1 Q where q: "(if ks_graphics S = None then (k0, []) else fold (add_placement S rows C I) (ks_placements S) (k0, [])) = (k1, Q)"
    by fastforce
  have r: "Q = map (\<lambda>s. (imageId s, sig_of S s)) ps \<and> k_sigs k1 = k_sigs k0 \<and> k_direct k1 = ps \<and>
    k_damaged k1 = concat (map (\<lambda>s. damage_of rows C (map_of (k_sigs k0) (imageId s)) (sig_of S s)) ps) \<and>
    k_cache k1 = k_cache k0 \<and> k_graphics k1 = k_graphics k0"
  proof (cases "ks_graphics S = None")
    case True
    then show ?thesis using q by (auto simp: ps k0_def)
  next
    case False
    then have "fold (add_placement S rows C I) (ks_placements S) (k0, []) = (k1, Q)" "ps = direct I (ks_placements S)"
      using q ps by auto
    from add_placements [OF this(1)] ids this(2) show ?thesis by (simp add: k0_def)
  qed
  have "map_of Q i = None \<longleftrightarrow> i \<notin> imageId ` set ps" for i using r by (auto simp: map_of_eq_None_iff image_iff)
  moreover have "k' = k1\<lparr>k_damaged := k_damaged k1 @
      concat (map (\<lambda>(o', D). if map_of Q o' = None then damage rows C (sg_row D) (sg_pixelHeight D) else []) (k_sigs k1)), k_sigs := Q\<rparr>"
    unfolding k' precomputeKittyState_def Let_def k0_def [symmetric] q by simp
  ultimately show ?thesis using r by (auto simp: k0_def split_def intro!: arg_cong [where f = concat] map_cong)
qed


definition demo_image :: "nat \<Rightarrow> int \<Rightarrow> placement" where
  "demo_image i r = \<lparr>imageId = i, pixelWidth = 10, pixelHeight = 32, gridCols = 2, gridRows = 2, viewportCol = 0,
     viewportRow = r, viewportVisible = True, sourceX = 0, sourceY = 0, sourceWidth = 10, sourceHeight = 20, isVirtual = False\<rparr>"

definition demo_kitty :: "placement list \<Rightarrow> kitty_source" where
  "demo_kitty ps = \<lparr>ks_graphics = Some 1, ks_placements = ps, ks_pixels = (\<lambda>_. None), ks_grapheme = None\<rparr>"

lemmas kitty_eval = precomputeKittyState_def demo_kitty_def demo_image_def new_kitty_def add_placement_def damage_def
  sig_of_def


text \<open>
  An image placed twice is remembered by its last placement only: when the other one is removed, no
  row is damaged, and its picture stays on the canvas.
\<close>

lemma removed_placement_stays:
  "k_damaged (precomputeKittyState (demo_kitty [demo_image 7 5]) 24 16 0
     (precomputeKittyState (demo_kitty [demo_image 7 1, demo_image 7 5]) 24 16 0 new_kitty)) = []"
  by (simp add: kitty_eval Let_def)

section \<open>Placeholders\<close>

lemma decode_length: "decodeKittyImageToCanvas ok A = Inr (Some E) \<Longrightarrow> length E = kp_width A * kp_height A * 4"
  by (auto simp: decodeKittyImageToCanvas_def Let_def filled_def split: if_splits)

lemma expand_rgb_nth: "3 * p + 2 < length bs \<Longrightarrow>
    take 4 (drop (4 * p) (expand_rgb bs)) = [bs ! (3 * p), bs ! (3 * p + 1), bs ! (3 * p + 2), 255]"
proof (induction bs arbitrary: p rule: expand_rgb.induct)
  case (1 r g b bs)
  then show ?case by (cases p) (auto simp: numeral_eq_Suc)
qed auto

text \<open>
  A cell with the diacritics of row \<open>i\<close> and column \<open>j\<close> shows that piece of the image, cut into as many
  pieces as its placement has cells.
\<close>

lemma placeholder_shows_piece:
  assumes k: "k_graphics k = Some h" and get: "ks_grapheme S = Some get" "get y x = Some [b, diacritics ! i, diacritics ! j]"
    and ij: "i < length diacritics" "j < length diacritics"
    and N: "N = fg_r c * 65536 + fg_g c * 256 + fg_b c" and w: "map_of (k_virtual k) N = Some w" "gridCols w \<noteq> 0" "gridRows w \<noteq> 0"
    and t: "ks_pixels S N = Some t" and e: "getOrDecodeKittyImage ok S N k = Inr (k', Some e)"
  shows "renderPlaceholderCell ok S mw mh c x y k = Inr (k', True,
    [(e, (of_nat j * (of_nat (kp_width t) / of_nat (gridCols w)), of_nat i * (of_nat (kp_height t) / of_nat (gridRows w)),
          of_nat (kp_width t) / of_nat (gridCols w), of_nat (kp_height t) / of_nat (gridRows w)),
         (of_nat x * mw, of_nat y * mh, mw, mh))])"
proof -
  have "placeholder_id c [b, diacritics ! i, diacritics ! j] = int N" by (simp add: placeholder_id_def N Let_def)
  then show ?thesis
    using k get w t e kA_nth [OF ij(1)] kA_nth [OF ij(2)] by (simp add: renderPlaceholderCell_def Let_def)
qed

text \<open>
  The fourth byte is shifted in as a signed number: an image whose number has the highest bit set
  is never found.
\<close>

lemma high_image_number_missed:
  assumes "get y x = Some [b, d1, d2, diacritics ! n]" "ks_grapheme S = Some get" "128 \<le> n" "n < 256"
    and c: "fg_r c < 256" "fg_g c < 256" "fg_b c < 256"
  shows "renderPlaceholderCell ok S mw mh c x y k = Inr (k, False, [])"
proof -
  have len: "256 \<le> length diacritics" by (simp add: diacritics_def)
  then have "kA (diacritics ! n) = int n" using assms(4) by (intro kA_nth) simp
  moreover have "n * 16777216 + (fg_r c * 65536 + fg_g c * 256 + fg_b c) < 2 ^ 32" using c assms(4) by simp
  ultimately have "placeholder_id c [b, d1, d2, diacritics ! n] < 0"
    using assms(3) by (simp add: placeholder_id_def Let_def signed32_def)
  then show ?thesis using assms(1,2) by (auto simp: renderPlaceholderCell_def Let_def split: option.splits)
qed

end
