(* ===== verification/Gw_Canvas.thy ===== *)
theory Gw_Canvas
  imports Gw_Kitty Gw_Webgl_View
begin

text \<open>
  The renderer on a 2D canvas (class \<open>jA\<close> of \<open>ghostty-web.js\<close>): fonts and metrics, sizing, the rows
  that a frame repaints, and what is painted for a line, a cell, the cursor and the scrollbar.
  The canvas is kept row by row: for each row of cells the list of things drawn in it since it was
  last cleared. A draw belongs to the row of the cell it is made for.
\<close>

section \<open>What is drawn\<close>

text \<open>
  A filled rectangle (colour, opacity), a horizontal line, a text (colour, opacity, font, position of
  its baseline), an outline that is filled or stroked, an image, and draws clipped to a rectangle.
\<close>

datatype draw =
    Rect string rat rect4
  | Line string rat rat rat
  | Text string rat jstr jstr rat rat
  | Shape string rat outline bool
  | Image image_draw
  | Clipped rect4 "draw list"

section \<open>State\<close>

text \<open>The measures of the letter M in a font, where the browser has them.\<close>

record font_measure =
  fm_width :: rat
  fontBoundingBoxAscent :: "rat option"
  fm_actualAscent :: "rat option"
  fontBoundingBoxDescent :: "rat option"
  fm_actualDescent :: "rat option"

text \<open>
  What the browser answers: measures, the width of a text, the pixel ratio of the window if there
  is one, how a number is printed, and whether a fresh canvas has a 2D context.
\<close>

record canvas_env =
  ce_measure :: "jstr \<Rightarrow> font_measure"
  ce_textWidth :: "jstr \<Rightarrow> jstr \<Rightarrow> rat"
  ce_dpr :: "rat option"
  ce_number :: "rat \<Rightarrow> jstr"
  ce_context :: bool

record font_strings =
  fs_plain :: jstr
  fs_bold :: jstr
  fs_italic :: jstr
  fs_boldItalic :: jstr

text \<open>
  \<open>cr_rows\<close> is the canvas, \<open>cr_bar\<close> the strip of the scrollbar. \<open>cr_overlay\<close> is the overlay for text
  being composed: absent, or what is drawn on it. \<open>cr_requests\<close> counts the calls of
  \<open>onRequestRender\<close>, and \<open>cr_cleared\<close> the frames, each of which clears the dirty flags of the buffer.
\<close>

record canvas_renderer =
  cr_fontSize :: rat
  cr_fontFamily :: jstr
  cr_cursorStyle :: cursor_style
  cr_cursorBlink :: bool
  cr_blinking :: bool
  cr_cursorVisible :: bool
  cr_theme :: css_theme
  cr_transparent :: bool
  cr_fixedDpr :: "rat option"
  cr_dpr :: rat
  cr_scrollbarWidth :: rat
  cr_fonts :: font_strings
  cr_metrics :: gl_metrics
  cr_lastCursor :: "int \<times> int"
  cr_lastViewportY :: rat
  cr_kitty :: kitty_state
  cr_selection :: "coords option"
  cr_hoveredId :: nat
  cr_previousId :: nat
  cr_hoveredRange :: "link_range option"
  cr_previousRange :: "link_range option"
  cr_decorations :: "css_decoration list"
  cr_decorationRows :: "int list"
  cr_scrollback :: int
  cr_viewportY :: int
  cr_canvas :: canvas_size
  cr_rows :: "int \<Rightarrow> draw list"
  cr_bar :: "draw list"
  cr_overlay :: "draw list option"
  cr_requests :: nat
  cr_cleared :: nat

section \<open>Fonts\<close>

definition trim16 :: "jstr \<Rightarrow> jstr" where
  "trim16 s = rev (dropWhile js_space16 (rev (dropWhile js_space16 s)))"

definition quoted_family :: "jstr \<Rightarrow> jstr" where
  "quoted_family I =
     (let Q = trim16 I
      in if (Q \<noteq> [] \<and> (hd Q = 34 \<or> hd Q = 39)) \<or> 32 \<notin> set Q then Q else [34] @ Q @ [34])"

definition buildFontStrings :: "canvas_env \<Rightarrow> rat \<Rightarrow> jstr \<Rightarrow> font_strings" where
  "buildFontStrings e sz family =
     (let A = js_join (js '', '') (map quoted_family (js_split 44 family)); g = ce_number e sz @ js ''px '' @ A
      in \<lparr>fs_plain = g, fs_bold = js ''bold '' @ g, fs_italic = js ''italic '' @ g, fs_boldItalic = js ''bold italic '' @ g\<rparr>)"

definition getFontString :: "bool \<Rightarrow> bool \<Rightarrow> canvas_renderer \<Rightarrow> jstr" where
  "getFontString A g c =
     (if A \<and> g then fs_boldItalic (cr_fonts c) else if A then fs_bold (cr_fonts c)
      else if g then fs_italic (cr_fonts c) else fs_plain (cr_fonts c))"

definition canvas_ratio :: "canvas_env \<Rightarrow> canvas_renderer \<Rightarrow> rat" where
  "canvas_ratio e c = or_else (cr_fixedDpr c) (or_else (ce_dpr e) 1)"

definition measure_canvas_font :: "canvas_env \<Rightarrow> rat \<Rightarrow> font_strings \<Rightarrow> gl_metrics" where
  "measure_canvas_font e sz f =
     (let I = ce_measure e (fs_plain f);
          C = or_else (fontBoundingBoxAscent I) (or_else (fm_actualAscent I) (sz * (8 / 10)));
          E = or_else (fontBoundingBoxDescent I) (or_else (fm_actualDescent I) (sz * (2 / 10)))
      in \<lparr>gm_width = of_int \<lceil>fm_width I\<rceil>, gm_height = of_int \<lceil>C + E\<rceil>, gm_baseline = of_int \<lceil>C\<rceil>\<rparr>)"

definition remeasureFont :: "canvas_env \<Rightarrow> canvas_renderer \<Rightarrow> canvas_renderer" where
  "remeasureFont e c = c\<lparr>cr_metrics := measure_canvas_font e (cr_fontSize c) (cr_fonts c)\<rparr>"

definition setFontSize_canvas :: "canvas_env \<Rightarrow> num_arg \<Rightarrow> canvas_renderer \<Rightarrow> canvas_renderer" where
  "setFontSize_canvas e A c =
     (case A of
        Some x \<Rightarrow>
          if x \<le> 0 then c
          else let f = buildFontStrings e x (cr_fontFamily c)
               in c\<lparr>cr_fontSize := x, cr_fonts := f, cr_metrics := measure_canvas_font e x f\<rparr>
      | None \<Rightarrow> c)"

definition setFontFamily_canvas :: "canvas_env \<Rightarrow> jstr \<Rightarrow> canvas_renderer \<Rightarrow> canvas_renderer" where
  "setFontFamily_canvas e A c =
     (let f = buildFontStrings e (cr_fontSize c) A
      in c\<lparr>cr_fontFamily := A, cr_fonts := f, cr_metrics := measure_canvas_font e (cr_fontSize c) f\<rparr>)"

definition rgbToCSS :: "nat \<Rightarrow> nat \<Rightarrow> nat \<Rightarrow> string" where
  "rgbToCSS A g I = ''rgb('' @ dec A @ '', '' @ dec g @ '', '' @ dec I @ '')''"

section \<open>Cells\<close>

definition isInSelection :: "canvas_renderer \<Rightarrow> int \<Rightarrow> int \<Rightarrow> bool" where
  "isInSelection c A g =
     (case cr_selection c of
        None \<Rightarrow> False
      | Some s \<Rightarrow>
          if startRow s = endRow s then g = startRow s \<and> startCol s \<le> A \<and> A \<le> endCol s
          else if g = startRow s then startCol s \<le> A
          else if g = endRow s then A \<le> endCol s
          else startRow s < g \<and> g < endRow s)"

definition getDecorationAt :: "canvas_renderer \<Rightarrow> int \<Rightarrow> int \<Rightarrow> css_decoration option" where
  "getDecorationAt c A g =
     (let I = g + cr_scrollback c - cr_viewportY c
      in find (\<lambda>d. cd_line d = I \<and> cd_column d \<le> A \<and> A < cd_column d + cd_length d) (rev (cr_decorations c)))"

text \<open>A colour string counts as given if it is not empty.\<close>

definition given :: "string option \<Rightarrow> string option" where
  "given s = (case s of Some x \<Rightarrow> if x = [] then None else Some x | None \<Rightarrow> None)"

definition cell_rect :: "canvas_renderer \<Rightarrow> cell \<Rightarrow> nat \<Rightarrow> nat \<Rightarrow> rect4" where
  "cell_rect c A g I =
     (let m = cr_metrics c
      in (of_nat g * gm_width m, of_nat I * gm_height m, gm_width m * of_nat (cwidth A), gm_height m))"

definition renderCellBackground :: "canvas_renderer \<Rightarrow> cell \<Rightarrow> nat \<Rightarrow> nat \<Rightarrow> draw list" where
  "renderCellBackground c A g I =
     (let r = cell_rect c A g I
      in if isInSelection c (int g) (int I) then [Rect (ct_selectionBackground (cr_theme c)) 1 r]
         else
           (if (if has_attr INVERSE A then fgIsDefault A else bgIsDefault A) then []
            else [Rect (if has_attr INVERSE A then rgbToCSS (fg_r A) (fg_g A) (fg_b A)
                        else rgbToCSS (bg_r A) (bg_g A) (bg_b A)) 1 r]) @
           (case Option.bind (getDecorationAt c (int g) (int I)) (given \<circ> cd_background) of
              Some b \<Rightarrow> [Rect b 1 r]
            | None \<Rightarrow> []))"

definition text_color :: "canvas_renderer \<Rightarrow> cell \<Rightarrow> nat \<Rightarrow> nat \<Rightarrow> string option \<Rightarrow> string" where
  "text_color c A g I Q =
     (case given Q of
        Some q \<Rightarrow> q
      | None \<Rightarrow>
          if isInSelection c (int g) (int I) then ct_selectionForeground (cr_theme c)
          else (case Option.bind (getDecorationAt c (int g) (int I)) (given \<circ> cd_foreground) of
                  Some f \<Rightarrow> f
                | None \<Rightarrow>
                    if (if has_attr INVERSE A then bgIsDefault A else fgIsDefault A) then ct_foreground (cr_theme c)
                    else if has_attr INVERSE A then rgbToCSS (bg_r A) (bg_g A) (bg_b A)
                    else rgbToCSS (fg_r A) (fg_g A) (fg_b A)))"

definition fromCodePoint :: "int \<Rightarrow> jstr result" where
  "fromCodePoint t = (if t < 0 \<or> 1114111 < t then Inl Range_Error else Inr (utf16 (nat t)))"

text \<open>The character itself: drawn by hand, or as a text in the font.\<close>

definition glyph_draws ::
  "canvas_renderer \<Rightarrow> screen_source \<Rightarrow> cell \<Rightarrow> nat \<Rightarrow> nat \<Rightarrow> string \<Rightarrow> draw list result" where
  "glyph_draws c s A g I D =
     (let (x, y, w, h) = cell_rect c A g I; al = (if has_attr FAINT A then 1 / 2 else 1);
          t = (if codepoint A = 0 then 32 else codepoint A); base = y + gm_baseline (cr_metrics c);
          font = getFontString (has_attr BOLD A) (has_attr ITALIC A) c;
          text = (\<lambda>G. [Text D al font G x base])
      in case renderBlockChar t x y w h of
           Some rs \<Rightarrow> Inr (map (\<lambda>(f, r). Rect D (al * f) r) rs)
         | None \<Rightarrow>
             if 9472 \<le> t \<and> t \<le> 9599 then
               (case renderBoxDrawing t x y w h of
                  Some rs \<Rightarrow> Inr (map (Rect D al) rs)
                | None \<Rightarrow> and_then (fromCodePoint t) (\<lambda>G. Inr (text G)))
             else (case renderPowerlineGlyph t x y w h of
                     Some (p, fill) \<Rightarrow> Inr [Shape D al p fill]
                   | None \<Rightarrow>
                       (case (if grapheme_len A > 0 then src_grapheme s else None) of
                          Some f \<Rightarrow> Inr (text (f I g))
                        | None \<Rightarrow> and_then (fromCodePoint t) (\<lambda>G. Inr (text G)))))"

definition LINK_COLOR :: string where "LINK_COLOR = ''#4A90E2''"

definition in_link_range :: "link_range \<Rightarrow> int \<Rightarrow> int \<Rightarrow> bool" where
  "in_link_range G g I =
     (I = startY G \<and> startX G \<le> g \<and> (I < endY G \<or> g \<le> endX G) \<or> startY G < I \<and> I < endY G \<or>
      I = endY G \<and> g \<le> endX G \<and> (startY G < I \<or> startX G \<le> g))"

text \<open>Underlines, strike-through and the underline of a hovered link.\<close>

definition line_draws :: "canvas_renderer \<Rightarrow> cell \<Rightarrow> nat \<Rightarrow> nat \<Rightarrow> string \<Rightarrow> draw list" where
  "line_draws c A g I D =
     (let (x, y, w, h) = cell_rect c A g I; e = y + gm_baseline (cr_metrics c) + 2
      in (if has_attr UNDERLINE A then [Line D x e w] else []) @
         (if has_attr STRIKETHROUGH A then [Line D x (y + h / 2) w] else []) @
         (if hyperlink_id A > 0 \<and> hyperlink_id A = cr_hoveredId c then [Line LINK_COLOR x e w] else []) @
         (case cr_hoveredRange c of
            Some G \<Rightarrow> if in_link_range G (int g) (int I) then [Line LINK_COLOR x e w] else []
          | None \<Rightarrow> []))"

definition PLACEHOLDER :: int where "PLACEHOLDER = 1109742"

definition renderCellText ::
  "canvas_env \<Rightarrow> canvas_renderer \<Rightarrow> screen_source \<Rightarrow> kitty_source \<Rightarrow> cell \<Rightarrow> nat \<Rightarrow> nat \<Rightarrow> string option \<Rightarrow> kitty_state
   \<Rightarrow> (kitty_state \<times> draw list) result" where
  "renderCellText e c s S A g I Q k =
     (let m = cr_metrics c
      in and_then (if codepoint A = PLACEHOLDER then renderPlaceholderCell (ce_context e) S (gm_width m) (gm_height m) A g I k
                   else Inr (k, False, [])) (\<lambda>(k, handled, ds).
           if handled \<or> has_attr INVISIBLE A then Inr (k, map Image ds)
           else let D = text_color c A g I Q
                in and_then (glyph_draws c s A g I D) (\<lambda>gs. Inr (k, gs @ line_draws c A g I D))))"

section \<open>Lines\<close>

fun cell_texts ::
  "canvas_env \<Rightarrow> canvas_renderer \<Rightarrow> screen_source \<Rightarrow> kitty_source \<Rightarrow> cell list \<Rightarrow> nat \<Rightarrow> nat \<Rightarrow> kitty_state
   \<Rightarrow> (kitty_state \<times> draw list) result" where
  "cell_texts e c s S [] g I k = Inr (k, [])"
| "cell_texts e c s S (A # As) g I k =
     and_then (if cwidth A \<noteq> 0 then renderCellText e c s S A g I None k else Inr (k, [])) (\<lambda>(k, d).
       and_then (cell_texts e c s S As (g + 1) I k) (\<lambda>(k, ds). Inr (k, d @ ds)))"

text \<open>What \<open>renderLine\<close> draws after it has cleared the row: background, cells, texts.\<close>

definition line_picture ::
  "canvas_env \<Rightarrow> canvas_renderer \<Rightarrow> screen_source \<Rightarrow> kitty_source \<Rightarrow> cell list \<Rightarrow> nat \<Rightarrow> nat \<Rightarrow> kitty_state
   \<Rightarrow> (kitty_state \<times> draw list) result" where
  "line_picture e c s S A g I k =
     (let m = cr_metrics c;
          bg = (if cr_transparent c then []
                else [Rect (ct_background (cr_theme c)) 1 (0, of_nat g * gm_height m, of_nat I * gm_width m, gm_height m)]);
          cells = concat (map (\<lambda>(x, a). if cwidth a \<noteq> 0 then renderCellBackground c a x g else []) (enumerate 0 A))
      in and_then (cell_texts e c s S A 0 g k) (\<lambda>(k, ts). Inr (k, bg @ cells @ ts)))"

definition renderLine ::
  "canvas_env \<Rightarrow> screen_source \<Rightarrow> kitty_source \<Rightarrow> cell list \<Rightarrow> nat \<Rightarrow> nat \<Rightarrow> canvas_renderer \<Rightarrow> canvas_renderer result" where
  "renderLine e s S A g I c =
     and_then (line_picture e c s S A g I (cr_kitty c)) (\<lambda>(k, ds).
       Inr (c\<lparr>cr_kitty := k, cr_rows := (cr_rows c)(int g := ds)\<rparr>))"

section \<open>The canvas\<close>

text \<open>Setting the size of the overlay clears it.\<close>

definition resizeOverlay :: "canvas_renderer \<Rightarrow> canvas_renderer" where
  "resizeOverlay c = c\<lparr>cr_overlay := map_option (\<lambda>_. []) (cr_overlay c)\<rparr>"

text \<open>
  \<open>resize\<close>. The size of a canvas in device pixels is an integer: a fraction is cut off. Setting it
  clears the canvas.
\<close>

definition resize_canvas :: "num_arg \<Rightarrow> num_arg \<Rightarrow> canvas_renderer \<Rightarrow> canvas_renderer" where
  "resize_canvas A g c =
     (case (A, g) of
        (Some x, Some y) \<Rightarrow>
          if x < 1 \<or> y < 1 then c
          else
            let m = cr_metrics c; I = of_int \<lfloor>x\<rfloor> * gm_width m; Q = of_int \<lfloor>y\<rfloor> * gm_height m;
                bg = (if cr_transparent c then [] else [Rect (ct_background (cr_theme c)) 1 (0, 0, I, Q)])
            in resizeOverlay (c\<lparr>cr_canvas := \<lparr>css_width = I, css_height = Q,
                 px_width = \<lfloor>I * cr_dpr c\<rfloor>, px_height = \<lfloor>Q * cr_dpr c\<rfloor>\<rparr>,
                 cr_rows := (\<lambda>_. bg), cr_bar := []\<rparr>)
      | _ \<Rightarrow> c)"

definition clear_canvas :: "canvas_renderer \<Rightarrow> canvas_renderer" where
  "clear_canvas c =
     (let q = cr_canvas c;
          bg = (if cr_transparent c then []
                else [Rect (ct_background (cr_theme c)) 1 (0, 0, of_int (px_width q), of_int (px_height q))])
      in c\<lparr>cr_rows := (\<lambda>_. bg), cr_bar := []\<rparr>)"

section \<open>Cursor, scrollbar and images\<close>

text \<open>\<open>renderCursor\<close>: what it draws; a cell under a block cursor is drawn again in the accent colour.\<close>

definition cursor_picture ::
  "canvas_env \<Rightarrow> canvas_renderer \<Rightarrow> screen_source \<Rightarrow> kitty_source \<Rightarrow> nat \<Rightarrow> nat \<Rightarrow> cursor_style \<Rightarrow> kitty_state
   \<Rightarrow> (kitty_state \<times> draw list) result" where
  "cursor_picture e c s S A g I k =
     (let m = cr_metrics c; x = of_nat A * gm_width m; y = of_nat g * gm_height m; col = ct_cursor (cr_theme c)
      in case I of
           Block \<Rightarrow>
             let r = (x, y, gm_width m, gm_height m)
             in (case Option.bind (src_line s g) (\<lambda>l. cell_of l A) of
                   Some a \<Rightarrow>
                     and_then (renderCellText e c s S a A g (Some (ct_cursorAccent (cr_theme c))) k) (\<lambda>(k, ds).
                       Inr (k, [Rect col 1 r, Clipped r ds]))
                 | None \<Rightarrow> Inr (k, [Rect col 1 r]))
         | Underline \<Rightarrow>
             let t = max 2 (of_int \<lfloor>gm_height m * (15 / 100)\<rfloor>)
             in Inr (k, [Rect col 1 (x, y + gm_height m - t, gm_width m, t)])
         | Bar \<Rightarrow>
             let t = max 2 (of_int \<lfloor>gm_width m * (15 / 100)\<rfloor>)
             in Inr (k, [Rect col 1 (x, y, t, gm_height m)]))"

definition renderCursor ::
  "canvas_env \<Rightarrow> screen_source \<Rightarrow> kitty_source \<Rightarrow> nat \<Rightarrow> nat \<Rightarrow> cursor_style \<Rightarrow> canvas_renderer \<Rightarrow> canvas_renderer result" where
  "renderCursor e s S A g I c =
     and_then (cursor_picture e c s S A g I (cr_kitty c)) (\<lambda>(k, ds).
       Inr (c\<lparr>cr_kitty := k, cr_rows := (cr_rows c)(int g := cr_rows c (int g) @ ds)\<rparr>))"

text \<open>
  \<open>renderScrollbar\<close>: the strip is cleared in any case. The colour of the bar is grey with the given
  opacity.
\<close>

definition GREY :: string where "GREY = ''rgb(128, 128, 128)''"

definition renderScrollbar :: "rat \<Rightarrow> nat \<Rightarrow> nat \<Rightarrow> rat \<Rightarrow> canvas_renderer \<Rightarrow> canvas_renderer" where
  "renderScrollbar A g I Q c =
     (let E = of_int (px_height (cr_canvas c)) / cr_dpr c; i = of_int (px_width (cr_canvas c)) / cr_dpr c;
          w = cr_scrollbarWidth c; D = i - w - 4; s = 4; u = E - s * 2;
          bg = (if cr_transparent c then [] else [Rect (ct_background (cr_theme c)) 1 (D - 2, 0, w + 6, E)])
      in if w \<le> 0 \<or> Q \<le> 0 \<or> g = 0 then c\<lparr>cr_bar := bg\<rparr>
         else
           let e = max 20 (of_nat I / of_nat (g + I) * u); a = A / of_nat g; G = s + (u - e) * (1 - a);
               F = (if A > 0 then 5 / 10 else 3 / 10)
           in c\<lparr>cr_bar := bg @ [Rect GREY (1 / 10 * Q) (D, s, w, u), Rect GREY (F * Q) (D, G, w, e)]\<rparr>)"

text \<open>An image is drawn in every row it touches.\<close>

definition paint_image :: "rat \<Rightarrow> image_draw \<Rightarrow> (int \<Rightarrow> draw list) \<Rightarrow> int \<Rightarrow> draw list" where
  "paint_image mh d rows h =
     (let (x, y, w, ht) = snd (snd d)
      in if y < of_int (h + 1) * mh \<and> of_int h * mh < y + ht then rows h @ [Image d] else rows h)"

definition paint_images ::
  "canvas_env \<Rightarrow> kitty_source \<Rightarrow> canvas_renderer \<Rightarrow> canvas_renderer result" where
  "paint_images e S c =
     (let m = cr_metrics c
      in and_then (renderKittyImages (ce_context e) S (gm_width m) (gm_height m) (cr_kitty c)) (\<lambda>(k, ds).
           Inr (c\<lparr>cr_kitty := k, cr_rows := fold (paint_image (gm_height m)) ds (cr_rows c)\<rparr>)))"

section \<open>A frame\<close>

text \<open>
  The parts of the selection manager a frame reads: the coordinates of the selection if there is
  one, and the rows whose selection has changed, which the frame takes.
\<close>

record selection_view =
  sv_coords :: "coords option"
  sv_dirty :: "int list"

text \<open>The line that the loops show in row \<open>h\<close> with the viewport at \<open>I\<close>.\<close>

definition frame_line :: "screen_source \<Rightarrow> scroll_source option \<Rightarrow> rat \<Rightarrow> nat \<Rightarrow> cell list option" where
  "frame_line s Q I h =
     (let o' = (case Q of Some q \<Rightarrow> sb_length q | None \<Rightarrow> 0);
          screen = (\<lambda>n. if n < 0 then None else src_line s (nat n))
      in if I > 0 then
           (case Q of
              Some q \<Rightarrow>
                if of_nat h < I
                then (let n = int o' - \<lfloor>I\<rfloor> + int h in if n < 0 then None else sb_line q (nat n))
                else screen (int h - \<lfloor>I\<rfloor>)
            | None \<Rightarrow> screen (int h - \<lfloor>I\<rfloor>))
         else src_line s h)"

text \<open>The start of \<open>render\<close> up to the decision whether everything is drawn again.\<close>

definition begin_frame ::
  "canvas_env \<Rightarrow> screen_source \<Rightarrow> kitty_source \<Rightarrow> bool \<Rightarrow> rat \<Rightarrow> canvas_renderer \<Rightarrow> canvas_renderer \<times> bool" where
  "begin_frame e s S g I c =
     (let c = c\<lparr>cr_kitty := precomputeKittyState S (int (src_rows s)) (gm_height (cr_metrics c)) \<lfloor>I\<rfloor> (cr_kitty c)\<rparr>;
          D = canvas_ratio e c; g = (g \<or> D \<noteq> cr_dpr c); c = c\<lparr>cr_dpr := D\<rparr>; m = cr_metrics c;
          other = (of_int (px_width (cr_canvas c)) \<noteq> of_nat (src_cols s) * gm_width m * D \<or>
                   of_int (px_height (cr_canvas c)) \<noteq> of_nat (src_rows s) * gm_height m * D);
          c = (if other then resize_canvas (Some (of_nat (src_cols s))) (Some (of_nat (src_rows s))) c else c);
          g = (g \<or> other \<or> I \<noteq> cr_lastViewportY c)
      in (c\<lparr>cr_lastViewportY := I\<rparr>, g))"

text \<open>A row of the screen drawn anew because the cursor is or was in it.\<close>

definition redraw_row ::
  "canvas_env \<Rightarrow> screen_source \<Rightarrow> kitty_source \<Rightarrow> bool \<Rightarrow> int \<Rightarrow> canvas_renderer \<Rightarrow> canvas_renderer result" where
  "redraw_row e s S g y c =
     (if g \<or> y < 0 \<or> src_dirty s (nat y) then Inr c
      else case src_line s (nat y) of
             None \<Rightarrow> Inr c
           | Some l \<Rightarrow> renderLine e s S l (nat y) (src_cols s) c)"

definition cursor_rows ::
  "canvas_env \<Rightarrow> screen_source \<Rightarrow> kitty_source \<Rightarrow> bool \<Rightarrow> canvas_renderer \<Rightarrow> canvas_renderer result" where
  "cursor_rows e s S g c =
     (let w = ((cur_x s, cur_y s) \<noteq> cr_lastCursor c)
      in if w \<or> cr_cursorBlink c
         then and_then (redraw_row e s S g (cur_y s) c) (\<lambda>c.
                if w \<and> snd (cr_lastCursor c) \<noteq> cur_y s then redraw_row e s S g (snd (cr_lastCursor c)) c else Inr c)
         else Inr c)"

definition selection_rows :: "selection_view \<Rightarrow> int list" where
  "selection_rows v = (case sv_coords v of Some h \<Rightarrow> [startRow h..endRow h] | None \<Rightarrow> []) @ sv_dirty v"

definition range_rows :: "link_range option \<Rightarrow> int list" where
  "range_rows r = (case r of Some r \<Rightarrow> [startY r..endY r] | None \<Rightarrow> [])"

text \<open>The rows where the hovered link has changed.\<close>

definition link_rows :: "screen_source \<Rightarrow> scroll_source option \<Rightarrow> rat \<Rightarrow> canvas_renderer \<Rightarrow> int list" where
  "link_rows s Q I c =
     (if cr_hoveredId c \<noteq> cr_previousId c
      then map int (filter (\<lambda>h. case frame_line s Q I h of
               Some l \<Rightarrow> (\<exists>n\<in>set l. hyperlink_id n = cr_hoveredId c \<or> hyperlink_id n = cr_previousId c)
             | None \<Rightarrow> False) [0..<src_rows s])
      else []) @
     (if cr_hoveredRange c \<noteq> cr_previousRange c then range_rows (cr_previousRange c) @ range_rows (cr_hoveredRange c) else [])"

definition decoration_rows :: "nat \<Rightarrow> canvas_renderer \<Rightarrow> int list" where
  "decoration_rows rows c =
     filter (\<lambda>r. 0 \<le> r \<and> r < int rows)
       (map (\<lambda>d. cd_line d - cr_scrollback c + cr_viewportY c) (filter (\<lambda>d. cd_length d > 0) (cr_decorations c)))"

definition rows_to_paint :: "screen_source \<Rightarrow> bool \<Rightarrow> rat \<Rightarrow> int list \<Rightarrow> nat list" where
  "rows_to_paint s g I hit =
     (let touched = (\<lambda>h. I > 0 \<or> g \<or> src_dirty s h \<or> int h \<in> set hit)
      in filter (\<lambda>h. touched h \<or> (h + 1 < src_rows s \<and> touched (h + 1)) \<or> (h > 0 \<and> touched (h - 1))) [0..<src_rows s])"

fun paint_rows ::
  "canvas_env \<Rightarrow> screen_source \<Rightarrow> kitty_source \<Rightarrow> scroll_source option \<Rightarrow> rat \<Rightarrow> nat list \<Rightarrow> canvas_renderer
   \<Rightarrow> canvas_renderer result" where
  "paint_rows e s S Q I [] c = Inr c"
| "paint_rows e s S Q I (h # hs) c =
     and_then (case frame_line s Q I h of Some l \<Rightarrow> renderLine e s S l h (src_cols s) c | None \<Rightarrow> Inr c)
       (paint_rows e s S Q I hs)"

text \<open>\<open>render\<close>; \<open>full\<close> is what \<open>needsFullRedraw\<close> of the buffer answers.\<close>

definition render_canvas ::
  "canvas_env \<Rightarrow> screen_source \<Rightarrow> kitty_source \<Rightarrow> bool \<Rightarrow> bool \<Rightarrow> rat \<Rightarrow> scroll_source option \<Rightarrow> rat \<Rightarrow> selection_view
   \<Rightarrow> canvas_renderer \<Rightarrow> canvas_renderer result" where
  "render_canvas e s S full force I Q opac v c =
     (let o' = (case Q of Some q \<Rightarrow> sb_length q | None \<Rightarrow> 0); (c, g) = begin_frame e s S (force \<or> full) I c
      in and_then (cursor_rows e s S g c) (\<lambda>c.
         let c = c\<lparr>cr_selection := sv_coords v\<rparr>;
             a = link_rows s Q I c;
             c = c\<lparr>cr_previousId := cr_hoveredId c, cr_previousRange := cr_hoveredRange c,
                   cr_scrollback := int o', cr_viewportY := \<lfloor>I\<rfloor>\<rparr>;
             now = decoration_rows (src_rows s) c;
             hit = selection_rows v @ a @ cr_decorationRows c @ now @ k_damaged (cr_kitty c);
             c = c\<lparr>cr_decorationRows := now\<rparr>; H = rows_to_paint s g I hit
         in and_then (paint_rows e s S Q I H c) (\<lambda>c.
            and_then (if k_direct (cr_kitty c) \<noteq> [] \<and> H \<noteq> [] then paint_images e S c else Inr c) (\<lambda>c.
            and_then (if I = 0 \<and> cur_visible s \<and> cr_cursorVisible c
                      then renderCursor e s S (nat (cur_x s)) (nat (cur_y s)) (or_else (cur_style s) (cr_cursorStyle c)) c
                      else Inr c) (\<lambda>c.
            let c = (if Q \<noteq> None \<and> opac > 0 \<and> cr_scrollbarWidth c > 0
                     then renderScrollbar I o' (src_rows s) opac c else c)
            in Inr (c\<lparr>cr_lastCursor := (cur_x s, cur_y s), cr_cleared := cr_cleared c + 1\<rparr>))))))"

section \<open>Settings\<close>

definition set_canvas_theme :: "css_patch \<Rightarrow> canvas_renderer \<Rightarrow> canvas_renderer" where
  "set_canvas_theme A c = c\<lparr>cr_theme := spread_theme default_css A\<rparr>"

definition setAllowTransparency_canvas :: "bool \<Rightarrow> canvas_renderer \<Rightarrow> canvas_renderer" where
  "setAllowTransparency_canvas A c = c\<lparr>cr_transparent := A\<rparr>"

definition setDecorations_canvas :: "css_decoration list \<Rightarrow> canvas_renderer \<Rightarrow> canvas_renderer" where
  "setDecorations_canvas ds c = c\<lparr>cr_decorations := ds\<rparr>"

definition clearDecorations_canvas :: "canvas_renderer \<Rightarrow> canvas_renderer" where
  "clearDecorations_canvas c = c\<lparr>cr_decorations := []\<rparr>"

definition setCursorStyle_canvas :: "cursor_style \<Rightarrow> canvas_renderer \<Rightarrow> canvas_renderer" where
  "setCursorStyle_canvas A c = c\<lparr>cr_cursorStyle := A\<rparr>"

text \<open>\<open>win\<close> says that the document has a window, which runs the timer.\<close>

definition start_canvas_blink :: "bool \<Rightarrow> canvas_renderer \<Rightarrow> canvas_renderer" where
  "start_canvas_blink win c = (if win then c\<lparr>cr_blinking := True\<rparr> else c)"

definition stop_canvas_blink :: "canvas_renderer \<Rightarrow> canvas_renderer" where
  "stop_canvas_blink c = c\<lparr>cr_blinking := False, cr_cursorVisible := True\<rparr>"

definition setCursorBlink_canvas :: "bool \<Rightarrow> bool \<Rightarrow> canvas_renderer \<Rightarrow> canvas_renderer" where
  "setCursorBlink_canvas win A c =
     (if A \<and> \<not> cr_cursorBlink c then start_canvas_blink win (c\<lparr>cr_cursorBlink := True\<rparr>)
      else if \<not> A \<and> cr_cursorBlink c then stop_canvas_blink (c\<lparr>cr_cursorBlink := False\<rparr>)
      else c)"

definition canvas_blink_tick :: "canvas_renderer \<Rightarrow> canvas_renderer" where
  "canvas_blink_tick c = (if cr_blinking c
     then c\<lparr>cr_cursorVisible := \<not> cr_cursorVisible c, cr_requests := cr_requests c + 1\<rparr> else c)"

definition setScrollbarWidth_canvas :: "num_arg \<Rightarrow> canvas_renderer \<Rightarrow> canvas_renderer" where
  "setScrollbarWidth_canvas A c = c\<lparr>cr_scrollbarWidth := (case A of Some x \<Rightarrow> max 0 x | None \<Rightarrow> 0)\<rparr>"

definition setHoveredHyperlinkId_canvas :: "num_arg \<Rightarrow> canvas_renderer \<Rightarrow> canvas_renderer" where
  "setHoveredHyperlinkId_canvas A c =
     (let n = (case A of Some x \<Rightarrow> nat (max 0 \<lfloor>x\<rfloor>) | None \<Rightarrow> 0)
      in if cr_hoveredId c \<noteq> n then c\<lparr>cr_hoveredId := n, cr_requests := cr_requests c + 1\<rparr> else c)"

text \<open>
  \<open>BB\<close> (the same as \<open>dB\<close>) makes a new object, which is never the old one: only clearing an empty range
  asks for no frame.
\<close>

definition setHoveredLinkRange_canvas ::
  "(num_arg \<times> num_arg \<times> num_arg \<times> num_arg) option \<Rightarrow> canvas_renderer \<Rightarrow> canvas_renderer" where
  "setHoveredLinkRange_canvas A c =
     (let g = link_range_of A
      in if g = None \<and> cr_hoveredRange c = None then c
         else c\<lparr>cr_hoveredRange := g, cr_requests := cr_requests c + 1\<rparr>)"

text \<open>
  The overlay. \<open>same\<close> says that it is attached to this element already, \<open>ctx\<close> that it has a 2D context.
\<close>

definition attachOverlayTo_canvas :: "bool \<Rightarrow> bool \<Rightarrow> canvas_renderer \<Rightarrow> canvas_renderer result" where
  "attachOverlayTo_canvas same ctx c =
     (if cr_overlay c \<noteq> None \<and> same then Inr c
      else if \<not> ctx then Inl (Js_Error ''Failed to get overlay 2D context'')
      else Inr (resizeOverlay (c\<lparr>cr_overlay := Some []\<rparr>)))"

definition clearPreedit_canvas :: "canvas_renderer \<Rightarrow> canvas_renderer" where
  "clearPreedit_canvas c = c\<lparr>cr_overlay := map_option (\<lambda>_. []) (cr_overlay c)\<rparr>"

definition drawPreedit_canvas :: "canvas_env \<Rightarrow> jstr \<Rightarrow> rat \<Rightarrow> rat \<Rightarrow> canvas_renderer \<Rightarrow> canvas_renderer" where
  "drawPreedit_canvas e A g I c =
     (if cr_overlay c = None then c
      else if A = [] then c\<lparr>cr_overlay := Some []\<rparr>
      else
        let C = cr_metrics c; x = g * gm_width C; y = I * gm_height C; col = ct_foreground (cr_theme c);
            font = ce_number e (cr_fontSize c) @ js ''px '' @ cr_fontFamily c
        in c\<lparr>cr_overlay := Some [Text col 1 font A x y, Rect col 1 (x, y + gm_height C - 2, ce_textWidth e font A, 1)]\<rparr>)"

definition dispose_canvas :: "canvas_renderer \<Rightarrow> canvas_renderer" where
  "dispose_canvas c = (stop_canvas_blink c)\<lparr>cr_overlay := None\<rparr>"

text \<open>The constructor; \<open>ctx\<close> says that the canvas has a 2D context.\<close>

definition new_canvas_renderer ::
  "canvas_env \<Rightarrow> bool \<Rightarrow> canvas_size \<Rightarrow> rat option \<Rightarrow> jstr option \<Rightarrow> cursor_style option \<Rightarrow> bool \<Rightarrow> css_patch \<Rightarrow> bool
   \<Rightarrow> rat option \<Rightarrow> rat option \<Rightarrow> bool \<Rightarrow> canvas_renderer result" where
  "new_canvas_renderer e ctx q sz family style blink patch transparent dpr sw win =
     (if \<not> ctx then Inl (Js_Error ''Failed to get 2D rendering context'')
      else
        let size' = or_else sz 15; fam = or_else family (js ''monospace''); f = buildFontStrings e size' fam;
            c = \<lparr>cr_fontSize = size', cr_fontFamily = fam, cr_cursorStyle = or_else style Block, cr_cursorBlink = blink,
              cr_blinking = False, cr_cursorVisible = True, cr_theme = spread_theme default_css patch,
              cr_transparent = transparent, cr_fixedDpr = dpr, cr_dpr = or_else dpr (or_else (ce_dpr e) 1),
              cr_scrollbarWidth = or_else sw 8, cr_fonts = f, cr_metrics = measure_canvas_font e size' f,
              cr_lastCursor = (0, 0), cr_lastViewportY = 0, cr_kitty = new_kitty, cr_selection = None,
              cr_hoveredId = 0, cr_previousId = 0, cr_hoveredRange = None, cr_previousRange = None,
              cr_decorations = [], cr_decorationRows = [], cr_scrollback = 0, cr_viewportY = 0, cr_canvas = q,
              cr_rows = (\<lambda>_. []), cr_bar = [], cr_overlay = None, cr_requests = 0, cr_cleared = 0\<rparr>
        in Inr (if blink then start_canvas_blink win c else c))"

end
