(* ===== verification/Gw_Canvas_Props.thy ===== *)
theory Gw_Canvas_Props
  imports Gw_Canvas Gw_Selection_Props
begin

text \<open>
  Frames of the canvas renderer: repainting only the rows that changed leaves the canvas as if every
  row had been painted. The pictures below are for buffers without kitty graphics.
\<close>

section \<open>Pictures\<close>

definition cell_valid :: "cell \<Rightarrow> bool" where
  "cell_valid A \<longleftrightarrow> 0 \<le> codepoint A \<and> codepoint A \<le> 1114111"

definition glyph_of :: "canvas_renderer \<Rightarrow> screen_source \<Rightarrow> cell \<Rightarrow> nat \<Rightarrow> nat \<Rightarrow> string \<Rightarrow> draw list" where
  "glyph_of c s A g I D = (case glyph_draws c s A g I D of Inr ds \<Rightarrow> ds | Inl _ \<Rightarrow> [])"

definition text_picture :: "canvas_renderer \<Rightarrow> screen_source \<Rightarrow> cell \<Rightarrow> nat \<Rightarrow> nat \<Rightarrow> string option \<Rightarrow> draw list" where
  "text_picture c s A g I Q =
     (if has_attr INVISIBLE A then []
      else let D = text_color c A g I Q in glyph_of c s A g I D @ line_draws c A g I D)"

definition row_picture :: "canvas_renderer \<Rightarrow> screen_source \<Rightarrow> cell list \<Rightarrow> nat \<Rightarrow> nat \<Rightarrow> draw list" where
  "row_picture c s A g I =
     (let m = cr_metrics c
      in (if cr_transparent c then []
          else [Rect (ct_background (cr_theme c)) 1 (0, of_nat g * gm_height m, of_nat I * gm_width m, gm_height m)]) @
         concat (map (\<lambda>(x, a). if cwidth a \<noteq> 0 then renderCellBackground c a x g else []) (enumerate 0 A)) @
         concat (map (\<lambda>(x, a). if cwidth a \<noteq> 0 then text_picture c s a x g None else []) (enumerate 0 A)))"

definition cursor_draws :: "canvas_renderer \<Rightarrow> screen_source \<Rightarrow> draw list" where
  "cursor_draws c s =
     (let m = cr_metrics c; x = of_int (cur_x s) * gm_width m; y = of_int (cur_y s) * gm_height m; col = ct_cursor (cr_theme c)
      in case or_else (cur_style s) (cr_cursorStyle c) of
           Block \<Rightarrow>
             let r = (x, y, gm_width m, gm_height m)
             in [Rect col 1 r] @ (case Option.bind (src_line s (nat (cur_y s))) (\<lambda>l. cell_of l (nat (cur_x s))) of
                  Some a \<Rightarrow> [Clipped r (text_picture c s a (nat (cur_x s)) (nat (cur_y s)) (Some (ct_cursorAccent (cr_theme c))))]
                | None \<Rightarrow> [])
         | Underline \<Rightarrow>
             let t = max 2 (of_int \<lfloor>gm_height m * (15 / 100)\<rfloor>) in [Rect col 1 (x, y + gm_height m - t, gm_width m, t)]
         | Bar \<Rightarrow>
             let t = max 2 (of_int \<lfloor>gm_width m * (15 / 100)\<rfloor>) in [Rect col 1 (x, y, t, gm_height m)])"

lemma no_placeholder [simp]: "k_graphics k = None \<Longrightarrow> renderPlaceholderCell ok S mw mh A g I k = Inr (k, False, [])"
  by (simp add: renderPlaceholderCell_def)

lemma glyph_draws_valid: "cell_valid A \<Longrightarrow> glyph_draws c s A g I D = Inr (glyph_of c s A g I D)"
  by (auto simp: glyph_of_def glyph_draws_def fromCodePoint_def cell_valid_def Let_def split: option.splits prod.splits)

lemma renderCellText_plain:
  assumes "k_graphics k = None" "cell_valid A"
  shows "renderCellText e c s S A g I Q k = Inr (k, text_picture c s A g I Q)"
  using assms by (simp add: renderCellText_def text_picture_def glyph_draws_valid Let_def)

lemma cell_texts_plain:
  assumes "k_graphics k = None" "list_all cell_valid As"
  shows "cell_texts e c s S As g I k =
    Inr (k, concat (map (\<lambda>(x, a). if cwidth a \<noteq> 0 then text_picture c s a x I None else []) (enumerate g As)))"
  using assms(2) by (induction As arbitrary: g) (simp_all add: renderCellText_plain [OF assms(1)])

lemma renderLine_plain:
  assumes "k_graphics (cr_kitty c) = None" "list_all cell_valid A"
  shows "renderLine e s S A g I c = Inr (c\<lparr>cr_rows := (cr_rows c)(int g := row_picture c s A g I)\<rparr>)"
  using assms by (simp add: renderLine_def line_picture_def cell_texts_plain row_picture_def Let_def)

lemma renderCursor_plain:
  assumes "k_graphics (cr_kitty c) = None" "0 \<le> cur_x s" "0 \<le> cur_y s"
    and valid: "\<And>l. src_line s (nat (cur_y s)) = Some l \<Longrightarrow> list_all cell_valid l"
  shows "renderCursor e s S (nat (cur_x s)) (nat (cur_y s)) (or_else (cur_style s) (cr_cursorStyle c)) c =
    Inr (c\<lparr>cr_rows := (cr_rows c)(cur_y s := cr_rows c (cur_y s) @ cursor_draws c s)\<rparr>)"
proof -
  have v: "cell_valid a" if "Option.bind (src_line s (nat (cur_y s))) (\<lambda>l. cell_of l (nat (cur_x s))) = Some a" for a
    using that valid by (auto simp: bind_eq_Some_conv cell_of_def list_all_iff split: if_splits)
  show ?thesis
    using assms(1-3) v
    by (auto simp: renderCursor_def cursor_picture_def cursor_draws_def Let_def renderCellText_plain
        split: cursor_style.splits option.splits)
qed

section \<open>What a row depends on\<close>

text \<open>Two renderers that paint the line \<open>l\<close> in row \<open>h\<close> alike.\<close>

definition same_look :: "canvas_renderer \<Rightarrow> canvas_renderer \<Rightarrow> int \<Rightarrow> cell list \<Rightarrow> bool" where
  "same_look c d h l \<longleftrightarrow>
     cr_metrics c = cr_metrics d \<and> cr_theme c = cr_theme d \<and> cr_transparent c = cr_transparent d \<and> cr_fonts c = cr_fonts d \<and>
     (\<forall>x. isInSelection c x h = isInSelection d x h \<and> getDecorationAt c x h = getDecorationAt d x h \<and>
        (\<exists>G. cr_hoveredRange c = Some G \<and> in_link_range G x h) = (\<exists>G. cr_hoveredRange d = Some G \<and> in_link_range G x h)) \<and>
     (\<forall>a\<in>set l. (hyperlink_id a > 0 \<and> hyperlink_id a = cr_hoveredId c) = (hyperlink_id a > 0 \<and> hyperlink_id a = cr_hoveredId d))"

text \<open>Two buffers that decode the graphemes of a row alike.\<close>

definition same_graphemes :: "screen_source \<Rightarrow> screen_source \<Rightarrow> nat \<Rightarrow> bool" where
  "same_graphemes s t h \<longleftrightarrow> map_option (\<lambda>f. f h) (src_grapheme s) = map_option (\<lambda>f. f h) (src_grapheme t)"

lemma line_draws_range:
  "(case cr_hoveredRange c of Some G \<Rightarrow> if in_link_range G x y then A else [] | None \<Rightarrow> []) =
   (if \<exists>G. cr_hoveredRange c = Some G \<and> in_link_range G x y then A else [])"
  by (auto split: option.splits)

lemma text_picture_same:
  assumes l: "same_look c d (int h) l" and g: "same_graphemes s t h" and a: "a \<in> set l"
  shows "text_picture c s a x h Q = text_picture d t a x h Q"
proof -
  have m: "cr_metrics c = cr_metrics d" "cr_theme c = cr_theme d" "cr_fonts c = cr_fonts d"
    using l by (simp_all add: same_look_def)
  have r: "cell_rect c a x h = cell_rect d a x h" by (simp add: cell_rect_def m)
  have "isInSelection c (int x) (int h) = isInSelection d (int x) (int h)"
    "getDecorationAt c (int x) (int h) = getDecorationAt d (int x) (int h)" using l by (simp_all add: same_look_def)
  then have D: "text_color c a x h Q = text_color d a x h Q" by (simp only: text_color_def m(2))
  have G: "glyph_draws c s a x h D = glyph_draws d t a x h D" for D
  proof -
    note defs = glyph_draws_def r m(1) getFontString_def m(3)
    consider (none) "src_grapheme s = None" "src_grapheme t = None"
      | (some) f f' where "src_grapheme s = Some f" "src_grapheme t = Some f'" "f h = f' h"
      using g unfolding same_graphemes_def by (cases "src_grapheme s"; cases "src_grapheme t") auto
    then show ?thesis
    proof cases
      case none
      then show ?thesis by (simp only: defs)
    next
      case some
      then show ?thesis by (cases "grapheme_len a > 0") (simp_all only: defs if_True if_False option.case)
    qed
  qed
  have "line_draws c a x h D = line_draws d a x h D" for D
    using l a unfolding line_draws_def r m(1) line_draws_range same_look_def Let_def by simp
  then show ?thesis by (simp add: text_picture_def glyph_of_def D G)
qed

lemma row_picture_same:
  assumes l: "same_look c d (int h) l" and g: "same_graphemes s t h"
  shows "row_picture c s l h n = row_picture d t l h n"
proof -
  have m: "cr_metrics c = cr_metrics d" "cr_theme c = cr_theme d" "cr_transparent c = cr_transparent d"
    using l by (simp_all add: same_look_def)
  have "renderCellBackground c a x h = renderCellBackground d a x h" for a x
  proof -
    have "isInSelection c (int x) (int h) = isInSelection d (int x) (int h)"
      "getDecorationAt c (int x) (int h) = getDecorationAt d (int x) (int h)" using l by (simp_all add: same_look_def)
    then show ?thesis by (simp only: renderCellBackground_def cell_rect_def m)
  qed
  moreover have "text_picture c s a x h None = text_picture d t a x h None" if "(x, a) \<in> set (enumerate 0 l)" for x a
    using that by (intro text_picture_same [OF assms]) (auto simp: in_set_enumerate_eq)
  ultimately show ?thesis
    unfolding row_picture_def Let_def m by (intro arg_cong2 [where f = "(@)"] refl arg_cong [where f = concat] map_cong) auto
qed

lemma cursor_draws_same:
  assumes l: "\<And>l. src_line s (nat (cur_y s)) = Some l \<Longrightarrow> same_look c d (cur_y s) l" "cr_theme c = cr_theme d" "cr_metrics c = cr_metrics d"
    and g: "same_graphemes s t (nat (cur_y s))"
    and st: "src_line t (nat (cur_y s)) = src_line s (nat (cur_y s))" "cur_x t = cur_x s" "cur_y t = cur_y s" "0 \<le> cur_y s"
      "or_else (cur_style t) (cr_cursorStyle d) = or_else (cur_style s) (cr_cursorStyle c)"
  shows "cursor_draws c s = cursor_draws d t"
proof -
  have "text_picture c s a x (nat (cur_y s)) Q = text_picture d t a x (nat (cur_y s)) Q"
    if a: "Option.bind (src_line s (nat (cur_y s))) (\<lambda>l. cell_of l x) = Some a" for a x Q
  proof -
    obtain l where "src_line s (nat (cur_y s)) = Some l" "a \<in> set l"
      using a by (auto simp: bind_eq_Some_conv cell_of_def split: if_splits)
    then show ?thesis using text_picture_same [OF _ g] l(1) st(4) by simp
  qed
  then have e: "(case Option.bind (src_line s (nat (cur_y s))) (\<lambda>l. cell_of l (nat (cur_x s))) of
        Some a \<Rightarrow> [Clipped r (text_picture c s a (nat (cur_x s)) (nat (cur_y s)) Q)] | None \<Rightarrow> []) =
      (case Option.bind (src_line s (nat (cur_y s))) (\<lambda>l. cell_of l (nat (cur_x s))) of
        Some a \<Rightarrow> [Clipped r (text_picture d t a (nat (cur_x s)) (nat (cur_y s)) Q)] | None \<Rightarrow> [])" for r Q
    by (cases "Option.bind (src_line s (nat (cur_y s))) (\<lambda>l. cell_of l (nat (cur_x s)))") simp_all
  show ?thesis by (simp only: cursor_draws_def Let_def st l(2,3) e)
qed

end
