(* ===== verification/Gw_Canvas_Frame.thy ===== *)
theory Gw_Canvas_Frame
  imports Gw_Canvas_Props
begin

text \<open>
  The frames of the canvas renderer one after the other: after each, every row of the canvas shows
  the current line with the current selection, links and decorations, and the cursor.
\<close>

section \<open>What a frame paints\<close>

lemma same_look_refl: "same_look c c h l"
  by (simp add: same_look_def)

lemma look_update [simp]:
  "row_picture (c\<lparr>cr_rows := r\<rparr>) s l h n = row_picture c s l h n"
  "cursor_draws (c\<lparr>cr_rows := r\<rparr>) s = cursor_draws c s"
proof -
  have l: "same_look (c\<lparr>cr_rows := r\<rparr>) c i l" for i l
    by (simp add: same_look_def isInSelection_def getDecorationAt_def)
  show "row_picture (c\<lparr>cr_rows := r\<rparr>) s l h n = row_picture c s l h n"
    by (rule row_picture_same [OF l]) (simp add: same_graphemes_def)
  have "text_picture (c\<lparr>cr_rows := r\<rparr>) s a x y Q = text_picture c s a x y Q" for a x y Q
    by (rule text_picture_same [OF l [of "int y" "[a]"]]) (simp_all add: same_graphemes_def)
  then show "cursor_draws (c\<lparr>cr_rows := r\<rparr>) s = cursor_draws c s"
    by (simp add: cursor_draws_def Let_def cong: option.case_cong cursor_style.case_cong)
qed

definition lines_valid :: "screen_source \<Rightarrow> scroll_source option \<Rightarrow> rat \<Rightarrow> bool" where
  "lines_valid s Q I \<longleftrightarrow>
     (\<forall>h l. src_line s h = Some l \<longrightarrow> list_all cell_valid l) \<and> (\<forall>h l. frame_line s Q I h = Some l \<longrightarrow> list_all cell_valid l)"

text \<open>The canvas with the rows of \<open>P\<close> painted with \<open>f\<close>.\<close>

definition with_rows :: "int set \<Rightarrow> (nat \<Rightarrow> draw list) \<Rightarrow> (int \<Rightarrow> draw list) \<Rightarrow> int \<Rightarrow> draw list" where
  "with_rows P f r = (\<lambda>i. if i \<in> P then f (nat i) else r i)"

lemma paint_rows_plain:
  assumes "k_graphics (cr_kitty c) = None" "lines_valid s Q I"
  shows "paint_rows e s S Q I hs c = Inr (c\<lparr>cr_rows := with_rows {int h |h. h \<in> set hs \<and> frame_line s Q I h \<noteq> None}
    (\<lambda>h. row_picture c s (the (frame_line s Q I h)) h (src_cols s)) (cr_rows c)\<rparr>)"
  using assms(1)
proof (induction hs arbitrary: c)
  case Nil
  then show ?case by (simp add: with_rows_def)
next
  case (Cons h hs)
  show ?case
  proof (cases "frame_line s Q I h")
    case None
    then have "{int h' |h'. h' \<in> set (h # hs) \<and> frame_line s Q I h' \<noteq> None} = {int h' |h'. h' \<in> set hs \<and> frame_line s Q I h' \<noteq> None}"
      by auto
    then show ?thesis using None Cons by simp
  next
    case (Some l)
    then have v: "list_all cell_valid l" using assms(2) by (simp add: lines_valid_def)
    have "with_rows {int h' |h'. h' \<in> set hs \<and> frame_line s Q I h' \<noteq> None} f (r(int h := f h)) =
        with_rows {int h' |h'. h' \<in> set (h # hs) \<and> frame_line s Q I h' \<noteq> None} f r" for f and r :: "int \<Rightarrow> draw list"
      using Some by (auto simp: with_rows_def fun_eq_iff)
    from this [of "\<lambda>h. row_picture c s (the (frame_line s Q I h)) h (src_cols s)"] show ?thesis
      using Some renderLine_plain [OF Cons.prems v] Cons.IH [of "c\<lparr>cr_rows := _\<rparr>"] Cons.prems by simp
  qed
qed

text \<open>The rows drawn anew for the cursor.\<close>

definition cursor_redraws :: "screen_source \<Rightarrow> bool \<Rightarrow> canvas_renderer \<Rightarrow> int set" where
  "cursor_redraws s g c =
     (let w = ((cur_x s, cur_y s) \<noteq> cr_lastCursor c)
      in {y. \<not> g \<and> (w \<or> cr_cursorBlink c) \<and> (y = cur_y s \<or> w \<and> y = snd (cr_lastCursor c)) \<and> 0 \<le> y \<and>
             \<not> src_dirty s (nat y) \<and> src_line s (nat y) \<noteq> None})"

lemma redraw_row_plain:
  assumes "k_graphics (cr_kitty c) = None" "lines_valid s Q I"
  shows "redraw_row e s S g y c = Inr (c\<lparr>cr_rows :=
    with_rows {i. i = y \<and> \<not> g \<and> 0 \<le> y \<and> \<not> src_dirty s (nat y) \<and> src_line s (nat y) \<noteq> None}
      (\<lambda>h. row_picture c s (the (src_line s h)) h (src_cols s)) (cr_rows c)\<rparr>)"
proof (cases "g \<or> y < 0 \<or> src_dirty s (nat y) \<or> src_line s (nat y) = None")
  case True
  then show ?thesis by (auto simp: redraw_row_def with_rows_def)
next
  case False
  then obtain l where l: "src_line s (nat y) = Some l" by auto
  then have "list_all cell_valid l" using assms(2) by (simp add: lines_valid_def)
  then show ?thesis
    using False l renderLine_plain [OF assms(1)] by (auto simp: redraw_row_def with_rows_def fun_eq_iff intro!: arg_cong [where f = Inr])
qed

lemma cursor_rows_plain:
  assumes "k_graphics (cr_kitty c) = None" "lines_valid s Q I"
  shows "cursor_rows e s S g c = Inr (c\<lparr>cr_rows := with_rows (cursor_redraws s g c)
    (\<lambda>h. row_picture c s (the (src_line s h)) h (src_cols s)) (cr_rows c)\<rparr>)"
proof -
  let ?f = "\<lambda>h. row_picture c s (the (src_line s h)) h (src_cols s)"
  have two: "with_rows A f (with_rows B f r) = with_rows (A \<union> B) f r" for A B and f :: "nat \<Rightarrow> draw list" and r
    by (auto simp: with_rows_def)
  have "cursor_redraws s g c = (if (cur_x s, cur_y s) \<noteq> cr_lastCursor c \<or> cr_cursorBlink c
    then (if (cur_x s, cur_y s) \<noteq> cr_lastCursor c \<and> snd (cr_lastCursor c) \<noteq> cur_y s
      then {i. i = snd (cr_lastCursor c) \<and> \<not> g \<and> 0 \<le> snd (cr_lastCursor c) \<and> \<not> src_dirty s (nat (snd (cr_lastCursor c))) \<and>
        src_line s (nat (snd (cr_lastCursor c))) \<noteq> None} else {}) \<union>
      {i. i = cur_y s \<and> \<not> g \<and> 0 \<le> cur_y s \<and> \<not> src_dirty s (nat (cur_y s)) \<and> src_line s (nat (cur_y s)) \<noteq> None} else {})"
    by (auto simp: cursor_redraws_def)
  then show ?thesis
    using assms redraw_row_plain [OF _ assms(2)]
    by (auto simp: cursor_rows_def Let_def two with_rows_def [of "{}"])
qed

section \<open>The frame in closed form\<close>

definition sb_of :: "scroll_source option \<Rightarrow> int" where
  "sb_of Q = (case Q of Some q \<Rightarrow> int (sb_length q) | None \<Rightarrow> 0)"

text \<open>The settings a frame draws with, and the rows where something other than the text has changed.\<close>

definition frame_state :: "screen_source \<Rightarrow> scroll_source option \<Rightarrow> rat \<Rightarrow> selection_view \<Rightarrow> canvas_renderer \<Rightarrow> canvas_renderer" where
  "frame_state s Q I v c =
     (let c = c\<lparr>cr_selection := sv_coords v, cr_previousId := cr_hoveredId c, cr_previousRange := cr_hoveredRange c,
                cr_scrollback := sb_of Q, cr_viewportY := \<lfloor>I\<rfloor>\<rparr>
      in c\<lparr>cr_decorationRows := decoration_rows (src_rows s) c\<rparr>)"

definition frame_hit :: "screen_source \<Rightarrow> scroll_source option \<Rightarrow> rat \<Rightarrow> selection_view \<Rightarrow> canvas_renderer \<Rightarrow> int list" where
  "frame_hit s Q I v c =
     selection_rows v @ link_rows s Q I c @ cr_decorationRows c @ cr_decorationRows (frame_state s Q I v c) @ k_damaged (cr_kitty c)"

definition painted :: "screen_source \<Rightarrow> scroll_source option \<Rightarrow> rat \<Rightarrow> bool \<Rightarrow> int list \<Rightarrow> int set" where
  "painted s Q I g hit = {int h |h. h \<in> set (rows_to_paint s g I hit) \<and> frame_line s Q I h \<noteq> None}"

definition shows_cursor :: "canvas_renderer \<Rightarrow> screen_source \<Rightarrow> rat \<Rightarrow> bool" where
  "shows_cursor c s I \<longleftrightarrow> I = 0 \<and> cur_visible s \<and> cr_cursorVisible c"

definition frame_rows ::
  "screen_source \<Rightarrow> scroll_source option \<Rightarrow> rat \<Rightarrow> selection_view \<Rightarrow> bool \<Rightarrow> canvas_renderer \<Rightarrow> int \<Rightarrow> draw list" where
  "frame_rows s Q I v g c =
     (let d = frame_state s Q I v c;
          r = with_rows (painted s Q I g (frame_hit s Q I v c)) (\<lambda>h. row_picture d s (the (frame_line s Q I h)) h (src_cols s))
                (with_rows (cursor_redraws s g c) (\<lambda>h. row_picture c s (the (src_line s h)) h (src_cols s)) (cr_rows c))
      in if shows_cursor c s I then r(cur_y s := r (cur_y s) @ cursor_draws d s) else r)"

lemma begin_frame_plain:
  assumes "ks_graphics S = None" "begin_frame e s S g I c = (c1, g1)"
  shows "k_graphics (cr_kitty c1) = None" "k_direct (cr_kitty c1) = []" "cr_lastViewportY c1 = I"
    "g \<Longrightarrow> g1" "cr_hoveredRange c1 = cr_hoveredRange c" "\<not> g1 \<Longrightarrow> I = cr_lastViewportY c \<and> cr_dpr c1 = cr_dpr c \<and> c1 = c\<lparr>cr_kitty := cr_kitty c1\<rparr>"
  using assms
  by (auto simp: begin_frame_def precomputeKittyState_def Let_def resize_canvas_def resizeOverlay_def split: if_splits)

lemma link_rows_update [simp]:
  "link_rows s Q I (c\<lparr>cr_rows := r\<rparr>) = link_rows s Q I c" "link_rows s Q I (c\<lparr>cr_selection := x\<rparr>) = link_rows s Q I c"
  by (simp_all add: link_rows_def cong: option.case_cong)

lemma renderScrollbar_bar: "\<exists>b. renderScrollbar I n h opac c = c\<lparr>cr_bar := b\<rparr>"
  by (auto simp: renderScrollbar_def Let_def)

lemma frame_state_simps [simp]:
  "cr_kitty (frame_state s Q I w c) = cr_kitty c" "cr_cursorVisible (frame_state s Q I w c) = cr_cursorVisible c"
  "cr_cleared (frame_state s Q I w c) = cr_cleared c" "cr_rows (frame_state s Q I w c) = cr_rows c"
  "cr_cursorStyle (frame_state s Q I w c) = cr_cursorStyle c" "cr_lastCursor (frame_state s Q I w c) = cr_lastCursor c"
  "cr_selection (frame_state s Q I w c) = sv_coords w" "cr_metrics (frame_state s Q I w c) = cr_metrics c"
  "cr_theme (frame_state s Q I w c) = cr_theme c" "cr_transparent (frame_state s Q I w c) = cr_transparent c"
  "cr_fonts (frame_state s Q I w c) = cr_fonts c" "cr_hoveredRange (frame_state s Q I w c) = cr_hoveredRange c"
  "cr_hoveredId (frame_state s Q I w c) = cr_hoveredId c" "cr_decorations (frame_state s Q I w c) = cr_decorations c"
  "cr_scrollback (frame_state s Q I w c) = sb_of Q" "cr_viewportY (frame_state s Q I w c) = \<lfloor>I\<rfloor>"
  "cr_previousId (frame_state s Q I w c) = cr_hoveredId c" "cr_previousRange (frame_state s Q I w c) = cr_hoveredRange c"
  "cr_lastViewportY (frame_state s Q I w c) = cr_lastViewportY c"
  "frame_state s Q I w (c\<lparr>cr_rows := r\<rparr>) = (frame_state s Q I w c)\<lparr>cr_rows := r\<rparr>"
  "frame_hit s Q I w (c\<lparr>cr_rows := r\<rparr>) = frame_hit s Q I w c"
  by (simp_all add: frame_state_def frame_hit_def Let_def decoration_rows_def)

text \<open>The frame from the rows on.\<close>

definition end_frame ::
  "canvas_env \<Rightarrow> screen_source \<Rightarrow> kitty_source \<Rightarrow> rat \<Rightarrow> scroll_source option \<Rightarrow> rat \<Rightarrow> nat list \<Rightarrow> canvas_renderer
   \<Rightarrow> canvas_renderer result" where
  "end_frame e s S I Q opac H c =
     and_then (paint_rows e s S Q I H c) (\<lambda>c.
     and_then (if k_direct (cr_kitty c) \<noteq> [] \<and> H \<noteq> [] then paint_images e S c else Inr c) (\<lambda>c.
     and_then (if I = 0 \<and> cur_visible s \<and> cr_cursorVisible c
               then renderCursor e s S (nat (cur_x s)) (nat (cur_y s)) (or_else (cur_style s) (cr_cursorStyle c)) c
               else Inr c) (\<lambda>c.
     let c = (if Q \<noteq> None \<and> opac > 0 \<and> cr_scrollbarWidth c > 0
              then renderScrollbar I (case Q of Some q \<Rightarrow> sb_length q | None \<Rightarrow> 0) (src_rows s) opac c else c)
     in Inr (c\<lparr>cr_lastCursor := (cur_x s, cur_y s), cr_cleared := cr_cleared c + 1\<rparr>))))"

lemma render_canvas_split:
  "render_canvas e s S full force I Q opac w c =
     (let (c1, g) = begin_frame e s S (force \<or> full) I c
      in and_then (cursor_rows e s S g c1) (\<lambda>c.
           end_frame e s S I Q opac (rows_to_paint s g I (frame_hit s Q I w c)) (frame_state s Q I w c)))"
  by (auto simp: render_canvas_def end_frame_def frame_hit_def frame_state_def Let_def sb_of_def split: prod.splits option.splits)

lemma end_frame_plain:
  assumes "k_graphics (cr_kitty c) = None" "k_direct (cr_kitty c) = []" and v: "lines_valid s Q I"
    and cur: "0 \<le> cur_x s" "0 \<le> cur_y s"
  fixes H :: "nat list"
  defines "r \<equiv> with_rows {int h |h. h \<in> set H \<and> frame_line s Q I h \<noteq> None}
    (\<lambda>h. row_picture c s (the (frame_line s Q I h)) h (src_cols s)) (cr_rows c)"
  shows "\<exists>bar. end_frame e s S I Q opac H c = Inr (c\<lparr>cr_rows :=
      (if shows_cursor c s I then r(cur_y s := r (cur_y s) @ cursor_draws c s) else r),
    cr_bar := bar, cr_lastCursor := (cur_x s, cur_y s), cr_cleared := cr_cleared c + 1\<rparr>)"
proof -
  let ?c = "c\<lparr>cr_rows := r\<rparr>" and ?q = "c\<lparr>cr_rows := (if shows_cursor c s I then r(cur_y s := r (cur_y s) @ cursor_draws c s) else r)\<rparr>"
  have "list_all cell_valid l" if "src_line s (nat (cur_y s)) = Some l" for l using that v by (simp add: lines_valid_def)
  from renderCursor_plain [OF _ cur this, of ?c e S]
  have cu: "(if I = 0 \<and> cur_visible s \<and> cr_cursorVisible ?c
      then renderCursor e s S (nat (cur_x s)) (nat (cur_y s)) (or_else (cur_style s) (cr_cursorStyle ?c)) ?c
      else Inr ?c) = Inr ?q"
    using assms(1) by (simp add: shows_cursor_def)
  obtain bar where bar: "(if Q \<noteq> None \<and> opac > 0 \<and> cr_scrollbarWidth ?q > 0
      then renderScrollbar I (case Q of Some q \<Rightarrow> sb_length q | None \<Rightarrow> 0) (src_rows s) opac ?q else ?q) = ?q\<lparr>cr_bar := bar\<rparr>"
  proof (cases "Q \<noteq> None \<and> opac > 0 \<and> cr_scrollbarWidth ?q > 0")
    case True
    then show ?thesis using that renderScrollbar_bar [of I "case Q of Some q \<Rightarrow> sb_length q | None \<Rightarrow> 0" "src_rows s" opac ?q] by auto
  next
    case False
    then show ?thesis using that [of "cr_bar ?q"] by auto
  qed
  have "paint_rows e s S Q I H c = Inr ?c" using paint_rows_plain [OF assms(1) v] by (simp add: r_def)
  then have "end_frame e s S I Q opac H c = Inr ((?q\<lparr>cr_bar := bar\<rparr>)\<lparr>cr_lastCursor := (cur_x s, cur_y s), cr_cleared := cr_cleared ?q + 1\<rparr>)"
    using assms(2) cu bar by (simp add: end_frame_def Let_def)
  then show ?thesis by auto
qed

lemma render_canvas_plain:
  assumes k: "ks_graphics S = None" and v: "lines_valid s Q I" and cur: "0 \<le> cur_x s" "0 \<le> cur_y s"
    and b: "begin_frame e s S (force \<or> full) I c = (c1, g)"
  shows "\<exists>bar. render_canvas e s S full force I Q opac w c = Inr ((frame_state s Q I w c1)\<lparr>cr_rows := frame_rows s Q I w g c1,
    cr_bar := bar, cr_lastCursor := (cur_x s, cur_y s), cr_cleared := cr_cleared c1 + 1\<rparr>)"
proof -
  note kg = begin_frame_plain(1,2) [OF k b]
  let ?d = "(frame_state s Q I w c1)\<lparr>cr_rows :=
    with_rows (cursor_redraws s g c1) (\<lambda>h. row_picture c1 s (the (src_line s h)) h (src_cols s)) (cr_rows c1)\<rparr>"
  from end_frame_plain [OF _ _ v cur, where c = ?d and H = "rows_to_paint s g I (frame_hit s Q I w c1)"
      and e = e and S = S and opac = opac] show ?thesis
    using kg cursor_rows_plain [OF kg(1) v]
    by (simp add: render_canvas_split b frame_rows_def painted_def shows_cursor_def Let_def cong: if_cong)
qed

section \<open>Frames one after the other\<close>

text \<open>
  Every row shows its line as it looks now. The cursor is drawn over its row in each frame, so it may
  have been drawn several times since the row was painted, always alike; in the other rows, and where
  it is hidden, it is not drawn.
\<close>

definition frame_current :: "canvas_renderer \<Rightarrow> screen_source \<Rightarrow> scroll_source option \<Rightarrow> rat \<Rightarrow> bool" where
  "frame_current c s Q I \<longleftrightarrow>
     (\<forall>h l. h < src_rows s \<and> frame_line s Q I h = Some l \<longrightarrow>
        (\<exists>n. cr_rows c (int h) = row_picture c s l h (src_cols s) @ concat (replicate n (cursor_draws c s)) \<and>
             (0 < n \<longleftrightarrow> shows_cursor c s I \<and> int h = cur_y s)))"

text \<open>What a frame remembers of the one before.\<close>

definition settled :: "canvas_renderer \<Rightarrow> screen_source \<Rightarrow> scroll_source option \<Rightarrow> rat \<Rightarrow> bool" where
  "settled c s Q I \<longleftrightarrow>
     cr_previousId c = cr_hoveredId c \<and> cr_previousRange c = cr_hoveredRange c \<and>
     cr_decorationRows c = decoration_rows (src_rows s) c \<and> cr_scrollback c = sb_of Q \<and> cr_viewportY c = \<lfloor>I\<rfloor> \<and>
     cr_lastViewportY c = I \<and> cr_lastCursor c = (cur_x s, cur_y s)"

definition range_ordered :: "link_range option \<Rightarrow> bool" where
  "range_ordered r = (case r of Some G \<Rightarrow> startY G \<le> endY G | None \<Rightarrow> True)"

definition coords_ordered :: "coords option \<Rightarrow> bool" where
  "coords_ordered q = (case q of Some q \<Rightarrow> startRow q \<le> endRow q | None \<Rightarrow> True)"

text \<open>
  Since the frame that left \<open>c0\<close> for the buffer \<open>s0\<close>, links, decorations and the cursor may have been
  set, which gives \<open>c\<close>, and the buffer is now \<open>s\<close>, where a row that is not dirty is as it was. A row that
  was selected is reported by the selection manager. A cursor that was shown and is neither moved
  nor blinking, in a row that is not dirty, is still shown in the same style.
\<close>

definition continues ::
  "canvas_renderer \<Rightarrow> screen_source \<Rightarrow> canvas_renderer \<Rightarrow> screen_source \<Rightarrow> scroll_source option \<Rightarrow> selection_view \<Rightarrow> bool" where
  "continues c0 s0 c s Q v \<longleftrightarrow>
     c = c0\<lparr>cr_hoveredId := cr_hoveredId c, cr_hoveredRange := cr_hoveredRange c, cr_decorations := cr_decorations c,
            cr_cursorStyle := cr_cursorStyle c, cr_cursorBlink := cr_cursorBlink c, cr_blinking := cr_blinking c,
            cr_cursorVisible := cr_cursorVisible c, cr_requests := cr_requests c\<rparr> \<and>
     src_rows s = src_rows s0 \<and> src_cols s = src_cols s0 \<and>
     (\<forall>h. \<not> src_dirty s h \<longrightarrow> src_line s h = src_line s0 h \<and> same_graphemes s s0 h) \<and>
     (cr_decorations c = cr_decorations c0 \<or> sb_of Q = cr_scrollback c0) \<and>
     coords_ordered (sv_coords v) \<and> (\<forall>x h. isInSelection c0 x h \<longrightarrow> h \<in> set (selection_rows v)) \<and>
     range_ordered (cr_hoveredRange c0) \<and> range_ordered (cr_hoveredRange c) \<and>
     (shows_cursor c0 s0 0 \<and> cur_x s = cur_x s0 \<and> cur_y s = cur_y s0 \<and> \<not> cr_cursorBlink c \<and> \<not> src_dirty s (nat (cur_y s)) \<longrightarrow>
        shows_cursor c s 0 \<and> or_else (cur_style s) (cr_cursorStyle c) = or_else (cur_style s0) (cr_cursorStyle c0))"

lemma look_end [simp]:
  "row_picture (c\<lparr>cr_rows := r, cr_bar := b, cr_lastCursor := x, cr_cleared := y\<rparr>) s l h n = row_picture c s l h n"
  "0 \<le> cur_y s \<Longrightarrow> cursor_draws (c\<lparr>cr_rows := r, cr_bar := b, cr_lastCursor := x, cr_cleared := y\<rparr>) s = cursor_draws c s"
proof -
  let ?d = "c\<lparr>cr_rows := r, cr_bar := b, cr_lastCursor := x, cr_cleared := y\<rparr>"
  have l: "same_look ?d c i l" for i l by (simp add: same_look_def isInSelection_def getDecorationAt_def)
  show "row_picture ?d s l h n = row_picture c s l h n" by (rule row_picture_same [OF l]) (simp add: same_graphemes_def)
  show "cursor_draws ?d s = cursor_draws c s" if "0 \<le> cur_y s"
    by (rule cursor_draws_same) (use that l in \<open>simp_all add: same_graphemes_def\<close>)
qed

text \<open>A row where nothing is selected, decorated or hovered anew looks the same.\<close>

lemma quiet_look:
  assumes "cr_metrics c = cr_metrics d" "cr_theme c = cr_theme d" "cr_transparent c = cr_transparent d" "cr_fonts c = cr_fonts d"
    and "\<And>x. \<not> isInSelection c x h" "\<And>x. \<not> isInSelection d x h"
    and "\<And>x. getDecorationAt c x h = None" "\<And>x. getDecorationAt d x h = None"
    and "cr_hoveredRange c = cr_hoveredRange d \<or> h \<notin> set (range_rows (cr_hoveredRange c) @ range_rows (cr_hoveredRange d))"
    and "range_ordered (cr_hoveredRange c)" "range_ordered (cr_hoveredRange d)"
    and "cr_hoveredId c = cr_hoveredId d \<or> (\<forall>a\<in>set l. hyperlink_id a \<noteq> cr_hoveredId c \<and> hyperlink_id a \<noteq> cr_hoveredId d)"
  shows "same_look c d h l"
proof -
  have r: "\<not> (r = Some G \<and> in_link_range G x h)" if "h \<notin> set (range_rows r)" "range_ordered r" for r G x
    using that by (cases r) (auto simp: range_rows_def range_ordered_def in_link_range_def)
  show ?thesis
    unfolding same_look_def
  proof (intro conjI allI ballI)
    show "(\<exists>G. cr_hoveredRange c = Some G \<and> in_link_range G x h) = (\<exists>G. cr_hoveredRange d = Some G \<and> in_link_range G x h)" for x
      using assms(9-11) r by (cases "cr_hoveredRange c = cr_hoveredRange d") auto
  qed (use assms in auto)
qed

lemma decoration_none:
  assumes "int h \<notin> set (decoration_rows n c)" "h < n"
  shows "getDecorationAt c x (int h) = None"
  using assms by (force simp: decoration_rows_def getDecorationAt_def find_None_iff Let_def)

lemma selection_none: "coords_ordered (cr_selection c) \<Longrightarrow> sv_coords v = cr_selection c \<Longrightarrow> h \<notin> set (selection_rows v) \<Longrightarrow> \<not> isInSelection c x h"
  by (auto simp: isInSelection_def selection_rows_def coords_ordered_def split: option.splits if_splits)

lemma not_painted:
  assumes "h < src_rows s" "frame_line s Q I h \<noteq> None" "int h \<notin> painted s Q I g hit"
  shows "\<not> src_dirty s h \<and> int h \<notin> set hit \<and> \<not> g \<and> \<not> 0 < I"
  using assms by (auto simp: painted_def rows_to_paint_def Let_def)

text \<open>A row that the frame does not paint looks as in the frame before, to the renderer of any stage of the frame.\<close>

lemma steady_look:
  assumes co: "continues c0 s0 c s Q v" and st: "settled c0 s0 Q0 0"
    and h: "h < src_rows s" "src_line s h = Some l" "int h \<notin> set (frame_hit s Q 0 v (c\<lparr>cr_kitty := k\<rparr>))"
  shows "same_look (frame_state s Q 0 v (c\<lparr>cr_kitty := k\<rparr>)) c0 (int h) l" "same_look (c\<lparr>cr_kitty := k\<rparr>) c0 (int h) l"
proof -
  let ?c = "c\<lparr>cr_kitty := k\<rparr>" and ?d = "frame_state s Q 0 v (c\<lparr>cr_kitty := k\<rparr>)"
  obtain i r ds cs cb bl vi q where c: "c = c0\<lparr>cr_hoveredId := i, cr_hoveredRange := r, cr_decorations := ds,
      cr_cursorStyle := cs, cr_cursorBlink := cb, cr_blinking := bl, cr_cursorVisible := vi, cr_requests := q\<rparr>"
    using co unfolding continues_def by blast
  have hit: "int h \<notin> set (selection_rows v)" "int h \<notin> set (link_rows s Q 0 c)" "int h \<notin> set (cr_decorationRows c0)"
      "int h \<notin> set (decoration_rows (src_rows s) ?d)"
    using h(3) by (auto simp: frame_hit_def frame_state_def decoration_rows_def link_rows_def Let_def c cong: option.case_cong)
  have prev: "cr_previousId c = cr_hoveredId c0" "cr_previousRange c = cr_hoveredRange c0"
      "cr_decorationRows c0 = decoration_rows (src_rows s0) c0" "cr_viewportY c0 = 0" "cr_scrollback c0 = sb_of Q0"
    using st by (simp_all add: settled_def c)
  have L: "cr_hoveredRange c = cr_hoveredRange c0 \<or> int h \<notin> set (range_rows (cr_hoveredRange c) @ range_rows (cr_hoveredRange c0))"
      "cr_hoveredId c = cr_hoveredId c0 \<or> (\<forall>a\<in>set l. hyperlink_id a \<noteq> cr_hoveredId c \<and> hyperlink_id a \<noteq> cr_hoveredId c0)"
    using hit(2) h(1,2) by (auto simp: link_rows_def prev frame_line_def image_iff cong: option.case_cong split: if_splits)
  have R: "range_ordered (cr_hoveredRange c0)" "range_ordered (cr_hoveredRange c)" "src_rows s0 = src_rows s"
      "coords_ordered (sv_coords v)" "cr_decorations c = cr_decorations c0 \<or> sb_of Q = cr_scrollback c0"
    using co by (simp_all add: continues_def)
  have S: "\<not> isInSelection c0 x (int h)" for x using co hit(1) by (auto simp: continues_def)
  have S1: "\<not> isInSelection ?c x (int h)" for x using S [of x] by (simp add: isInSelection_def c)
  have S2: "\<not> isInSelection ?d x (int h)" for x
    by (rule selection_none [of _ v]) (simp_all add: R(4) hit(1))
  have D: "getDecorationAt c0 x (int h) = None" for x using decoration_none hit(3) h(1) prev(3) R(3) by simp
  have D2: "getDecorationAt ?d x (int h) = None" for x using decoration_none hit(4) h(1) by blast
  have D1: "getDecorationAt ?c x (int h) = None" for x
    using R(5) D [of x] D2 [of x] prev(4) by (auto simp: getDecorationAt_def c)
  show "same_look ?d c0 (int h) l"
    by (rule quiet_look) (use S S2 D D2 R L in \<open>simp_all add: c\<close>)
  show "same_look ?c c0 (int h) l"
    by (rule quiet_look) (use S S1 D D1 R L in \<open>simp_all add: c\<close>)
qed

lemma concat_replicate_comm: "concat (replicate m xs) @ xs = xs @ concat (replicate m xs)"
  by (induction m) simp_all

text \<open>The rows of a frame in terms of the row before the cursor is drawn.\<close>

lemma frame_rows_cursor:
  assumes "cr_rows b = frame_rows s Q I v g c1" "frame_line s Q I h = Some l"
    and "\<And>n. row_picture b s l h n = row_picture (frame_state s Q I v c1) s l h n" "cursor_draws b s = cursor_draws (frame_state s Q I v c1) s"
    and sc: "shows_cursor b s I = shows_cursor c1 s I"
  defines "r \<equiv> with_rows (painted s Q I g (frame_hit s Q I v c1))
      (\<lambda>h. row_picture (frame_state s Q I v c1) s (the (frame_line s Q I h)) h (src_cols s))
      (with_rows (cursor_redraws s g c1) (\<lambda>h. row_picture c1 s (the (src_line s h)) h (src_cols s)) (cr_rows c1)) (int h)"
  assumes r: "r = row_picture (frame_state s Q I v c1) s l h (src_cols s) @ concat (replicate m (cursor_draws (frame_state s Q I v c1) s))"
    and m: "0 < m \<Longrightarrow> shows_cursor c1 s I \<and> int h = cur_y s"
  shows "\<exists>n. cr_rows b (int h) = row_picture b s l h (src_cols s) @ concat (replicate n (cursor_draws b s)) \<and>
    (0 < n \<longleftrightarrow> shows_cursor b s I \<and> int h = cur_y s)"
proof -
  let ?n = "if shows_cursor c1 s I \<and> int h = cur_y s then Suc m else 0"
  have "cr_rows b (int h) = row_picture b s l h (src_cols s) @ concat (replicate ?n (cursor_draws b s))"
  proof (cases "shows_cursor c1 s I \<and> int h = cur_y s")
    case True
    then have "cr_rows b (int h) = r @ cursor_draws (frame_state s Q I v c1) s"
      unfolding assms(1) frame_rows_def r_def Let_def by simp
    then show ?thesis using True by (simp add: r assms(3,4) concat_replicate_comm)
  next
    case False
    then have "cr_rows b (int h) = r" unfolding assms(1) frame_rows_def r_def Let_def by auto
    then show ?thesis using False m by (auto simp: r assms(3,4))
  qed
  then show ?thesis using sc by (intro exI [of _ ?n]) auto
qed

lemma row_of_frame_all:
  assumes "g \<or> 0 < I" "h < src_rows s" "frame_line s Q I h = Some l"
  shows "with_rows (painted s Q I g hit) (\<lambda>h. f h (the (frame_line s Q I h))) r (int h) = f h l"
proof -
  have "int h \<in> painted s Q I g hit" using not_painted [of h s Q I g hit] assms by blast
  then show ?thesis using assms(3) by (simp add: with_rows_def)
qed

lemma row_of_frame_steady:
  assumes co: "continues c0 s0 c s Q v" and st: "settled c0 s0 Q0 0" and cu: "frame_current c0 s0 Q0 0"
    and h: "h < src_rows s" "frame_line s Q 0 h = Some l" and y: "0 \<le> cur_y s" and c1: "c1 = c\<lparr>cr_kitty := k\<rparr>"
  defines "d \<equiv> frame_state s Q 0 v c1"
  shows "\<exists>m. with_rows (painted s Q 0 False (frame_hit s Q 0 v c1)) (\<lambda>h. row_picture d s (the (frame_line s Q 0 h)) h (src_cols s))
      (with_rows (cursor_redraws s False c1) (\<lambda>h. row_picture c1 s (the (src_line s h)) h (src_cols s)) (cr_rows c1)) (int h) =
    row_picture d s l h (src_cols s) @ concat (replicate m (cursor_draws d s)) \<and> (0 < m \<longrightarrow> shows_cursor c1 s 0 \<and> int h = cur_y s)"
proof (cases "int h \<in> painted s Q 0 False (frame_hit s Q 0 v c1)")
  case True
  then show ?thesis using h by (auto simp: with_rows_def intro!: exI [of _ 0])
next
  case False
  from not_painted [OF h(1) _ this] h(2) have q: "\<not> src_dirty s h" "int h \<notin> set (frame_hit s Q 0 v c1)" by auto
  have l: "src_line s h = Some l" using h(2) by (simp add: frame_line_def)
  have old: "src_line s0 h = Some l" "same_graphemes s s0 h" "src_rows s0 = src_rows s" "src_cols s0 = src_cols s"
    using co q(1) l by (auto simp: continues_def)
  note look = steady_look [OF co st h(1) l q(2) [unfolded c1]]
  have p: "row_picture d s l h n = row_picture c0 s0 l h n" "row_picture c1 s l h n = row_picture c0 s0 l h n" for n
    unfolding d_def c1 by (rule row_picture_same [OF look(1) old(2)], rule row_picture_same [OF look(2) old(2)])
  show ?thesis
  proof (cases "int h \<in> cursor_redraws s False c1")
    case True
    then show ?thesis using False l p by (auto simp: with_rows_def intro!: exI [of _ 0])
  next
    case nr: False
    obtain i r ds cs cb bl vi q where c: "c = c0\<lparr>cr_hoveredId := i, cr_hoveredRange := r, cr_decorations := ds,
        cr_cursorStyle := cs, cr_cursorBlink := cb, cr_blinking := bl, cr_cursorVisible := vi, cr_requests := q\<rparr>"
      using co unfolding continues_def by blast
    have rows: "cr_rows c1 = cr_rows c0" "cr_lastCursor c1 = (cur_x s0, cur_y s0)" "cr_cursorBlink c1 = cr_cursorBlink c"
        "cr_theme d = cr_theme c0" "cr_metrics d = cr_metrics c0"
      using st by (simp_all add: c1 c settled_def d_def)
    obtain n where n: "cr_rows c0 (int h) = row_picture c0 s0 l h (src_cols s) @ concat (replicate n (cursor_draws c0 s0))"
        "0 < n \<longleftrightarrow> shows_cursor c0 s0 0 \<and> int h = cur_y s0"
      using cu h(1) old unfolding frame_current_def frame_line_def by auto
    have r: "cr_rows c1 (int h) = row_picture d s l h (src_cols s) @ concat (replicate n (cursor_draws c0 s0))" using n(1) p rows by simp
    show ?thesis
    proof (cases "0 < n")
      case False
      then show ?thesis using r nr \<open>int h \<notin> painted s Q 0 False _\<close> by (auto simp: with_rows_def intro!: exI [of _ 0])
    next
      case True
      then have sh: "shows_cursor c0 s0 0" "int h = cur_y s0" "nat (cur_y s0) = h" using n(2) by auto
      then have un: "cur_x s = cur_x s0" "cur_y s = cur_y s0" "\<not> cr_cursorBlink c"
        using nr q(1) l rows by (auto simp: cursor_redraws_def Let_def)
      then have co': "shows_cursor c s 0" "or_else (cur_style s) (cr_cursorStyle c) = or_else (cur_style s0) (cr_cursorStyle c0)"
        using co sh q(1) unfolding continues_def by auto
      have "cursor_draws d s = cursor_draws c0 s0"
        by (rule cursor_draws_same) (use look(1) l un sh co' old rows y in \<open>simp_all add: d_def c1\<close>)
      then show ?thesis using r nr False co' un sh by (auto simp: with_rows_def shows_cursor_def c1)
    qed
  qed
qed


text \<open>A screen of two rows, drawn in full, and then with a letter in the first row and the cursor moved into the second.\<close>

definition sample_screen :: screen_source where
  "sample_screen = \<lparr>src_cols = 2, src_rows = 2, src_viewport = None, src_line = (\<lambda>h. Some [emptyCell, emptyCell]),
     src_dirty = (\<lambda>h. False), src_grapheme = None, cur_x = 0, cur_y = 0, cur_visible = True, cur_style = None\<rparr>"

definition sample_change :: screen_source where
  "sample_change = sample_screen\<lparr>src_line := (src_line sample_screen)(0 \<mapsto> [emptyCell\<lparr>codepoint := 65\<rparr>, emptyCell]),
     src_dirty := (\<lambda>h. h = 0), cur_y := 1\<rparr>"

definition sample_env :: canvas_env where
  "sample_env = \<lparr>ce_measure = (\<lambda>_. \<lparr>fm_width = 9, fontBoundingBoxAscent = Some 14, fm_actualAscent = None,
     fontBoundingBoxDescent = Some 4, fm_actualDescent = None\<rparr>), ce_textWidth = (\<lambda>_ t. 9 * of_nat (length t)), ce_dpr = Some 2,
     ce_number = (\<lambda>_. js ''15''), ce_context = True\<rparr>"

definition no_images :: kitty_source where
  "no_images = \<lparr>ks_graphics = None, ks_placements = [], ks_pixels = (\<lambda>_. None), ks_grapheme = None\<rparr>"

definition plain_theme :: css_patch where
  "plain_theme = \<lparr>cp_foreground = None, cp_background = None, cp_cursor = None, cp_cursorAccent = None,
     cp_selectionBackground = None, cp_selectionForeground = None\<rparr>"


section \<open>Two surprises\<close>

text \<open>
  The size of a canvas is an integer, but a frame compares it with a product that need not be one:
  with a fractional pixel ratio every frame sets the size again and paints every row.
\<close>

lemma fractional_ratio_repaints_all:
  assumes "of_nat (src_cols s) * gm_width (cr_metrics c) * canvas_ratio e c \<notin> \<int>"
  shows "snd (begin_frame e s S g I c)"
proof -
  have "of_int n \<noteq> of_nat (src_cols s) * gm_width (cr_metrics c) * canvas_ratio e c" for n using assms by (metis Ints_of_int)
  then show ?thesis by (simp add: begin_frame_def canvas_ratio_def Let_def)
qed

text \<open>
  Scrolled back by a number of lines that is not whole, the row between history and screen asks for the
  line after the last one of the history.
\<close>

lemma scrolled_between_lines:
  assumes "0 < I" "I \<notin> \<int>"
  shows "frame_line s (Some q) I (nat \<lfloor>I\<rfloor>) = sb_line q (sb_length q)"
proof -
  have "of_int \<lfloor>I\<rfloor> < I" using of_int_floor_le [of I] assms(2) by (metis Ints_of_int order_le_less)
  then have "of_nat (nat \<lfloor>I\<rfloor>) < I" using assms(1) by simp
  then show ?thesis using assms(1) by (simp add: frame_line_def)
qed

end
