(* ===== verification/Gw_Hover.thy ===== *)
theory Gw_Hover
  imports Gw_Terminal Gw_Detector Gw_Canvas
begin

text \<open>
  Links under the mouse: the handlers of class \<open>Terminal\<close> of \<open>ghostty-web.js\<close> that ask the link detector
  for the link at the position of the mouse, show it, and open it on a click, and the calls that the
  class passes on to the selection manager, the renderer and the detector. A lookup is a promise:
  the question is put into \<open>waiting\<close>, and its answer is an operation of its own, which may come at any
  time and in any order.
\<close>

section \<open>State\<close>

text \<open>
  A link is an object: the number tells it from another one with the same content. What the handlers
  call: the hover and activate methods of a link, the handler of the options, the event and the
  console.
\<close>

type_synonym link_object = "nat \<times> link"

datatype hover_call =
    Hover link_object bool
  | Link_Click jstr
  | Open_Url jstr
  | Prevent_Default
  | Warn js_error

text \<open>
  \<open>shown_id\<close> and \<open>shown_range\<close> are what the renderer was told last. A question is its number and the
  position in the buffer; for a click also whether Ctrl or Meta were held.
\<close>

record 'w hover =
  h_term :: "'w terminal"
  h_detector :: bool
  h_window :: bool
  hoveredHyperlinkId :: nat
  linkHoverRequestId :: nat
  linkClickRequestId :: nat
  currentHoveredLink :: "link_object option"
  mouseMoveThrottle :: bool
  pendingMouseMove :: "(rat \<times> rat) option"
  element_cursor :: string
  canvas_cursor :: string
  shown_id :: nat
  shown_range :: "link_range option"
  waiting :: "(nat \<times> int \<times> int) list"
  clicks :: "(nat \<times> int \<times> int \<times> bool \<times> bool) list"
  h_calls :: "hover_call list"

text \<open>What the core answers when it is asked for lines, and the length of the history.\<close>

record core_lines =
  cl_line :: "int \<Rightarrow> cell list option"
  cl_history :: "int \<Rightarrow> cell list option"
  cl_scrollback :: nat

definition opened :: "'w terminal \<Rightarrow> bool \<Rightarrow> 'w hover" where
  "opened t win = \<lparr>h_term = t, h_detector = True, h_window = win, hoveredHyperlinkId = 0, linkHoverRequestId = 0,
     linkClickRequestId = 0, currentHoveredLink = None, mouseMoveThrottle = False, pendingMouseMove = None,
     element_cursor = [], canvas_cursor = ''text'', shown_id = 0, shown_range = None, waiting = [], clicks = [], h_calls = []\<rparr>"

definition on_term :: "('w terminal \<Rightarrow> 'w terminal) \<Rightarrow> 'w hover \<Rightarrow> 'w hover" where
  "on_term f h = h\<lparr>h_term := f (h_term h)\<rparr>"

section \<open>Positions\<close>

text \<open>The cell under a point of the page, by the cell size of the renderer.\<close>

definition cell_at :: "Gw_Terminal.rect \<Rightarrow> rmetrics \<Rightarrow> rat \<times> rat \<Rightarrow> int \<times> int" where
  "cell_at r m p = (\<lfloor>(fst p - Gw_Terminal.rect.r_left r) / m_width m\<rfloor>, \<lfloor>(snd p - Gw_Terminal.rect.r_top r) / m_height m\<rfloor>)"

definition scrolled :: "'w terminal \<Rightarrow> int" where
  "scrolled t = max 0 \<lfloor>viewportY t\<rfloor>"

definition row_cells :: "core_lines \<Rightarrow> int \<Rightarrow> int \<Rightarrow> cell list option" where
  "row_cells v D C =
     (if D > 0 then if C < D then cl_history v (int (cl_scrollback v) - D + C) else cl_line v (C - D)
      else cl_line v C)"

definition buffer_row :: "nat \<Rightarrow> int \<Rightarrow> int \<Rightarrow> int" where
  "buffer_row s D C = (if D > 0 then if C < D then int s - D + C else int s + (C - D) else int s + C)"

definition hyperlink_at :: "cell list option \<Rightarrow> int \<Rightarrow> nat" where
  "hyperlink_at l x =
     (case l of Some cs \<Rightarrow> if 0 \<le> x \<and> x < int (length cs) then hyperlink_id (cs ! nat x) else 0 | None \<Rightarrow> 0)"

definition can_hover :: "'w hover \<Rightarrow> bool" where
  "can_hover h \<longleftrightarrow> canvas (h_term h) \<and> renderer (h_term h) \<noteq> None \<and> h_detector h \<and> wasmTerm (h_term h) \<noteq> None"

section \<open>Moving the mouse\<close>

definition processMouseMove :: "core_lines \<Rightarrow> Gw_Terminal.rect \<Rightarrow> rat \<times> rat \<Rightarrow> 'w hover \<Rightarrow> 'w hover" where
  "processMouseMove v r p h =
     (if \<not> can_hover h then h
      else
        let (I, C) = cell_at r (the (renderer (h_term h))) p; D = scrolled (h_term h);
            E = hyperlink_at (row_cells v D C) I;
            h = (if E \<noteq> hoveredHyperlinkId h
                 then on_term requestRender (h\<lparr>hoveredHyperlinkId := E, shown_id := E\<rparr>) else h);
            a = linkHoverRequestId h + 1
        in h\<lparr>linkHoverRequestId := a, waiting := waiting h @ [(a, I, buffer_row (cl_scrollback v) D C)]\<rparr>)"

definition handleMouseMove :: "'w core \<Rightarrow> core_lines \<Rightarrow> Gw_Terminal.rect \<Rightarrow> rat \<times> rat \<Rightarrow> 'w hover \<Rightarrow> 'w hover" where
  "handleMouseMove core v r p h =
     (let t = h_term h
      in if \<not> canvas t \<or> renderer t = None \<or> wasmTerm t = None then h
         else if isDraggingScrollbar t then on_term (processScrollbarDrag core r (snd p)) h
         else if \<not> h_detector h then h
         else if mouseMoveThrottle h then h\<lparr>pendingMouseMove := Some p\<rparr>
         else let h = processMouseMove v r p h in if h_window h then h\<lparr>mouseMoveThrottle := True\<rparr> else h)"

text \<open>The timer of 16 ms.\<close>

definition throttle_timeout :: "core_lines \<Rightarrow> Gw_Terminal.rect \<Rightarrow> 'w hover \<Rightarrow> 'w hover" where
  "throttle_timeout v r h =
     (let h = h\<lparr>mouseMoveThrottle := False\<rparr>
      in case pendingMouseMove h of
           Some p \<Rightarrow> processMouseMove v r p (h\<lparr>pendingMouseMove := None\<rparr>)
         | None \<Rightarrow> h)"

section \<open>The answer\<close>

text \<open>The part of a link that is on the screen, in rows of the screen.\<close>

definition visible_range :: "nat \<Rightarrow> int \<Rightarrow> nat \<Rightarrow> link \<Rightarrow> link_range option" where
  "visible_range H h rws l =
     (let r = snd (l_start l) - int H + h; n = snd (l_end l) - int H + h
      in if r < int rws \<and> 0 \<le> n
         then Some \<lparr>startX = fst (l_start l), startY = max 0 r, endX = fst (l_end l), endY = min (int rws - 1) n\<rparr>
         else None)"

definition same_object :: "link_object option \<Rightarrow> link_object option \<Rightarrow> bool" where
  "same_object a b \<longleftrightarrow> map_option fst a = map_option fst b"

definition call_hover :: "link_object option \<Rightarrow> bool \<Rightarrow> 'w hover \<Rightarrow> 'w hover" where
  "call_hover l b h = (case l of Some l \<Rightarrow> h\<lparr>h_calls := h_calls h @ [Hover l b]\<rparr> | None \<Rightarrow> h)"

definition set_cursor :: "string \<Rightarrow> 'w hover \<Rightarrow> 'w hover" where
  "set_cursor y h =
     h\<lparr>element_cursor := (if has_element (h_term h) then y else element_cursor h),
       canvas_cursor := (if canvas (h_term h) then y else canvas_cursor h)\<rparr>"

definition hover_answer :: "'w core \<Rightarrow> nat \<Rightarrow> js_error + link_object option \<Rightarrow> 'w hover \<Rightarrow> 'w hover" where
  "hover_answer core a res h =
     (let h = h\<lparr>waiting := filter (\<lambda>q. fst q \<noteq> a) (waiting h)\<rparr>; t = h_term h
      in case res of
           Inl e \<Rightarrow> if a \<noteq> linkHoverRequestId h \<or> isDisposed t then h else h\<lparr>h_calls := h_calls h @ [Warn e]\<rparr>
         | Inr G \<Rightarrow>
             if a \<noteq> linkHoverRequestId h \<or> isDisposed t \<or> \<not> isOpen t \<or> same_object G (currentHoveredLink h) then h
             else
               let h = call_hover G True ((call_hover (currentHoveredLink h) False h)\<lparr>currentHoveredLink := G\<rparr>);
                   h = set_cursor (if G = None then ''text'' else ''pointer'') h
               in if renderer t = None then h
                  else on_term requestRender (h\<lparr>shown_range :=
                         Option.bind G (\<lambda>l. visible_range (getScrollbackLength core t) (scrolled t) (rows t) (snd l))\<rparr>))"

section \<open>Leaving, clicking, disposing\<close>

definition handleMouseLeave :: "'w hover \<Rightarrow> 'w hover" where
  "handleMouseLeave h =
     (let h = h\<lparr>linkHoverRequestId := linkHoverRequestId h + 1\<rparr>; t = h_term h;
          h = (if renderer t \<noteq> None \<and> wasmTerm t \<noteq> None
               then on_term requestRender
                 ((if hoveredHyperlinkId h > 0 then h\<lparr>hoveredHyperlinkId := 0, shown_id := 0\<rparr> else h)\<lparr>shown_range := None\<rparr>)
               else h)
      in case currentHoveredLink h of
           None \<Rightarrow> h
         | Some l \<Rightarrow>
             let h = (call_hover (Some l) False h)\<lparr>currentHoveredLink := None\<rparr>
             in if has_element t then set_cursor ''text'' h else h)"

definition handleClick :: "core_lines \<Rightarrow> Gw_Terminal.rect \<Rightarrow> rat \<times> rat \<Rightarrow> bool \<Rightarrow> bool \<Rightarrow> 'w hover \<Rightarrow> 'w hover" where
  "handleClick v r p ctrl meta h =
     (if \<not> can_hover h then h
      else
        let (C, i) = cell_at r (the (renderer (h_term h))) p; t = linkClickRequestId h + 1
        in h\<lparr>linkClickRequestId := t,
             clicks := clicks h @ [(t, C, buffer_row (cl_scrollback v) (scrolled (h_term h)) i, ctrl, meta)]\<rparr>)"

text \<open>
  The rest of \<open>handleClick\<close>. \<open>onLinkClick\<close> is the handler of the options, if there is one. A lookup that
  fails leaves the promise of the handler rejected.
\<close>

definition click_answer ::
  "(jstr \<Rightarrow> bool) option \<Rightarrow> nat \<Rightarrow> bool \<Rightarrow> bool \<Rightarrow> js_error + link_object option \<Rightarrow> 'w hover \<Rightarrow> 'w hover" where
  "click_answer onLinkClick t ctrl meta res h =
     (let h = h\<lparr>clicks := filter (\<lambda>q. fst q \<noteq> t) (clicks h)\<rparr>
      in case res of
           Inr (Some e) \<Rightarrow>
             if t \<noteq> linkClickRequestId h \<or> isDisposed (h_term h) \<or> \<not> isOpen (h_term h) then h
             else
               let N = (case onLinkClick of Some f \<Rightarrow> f (l_text (snd e)) | None \<Rightarrow> False)
               in h\<lparr>h_calls := h_calls h @ (if onLinkClick = None then [] else [Link_Click (l_text (snd e))]) @
                    (if N then [] else (case activate ctrl meta (snd e) of Some u \<Rightarrow> [Open_Url u] | None \<Rightarrow> [])) @
                    (if N \<or> ctrl \<or> meta then [Prevent_Default] else [])\<rparr>
         | _ \<Rightarrow> h)"

text \<open>\<open>dispose\<close>, with the parts that belong to links.\<close>

definition dispose_hover :: "'w hover \<Rightarrow> 'w hover" where
  "dispose_hover h =
     (if isDisposed (h_term h) then h
      else (on_term dispose h)\<lparr>mouseMoveThrottle := False, pendingMouseMove := None, linkHoverRequestId := linkHoverRequestId h + 1,
             linkClickRequestId := linkClickRequestId h + 1, h_detector := False\<rparr>)"

definition registerLinkProvider :: "provider \<Rightarrow> detector option \<Rightarrow> detector result" where
  "registerLinkProvider p d =
     (case d of
        None \<Rightarrow> Inl (Js_Error ''Terminal must be opened before registering link providers'')
      | Some d \<Rightarrow> Inr (registerProvider p d))"

section \<open>Calls passed on\<close>

text \<open>The selection manager is there while the terminal is open.\<close>

definition getSelection_term :: "sel_env \<Rightarrow> selection option \<Rightarrow> jstr result" where
  "getSelection_term e m = (case m of Some s \<Rightarrow> getSelection e s | None \<Rightarrow> Inr [])"

definition hasSelection_term :: "selection option \<Rightarrow> bool" where
  "hasSelection_term m = (case m of Some s \<Rightarrow> hasSelection s | None \<Rightarrow> False)"

definition clearSelection_term :: "sel_env \<Rightarrow> selection option \<Rightarrow> selection option" where
  "clearSelection_term e m = map_option (clearSelection e) m"

definition copySelection_term :: "sel_env \<Rightarrow> selection option \<Rightarrow> bool result \<times> selection option" where
  "copySelection_term e m =
     (case m of Some s \<Rightarrow> (let (b, s) = copySelection e s in (b, Some s)) | None \<Rightarrow> (Inr False, None))"

definition selectAll_term :: "sel_env \<Rightarrow> selection option \<Rightarrow> selection option" where
  "selectAll_term e m = map_option (selectAll e) m"

text \<open>\<open>select\<close> may not return, which is \<^term>\<open>None\<close>.\<close>

definition select_term :: "num_arg \<Rightarrow> num_arg \<Rightarrow> num_arg \<Rightarrow> sel_env \<Rightarrow> selection option \<Rightarrow> selection option option" where
  "select_term A g I e m = (case m of Some s \<Rightarrow> map_option Some (select A g I e s) | None \<Rightarrow> Some None)"

definition selectLines_term :: "num_arg \<Rightarrow> num_arg \<Rightarrow> sel_env \<Rightarrow> selection option \<Rightarrow> selection option" where
  "selectLines_term A g e m = map_option (selectLines A g e) m"

definition getSelectionPosition_term :: "sel_env \<Rightarrow> selection option \<Rightarrow> ((int \<times> int) \<times> (int \<times> int)) option" where
  "getSelectionPosition_term e m = Option.bind m (getSelectionPosition e)"

text \<open>Decorations as the caller gives them; numbers that are not finite are \<^term>\<open>None\<close>.\<close>

record decoration_arg =
  da_line :: num_arg
  da_column :: num_arg
  da_length :: num_arg
  da_background :: "string option"
  da_foreground :: "string option"

definition decoration_of :: "decoration_arg \<Rightarrow> css_decoration option" where
  "decoration_of d =
     (case (da_line d, da_column d, da_length d) of
        (Some l, Some c, Some n) \<Rightarrow>
          if n > 0
          then Some \<lparr>cd_line = \<lfloor>l\<rfloor>, cd_column = max 0 \<lfloor>c\<rfloor>, cd_length = \<lfloor>n\<rfloor>, cd_background = da_background d,
                 cd_foreground = da_foreground d\<rparr>
          else None
      | _ \<Rightarrow> None)"

definition setDecorations_term ::
  "decoration_arg list \<Rightarrow> canvas_renderer option \<times> 'w terminal \<Rightarrow> canvas_renderer option \<times> 'w terminal" where
  "setDecorations_term A ct =
     (map_option (setDecorations_canvas (List.map_filter decoration_of A)) (fst ct), requestRender (snd ct))"

definition clearDecorations_term :: "canvas_renderer option \<times> 'w terminal \<Rightarrow> canvas_renderer option \<times> 'w terminal" where
  "clearDecorations_term ct = (map_option clearDecorations_canvas (fst ct), requestRender (snd ct))"

text \<open>Text being composed is drawn at the cursor.\<close>

definition setPreedit :: "canvas_env \<Rightarrow> grid option \<Rightarrow> jstr \<Rightarrow> canvas_renderer option \<Rightarrow> canvas_renderer option" where
  "setPreedit e g A c = map_option (drawPreedit_canvas e A (of_nat (cursorX g)) (of_nat (cursorY g))) c"

definition clearPreedit_term :: "canvas_renderer option \<Rightarrow> canvas_renderer option" where
  "clearPreedit_term c = map_option clearPreedit_canvas c"

definition hasBracketedPaste_term :: "'w core \<Rightarrow> 'w terminal \<Rightarrow> bool result" where
  "hasBracketedPaste_term core t =
     and_then (assertOpen t) (\<lambda>_. case wasmTerm t of Some g \<Rightarrow> Inr (gt_getMode core 2004 False g) | None \<Rightarrow> Inl (Js_Error ''TypeError''))"

definition hasFocusEvents_term :: "'w core \<Rightarrow> 'w terminal \<Rightarrow> bool result" where
  "hasFocusEvents_term core t =
     and_then (assertOpen t) (\<lambda>_. case wasmTerm t of Some g \<Rightarrow> Inr (gt_getMode core 1004 False g) | None \<Rightarrow> Inl (Js_Error ''TypeError''))"

definition hasMouseTracking_term :: "'w core \<Rightarrow> 'w terminal \<Rightarrow> bool result" where
  "hasMouseTracking_term core t =
     and_then (assertOpen t) (\<lambda>_. case wasmTerm t of Some g \<Rightarrow> Inr (vt_mouse core (handle g)) | None \<Rightarrow> Inl (Js_Error ''TypeError''))"

end
