(* ===== verification/Gw_Hover_Props.thy ===== *)
theory Gw_Hover_Props
  imports Gw_Hover Gw_Terminal_Props
begin

text \<open>
  Links under the mouse, however lookups, movements and other events interleave: the link that is
  hovered is the one whose hover method was called last, the pointer and the underline follow it, and
  the last question wins.
\<close>

section \<open>Runs\<close>

text \<open>
  Events in any order. Between them the terminal scrolls, writes and so on, which may change it in any
  way that leaves its parts in place.
\<close>

definition same_parts :: "'w terminal \<Rightarrow> 'w terminal \<Rightarrow> bool" where
  "same_parts t t' \<longleftrightarrow> isOpen t' = isOpen t \<and> isDisposed t' = isDisposed t \<and> has_element t' = has_element t \<and>
     canvas t' = canvas t \<and> (renderer t' = None \<longleftrightarrow> renderer t = None) \<and> (wasmTerm t' = None \<longleftrightarrow> wasmTerm t = None)"

definition all_parts :: "'w terminal \<Rightarrow> bool" where
  "all_parts t \<longleftrightarrow> isOpen t \<and> \<not> isDisposed t \<and> has_element t \<and> canvas t \<and> renderer t \<noteq> None \<and> wasmTerm t \<noteq> None"

inductive hover_run :: "'w core \<Rightarrow> 'w hover \<Rightarrow> bool" for core where
  start: "all_parts t \<Longrightarrow> hover_run core (opened t win)"
| move: "hover_run core h \<Longrightarrow> hover_run core (handleMouseMove core v r p h)"
| timeout: "hover_run core h \<Longrightarrow> hover_run core (throttle_timeout v r h)"
| answer: "hover_run core h \<Longrightarrow> (a, x, y) \<in> set (waiting h) \<Longrightarrow> hover_run core (hover_answer core a res h)"
| leave: "hover_run core h \<Longrightarrow> hover_run core (handleMouseLeave h)"
| click: "hover_run core h \<Longrightarrow> hover_run core (handleClick v r p ctrl meta h)"
| click_answered: "hover_run core h \<Longrightarrow> hover_run core (click_answer f a ctrl meta res h)"
| other: "hover_run core h \<Longrightarrow> same_parts (h_term h) t \<Longrightarrow> hover_run core (h\<lparr>h_term := t\<rparr>)"
| dispose: "hover_run core h \<Longrightarrow> hover_run core (dispose_hover h)"

text \<open>The links whose hover method was told of the mouse, and not yet that it is gone.\<close>

fun hovering :: "hover_call list \<Rightarrow> link_object list" where
  "hovering [] = []"
| "hovering (Hover l True # cs) = hovering cs @ [l]"
| "hovering (Hover l False # cs) = removeAll l (hovering cs)"
| "hovering (_ # cs) = hovering cs"

definition hover_ok :: "'w hover \<Rightarrow> bool" where
  "hover_ok h \<longleftrightarrow>
     hovering (rev (h_calls h)) = (case currentHoveredLink h of Some l \<Rightarrow> [l] | None \<Rightarrow> []) \<and>
     shown_id h = hoveredHyperlinkId h \<and> list_all (\<lambda>q. fst q \<le> linkHoverRequestId h) (waiting h) \<and> distinct (map fst (waiting h)) \<and>
     (isDisposed (h_term h) \<or> all_parts (h_term h) \<and>
        (element_cursor h = ''pointer'' \<longleftrightarrow> currentHoveredLink h \<noteq> None) \<and>
        canvas_cursor h = (if currentHoveredLink h = None then ''text'' else ''pointer'') \<and>
        (currentHoveredLink h = None \<longrightarrow> shown_range h = None))"

lemma requestRender_parts [simp]: "same_parts t (requestRender t)"
  by (simp add: same_parts_def requestRender_def)

lemma all_parts_same: "same_parts t t' \<Longrightarrow> all_parts t' = all_parts t \<and> isDisposed t' = isDisposed t"
  by (auto simp: same_parts_def all_parts_def)

lemma all_parts_requestRender [simp]: "all_parts (requestRender t) = all_parts t" "isDisposed (requestRender t) = isDisposed t"
    "has_element (requestRender t) = has_element t" "canvas (requestRender t) = canvas t"
  by (simp_all add: all_parts_def requestRender_def)

lemma same_parts_refl [simp]: "same_parts t t"
  by (simp add: same_parts_def)

lemma same_parts_trans: "same_parts t t' \<Longrightarrow> same_parts t' t'' \<Longrightarrow> same_parts t t''"
  by (simp add: same_parts_def)

lemma same_parts_fade: "same_parts t (fade_frame (Fade_In q) t)"
  by (simp add: same_parts_def fade_frame_def draw_def Let_def)

lemma same_parts_showScrollbar: "same_parts t (showScrollbar t)"
proof -
  have "same_parts (t\<lparr>scrollbarHideTimeout := None, scrollbarVisible := True, scrollbarOpacity := 0\<rparr>)
    (fadeInScrollbar (t\<lparr>scrollbarHideTimeout := None, scrollbarVisible := True, scrollbarOpacity := 0\<rparr>))"
    unfolding fadeInScrollbar_def by (rule same_parts_fade)
  then show ?thesis by (simp add: same_parts_def showScrollbar_def Let_def)
qed

lemma same_parts_scrollToLine: "same_parts t (scrollToLine core a t)"
proof (cases a)
  case (Some n)
  have f: "same_parts t (fire (Fire_Scroll i) (t\<lparr>viewportY := i\<rparr>))" for i by (simp add: same_parts_def fire_def)
  have "same_parts u (show_if b u)" for b and u :: "'a terminal" by (simp add: show_if_def same_parts_showScrollbar)
  then have "same_parts t (requestRender (show_if b (fire (Fire_Scroll i) (t\<lparr>viewportY := i\<rparr>))))" for b i
    using f same_parts_trans requestRender_parts by blast
  then show ?thesis using Some by (simp add: scrollToLine_def Let_def)
qed (simp add: scrollToLine_def)

lemma drag_parts: "same_parts t (processScrollbarDrag core r y t)"
  by (auto simp: processScrollbarDrag_def same_parts_scrollToLine Let_def split: option.splits)

lemma hover_ok_term: "hover_ok h \<Longrightarrow> same_parts (h_term h) t \<Longrightarrow> hover_ok (h\<lparr>h_term := t\<rparr>)"
  using all_parts_same by (fastforce simp: hover_ok_def)

lemma hover_ok_move: "hover_ok h \<Longrightarrow> hover_ok (processMouseMove v r p h)"
  by (auto simp: hover_ok_def processMouseMove_def on_term_def Let_def list_all_iff split: prod.splits)

text \<open>An answer that counts, on a terminal with all its parts.\<close>

definition take_answer :: "'w core \<Rightarrow> link_object option \<Rightarrow> 'w hover \<Rightarrow> 'w hover" where
  "take_answer core G h =
     h\<lparr>currentHoveredLink := G,
       h_calls := h_calls h @ (case currentHoveredLink h of Some l \<Rightarrow> [Hover l False] | None \<Rightarrow> []) @
         (case G of Some l \<Rightarrow> [Hover l True] | None \<Rightarrow> []),
       element_cursor := (if G = None then ''text'' else ''pointer''), canvas_cursor := (if G = None then ''text'' else ''pointer''),
       shown_range := Option.bind G (\<lambda>l. visible_range (getScrollbackLength core (h_term h)) (scrolled (h_term h)) (rows (h_term h)) (snd l)),
       h_term := requestRender (h_term h)\<rparr>"

lemma hover_answer_cases:
  assumes "isDisposed (h_term h) \<or> all_parts (h_term h)"
  shows "hover_answer core a res h =
    (let h0 = h\<lparr>waiting := filter (\<lambda>q. fst q \<noteq> a) (waiting h)\<rparr>
     in if a \<noteq> linkHoverRequestId h \<or> isDisposed (h_term h) then h0
        else case res of
          Inl e \<Rightarrow> h0\<lparr>h_calls := h_calls h @ [Warn e]\<rparr>
        | Inr G \<Rightarrow> if same_object G (currentHoveredLink h) then h0 else take_answer core G h0)"
proof (cases "a \<noteq> linkHoverRequestId h \<or> isDisposed (h_term h)")
  case True
  then show ?thesis by (auto simp: hover_answer_def Let_def split: sum.splits)
next
  case False
  then have p: "isOpen (h_term h)" "has_element (h_term h)" "canvas (h_term h)" "renderer (h_term h) \<noteq> None"
    using assms by (auto simp: all_parts_def)
  show ?thesis
  proof (cases res)
    case (Inl e)
    then show ?thesis using False by (simp add: hover_answer_def Let_def)
  next
    case (Inr G)
    then show ?thesis using False p
      by (cases "currentHoveredLink h"; cases G)
        (auto simp: hover_answer_def take_answer_def Let_def call_hover_def set_cursor_def on_term_def)
  qed
qed

lemma hover_ok_take: "hover_ok h \<Longrightarrow> \<not> isDisposed (h_term h) \<Longrightarrow> hover_ok (take_answer core G h)"
  by (cases "currentHoveredLink h"; cases G) (simp_all add: hover_ok_def take_answer_def)

lemma hover_ok_waiting: "hover_ok h \<Longrightarrow> hover_ok (h\<lparr>waiting := filter P (waiting h)\<rparr>)"
  by (auto simp: hover_ok_def list_all_iff distinct_map inj_on_def)

lemma hover_ok_warn: "hover_ok h \<Longrightarrow> hover_ok (h\<lparr>h_calls := h_calls h @ [Warn e]\<rparr>)"
  by (simp add: hover_ok_def)

lemma hover_ok_answer:
  assumes "hover_ok h"
  shows "hover_ok (hover_answer core a res h)"
proof -
  have "isDisposed (h_term h) \<or> all_parts (h_term h)" using assms by (auto simp: hover_ok_def)
  then show ?thesis
    using hover_ok_waiting [OF assms, of "\<lambda>q. fst q \<noteq> a"] hover_ok_take hover_ok_warn
    by (fastforce simp: hover_answer_cases Let_def split: sum.splits)
qed

lemma hover_ok_leave:
  assumes "hover_ok h"
  shows "hover_ok (handleMouseLeave h)"
proof -
  have p: "isDisposed (h_term h) \<or> all_parts (h_term h)" using assms by (auto simp: hover_ok_def)
  show ?thesis
  proof (cases "isDisposed (h_term h)")
    case True
    then show ?thesis using assms
      by (cases "currentHoveredLink h")
        (auto simp: handleMouseLeave_def hover_ok_def call_hover_def set_cursor_def on_term_def Let_def list_all_iff)
  next
    case False
    then have "has_element (h_term h)" "canvas (h_term h)" "renderer (h_term h) \<noteq> None" "wasmTerm (h_term h) \<noteq> None"
      using p by (auto simp: all_parts_def)
    then show ?thesis using assms False
      by (cases "currentHoveredLink h")
        (auto simp: handleMouseLeave_def hover_ok_def call_hover_def set_cursor_def on_term_def Let_def list_all_iff)
  qed
qed

lemma hovering_other: "(\<And>l b. c \<noteq> Hover l b) \<Longrightarrow> hovering (c # cs) = hovering cs"
  by (cases c) auto

lemma hover_ok_click_answer: "hover_ok h \<Longrightarrow> hover_ok (click_answer f a ctrl meta res h)"
  by (auto simp: hover_ok_def click_answer_def Let_def split: sum.splits option.splits)

lemma hover_ok_dispose: "hover_ok h \<Longrightarrow> hover_ok (dispose_hover h)"
  by (auto simp: hover_ok_def dispose_hover_def on_term_def dispose_def cleanupComponents_def cancelScrollAnimation_def
      cancelRenderLoop_def remove_listeners_def Let_def list_all_iff)

lemma hover_ok_timers [simp]:
  "hover_ok (h\<lparr>mouseMoveThrottle := b\<rparr>) = hover_ok h" "hover_ok (h\<lparr>pendingMouseMove := q\<rparr>) = hover_ok h"
  by (simp_all add: hover_ok_def)

lemma hover_run_ok: "hover_run core h \<Longrightarrow> hover_ok h"
proof (induction rule: hover_run.induct)
  case (start t win)
  then show ?case by (simp add: hover_ok_def opened_def)
next
  case (move h v r p)
  then show ?case
    using hover_ok_term [OF move.IH drag_parts] hover_ok_move [OF move.IH, of v r p]
    by (auto simp: handleMouseMove_def on_term_def Let_def)
next
  case (timeout h v r)
  then show ?case
    by (auto simp: throttle_timeout_def Let_def intro: hover_ok_move split: option.splits)
next
  case (click h v r p ctrl meta)
  then show ?case by (auto simp: handleClick_def hover_ok_def Let_def split: prod.splits)
qed (auto intro: hover_ok_term hover_ok_answer hover_ok_leave hover_ok_click_answer hover_ok_dispose)

section \<open>The last question wins\<close>

definition answer_all :: "'w core \<Rightarrow> (nat \<times> (js_error + link_object option)) list \<Rightarrow> 'w hover \<Rightarrow> 'w hover" where
  "answer_all core qs h = fold (\<lambda>(a, res). hover_answer core a res) qs h"

lemma stale_answers:
  assumes "\<forall>q\<in>set qs. fst q \<noteq> linkHoverRequestId h"
  shows "\<exists>w. answer_all core qs h = h\<lparr>waiting := w\<rparr>"
  using assms
proof (induction qs arbitrary: h)
  case Nil
  then show ?case by (auto simp: answer_all_def intro: exI [of _ "waiting h"])
next
  case (Cons q qs)
  obtain a res where q: "q = (a, res)" by force
  then have "hover_answer core a res h = h\<lparr>waiting := filter (\<lambda>q. fst q \<noteq> a) (waiting h)\<rparr>" (is "_ = ?h")
    using Cons.prems by (auto simp: hover_answer_def Let_def split: sum.splits)
  then have "answer_all core (q # qs) h = answer_all core qs ?h" using q by (simp add: answer_all_def)
  then show ?case using Cons.IH [of ?h] Cons.prems by auto
qed

definition underlined :: "'w hover \<Rightarrow> int \<Rightarrow> int \<Rightarrow> bool" where
  "underlined h x y \<longleftrightarrow> (\<exists>R. shown_range h = Some R \<and> in_link_range R x y)"

lemma visible_range_exact:
  assumes "snd (l_start l) = k" "snd (l_end l) = k" "0 \<le> y" "y < int n" "0 \<le> D"
  shows "(\<exists>R. visible_range s D n l = Some R \<and> in_link_range R x y) \<longleftrightarrow> isPositionInLink x (buffer_row s D y) l"
  using assms
  by (cases "l_start l"; cases "l_end l") (auto simp: visible_range_def in_link_range_def isPositionInLink_def buffer_row_def Let_def)


definition demo_rect :: "Gw_Terminal.rect" where
  "demo_rect = Gw_Terminal.rect.make 0 0 160 72"

text \<open>The sample terminal with a third row, as the sample grid of the detector has.\<close>

definition demo_hover :: "nat hover" where
  "demo_hover = opened ((demo_term 0)\<lparr>rows := 3\<rparr>) True"

definition demo_lines :: core_lines where
  "demo_lines = \<lparr>cl_line = (\<lambda>_. None), cl_history = (\<lambda>_. None), cl_scrollback = 0\<rparr>"


section \<open>Three surprises\<close>

text \<open>
  The answer for a link that is hovered already changes nothing, so after scrolling the underline stays
  in the rows where the link was, also when the mouse moves on the link.
\<close>

lemma underline_stays_after_scrolling:
  assumes "currentHoveredLink h = Some l"
  shows "shown_range (hover_answer core a (Inr (Some l)) (h\<lparr>h_term := t\<rparr>)) = shown_range h"
  using assms by (simp add: hover_answer_def same_object_def Let_def)

text \<open>
  A link over several rows whose first row is above the screen is underlined in the first row of the
  screen only from the column where the link starts, far above.
\<close>

lemma clipped_link_misses_cells:
  "let l = \<lparr>l_text = [], l_start = (5, 0), l_end = (3, 2)\<rparr>
   in isPositionInLink 2 1 l \<and> (\<exists>R. visible_range 1 0 24 l = Some R \<and> \<not> in_link_range R 2 0)"
  by (simp add: isPositionInLink_def visible_range_def in_link_range_def)

text \<open>A link that is hovered when the terminal is disposed is never told that the mouse is gone.\<close>

lemma disposed_link_left_hovering:
  assumes "hover_run core h" "currentHoveredLink h = Some l"
  shows "hovering (rev (h_calls (dispose_hover h))) = [l]"
  using hover_run_ok [OF hover_run.dispose [OF assms(1)]] assms(2)
  by (simp add: hover_ok_def dispose_hover_def on_term_def)

end
