(* ===== verification/Gw_Shader.thy ===== *)
theory Gw_Shader
  imports Gw_Webgl_Props
begin

text \<open>
  The shaders of \<open>ghostty-web.js\<close> (template strings \<open>JB\<close> to \<open>UB\<close>) as functions, and the part of WebGL that
  runs them: the viewport, the coverage of quads, linear interpolation and blending. Shader numbers are
  exact. Every output of a vertex shader that is interpolated is affine in \<open>a_position\<close>, so a fragment has the
  outputs at the interpolated \<open>a_position\<close>. Shown: which cell's background a pixel has, which texel a
  pixel of a glyph samples, and where an underline is.
\<close>

section \<open>Running shaders\<close>

type_synonym vec2 = "rat \<times> rat"

text \<open>From clip coordinates to the canvas, rows counted from the top: \<open>viewport(0, 0, w, h)\<close>.\<close>

definition window_pos :: "int \<times> int \<Rightarrow> vec2 \<Rightarrow> vec2" where
  "window_pos view n = ((fst n + 1) / 2 * of_int (fst view), (1 - snd n) / 2 * of_int (snd view))"

text \<open>
  A quad given by the places of its corners, and a point of the canvas: the \<open>a_position\<close> of the fragment there.
  A point on an edge shared by two quads belongs to one of them.
\<close>

definition quad_fragment :: "(vec2 \<Rightarrow> vec2) \<Rightarrow> vec2 \<Rightarrow> vec2 option" where
  "quad_fragment pos p =
     (let (x0, y0) = pos (0, 0); (x1, y1) = pos (1, 1)
      in if x0 \<le> fst p \<and> fst p < x1 \<and> y0 \<le> snd p \<and> snd p < y1
         then Some ((fst p - x0) / (x1 - x0), (snd p - y0) / (y1 - y0)) else None)"

text \<open>\<open>blendFunc(ONE, ONE_MINUS_SRC_ALPHA)\<close>; a discarded fragment leaves the pixel.\<close>

fun blend4 :: "color4 \<Rightarrow> color4 \<Rightarrow> color4" where
  "blend4 (r, g, b, a) (r', g', b', a') = (r + r' * (1 - a), g + g' * (1 - a), b + b' * (1 - a), a + a' * (1 - a))"

definition paint :: "color4 option \<Rightarrow> color4 \<Rightarrow> color4" where
  "paint f d = (case f of Some s \<Rightarrow> blend4 s d | None \<Rightarrow> d)"

definition draw_instances :: "(nat \<Rightarrow> color4 option) \<Rightarrow> nat \<Rightarrow> color4 \<Rightarrow> color4" where
  "draw_instances f n d = fold (\<lambda>k. paint (f k)) [0..<n] d"

section \<open>Vertex shaders\<close>

text \<open>\<open>gl_InstanceID\<close> to column and row, and the corner of the cell.\<close>

definition instance_cell :: "int \<Rightarrow> nat \<Rightarrow> int \<times> int" where
  "instance_cell nc k = (int k - int k div nc * nc, int k div nc)"

definition cell_origin :: "gl_metrics \<Rightarrow> int \<Rightarrow> nat \<Rightarrow> vec2" where
  "cell_origin q nc k = (let (c, r) = instance_cell nc k in (of_int c * gm_width q, of_int r * gm_height q))"

definition canvas_of :: "gl_metrics \<Rightarrow> int \<times> int \<Rightarrow> vec2" where
  "canvas_of q grid = (of_int (fst grid) * gm_width q, of_int (snd grid) * gm_height q)"

definition ndc :: "vec2 \<Rightarrow> vec2 \<Rightarrow> vec2" where
  "ndc pos cv = (fst pos / fst cv * 2 - 1, - (snd pos / snd cv * 2 - 1))"

definition unit_color :: "int list \<Rightarrow> color4" where
  "unit_color v = (of_int (v ! 0) / 255, of_int (v ! 1) / 255, of_int (v ! 2) / 255, of_int (v ! 3) / 255)"

definition cell_span :: "vertex_attribs \<Rightarrow> rat" where
  "cell_span v = max (of_int (a_flags v ! 0)) 1"

definition cell_quad :: "gl_metrics \<Rightarrow> int \<times> int \<Rightarrow> nat \<Rightarrow> vertex_attribs \<Rightarrow> vec2 \<Rightarrow> vec2" where
  "cell_quad q grid k v u =
     (let (x, y) = cell_origin q (fst grid) k
      in ndc (x + fst u * (gm_width q * cell_span v), y + snd u * gm_height q) (canvas_of q grid))"

text \<open>\<open>JB\<close>: the place, the colour and whether the cell is skipped.\<close>

definition background_vertex :: "gl_metrics \<Rightarrow> int \<times> int \<Rightarrow> nat \<Rightarrow> vertex_attribs \<Rightarrow> vec2 \<Rightarrow> vec2 \<times> color4 \<times> rat" where
  "background_vertex q grid k v u =
     (cell_quad q grid k v u, unit_color (a_bgColor v), if a_flags v ! 0 = 0 then 1 else 0)"

text \<open>\<open>YB\<close>: the place, the place in the cell in pixels, the colour, whether it is skipped and the flags.\<close>

definition decoration_vertex :: "gl_metrics \<Rightarrow> int \<times> int \<Rightarrow> nat \<Rightarrow> vertex_attribs \<Rightarrow> vec2 \<Rightarrow> vec2 \<times> vec2 \<times> color4 \<times> rat \<times> nat" where
  "decoration_vertex q grid k v u =
     (cell_quad q grid k v u, (fst u * (gm_width q * cell_span v), snd u * gm_height q), unit_color (a_decoColor v),
      if a_flags v ! 0 = 0 then 1 else 0, nat (a_flags v ! 1))"

text \<open>\<open>nB\<close>: the place, the coordinates in the atlas, the colour, whether it is skipped and which atlas it is.\<close>

definition glyph_vertex :: "gl_metrics \<Rightarrow> int \<times> int \<Rightarrow> int \<Rightarrow> nat \<Rightarrow> vertex_attribs \<Rightarrow> vec2 \<Rightarrow> vec2 \<times> vec2 \<times> color4 \<times> rat \<times> rat" where
  "glyph_vertex q grid atlas k v u =
     (let (x, y) = cell_origin q (fst grid) k; rect = (\<lambda>i. of_int (a_atlasRect v ! i)); bear = (\<lambda>i. of_int (a_bearing v ! i))
      in (ndc (x + bear 0 + fst u * rect 2, y + gm_baseline q - bear 1 + snd u * rect 3) (canvas_of q grid),
          ((rect 0 + fst u * rect 2) / of_int atlas, (rect 1 + snd u * rect 3) / of_int atlas),
          unit_color (a_fgColor v),
          if a_flags v ! 0 = 0 \<or> a_atlasRect v ! 2 = 0 \<or> a_atlasRect v ! 3 = 0 then 1 else 0,
          of_int (a_flags v ! 2 AND 1)))"

text \<open>\<open>LB\<close>.\<close>

definition solid_vertex :: "vec2 \<Rightarrow> vec2 \<Rightarrow> vec2 \<Rightarrow> vec2 \<Rightarrow> vec2" where
  "solid_vertex rectOrigin rectSize cv u =
     ndc (fst rectOrigin + fst u * fst rectSize, snd rectOrigin + snd u * snd rectSize) cv"

section \<open>Fragment shaders\<close>

fun with_alpha :: "color4 \<Rightarrow> color4" where
  "with_alpha (r, g, b, a) = (r * a, g * a, b * a, a)"

fun alpha :: "color4 \<Rightarrow> rat" where
  "alpha (r, g, b, a) = a"

text \<open>\<open>HB\<close>.\<close>

definition background_fragment :: "color4 \<Rightarrow> rat \<Rightarrow> color4 option" where
  "background_fragment c skip = (if skip > 1 / 2 \<or> alpha c \<le> 0 then None else Some (with_alpha c))"

text \<open>\<open>SB\<close>; \<open>sine\<close> is the function \<open>sin\<close> of the shading language.\<close>

definition decorated :: "(rat \<Rightarrow> rat) \<Rightarrow> gl_metrics \<Rightarrow> vec2 \<Rightarrow> nat \<Rightarrow> bool" where
  "decorated sine q pos fl =
     (let y = snd pos; thickness = 1; line = gm_baseline q + 2; strike = gm_height q * (1 / 2);
          wave = line + sine (fst pos / max 1 (gm_width q) * (62831853 / 10000000) * 2)
      in ((fl AND 1 \<noteq> 0 \<or> fl AND 4 \<noteq> 0) \<and> line \<le> y \<and> y \<le> line + thickness) \<or>
         (fl AND 2 \<noteq> 0 \<and> strike \<le> y \<and> y \<le> strike + thickness) \<or>
         (fl AND 8 \<noteq> 0 \<and> \<bar>y - wave\<bar> \<le> thickness))"

definition decoration_fragment :: "(rat \<Rightarrow> rat) \<Rightarrow> gl_metrics \<Rightarrow> vec2 \<Rightarrow> color4 \<Rightarrow> rat \<Rightarrow> nat \<Rightarrow> color4 option" where
  "decoration_fragment sine q pos c skip fl =
     (if skip > 1 / 2 \<or> fl = 0 \<or> alpha c \<le> 0 \<or> \<not> decorated sine q pos fl then None else Some (with_alpha c))"

text \<open>\<open>RB\<close>; the two textures are sampled at coordinates.\<close>

definition glyph_fragment :: "(vec2 \<Rightarrow> rat) \<Rightarrow> (vec2 \<Rightarrow> color4) \<Rightarrow> vec2 \<Rightarrow> color4 \<Rightarrow> rat \<Rightarrow> rat \<Rightarrow> color4 option" where
  "glyph_fragment coverage colors t c skip color =
     (if skip > 1 / 2 then None
      else if color > 1 / 2 then
        (case colors t of (r, g, b, a) \<Rightarrow> let out = a * alpha c in Some (r * out, g * out, b * out, out))
      else (case c of (r, g, b, a) \<Rightarrow> let out = a * coverage t in Some (r * out, g * out, b * out, out)))"

text \<open>\<open>UB\<close>.\<close>

definition solid_fragment :: "color4 \<Rightarrow> color4 option" where
  "solid_fragment c = (if alpha c \<le> 0 then None else Some c)"

section \<open>Passes\<close>

text \<open>
  What a call of the renderer does to the pixel at \<open>p\<close>: \<open>d\<close> is the buffer of cells, \<open>tx\<close> the textures, \<open>view\<close> the size of the
  canvas in pixels.
\<close>

record gl_textures =
  tx_coverage :: "vec2 \<Rightarrow> rat"
  tx_colors :: "vec2 \<Rightarrow> color4"
  tx_sine :: "rat \<Rightarrow> rat"

definition background_at :: "gl_metrics \<Rightarrow> int \<times> int \<Rightarrow> int \<times> int \<Rightarrow> byte list \<Rightarrow> vec2 \<Rightarrow> nat \<Rightarrow> color4 option" where
  "background_at q grid view d p k =
     (let v = attribs_at (cell_at d k)
      in Option.bind (quad_fragment (\<lambda>u. window_pos view (fst (background_vertex q grid k v u))) p) (\<lambda>u.
           case background_vertex q grid k v u of (_, c, skip) \<Rightarrow> background_fragment c skip))"

definition decoration_pixel :: "gl_textures \<Rightarrow> gl_metrics \<Rightarrow> int \<times> int \<Rightarrow> int \<times> int \<Rightarrow> byte list \<Rightarrow> vec2 \<Rightarrow> nat \<Rightarrow> color4 option" where
  "decoration_pixel tx q grid view d p k =
     (let v = attribs_at (cell_at d k)
      in Option.bind (quad_fragment (\<lambda>u. window_pos view (fst (decoration_vertex q grid k v u))) p) (\<lambda>u.
           case decoration_vertex q grid k v u of (_, pos, c, skip, fl) \<Rightarrow> decoration_fragment (tx_sine tx) q pos c skip fl))"

definition glyph_pixel :: "gl_textures \<Rightarrow> gl_metrics \<Rightarrow> int \<times> int \<Rightarrow> int \<Rightarrow> int \<times> int \<Rightarrow> byte list \<Rightarrow> vec2 \<Rightarrow> nat \<Rightarrow> color4 option" where
  "glyph_pixel tx q grid atlas view d p k =
     (let v = attribs_at (cell_at d k)
      in Option.bind (quad_fragment (\<lambda>u. window_pos view (fst (glyph_vertex q grid atlas k v u))) p) (\<lambda>u.
           case glyph_vertex q grid atlas k v u of (_, t, c, skip, color) \<Rightarrow> glyph_fragment (tx_coverage tx) (tx_colors tx) t c skip color))"

definition solid_at :: "int \<times> int \<Rightarrow> vec2 \<Rightarrow> vec2 \<Rightarrow> color4 \<Rightarrow> vec2 \<Rightarrow> color4 option" where
  "solid_at view o' s c p =
     Option.bind (quad_fragment (\<lambda>u. window_pos view (solid_vertex o' s (of_int (fst view), of_int (snd view)) u)) p) (\<lambda>_. solid_fragment c)"

definition run_call :: "gl_textures \<Rightarrow> int \<times> int \<Rightarrow> byte list \<Rightarrow> vec2 \<Rightarrow> gl_call \<Rightarrow> color4 \<Rightarrow> color4" where
  "run_call tx view d p c dst =
     (case c of
        Clear x \<Rightarrow> x
      | Draw_Background q grid n \<Rightarrow> draw_instances (background_at q grid view d p) (nat n) dst
      | Draw_Glyphs q grid atlas n \<Rightarrow> draw_instances (glyph_pixel tx q grid atlas view d p) (nat n) dst
      | Draw_Decorations q grid n \<Rightarrow> draw_instances (decoration_pixel tx q grid view d p) (nat n) dst
      | Solid o' s x \<Rightarrow> paint (solid_at view o' s x p) dst)"

definition run_calls :: "gl_textures \<Rightarrow> int \<times> int \<Rightarrow> byte list \<Rightarrow> vec2 \<Rightarrow> gl_call list \<Rightarrow> color4 \<Rightarrow> color4" where
  "run_calls tx view d p cs dst = fold (run_call tx view d p) cs dst"

end
