(* ===== verification/Gw_Shader_Props.thy ===== *)
theory Gw_Shader_Props
  imports Gw_Shader
begin

text \<open>
  What the shaders draw: the background of a pixel is that of its cell, the pixels of a glyph are the
  texels of its rectangle in the atlas, a rectangle is where it was asked for, and where underlines go.
\<close>

section \<open>Places on the canvas\<close>

definition exact_canvas :: "gl_metrics \<Rightarrow> int \<times> int \<Rightarrow> int \<times> int \<Rightarrow> bool" where
  "exact_canvas q grid view \<longleftrightarrow> 0 < gm_width q \<and> 0 < gm_height q \<and> 0 < fst grid \<and> 0 < snd grid \<and>
     canvas_of q grid = (of_int (fst view), of_int (snd view))"

lemma window_ndc:
  assumes "fst cv = of_int (fst view)" "snd cv = of_int (snd view)" "fst cv \<noteq> 0" "snd cv \<noteq> 0"
  shows "window_pos view (ndc pos cv) = pos"
  using assms by (cases pos) (simp add: window_pos_def ndc_def field_simps)

lemma window_exact: "exact_canvas q grid view \<Longrightarrow> window_pos view (ndc pos (canvas_of q grid)) = pos"
  by (rule window_ndc) (auto simp: exact_canvas_def canvas_of_def prod_eq_iff)

text \<open>A quad with its corners on the axes of the canvas, as a rectangle.\<close>

lemma quad_rect:
  assumes "\<And>u. pos u = (x + fst u * w, y + snd u * h)"
  shows "quad_fragment pos p =
    (if x \<le> fst p \<and> fst p < x + w \<and> y \<le> snd p \<and> snd p < y + h then Some ((fst p - x) / w, (snd p - y) / h) else None)"
  by (simp add: quad_fragment_def assms)

lemma instance_cell_at: "k < C \<Longrightarrow> instance_cell (int C) (r * C + k) = (int k, int r)"
  by (simp add: instance_cell_def algebra_simps)

lemma cell_quad_at:
  assumes "exact_canvas q (int C, R) view" "k < C"
  shows "window_pos view (cell_quad q (int C, R) (r * C + k) v u) =
    (of_nat k * gm_width q + fst u * (gm_width q * cell_span v), of_nat r * gm_height q + snd u * gm_height q)"
  using assms by (simp add: cell_quad_def window_exact cell_origin_def instance_cell_at)

section \<open>Backgrounds\<close>

lemma draw_instances_one:
  assumes "i < n" "\<And>k. k < n \<Longrightarrow> k \<noteq> i \<Longrightarrow> f k = None"
  shows "draw_instances f n d = paint (f i) d"
proof -
  have idle: "fold (\<lambda>k. paint (f k)) ks d = d" if "\<forall>k \<in> set ks. f k = None" for ks d
    using that by (induction ks) (auto simp: paint_def)
  have "[0..<n] = [0..<i] @ i # [Suc i..<n]"
    using assms(1) by (metis upt_add_eq_append upt_conv_Cons le_add_diff_inverse less_imp_le_nat zero_le)
  then show ?thesis using assms by (simp add: draw_instances_def idle)
qed

text \<open>A wide cell is followed by one without width, and only then.\<close>

definition widths_ok :: "frame_input \<Rightarrow> bool" where
  "widths_ok A \<longleftrightarrow>
     (let C = nat (fi_cols A)
      in \<forall>r < nat (fi_rows A). \<forall>k < C. let n = (\<lambda>j. cwidth (viewportCells A ! (r * C + j)))
         in n k \<le> 2 \<and> (n k = 2 \<longrightarrow> k + 1 < C \<and> n (k + 1) = 0) \<and> (n k = 0 \<longrightarrow> 0 < k \<and> n (k - 1) = 2))"

text \<open>The column whose cell covers column \<open>k\<close>.\<close>

definition owner :: "frame_input \<Rightarrow> nat \<Rightarrow> nat \<Rightarrow> nat" where
  "owner A r k = (if cwidth (viewportCells A ! (r * nat (fi_cols A) + k)) = 0 then k - 1 else k)"

lemma background_at_cell:
  assumes e: "exact_canvas q (int C, R) view" and k: "k < C"
    and v: "attribs_at (cell_at d (r * C + k)) = attribs_for n res G"
  shows "background_at q (int C, R) view d p (r * C + k) =
    (if n \<noteq> 0 \<and> of_nat k * gm_width q \<le> fst p \<and> fst p < of_nat (k + n) * gm_width q \<and>
        of_nat r * gm_height q \<le> snd p \<and> snd p < of_nat (r + 1) * gm_height q
     then background_fragment (unit_color [bgR res, bgG res, bgB res, bgA res]) 0 else None)"
proof -
  let ?v = "attribs_for n res G"
  have s: "cell_span ?v = of_nat (max n 1)" by (simp add: cell_span_def attribs_for_def)
  have f: "quad_fragment (\<lambda>u. window_pos view (fst (background_vertex q (int C, R) (r * C + k) ?v u))) p =
      (if of_nat k * gm_width q \<le> fst p \<and> fst p < of_nat k * gm_width q + gm_width q * of_nat (max n 1) \<and>
          of_nat r * gm_height q \<le> snd p \<and> snd p < of_nat r * gm_height q + gm_height q
       then Some ((fst p - of_nat k * gm_width q) / (gm_width q * of_nat (max n 1)), (snd p - of_nat r * gm_height q) / gm_height q) else None)"
    by (rule quad_rect) (simp add: background_vertex_def cell_quad_at [OF e k] s)
  show ?thesis unfolding background_at_def v Let_def f
    using max_absorb1 [of 1 n]
    by (cases "n = 0") (auto simp: background_vertex_def background_fragment_def attribs_for_def algebra_simps)
qed

lemma column_unique:
  assumes "0 < (w::rat)" "of_nat a * w \<le> x" "x < of_nat (a + 1) * w" "of_nat b * w \<le> x" "x < of_nat (b + n) * w"
  shows "b \<le> a" "a < b + n"
proof -
  have "of_nat b * w < of_nat (a + 1) * w" "of_nat a * w < of_nat (b + n) * w" using assms by linarith+
  then show "b \<le> a" "a < b + n" using assms(1) by (simp_all only: mult_less_cancel_right_pos of_nat_less_iff)
qed

lemma owner_covers:
  assumes "widths_ok A" "r < nat (fi_rows A)" "k < nat (fi_cols A)" "j < nat (fi_cols A)"
    and "n = cwidth (viewportCells A ! (r * nat (fi_cols A) + j))"
  shows "n \<noteq> 0 \<and> j \<le> k \<and> k < j + n \<longleftrightarrow> j = owner A r k"
proof -
  define N where "N i = cwidth (viewportCells A ! (r * nat (fi_cols A) + i))" for i
  have W: "N i \<le> 2 \<and> (N i = 2 \<longrightarrow> i + 1 < nat (fi_cols A) \<and> N (i + 1) = 0) \<and> (N i = 0 \<longrightarrow> 0 < i \<and> N (i - 1) = 2)"
    if "i < nat (fi_cols A)" for i
    using assms(1,2) that by (auto simp: widths_ok_def Let_def N_def)
  have o: "owner A r k = (if N k = 0 then k - 1 else k)" by (simp add: owner_def N_def)
  have n: "n = N j" by (simp add: N_def assms(5))
  show ?thesis
  proof (cases "j = k")
    case True
    then show ?thesis using W [OF assms(3)] n o by auto
  next
    case False
    show ?thesis
    proof
      assume *: "n \<noteq> 0 \<and> j \<le> k \<and> k < j + n"
      then have "n = 2" "k = j + 1" using False W [OF assms(4)] n by auto
      then show "j = owner A r k" using W [OF assms(4)] n o by auto
    next
      assume "j = owner A r k"
      then have "N k = 0" "j = k - 1" using False o by (auto split: if_splits)
      then show "n \<noteq> 0 \<and> j \<le> k \<and> k < j + n" using W [OF assms(3)] n by auto
    qed
  qed
qed

text \<open>
  C23. Backgrounds. When the buffer of cells shows a frame and the cells fill the canvas exactly, the
  background pass gives every pixel the background of its cell and touches it once: the pixel in column
  \<open>k\<close> of row \<open>r\<close> is blended with the resolved background of that cell, or of the wide cell before it. Over
  the colour the canvas was cleared with, an opaque background is shown as it is, and one that is
  transparent leaves the theme's.
\<close>

theorem background_pixels_exact:
  assumes sf: "shows_frame B A d" and w: "widths_ok A" and e: "exact_canvas q (fi_cols A, fi_rows A) view"
    and r: "r < nat (fi_rows A)" "of_nat r * gm_height q \<le> snd p" "snd p < of_nat (r + 1) * gm_height q"
    and k: "k < nat (fi_cols A)" "of_nat k * gm_width q \<le> fst p" "fst p < of_nat (k + 1) * gm_width q"
    and res: "res = cell_colors A r (owner A r k) (viewportCells A ! (r * nat (fi_cols A) + owner A r k))"
  shows "run_call tx view d p (Draw_Background q (fi_cols A, fi_rows A) (fi_cols A * fi_rows A)) dst =
      paint (background_fragment (unit_color [bgR res, bgG res, bgB res, bgA res]) 0) dst \<and>
    run_calls tx view d p [Clear th, Draw_Background q (fi_cols A, fi_rows A) (fi_cols A * fi_rows A)] dst =
      (if bgA res = 255 then (of_int (bgR res) / 255, of_int (bgG res) / 255, of_int (bgB res) / 255, 1)
       else if bgA res \<le> 0 then th
       else blend4 (with_alpha (unit_color [bgR res, bgG res, bgB res, bgA res])) th)"
proof -
  define C where "C = nat (fi_cols A)"
  let ?grid = "(fi_cols A, fi_rows A)" and ?f = "background_at q (fi_cols A, fi_rows A) view d p"
  have C: "fi_cols A = int C" "0 < C" and pos: "0 < gm_width q" "0 < gm_height q" "0 < fi_rows A"
    using e by (auto simp: exact_canvas_def C_def)
  have cell: "?f (s * C + j) = (if s = r \<and> j = owner A r k then background_fragment (unit_color [bgR res, bgG res, bgB res, bgA res]) 0 else None)"
    if s: "s < nat (fi_rows A)" and j: "j < C" for s j
  proof -
    let ?c = "viewportCells A ! (s * C + j)"
    obtain G where "attribs_at (cell_at d (s * C + j)) = attribs_for (cwidth ?c) (cell_colors A s j ?c) G"
      using sf s j by (auto simp: shows_frame_def C_def Let_def split: prod.splits)
    note at = background_at_cell [OF e [unfolded C(1)] j this, of p, folded C(1)]
    have row: "of_nat s * gm_height q \<le> snd p \<and> snd p < of_nat (s + 1) * gm_height q \<longleftrightarrow> s = r"
      using r column_unique [OF pos(2) r(2,3), of s 1] by auto
    have inside: "of_nat j * gm_width q \<le> fst p \<and> fst p < of_nat (j + n) * gm_width q \<longleftrightarrow> j \<le> k \<and> k < j + n" if "n \<noteq> 0" for n
    proof
      assume "j \<le> k \<and> k < j + n"
      then have "of_nat j * gm_width q \<le> of_nat k * gm_width q" "of_nat (k + 1) * gm_width q \<le> of_nat (j + n) * gm_width q"
        using pos(1) by (auto intro!: mult_right_mono simp del: of_nat_add)
      then show "of_nat j * gm_width q \<le> fst p \<and> fst p < of_nat (j + n) * gm_width q" using k by linarith
    qed (use column_unique [OF pos(1) k(2,3), of j n] in auto)
    show ?thesis
    proof (cases "s = r")
      case True
      show ?thesis
        unfolding at using row True inside owner_covers [OF w r(1) k(1) j [unfolded C_def] refl] res
        by (auto simp: C_def)
    next
      case False
      then show ?thesis unfolding at using row by auto
    qed
  qed
  have o: "owner A r k < C" using k(1) by (auto simp: owner_def C_def)
  have n: "nat (fi_cols A * fi_rows A) = nat (fi_rows A) * C" using C(1) pos(3) by (simp add: nat_mult_distrib mult.commute)
  have one: "draw_instances ?f (nat (fi_rows A) * C) x = paint (background_fragment (unit_color [bgR res, bgG res, bgB res, bgA res]) 0) x" for x
  proof -
    have "r * C + owner A r k < nat (fi_rows A) * C"
      using o r(1) mult_le_mono1 [of "Suc r" "nat (fi_rows A)" C] by simp
    moreover have "?f i = None" if i: "i < nat (fi_rows A) * C" "i \<noteq> r * C + owner A r k" for i
    proof -
      have "i = i div C * C + i mod C" "i mod C < C" "i div C < nat (fi_rows A)"
        using i(1) C(2) by (simp_all add: less_mult_imp_div_less)
      then show ?thesis using cell [of "i div C" "i mod C"] i(2) by (metis (full_types))
    qed
    ultimately have "draw_instances ?f (nat (fi_rows A) * C) x = paint (?f (r * C + owner A r k)) x" by (rule draw_instances_one)
    then show ?thesis using cell [OF r(1) o] by simp
  qed
  show ?thesis
    by (cases th) (auto simp: run_calls_def run_call_def n one paint_def background_fragment_def unit_color_def zero_less_divide_iff)
qed

text \<open>A frame of one wide red cell, without text.\<close>

definition shader_frame :: frame_input where
  "shader_frame = demo_frame\<lparr>selectionRange := None,
     viewportCells := [null_cell\<lparr>bg_r := 200, bgIsDefault := False, cwidth := 2\<rparr>, null_cell\<lparr>cwidth := 0\<rparr>]\<rparr>"

definition shader_cells :: "byte list" where
  "shader_cells = concat (map (\<lambda>k. let c = viewportCells shader_frame ! k in
     cell_bytes (cwidth c) (cell_colors shader_frame 0 k c) 0 (no_glyph False)) [0, 1])"

lemma shader_colors:
  "k = 0 \<or> k = 1 \<Longrightarrow> cell_colors shader_frame 0 k (viewportCells shader_frame ! k) = \<lparr>fgR = 250, fgG = 250, fgB = 250, fgA = 255,
     bgR = if k = 0 then 200 else 0, bgG = 0, bgB = 0, bgA = if k = 0 then 255 else 0,
     decoR = 250, decoG = 250, decoB = 250, decoA = 255, decoFlags = 0\<rparr>"
  by (elim disjE) (simp_all only:, code_simp, code_simp)

lemma shader_attribs:
  assumes "k = 0 \<or> k = 1"
  shows "attribs_at (cell_at shader_cells k) =
    attribs_for (cwidth (viewportCells shader_frame ! k)) (cell_colors shader_frame 0 k (viewportCells shader_frame ! k)) None"
proof -
  define bs where "bs k = (let c = viewportCells shader_frame ! k in cell_bytes (cwidth c) (cell_colors shader_frame 0 k c) 0 (no_glyph False))" for k
  have "length (bs k) = 32" for k by (simp add: bs_def Let_def length_cell_bytes CELL_BYTES_def)
  then have "cell_at shader_cells k = bs k"
    using assms by (auto simp: shader_cells_def cell_at_def CELL_BYTES_def bs_def [symmetric] simp flip: bs_def)
  moreover have "cwidth (viewportCells shader_frame ! k) < 256" using assms by (auto simp: shader_frame_def)
  moreover have "clamp_short 0 = 0" by (simp add: clamp_short_def)
  ultimately show ?thesis
    using assms attribs_cell_bytes [of "cell_colors shader_frame 0 k (viewportCells shader_frame ! k)" "cwidth (viewportCells shader_frame ! k)" 0 "no_glyph False"]
    by (auto simp: bs_def shader_colors colors_fit_def is_byte_def is_short_def no_glyph_def attribs_for_def)
qed

lemma shader_frame_shown: "shows_frame demo_browser shader_frame shader_cells"
proof -
  have "cell_glyph demo_browser row get 0 k res (viewportCells shader_frame ! k) a = Inr (a, None)" if "k = 0 \<or> k = 1" for row get k res a
    using that by (auto simp: cell_glyph_def shader_frame_def null_cell_def cell_glyph_text_def EMPTY_CODE_def)
  then show ?thesis
    unfolding shows_frame_def using demo_reach shader_attribs [of 0] shader_attribs [of 1]
    by (auto simp: shader_frame_def demo_frame_def grapheme_source_def less_Suc_eq numeral_2_eq_2 split: prod.splits)
qed

theorem background_pixels_exact_witness:
  "\<forall>tx th dst. run_calls tx (16, 16) shader_cells (12, 5) [Clear th, Draw_Background \<lparr>gm_width = 8, gm_height = 16, gm_baseline = 12\<rparr> (2, 1) 2] dst =
     (200 / 255, 0, 0, 1)"
proof (intro allI)
  fix tx th dst
  let ?q = "\<lparr>gm_width = 8, gm_height = 16, gm_baseline = 12\<rparr>"
  have w: "widths_ok shader_frame"
    by (auto simp: widths_ok_def shader_frame_def demo_frame_def null_cell_def less_Suc_eq numeral_2_eq_2)
  have e: "exact_canvas ?q (fi_cols shader_frame, fi_rows shader_frame) (16, 16)"
    by (simp add: exact_canvas_def canvas_of_def shader_frame_def demo_frame_def)
  note c = shader_colors [of 0, simplified]
  have o: "owner shader_frame 0 1 = 0" "fi_cols shader_frame = 2" "fi_rows shader_frame = 1"
    by (simp_all add: owner_def shader_frame_def demo_frame_def null_cell_def)
  show "run_calls tx (16, 16) shader_cells (12, 5) [Clear th, Draw_Background ?q (2, 1) 2] dst = (200 / 255, 0, 0, 1)"
    using background_pixels_exact [OF shader_frame_shown w e, of 0 "(12, 5)" 1 _ tx dst th, OF _ _ _ _ _ _ refl] c o by simp
qed

section \<open>Glyphs, rectangles and lines\<close>

text \<open>
  A glyph is drawn unscaled: the pixel at a distance from the glyph's corner has the colour of the texel at
  the same distance from the corner of its rectangle in the atlas, and outside it draws nothing.
\<close>

lemma glyph_pixel_cell:
  assumes e: "exact_canvas q (int C, R) view" and k: "k < C"
    and v: "attribs_at (cell_at d (r * C + k)) = attribs_for n res (Some G)"
    and x: "x = of_nat k * gm_width q + of_int (clamp_short (bearingX G))"
    and y: "y = of_nat r * gm_height q + gm_baseline q - of_int (clamp_short (bearingY G))"
    and G: "0 < atlasW G" "0 < atlasH G" "n \<noteq> 0"
  shows "glyph_pixel tx q (int C, R) atlas view d p (r * C + k) =
    (if x \<le> fst p \<and> fst p < x + of_int (atlasW G) \<and> y \<le> snd p \<and> snd p < y + of_int (atlasH G)
     then glyph_fragment (tx_coverage tx) (tx_colors tx)
       ((of_int (atlasX G) + (fst p - x)) / of_int atlas, (of_int (atlasY G) + (snd p - y)) / of_int atlas)
       (unit_color [fgR res, fgG res, fgB res, fgA res]) 0 (if gl_isColor G then 1 else 0)
     else None)"
proof -
  let ?v = "attribs_for n res (Some G)"
  have f: "quad_fragment (\<lambda>u. window_pos view (fst (glyph_vertex q (int C, R) atlas (r * C + k) ?v u))) p =
      (if x \<le> fst p \<and> fst p < x + of_int (atlasW G) \<and> y \<le> snd p \<and> snd p < y + of_int (atlasH G)
       then Some ((fst p - x) / of_int (atlasW G), (snd p - y) / of_int (atlasH G)) else None)"
    by (rule quad_rect)
      (simp add: glyph_vertex_def Let_def window_exact [OF e] cell_origin_def instance_cell_at [OF k] x y attribs_for_def)
  show ?thesis unfolding glyph_pixel_def v Let_def f using G
    by (auto simp: glyph_vertex_def Let_def cell_origin_def instance_cell_at [OF k] attribs_for_def)
qed

lemma solid_rect:
  assumes "0 < fst view" "0 < snd view"
  shows "solid_at view o' s c p =
    (if fst o' \<le> fst p \<and> fst p < fst o' + fst s \<and> snd o' \<le> snd p \<and> snd p < snd o' + snd s then solid_fragment c else None)"
proof -
  have "quad_fragment (\<lambda>u. window_pos view (solid_vertex o' s (of_int (fst view), of_int (snd view)) u)) p =
      (if fst o' \<le> fst p \<and> fst p < fst o' + fst s \<and> snd o' \<le> snd p \<and> snd p < snd o' + snd s
       then Some ((fst p - fst o') / fst s, (snd p - snd o') / snd s) else None)"
    by (rule quad_rect) (use assms in \<open>simp add: solid_vertex_def window_ndc\<close>)
  then show ?thesis by (simp add: solid_at_def)
qed

lemma decoration_pixel_cell:
  assumes e: "exact_canvas q (int C, R) view" and k: "k < C"
    and v: "attribs_at (cell_at d (r * C + k)) = attribs_for n res G"
  shows "decoration_pixel tx q (int C, R) view d p (r * C + k) =
    (if n \<noteq> 0 \<and> of_nat k * gm_width q \<le> fst p \<and> fst p < of_nat (k + n) * gm_width q \<and>
        of_nat r * gm_height q \<le> snd p \<and> snd p < of_nat (r + 1) * gm_height q
     then decoration_fragment (tx_sine tx) q (fst p - of_nat k * gm_width q, snd p - of_nat r * gm_height q)
       (unit_color [decoR res, decoG res, decoB res, decoA res]) 0 (decoFlags res)
     else None)"
proof -
  let ?v = "attribs_for n res G"
  have s: "cell_span ?v = of_nat (max n 1)" by (simp add: cell_span_def attribs_for_def)
  have pos: "gm_width q \<noteq> 0" "gm_height q \<noteq> 0" using e by (auto simp: exact_canvas_def)
  have f: "quad_fragment (\<lambda>u. window_pos view (cell_quad q (int C, R) (r * C + k) ?v u)) p =
      (if of_nat k * gm_width q \<le> fst p \<and> fst p < of_nat k * gm_width q + gm_width q * of_nat (max n 1) \<and>
          of_nat r * gm_height q \<le> snd p \<and> snd p < of_nat r * gm_height q + gm_height q
       then Some ((fst p - of_nat k * gm_width q) / (gm_width q * of_nat (max n 1)), (snd p - of_nat r * gm_height q) / gm_height q) else None)"
    by (rule quad_rect) (simp add: cell_quad_at [OF e k] s)
  have dv: "decoration_vertex q (int C, R) (r * C + k) ?v u = (cell_quad q (int C, R) (r * C + k) ?v u,
      (fst u * (gm_width q * of_nat (max n 1)), snd u * gm_height q), unit_color [decoR res, decoG res, decoB res, decoA res],
      if n = 0 then 1 else 0, decoFlags res)" for u
    unfolding decoration_vertex_def s by (simp add: attribs_for_def)
  have m: "of_nat (max n 1) \<noteq> (0 :: rat)" by simp
  show ?thesis unfolding decoration_pixel_def v Let_def dv fst_conv f using max_absorb1 [of 1 n] pos m
    by (cases "n = 0") (auto simp: decoration_fragment_def distrib_left distrib_right mult.commute)
qed

text \<open>
  An underline starts two pixels below the baseline. Where the cell ends before that, which happens for
  a font whose letter M has a small descent, no pixel of it is drawn.
\<close>

lemma underline_lost:
  assumes e: "exact_canvas q (int C, R) view" and k: "k < C"
    and v: "attribs_at (cell_at d (r * C + k)) = attribs_for n res G"
    and u: "decoFlags res = DECO_UNDERLINE" and h: "gm_height q \<le> gm_baseline q + 2"
  shows "decoration_pixel tx q (int C, R) view d p (r * C + k) = None"
  unfolding decoration_pixel_cell [OF e k v] using u h
  by (auto simp: decoration_fragment_def decorated_def DECO_UNDERLINE_def Let_def algebra_simps)

lemma small_descent_metrics:
  assumes "measure_M e (w_fontSize w) (w_fontFamily w) = Some (8, Some 10, Some (1 / 2))"
  shows "measureFont e w = \<lparr>gm_width = 8, gm_height = 13, gm_baseline = 11\<rparr>"
  using assms ceiling_unique [of 11 "21 / 2 :: rat"] by (simp add: measureFont_def or_number_def)

text \<open>
  On a transparent terminal no background is drawn at all, neither the colour that a program gave a
  cell nor the one that shows the selection.
\<close>

lemma transparent_without_background:
  "run_calls tx (16, 16) shader_cells (12, 5) [Clear (0, 0, 0, 0), Draw_Glyphs \<lparr>gm_width = 8, gm_height = 16, gm_baseline = 12\<rparr> (2, 1) 64 2,
     Draw_Decorations \<lparr>gm_width = 8, gm_height = 16, gm_baseline = 12\<rparr> (2, 1) 2] dst = (0, 0, 0, 0)"
proof -
  let ?q = "\<lparr>gm_width = 8, gm_height = 16, gm_baseline = 12\<rparr>"
  have "glyph_pixel tx ?q (2, 1) 64 (16, 16) shader_cells (12, 5) k = None" if "k = 0 \<or> k = 1" for k
  proof -
    have "a_atlasRect (attribs_at (cell_at shader_cells k)) = [0, 0, 0, 0]" using that by (simp add: shader_attribs attribs_for_def)
    then show ?thesis by (auto simp: glyph_pixel_def glyph_vertex_def glyph_fragment_def Let_def bind_eq_None_conv split: prod.splits)
  qed
  moreover have "decoration_pixel tx ?q (2, 1) (16, 16) shader_cells (12, 5) k = None" if "k = 0 \<or> k = 1" for k
  proof -
    have "a_flags (attribs_at (cell_at shader_cells k)) ! 1 = 0" using that by (simp add: shader_attribs shader_colors attribs_for_def)
    then show ?thesis by (auto simp: decoration_pixel_def decoration_vertex_def decoration_fragment_def Let_def bind_eq_None_conv split: prod.splits)
  qed
  ultimately show ?thesis
    by (simp add: run_calls_def run_call_def draw_instances_def paint_def upt_rec numeral_2_eq_2)
qed

end
