(* ===== verification/Gw_Loader.thy ===== *)
theory Gw_Loader
  imports Gw_Core
begin

text \<open>
  Loading the compiled core (class \<open>U\<close> of \<open>ghostty-web.js\<close>, exported as \<open>Ghostty\<close>) and the module's own
  instance of it (\<open>init\<close>, \<open>initFromBytes\<close>, \<open>initFromResponse\<close>, \<open>getGhostty\<close>). Where the bytes come from and what
  compiles them is a parameter. Every value thrown by it is an error object.
\<close>

section \<open>The environment\<close>

text \<open>
  \<open>wr_body\<close> is what \<open>arrayBuffer\<close> gives. \<open>we_bun\<close> reads a file with \<open>Bun\<close>, if there is a \<open>Bun\<close>: no bytes where
  the file does not exist or reading it throws; \<open>we_file\<close> reads it with the file system module, which
  throws in a browser. \<open>we_streaming\<close> is \<open>instantiateStreaming\<close>, where there is one.
\<close>

record wasm_response =
  wr_ok :: bool
  wr_status :: string
  wr_statusText :: string
  wr_body :: "byte list result"

record ('m, 'i) wasm_env =
  we_bun :: "(string \<Rightarrow> byte list option) option"
  we_file :: "string \<Rightarrow> byte list option"
  we_fetch :: "string \<Rightarrow> wasm_response result"
  we_compile :: "byte list \<Rightarrow> 'm result"
  we_instantiate :: "'m \<Rightarrow> 'i result"
  we_streaming :: "(wasm_response \<Rightarrow> 'i result) option"

section \<open>Loading\<close>

text \<open>\<open>setInstance\<close> and the constructor of \<open>U\<close> only keep the instance.\<close>

definition instantiateFromModule :: "('m, 'i) wasm_env \<Rightarrow> 'm \<Rightarrow> 'i result" where
  "instantiateFromModule e A = we_instantiate e A"

definition loadFromBytes :: "('m, 'i) wasm_env \<Rightarrow> byte list \<Rightarrow> 'i result" where
  "loadFromBytes e A = and_then (we_compile e A) (instantiateFromModule e)"

text \<open>The response is cloned first, so its body can be read after streaming has failed.\<close>

definition loadFromResponse :: "('m, 'i) wasm_env \<Rightarrow> wasm_response \<Rightarrow> 'i result" where
  "loadFromResponse e A =
     (case we_streaming e of
        Some stream \<Rightarrow>
          (case stream A of
             Inr i \<Rightarrow> Inr i
           | Inl _ \<Rightarrow> and_then (wr_body A) (loadFromBytes e))
      | None \<Rightarrow> and_then (wr_body A) (loadFromBytes e))"

definition fetched :: "('m, 'i) wasm_env \<Rightarrow> string \<Rightarrow> byte list result" where
  "fetched e A =
     and_then (we_fetch e A) (\<lambda>Q.
       if \<not> wr_ok Q then Inl (Js_Error (''Failed to fetch WASM: '' @ wr_status Q @ '' '' @ wr_statusText Q))
       else and_then (wr_body Q) (\<lambda>g.
              if g = [] then Inl (Js_Error (''WASM file is empty (0 bytes). Check path: '' @ A)) else Inr g))"

text \<open>A file of no bytes that \<open>Bun\<close> or the file system gives is an array all the same, and not asked for again.\<close>

definition path_bytes :: "('m, 'i) wasm_env \<Rightarrow> string \<Rightarrow> byte list result" where
  "path_bytes e A =
     (case Option.bind (we_bun e) (\<lambda>f. f A) of
        Some g \<Rightarrow> Inr g
      | None \<Rightarrow> (case we_file e A of Some g \<Rightarrow> Inr g | None \<Rightarrow> fetched e A))"

definition loadFromPath :: "('m, 'i) wasm_env \<Rightarrow> string \<Rightarrow> 'i result" where
  "loadFromPath e A = and_then (path_bytes e A) (loadFromBytes e)"

text \<open>The embedded URL, in the parts the code reads.\<close>

record wasm_url =
  u_protocol :: string
  u_pathname :: string
  u_href :: string

definition letter :: "char \<Rightarrow> bool" where
  "letter c = (let n = of_char c :: nat in 65 \<le> n \<and> n \<le> 90 \<or> 97 \<le> n \<and> n \<le> 122)"

text \<open>\<open>/C:/...\<close> is a path with a drive.\<close>

fun drive_path :: "string \<Rightarrow> bool" where
  "drive_path (a # b # c # d # _) = (a = CHR ''/'' \<and> letter b \<and> c = CHR '':'' \<and> d = CHR ''/'')"
| "drive_path _ = False"

definition candidates :: "wasm_url \<Rightarrow> string list" where
  "candidates g =
     (if u_protocol g = ''file:''
      then [if drive_path (u_pathname g) then drop 1 (u_pathname g) else u_pathname g] else []) @
     [u_href g, ''./ghostty-vt.wasm'', ''/ghostty-vt.wasm'']"

fun try_all :: "('m, 'i) wasm_env \<Rightarrow> string list \<Rightarrow> js_error option \<Rightarrow> 'i result" where
  "try_all e [] Q = Inl (case Q of Some E \<Rightarrow> E | None \<Rightarrow> Js_Error ''Failed to load Ghostty WASM'')"
| "try_all e (C # I) Q = (case loadFromPath e C of Inr i \<Rightarrow> Inr i | Inl E \<Rightarrow> try_all e I (Some E))"

text \<open>\<open>load\<close>; an empty path counts as none.\<close>

definition load :: "('m, 'i) wasm_env \<Rightarrow> wasm_url \<Rightarrow> string option \<Rightarrow> 'i result" where
  "load e g A =
     (case A of
        Some p \<Rightarrow> if p = [] then try_all e (candidates g) None else loadFromPath e p
      | None \<Rightarrow> try_all e (candidates g) None)"

text \<open>The import \<open>log\<close>: what it prints of the memory, once there is an instance.\<close>

definition log_import :: "(byte list \<Rightarrow> jstr) \<Rightarrow> byte list option \<Rightarrow> nat \<Rightarrow> nat \<Rightarrow> jstr option result" where
  "log_import decode memory g I =
     (case memory of
        None \<Rightarrow> Inr None
      | Some b \<Rightarrow> if length b < g + I then Inl Range_Error else Inr (Some (decode (take I (drop g b)))))"

section \<open>The module's instance\<close>

text \<open>
  An initialisation looks whether there is an instance, and if not starts to load one; \<open>li_loading\<close> are the
  loads under way. Each ends later, in any order, with an instance or an error.
\<close>

record 'i library =
  li_instance :: "'i option"
  li_loading :: nat

definition library_new :: "'i library" where
  "library_new = \<lparr>li_instance = None, li_loading = 0\<rparr>"

definition init_start :: "'i library \<Rightarrow> 'i library" where
  "init_start s = (if li_instance s \<noteq> None then s else s\<lparr>li_loading := li_loading s + 1\<rparr>)"

definition init_done :: "'i result \<Rightarrow> 'i library \<Rightarrow> 'i library" where
  "init_done r s =
     (if li_loading s = 0 then s
      else case r of
             Inr i \<Rightarrow> s\<lparr>li_instance := Some i, li_loading := li_loading s - 1\<rparr>
           | Inl _ \<Rightarrow> s\<lparr>li_loading := li_loading s - 1\<rparr>)"

definition getGhostty :: "'i library \<Rightarrow> 'i result" where
  "getGhostty s =
     (case li_instance s of
        Some x \<Rightarrow> Inr x
      | None \<Rightarrow> Inl (Js_Error (''ghostty-web not initialized. Call init() before creating Terminal instances.'' @
          ''\<newline>Example:\<newline>  import { init, Terminal } from \"ghostty-web\";\<newline>  await init();\<newline>'' @
          ''  const term = new Terminal();\<newline>\<newline>For tests, pass a Ghostty instance directly:\<newline>'' @
          ''  import { Ghostty, Terminal } from \"ghostty-web\";\<newline>  const ghostty = await Ghostty.load();\<newline>'' @
          ''  const term = new Terminal({ ghostty });'')))"

section \<open>Loading tries everything in order\<close>

lemma try_all_result:
  "(\<forall>i. try_all e I Q = Inr i \<longleftrightarrow>
     (\<exists>n < length I. loadFromPath e (I ! n) = Inr i \<and> (\<forall>k < n. \<exists>E. loadFromPath e (I ! k) = Inl E))) \<and>
   (\<forall>E. I \<noteq> [] \<longrightarrow> (try_all e I Q = Inl E \<longleftrightarrow>
     (\<forall>C \<in> set I. \<exists>E'. loadFromPath e C = Inl E') \<and> loadFromPath e (last I) = Inl E))"
proof (induction I arbitrary: Q)
  case (Cons C I)
  show ?case
  proof (cases "loadFromPath e C")
    case (Inl E0)
    have "(\<exists>n < length (C # I). loadFromPath e ((C # I) ! n) = Inr i \<and> (\<forall>k < n. \<exists>E. loadFromPath e ((C # I) ! k) = Inl E)) \<longleftrightarrow>
        (\<exists>n < length I. loadFromPath e (I ! n) = Inr i \<and> (\<forall>k < n. \<exists>E. loadFromPath e (I ! k) = Inl E))" for i
      using Inl by (simp add: Ex_less_Suc2 All_less_Suc2)
    then show ?thesis using Inl Cons.IH [of "Some E0"] by (cases I) auto
  next
    case (Inr i0)
    then show ?thesis by (auto simp: Ex_less_Suc2 All_less_Suc2)
  qed
qed simp

text \<open>
  Without a path, loading succeeds exactly if one of the four places holds a module that compiles and
  instantiates, with the first such one; otherwise it fails with the error of the last place.
\<close>

theorem load_first_that_works:
  "(\<forall>i. load e g None = Inr i \<longleftrightarrow>
     (\<exists>n < length (candidates g). loadFromPath e (candidates g ! n) = Inr i \<and>
        (\<forall>k < n. \<exists>E. loadFromPath e (candidates g ! k) = Inl E))) \<and>
   (\<forall>E. load e g None = Inl E \<longleftrightarrow>
     (\<forall>C \<in> set (candidates g). \<exists>E'. loadFromPath e C = Inl E') \<and> loadFromPath e ''/ghostty-vt.wasm'' = Inl E)"
proof -
  have "candidates g \<noteq> []" "last (candidates g) = ''/ghostty-vt.wasm''" by (simp_all add: candidates_def)
  then show ?thesis using try_all_result [of e "candidates g" None] unfolding load_def by simp
qed

text \<open>A module from a response is there whether streaming works or not, if its bytes are good.\<close>

lemma loadFromResponse_falls_back:
  assumes "wr_body A = Inr b" "loadFromBytes e b = Inr i" "\<And>f j. we_streaming e = Some f \<Longrightarrow> f A = Inr j \<Longrightarrow> j = i"
  shows "loadFromResponse e A = Inr i"
  using assms by (auto simp: loadFromResponse_def split: option.splits sum.splits)

text \<open>
  Initialisations that overlap each load an instance, and the last to finish replaces the one that is in
  use.
\<close>

lemma overlapping_init_replaces:
  "let s = init_done (Inr a) (init_start (init_start library_new))
   in getGhostty s = Inr a \<and> getGhostty (init_done (Inr b) s) = Inr b"
  by (simp add: library_new_def init_start_def init_done_def getGhostty_def)

lemma init_keeps_instance: "li_instance s = Some x \<Longrightarrow> init_start s = s"
  by (simp add: init_start_def)

end
