(* ===== verification/Aot_Kit.thy ===== *)
theory Aot_Kit
  imports Js_Object
begin

text \<open>
  The artifact kit \<open>tools/jit_aot/kit.ts\<close>: sealing a directory with a manifest of its files, and
  verifying a sealed directory. A directory is a tree whose entries are listed in the order of
  \<open>readdirSync(dir).sort()\<close>. The manifest is kept as the value that \<open>JSON.parse\<close> gives back for what
  \<open>JSON.stringify\<close> wrote; \<open>sha\<close> is a parameter, the hash of a file's content. Running other programs
  (\<open>checked\<close>, \<open>git\<close>, \<open>tar\<close>, \<open>meson\<close>) is not modelled.
\<close>

section \<open>Trees and manifests\<close>

record 'h finfo =
  sha256 :: 'h
  fsize :: nat
  fmode :: nat

text \<open>The properties a manifest takes from its \<open>details\<close> beside the file list.\<close>

record 'h manifest =
  m_schema :: string
  m_kind :: string
  m_details :: "(string \<times> string) list"
  m_files :: "(string \<times> 'h finfo) list"

datatype 'h content = Raw "8 word list" | Json "'h manifest"

datatype 'h node =
  File (f_content: "'h content") (f_length: nat) (f_perm: nat)
| Dir "(string \<times> 'h node) list"
| Symlink
| Special

type_synonym 'h tree = "(string \<times> 'h node) list"

type_synonym 'h inv = "(string \<times> 'h finfo) list"

text \<open>
  Assigning \<open>files[r]\<close> on a plain object: the name \<open>__proto__\<close> sets the prototype and adds no
  property.
\<close>

definition put :: "string \<Rightarrow> 'h finfo \<Rightarrow> 'h inv \<Rightarrow> 'h inv" where
  "put r v files = (if r = ''__proto__'' then files else AList.update r v files)"

fun node_size :: "'h node \<Rightarrow> nat" and tree_size :: "'h tree \<Rightarrow> nat" where
  "node_size (Dir ys) = Suc (tree_size ys)"
| "node_size _ = 1"
| "tree_size [] = 0"
| "tree_size ((n, x) # xs) = Suc (node_size x + tree_size xs)"

text \<open>\<open>inventory\<close>: \<open>pre\<close> is the path of the directory relative to the root, with its slash.\<close>

function walk :: "('h content \<Rightarrow> 'h) \<Rightarrow> string \<Rightarrow> 'h tree \<Rightarrow> 'h inv \<Rightarrow> 'h inv result" where
  "walk sha pre [] files = Inr files"
| "walk sha pre ((n, Symlink) # xs) files = Inl (Js_Error (''symlink in sealed payload: '' @ pre @ n))"
| "walk sha pre ((n, Dir ys) # xs) files =
     and_then (walk sha (pre @ n @ ''/'') ys files) (\<lambda>files'. walk sha pre xs files')"
| "walk sha pre ((n, File c len m) # xs) files =
     walk sha pre xs (put (pre @ n) \<lparr>sha256 = sha c, fsize = len, fmode = m mod 512\<rparr> files)"
| "walk sha pre ((n, Special) # xs) files = Inl (Js_Error (''special file: '' @ pre @ n))"
  by pat_completeness auto
termination
  by (relation "measure (\<lambda>(sha, pre, xs, files). tree_size xs)") auto

definition inventory :: "('h content \<Rightarrow> 'h) \<Rightarrow> 'h tree \<Rightarrow> 'h inv result" where
  "inventory sha rt = walk sha [] rt []"

section \<open>Sealing and verifying\<close>

definition kit_schema :: string where
  "kit_schema = ''ish-aot-kit/v1''"

definition manifest_name :: string where
  "manifest_name = ''manifest.json''"

text \<open>Writing a file of the root directory: an existing entry is replaced, a new one is put in order.\<close>

definition write_root :: "string \<Rightarrow> 'h node \<Rightarrow> 'h tree \<Rightarrow> 'h tree" where
  "write_root n x rt = AList.update n x rt"

text \<open>\<open>exists\<close> says whether the output is there already. The size and mode of the manifest do not matter.\<close>

definition seal :: "('h content \<Rightarrow> 'h) \<Rightarrow> bool \<Rightarrow> string \<Rightarrow> (string \<times> string) list \<Rightarrow> nat \<Rightarrow> 'h tree \<Rightarrow> 'h tree result" where
  "seal sha exists kind details len stage =
     and_then (inventory sha stage) (\<lambda>files.
       let m = \<lparr>m_schema = kit_schema, m_kind = kind, m_details = details, m_files = files\<rparr>;
           stage' = write_root manifest_name (File (Json m) len 420) stage
       in if exists then Inl (Js_Error ''refusing existing output'') else Inr stage')"

definition unsafe_part :: "string \<Rightarrow> bool" where
  "unsafe_part s = (s = ''..'' \<or> s = ''.'' \<or> s = [])"

text \<open>Splitting at slashes and backslashes.\<close>

definition path_parts :: "string \<Rightarrow> string list" where
  "path_parts p = js_split CHR ''/'' (map (\<lambda>c. if c = CHR 0x5C then CHR ''/'' else c) p)"

definition safePath :: "string \<Rightarrow> string result" where
  "safePath p =
     (if p = [] \<or> take 1 p = ''/'' \<or> list_ex unsafe_part (path_parts p) \<or> CHR 0x5C \<in> set p
      then Inl (Js_Error (''unsafe artifact path: '' @ p)) else Inr p)"

definition read_manifest :: "'h tree \<Rightarrow> 'h manifest result" where
  "read_manifest rt =
     (case map_of rt manifest_name of Some (File (Json m) _ _) \<Rightarrow> Inr m | _ \<Rightarrow> Inl (Js_Error ''manifest.json''))"

fun compare_files :: "'h inv \<Rightarrow> 'h inv \<Rightarrow> unit result" where
  "compare_files actual [] = Inr ()"
| "compare_files actual ((p, f) # fs) =
     and_then (safePath p) (\<lambda>_.
       if map_of actual p \<noteq> Some f then Inl (Js_Error (''artifact mismatch: '' @ p)) else compare_files actual fs)"

definition verify :: "('h content \<Rightarrow> 'h) \<Rightarrow> 'h tree \<Rightarrow> 'h manifest result" where
  "verify sha rt =
     and_then (read_manifest rt) (\<lambda>m.
     and_then (require (m_schema m = kit_schema \<and> m_files m \<noteq> []) ''invalid kit manifest'') (\<lambda>_.
     and_then (inventory sha rt) (\<lambda>files.
       let actual = AList.delete manifest_name files
       in and_then (compare_files actual (m_files m)) (\<lambda>_.
          and_then (require (length actual = length (m_files m)) ''unlisted payload files'') (\<lambda>_. Inr m)))))"

section \<open>Names, environment and contracts\<close>

definition baseline_names :: "string list" where
  "baseline_names = [''musl'', ''busybox'', ''python'', ''zlib'']"

definition moduleNames :: "string list option \<Rightarrow> string list result" where
  "moduleNames modules =
     (case modules of
        None \<Rightarrow> Inl (Js_Error ''missing module set'')
      | Some selected \<Rightarrow>
          if \<not> distinct selected \<or> list_ex (\<lambda>n. n \<notin> set selected) baseline_names \<or>
             list_ex (\<lambda>n. n \<notin> set (baseline_names @ [''bun''])) selected
          then Inl (Js_Error ''need the four baseline modules and optionally Bun; unknown/duplicate/incomplete module set'')
          else Inr (baseline_names @ (if ''bun'' \<in> set selected then [''bun''] else [])))"

text \<open>The environment without the variables that steer the translator, and with some added.\<close>

definition cleanEnv :: "(string \<times> string) list \<Rightarrow> (string \<times> string) list \<Rightarrow> (string \<times> string) list" where
  "cleanEnv env extra =
     fold (\<lambda>(k, v). AList.update k v) extra
       (filter (\<lambda>(k, _). \<not> (take 7 k = ''ISH_JIT'' \<or> take 7 k = ''ISH_AOT'')) env)"

definition u32_le :: "8 word list \<Rightarrow> nat \<Rightarrow> nat" where
  "u32_le bs a = unat (bs ! a) + 256 * unat (bs ! (a + 1)) + 65536 * unat (bs ! (a + 2)) + 16777216 * unat (bs ! (a + 3))"

definition requireAppleBinary :: "8 word list \<Rightarrow> string \<Rightarrow> unit result" where
  "requireAppleBinary bytes platform =
     (if length bytes < 32 \<or> u32_le bytes 0 \<noteq> 0xfeedfacf \<or> u32_le bytes 4 \<noteq> 0x0100000c \<or>
         platform \<notin> {''ios'', ''ios-simulator'', ''macos''}
      then Inl (Js_Error ''requires thin Mach-O ARM64 target and explicit Apple platform; ELF/fat binaries rejected'')
      else Inr ())"

record 'h contract =
  ct_abi :: jsval
  ct_prologue_words :: jsval
  ct_entry_off :: jsval
  ct_n_pinned :: jsval
  binarySha256 :: 'h
  arch :: string
  endian :: string
  pointerBits :: nat
  evidence :: jsval

record rec_header =
  h_abi :: jsval
  h_prologue_words :: jsval
  h_entry_off :: jsval
  h_n_pinned :: jsval

definition matchContract :: "rec_header \<Rightarrow> 'h contract \<Rightarrow> 'h \<Rightarrow> unit result" where
  "matchContract h c b =
     and_then (require (ct_abi c = h_abi h) ''target contract mismatch: abi'') (\<lambda>_.
     and_then (require (ct_prologue_words c = h_prologue_words h) ''target contract mismatch: prologue_words'') (\<lambda>_.
     and_then (require (ct_entry_off c = h_entry_off h) ''target contract mismatch: entry_off'') (\<lambda>_.
     and_then (require (ct_n_pinned c = h_n_pinned h) ''target contract mismatch: n_pinned'') (\<lambda>_.
     and_then (require (binarySha256 c = b \<and> arch c = ''aarch64'' \<and> endian c = ''little'' \<and> pointerBits c = 64)
       ''target binary/architecture mismatch'') (\<lambda>_.
     require (truthy (evidence c)) ''target contract requires provenance of runtime/layout observation'')))))"

text \<open>\<open>publish\<close>: the pending build, whether acceptance evidence is there and its status.\<close>

definition publish ::
  "('h content \<Rightarrow> 'h) \<Rightarrow> bool \<Rightarrow> string option \<Rightarrow> string option \<Rightarrow> (string \<times> string) list \<Rightarrow> nat \<Rightarrow> 'h tree \<Rightarrow> 'h tree result" where
  "publish sha exists pending_kind acceptance details len s =
     (if exists then Inl (Js_Error ''refusing existing output'')
      else
        case pending_kind of
          None \<Rightarrow> Inl (Js_Error ''pending.json'')
        | Some kind \<Rightarrow>
            if kind \<noteq> ''build'' then Inl (Js_Error ''not pending build'')
            else
              (case acceptance of
                 None \<Rightarrow> Inl (Js_Error ''missing evidence/acceptance.json'')
               | Some status \<Rightarrow>
                   if status \<noteq> ''pass'' then Inl (Js_Error ''acceptance not passing'')
                   else if list_ex (\<lambda>k. map_of s k = None) [''build-gadget'', ''build-release'', ''build-debug'']
                   then Inl (Js_Error ''ENOENT'')
                   else
                     let s1 = fold AList.delete [''build-gadget'', ''build-release'', ''build-debug''] s;
                         s2 = AList.delete ''pending.json'' s1
                     in seal sha exists kind details len s2))"

end
