(* ===== verification/Aot_Apple.thy ===== *)
theory Aot_Apple
  imports Aot_Kit
begin

text \<open>
  The Apple side of the artifact kit: \<open>tools/jit_aot/apple.ts\<close> (the build version of a Mach-O executable, the
  checks of a bootstrap build and the contract of a target), \<open>apple-modules.ts\<close>, and the symbol tables of
  \<open>kit.ts\<close>. Output of the programs that are run (\<open>nm\<close>, \<open>otool\<close>) and parsed JSON are arguments.
\<close>

section \<open>Mach-O\<close>

text \<open>\<open>DataView.getUint32(a, true)\<close>.\<close>

definition getUint32 :: "8 word list \<Rightarrow> nat \<Rightarrow> nat result" where
  "getUint32 bs a = (if a + 4 > length bs then Inl Range_Error else Inr (u32_le bs a))"

record apple_build =
  ab_platform :: string
  ab_minimumOS :: string
  ab_sdk :: string

fun decimal :: "nat \<Rightarrow> string" where
  "decimal n = (if n < 10 then [char_of (48 + n)] else decimal (n div 10) @ [char_of (48 + n mod 10)])"

declare decimal.simps [simp del]

definition os_version :: "nat \<Rightarrow> string" where
  "os_version word = decimal (word div 65536) @ ''.'' @ decimal (word div 256 mod 256) @ ''.'' @ decimal (word mod 256)"

definition platform_name :: "nat \<Rightarrow> string option" where
  "platform_name n = (if n = 1 then Some ''macos'' else if n = 2 then Some ''ios'' else if n = 7 then Some ''ios-simulator'' else None)"

text \<open>The load command \<open>LC_BUILD_VERSION\<close>.\<close>

definition BUILD_VERSION :: nat where "BUILD_VERSION = 0x32"

definition build_command :: "8 word list \<Rightarrow> nat \<Rightarrow> nat \<Rightarrow> apple_build option \<Rightarrow> apple_build result" where
  "build_command bs off sz build =
     (if sz < 24 \<or> build \<noteq> None then Inl (Js_Error ''invalid/duplicate LC_BUILD_VERSION'')
      else and_then (getUint32 bs (off + 8)) (\<lambda>p.
        case platform_name p of
          None \<Rightarrow> Inl (Js_Error ''unsupported Apple platform'')
        | Some pl \<Rightarrow>
            and_then (getUint32 bs (off + 12)) (\<lambda>m.
            and_then (getUint32 bs (off + 16)) (\<lambda>s.
              Inr \<lparr>ab_platform = pl, ab_minimumOS = os_version m, ab_sdk = os_version s\<rparr>))))"

text \<open>The loop over the load commands, \<open>n\<close> of them still to come.\<close>

fun load_commands :: "8 word list \<Rightarrow> nat \<Rightarrow> nat \<Rightarrow> nat \<Rightarrow> apple_build option \<Rightarrow> (nat \<times> apple_build option) result" where
  "load_commands bs fin off 0 build = Inr (off, build)"
| "load_commands bs fin off (Suc n) build =
     (if off + 8 > fin then Inl (Js_Error ''truncated Mach-O command'')
      else and_then (getUint32 bs off) (\<lambda>command.
           and_then (getUint32 bs (off + 4)) (\<lambda>sz.
             if sz < 8 \<or> off + sz > fin then Inl (Js_Error ''invalid Mach-O command size'')
             else and_then (if command = BUILD_VERSION then and_then (build_command bs off sz build) (\<lambda>b. Inr (Some b)) else Inr build)
                    (\<lambda>build. load_commands bs fin (off + sz) n build))))"

definition appleBuildVersion :: "8 word list \<Rightarrow> apple_build result" where
  "appleBuildVersion bs =
     and_then (requireAppleBinary bs ''ios'') (\<lambda>_.
     and_then (getUint32 bs 8) (\<lambda>subtype.
     and_then (if subtype \<noteq> 0 then Inr 0 else getUint32 bs 12) (\<lambda>filetype.
       if subtype \<noteq> 0 \<or> filetype \<noteq> 2 then Inl (Js_Error ''requires plain arm64 Mach-O executable'')
       else
         and_then (getUint32 bs 20) (\<lambda>size'.
           let fin = 32 + size'
           in if fin > length bs then Inl (Js_Error ''truncated Mach-O load commands'')
              else and_then (getUint32 bs 16) (\<lambda>n.
                   and_then (load_commands bs fin 32 n None) (\<lambda>(off, build).
                     if off \<noteq> fin then Inl (Js_Error ''missing/inconsistent LC_BUILD_VERSION'')
                     else case build of
                            None \<Rightarrow> Inl (Js_Error ''missing/inconsistent LC_BUILD_VERSION'')
                          | Some b \<Rightarrow> Inr b))))))"

section \<open>Symbols\<close>

text \<open>\<open>line.trim().split(/\s+/)\<close>: the words of a line; an empty line has one empty word, which no caller keeps.\<close>

function line_words :: "string \<Rightarrow> string list" where
  "line_words s =
     (let t = dropWhile js_space s
      in if t = [] then [] else takeWhile (\<lambda>c. \<not> js_space c) t # line_words (dropWhile (\<lambda>c. \<not> js_space c) t))"
  by pat_completeness auto
termination
proof (relation "measure length")
  fix s x :: string
  assume "x = dropWhile js_space s" "x \<noteq> []"
  then have "\<not> js_space (hd x)" using hd_dropWhile by force
  then have "dropWhile (\<lambda>c. \<not> js_space c) x = dropWhile (\<lambda>c. \<not> js_space c) (tl x)" using \<open>x \<noteq> []\<close> by (cases x) auto
  then have "length (dropWhile (\<lambda>c. \<not> js_space c) x) < length x" using \<open>x \<noteq> []\<close> length_dropWhile_le [of _ "tl x"] by (cases x) (auto simp: le_imp_less_Suc)
  then show "(dropWhile (\<lambda>c. \<not> js_space c) x, s) \<in> measure length"
    using \<open>x = _\<close> length_dropWhile_le [of js_space s] by simp
qed simp

declare line_words.simps [simp del]

definition EMITTERS :: "string list" where
  "EMITTERS = [''map_dual'', ''map_jit'', ''mprotect'', ''vm_remap'', ''memfd_create'', ''pthread_jit_write_protect_np'']"

definition strip_underscore :: "string \<Rightarrow> string" where
  "strip_underscore s = (case s of c # cs \<Rightarrow> if c = CHR ''_'' then cs else s | [] \<Rightarrow> [])"

definition line_symbol :: "string \<Rightarrow> string option" where
  "line_symbol line = (case rev (line_words line) of [] \<Rightarrow> None | w # _ \<Rightarrow> Some (strip_underscore w))"

definition checkNoEmitter :: "string \<Rightarrow> unit result" where
  "checkNoEmitter symbols =
     (case find (\<lambda>s. s \<in> set EMITTERS) (List.map_filter line_symbol (js_split (char_of (10::nat)) symbols)) of
        Some s \<Rightarrow> Inl (Js_Error (''runtime emitter symbol in native backend: '' @ s))
      | None \<Rightarrow> Inr ())"

definition hex_digit :: "char \<Rightarrow> bool" where
  "hex_digit c = (let n = of_char c :: nat in 48 \<le> n \<and> n \<le> 57 \<or> 97 \<le> n \<and> n \<le> 102 \<or> 65 \<le> n \<and> n \<le> 70)"

text \<open>A capital letter other than U: a symbol that is global and defined.\<close>

definition global_type :: "string \<Rightarrow> bool" where
  "global_type s = (case s of [c] \<Rightarrow> (let n = of_char c :: nat in 65 \<le> n \<and> n \<le> 90 \<and> n \<noteq> 85) | _ \<Rightarrow> False)"

definition nm_names :: "string \<Rightarrow> string list" where
  "nm_names nm =
     rev (remdups (rev (List.map_filter (\<lambda>line. case line_words line of
         [a, t, n] \<Rightarrow> if a \<noteq> [] \<and> list_all hex_digit a \<and> global_type t then Some n else None
       | _ \<Rightarrow> None) (js_split (char_of (10::nat)) nm))))"

definition underscored :: "string \<Rightarrow> bool" where
  "underscored s = (take 1 s = ''_'')"

definition definedSymbols :: "string \<Rightarrow> string \<Rightarrow> string option" where
  "definedSymbols nm =
     (let all = nm_names nm; m = fold (\<lambda>n m. m(strip_underscore n \<mapsto> n)) all Map.empty
      in fold (\<lambda>n m. if underscored n then m else m(n \<mapsto> n)) all m)"

section \<open>Modules\<close>

definition appleBaseModules :: "(string \<times> string) list" where
  "appleBaseModules = [(''musl'', ''/lib/ld-musl-aarch64.so.1''), (''busybox'', ''/bin/busybox''), (''bun'', ''/usr/local/bin/bun'')]"

definition appleGoModules :: "(string \<times> string) list" where
  "appleGoModules = [(''go'', ''/usr/lib/go/bin/go''), (''gofmt'', ''/usr/lib/go/bin/gofmt'')] @
     map (\<lambda>n. (''go_'' @ n, ''/usr/lib/go/pkg/tool/linux_arm64/'' @ n)) [''asm'', ''compile'', ''link'', ''vet'']"

definition appleLegacyGoModules :: "(string \<times> string) list" where
  "appleLegacyGoModules = appleBaseModules @ appleGoModules"

definition appleModules :: "(string \<times> string) list" where
  "appleModules = concat (map (\<lambda>m. if fst m = ''go_compile'' then [m, (''go_compile_1'', snd m)] else [m]) appleLegacyGoModules)"

record apple_module =
  am_name :: jsval
  am_path :: jsval
  am_translations :: jsval
  am_sha256 :: jsval

definition safe_integer :: "jsval \<Rightarrow> int option" where
  "safe_integer v =
     (case v of Number r \<Rightarrow> if of_int \<lfloor>r\<rfloor> = r \<and> \<bar>r\<bar> \<le> 9007199254740991 then Some \<lfloor>r\<rfloor> else None | _ \<Rightarrow> None)"

definition positive_count :: "jsval \<Rightarrow> bool" where
  "positive_count v = (case safe_integer v of Some n \<Rightarrow> 0 < n | None \<Rightarrow> False)"

definition sha_text :: "jsval \<Rightarrow> bool" where
  "sha_text v =
     (case v of
        Str s \<Rightarrow> length s = 64 \<and> list_all (\<lambda>c. let n = of_char c :: nat in 48 \<le> n \<and> n \<le> 57 \<or> 97 \<le> n \<and> n \<le> 102) s
      | _ \<Rightarrow> False)"

definition module_ok :: "string \<times> string \<Rightarrow> apple_module \<Rightarrow> bool" where
  "module_ok e m = (am_name m = Str (fst e) \<and> am_path m = Str (snd e) \<and> positive_count (am_translations m) \<and> sha_text (am_sha256 m))"

definition validateAppleModules :: "apple_module list option \<Rightarrow> (string \<times> string) list result" where
  "validateAppleModules modules =
     (case modules of
        None \<Rightarrow> Inl (Js_Error ''missing Apple module set'')
      | Some ms \<Rightarrow>
          let expected = (if length ms = length appleBaseModules then appleBaseModules
                          else if length ms = length appleLegacyGoModules then appleLegacyGoModules else appleModules)
          in if length ms \<noteq> length expected \<or> \<not> list_all2 module_ok expected ms
             then Inl (Js_Error (''requires complete nonempty musl/BusyBox/Bun images and, if included, '' @ ''the full Go build-tool set''))
             else Inr expected)"

section \<open>Contracts\<close>

text \<open>The layout observed in the target, as parsed from JSON.\<close>

record layout =
  lo_ready :: jsval
  lo_emission_compiled :: jsval
  lo_pic :: jsval
  lo_abi :: jsval
  lo_code_version :: jsval
  lo_prologue_words :: jsval
  lo_entry_off :: jsval
  lo_n_pinned :: jsval
  lo_arch :: jsval
  lo_pointerBits :: jsval
  lo_little_endian :: jsval

record 'h apple_contract = "'h contract" +
  ac_build :: apple_build
  ac_codeVersion :: jsval

definition layout_fields :: "layout \<Rightarrow> (string \<times> jsval) list" where
  "layout_fields l = [(''abi'', lo_abi l), (''code_version'', lo_code_version l), (''prologue_words'', lo_prologue_words l),
     (''entry_off'', lo_entry_off l), (''n_pinned'', lo_n_pinned l)]"

definition observedContract :: "layout \<Rightarrow> 'h \<Rightarrow> apple_build \<Rightarrow> string \<Rightarrow> 'h apple_contract result" where
  "observedContract l sha build ev =
     (if lo_ready l \<noteq> Number 1 \<or> lo_emission_compiled l \<noteq> Number 0 \<or> lo_pic l \<noteq> Number 1
      then Inl (Js_Error (''requires ready=1, PIC and a compiled no-emitter target observation; '' @ ''bootstrap ready=0 is insufficient''))
      else
        (case find (\<lambda>(k, v). \<not> positive_count v) (layout_fields l) of
           Some (k, _) \<Rightarrow> Inl (Js_Error (''invalid observed layout field: '' @ k))
         | None \<Rightarrow>
             if lo_arch l \<noteq> Str ''aarch64'' \<or> lo_pointerBits l \<noteq> Number 64 \<or> lo_little_endian l \<noteq> Number 1 \<or> js_trim ev = []
             then Inl (Js_Error ''invalid target architecture or missing observation evidence'')
             else Inr \<lparr>ct_abi = lo_abi l, ct_prologue_words = lo_prologue_words l, ct_entry_off = lo_entry_off l,
                    ct_n_pinned = lo_n_pinned l, binarySha256 = sha, arch = ''aarch64'', endian = ''little'', pointerBits = 64,
                    evidence = Str ev, ac_build = build, ac_codeVersion = lo_code_version l\<rparr>))"

section \<open>Inspecting a build\<close>

text \<open>An entry of the compilation database.\<close>

record compile_entry =
  ce_file :: string
  ce_arguments :: "string list option"
  ce_command :: "string option"

text \<open>
  What \<open>inspect\<close> reads: the Meson options, the compilation database, the symbols of the back end's object
  and of the binary, the bytes of the binary, whether \<open>otool\<close> shows a section of images, and the record
  of the linked images.
\<close>

record bootstrap =
  bs_options :: "(string \<times> jsval) list"
  bs_commands :: "compile_entry list"
  bs_object_nm :: string
  bs_binary_nm :: string
  bs_binary :: "8 word list"
  bs_images :: bool
  bs_identity :: "(jsval \<times> jsval \<times> apple_module list option) option"

definition ends_with :: "string \<Rightarrow> string \<Rightarrow> bool" where
  "ends_with suf s = (length suf \<le> length s \<and> drop (length s - length suf) s = suf)"

definition command_words :: "compile_entry \<Rightarrow> string list" where
  "command_words c = (case ce_arguments c of Some as \<Rightarrow> line_words (js_join '' '' as) | None \<Rightarrow> (case ce_command c of Some s \<Rightarrow> line_words s | None \<Rightarrow> []))"

definition check_options :: "(string \<times> jsval) list \<Rightarrow> unit result" where
  "check_options os =
     require (getp os ''jit'' = Bool True \<and> getp os ''jit_emit'' = Bool False \<and> getp os ''guest_arch'' = Str ''arm64'' \<and>
         (getp os ''cli_aot'' = Arr [] \<or> getp os ''cli_aot'' = Str []))
       ''bootstrap Meson options must be native ARM64, no emitter and no CLI images''"

definition check_compiled :: "compile_entry list \<Rightarrow> unit result" where
  "check_compiled cs =
     (case find (\<lambda>c. ends_with ''/guest-arm64/jit.c'' (ce_file c)) cs of
        None \<Rightarrow> Inl (Js_Error ''native backend was not compiled'')
      | Some jit \<Rightarrow>
          (case find (\<lambda>d. ''-D'' @ d \<notin> set (command_words jit)) [''GUEST_ARM64=1'', ''ISH_JIT=1'', ''ISH_JIT_NO_EMIT=1''] of
             Some d \<Rightarrow> Inl (Js_Error (''native compiler missing '' @ d))
           | None \<Rightarrow> Inr ()))"

definition check_defined :: "string \<Rightarrow> string list \<Rightarrow> unit result" where
  "check_defined nm need =
     (case find (\<lambda>s. definedSymbols nm s = None) need of
        Some s \<Rightarrow> Inl (Js_Error (''bootstrap is missing defined symbol: '' @ s))
      | None \<Rightarrow> Inr ())"

definition check_images :: "string \<Rightarrow> string list \<Rightarrow> unit result" where
  "check_images nm modules =
     (case find (\<lambda>n. definedSymbols nm (''ish_aot_module_'' @ n) = None) modules of
        Some n \<Rightarrow> Inl (Js_Error (''missing static image: '' @ n))
      | None \<Rightarrow> Inr ())"

definition NEEDED :: "string list" where
  "NEEDED = [''ish_aot_register'', ''jit_layout_read'', ''jit_layout_describe'', ''jit_aot_prepare_layout'',
     ''ish_app_native_fault_install'']"

definition check_identity :: "bootstrap \<Rightarrow> apple_build \<Rightarrow> unit result" where
  "check_identity b build =
     (case bs_identity b of
        None \<Rightarrow> Inl (Js_Error ''aot-build.json'')
      | Some (on, platform, modules) \<Rightarrow>
          and_then (require (on = Bool True \<and> platform = Str (ab_platform build)) ''invalid linked image identity'') (\<lambda>_.
          and_then (validateAppleModules modules) (\<lambda>ms. check_images (bs_binary_nm b) (map fst ms))))"

definition inspect :: "bootstrap \<Rightarrow> bool \<Rightarrow> apple_build result" where
  "inspect b executionEnabled =
     and_then (check_options (bs_options b)) (\<lambda>_.
     and_then (check_compiled (bs_commands b)) (\<lambda>_.
     and_then (checkNoEmitter (bs_object_nm b)) (\<lambda>_.
     and_then (check_defined (bs_binary_nm b) NEEDED) (\<lambda>_.
     and_then (appleBuildVersion (bs_binary b)) (\<lambda>build.
     and_then (require (ab_platform build \<in> {''ios'', ''ios-simulator''}) ''bootstrap requires an iOS device or simulator build'') (\<lambda>_.
     and_then (require (bs_images b = executionEnabled) ''linked images do not match the requested execution mode'') (\<lambda>_.
     and_then (if executionEnabled then check_identity b build else Inr ()) (\<lambda>_. Inr build))))))))"

fun contains :: "string \<Rightarrow> string \<Rightarrow> bool" where
  "contains x [] = (x = [])"
| "contains x (c # s) = (take (length x) (c # s) = x \<or> contains x s)"

text \<open>
  \<open>bootstrapBuildPaths\<close>: each entry is a target with its settings, if it has any. The build directory and
  the two parts of the binary's path are returned; joining them is left to the path module.
\<close>

definition plain_setting :: "obj option \<Rightarrow> string \<Rightarrow> string result" where
  "plain_setting ss k =
     (case map_option (\<lambda>ss. getp ss k) ss of
        Some (Str s) \<Rightarrow> if s = [] \<or> contains ''$('' s then Inl (Js_Error (''missing/unexpanded Xcode build setting: '' @ k)) else Inr s
      | _ \<Rightarrow> Inl (Js_Error (''missing/unexpanded Xcode build setting: '' @ k)))"

definition TARGET :: string where "TARGET = ''iSH-ARM64-AOT-Bootstrap''"

definition bootstrapBuildPaths :: "(jsval \<times> obj option) list option \<Rightarrow> (string \<times> string \<times> string) result" where
  "bootstrapBuildPaths settings =
     (case settings of
        None \<Rightarrow> Inl (Js_Error ''expected Xcode build-settings array'')
      | Some es \<Rightarrow>
          (case filter (\<lambda>e. fst e = Str TARGET) es of
             [e] \<Rightarrow>
               and_then (plain_setting (snd e) ''MESON_BUILD_DIR'') (\<lambda>a.
               and_then (plain_setting (snd e) ''TARGET_BUILD_DIR'') (\<lambda>b.
               and_then (plain_setting (snd e) ''EXECUTABLE_PATH'') (\<lambda>c. Inr (a, b, c))))
           | _ \<Rightarrow> Inl (Js_Error ''missing/ambiguous bootstrap target settings'')))"

text \<open>The command \<open>inspect-settings\<close>: the paths, and whether images are to be executed.\<close>

definition inspect_settings :: "(jsval \<times> obj option) list option \<Rightarrow> ((string \<times> string \<times> string) \<times> bool) result" where
  "inspect_settings settings =
     and_then (bootstrapBuildPaths settings) (\<lambda>paths.
       let v = (case Option.bind settings (find (\<lambda>e. fst e = Str TARGET)) of
                  Some (_, Some ss) \<Rightarrow> getp ss ''AOT_IMAGE_EXECUTION'' | _ \<Rightarrow> Undef)
       in if v = Str ''0'' \<or> v = Str ''1'' then Inr (paths, v = Str ''1'')
          else Inl (Js_Error ''missing/invalid AOT execution setting''))"

end
