(* ===== verification/Aot_Apple_Props.thy ===== *)
theory Aot_Apple_Props
  imports Aot_Apple
begin

text \<open>
  What the Apple checks accept: exactly the Mach-O executables with one good build version, symbols as
  the linker sees them, and contracts that match the layout they were observed from.
\<close>

section \<open>Words in bytes\<close>

definition le32 :: "nat \<Rightarrow> 8 word list" where
  "le32 n = [of_nat n, of_nat (n div 256), of_nat (n div 65536), of_nat (n div 16777216)]"

lemma length_le32 [simp]: "length (le32 n) = 4"
  by (simp add: le32_def)

lemma u32_le_append: "u32_le (pre @ bs) (length pre + a) = u32_le bs a"
  by (simp add: u32_le_def nth_append add.assoc)

lemma u32_le_short: "a + 4 \<le> length bs \<Longrightarrow> u32_le (bs @ post) a = u32_le bs a"
  by (simp add: u32_le_def nth_append)

lemma byte_sum: "n < 2 ^ 32 \<Longrightarrow> n mod 256 + 256 * (n div 256 mod 256) + 65536 * (n div 65536 mod 256) + 16777216 * (n div 16777216 mod 256) = (n::nat)"
proof -
  assume "n < 2 ^ 32"
  then have "n div 16777216 mod 256 = n div 16777216" by (simp add: less_mult_imp_div_less)
  moreover have "n div 65536 = n div 256 div 256" "n div 16777216 = n div 65536 div 256" by (simp_all add: div_mult2_eq [symmetric])
  moreover have "n = n div 256 * 256 + n mod 256" "n div 256 = n div 256 div 256 * 256 + n div 256 mod 256"
    "n div 65536 = n div 65536 div 256 * 256 + n div 65536 mod 256" by simp_all
  ultimately show ?thesis by linarith
qed

lemma unat_byte: "unat (of_nat n :: 8 word) = n mod 256"
  by (simp add: unat_of_nat)

lemma u32_le32 [simp]: "n < 2 ^ 32 \<Longrightarrow> u32_le (le32 n @ bs) 0 = n"
  using byte_sum [of n] by (simp add: u32_le_def le32_def unat_byte)

lemma le32_bytes: "le32 (unat a + 256 * unat b + 65536 * unat c + 16777216 * unat d) = [a, b, c, d]" for a b c d :: "8 word"
proof -
  have lt: "unat x < 256" for x :: "8 word" using unsigned_less [of x] by simp
  let ?n = "unat a + 256 * unat b + 65536 * unat c + 16777216 * unat d"
  have 1: "?n = unat a + 256 * (unat b + 256 * (unat c + 256 * unat d))" by simp
  have 2: "?n div 256 = unat b + 256 * (unat c + 256 * unat d)" unfolding 1 using lt [of a] by simp
  have 3: "?n div 65536 = unat c + 256 * unat d"
  proof -
    have "?n div 65536 = ?n div 256 div 256" by (simp add: div_mult2_eq [symmetric])
    then show ?thesis unfolding 2 using lt [of b] by simp
  qed
  have 4: "?n div 16777216 = unat d"
  proof -
    have "?n div 16777216 = ?n div 65536 div 256" by (simp add: div_mult2_eq [symmetric])
    then show ?thesis unfolding 3 using lt [of c] by simp
  qed
  have w: "(of_nat (x + 256 * y) :: 8 word) = of_nat x" for x y
  proof -
    have "(of_nat 256 :: 8 word) = 0" by (simp add: word_of_nat_eq_0_iff)
    then show ?thesis by (simp only: of_nat_add of_nat_mult mult_zero_left add_0_right)
  qed
  show ?thesis unfolding le32_def 2 3 4 unfolding 1 w by simp
qed

lemma le32_u32_le: "a + 4 \<le> length bs \<Longrightarrow> le32 (u32_le bs a) = take 4 (drop a bs)"
proof -
  assume l: "a + 4 \<le> length bs"
  then have "take 4 (drop a bs) = [bs ! a, bs ! (a + 1), bs ! (a + 2), bs ! (a + 3)]"
    by (intro nth_equalityI) (auto simp: nth_Cons less_Suc_eq numeral_eq_Suc split: nat.splits)
  then show ?thesis by (simp add: u32_le_def le32_bytes)
qed

lemma u32_le_lt: "u32_le bs a < 2 ^ 32"
proof -
  have "unat x < 256" for x :: "8 word" using unsigned_less [of x] by simp
  then have "unat x \<le> 255" for x :: "8 word" by (simp add: less_Suc_eq_le [symmetric])
  from this [of "bs ! a"] this [of "bs ! (a + 1)"] this [of "bs ! (a + 2)"] this [of "bs ! (a + 3)"]
  show ?thesis by (simp add: u32_le_def)
qed

section \<open>Mach-O files\<close>

text \<open>A load command is its number and its body; a file is a header, the commands, and the rest.\<close>

type_synonym command = "nat \<times> 8 word list"

definition command_ok :: "command \<Rightarrow> bool" where
  "command_ok c \<longleftrightarrow> fst c < 2 ^ 32 \<and> 8 + length (snd c) < 2 ^ 32"

definition encode_command :: "command \<Rightarrow> 8 word list" where
  "encode_command c = le32 (fst c) @ le32 (8 + length (snd c)) @ snd c"

definition encode_commands :: "command list \<Rightarrow> 8 word list" where
  "encode_commands cs = concat (map encode_command cs)"

definition encode_macho :: "8 word list \<Rightarrow> command list \<Rightarrow> 8 word list" where
  "encode_macho flags cs =
     le32 0xfeedfacf @ le32 0x0100000c @ le32 0 @ le32 2 @ le32 (length cs) @ le32 (length (encode_commands cs)) @ flags @
     encode_commands cs"

text \<open>The build version the commands give.\<close>

fun builds :: "apple_build option \<Rightarrow> command list \<Rightarrow> apple_build option result" where
  "builds b [] = Inr b"
| "builds b ((c, body) # cs) =
     (if c \<noteq> BUILD_VERSION then builds b cs
      else if length body < 16 \<or> b \<noteq> None then Inl (Js_Error ''invalid/duplicate LC_BUILD_VERSION'')
      else case platform_name (u32_le body 0) of
             None \<Rightarrow> Inl (Js_Error ''unsupported Apple platform'')
           | Some pl \<Rightarrow> builds (Some \<lparr>ab_platform = pl, ab_minimumOS = os_version (u32_le body 4), ab_sdk = os_version (u32_le body 8)\<rparr>) cs)"

lemma encode_commands_simps [simp]:
  "encode_commands [] = []" "encode_commands (c # cs) = encode_command c @ encode_commands cs"
  by (simp_all add: encode_commands_def)

lemma length_encode_command [simp]: "length (encode_command c) = 8 + length (snd c)"
  by (simp add: encode_command_def)

lemma getUint32_at: "a + 4 \<le> length bs \<Longrightarrow> getUint32 bs a = Inr (u32_le bs a)"
  by (simp add: getUint32_def)

lemma u32_le_at:
  assumes "a + 4 \<le> length bs"
  shows "u32_le (pre @ bs @ post) (length pre + a) = u32_le bs a"
  using assms by (simp add: u32_le_append u32_le_short)

lemma u32_le_take_drop:
  assumes "k + 4 \<le> m" "a + m \<le> length bs"
  shows "u32_le (take m (drop a bs)) k = u32_le bs (a + k)"
proof -
  have "take a bs @ take m (drop a bs) @ drop m (drop a bs) = bs" by (metis append_take_drop_id)
  then show ?thesis using u32_le_at [of k "take m (drop a bs)" "take a bs" "drop m (drop a bs)"] assms by simp
qed

lemma command_fields:
  fixes pre post :: "8 word list"
  assumes "command_ok c"
  defines "bs \<equiv> pre @ encode_command c @ post"
  shows "getUint32 bs (length pre) = Inr (fst c)" "getUint32 bs (length pre + 4) = Inr (8 + length (snd c))"
    "k + 4 \<le> length (snd c) \<Longrightarrow> getUint32 bs (length pre + (8 + k)) = Inr (u32_le (snd c) k)"
proof -
  have l: "length bs = length pre + (8 + length (snd c)) + length post" by (simp add: bs_def)
  have e: "encode_command c = le32 (fst c) @ le32 (8 + length (snd c)) @ snd c" by (simp add: encode_command_def)
  have "u32_le bs (length pre + 0) = fst c" unfolding bs_def e u32_le_append append_assoc using assms(1) by (simp add: command_ok_def)
  then show "getUint32 bs (length pre) = Inr (fst c)" using l by (simp add: getUint32_def)
  have "u32_le ((pre @ le32 (fst c)) @ le32 (8 + length (snd c)) @ snd c @ post) (length (pre @ le32 (fst c)) + 0) = 8 + length (snd c)"
    unfolding u32_le_append using assms(1) by (simp add: command_ok_def)
  then have "u32_le bs (length pre + 4) = 8 + length (snd c)" by (simp add: bs_def e)
  then show "getUint32 bs (length pre + 4) = Inr (8 + length (snd c))" using l by (simp add: getUint32_def)
  show "getUint32 bs (length pre + (8 + k)) = Inr (u32_le (snd c) k)" if k: "k + 4 \<le> length (snd c)"
  proof -
    have "u32_le ((pre @ le32 (fst c) @ le32 (8 + length (snd c))) @ snd c @ post) (length (pre @ le32 (fst c) @ le32 (8 + length (snd c))) + k) = u32_le (snd c) k"
      by (rule u32_le_at [OF k])
    then show ?thesis using l k by (simp add: getUint32_def bs_def e add.assoc)
  qed
qed

lemma load_commands_encoded:
  assumes "list_all command_ok cs"
  shows "load_commands (pre @ encode_commands cs @ post) (length pre + length (encode_commands cs)) (length pre) (length cs) b =
    and_then (builds b cs) (\<lambda>b. Inr (length pre + length (encode_commands cs), b))"
  using assms
proof (induction cs arbitrary: pre b)
  case (Cons c cs)
  obtain n body where c: "c = (n, body)" by force
  have ok: "command_ok c" using Cons.prems by simp
  note f = command_fields [where c = c and pre = pre and post = "encode_commands cs @ post", OF ok]
  have f0: "k + 4 \<le> length body \<Longrightarrow> getUint32 (pre @ encode_command c @ encode_commands cs @ post) (length pre + (8 + k)) = Inr (u32_le body k)" for k
    using f(3) [of k] c by simp
  note IH = Cons.IH [of "pre @ encode_command c"]
  have bc: "build_command (pre @ encode_command c @ encode_commands cs @ post) (length pre) (8 + length body) b =
      (if length body < 16 \<or> b \<noteq> None then Inl (Js_Error ''invalid/duplicate LC_BUILD_VERSION'')
       else case platform_name (u32_le body 0) of
         None \<Rightarrow> Inl (Js_Error ''unsupported Apple platform'')
       | Some pl \<Rightarrow> Inr \<lparr>ab_platform = pl, ab_minimumOS = os_version (u32_le body 4), ab_sdk = os_version (u32_le body 8)\<rparr>)"
    using f0 [of 0] f0 [of 4] f0 [of 8] by (auto simp: build_command_def split: option.splits)
  show ?case using f IH bc Cons.prems c by (auto simp: add.assoc split: option.splits)
qed simp

lemma take_drop_Cons:
  assumes "take m (drop a bs) = xs" "take k (drop (a + m) bs) = ys" "length xs = m"
  shows "take (m + k) (drop a bs) = xs @ ys"
proof -
  have "take (m + k) (drop a bs) = take m (drop a bs) @ take k (drop m (drop a bs))" by (rule take_add)
  then show ?thesis using assms by (simp add: add.commute)
qed

lemma load_commands_decoded:
  assumes "load_commands bs fin off n b = Inr (off', b')" "fin \<le> length bs"
  shows "\<exists>cs. length cs = n \<and> list_all command_ok cs \<and> off' = off + length (encode_commands cs) \<and>
    take (length (encode_commands cs)) (drop off bs) = encode_commands cs \<and> builds b cs = Inr b'"
  using assms(1)
proof (induction n arbitrary: off b)
  case 0
  then show ?case by (intro exI [of _ "[]"]) simp
next
  case (Suc n)
  define c where "c = u32_le bs off"
  define sz where "sz = u32_le bs (off + 4)"
  define body where "body = take (sz - 8) (drop (off + 8) bs)"
  have g: "off + 8 \<le> fin" using Suc.prems by (auto split: if_splits)
  then have r: "getUint32 bs off = Inr c" "getUint32 bs (off + 4) = Inr sz"
    using assms(2) by (simp_all add: getUint32_def c_def sz_def)
  have s: "8 \<le> sz" "off + sz \<le> fin" using Suc.prems g r by (auto simp: not_less split: if_splits)
  have len: "length body = sz - 8" using s assms(2) by (simp add: body_def)
  obtain b1 where b1: "(if c = BUILD_VERSION then and_then (build_command bs off sz b) (\<lambda>b. Inr (Some b)) else Inr b) = Inr b1"
      "load_commands bs fin (off + sz) n b1 = Inr (off', b')"
    using Suc.prems g r s by (auto simp: and_then_Inr_iff split: if_splits)
  from Suc.IH [OF b1(2)] obtain cs where cs: "length cs = n" "list_all command_ok cs" "off' = off + sz + length (encode_commands cs)"
      "take (length (encode_commands cs)) (drop (off + sz) bs) = encode_commands cs" "builds b1 cs = Inr b'" by blast
  have ok: "command_ok (c, body)" using u32_le_lt [of bs] len s(1) by (simp add: command_ok_def c_def sz_def)
  have "take 4 (drop off bs) = le32 c" "take 4 (drop (off + 4) bs) = le32 sz" "take (sz - 8) (drop (off + 8) bs) = body"
    using g assms(2) by (simp_all add: c_def sz_def le32_u32_le body_def)
  then have "take (4 + (4 + (sz - 8))) (drop off bs) = le32 c @ le32 sz @ body"
    by (intro take_drop_Cons) (simp_all add: take_drop_Cons add.assoc)
  then have enc: "take sz (drop off bs) = encode_command (c, body)" using s(1) len by (simp add: encode_command_def)
  then have "take (sz + length (encode_commands cs)) (drop off bs) = encode_commands ((c, body) # cs)"
    using cs(4) s(1) len take_drop_Cons [of sz off bs "encode_command (c, body)"] by simp
  moreover have "u32_le body k = u32_le bs (off + 8 + k)" if "k + 4 \<le> length body" for k
    using that len s assms(2) by (simp add: body_def u32_le_take_drop)
  then have "builds b ((c, body) # cs) = Inr b'"
    using b1(1) cs(5) len s(1) assms(2)
    by (auto simp: build_command_def and_then_Inr_iff getUint32_def add.assoc split: if_splits option.splits)
  ultimately show ?case using cs ok len s(1) by (intro exI [of _ "(c, body) # cs"]) simp
qed

text \<open>The six words of the header.\<close>

lemma words_at:
  assumes "i < length ns" "list_all (\<lambda>n. n < 2 ^ 32) ns"
  shows "u32_le (concat (map le32 ns) @ post) (4 * i) = ns ! i"
  using assms
proof (induction ns arbitrary: i)
  case (Cons n ns)
  show ?case
  proof (cases i)
    case (Suc j)
    have "u32_le (le32 n @ concat (map le32 ns) @ post) (length (le32 n) + 4 * j) = ns ! j"
      unfolding u32_le_append using Cons Suc by simp
    then show ?thesis using Suc by simp
  qed (use Cons.prems in simp)
qed simp

lemma take_words:
  "4 * n \<le> length bs \<Longrightarrow> take (4 * n) bs = concat (map (\<lambda>i. le32 (u32_le bs (4 * i))) [0..<n])"
proof (induction n)
  case (Suc n)
  have "take (4 * n + 4) (drop 0 bs) = concat (map (\<lambda>i. le32 (u32_le bs (4 * i))) [0..<n]) @ le32 (u32_le bs (4 * n))"
    using Suc by (intro take_drop_Cons) (simp_all add: le32_u32_le [symmetric] flip: Suc.IH)
  then show ?case by (simp add: add.commute)
qed simp

lemma header_words:
  assumes "24 \<le> length bs"
  shows "bs = concat (map le32 [u32_le bs 0, u32_le bs 4, u32_le bs 8, u32_le bs 12, u32_le bs 16, u32_le bs 20]) @ drop 24 bs"
proof -
  have "take 24 bs = concat (map le32 [u32_le bs 0, u32_le bs 4, u32_le bs 8, u32_le bs 12, u32_le bs 16, u32_le bs 20])"
    using take_words [of 6 bs] assms by (simp add: upt_rec)
  then show ?thesis by (metis append_take_drop_id)
qed

lemma encode_macho_words:
  "encode_macho flags cs = concat (map le32 [0xfeedfacf, 0x0100000c, 0, 2, length cs, length (encode_commands cs)]) @ flags @ encode_commands cs"
  by (simp add: encode_macho_def)

lemma appleBuildVersion_encoded:
  assumes "length flags = 8" "list_all command_ok cs" "length cs < 2 ^ 32" "length (encode_commands cs) < 2 ^ 32"
  shows "appleBuildVersion (encode_macho flags cs @ rest) = (case builds None cs of
      Inl e \<Rightarrow> Inl e | Inr None \<Rightarrow> Inl (Js_Error ''missing/inconsistent LC_BUILD_VERSION'') | Inr (Some b) \<Rightarrow> Inr b)"
proof -
  let ?bs = "encode_macho flags cs @ rest"
  let ?ns = "[0xfeedfacf, 0x0100000c, 0, 2, length cs, length (encode_commands cs)]"
  have w: "u32_le ?bs (4 * i) = ?ns ! i" if "i < 6" for i
    using words_at [of i ?ns "flags @ encode_commands cs @ rest"] that assms(3,4) by (simp add: encode_macho_words)
  have l: "length ?bs = 32 + length (encode_commands cs) + length rest" using assms(1) by (simp add: encode_macho_def)
  have f: "u32_le ?bs 0 = 0xfeedfacf" "u32_le ?bs 4 = 0x0100000c" "u32_le ?bs 8 = 0" "u32_le ?bs 12 = 2" "u32_le ?bs 16 = length cs"
      "u32_le ?bs 20 = length (encode_commands cs)"
    using w [of 0] w [of 1] w [of 2] w [of 3] w [of 4] w [of 5] by simp_all
  define pre where "pre = concat (map le32 ?ns) @ flags"
  have bs: "?bs = pre @ encode_commands cs @ rest" "length pre = 32" using assms(1) by (simp_all add: pre_def encode_macho_words)
  show ?thesis
    using load_commands_encoded [OF assms(2), of pre rest None] l f bs(2)
    unfolding bs(1) [symmetric]
    by (simp add: appleBuildVersion_def requireAppleBinary_def getUint32_def Let_def split: sum.splits option.splits)
qed

lemma build_command_in_bounds: "off + sz \<le> length bs \<Longrightarrow> build_command bs off sz b \<noteq> Inl Range_Error"
  by (auto simp: build_command_def getUint32_def split: option.splits)

lemma load_commands_in_bounds: "fin \<le> length bs \<Longrightarrow> load_commands bs fin off n b \<noteq> Inl Range_Error"
proof (induction n arbitrary: off b)
  case (Suc n)
  show ?case
  proof (cases "off + 8 \<le> fin \<and> 8 \<le> u32_le bs (off + 4) \<and> off + u32_le bs (off + 4) \<le> fin")
    case True
    then have "build_command bs off (u32_le bs (off + 4)) b \<noteq> Inl Range_Error" using Suc.prems by (intro build_command_in_bounds) simp
    then show ?thesis using True Suc
      by (cases "build_command bs off (u32_le bs (off + 4)) b") (auto simp: getUint32_def)
  qed (use Suc.prems in \<open>auto simp: getUint32_def\<close>)
qed simp

text \<open>
  C24. Which executables are accepted. The build version of a file is read if and only if the file is a
  64-bit ARM Mach-O executable: the right header, exactly the announced number of load commands
  filling exactly the announced space, among them one build version command, long enough and for a
  known platform, whose platform and versions are the result. What follows the load commands does
  not matter. Every other sequence of bytes is refused with one of the messages, never by reading
  past its end.
\<close>

theorem apple_build_version_exact:
  "(appleBuildVersion bs = Inr b \<longleftrightarrow>
     (\<exists>flags cs rest. bs = encode_macho flags cs @ rest \<and> length flags = 8 \<and> list_all command_ok cs \<and> length cs < 2 ^ 32 \<and>
        length (encode_commands cs) < 2 ^ 32 \<and> builds None cs = Inr (Some b))) \<and>
   appleBuildVersion bs \<noteq> Inl Range_Error"
proof (intro conjI iffI)
  assume "\<exists>flags cs rest. bs = encode_macho flags cs @ rest \<and> length flags = 8 \<and> list_all command_ok cs \<and> length cs < 2 ^ 32 \<and>
    length (encode_commands cs) < 2 ^ 32 \<and> builds None cs = Inr (Some b)"
  then show "appleBuildVersion bs = Inr b" using appleBuildVersion_encoded by auto
next
  assume a: "appleBuildVersion bs = Inr b"
  define n where "n = u32_le bs 16"
  define sz where "sz = u32_le bs 20"
  have h: "32 \<le> length bs" "u32_le bs 0 = 0xfeedfacf" "u32_le bs 4 = 0x0100000c"
    using a by (auto simp: appleBuildVersion_def requireAppleBinary_def split: if_splits)
  then have h2: "u32_le bs 8 = 0" "u32_le bs 12 = 2" "32 + sz \<le> length bs" "load_commands bs (32 + sz) 32 n None = Inr (32 + sz, Some b)"
    using a by (auto simp: appleBuildVersion_def requireAppleBinary_def getUint32_def and_then_Inr_iff n_def sz_def Let_def
        split: if_splits option.splits)
  from load_commands_decoded [OF h2(4,3)] obtain cs where cs: "length cs = n" "list_all command_ok cs" "sz = length (encode_commands cs)"
      "take sz (drop 32 bs) = encode_commands cs" "builds None cs = Inr (Some b)" by auto
  have "drop 24 bs = take 8 (drop 24 bs) @ encode_commands cs @ drop (32 + sz) bs"
    using cs(4) append_take_drop_id [of 8 "drop 24 bs"] append_take_drop_id [of sz "drop 32 bs"] by (simp add: add.commute)
  then have "bs = encode_macho (take 8 (drop 24 bs)) cs @ drop (32 + sz) bs"
    using header_words [of bs] h h2(1,2) cs(1,3) unfolding encode_macho_words n_def sz_def by simp
  moreover have "n < 2 ^ 32" "sz < 2 ^ 32" using u32_le_lt by (simp_all add: n_def sz_def)
  ultimately show "\<exists>flags cs rest. bs = encode_macho flags cs @ rest \<and> length flags = 8 \<and> list_all command_ok cs \<and> length cs < 2 ^ 32 \<and>
      length (encode_commands cs) < 2 ^ 32 \<and> builds None cs = Inr (Some b)"
    using cs h(1) by (intro exI [of _ "take 8 (drop 24 bs)"] exI [of _ cs] exI [of _ "drop (32 + sz) bs"]) simp
next
  show "appleBuildVersion bs \<noteq> Inl Range_Error"
  proof (cases "32 \<le> length bs \<and> 32 + u32_le bs 20 \<le> length bs")
    case True
    then have "load_commands bs (32 + u32_le bs 20) 32 (u32_le bs 16) None \<noteq> Inl Range_Error" by (intro load_commands_in_bounds) simp
    then show ?thesis using True
      by (cases "load_commands bs (32 + u32_le bs 20) 32 (u32_le bs 16) None")
        (auto simp: appleBuildVersion_def requireAppleBinary_def getUint32_def Let_def split: option.splits if_splits)
  qed (auto simp: appleBuildVersion_def requireAppleBinary_def getUint32_def Let_def)
qed

section \<open>Symbols, modules and contracts\<close>

lemma fold_strip:
  "fold (\<lambda>n m. m(strip_underscore n \<mapsto> n)) ns m k =
     (case filter (\<lambda>n. strip_underscore n = k) ns of [] \<Rightarrow> m k | xs \<Rightarrow> Some (last xs))"
proof (induction ns arbitrary: m)
  case (Cons n ns)
  then show ?case by (cases "filter (\<lambda>n. strip_underscore n = k) ns") auto
qed simp

lemma fold_plain:
  "fold (\<lambda>n m. if underscored n then m else m(n \<mapsto> n)) ns m k = (if k \<in> set ns \<and> \<not> underscored k then Some k else m k)"
  by (induction ns arbitrary: m) auto

lemma strip_underscore_eq:
  "strip_underscore n = k \<longleftrightarrow> n = CHR ''_'' # k \<or> (n = k \<and> \<not> underscored k)"
  by (cases n) (auto simp: strip_underscore_def underscored_def)

text \<open>
  A symbol is found under its name in C: as it is, or with the underscore that Mach-O puts before it; the
  plain one is preferred.
\<close>

lemma definedSymbols_lookup:
  "definedSymbols nm k =
     (if k \<in> set (nm_names nm) \<and> \<not> underscored k then Some k
      else if CHR ''_'' # k \<in> set (nm_names nm) then Some (CHR ''_'' # k) else None)"
proof -
  let ?xs = "filter (\<lambda>n. strip_underscore n = k) (nm_names nm)"
  have "set ?xs = {n \<in> set (nm_names nm). n = CHR ''_'' # k \<or> n = k \<and> \<not> underscored k}" by (auto simp: strip_underscore_eq)
  then have "?xs \<noteq> [] \<longleftrightarrow> CHR ''_'' # k \<in> set (nm_names nm) \<or> (k \<in> set (nm_names nm) \<and> \<not> underscored k)"
    and l: "?xs \<noteq> [] \<Longrightarrow> \<not> (k \<in> set (nm_names nm) \<and> \<not> underscored k) \<Longrightarrow> last ?xs = CHR ''_'' # k"
    using last_in_set [of ?xs] by (auto simp: strip_underscore_eq simp flip: set_empty)
  then show ?thesis by (cases ?xs) (auto simp: definedSymbols_def Let_def fold_strip fold_plain)
qed

lemma checkNoEmitter_exact:
  "checkNoEmitter symbols = Inr () \<longleftrightarrow>
     (\<forall>line \<in> set (js_split (char_of (10::nat)) symbols). \<forall>s. line_symbol line = Some s \<longrightarrow> s \<notin> set EMITTERS)"
proof -
  have "checkNoEmitter symbols = Inr () \<longleftrightarrow>
      find (\<lambda>s. s \<in> set EMITTERS) (List.map_filter line_symbol (js_split (char_of (10::nat)) symbols)) = None"
    by (auto simp: checkNoEmitter_def split: option.splits)
  then show ?thesis by (auto simp: find_None_iff List.map_filter_def)
qed

text \<open>A contract that was observed matches exactly the recordings made with the same layout, for the same binary.\<close>

lemma observed_contract_matches:
  assumes "observedContract l sha build ev = Inr c"
  shows "matchContract h (contract.truncate c) b = Inr () \<longleftrightarrow>
     b = sha \<and> h_abi h = lo_abi l \<and> h_prologue_words h = lo_prologue_words l \<and> h_entry_off h = lo_entry_off l \<and> h_n_pinned h = lo_n_pinned l"
proof -
  have "js_trim ev \<noteq> []" "c = \<lparr>ct_abi = lo_abi l, ct_prologue_words = lo_prologue_words l, ct_entry_off = lo_entry_off l,
      ct_n_pinned = lo_n_pinned l, binarySha256 = sha, arch = ''aarch64'', endian = ''little'', pointerBits = 64,
      evidence = Str ev, ac_build = build, ac_codeVersion = lo_code_version l\<rparr>"
    using assms by (auto simp: observedContract_def split: if_splits option.splits)
  moreover from this have "ev \<noteq> []" by (auto simp: js_trim_def)
  ultimately show ?thesis by (auto simp: matchContract_def and_then_Inr_iff contract.defs)
qed

text \<open>
  An inspected build has the back end compiled without an emitter, and linked images of one of the three
  known module sets only if it is to run them.
\<close>

lemma inspect_sound:
  assumes "inspect b ex = Inr build"
  shows "checkNoEmitter (bs_object_nm b) = Inr ()" "bs_images b = ex" "ab_platform build \<in> {''ios'', ''ios-simulator''}"
    "\<forall>s \<in> set NEEDED. definedSymbols (bs_binary_nm b) s \<noteq> None"
    "ex \<Longrightarrow> \<exists>ms \<in> {appleBaseModules, appleLegacyGoModules, appleModules}. \<forall>m \<in> set ms. definedSymbols (bs_binary_nm b) (''ish_aot_module_'' @ fst m) \<noteq> None"
proof -
  show "checkNoEmitter (bs_object_nm b) = Inr ()" "bs_images b = ex" "ab_platform build \<in> {''ios'', ''ios-simulator''}"
    "\<forall>s \<in> set NEEDED. definedSymbols (bs_binary_nm b) s \<noteq> None"
    using assms by (auto simp: inspect_def and_then_Inr_iff check_defined_def find_None_iff split: if_splits option.splits)
  assume ex
  then have "check_identity b build = Inr ()" using assms by (auto simp: inspect_def and_then_Inr_iff)
  then obtain ms e where v: "validateAppleModules ms = Inr e" "check_images (bs_binary_nm b) (map fst e) = Inr ()"
    by (auto simp: check_identity_def and_then_Inr_iff split: option.splits)
  from v(1) have "e \<in> {appleBaseModules, appleLegacyGoModules, appleModules}"
    by (auto simp: validateAppleModules_def Let_def split: if_splits option.splits)
  moreover have "definedSymbols (bs_binary_nm b) (''ish_aot_module_'' @ fst m) \<noteq> None" if "m \<in> set e" for m
    using v(2) that by (auto simp: check_images_def find_None_iff split: option.splits)
  ultimately show "\<exists>ms \<in> {appleBaseModules, appleLegacyGoModules, appleModules}. \<forall>m \<in> set ms.
      definedSymbols (bs_binary_nm b) (''ish_aot_module_'' @ fst m) \<noteq> None" by blast
qed

end
