(* ===== verification/Aot_Record.thy ===== *)
theory Aot_Record
  imports Aot_Apple
begin

text \<open>
  Recordings of translated code: what \<open>tools/jit_aot/targeted.ts\<close> and \<open>record-apple.ts\<close> accept from the
  recorder and write into their manifests, and what \<open>kit.ts\<close> (\<open>checkRecordings\<close>, \<open>extractModules\<close>, \<open>generate\<close>) and
  \<open>archive-apple.ts\<close> check before they use them. The programs that are run, the files they leave and the
  hash are parameters.
\<close>

section \<open>Recordings\<close>

text \<open>
  A line of a recording, parsed: a header, or a translation with its module, the names of its keys and
  the segments, each with its relocations (kind and symbol). \<open>hd_abi\<close> is absent where the header has none.
\<close>

record header =
  hd_abi :: "nat option"
  hd_layout :: rec_header
  hd_exhausted :: jsval

record row =
  row_header :: "header option"
  row_mod :: "string option"
  row_keysym :: "string list"
  row_segs :: "(string \<times> string) list list option"

text \<open>\<open>n.toString(16).padStart(8, '0')\<close>.\<close>

fun hex_text :: "nat \<Rightarrow> string" where
  "hex_text n = (let d = char_of (if n mod 16 < 10 then 48 + n mod 16 else 87 + n mod 16)
     in if n < 16 then [d] else hex_text (n div 16) @ [d])"

declare hex_text.simps [simp del]

definition hex8 :: "nat \<Rightarrow> string" where
  "hex8 n = (let s = hex_text n in replicate (8 - length s) (CHR ''0'') @ s)"

definition has_segments :: "row \<Rightarrow> bool" where
  "has_segments t = (case row_segs t of Some (s # ss) \<Rightarrow> True | _ \<Rightarrow> False)"

text \<open>The symbols a recording needs; a translation without segments makes the loop throw.\<close>

definition row_symbols :: "row \<Rightarrow> string list result" where
  "row_symbols t =
     (case row_segs t of
        None \<Rightarrow> Inl (Js_Error ''TypeError'')
      | Some segs \<Rightarrow> Inr (row_keysym t @ map snd (filter (\<lambda>r. fst r \<noteq> ''exit'') (concat segs))))"

fun required_symbols :: "row list \<Rightarrow> string list \<Rightarrow> string list result" where
  "required_symbols [] req = Inr req"
| "required_symbols (t # ts) req = and_then (row_symbols t) (\<lambda>ns. required_symbols ts (req @ ns))"

definition resolve_symbols :: "(string \<Rightarrow> string option) \<Rightarrow> string list \<Rightarrow> unit result" where
  "resolve_symbols syms req =
     (case find (\<lambda>n. n \<noteq> ''@region'' \<and> syms n = None) req of
        Some n \<Rightarrow> Inl (Js_Error (''unresolved target symbol: '' @ n))
      | None \<Rightarrow> Inr ())"

section \<open>The manifest of a recording\<close>

record 'h image =
  im_name :: string
  im_module :: string
  im_sha256 :: 'h
  im_translations :: nat
  im_imageSha256 :: 'h
  im_recordingSha256 :: 'h

record 'h rec_manifest =
  rm_format :: string
  rm_abi :: string
  rm_workloadSha256 :: 'h
  rm_images :: "'h image list"

text \<open>The directory and the guest that a manifest speaks of.\<close>

record 'h rec_dir =
  rd_rows :: "string \<Rightarrow> row list"
  rd_recording_sha :: "string \<Rightarrow> 'h"
  rd_image_sha :: "string \<Rightarrow> 'h"
  rd_module_sha :: "string \<Rightarrow> 'h"
  rd_workload_sha :: 'h

definition path_char :: "char \<Rightarrow> bool" where
  "path_char c = (let n = of_char c :: nat in 65 \<le> n \<and> n \<le> 90 \<or> 97 \<le> n \<and> n \<le> 122 \<or> 48 \<le> n \<and> n \<le> 57 \<or> c \<in> set ''/_.-'')"

text \<open>\<open>/^\/[A-Za-z0-9/_.-]+$/\<close> and no parent directory.\<close>

definition safe_module :: "string \<Rightarrow> bool" where
  "safe_module p =
     (case p of
        c # cs \<Rightarrow> c = CHR ''/'' \<and> cs \<noteq> [] \<and> list_all path_char cs \<and> ''..'' \<notin> set (js_split (CHR ''/'') p)
      | [] \<Rightarrow> False)"

fun scan_recording :: "string \<Rightarrow> row list \<Rightarrow> header option \<times> nat \<Rightarrow> (header option \<times> nat) result" where
  "scan_recording mod' [] hc = Inr hc"
| "scan_recording mod' (t # ts) (h, n) =
     (case row_header t of
        Some h' \<Rightarrow> if h \<noteq> None \<or> n \<noteq> 0 then Inl (Js_Error ''duplicate/late recording header'') else scan_recording mod' ts (Some h', n)
      | None \<Rightarrow> if row_mod t \<noteq> Some mod' then Inl (Js_Error ''wrong recording module'') else scan_recording mod' ts (h, n + 1))"

definition check_image :: "'h rec_dir \<Rightarrow> string \<Rightarrow> 'h image \<Rightarrow> unit result" where
  "check_image d abi i =
     and_then (require (safe_module (im_module i)) ''unsafe module'') (\<lambda>_.
     and_then (require (rd_recording_sha d (im_name i) = im_recordingSha256 i \<and> rd_module_sha d (im_module i) = im_sha256 i \<and>
         rd_image_sha d (im_name i) = im_imageSha256 i) ''recording identity mismatch'') (\<lambda>_.
     and_then (scan_recording (im_module i) (rd_rows d (im_name i)) (None, 0)) (\<lambda>(h, n).
       require (Option.bind h (\<lambda>h. map_option hex8 (hd_abi h)) = Some abi \<and> n = im_translations i \<and> n \<noteq> 0) ''ABI/count mismatch'')))"

fun check_images_rec :: "'h rec_dir \<Rightarrow> string \<Rightarrow> 'h image list \<Rightarrow> unit result" where
  "check_images_rec d abi [] = Inr ()"
| "check_images_rec d abi (i # is) = and_then (check_image d abi i) (\<lambda>_. check_images_rec d abi is)"

definition checkRecordings :: "'h rec_dir \<Rightarrow> 'h rec_manifest \<Rightarrow> unit result" where
  "checkRecordings d m =
     and_then (require (rm_format m = ''elf'') ''need completed targeted ELF recordings'') (\<lambda>_.
     and_then (moduleNames (Some (map im_name (rm_images m)))) (\<lambda>_.
     and_then (check_images_rec d (rm_abi m) (rm_images m)) (\<lambda>_.
       require (rd_workload_sha d = rm_workloadSha256 m) ''workload mismatch'')))"

section \<open>Recording the baseline\<close>

text \<open>
  The time limit of the environment, and what the programs that \<open>targeted.ts\<close> runs leave behind: the exit status and output of the inventory, of
  the lookup of the Python library and of Bun; which modules exist; and for each module the status and
  output of the recorder, the recording, the status of the generator, and the hashes.
\<close>

record 'h target_env =
  te_timeout :: num_arg
  te_discover :: "int \<times> string"
  te_python :: "string \<Rightarrow> int \<times> string"
  te_bun :: "(int \<times> string) option"
  te_exists :: "string \<Rightarrow> bool"
  te_run :: "string \<Rightarrow> int \<times> string"
  te_rows :: "string \<Rightarrow> row list"
  te_generate :: "string \<Rightarrow> int"
  te_before :: "string \<Rightarrow> 'h"
  te_after :: "string \<Rightarrow> 'h"
  te_recording_sha :: "string \<Rightarrow> 'h"
  te_image_sha :: "string \<Rightarrow> 'h"
  te_workload_sha :: 'h

definition text_lines :: "string \<Rightarrow> string list" where
  "text_lines s = js_split (char_of (10::nat)) s"

definition version_char :: "char \<Rightarrow> bool" where
  "version_char c = (js_digit c \<or> c = CHR ''.'')"

text \<open>\<open>libpython[0-9.]+\.so(?:\.[0-9.]+)?\<close>: the digits and dots up to the last dot before \<open>so\<close>.\<close>

definition python_library :: "string \<Rightarrow> bool" where
  "python_library s =
     (let d = takeWhile version_char (drop 9 s); r = dropWhile version_char (drop 9 s); t = drop 2 r
      in take 9 s = ''libpython'' \<and> 2 \<le> length d \<and> last d = CHR ''.'' \<and> take 2 r = ''so'' \<and>
         (t = [] \<or> (hd t = CHR ''.'' \<and> tl t \<noteq> [] \<and> list_all version_char (tl t))))"

definition find_python :: "string \<Rightarrow> string option" where
  "find_python out =
     map_option (drop 6) (find (\<lambda>l. take 6 l = ''PYLIB='' \<and> python_library (drop 6 l)) (text_lines out))"

definition require_ok :: "int \<Rightarrow> string \<Rightarrow> unit result" where
  "require_ok status label = require (status = 0) (label @ '': exit'')"

definition discover_modules :: "'h target_env \<Rightarrow> (string \<times> string) list result" where
  "discover_modules e =
     and_then (require_ok (fst (te_discover e)) ''inventory'') (\<lambda>_.
       case find_python (snd (te_discover e)) of
         None \<Rightarrow> Inl (Js_Error ''cannot discover Python library'')
       | Some lib \<Rightarrow>
           let py = te_python e (''/usr/lib/'' @ lib)
           in and_then (require_ok (fst py) ''Python canonical path'') (\<lambda>_.
              let paths = filter (\<lambda>s. take 1 s = ''/'') (text_lines (snd (te_discover e))); p = js_trim (snd py)
              in and_then (require (length paths = 3 \<and> take 9 p = ''/usr/lib/'') ''invalid module inventory'') (\<lambda>_.
                 and_then (case te_bun e of
                     None \<Rightarrow> Inr []
                   | Some (st, out) \<Rightarrow>
                       and_then (require_ok st ''Bun inventory'') (\<lambda>_.
                       and_then (require (js_trim out = ''1.4.2'') ''Bun training requires exact version 1.4.2'') (\<lambda>_.
                         Inr [(''bun'', ''/usr/local/bin/bun'')]))) (\<lambda>bun.
                   Inr ([(''musl'', paths ! 0), (''busybox'', paths ! 1), (''python'', p), (''zlib'', paths ! 2)] @ bun)))))"

text \<open>A recording that \<open>targeted.ts\<close> takes: its first line a header with an ABI, then translations of the module.\<close>

definition take_recording :: "string \<Rightarrow> string \<Rightarrow> row list \<Rightarrow> (nat \<times> row list) result" where
  "take_recording name mod' rows =
     (case rows of
        [] \<Rightarrow> Inl (Js_Error (name @ '': invalid/empty recording''))
      | t # ts \<Rightarrow>
          (case Option.bind (row_header t) hd_abi of
             None \<Rightarrow> Inl (Js_Error (name @ '': invalid/empty recording''))
           | Some abi \<Rightarrow>
               if abi = 0 \<or> ts = [] \<or> list_ex (\<lambda>t. row_mod t \<noteq> Some mod') ts \<or> \<not> list_ex has_segments ts
               then Inl (Js_Error (name @ '': invalid/empty recording'')) else Inr (abi, ts)))"

fun record_modules :: "'h target_env \<Rightarrow> (string \<times> string) list \<Rightarrow> nat option \<Rightarrow> 'h image list \<Rightarrow> (nat option \<times> 'h image list) result" where
  "record_modules e [] abi is = Inr (abi, is)"
| "record_modules e ((name, mod') # ms) abi is =
     and_then (require_ok (fst (te_run e name)) name) (\<lambda>_.
     and_then (require (''AOT_TRAIN_OK'' \<in> set (text_lines (snd (te_run e name)))) (name @ '': missing completion marker'')) (\<lambda>_.
     and_then (take_recording name mod' (te_rows e name)) (\<lambda>(a, ts).
     and_then (require (abi = None \<or> abi = Some a) ''recording ABI mismatch'') (\<lambda>_.
     and_then (require (te_after e mod' = te_before e mod') (mod' @ '': changed during recording'')) (\<lambda>_.
     and_then (require_ok (te_generate e name) (name @ '' generator'')) (\<lambda>_.
       record_modules e ms (Some a) (is @ [\<lparr>im_name = name, im_module = mod', im_sha256 = te_before e mod',
         im_translations = length ts, im_imageSha256 = te_image_sha e name, im_recordingSha256 = te_recording_sha e name\<rparr>])))))))"

definition targeted :: "string \<Rightarrow> bool \<Rightarrow> 'h target_env \<Rightarrow> 'h rec_manifest result" where
  "targeted format exists e =
     (if format \<notin> {''elf'', ''macho''} then Inl (Js_Error ''usage: targeted.ts ISH FAKEFS OUTPUT [elf|macho]'')
      else if exists then Inl (Js_Error ''refusing existing output'')
      else if (case te_timeout e of Some t \<Rightarrow> t \<le> 0 | None \<Rightarrow> True) then Inl (Js_Error ''invalid AOT_TIMEOUT_S'')
      else
        and_then (discover_modules e) (\<lambda>ms.
          case find (\<lambda>m. \<not> te_exists e (snd m)) ms of
            Some m \<Rightarrow> Inl (Js_Error (''missing module: '' @ snd m))
          | None \<Rightarrow>
              and_then (record_modules e ms None []) (\<lambda>(abi, is).
                case abi of
                  None \<Rightarrow> Inl (Js_Error ''TypeError'')
                | Some a \<Rightarrow> Inr \<lparr>rm_format = format, rm_abi = hex8 a, rm_workloadSha256 = te_workload_sha e, rm_images = is\<rparr>)))"

section \<open>Generating images\<close>

text \<open>
  \<open>extractModules\<close> for one module: the status of \<open>tar\<close>, and the hash of what it wrote.
\<close>

definition extract_module :: "int \<Rightarrow> 'h \<Rightarrow> string \<Rightarrow> 'h \<Rightarrow> unit result" where
  "extract_module status hash path expected =
     and_then (require (safe_module path) ''unsafe module path'') (\<lambda>_.
     and_then (require (status = 0) (''module extraction failed: '' @ path)) (\<lambda>_.
       require (hash = expected) (''module extraction hash mismatch: '' @ path)))"

text \<open>The recording as \<open>generate\<close> reads it: the last header, and the symbols of the translations.\<close>

fun read_recording :: "row list \<Rightarrow> header option \<Rightarrow> string list \<Rightarrow> (header option \<times> string list) result" where
  "read_recording [] h req = Inr (h, req)"
| "read_recording (t # ts) h req =
     (case row_header t of
        Some h' \<Rightarrow> read_recording ts (Some h') req
      | None \<Rightarrow> and_then (row_symbols t) (\<lambda>ns. read_recording ts h (req @ ns)))"

definition match_header :: "header option \<Rightarrow> 'h contract \<Rightarrow> 'h \<Rightarrow> unit result" where
  "match_header h c hash = (case h of None \<Rightarrow> Inl (Js_Error ''TypeError'') | Some h \<Rightarrow> matchContract (hd_layout h) c hash)"

definition generate_module ::
  "(string \<Rightarrow> string option) \<Rightarrow> 'h contract option \<Rightarrow> 'h \<Rightarrow> row list \<Rightarrow> (header option \<times> string list) result" where
  "generate_module syms c hash rows =
     and_then (read_recording rows None [''ish_aot_register'']) (\<lambda>(h, req).
     and_then (case c of Some c \<Rightarrow> match_header h c hash | None \<Rightarrow> Inr ()) (\<lambda>_.
     and_then (resolve_symbols syms req) (\<lambda>_. Inr (h, req))))"

text \<open>
  \<open>generate\<close> up to the files it writes. \<open>m\<close> is the kind and the module names of the verified seed, \<open>target\<close> the
  name list, bytes and hash of the binary whose symbols are used, \<open>c\<close> the contract with its platform.
\<close>

fun generate_all ::
  "(string \<Rightarrow> string option) \<Rightarrow> 'h contract option \<Rightarrow> 'h \<Rightarrow> (string \<Rightarrow> row list) \<Rightarrow> string list \<Rightarrow> (string \<times> header option \<times> string list) list result" where
  "generate_all syms c hash rows [] = Inr []"
| "generate_all syms c hash rows (n # ns) =
     and_then (generate_module syms c hash (rows n)) (\<lambda>(h, req).
     and_then (generate_all syms c hash rows ns) (\<lambda>xs. Inr ((n, h, req) # xs)))"

definition generate ::
  "string \<Rightarrow> string list \<Rightarrow> string \<Rightarrow> bool \<Rightarrow> ('h contract \<times> string) option \<Rightarrow> string \<times> 8 word list \<times> 'h \<Rightarrow> (string \<Rightarrow> row list)
   \<Rightarrow> (string \<times> header option \<times> string list) list result" where
  "generate kind modules format symbolBinary c target rows =
     (case target of (nm, bytes, hash) \<Rightarrow>
        and_then (require (kind = ''seed'' \<and> format \<in> {''elf'', ''macho''}) ''generate needs seed and elf|macho'') (\<lambda>_.
        and_then (require (format = ''macho'' \<longrightarrow> symbolBinary \<and> c \<noteq> None)
          ''Mach-O requires actual Apple symbol binary and observed target contract'') (\<lambda>_.
        and_then (if format = ''macho'' then requireAppleBinary (take 32 bytes) (snd (the c)) else Inr ()) (\<lambda>_.
        and_then (moduleNames (Some modules)) (\<lambda>ns. generate_all (definedSymbols nm) (map_option fst c) hash rows ns)))))"

section \<open>Recording for Apple\<close>

text \<open>The compiler's parts are recorded right after the base modules.\<close>

definition compiler_parts :: "(string \<times> string) list" where
  "compiler_parts = filter (\<lambda>m. ends_with ''/compile'' (snd m)) appleModules"

definition record_order :: "(string \<times> string) list" where
  "record_order = take 3 appleModules @ compiler_parts @ filter (\<lambda>m. m \<notin> set compiler_parts) (drop 3 appleModules)"

definition is_go :: "string \<Rightarrow> bool" where
  "is_go n = (n = ''go'' \<or> n = ''gofmt'' \<or> take 3 n = ''go_'')"

text \<open>A cache of an earlier recording, \<open>/^\/tmp\/go-aot-record-cache-[0-9]+$/\<close>, or one of this process.\<close>

definition cache_name :: "string \<Rightarrow> bool" where
  "cache_name s = (let p = ''/tmp/go-aot-record-cache-''; d = drop (length p) s in take (length p) s = p \<and> d \<noteq> [] \<and> list_all js_digit d)"

definition go_cache :: "string option \<Rightarrow> string \<Rightarrow> string result" where
  "go_cache existing pid =
     (case existing of
        Some s \<Rightarrow>
          if s = [] then Inr (''/tmp/go-aot-record-cache-'' @ pid)
          else if cache_name s then Inr s
          else Inl (Js_Error ''APPLE_AOT_GO_CACHE must name a previous recording cache in this guest'')
      | None \<Rightarrow> Inr (''/tmp/go-aot-record-cache-'' @ pid))"

definition check_apple_rows :: "'h contract \<Rightarrow> 'h \<Rightarrow> string \<times> string \<Rightarrow> row list \<Rightarrow> (header \<times> row list) result" where
  "check_apple_rows c hash m rows =
     (case rows of
        [] \<Rightarrow> Inl (Js_Error ''TypeError'')
      | t # ts \<Rightarrow>
          and_then (match_header (row_header t) c hash) (\<lambda>_.
            let h = the (row_header t)
            in if is_go (fst m) \<and> hd_exhausted h \<noteq> Bool False
               then Inl (Js_Error (''incomplete '' @ fst m @ '' recording: code arena exhausted or recorder lacks capacity diagnostics''))
               else if ts = [] \<or> list_ex (\<lambda>t. row_header t \<noteq> None \<or> row_mod t \<noteq> Some (snd m)) ts \<or> \<not> list_ex has_segments ts
               then Inl (Js_Error ''invalid/empty recording'')
               else Inr (h, ts)))"

text \<open>
  For each module what the recorder printed and recorded, whether \<open>checked\<close> let the recorder and the
  generator pass, and the hash of the guest's file before and after.
\<close>

record apple_env =
  ae_run :: "string \<Rightarrow> string result"
  ae_rows :: "string \<Rightarrow> row list"
  ae_generate :: "string \<Rightarrow> unit result"
  ae_before :: "string \<Rightarrow> string"
  ae_after :: "string \<Rightarrow> string"

definition record_module ::
  "apple_env \<Rightarrow> string contract \<Rightarrow> string \<Rightarrow> (string \<Rightarrow> string option) \<Rightarrow> string \<times> string \<Rightarrow> apple_module result" where
  "record_module e c hash syms m =
     and_then (ae_run e (fst m)) (\<lambda>out.
     and_then (require ((if is_go (fst m) then ''GO_AOT_BUILD_OK'' else ''APPLE_AOT_TRAIN_OK'') \<in> set (text_lines out))
       ''missing workload completion'') (\<lambda>_.
     and_then (check_apple_rows c hash m (ae_rows e (fst m))) (\<lambda>(h, ts).
     and_then (required_symbols ts [''ish_aot_register'']) (\<lambda>req.
     and_then (resolve_symbols syms req) (\<lambda>_.
     and_then (ae_generate e (fst m)) (\<lambda>_.
     and_then (require (ae_after e (snd m) = ae_before e (snd m)) ''guest changed while recording'') (\<lambda>_.
       Inr \<lparr>am_name = Str (fst m), am_path = Str (snd m), am_translations = Number (of_nat (length ts)),
         am_sha256 = Str (ae_before e (snd m))\<rparr>)))))))"

fun record_all :: "apple_env \<Rightarrow> string contract \<Rightarrow> string \<Rightarrow> (string \<Rightarrow> string option) \<Rightarrow> (string \<times> string) list \<Rightarrow> apple_module list result" where
  "record_all e c hash syms [] = Inr []"
| "record_all e c hash syms (m # ms) =
     and_then (record_module e c hash syms m) (\<lambda>r. and_then (record_all e c hash syms ms) (\<lambda>rs. Inr (r # rs)))"

text \<open>The results are sorted by the place of their name in the module list; the sort is stable.\<close>

definition module_index :: "apple_module \<Rightarrow> nat" where
  "module_index r = length (takeWhile (\<lambda>m. Str (fst m) \<noteq> am_name r) appleModules)"

definition record_apple :: "apple_env \<Rightarrow> string contract \<Rightarrow> string \<Rightarrow> (string \<Rightarrow> string option) \<Rightarrow> apple_module list result" where
  "record_apple e c hash syms =
     and_then (record_all e c hash syms record_order) (\<lambda>rs. Inr (sort_key module_index rs))"

text \<open>
  \<open>archive-apple.ts\<close>: the environment of Xcode, and for images the kind, format and platform of the verified
  manifest with its modules. The sources to compile.
\<close>

definition archive_sources ::
  "(string \<Rightarrow> string option) \<Rightarrow> (string \<times> string \<times> string \<times> apple_module list option) result \<Rightarrow> (string \<times> string list) result" where
  "archive_sources env manifest =
     and_then (require (env ''TARGET_NAME'' = Some TARGET \<and> env ''ARCHS'' = Some ''arm64'')
       ''static Apple images require the isolated plain ARM64 target'') (\<lambda>_.
       let enabled = (case env ''AOT_IMAGE_EXECUTION'' of Some (c # cs) \<Rightarrow> c # cs | _ \<Rightarrow> ''0'');
           missing = (\<lambda>k. env k = None \<or> env k = Some [])
       in and_then (require (enabled \<in> {''0'', ''1''}) ''invalid AOT_IMAGE_EXECUTION'') (\<lambda>_.
          and_then (require (\<not> list_ex missing [''SDKROOT'', ''CONFIGURATION_BUILD_DIR'', ''SRCROOT'', ''TARGET_BUILD_DIR'',
              ''UNLOCALIZED_RESOURCES_FOLDER_PATH'']) ''missing Xcode product/SDK settings'') (\<lambda>_.
          and_then (require (env ''PLATFORM_NAME'' \<in> {Some ''iphoneos'', Some ''iphonesimulator''}) ''requires iOS SDK'') (\<lambda>_.
            let platform = (if env ''PLATFORM_NAME'' = Some ''iphoneos'' then ''ios'' else ''ios-simulator'')
            in if enabled = ''0'' then Inr (platform, [''app/aot-empty.c''])
               else
                 and_then (require (\<not> missing ''AOT_IMAGES_DIR'') ''AOT images requested without AOT_IMAGES_DIR'') (\<lambda>_.
                 and_then manifest (\<lambda>(kind, format, plat, modules).
                 and_then (require (kind = ''apple-bun-images'' \<and> format = ''macho'' \<and> plat = platform) ''wrong image kind/SDK contract'') (\<lambda>_.
                 and_then (validateAppleModules modules) (\<lambda>ms. Inr (platform, map (\<lambda>m. ''aot_'' @ fst m @ ''.S'') ms)))))))))"

end
