(* ===== verification/Aot_Record_Props.thy ===== *)
theory Aot_Record_Props
  imports Aot_Record Aot_Kit_Props
begin

text \<open>
  The stages of the artifact kit fit together: what a recorder publishes, the next stage accepts.
\<close>

section \<open>From the recorder to the kit\<close>

text \<open>What a run of \<open>targeted.ts\<close> leaves on the disk.\<close>

definition left_behind :: "'h target_env \<Rightarrow> 'h rec_dir" where
  "left_behind e = \<lparr>rd_rows = te_rows e, rd_recording_sha = te_recording_sha e, rd_image_sha = te_image_sha e,
     rd_module_sha = te_after e, rd_workload_sha = te_workload_sha e\<rparr>"

lemma take_recording_scanned:
  assumes "take_recording name mod' rows = Inr (a, ts)" "\<forall>t \<in> set (tl rows). row_header t = None"
  shows "\<exists>h. scan_recording mod' rows (None, 0) = Inr (Some h, length ts) \<and> hd_abi h = Some a \<and> ts \<noteq> []"
proof -
  obtain t h where r: "rows = t # ts" "row_header t = Some h" "hd_abi h = Some a" "ts \<noteq> []" "list_all (\<lambda>t. row_mod t = Some mod') ts"
    using assms(1) by (auto simp: take_recording_def list_ex_iff list_all_iff bind_eq_Some_conv split: list.splits option.splits if_splits)
  have "scan_recording mod' ts' (Some h, n) = Inr (Some h, n + length ts')"
    if "list_all (\<lambda>t. row_mod t = Some mod') ts'" "\<forall>t \<in> set ts'. row_header t = None" for ts' n
    using that by (induction ts' arbitrary: n) auto
  then show ?thesis using r assms(2) by auto
qed

definition recorded :: "'h target_env \<Rightarrow> nat \<Rightarrow> 'h image \<Rightarrow> bool" where
  "recorded e a i \<longleftrightarrow> (\<exists>ts. take_recording (im_name i) (im_module i) (te_rows e (im_name i)) = Inr (a, ts) \<and> im_translations i = length ts) \<and>
     te_after e (im_module i) = im_sha256 i \<and> im_imageSha256 i = te_image_sha e (im_name i) \<and> im_recordingSha256 i = te_recording_sha e (im_name i)"

lemma record_modules_images:
  assumes "record_modules e ms abi is = Inr (abi', is')" "ms \<noteq> []"
  shows "\<exists>a new. abi' = Some a \<and> (abi = None \<or> abi = Some a) \<and> is' = is @ new \<and> map (\<lambda>i. (im_name i, im_module i)) new = ms \<and>
    list_all (recorded e a) new"
  using assms
proof (induction ms arbitrary: abi "is")
  case (Cons m ms)
  obtain name mod' where m: "m = (name, mod')" by force
  from Cons.prems(1) m obtain a ts where s: "take_recording name mod' (te_rows e name) = Inr (a, ts)" "abi = None \<or> abi = Some a"
      "te_after e mod' = te_before e mod'"
      "record_modules e ms (Some a) (is @ [\<lparr>im_name = name, im_module = mod', im_sha256 = te_before e mod',
         im_translations = length ts, im_imageSha256 = te_image_sha e name, im_recordingSha256 = te_recording_sha e name\<rparr>]) = Inr (abi', is')"
      (is "record_modules e ms _ (is @ [?i]) = _")
    by (auto simp: and_then_Inr_iff)
  have i: "recorded e a ?i" using s by (simp add: recorded_def)
  show ?case
  proof (cases "ms = []")
    case True
    then show ?thesis using s i m by auto
  next
    case False
    from Cons.IH [OF s(4) this] obtain new where "abi' = Some a" "is' = is @ ?i # new" "map (\<lambda>i. (im_name i, im_module i)) new = ms"
        "list_all (recorded e a) new" by auto
    then show ?thesis using s(2) i m by auto
  qed
qed simp

lemma recorded_checked:
  assumes "recorded e a i" "safe_module (im_module i)" "\<forall>t \<in> set (tl (te_rows e (im_name i))). row_header t = None"
  shows "check_image (left_behind e) (hex8 a) i = Inr ()"
proof -
  obtain ts where ts: "take_recording (im_name i) (im_module i) (te_rows e (im_name i)) = Inr (a, ts)" "im_translations i = length ts"
    using assms(1) by (auto simp: recorded_def)
  from take_recording_scanned [OF ts(1) assms(3)] obtain h where
    "scan_recording (im_module i) (te_rows e (im_name i)) (None, 0) = Inr (Some h, length ts)" "hd_abi h = Some a" "ts \<noteq> []" by auto
  then show ?thesis using assms(1,2) ts(2) by (simp add: check_image_def left_behind_def recorded_def)
qed

lemma discovered_names:
  assumes "discover_modules e = Inr ms"
  shows "map fst ms = baseline_names \<or> map fst ms = baseline_names @ [''bun'']"
  using assms by (auto simp: discover_modules_def and_then_Inr_iff baseline_names_def Let_def split: option.splits)


text \<open>A guest with Python 3.12, recorded with one translation for each module.\<close>

definition sample_rows :: "string \<Rightarrow> row list" where
  "sample_rows mod' = [\<lparr>row_header = Some \<lparr>hd_abi = Some 0x1234abcd, hd_layout = \<lparr>h_abi = Number 1, h_prologue_words = Number 2,
       h_entry_off = Number 3, h_n_pinned = Number 4\<rparr>, hd_exhausted = Undef\<rparr>, row_mod = None, row_keysym = [], row_segs = None\<rparr>,
     \<lparr>row_header = None, row_mod = Some mod', row_keysym = [], row_segs = Some [[(''exit'', ''x'')]]\<rparr>]"

definition sample_modules :: "(string \<times> string) list" where
  "sample_modules = [(''musl'', ''/lib/ld-musl''), (''busybox'', ''/bin/busybox''), (''python'', ''/usr/lib/libpython3.12.so.1.0''),
     (''zlib'', ''/usr/lib/libz.so.1'')]"

definition sample_target :: "nat target_env" where
  "sample_target =
     (let nl = [char_of (10::nat)]
      in \<lparr>te_timeout = Some 120, te_discover = (0, ''PYLIB=libpython3.12.so.1.0'' @ nl @ ''/lib/ld-musl'' @ nl @ ''/bin/busybox'' @ nl @
           ''/usr/lib/libz.so.1''), te_python = (\<lambda>p. (0, p @ nl)), te_bun = None, te_exists = (\<lambda>_. True),
         te_run = (\<lambda>_. (0, ''[1, 2]'' @ nl @ ''AOT_TRAIN_OK'' @ nl)),
         te_rows = (\<lambda>n. sample_rows (case map_of sample_modules n of Some m \<Rightarrow> m | None \<Rightarrow> [])), te_generate = (\<lambda>_. 0),
         te_before = length, te_after = length, te_recording_sha = length, te_image_sha = length, te_workload_sha = 7\<rparr>)"


section \<open>Symbols\<close>

lemma generate_module_resolved:
  assumes "generate_module syms c hash rows = Inr (h, req)"
  shows "\<forall>n \<in> set req. n = ''@region'' \<or> syms n \<noteq> None" "''ish_aot_register'' \<in> set req"
proof -
  have keep: "set r0 \<subseteq> set r" if "read_recording rs h0 r0 = Inr (h1, r)" for rs h0 r0 h1 r
    using that
  proof (induction rs arbitrary: h0 r0)
    case (Cons t ts)
    show ?case
    proof (cases "row_header t")
      case None
      then obtain ns where "read_recording ts h0 (r0 @ ns) = Inr (h1, r)" using Cons.prems by (auto simp: and_then_Inr_iff)
      from Cons.IH [OF this] show ?thesis by simp
    qed (use Cons in auto)
  qed simp
  have g: "read_recording rows None [''ish_aot_register''] = Inr (h, req)" "resolve_symbols syms req = Inr ()"
    using assms by (auto simp: generate_module_def and_then_Inr_iff)
  show "''ish_aot_register'' \<in> set req" using keep [OF g(1)] by auto
  show "\<forall>n \<in> set req. n = ''@region'' \<or> syms n \<noteq> None"
    using g(2) by (auto simp: resolve_symbols_def find_None_iff split: option.splits)
qed

section \<open>From the Apple recorder to the linker\<close>

definition published :: "string \<times> string \<Rightarrow> apple_module \<Rightarrow> bool" where
  "published m r \<longleftrightarrow> am_name r = Str (fst m) \<and> am_path r = Str (snd m) \<and> (\<exists>n. 0 < n \<and> am_translations r = Number (of_nat n)) \<and>
     (\<exists>s. am_sha256 r = Str s)"

lemma record_module_published:
  assumes "record_module e c hash syms m = Inr r"
  shows "published m r"
proof -
  obtain h ts where "check_apple_rows c hash m (ae_rows e (fst m)) = Inr (h, ts)" "r = \<lparr>am_name = Str (fst m), am_path = Str (snd m),
      am_translations = Number (of_nat (length ts)), am_sha256 = Str (ae_before e (snd m))\<rparr>"
    using assms by (auto simp: record_module_def and_then_Inr_iff)
  moreover from this(1) have "ts \<noteq> []"
    by (auto simp: check_apple_rows_def and_then_Inr_iff Let_def split: list.splits if_splits)
  ultimately show ?thesis by (auto simp: published_def)
qed

lemma record_all_published: "record_all e c hash syms ms = Inr rs \<Longrightarrow> list_all2 published ms rs"
  by (induction ms arbitrary: rs) (auto simp: and_then_Inr_iff record_module_published)

lemma apple_modules_eval:
  "appleModules = [(''musl'', ''/lib/ld-musl-aarch64.so.1''), (''busybox'', ''/bin/busybox''), (''bun'', ''/usr/local/bin/bun''),
     (''go'', ''/usr/lib/go/bin/go''), (''gofmt'', ''/usr/lib/go/bin/gofmt''), (''go_asm'', ''/usr/lib/go/pkg/tool/linux_arm64/asm''),
     (''go_compile'', ''/usr/lib/go/pkg/tool/linux_arm64/compile''), (''go_compile_1'', ''/usr/lib/go/pkg/tool/linux_arm64/compile''),
     (''go_link'', ''/usr/lib/go/pkg/tool/linux_arm64/link''), (''go_vet'', ''/usr/lib/go/pkg/tool/linux_arm64/vet'')]"
  by (simp add: appleModules_def appleLegacyGoModules_def appleBaseModules_def appleGoModules_def)

lemma record_order_eval: "record_order = map (\<lambda>i. appleModules ! i) [0, 1, 2, 6, 7, 3, 4, 5, 8, 9]"
  by code_simp

lemma module_index_at:
  assumes "i < 10" "am_name r = Str (fst (appleModules ! i))"
  shows "module_index r = i"
proof -
  have "list_all (\<lambda>i. length (takeWhile (\<lambda>m. fst m \<noteq> fst (appleModules ! i)) appleModules) = i) [0..<10]" by code_simp
  then show ?thesis using assms by (simp add: module_index_def list_all_iff)
qed

text \<open>
  The modules that \<open>record-apple.ts\<close> publishes, recorded in another order, are in the order that
  \<open>validateAppleModules\<close> asks for, and accepted by it, given that the hashes are SHA-256 in hexadecimal and the counts are exact as numbers.
\<close>

theorem apple_recording_validates:
  assumes r: "record_apple e c hash syms = Inr rs" and sha: "\<forall>r \<in> set rs. sha_text (am_sha256 r) \<and> safe_integer (am_translations r) \<noteq> None"
  shows "validateAppleModules (Some rs) = Inr appleModules"
proof -
  obtain qs where q: "record_all e c hash syms record_order = Inr qs" "rs = sort_key module_index qs"
    using r by (auto simp: record_apple_def and_then_Inr_iff)
  have p: "list_all2 published (map (\<lambda>i. appleModules ! i) [0, 1, 2, 6, 7, 3, 4, 5, 8, 9]) qs"
    using record_all_published [OF q(1)] unfolding record_order_eval .
  then obtain f where f: "qs = map f [0, 1, 2, 6, 7, 3, 4, 5, 8, 9]" "\<And>i. i < 10 \<Longrightarrow> published (appleModules ! i) (f i)"
  proof -
    assume a: "\<And>f. qs = map f [0, 1, 2, 6, 7, 3, 4, 5, 8, 9] \<Longrightarrow> (\<And>i. i < 10 \<Longrightarrow> published (appleModules ! i) (f i)) \<Longrightarrow> thesis"
    obtain a0 a1 a2 a3 a4 a5 a6 a7 a8 a9 where qs: "qs = [a0, a1, a2, a6, a7, a3, a4, a5, a8, a9]"
      using p by (auto simp: list_all2_Cons1)
    show thesis
      by (rule a [of "\<lambda>i. [a0, a1, a2, a3, a4, a5, a6, a7, a8, a9] ! i"])
        (use p qs in \<open>auto simp: less_Suc_eq numeral_eq_Suc\<close>)
  qed
  have idx: "module_index (f i) = i" if "i < 10" for i
    using module_index_at [OF that] f(2) [OF that] by (simp add: published_def)
  have rs: "rs = map f [0, 1, 2, 3, 4, 5, 6, 7, 8, 9]" using q(2) f(1) idx by (simp add: sort_key_def)
  have "module_ok (appleModules ! i) (f i)" if "i < 10" for i
  proof -
    have "f i \<in> set rs" using that unfolding rs by (auto simp: less_Suc_eq numeral_eq_Suc)
    then show ?thesis using sha f(2) [OF that]
      by (auto simp: published_def module_ok_def positive_count_def safe_integer_def split: if_splits)
  qed
  moreover have "rs ! i = f i" if "i < 10" for i using that unfolding rs by (auto simp: less_Suc_eq numeral_eq_Suc)
  moreover have "length rs = 10" "length appleModules = 10" by (simp_all add: rs apple_modules_eval)
  ultimately have "list_all2 module_ok appleModules rs" by (simp add: list_all2_conv_all_nth)
  then show ?thesis using rs by (simp add: validateAppleModules_def apple_modules_eval appleBaseModules_def appleLegacyGoModules_def appleGoModules_def)
qed

end
