(* ===== verification/Aot_Commands.thy ===== *)
theory Aot_Commands
  imports Aot_Record_Props
begin

text \<open>
  The commands of \<open>tools/jit_aot/kit.ts\<close> in the order of their checks: \<open>prepare\<close>, \<open>restore\<close>, \<open>build\<close> and \<open>run\<close>, the
  dispatch of \<open>main\<close>, and what they share. A program that is run is its exit code, signal and output.
\<close>

section \<open>Shared parts\<close>

record process =
  pr_exit :: int
  pr_signal :: bool
  pr_stdout :: string

definition checked :: "string \<Rightarrow> process \<Rightarrow> string result" where
  "checked arg0 r = (if pr_exit r \<noteq> 0 \<or> pr_signal r then Inl (Js_Error (arg0 @ '' failed'')) else Inr (pr_stdout r))"

definition stageFor :: "bool \<Rightarrow> string \<Rightarrow> string \<Rightarrow> string result" where
  "stageFor exists pid out = (if exists then Inl (Js_Error (''refusing existing output: '' @ out)) else Inr (out @ ''.partial-'' @ pid))"

text \<open>The programs \<open>sourceInfo\<close> runs: \<open>git rev-parse\<close>, \<open>git status\<close>, \<open>git archive\<close>, \<open>git submodule\<close>, the tools' versions and \<open>uname\<close>.\<close>

record source_env =
  so_revision :: process
  so_status :: process
  so_archive :: process
  so_submodule :: process
  so_tools :: "(string \<times> process) list"
  so_uname :: process

fun check_tools :: "(string \<times> process) list \<Rightarrow> (string \<times> string) list result" where
  "check_tools [] = Inr []"
| "check_tools ((t, p) # ps) =
     and_then (checked t p) (\<lambda>out. and_then (check_tools ps) (\<lambda>vs. Inr ((t, hd (text_lines out)) # vs)))"

definition sourceInfo :: "source_env \<Rightarrow> (string \<times> string) list result" where
  "sourceInfo e =
     and_then (checked ''git'' (so_revision e)) (\<lambda>rev'.
     and_then (checked ''git'' (so_status e)) (\<lambda>status.
     and_then (require (status = []) ''source checkout must be committed and clean before publishing a kit'') (\<lambda>_.
     and_then (checked ''git'' (so_archive e)) (\<lambda>_.
     and_then (checked ''git'' (so_submodule e)) (\<lambda>subs.
     and_then (check_tools (so_tools e)) (\<lambda>vs.
     and_then (checked ''uname'' (so_uname e)) (\<lambda>host.
       Inr ([(''revision'', js_trim rev'), (''submodules'', subs)] @ vs @ [(''host'', js_trim host)]))))))))"

section \<open>Commands\<close>

text \<open>
  \<open>prepare\<close>: the inventory of the guest before and after (its hash is \<open>treeSignature\<close>), the check of the
  recordings, the hash of the recorder and the one of the manifest, the tools run, the log of the
  export, and the stage with everything copied into it.
\<close>

record 'h prepare_env =
  pp_offline :: "string option"
  pp_before :: "'h result"
  pp_recordings :: "'h rec_dir \<times> 'h rec_manifest"
  pp_exists :: bool
  pp_exists_at_seal :: bool
  pp_source :: source_env
  pp_recorder :: "'h \<times> 'h"
  pp_tar :: "process list"
  pp_export :: process
  pp_log :: string
  pp_after :: "'h result"
  pp_stage :: "'h tree"

fun check_processes :: "process list \<Rightarrow> unit result" where
  "check_processes [] = Inr ()"
| "check_processes (p # ps) = and_then (checked ''tar'' p) (\<lambda>_. check_processes ps)"

definition prepare :: "('h content \<Rightarrow> 'h) \<Rightarrow> nat \<Rightarrow> string \<Rightarrow> string \<Rightarrow> 'h prepare_env \<Rightarrow> 'h tree result" where
  "prepare sha len pid out e =
     and_then (require (pp_offline e = Some ''--quiescent'') ''stop all guests first; explicitly pass --quiescent'') (\<lambda>_.
     and_then (pp_before e) (\<lambda>before.
     and_then (checkRecordings (fst (pp_recordings e)) (snd (pp_recordings e))) (\<lambda>_.
     and_then (stageFor (pp_exists e) pid out) (\<lambda>_.
     and_then (sourceInfo (pp_source e)) (\<lambda>provenance.
     and_then (require (fst (pp_recorder e) = snd (pp_recorder e)) ''original recorder hash mismatch'') (\<lambda>_.
     and_then (check_processes (pp_tar e)) (\<lambda>_.
     and_then (checked (out @ ''.partial-'' @ pid @ ''/bin/unfakefsify'') (pp_export e)) (\<lambda>_.
     and_then (require (\<not> contains ''skipping '' (pp_log e)) ''export skipped stale paths; inspect snapshot'') (\<lambda>_.
     and_then (pp_after e) (\<lambda>after.
     and_then (require (after = before) ''source guest changed during snapshot'') (\<lambda>_.
       seal sha (pp_exists_at_seal e) ''seed'' provenance len (pp_stage e))))))))))))"

text \<open>
  \<open>restore\<close>: the verified seed, the importer, and for each module of the seed the hash of the restored file
  beside the one of the manifest; a file that is not there cannot be hashed.
\<close>

fun check_restored :: "(string \<times> 'h option \<times> 'h) list \<Rightarrow> unit result" where
  "check_restored [] = Inr ()"
| "check_restored ((n, actual, expected) # ms) =
     (case actual of
        None \<Rightarrow> Inl (Js_Error ''ENOENT'')
      | Some a \<Rightarrow> if a \<noteq> expected then Inl (Js_Error (''restored module mismatch '' @ n)) else check_restored ms)"

definition restore ::
  "'h manifest result \<Rightarrow> bool \<Rightarrow> string \<Rightarrow> process \<Rightarrow> (string \<times> 'h option \<times> 'h) list \<Rightarrow> string \<Rightarrow> string \<Rightarrow> string result" where
  "restore m exists pid importer modules seed out =
     and_then m (\<lambda>m.
     and_then (require (m_kind m = ''seed'') ''restore needs seed'') (\<lambda>_.
     and_then (stageFor exists pid out) (\<lambda>_.
     and_then (checked (seed @ ''/bin/fakefsify'') importer) (\<lambda>_.
     and_then (check_restored modules) (\<lambda>_. Inr (out @ ''/root''))))))"

text \<open>
  \<open>build\<close>: seed and images are verified kits, with the names of their modules; the format and the hash of
  the seed are properties of the images' manifest. \<open>exec\<close> runs a command line, \<open>rel\<close> is \<open>relative\<close> to the project.
  Each kind of binary is configured and then built; images are linked into all but the gadget one.
\<close>

record 'h build_env =
  be_seed :: "'h manifest result"
  be_images :: "'h manifest result"
  be_format :: string
  be_seedManifestSha256 :: 'h
  be_seed_sha :: 'h
  be_images_sha :: 'h
  be_exists :: bool
  be_source :: source_env
  be_seed_modules :: "string list option"
  be_image_checks :: "string list option"

fun commas :: "string list \<Rightarrow> string" where
  "commas [] = []"
| "commas [x] = x"
| "commas (x # xs) = x @ '','' @ commas xs"

definition setup_args :: "string \<Rightarrow> string \<Rightarrow> string \<Rightarrow> string list" where
  "setup_args d kind imageArg =
     [''meson'', ''setup'', d, ''--buildtype='' @ (if kind = ''debug'' then ''debug'' else ''release''),
      ''-Djit='' @ (if kind = ''gadget'' then ''false'' else ''true'')] @
     (if kind = ''gadget'' then [] else [''-Djit_emit=false'', ''-Dcli_aot='' @ imageArg])"

fun build_kinds :: "(string list \<Rightarrow> process) \<Rightarrow> (string \<Rightarrow> string) \<Rightarrow> string \<Rightarrow> string \<Rightarrow> string list \<Rightarrow> unit result" where
  "build_kinds exec rel s imageArg [] = Inr ()"
| "build_kinds exec rel s imageArg (kind # ks) =
     (let d = s @ ''/build-'' @ kind
      in and_then (checked ''meson'' (exec (setup_args d kind imageArg))) (\<lambda>_.
         and_then (checked ''make'' (exec [''make'', ''build-arm64-linux'', ''RELEASE_BUILD_DIR='' @ rel d])) (\<lambda>_.
           build_kinds exec rel s imageArg ks)))"

text \<open>The answer is what \<open>pending.json\<close> says: its kind, the provenance and the hashes of both manifests.\<close>

definition build ::
  "(string list \<Rightarrow> process) \<Rightarrow> (string \<Rightarrow> string) \<Rightarrow> string \<Rightarrow> string \<Rightarrow> string \<Rightarrow> 'h build_env
   \<Rightarrow> (string \<times> (string \<times> string) list \<times> 'h \<times> 'h) result" where
  "build exec rel pid images out e =
     and_then (be_seed e) (\<lambda>sm. and_then (be_images e) (\<lambda>im.
     and_then (require (m_kind sm = ''seed'' \<and> m_kind im = ''generated'' \<and> be_format e = ''elf'' \<and>
         be_seedManifestSha256 e = be_seed_sha e) ''build input identity mismatch'') (\<lambda>_.
     and_then (stageFor (be_exists e) pid out) (\<lambda>s.
     and_then (sourceInfo (be_source e)) (\<lambda>provenance.
     and_then (moduleNames (be_seed_modules e)) (\<lambda>selected.
     and_then (moduleNames (be_image_checks e)) (\<lambda>ns.
     and_then (require (commas ns = commas selected) ''generated image module set mismatch'') (\<lambda>_.
     and_then (build_kinds exec rel s (commas (map (\<lambda>n. images @ ''/aot_'' @ n @ ''.S'') selected)) [''gadget'', ''release'', ''debug'']) (\<lambda>_.
       Inr (''build'', provenance, be_seed_sha e, be_images_sha e))))))))))"

text \<open>\<open>run\<close>: the binary, its arguments and its environment.\<close>

definition run_env :: "string \<Rightarrow> (string \<times> string) list" where
  "run_env mode = [(''ISH_JIT'', if mode = ''off'' \<or> mode = ''gadget'' then ''0'' else ''1''), (''ISH_AOT_FAMILY'', ''0''), (''ISH_JIT_STATS'', ''1'')]"

definition run ::
  "'h manifest result \<Rightarrow> (string \<times> string) list \<Rightarrow> string \<Rightarrow> string \<Rightarrow> string \<Rightarrow> string list \<Rightarrow> (string \<times> string list \<times> (string \<times> string) list) result" where
  "run m env bundle guest mode args =
     and_then m (\<lambda>m.
     and_then (require (m_kind m = ''build'' \<and> mode \<in> {''release'', ''debug'', ''gadget'', ''off''} \<and> args \<noteq> [])
       ''run needs build, writable restored ROOT, release|debug|gadget|off, COMMAND...'') (\<lambda>_.
       Inr (bundle @ ''/bin/'' @ (if mode = ''off'' then ''release'' else mode), [''-f'', guest] @ args, cleanEnv env (run_env mode))))"

text \<open>
  \<open>main\<close>: the command and its arguments. Those that are paths must be given and not empty; \<open>resolve\<close> is left out.
\<close>

datatype kit_command =
    Prepare string string string string "string option"
  | Restore string string
  | Record string string string
  | Generate string string string "string option" "string option"
  | Build string string string
  | Publish string string
  | Verify string
  | Run string string "string option" "string list"
  | Help

definition arg :: "string list \<Rightarrow> nat \<Rightarrow> string option" where
  "arg a i = (if i < length a then Some (a ! i) else None)"

definition path_arg :: "string list \<Rightarrow> nat \<Rightarrow> string result" where
  "path_arg a i = (case arg a i of Some (c # cs) \<Rightarrow> Inr (c # cs) | _ \<Rightarrow> Inl (Js_Error ''missing argument; use help''))"

definition paths2 :: "string list \<Rightarrow> (string \<Rightarrow> string \<Rightarrow> kit_command) \<Rightarrow> kit_command result" where
  "paths2 a f = and_then (path_arg a 0) (\<lambda>x. and_then (path_arg a 1) (\<lambda>y. Inr (f x y)))"

definition paths3 :: "string list \<Rightarrow> (string \<Rightarrow> string \<Rightarrow> string \<Rightarrow> 'c) \<Rightarrow> 'c result" where
  "paths3 a f = and_then (path_arg a 0) (\<lambda>x. and_then (path_arg a 1) (\<lambda>y. and_then (path_arg a 2) (\<lambda>z. Inr (f x y z))))"

definition kit_main :: "string option \<Rightarrow> string list \<Rightarrow> kit_command result" where
  "kit_main cmd a =
     (case cmd of
        None \<Rightarrow> Inr Help
      | Some c \<Rightarrow>
          if c = ''prepare'' then and_then (paths3 a (\<lambda>x y z. Prepare x y z)) (\<lambda>f. and_then (path_arg a 3) (\<lambda>w. Inr (f w (arg a 4))))
          else if c = ''restore'' then paths2 a Restore
          else if c = ''record'' then paths3 a Record
          else if c = ''generate'' then paths2 a (\<lambda>x y. Generate x y (case arg a 2 of Some (d # ds) \<Rightarrow> d # ds | _ \<Rightarrow> ''elf'') (arg a 3) (arg a 4))
          else if c = ''build'' then paths3 a Build
          else if c = ''publish'' then paths2 a Publish
          else if c = ''verify'' then and_then (path_arg a 0) (\<lambda>x. Inr (Verify x))
          else if c = ''run'' then paths2 a (\<lambda>x y. Run x y (arg a 2) (drop 3 a))
          else if c = [] \<or> c = ''help'' then Inr Help
          else Inl (Js_Error ''unknown command''))"

section \<open>Apple commands\<close>

datatype apple_command =
    Inspect string string
  | Inspect_Settings string
  | Contract string string string string
  | Apple_Help

definition apple_main :: "string option \<Rightarrow> string list \<Rightarrow> apple_command result" where
  "apple_main cmd args =
     (case (cmd, args) of
        (Some c, [a, b]) \<Rightarrow> if c = ''inspect'' then Inr (Inspect a b) else if c = [] \<or> c = ''help'' then Inr Apple_Help else Inl (Js_Error ''invalid arguments'')
      | (Some c, [a]) \<Rightarrow> if c = ''inspect-settings'' then Inr (Inspect_Settings a) else if c = [] \<or> c = ''help'' then Inr Apple_Help else Inl (Js_Error ''invalid arguments'')
      | (Some c, [a, b, d, e]) \<Rightarrow> if c = ''contract'' then Inr (Contract a b d e) else if c = [] \<or> c = ''help'' then Inr Apple_Help else Inl (Js_Error ''invalid arguments'')
      | (Some c, _) \<Rightarrow> if c = [] \<or> c = ''help'' then Inr Apple_Help else Inl (Js_Error ''invalid arguments'')
      | (None, _) \<Rightarrow> Inr Apple_Help)"

text \<open>The command \<open>contract\<close>; its output is written with the flag \<open>wx\<close>, which refuses a file that exists.\<close>

definition write_contract :: "8 word list \<Rightarrow> layout \<Rightarrow> 'h \<Rightarrow> string \<Rightarrow> bool \<Rightarrow> 'h apple_contract result" where
  "write_contract binary l hash ev exists =
     and_then (appleBuildVersion binary) (\<lambda>b.
     and_then (observedContract l hash b ev) (\<lambda>c.
       if exists then Inl (Js_Error ''EEXIST'') else Inr c))"

text \<open>
  \<open>record-apple.ts\<close> from its arguments to the modules it seals: \<open>host\<close> says whether all arguments are given and the machine is
  an Apple Silicon one, \<open>plat\<close> is the platform of the contract, \<open>c\<close> the rest of it. It is matched against itself, so
  that binary, architecture and evidence are checked.
\<close>

definition contract_header :: "'h contract \<Rightarrow> rec_header" where
  "contract_header c = \<lparr>h_abi = ct_abi c, h_prologue_words = ct_prologue_words c, h_entry_off = ct_entry_off c, h_n_pinned = ct_n_pinned c\<rparr>"

definition start_recording :: "bool \<Rightarrow> bool \<Rightarrow> 8 word list \<Rightarrow> string \<Rightarrow> 'h contract \<Rightarrow> 'h \<Rightarrow> process \<Rightarrow> (string \<Rightarrow> string option) result" where
  "start_recording host exists binary plat c hash nm =
     and_then (require host ''record-apple.ts RECORDER FAKEFS APP_SYMBOL_BINARY OBSERVED_CONTRACT NEW_OUTPUT'') (\<lambda>_.
     and_then (require (\<not> exists) ''refusing existing output'') (\<lambda>_.
     and_then (appleBuildVersion binary) (\<lambda>build.
     and_then (require (ab_platform build = plat) ''contract platform mismatch'') (\<lambda>_.
     and_then (matchContract (contract_header c) c hash) (\<lambda>_.
     and_then (checked ''nm'' nm) (\<lambda>out. Inr (definedSymbols out)))))))"

definition record_apple_main ::
  "bool \<Rightarrow> bool \<Rightarrow> 8 word list \<Rightarrow> string \<Rightarrow> string contract \<Rightarrow> string \<Rightarrow> process \<Rightarrow> string option \<Rightarrow> string \<Rightarrow> apple_env \<Rightarrow> process
   \<Rightarrow> apple_module list result" where
  "record_apple_main host exists binary plat c hash nm existingGoCache pid e cleanup =
     and_then (start_recording host exists binary plat c hash nm) (\<lambda>symbols.
     and_then (go_cache existingGoCache pid) (\<lambda>goCache.
     and_then (record_apple e c hash symbols) (\<lambda>results.
     and_then (if existingGoCache = None \<or> existingGoCache = Some [] then checked ''recorder'' cleanup else Inr []) (\<lambda>_.
       Inr results))))"

text \<open>The command line and the environment of the recorder for a module; \<open>part\<close> is its place among the compiler's parts.\<close>

definition compiler_part :: "string \<times> string \<Rightarrow> nat option" where
  "compiler_part m = (if m \<in> set compiler_parts then Some (length (takeWhile (\<lambda>x. x \<noteq> m) compiler_parts)) else None)"

definition recorder_args :: "string \<Rightarrow> string \<Rightarrow> string \<Rightarrow> string \<Rightarrow> string \<times> string \<Rightarrow> string list" where
  "recorder_args recorder guest goCache workload m =
     (let go = is_go (fst m); flag = (\<lambda>b. if b then ''1'' else ''0'')
      in [recorder, ''-f'', guest, ''/usr/bin/env'', ''BUN_JSC_useJIT=0'', ''BUN_RUNTIME_TRANSPILER_CACHE_PATH=0''] @
         (if go then [''GO_AOT_CACHE='' @ goCache, ''GO_AOT_VET_FIRST='' @ flag (fst m = ''go_vet''),
            ''GO_AOT_REBUILD='' @ flag (compiler_part m \<noteq> None), ''GO_AOT_TIMING=1''] else []) @
         [''/bin/sh''] @ (if go then [''/mnt/go-aot/build.sh''] else [''-ec'', workload]))"

definition recorder_env :: "string \<Rightarrow> string \<times> string \<Rightarrow> (string \<times> string) list" where
  "recorder_env stage m =
     [(''ISH_JIT'', ''1''), (''ISH_JIT_PIC'', ''1''), (''ISH_JIT_STATS'', ''1''), (''ISH_JIT_RECORD'', stage @ ''/'' @ fst m @ ''.jsonl''),
      (''ISH_JIT_RECORD_MOD'', snd m), (''ISH_JIT_RECORD_MOD_EXACT'', ''1''), (''ISH_AOT_FAMILY'', ''0'')] @
     (if is_go (fst m) then [(''ISH_JIT_RECORD_TARGET_ONLY'', ''1'')] else []) @
     (case compiler_part m of Some i \<Rightarrow> [(''ISH_JIT_RECORD_SHARDS'', ''2''), (''ISH_JIT_RECORD_SHARD'', decimal i)] | None \<Rightarrow> []) @
     (if is_go (fst m) then [(''ISH_BIND_MOUNTS'', ''/mnt/go-aot='' @ stage @ ''/go-workload:ro'')] else [])"

text \<open>\<open>archive-apple.ts\<close>: each source becomes an object, and all objects go into the static library.\<close>

definition setting :: "(string \<Rightarrow> string option) \<Rightarrow> string \<Rightarrow> string" where
  "setting env k = (case env k of Some s \<Rightarrow> s | None \<Rightarrow> [])"

definition apple_target :: "(string \<Rightarrow> string option) \<Rightarrow> string" where
  "apple_target env = ''arm64-apple-ios'' @ (if setting env ''IPHONEOS_DEPLOYMENT_TARGET'' = [] then ''15.0'' else setting env ''IPHONEOS_DEPLOYMENT_TARGET'') @
     (if env ''PLATFORM_NAME'' = Some ''iphonesimulator'' then ''-simulator'' else [])"

fun compile_sources ::
  "(string list \<Rightarrow> process) \<Rightarrow> (string \<Rightarrow> string option) \<Rightarrow> string \<Rightarrow> nat \<Rightarrow> string list \<Rightarrow> string list result" where
  "compile_sources exec env objects i [] = Inr []"
| "compile_sources exec env objects i (source # ss) =
     (let obj = objects @ ''/image-'' @ decimal i @ ''.o''
      in and_then (checked ''xcrun'' (exec [''xcrun'', ''clang'', ''-target'', apple_target env, ''-isysroot'', setting env ''SDKROOT'',
             ''-c'', source, ''-o'', obj])) (\<lambda>_.
         and_then (compile_sources exec env objects (Suc i) ss) (\<lambda>os. Inr (obj # os))))"

record apple_identity =
  ai_executionEnabled :: bool
  ai_platform :: string
  ai_sourceRevision :: string
  ai_sourceDirty :: bool

definition archive_apple ::
  "(string list \<Rightarrow> process) \<Rightarrow> (string \<Rightarrow> string option) \<Rightarrow> (string \<times> string \<times> string \<times> apple_module list option) result \<Rightarrow> apple_identity result" where
  "archive_apple exec env manifest =
     and_then (archive_sources env manifest) (\<lambda>(platform, sources).
       let products = setting env ''CONFIGURATION_BUILD_DIR''; on = (env ''AOT_IMAGE_EXECUTION'' = Some ''1'');
           dir = (if on then setting env ''AOT_IMAGES_DIR'' else setting env ''SRCROOT'')
       in and_then (compile_sources exec env (products @ ''/apple-aot-objects'') 0 (map (\<lambda>s. dir @ ''/'' @ s) sources)) (\<lambda>compiled.
          and_then (checked ''xcrun'' (exec ([''xcrun'', ''libtool'', ''-static'', ''-o'', products @ ''/libish_apple_aot.a''] @ compiled))) (\<lambda>_.
          and_then (checked ''git'' (exec [''git'', ''rev-parse'', ''HEAD''])) (\<lambda>rev'.
          and_then (checked ''git'' (exec [''git'', ''status'', ''--porcelain''])) (\<lambda>status.
            Inr \<lparr>ai_executionEnabled = on, ai_platform = platform, ai_sourceRevision = js_trim rev', ai_sourceDirty = js_trim status \<noteq> []\<rparr>)))))"

section \<open>What the commands ensure\<close>

text \<open>A seed is sealed only from a guest that did not change while it was read, with recordings that the kit accepts.\<close>

lemma prepare_ensures:
  assumes "prepare sha len pid out e = Inr kit"
  shows "pp_before e = pp_after e" "checkRecordings (fst (pp_recordings e)) (snd (pp_recordings e)) = Inr ()"
    "pr_stdout (so_status (pp_source e)) = []" "\<not> pp_exists e"
  using assms by (auto simp: prepare_def and_then_Inr_iff stageFor_def sourceInfo_def checked_def split: if_splits)

text \<open>A build is pending only when its images cover the modules of its seed and all three binaries were built from a clean checkout.\<close>

lemma build_kinds_Inr:
  "build_kinds exec rel s imageArg ks = Inr () \<longleftrightarrow>
     (\<forall>k\<in>set ks. let d = s @ ''/build-'' @ k; p = exec (setup_args d k imageArg); q = exec [''make'', ''build-arm64-linux'', ''RELEASE_BUILD_DIR='' @ rel d]
        in pr_exit p = 0 \<and> \<not> pr_signal p \<and> pr_exit q = 0 \<and> \<not> pr_signal q)"
  by (induction ks) (auto simp: and_then_Inr_iff checked_def Let_def)

lemma commas_modules:
  assumes "moduleNames a = Inr xs" "moduleNames b = Inr ys" "commas xs = commas ys"
  shows "xs = ys"
  using assms by (auto simp: moduleNames_def baseline_names_def split: option.splits if_splits)

lemma build_ensures:
  assumes "build exec rel pid images out e = Inr (k, prov, h1, h2)"
  shows "k = ''build''" "moduleNames (be_seed_modules e) = moduleNames (be_image_checks e)"
    "be_seedManifestSha256 e = h1" "pr_stdout (so_status (be_source e)) = []"
proof -
  have *: "be_seedManifestSha256 e = be_seed_sha e" "k = ''build''" "h1 = be_seed_sha e"
    using assms by (auto simp: build_def and_then_Inr_iff)
  show "k = ''build''" "be_seedManifestSha256 e = h1" using * by simp_all
  show "moduleNames (be_seed_modules e) = moduleNames (be_image_checks e)"
    using assms by (auto simp: build_def and_then_Inr_iff dest: commas_modules)
  show "pr_stdout (so_status (be_source e)) = []"
    using assms by (auto simp: build_def and_then_Inr_iff sourceInfo_def checked_def split: if_splits)
qed

text \<open>
  The mode alone decides whether translated code runs: the settings of the caller's environment that
  steer the translator do not reach the program.
\<close>

lemma map_of_fold_update:
  "map_of (fold (\<lambda>(k, v). AList.update k v) ys xs) k = (case map_of (rev ys) k of Some v \<Rightarrow> Some v | None \<Rightarrow> map_of xs k)"
  by (induction ys arbitrary: xs) (auto simp: update_conv' map_add_def split: option.splits)

lemma run_environment:
  assumes "run m env bundle guest mode args = Inr (bin, as, env')"
  shows "map_of env' ''ISH_JIT'' = Some (if mode = ''release'' \<or> mode = ''debug'' then ''1'' else ''0'')"
    "map_of env' ''ISH_AOT_FAMILY'' = Some ''0''"
    "take 7 k = ''ISH_JIT'' \<or> take 7 k = ''ISH_AOT'' \<Longrightarrow> map_of env' k = map_of (run_env mode) k"
proof -
  have e: "env' = cleanEnv env (run_env mode)" "mode \<in> {''release'', ''debug'', ''gadget'', ''off''}"
    using assms by (auto simp: run_def and_then_Inr_iff)
  let ?base = "filter (\<lambda>(k, _). \<not> (take 7 k = ''ISH_JIT'' \<or> take 7 k = ''ISH_AOT'')) env"
  have b: "map_of ?base k = None" if "take 7 k = ''ISH_JIT'' \<or> take 7 k = ''ISH_AOT''" for k
    using that by (auto simp: map_of_eq_None_iff)
  have r: "map_of (rev (run_env mode)) k = map_of (run_env mode) k" for k by (auto simp: run_env_def)
  have look: "map_of env' k = map_of (run_env mode) k" if "take 7 k = ''ISH_JIT'' \<or> take 7 k = ''ISH_AOT''" for k
    using b [OF that] unfolding e(1) cleanEnv_def map_of_fold_update r by (cases "map_of (run_env mode) k") simp_all
  then show "take 7 k = ''ISH_JIT'' \<or> take 7 k = ''ISH_AOT'' \<Longrightarrow> map_of env' k = map_of (run_env mode) k" .
  show "map_of env' ''ISH_JIT'' = Some (if mode = ''release'' \<or> mode = ''debug'' then ''1'' else ''0'')" "map_of env' ''ISH_AOT_FAMILY'' = Some ''0''"
    using e(2) by (auto simp: look run_env_def)
qed

text \<open>
  A contract that \<open>apple.ts contract\<close> writes starts a recording on the same binary, and what the recording
  publishes is compiled by \<open>archive-apple.ts\<close>, one source for each module.
\<close>

lemma contract_starts_recording:
  assumes "write_contract binary l hash ev exists = Inr c" "pr_exit nm = 0" "\<not> pr_signal nm"
  shows "start_recording True False binary (ab_platform (ac_build c)) (contract.truncate c) hash nm = Inr (definedSymbols (pr_stdout nm))"
proof -
  obtain b where b: "appleBuildVersion binary = Inr b" "observedContract l hash b ev = Inr c"
    using assms(1) by (auto simp: write_contract_def and_then_Inr_iff split: if_splits)
  then have "c = \<lparr>ct_abi = lo_abi l, ct_prologue_words = lo_prologue_words l, ct_entry_off = lo_entry_off l,
      ct_n_pinned = lo_n_pinned l, binarySha256 = hash, arch = ''aarch64'', endian = ''little'', pointerBits = 64,
      evidence = Str ev, ac_build = b, ac_codeVersion = lo_code_version l\<rparr>" "js_trim ev \<noteq> []"
    by (auto simp: observedContract_def split: if_splits option.splits)
  moreover from this(2) have "ev \<noteq> []" by (auto simp: js_trim_def)
  ultimately show ?thesis using b(1) assms(2,3)
    by (simp add: start_recording_def matchContract_def contract_header_def contract.truncate_def checked_def)
qed

lemma published_images_archived:
  assumes r: "record_apple_main host exists binary plat c hash nm cache pid e cleanup = Inr rs"
    and sha: "\<forall>r \<in> set rs. sha_text (am_sha256 r) \<and> safe_integer (am_translations r) \<noteq> None"
    and env: "env ''TARGET_NAME'' = Some TARGET" "env ''ARCHS'' = Some ''arm64''" "env ''AOT_IMAGE_EXECUTION'' = Some ''1''"
      "\<forall>k \<in> {''SDKROOT'', ''CONFIGURATION_BUILD_DIR'', ''SRCROOT'', ''TARGET_BUILD_DIR'', ''UNLOCALIZED_RESOURCES_FOLDER_PATH'', ''AOT_IMAGES_DIR''}.
         env k \<noteq> None \<and> env k \<noteq> Some []" "env ''PLATFORM_NAME'' = Some ''iphoneos''"
  shows "archive_sources env (Inr (''apple-bun-images'', ''macho'', ''ios'', Some rs)) =
    Inr (''ios'', map (\<lambda>m. ''aot_'' @ fst m @ ''.S'') appleModules)"
proof -
  obtain syms where "record_apple e c hash syms = Inr rs" using r by (auto simp: record_apple_main_def and_then_Inr_iff split: if_splits)
  from apple_recording_validates [OF this sha] have "validateAppleModules (Some rs) = Inr appleModules" .
  then show ?thesis using env by (auto simp: archive_sources_def Let_def)
qed

lemma compile_sources_objects:
  "compile_sources exec env objects i ss = Inr os \<Longrightarrow> os = map (\<lambda>k. objects @ ''/image-'' @ decimal k @ ''.o'') [i..<i + length ss]"
proof (induction ss arbitrary: i os)
  case (Cons source ss)
  then have "\<exists>os'. os = (objects @ ''/image-'' @ decimal i @ ''.o'') # os' \<and> compile_sources exec env objects (Suc i) ss = Inr os'"
    by (auto simp: and_then_Inr_iff Let_def)
  moreover have "[i..<i + length (source # ss)] = i # [Suc i..<Suc i + length ss]" by (subst upt_conv_Cons) simp_all
  ultimately show ?case using Cons.IH [of "Suc i"] by (auto simp del: upt_Suc)
qed simp

end
