(* ===== verification/Spec2Isabelle.thy ===== *)
theory Spec2Isabelle
  imports Llhttp_Chunked Xterm_Bridge Term_Bridge_Props Gw_Forward Gw_Png Gw_Detector Gw_Input_Props
    Gw_Selection_Props Gw_Fit Gw_Wrapper_Pool Gw_Webgl_View_Props
    Gw_Box_Props Gw_Kitty_Props Gw_Canvas_Frame Gw_Hover_Props Gw_Shader_Props Gw_Loader Aot_Apple_Props Aot_Commands
begin

text \<open>
  Verification library for the JavaScript and TypeScript part of ios-linuxkit, a port of the ish
  Linux emulator. The application shows a terminal in a web view, patches the guest's root file
  system with JavaScript replacements for native modules, and has a tool kit that seals and checks
  ahead-of-time compiled artifacts. File names below are under \<open>src/\<close>.

  \<^bold>\<open>The parts and their theories.\<close>

  \<^item> \<open>Js_Prelude\<close>, \<open>Js_Object\<close>: shared facts, exceptions as the left summand of \<open>result\<close>, JavaScript
    values, objects, strings of 16-bit units and numbers.
  \<^item> \<open>Wasm_Memory\<close>, \<open>Llhttp\<close>, \<open>Llhttp_Inv\<close>, \<open>Llhttp_Props\<close>, \<open>Llhttp_Body\<close>, \<open>Llhttp_Chunked\<close>:
    \<open>app/RootfsPatch.bundle/files/lib/wasm-polyfill.js\<close>, a WebAssembly replacement that implements
    undici's HTTP response parser. The memory and its bump allocator (C1), every case of the
    parser's switch and the loop around it, the parser table and entry points. Shown: the loop
    returns (C3), the invariants of all reachable states, bounds of the reported slices, return
    codes (C4 to C6) and handles, and that identity bodies, chunked bodies and header blocks are
    recovered from their encodings (C10 and the theorems on bodies and responses). The callbacks are a parameter. The loop has fuel: the
    bound of \<open>llhttp_execute\<close> is shown to be enough for every input.
  \<^item> \<open>Gw_Color\<close>, \<open>Gw_Core\<close>, \<open>Gw_Terminal\<close>, \<open>Gw_Scroll_Props\<close>, \<open>Gw_Terminal_Props\<close>:
    \<open>app/terminal/ghostty-web.js\<close>, class \<open>Terminal\<close> with its colours, its wrapper of the compiled
    core, scrolling, rendering requests and life cycle (C13 to C17). The core is the type variable \<open>'w\<close>
    with a record of its exports.
  \<^item> \<open>Gw_Forward\<close> (the embedded forwarder modules, decoded and executed, C26), \<open>Gw_Png\<close> (expansion of
    PNG samples), \<open>Gw_Buffer\<close> (buffer, line and cell interface, C28).
  \<^item> \<open>Wasm_Account\<close>, \<open>Gw_Wrapper\<close>, \<open>Gw_Wrapper_Props\<close>, \<open>Gw_Wrapper_Ctor\<close>, \<open>Gw_Wrapper_Pool\<close>: the same
    wrapper of the core call by call (class \<open>Dg\<close>): constructor, callbacks, configuration, render
    state, viewport, lines, graphemes, hyperlinks and kitty graphics over the exports of the core.
    The contract \<open>wrapped_memory\<close> is what the accounting of buffers needs of a memory that is part of
    a larger object; the object is its instance. Shown: no method leaks or frees twice (C20), the
    constructor cleans up after every failure and \<open>free\<close> releases what it made (C29), and the cell pool
    stays well-formed (C11). The loops of \<open>markClean\<close> and \<open>iterPlacements\<close> run until the core says stop
    and have fuel; the other loops are bounded by the grid.
  \<^item> \<open>Gw_Links\<close>, \<open>Gw_Links_Props\<close>, \<open>Gw_Detector\<close>: OSC 8 and URL links and the caching link detector.
    The contracts \<open>link_source\<close> and \<open>link_sources\<close> are what the detector needs of its providers; both
    providers of the source are instances (C30 to C32).
  \<^item> \<open>Wasm_Calls\<close>, \<open>Gw_Keys\<close>, \<open>Gw_Input\<close>, \<open>Gw_Input_Props\<close>: a monad of calls into a WebAssembly
    instance with an account of what was borrowed, the key encoder (C33), and the input handler with
    its de-duplication of text events and its mouse reports (C34, C35).
  \<^item> \<open>Gw_Selection\<close>, \<open>Gw_Selection_Props\<close> (the selection manager, C36, C37) and \<open>Gw_Fit\<close> (the fit
    addon, which gives the largest grid that fits).
  \<^item> \<open>Gw_Hover\<close>, \<open>Gw_Hover_Props\<close>: the mouse handlers of \<open>Terminal\<close> that show and open links, with the
    lookups of the detector as questions that are answered later, in any order, and the methods that
    pass on to selection manager and renderer. Shown: the last question wins, and the hovered link, its
    hover method, the pointer and the underlined cells agree (C38).
  \<^item> \<open>Gw_Loader\<close>: loading the compiled core from a path, bytes or a response, the places tried without a path,
    and the module's own instance.
  \<^item> \<open>Gw_Atlas\<close>, \<open>Gw_Atlas_Pages\<close>, \<open>Gw_Atlas_Props\<close>, \<open>Gw_Atlas_Cache\<close>: the glyph atlas of the WebGL
    renderer (class \<open>hB\<close>): shelves, textures, the cache with eviction and repacking. The contract
    \<open>packed_page\<close> is what a packer must promise for pictures to stay intact; the shelves are its
    instance. Shown: the pictures of cached glyphs are intact in every reachable atlas (C7), and a
    lookup answers with the right glyph and evicts only the least recently used. The eviction
    loop terminates because each round removes a glyph.
  \<^item> \<open>Gw_Cells\<close>, \<open>Gw_Cells_Props\<close>: the cell buffer (class \<open>KA\<close>), 32 bytes a cell, written and uploaded
    by rows. Shown: the shaders' attributes read back what each cell should look like (C27).
  \<^item> \<open>Gw_Webgl\<close>, \<open>Gw_Webgl_Props\<close>, \<open>Gw_Webgl_View\<close>, \<open>Gw_Webgl_View_Props\<close>: the WebGL renderer (class
    \<open>lB\<close>) with its resources, context losses and frames, and the view over it (class \<open>_A\<close>) that
    collects what a frame shows. Shown: frames are drawn completely and the scrollbar is where the
    terminal looks for it (C8); the frame shows the lines of the buffer the user has scrolled to, with
    the selection of the selection manager (C18).
  \<^item> \<open>Gw_Shader\<close>, \<open>Gw_Shader_Props\<close>: the shaders of the renderer as functions on exact numbers, run over the
    buffer of cells for one pixel of the canvas: coverage of quads, interpolation, blending. Shown: a pixel has
    the background of its cell (C23), glyphs are drawn unscaled from their rectangle of the atlas,
    rectangles are where they are asked for, and which underlines are lost.
  \<^item> \<open>Gw_Box\<close>, \<open>Gw_Box_Props\<close>: the characters the canvas renderer draws itself, as rectangles and outlines
    in a cell. Shown: block elements fill exactly what they stand for (C9), and lines of neighbouring
    box characters connect (C12).
  \<^item> \<open>Gw_Kitty\<close>, \<open>Gw_Kitty_Props\<close>: kitty graphics on the canvas: placements, the rows they damage,
    decoding and caching of images, placeholder cells. Shown: a row that is not damaged shows what it
    showed (C21), and decoded pictures have four bytes a pixel.
  \<^item> \<open>Gw_Canvas\<close>, \<open>Gw_Canvas_Props\<close>, \<open>Gw_Canvas_Frame\<close>: the renderer on a 2D canvas (class \<open>jA\<close>), with the
    canvas kept as the draws made in each row since it was cleared. Shown: frames that repaint only the
    touched rows leave the canvas as a full repaint would, one frame after the other (C22, for a
    buffer without kitty graphics). \<open>continues\<close> says what a frame relies on between two frames.
  \<^item> \<open>Term_Style\<close>, \<open>Term_Bridge\<close>, \<open>Term_Bridge_Props\<close>: \<open>app/terminal/term.js\<close>, the bridge between the
    native host and the Ghostty terminal: styles and fonts, coalesced frames (contract
    \<open>frame_coalescer\<close>), scroll geometry (C19), fitting and themes. \<open>Xterm_Bridge\<close>:
    \<open>app/terminal/xterm-term-bridge.js\<close>, the same over the xterm library, a parameter (C25).
  \<^item> \<open>Aot_Kit\<close>, \<open>Aot_Kit_Props\<close>: \<open>tools/jit_aot/kit.ts\<close>, sealing and verifying artifact directories
    and the checks of paths, module sets and contracts (C39, C40). The hash is a parameter.
  \<^item> \<open>Aot_Apple\<close>, \<open>Aot_Apple_Props\<close>: \<open>tools/jit_aot/apple.ts\<close> and \<open>apple-modules.ts\<close>. The build version of a
    Mach-O file is read from exactly the files whose load commands fill their area and hold one
    build version (C24); the table of defined symbols, the search for emitters, the contract of an
    observed layout and what an inspected build ensures.
  \<^item> \<open>Aot_Record\<close>, \<open>Aot_Record_Props\<close>: what \<open>targeted.ts\<close> and \<open>record-apple.ts\<close> take from a recorder and publish,
    and what \<open>kit.ts\<close> and \<open>archive-apple.ts\<close> ask of it. What the one publishes the other accepts (C2, and the
    theorem on the modules for Apple).
  \<^item> \<open>Aot_Commands\<close>: the commands of \<open>kit.ts\<close>, \<open>apple.ts\<close>, \<open>record-apple.ts\<close> and \<open>archive-apple.ts\<close> with their checks in order; a
    program they run is a parameter, its exit code, signal and output. Shown: what a seed, a pending
    build and a run ensure, and that a contract starts a recording whose images are archived.

  \<^bold>\<open>How the parts interact.\<close> The host calls the exports of a bridge; the bridge drives \<open>Terminal\<close> (or
  xterm) and posts messages back. \<open>Terminal\<close> owns a core object, an input handler that turns events
  into data for the program, a selection manager and a link detector; the latter two read rows of the
  core through the same line interface that \<open>Gw_Buffer\<close> models. A frame goes from the view, which
  reads core, history and selection, through the renderer and the cell buffer, which asks the atlas
  for glyphs, to the buffer the shaders read; where there is no WebGL, the canvas renderer reads the
  same screen, history and selection and paints rows.

  \<^bold>\<open>Conventions.\<close> A handler is a function on the state record of its class; callbacks, messages and DOM
  effects are lists in the state, in order. Timers and animation frames are flags that a separate
  definition fires. Pixel lengths and times are rational numbers, counts are natural numbers or
  integers, and words are used for code units and bytes. Loops are structural or have a measure; the
  wrapping loop of \<open>select\<close> may run forever and is a partial function shown to return on every
  grid with columns.

  \<^bold>\<open>Not modelled.\<close> Compiling and linking shaders and the rounding of their numbers; how the browser measures and draws text, which is a parameter
  with the documented size of its results; the promise scheduling of the link detector,
  whose methods are run from one end to the other (the order of their answers is modelled);
  focus and custom event handlers of \<open>Terminal\<close>;
  the vendored xterm files and the PNG decoder's bindings, which are third-party code; the programs that the AOT
  tools run (\<open>git\<close>, \<open>tar\<close>, \<open>nm\<close>, \<open>meson\<close>, the recorder and the generator), the copying of files between their steps, and
  the Python scripts; the emulator and the application themselves, which are C, assembly and Objective-C.

  \<^bold>\<open>What is left.\<close> Of the JavaScript of the repository: the compiling of shaders and the loading of fonts, which are
  calls of the browser only, and focus and custom event handlers of \<open>Terminal\<close>.
\<close>

end
